(* ===== verification/DPMS_Prelude.thy ===== *)
theory DPMS_Prelude
  imports Complex_Main "HOL-Library.Char_ord" "HOL-Library.List_Lexorder"
begin

text \<open>
  Shared vocabulary of the development: results that may be an error (a raised exception is
  \<open>Inl\<close>), reachability of a step relation with the invariant rule every state machine below
  uses, tables (lists of rows) with their guarded updates, and the generic list lemmas.
\<close>

named_theorems table_simps \<open>facts about row updates of a table\<close>
named_theorems step_defs \<open>definitions unfolded when a step of a state machine is analysed\<close>

section \<open>Results\<close>

type_synonym ('e, 'a) result = "'e + 'a"

text \<open>Sequencing: the first error stops the computation, as an exception does.\<close>

fun rbind :: "('e, 'a) result \<Rightarrow> ('a \<Rightarrow> ('e, 'b) result) \<Rightarrow> ('e, 'b) result" where
  "rbind (Inl e) f = Inl e"
| "rbind (Inr x) f = f x"

fun rmap :: "('a \<Rightarrow> 'b) \<Rightarrow> ('e, 'a) result \<Rightarrow> ('e, 'b) result" where
  "rmap f (Inl e) = Inl e"
| "rmap f (Inr x) = Inr (f x)"

text \<open>A loop over a list whose body may raise.\<close>

fun rmapM :: "('a \<Rightarrow> ('e, 'b) result) \<Rightarrow> 'a list \<Rightarrow> ('e, 'b list) result" where
  "rmapM f [] = Inr []"
| "rmapM f (x # xs) = rbind (f x) (\<lambda>y. rmap ((#) y) (rmapM f xs))"

lemma rbind_eq_Inr: "rbind r f = Inr y \<longleftrightarrow> (\<exists>x. r = Inr x \<and> f x = Inr y)"
  by (cases r) auto

lemma rbind_eq_Inl: "rbind r f = Inl e \<longleftrightarrow> r = Inl e \<or> (\<exists>x. r = Inr x \<and> f x = Inl e)"
  by (cases r) auto

lemma rmap_eq_Inr: "rmap f r = Inr y \<longleftrightarrow> (\<exists>x. r = Inr x \<and> y = f x)"
  by (cases r) auto

lemma rmap_eq_Inl [simp]: "rmap f r = Inl e \<longleftrightarrow> r = Inl e"
  by (cases r) auto

lemmas result_eqs = rbind_eq_Inr rbind_eq_Inl rmap_eq_Inr

lemma rmapM_length: "rmapM f xs = Inr ys \<Longrightarrow> length ys = length xs"
  by (induction xs arbitrary: ys) (auto simp: result_eqs)

section \<open>Reachable states\<close>

text \<open>
  The states a system can be in: an initial one, or the result of a step from a reachable one.
  The label of a step is the operation that made it.
\<close>

inductive reachable :: "('s \<Rightarrow> bool) \<Rightarrow> ('s \<Rightarrow> 'e \<Rightarrow> 's \<Rightarrow> bool) \<Rightarrow> 's \<Rightarrow> bool"
  for init :: "'s \<Rightarrow> bool" and step :: "'s \<Rightarrow> 'e \<Rightarrow> 's \<Rightarrow> bool" where
  reach_init: "init s \<Longrightarrow> reachable init step s"
| reach_step: "reachable init step s \<Longrightarrow> step s e t \<Longrightarrow> reachable init step t"

text \<open>
  The contract of an invariant: it holds initially and every operation keeps it. Each state
  machine of the development interprets this locale on its own initial states and steps.
\<close>

locale invariant_system =
  fixes init :: "'s \<Rightarrow> bool"
    and step :: "'s \<Rightarrow> 'e \<Rightarrow> 's \<Rightarrow> bool"
    and inv :: "'s \<Rightarrow> bool"
  assumes inv_init: "init s \<Longrightarrow> inv s"
    and inv_step: "inv s \<Longrightarrow> step s e t \<Longrightarrow> inv t"
begin

lemma inv_reachable: "reachable init step s \<Longrightarrow> inv s"
  by (induction rule: reachable.induct) (auto intro: inv_init inv_step)

end

section \<open>Tables\<close>

text \<open>
  A table is the list of its rows. \<open>UPDATE t SET f WHERE p\<close> rewrites every row that satisfies
  \<open>p\<close>; its row count is the number of such rows.
\<close>

definition update_where :: "('r \<Rightarrow> bool) \<Rightarrow> ('r \<Rightarrow> 'r) \<Rightarrow> 'r list \<Rightarrow> 'r list" where
  "update_where p f rows = map (\<lambda>r. if p r then f r else r) rows"

definition row_count :: "('r \<Rightarrow> bool) \<Rightarrow> 'r list \<Rightarrow> nat" where
  "row_count p rows = length (filter p rows)"

lemma update_where_Nil [simp]: "update_where p f [] = []"
  by (simp add: update_where_def)

lemma update_where_Cons [simp]:
  "update_where p f (r # rs) = (if p r then f r else r) # update_where p f rs"
  by (simp add: update_where_def)

lemma update_where_append [simp]:
  "update_where p f (xs @ ys) = update_where p f xs @ update_where p f ys"
  by (simp add: update_where_def)

lemma length_update_where [simp]: "length (update_where p f rows) = length rows"
  by (simp add: update_where_def)

lemma set_update_where [table_simps]:
  "set (update_where p f rows) = {f r |r. r \<in> set rows \<and> p r} \<union> {r \<in> set rows. \<not> p r}"
  by (auto simp: update_where_def)

lemma map_update_where_same [table_simps]:
  "(\<And>r. r \<in> set rows \<Longrightarrow> p r \<Longrightarrow> k (f r) = k r) \<Longrightarrow> map k (update_where p f rows) = map k rows"
  by (induction rows) auto

lemma update_where_none: "(\<And>r. r \<in> set rows \<Longrightarrow> \<not> p r) \<Longrightarrow> update_where p f rows = rows"
  by (induction rows) auto

lemma in_update_whereE:
  assumes "r \<in> set (update_where p f rows)"
  obtains (changed) r0 where "r0 \<in> set rows" "p r0" "r = f r0"
  | (same) "r \<in> set rows" "\<not> p r"
  using assms by (auto simp: update_where_def split: if_splits)

lemma update_where_all:
  "\<forall>r \<in> set rows. P r \<Longrightarrow> (\<And>r. p r \<Longrightarrow> P r \<Longrightarrow> P (f r)) \<Longrightarrow> \<forall>r \<in> set (update_where p f rows). P r"
  by (auto simp: update_where_def)

text \<open>\<open>SELECT \<dots> LIMIT 1\<close>: the first row that satisfies the condition.\<close>

definition fetch_one :: "('r \<Rightarrow> bool) \<Rightarrow> 'r list \<Rightarrow> 'r option" where
  "fetch_one p rows = find p rows"

lemma fetch_one_SomeD: "fetch_one p rows = Some r \<Longrightarrow> r \<in> set rows \<and> p r"
  by (auto simp: fetch_one_def find_Some_iff)

lemma fetch_one_None: "fetch_one p rows = None \<longleftrightarrow> (\<forall>r \<in> set rows. \<not> p r)"
  by (auto simp: fetch_one_def find_None_iff)

lemma fetch_one_unique:
  assumes "distinct (map k rows)" "r \<in> set rows" "p r"
    and "\<And>r'. r' \<in> set rows \<Longrightarrow> p r' \<Longrightarrow> k r' = k r"
  shows "fetch_one p rows = Some r"
proof -
  have "fetch_one p rows \<noteq> None"
    using assms(2,3) by (auto simp: fetch_one_None)
  then obtain r' where f: "fetch_one p rows = Some r'" by blast
  then have "r' \<in> set rows" "p r'" by (auto dest: fetch_one_SomeD)
  then have "k r' = k r" by (rule assms(4))
  with assms(1,2) \<open>r' \<in> set rows\<close> have "r' = r" by (auto simp: distinct_map inj_on_def)
  with f show ?thesis by simp
qed

section \<open>Lists\<close>

lemma distinct_map_eqD:
  "distinct (map k xs) \<Longrightarrow> x \<in> set xs \<Longrightarrow> y \<in> set xs \<Longrightarrow> k x = k y \<Longrightarrow> x = y"
  by (auto simp: distinct_map inj_on_def)

lemma length_filter_le1:
  "length (filter p xs) \<le> 1 \<Longrightarrow> i < length xs \<Longrightarrow> j < length xs \<Longrightarrow> p (xs ! i) \<Longrightarrow> p (xs ! j) \<Longrightarrow> i = j"
proof (rule ccontr)
  assume a: "length (filter p xs) \<le> 1" "i < length xs" "j < length xs" "p (xs ! i)" "p (xs ! j)" "i \<noteq> j"
  then have "{i, j} \<subseteq> {k. k < length xs \<and> p (xs ! k)}" by auto
  then have "card {i, j} \<le> card {k. k < length xs \<and> p (xs ! k)}" by (intro card_mono) auto
  with a show False by (simp add: length_filter_conv_card)
qed

text \<open>The first occurrence of each element is kept: \<open>list(dict.fromkeys(xs))\<close>.\<close>

fun dedupe :: "'a list \<Rightarrow> 'a list" where
  "dedupe [] = []"
| "dedupe (x # xs) = x # filter (\<lambda>y. y \<noteq> x) (dedupe xs)"

lemma set_dedupe [simp]: "set (dedupe xs) = set xs"
  by (induction xs) auto

lemma distinct_dedupe [simp]: "distinct (dedupe xs)"
  by (induction xs) auto

end
