(* ===== verification/PyValue.thy ===== *)
theory PyValue
  imports DPMS_Prelude
begin

text \<open>
  The dynamic values the Python code computes with (decoded JSON, keyword dictionaries, rows)
  and the built-in operations it applies to them: truth value, \<open>dict.get\<close>, \<open>==\<close>, hashing,
  \<open>int()\<close>, \<open>str.strip\<close>, \<open>str.lower\<close> and \<open>str.casefold\<close>. A string is the list of its
  characters; case folding and white space are those of the ASCII range. A finite float is its
  exact (rational) value: it is compared, tested for truth and truncated, never rounded.
\<close>

section \<open>Strings\<close>

definition is_space :: "char \<Rightarrow> bool" where
  "is_space c \<longleftrightarrow> (let n = (of_char c :: nat) in (9 \<le> n \<and> n \<le> 13) \<or> (28 \<le> n \<and> n \<le> 32))"

definition lstrip :: "string \<Rightarrow> string" where
  "lstrip s = dropWhile is_space s"

definition strip :: "string \<Rightarrow> string" where
  "strip s = rev (dropWhile is_space (rev (lstrip s)))"

definition lower_char :: "char \<Rightarrow> char" where
  "lower_char c = (let n = (of_char c :: nat) in if 65 \<le> n \<and> n \<le> 90 then char_of (n + 32) else c)"

definition lower :: "string \<Rightarrow> string" where
  "lower s = map lower_char s"

abbreviation casefold :: "string \<Rightarrow> string" where
  "casefold \<equiv> lower"

definition starts_with :: "string \<Rightarrow> string \<Rightarrow> bool" where
  "starts_with s p \<longleftrightarrow> take (length p) s = p"

fun contains_sub :: "string \<Rightarrow> string \<Rightarrow> bool" where
  "contains_sub [] p \<longleftrightarrow> p = []"
| "contains_sub (c # s) p \<longleftrightarrow> starts_with (c # s) p \<or> contains_sub s p"

text \<open>\<open>str.split(sep)\<close> with a one-character separator: always at least one piece.\<close>

fun split_on :: "char \<Rightarrow> string \<Rightarrow> string list" where
  "split_on d [] = [[]]"
| "split_on d (c # s) = (if c = d then [] # split_on d s
     else (case split_on d s of [] \<Rightarrow> [[c]] | w # ws \<Rightarrow> (c # w) # ws))"

lemma dropWhile_idem: "dropWhile p (dropWhile p xs) = dropWhile p xs"
  by (induction xs) auto

lemma lstrip_rev_dropWhile:
  "dropWhile is_space xs = xs \<Longrightarrow> dropWhile is_space (rev (dropWhile is_space (rev xs))) = rev (dropWhile is_space (rev xs))"
proof -
  assume a: "dropWhile is_space xs = xs"
  obtain zs where z: "xs = rev (dropWhile is_space (rev xs)) @ zs"
    by (metis append_take_drop_id dropWhile_eq_drop rev_append rev_rev_ident)
  show ?thesis
  proof (cases "rev (dropWhile is_space (rev xs))")
    case (Cons y ys)
    with z obtain ws where "xs = y # ws" by auto
    with a have "\<not> is_space y" by (metis dropWhile.simps(2) dropWhile_eq_Cons_conv list.inject)
    with Cons show ?thesis by simp
  next
    case Nil
    show ?thesis by (simp only: Nil dropWhile.simps)
  qed
qed

lemma strip_idem [simp]: "strip (strip s) = strip s"
  unfolding strip_def lstrip_def
  by (simp add: lstrip_rev_dropWhile dropWhile_idem)

lemma lower_char_idem: "lower_char (lower_char c) = lower_char c"
  by (auto simp: lower_char_def Let_def)

lemma lower_idem [simp]: "lower (lower s) = lower s"
  by (simp add: lower_def lower_char_idem)

section \<open>Values\<close>

datatype pyval = PNone | PBool bool | PInt int | PFloat rat | PStr string
  | PList "pyval list" | PDict "(string \<times> pyval) list"

type_synonym pydict = "(string \<times> pyval) list"

text \<open>The exceptions the built-ins raise on these values.\<close>

datatype py_error = TypeError | ValueError | AttributeError

fun truthy :: "pyval \<Rightarrow> bool" where
  "truthy PNone = False"
| "truthy (PBool b) = b"
| "truthy (PInt i) = (i \<noteq> 0)"
| "truthy (PFloat q) = (q \<noteq> 0)"
| "truthy (PStr s) = (s \<noteq> [])"
| "truthy (PList xs) = (xs \<noteq> [])"
| "truthy (PDict d) = (d \<noteq> [])"

text \<open>\<open>v or d\<close>.\<close>

definition py_or :: "pyval \<Rightarrow> pyval \<Rightarrow> pyval" where
  "py_or v d = (if truthy v then v else d)"

fun is_dict :: "pyval \<Rightarrow> bool" where
  "is_dict (PDict _) = True"
| "is_dict _ = False"

text \<open>\<open>isinstance(v, int)\<close>: a bool is an int. \<open>int_of v\<close> is its integer value.\<close>

fun int_of :: "pyval \<Rightarrow> int option" where
  "int_of (PInt i) = Some i"
| "int_of (PBool b) = Some (if b then 1 else 0)"
| "int_of _ = None"

fun hashable :: "pyval \<Rightarrow> bool" where
  "hashable (PList _) = False"
| "hashable (PDict _) = False"
| "hashable _ = True"

text \<open>
  \<open>==\<close>: numbers compare by value whatever their type, dictionaries regardless of the order of
  their keys. Both sides are brought to one canonical form.
\<close>

fun canon :: "pyval \<Rightarrow> pyval" where
  "canon (PBool b) = PFloat (if b then 1 else 0)"
| "canon (PInt i) = PFloat (of_int i)"
| "canon (PList xs) = PList (map canon xs)"
| "canon (PDict d) = PDict (sort_key fst (map (\<lambda>kv. (fst kv, canon (snd kv))) d))"
| "canon v = v"

definition py_eq :: "pyval \<Rightarrow> pyval \<Rightarrow> bool" where
  "py_eq a b \<longleftrightarrow> canon a = canon b"

lemma py_eq_refl [simp]: "py_eq a a"
  by (simp add: py_eq_def)

lemma py_eq_sym: "py_eq a b \<Longrightarrow> py_eq b a"
  by (simp add: py_eq_def)

lemma py_eq_trans: "py_eq a b \<Longrightarrow> py_eq b c \<Longrightarrow> py_eq a c"
  by (simp add: py_eq_def)

lemma canon_eq_PStr [simp]: "canon v = PStr s \<longleftrightarrow> v = PStr s"
  by (cases v) auto

lemma py_eq_PStr [simp]: "py_eq (PStr s) v \<longleftrightarrow> v = PStr s" "py_eq v (PStr s) \<longleftrightarrow> v = PStr s"
  by (auto simp: py_eq_def dest: sym)

text \<open>\<open>d.get(k)\<close> and \<open>d.get(k, default)\<close> on a dictionary with string keys.\<close>

definition dget :: "pydict \<Rightarrow> string \<Rightarrow> pyval" where
  "dget d k = (case map_of d k of None \<Rightarrow> PNone | Some v \<Rightarrow> v)"

definition dget_default :: "pydict \<Rightarrow> string \<Rightarrow> pyval \<Rightarrow> pyval" where
  "dget_default d k v = (case map_of d k of None \<Rightarrow> v | Some w \<Rightarrow> w)"

lemma dget_simps [simp]:
  "dget [] k = PNone" "dget ((k', v) # d) k = (if k' = k then v else dget d k)"
  by (simp_all add: dget_def)

lemma dget_default_simps [simp]:
  "dget_default [] k w = w" "dget_default ((k', v) # d) k w = (if k' = k then v else dget_default d k w)"
  by (simp_all add: dget_default_def)

text \<open>\<open>obj.get(key)\<close> with nothing known of either: no attribute, or an unhashable key.\<close>

fun py_get :: "pyval \<Rightarrow> pyval \<Rightarrow> (py_error, pyval) result" where
  "py_get (PDict d) (PStr k) = Inr (dget d k)"
| "py_get (PDict d) k = (if hashable k then Inr PNone else Inl TypeError)"
| "py_get _ _ = Inl AttributeError"

lemma py_get_InrD: "py_get v k = Inr w \<Longrightarrow> truthy w \<Longrightarrow> \<exists>d s. v = PDict d \<and> k = PStr s \<and> w = dget d s"
  by (cases "(v, k)" rule: py_get.cases) (auto split: if_splits)

section \<open>\<open>int()\<close>\<close>

definition digit_of :: "char \<Rightarrow> nat option" where
  "digit_of c = (let n = (of_char c :: nat) in if 48 \<le> n \<and> n \<le> 57 then Some (n - 48) else None)"

text \<open>Digits, with single underscores between them; \<open>us\<close>: the last character was one.\<close>

fun parse_digits :: "nat \<Rightarrow> bool \<Rightarrow> string \<Rightarrow> nat option" where
  "parse_digits acc us [] = (if us then None else Some acc)"
| "parse_digits acc us (c # s) = (case digit_of c of
     Some n \<Rightarrow> parse_digits (10 * acc + n) False s
   | None \<Rightarrow> if c = CHR ''_'' \<and> \<not> us then parse_digits acc True s else None)"

definition parse_nat :: "string \<Rightarrow> nat option" where
  "parse_nat s = (case s of [] \<Rightarrow> None | c # r \<Rightarrow>
     (case digit_of c of None \<Rightarrow> None | Some n \<Rightarrow> parse_digits n False r))"

definition parse_int :: "string \<Rightarrow> int option" where
  "parse_int s = (case strip s of [] \<Rightarrow> None | c # r \<Rightarrow>
     if c = CHR ''-'' then map_option (\<lambda>n. - int n) (parse_nat r)
     else if c = CHR ''+'' then map_option int (parse_nat r)
     else map_option int (parse_nat (c # r)))"

fun py_int :: "pyval \<Rightarrow> (py_error, int) result" where
  "py_int (PInt i) = Inr i"
| "py_int (PBool b) = Inr (if b then 1 else 0)"
| "py_int (PFloat q) = Inr (if q \<ge> 0 then \<lfloor>q\<rfloor> else \<lceil>q\<rceil>)"
| "py_int (PStr s) = (case parse_int s of None \<Rightarrow> Inl ValueError | Some i \<Rightarrow> Inr i)"
| "py_int _ = Inl TypeError"

text \<open>\<open>_as_int(value, default)\<close>: the value, or the default when the conversion fails.\<close>

definition as_int :: "pyval \<Rightarrow> int \<Rightarrow> int" where
  "as_int v d = (case py_int v of Inl _ \<Rightarrow> d | Inr i \<Rightarrow> i)"

lemma as_int_PInt [simp]: "as_int (PInt i) d = i"
  by (simp add: as_int_def)

lemma as_int_PNone [simp]: "as_int PNone d = d"
  by (simp add: as_int_def)

section \<open>\<open>str()\<close>\<close>

definition digit_char :: "nat \<Rightarrow> char" where
  "digit_char n = char_of (48 + n mod 10)"

fun nat_str :: "nat \<Rightarrow> string" where
  "nat_str n = (if n < 10 then [digit_char n] else nat_str (n div 10) @ [digit_char n])"

declare nat_str.simps [simp del]

definition int_str :: "int \<Rightarrow> string" where
  "int_str i = (if i < 0 then CHR ''-'' # nat_str (nat (- i)) else nat_str (nat i))"

text \<open>The text of a float or a container is the argument \<open>rp\<close>: nothing depends on it.\<close>

fun py_str :: "(pyval \<Rightarrow> string) \<Rightarrow> pyval \<Rightarrow> string" where
  "py_str rp (PStr s) = s"
| "py_str rp PNone = ''None''"
| "py_str rp (PBool b) = (if b then ''True'' else ''False'')"
| "py_str rp (PInt i) = int_str i"
| "py_str rp v = rp v"

text \<open>\<open>str(v or "").strip().casefold()\<close>, the normalisation the code applies to every token.\<close>

definition norm_token :: "(pyval \<Rightarrow> string) \<Rightarrow> pyval \<Rightarrow> string" where
  "norm_token rp v = casefold (strip (py_str rp (py_or v (PStr ''''))))"

text \<open>\<open>str(v or "").strip().lower()\<close> of a value that is a string or missing.\<close>

definition norm_str :: "string \<Rightarrow> string" where
  "norm_str s = lower (strip s)"

lemma is_space_lower_char [simp]: "is_space (lower_char c) = is_space c"
  by (auto simp: is_space_def lower_char_def Let_def)

lemma dropWhile_lower: "dropWhile is_space (map lower_char s) = map lower_char (dropWhile is_space s)"
  by (induction s) auto

lemma strip_lower: "strip (lower s) = lower (strip s)"
  by (simp add: strip_def lstrip_def lower_def dropWhile_lower rev_map)

lemma norm_str_idem [simp]: "norm_str (norm_str s) = norm_str s"
  by (simp add: norm_str_def strip_lower)

lemma norm_token_idem [simp]: "lower (strip (norm_token rp v)) = norm_token rp v"
  by (simp add: norm_token_def strip_lower)

section \<open>Ordered dictionaries with arbitrary hashable keys\<close>

fun od_get :: "(pyval \<times> 'v) list \<Rightarrow> pyval \<Rightarrow> 'v option" where
  "od_get [] k = None"
| "od_get ((k', v) # d) k = (if py_eq k' k then Some v else od_get d k)"

text \<open>Assignment keeps the place and the key object of an existing entry.\<close>

fun od_set :: "(pyval \<times> 'v) list \<Rightarrow> pyval \<Rightarrow> 'v \<Rightarrow> (pyval \<times> 'v) list" where
  "od_set [] k v = [(k, v)]"
| "od_set ((k', w) # d) k v = (if py_eq k' k then (k', v) # d else (k', w) # od_set d k v)"

lemma od_get_set: "od_get (od_set d k v) k' = (if py_eq k k' then Some v else od_get d k')"
proof (induction d)
  case (Cons kv d)
  then show ?case
    by (cases kv) (auto dest: py_eq_sym py_eq_trans)
qed simp

lemma od_get_cong: "py_eq k k' \<Longrightarrow> od_get d k = od_get d k'"
  by (induction d) (auto simp: py_eq_def)

lemma od_get_in: "od_get d k = Some v \<Longrightarrow> \<exists>k'. (k', v) \<in> set d \<and> py_eq k' k"
  by (induction d k rule: od_get.induct) (auto split: if_splits)

lemma od_get_None: "od_get d k = None \<longleftrightarrow> (\<forall>kv \<in> set d. \<not> py_eq (fst kv) k)"
  by (induction d k rule: od_get.induct) auto

end
