(* ===== verification/Policy.thy ===== *)
theory Policy
  imports PyValue
begin

text \<open>
  The versioned policy objects of the governance runtime (\<open>core/app/governance/policy.py\<close>): a
  policy is a dictionary with a list of gates; it is validated before it is stored, overlaid
  with the mandatory real-run gates when it is read, evaluated against evidence into a decision
  and replayed later. Policies are decoded JSON, so gates may be malformed in any way: a policy
  is a dictionary of arbitrary values, and an unhashable gate code raises \<open>TypeError\<close> where
  Python would.
\<close>

section \<open>The mandatory gates\<close>

definition REAL_RUN_GATE_POLICY_KEY :: string where
  "REAL_RUN_GATE_POLICY_KEY = ''real_run_gate''"

definition mk_gate :: "string \<Rightarrow> string \<Rightarrow> pydict" where
  "mk_gate code remediation =
     [(''code'', PStr code), (''required'', PBool True), (''remediation'', PStr remediation)]"

definition MANDATORY_REAL_RUN_GATES :: "pydict list" where
  "MANDATORY_REAL_RUN_GATES =
     [mk_gate ''global_real_run_enabled'' ''enable_real_run'',
      mk_gate ''circuit_breaker_closed'' ''review_breaker'',
      mk_gate ''valid_lottery_target'' ''add_target'',
      mk_gate ''action_plan_reviewed'' ''review_rule'',
      mk_gate ''calibrated_account_available'' ''add_account'',
      mk_gate ''real_adapter_enabled'' ''configure_adapter'',
      mk_gate ''recent_complete_probe'' ''probe'',
      mk_gate ''recent_shadow_run'' ''shadow_run'',
      mk_gate ''no_recent_account_risk'' ''review_risk'']"

definition MANDATORY_REAL_RUN_GATE_CODES :: "string list" where
  "MANDATORY_REAL_RUN_GATE_CODES =
     [''global_real_run_enabled'', ''circuit_breaker_closed'', ''valid_lottery_target'',
      ''action_plan_reviewed'', ''calibrated_account_available'', ''real_adapter_enabled'',
      ''recent_complete_probe'', ''recent_shadow_run'', ''no_recent_account_risk'']"

definition DEFAULT_REAL_RUN_POLICY :: pydict where
  "DEFAULT_REAL_RUN_POLICY =
     [(''policy_key'', PStr REAL_RUN_GATE_POLICY_KEY), (''version'', PInt 1),
      (''description'', PStr ''Real-run readiness gate as a versioned policy object.''),
      (''gates'', PList (map PDict MANDATORY_REAL_RUN_GATES))]"

definition default_policies :: "(string \<times> pydict) list" where
  "default_policies = [(REAL_RUN_GATE_POLICY_KEY, DEFAULT_REAL_RUN_POLICY)]"

section \<open>Validation\<close>

datatype policy_problem = Policy_key_required | Version_must_be_positive_int
  | At_least_one_gate_required | Gate_code_required nat | Gate_codes_must_be_unique
  | Mandatory_real_run_gate_missing string | Mandatory_real_run_gate_optional string

text \<open>\<open>bool(gate.get("required", True))\<close>.\<close>

definition gate_required :: "pydict \<Rightarrow> bool" where
  "gate_required gate = truthy (dget_default gate ''required'' (PBool True))"

text \<open>The code of a gate that is an object with a truthy code.\<close>

fun usable_code :: "pyval \<Rightarrow> pyval option" where
  "usable_code (PDict gate) = (if truthy (dget gate ''code'') then Some (dget gate ''code'') else None)"
| "usable_code _ = None"

fun check_gates :: "nat \<Rightarrow> pyval list \<Rightarrow> policy_problem list \<times> pyval list" where
  "check_gates index [] = ([], [])"
| "check_gates index (gate # gates) = (case check_gates (Suc index) gates of (errors, codes) \<Rightarrow>
     (case usable_code gate of None \<Rightarrow> (Gate_code_required index # errors, codes)
      | Some code \<Rightarrow> (errors, code # codes)))"

text \<open>\<open>gates_by_code.get(code)\<close>: a later gate with the same code replaces an earlier one.\<close>

fun gate_by_code :: "pyval list \<Rightarrow> string \<Rightarrow> pydict option" where
  "gate_by_code [] code = None"
| "gate_by_code (g # gs) code = (case gate_by_code gs code of Some d \<Rightarrow> Some d
     | None \<Rightarrow> (case g of PDict d \<Rightarrow> if usable_code g = Some (PStr code) then Some d else None
                | _ \<Rightarrow> None))"

definition mandatory_problem :: "pyval list \<Rightarrow> string \<Rightarrow> policy_problem list" where
  "mandatory_problem gates code = (case gate_by_code gates code of
       None \<Rightarrow> [Mandatory_real_run_gate_missing code]
     | Some gate \<Rightarrow> if \<not> gate_required gate then [Mandatory_real_run_gate_optional code] else [])"

text \<open>\<open>set(codes)\<close> raises on an unhashable code.\<close>

definition validate_policy :: "pydict \<Rightarrow> (py_error, bool \<times> policy_problem list) result" where
  "validate_policy policy =
     (let errors1 = (if truthy (dget policy ''policy_key'') then [] else [Policy_key_required]);
          errors2 = (case int_of (dget policy ''version'') of
                       None \<Rightarrow> [Version_must_be_positive_int]
                     | Some v \<Rightarrow> if v < 1 then [Version_must_be_positive_int] else [])
      in case dget policy ''gates'' of
           PList (g # gs) \<Rightarrow>
             (case check_gates 0 (g # gs) of (errors3, codes) \<Rightarrow>
               if \<not> list_all hashable codes then Inl TypeError
               else let errors4 = (if distinct (map canon codes) then [] else [Gate_codes_must_be_unique]);
                        errors5 = (if dget policy ''policy_key'' = PStr REAL_RUN_GATE_POLICY_KEY
                                   then concat (map (mandatory_problem (g # gs)) MANDATORY_REAL_RUN_GATE_CODES)
                                   else []);
                        errors = errors1 @ errors2 @ errors3 @ errors4 @ errors5
                    in Inr (errors = [], errors))
         | _ \<Rightarrow> Inr (False, errors1 @ errors2 @ [At_least_one_gate_required]))"

section \<open>Evaluation\<close>

definition configured_gates :: "pydict \<Rightarrow> pyval list" where
  "configured_gates policy = (case dget policy ''gates'' of PList gs \<Rightarrow> gs | _ \<Rightarrow> [])"

fun dict_gates :: "pyval list \<Rightarrow> pydict list" where
  "dict_gates [] = []"
| "dict_gates (PDict g # gs) = g # dict_gates gs"
| "dict_gates (_ # gs) = dict_gates gs"

text \<open>The custom gates kept beside the mandatory ones; \<open>in\<close> on a frozenset hashes the code.\<close>

fun extra_gates :: "pydict list \<Rightarrow> (py_error, pydict list) result" where
  "extra_gates [] = Inr []"
| "extra_gates (g # gs) =
     (if \<not> truthy (dget g ''code'') then extra_gates gs
      else if \<not> hashable (dget g ''code'') then Inl TypeError
      else if dget g ''code'' \<in> PStr ` set MANDATORY_REAL_RUN_GATE_CODES then extra_gates gs
      else rmap ((#) g) (extra_gates gs))"

definition effective_policy_gates :: "pydict \<Rightarrow> (py_error, pydict list) result" where
  "effective_policy_gates policy =
     (if dget policy ''policy_key'' \<noteq> PStr REAL_RUN_GATE_POLICY_KEY
      then Inr (dict_gates (configured_gates policy))
      else rmap ((@) MANDATORY_REAL_RUN_GATES) (extra_gates (dict_gates (configured_gates policy))))"

record reason =
  reason_code :: pyval
  reason_remediation :: pyval

record decision =
  dec_policy_key :: pyval
  dec_policy_version :: pyval
  dec_outcome :: string
  dec_satisfied :: "pyval list"
  dec_failed :: "pyval list"
  dec_reasons :: "reason list"
  dec_next_action :: pyval

text \<open>The loop over the gates: satisfied codes and failed required gates, in order.\<close>

fun eval_gates :: "pyval \<Rightarrow> pydict list \<Rightarrow> (py_error, pyval list \<times> reason list) result" where
  "eval_gates inputs [] = Inr ([], [])"
| "eval_gates inputs (gate # gates) =
     rbind (py_get inputs (dget gate ''code'')) (\<lambda>present.
     rmap (\<lambda>(satisfied, failed).
       if truthy present then (dget gate ''code'' # satisfied, failed)
       else if gate_required gate then
         (satisfied, \<lparr>reason_code = dget gate ''code'',
                      reason_remediation = dget gate ''remediation''\<rparr> # failed)
       else (satisfied, failed))
     (eval_gates inputs gates))"

definition evaluate_policy :: "pydict \<Rightarrow> pyval \<Rightarrow> (py_error, decision) result" where
  "evaluate_policy policy inputs =
     rbind (effective_policy_gates policy) (\<lambda>gates.
     rmap (\<lambda>(satisfied, failed).
       \<lparr>dec_policy_key = dget policy ''policy_key'',
        dec_policy_version = dget policy ''version'',
        dec_outcome = (if failed = [] then ''allow'' else ''block''),
        dec_satisfied = satisfied,
        dec_failed = map reason_code failed,
        dec_reasons = failed,
        dec_next_action = (case failed of [] \<Rightarrow> PStr ''real_run'' | r # _ \<Rightarrow> reason_remediation r)\<rparr>)
     (eval_gates inputs gates))"

section \<open>Decision records\<close>

text \<open>The codes of the failed gates, from the \<open>reasons\<close> of a stored decision.\<close>

fun reason_codes :: "pyval list \<Rightarrow> pyval list" where
  "reason_codes [] = []"
| "reason_codes (PDict d # rs) =
     (if truthy (dget d ''code'') then dget d ''code'' # reason_codes rs else reason_codes rs)"
| "reason_codes (PStr s # rs) = PStr s # reason_codes rs"
| "reason_codes (_ # rs) = reason_codes rs"

definition reason_value :: "reason \<Rightarrow> pyval" where
  "reason_value r = PDict [(''code'', reason_code r), (''remediation'', reason_remediation r)]"

text \<open>Iterating \<open>reasons or []\<close>: a number is not iterable, a string gives its characters.\<close>

fun py_iter :: "pyval \<Rightarrow> (py_error, pyval list) result" where
  "py_iter (PList xs) = Inr xs"
| "py_iter (PStr s) = Inr (map (\<lambda>c. PStr [c]) s)"
| "py_iter (PDict d) = Inr (map (PStr \<circ> fst) d)"
| "py_iter _ = Inl TypeError"

definition gate_codes_from_reasons :: "pyval \<Rightarrow> (py_error, pyval list) result" where
  "gate_codes_from_reasons reasons = rmap reason_codes (py_iter (py_or reasons (PList [])))"

text \<open>\<open>dict(inputs)\<close> is a copy; evaluation has shown that the inputs are a dictionary.\<close>

definition build_decision_record ::
  "pydict \<Rightarrow> pydict \<Rightarrow> string \<Rightarrow> string option \<Rightarrow> (py_error, pydict) result" where
  "build_decision_record policy inputs subject_type subject_id =
     rmap (\<lambda>d.
       [(''policy_key'', dec_policy_key d), (''policy_version'', dec_policy_version d),
        (''subject_type'', PStr subject_type),
        (''subject_id'', case subject_id of None \<Rightarrow> PNone | Some i \<Rightarrow> PStr i),
        (''inputs'', PDict inputs), (''outcome'', PStr (dec_outcome d)),
        (''reasons'', PList (map reason_value (dec_reasons d))),
        (''next_action'', dec_next_action d)])
     (evaluate_policy policy (PDict inputs))"

record replay =
  rep_matches :: bool
  rep_recomputed_outcome :: string
  rep_recorded_outcome :: pyval
  rep_policy_version :: pyval
  rep_recorded_policy_version :: pyval
  rep_version_matches :: bool

definition replay_decision :: "pydict \<Rightarrow> pydict \<Rightarrow> (py_error, replay) result" where
  "replay_decision policy rec =
     rmap (\<lambda>d.
       \<lparr>rep_matches = py_eq (PStr (dec_outcome d)) (dget rec ''outcome''),
        rep_recomputed_outcome = dec_outcome d,
        rep_recorded_outcome = dget rec ''outcome'',
        rep_policy_version = dget policy ''version'',
        rep_recorded_policy_version = dget rec ''policy_version'',
        rep_version_matches = py_eq (dget policy ''version'') (dget rec ''policy_version'')\<rparr>)
     (evaluate_policy policy (dget_default rec ''inputs'' (PDict [])))"


section \<open>What evaluation decides\<close>

text \<open>Gate \<open>g\<close> has truthy evidence among the inputs.\<close>

definition gate_present :: "pyval \<Rightarrow> pydict \<Rightarrow> bool" where
  "gate_present inputs g = (case py_get inputs (dget g ''code'') of Inl _ \<Rightarrow> False | Inr v \<Rightarrow> truthy v)"

lemma eval_gates_failed:
  "eval_gates inputs gates = Inr (sat, failed) \<Longrightarrow>
   failed = map (\<lambda>g. \<lparr>reason_code = dget g ''code'', reason_remediation = dget g ''remediation''\<rparr>)
              (filter (\<lambda>g. gate_required g \<and> \<not> gate_present inputs g) gates)"
  by (induction gates arbitrary: sat failed)
     (auto simp: result_eqs gate_present_def split: if_splits)

lemma eval_gates_allow:
  "eval_gates inputs gates = Inr (sat, failed) \<Longrightarrow>
   failed = [] \<longleftrightarrow> (\<forall>g \<in> set gates. gate_required g \<longrightarrow> gate_present inputs g)"
  by (auto dest!: eval_gates_failed simp: filter_empty_conv)

lemma evaluate_policyD:
  assumes "evaluate_policy policy inputs = Inr d"
  obtains gates sat failed where "effective_policy_gates policy = Inr gates"
    "eval_gates inputs gates = Inr (sat, failed)" "dec_reasons d = failed"
    "dec_outcome d = ''allow'' \<longleftrightarrow> failed = []"
    "dec_outcome d = ''block'' \<longleftrightarrow> failed \<noteq> []"
    "dec_policy_version d = dget policy ''version''" "dec_policy_key d = dget policy ''policy_key''"
  using assms by (auto simp: evaluate_policy_def result_eqs)

lemma evaluate_policy_allow_iff:
  assumes "evaluate_policy policy inputs = Inr d" "effective_policy_gates policy = Inr gates"
  shows "dec_outcome d = ''allow'' \<longleftrightarrow> (\<forall>g \<in> set gates. gate_required g \<longrightarrow> gate_present inputs g)"
  using assms(1) by (rule evaluate_policyD) (use assms(2) in \<open>auto simp: eval_gates_allow\<close>)

lemma mandatory_gates_required: "g \<in> set MANDATORY_REAL_RUN_GATES \<Longrightarrow> gate_required g"
  by (auto simp: MANDATORY_REAL_RUN_GATES_def mk_gate_def gate_required_def dget_default_def)

lemma mandatory_gate_of_code:
  "c \<in> set MANDATORY_REAL_RUN_GATE_CODES \<Longrightarrow>
   \<exists>g \<in> set MANDATORY_REAL_RUN_GATES. dget g ''code'' = PStr c"
  by (auto simp: MANDATORY_REAL_RUN_GATE_CODES_def MANDATORY_REAL_RUN_GATES_def mk_gate_def dget_def)

lemma mandatory_gate_code:
  "g \<in> set MANDATORY_REAL_RUN_GATES \<Longrightarrow>
   \<exists>c \<in> set MANDATORY_REAL_RUN_GATE_CODES. dget g ''code'' = PStr c"
  by (auto simp: MANDATORY_REAL_RUN_GATE_CODES_def MANDATORY_REAL_RUN_GATES_def mk_gate_def dget_def)

lemma effective_real_run:
  assumes "effective_policy_gates policy = Inr gates"
    and "dget policy ''policy_key'' = PStr REAL_RUN_GATE_POLICY_KEY"
  shows "set MANDATORY_REAL_RUN_GATES \<subseteq> set gates"
  using assms by (auto simp: effective_policy_gates_def result_eqs)

lemma gate_presentD:
  "gate_present inputs g \<Longrightarrow> dget g ''code'' = PStr c \<Longrightarrow> \<exists>m. inputs = PDict m \<and> truthy (dget m c)"
  by (auto simp: gate_present_def split: sum.splits dest: py_get_InrD)

text \<open>An allowing real-run decision has truthy evidence for every mandatory gate.\<close>

lemma allow_needs_mandatory:
  assumes ev: "evaluate_policy policy (PDict inputs) = Inr d"
    and key: "dget policy ''policy_key'' = PStr REAL_RUN_GATE_POLICY_KEY"
    and allow: "dec_outcome d = ''allow''"
    and c: "c \<in> set MANDATORY_REAL_RUN_GATE_CODES"
  shows "truthy (dget inputs c)"
proof -
  obtain gates where eff: "effective_policy_gates policy = Inr gates"
    using ev by (rule evaluate_policyD)
  obtain g where g: "g \<in> set MANDATORY_REAL_RUN_GATES" "dget g ''code'' = PStr c"
    using mandatory_gate_of_code [OF c] by blast
  with effective_real_run [OF eff key] have "g \<in> set gates" by blast
  with evaluate_policy_allow_iff [OF ev eff] allow mandatory_gates_required [OF g(1)]
  have "gate_present (PDict inputs) g" by blast
  then show ?thesis using g(2) by (auto dest: gate_presentD)
qed

section \<open>Validated policies\<close>

lemma check_gates_codes:
  "check_gates i gates = ([], codes) \<Longrightarrow>
   codes = map (\<lambda>g. dget g ''code'') (dict_gates gates) \<and> (\<forall>c \<in> set codes. truthy c)
   \<and> gates = map PDict (dict_gates gates)"
proof (induction gates arbitrary: i codes)
  case (Cons g gs)
  obtain errors cs where r: "check_gates (Suc i) gs = (errors, cs)" by fastforce
  with Cons.prems obtain c where u: "usable_code g = Some c" "errors = []" "codes = c # cs"
    by (auto split: option.splits)
  then obtain d where "g = PDict d" "c = dget d ''code''" "truthy c"
    by (cases g) (auto split: if_splits)
  with Cons.IH [of "Suc i" cs] r u show ?case by simp
qed simp

lemma validate_policyD:
  assumes "validate_policy policy = Inr (True, es)"
  obtains codes where "codes = map (\<lambda>g. dget g ''code'') (dict_gates (configured_gates policy))"
    "list_all hashable codes" "distinct (map canon codes)" "\<forall>c \<in> set codes. truthy c"
    "dget policy ''gates'' = PList (map PDict (dict_gates (configured_gates policy)))"
    "dget policy ''policy_key'' = PStr REAL_RUN_GATE_POLICY_KEY \<Longrightarrow>
       \<forall>c \<in> set MANDATORY_REAL_RUN_GATE_CODES. mandatory_problem (configured_gates policy) c = []"
    "\<exists>v \<ge> 1. int_of (dget policy ''version'') = Some v"
proof -
  obtain g gs where gates: "dget policy ''gates'' = PList (g # gs)"
    using assms by (auto simp: validate_policy_def Let_def split: pyval.splits list.splits if_splits)
  obtain es3 codes where cg: "check_gates 0 (g # gs) = (es3, codes)" by fastforce
  note v = assms [unfolded validate_policy_def gates, simplified Let_def pyval.case list.case cg prod.case]
  have h: "list_all hashable codes" using v by (auto split: if_splits)
  have e3: "es3 = []" and d: "distinct (map canon codes)"
    and m: "dget policy ''policy_key'' = PStr REAL_RUN_GATE_POLICY_KEY \<Longrightarrow>
       \<forall>c \<in> set MANDATORY_REAL_RUN_GATE_CODES. mandatory_problem (g # gs) c = []"
    and ver: "\<exists>v \<ge> 1. int_of (dget policy ''version'') = Some v"
    using v h by (auto split: if_splits option.splits)
  have conf: "configured_gates policy = g # gs" by (simp add: configured_gates_def gates)
  note ck = check_gates_codes [OF cg [unfolded e3]]
  show ?thesis
    by (rule that [of codes]) (use ck h d m ver conf gates in auto)
qed

lemma extra_gates_total:
  "(\<And>g. g \<in> set gs \<Longrightarrow> hashable (dget g ''code'')) \<Longrightarrow> \<exists>ex. extra_gates gs = Inr ex \<and> set ex \<subseteq> set gs"
proof (induction gs)
  case (Cons g gs)
  then obtain ex where "extra_gates gs = Inr ex" "set ex \<subseteq> set gs" by auto
  with Cons.prems show ?case by auto
qed simp

lemma effective_total:
  assumes "\<And>g. g \<in> set (dict_gates (configured_gates policy)) \<Longrightarrow> hashable (dget g ''code'')"
  shows "\<exists>gates. effective_policy_gates policy = Inr gates
    \<and> set gates \<subseteq> set MANDATORY_REAL_RUN_GATES \<union> set (dict_gates (configured_gates policy))"
  using extra_gates_total [OF assms] by (fastforce simp: effective_policy_gates_def)

lemma eval_gates_total:
  "(\<And>g. g \<in> set gates \<Longrightarrow> hashable (dget g ''code'')) \<Longrightarrow> \<exists>r. eval_gates (PDict inputs) gates = Inr r"
proof (induction gates)
  case (Cons g gs)
  then obtain r where "eval_gates (PDict inputs) gs = Inr r" by auto
  moreover have "hashable (dget g ''code'')" using Cons.prems by simp
  then have "\<exists>v. py_get (PDict inputs) (dget g ''code'') = Inr v"
    by (cases "dget g ''code''") auto
  ultimately show ?case by auto
qed simp

text \<open>A policy that passed validation evaluates without raising, whatever the evidence.\<close>

lemma validated_evaluates:
  assumes "validate_policy policy = Inr (True, es)"
  shows "\<exists>d. evaluate_policy policy (PDict inputs) = Inr d"
proof -
  obtain codes where codes: "codes = map (\<lambda>g. dget g ''code'') (dict_gates (configured_gates policy))"
    "list_all hashable codes"
    using assms by (rule validate_policyD)
  then have h: "hashable (dget g ''code'')" if "g \<in> set (dict_gates (configured_gates policy))" for g
    using that by (auto simp: list_all_iff)
  have hm: "hashable (dget g ''code'')" if "g \<in> set MANDATORY_REAL_RUN_GATES" for g
    using mandatory_gate_code [OF that] by auto
  obtain gates where g: "effective_policy_gates policy = Inr gates"
    "set gates \<subseteq> set MANDATORY_REAL_RUN_GATES \<union> set (dict_gates (configured_gates policy))"
    using effective_total [of policy] h by blast
  then obtain r where "eval_gates (PDict inputs) gates = Inr r"
    using eval_gates_total [of gates inputs] h hm by blast
  with g show ?thesis by (cases r) (simp add: evaluate_policy_def)
qed

lemma default_policy_valid: "validate_policy DEFAULT_REAL_RUN_POLICY = Inr (True, [])"
  by code_simp

lemma effective_default:
  "effective_policy_gates DEFAULT_REAL_RUN_POLICY = Inr MANDATORY_REAL_RUN_GATES"
  by code_simp

end
