(* ===== verification/Transition.thy ===== *)
theory Transition
  imports Policy
begin

text \<open>
  Policy transitions (\<open>core/app/transition/engine.py\<close> and \<open>diff_policies\<close> of
  \<open>core/app/governance/policy.py\<close>): the structural difference of two policy versions, its
  classification as tightening, loosening or neutral, the validation of a proposed transition
  and the draft of a rollback. The classification is related to what evaluation decides: a
  transition that is not classified as loosening never turns a blocked decision into an allowed
  one.
\<close>

section \<open>Differences\<close>

record policy_diff =
  from_version :: pyval
  to_version :: pyval
  added_gates :: "pyval list"
  removed_gates :: "pyval list"
  changed_required :: "pyval list"
  added_gates_required :: "(pyval \<times> bool) list"
  changed_required_to :: "(pyval \<times> bool) list"

text \<open>
  \<open>{g["code"]: g for g in gates if g.get("code")}\<close>: a gate that is no object has no \<open>get\<close>, an
  unhashable code cannot be a key.
\<close>

fun gates_dict :: "(pyval \<times> pydict) list \<Rightarrow> pyval list \<Rightarrow> (py_error, (pyval \<times> pydict) list) result" where
  "gates_dict acc [] = Inr acc"
| "gates_dict acc (PDict g # gs) =
     (if \<not> truthy (dget g ''code'') then gates_dict acc gs
      else if \<not> hashable (dget g ''code'') then Inl TypeError
      else gates_dict (od_set acc (dget g ''code'') g) gs)"
| "gates_dict acc (_ # gs) = Inl AttributeError"

definition policy_gates :: "pydict \<Rightarrow> (py_error, (pyval \<times> pydict) list) result" where
  "policy_gates policy = rbind (py_iter (dget_default policy ''gates'' (PList []))) (gates_dict [])"

definition is_key :: "pyval \<Rightarrow> (pyval \<times> 'v) list \<Rightarrow> bool" where
  "is_key k d \<longleftrightarrow> od_get d k \<noteq> None"

definition required_at :: "(pyval \<times> pydict) list \<Rightarrow> pyval \<Rightarrow> bool" where
  "required_at d code = (case od_get d code of None \<Rightarrow> False | Some g \<Rightarrow> gate_required g)"

definition diff_policies :: "pydict \<Rightarrow> pydict \<Rightarrow> (py_error, policy_diff) result" where
  "diff_policies old new =
     rbind (policy_gates old) (\<lambda>old_gates.
     rbind (policy_gates new) (\<lambda>new_gates.
     (let added = filter (\<lambda>code. \<not> is_key code old_gates) (map fst new_gates);
          removed = filter (\<lambda>code. \<not> is_key code new_gates) (map fst old_gates);
          changed = filter (\<lambda>code. is_key code old_gates
                       \<and> required_at old_gates code \<noteq> required_at new_gates code) (map fst new_gates)
      in Inr \<lparr>from_version = dget old ''version'', to_version = dget new ''version'',
               added_gates = added, removed_gates = removed, changed_required = changed,
               added_gates_required = map (\<lambda>code. (code, required_at new_gates code)) added,
               changed_required_to = map (\<lambda>code. (code, required_at new_gates code)) changed\<rparr>)))"

section \<open>Classification and validation\<close>

datatype classification = Tightening | Loosening | Neutral

definition classify_transition :: "policy_diff \<Rightarrow> classification" where
  "classify_transition diff =
     (if removed_gates diff \<noteq> [] then Loosening
      else if \<exists>cr \<in> set (changed_required_to diff). \<not> snd cr then Loosening
      else if \<exists>cr \<in> set (added_gates_required diff). snd cr then Tightening
      else if \<exists>cr \<in> set (changed_required_to diff). snd cr then Tightening
      else Neutral)"

definition TRANSITION_REASON_CODES :: "string list" where
  "TRANSITION_REASON_CODES =
     [''experiment_result'', ''risk_tightening'', ''manual_review'', ''incident_response'',
      ''scheduled_review'']"

definition POLICY_SUBJECTS :: "(string \<times> string) list" where
  "POLICY_SUBJECTS = [(''real_run_gate'', ''lottery'')]"

datatype transition_problem = Version_must_increment_by_one | Invalid_reason_code
  | Rollback_condition_required | Loosening_justification_required
  | Loosening_cannot_use_scheduled_review

text \<open>\<open>not str(text or "").strip()\<close> for an optional text.\<close>

definition blank :: "string option \<Rightarrow> bool" where
  "blank t = (case t of None \<Rightarrow> True | Some s \<Rightarrow> strip s = [])"

definition version_increments :: "pyval \<Rightarrow> pyval \<Rightarrow> bool" where
  "version_increments a b = (case (int_of a, int_of b) of (Some v, Some w) \<Rightarrow> w = v + 1 | _ \<Rightarrow> False)"

definition validate_transition ::
  "pydict \<Rightarrow> pydict \<Rightarrow> string \<Rightarrow> string option \<Rightarrow> string option
   \<Rightarrow> (py_error, bool \<times> transition_problem list) result" where
  "validate_transition from_policy to_policy reason rollback justification =
     (let e1 = (if version_increments (dget from_policy ''version'') (dget to_policy ''version'')
                then [] else [Version_must_increment_by_one]);
          e2 = (if reason \<in> set TRANSITION_REASON_CODES then [] else [Invalid_reason_code]);
          e3 = (if blank rollback then [Rollback_condition_required] else [])
      in rmap (\<lambda>diff.
           let e4 = (if classify_transition diff = Loosening
                     then (if blank justification then [Loosening_justification_required] else [])
                        @ (if reason = ''scheduled_review'' then [Loosening_cannot_use_scheduled_review] else [])
                     else []);
               errors = e1 @ e2 @ e3 @ e4
           in (errors = [], errors))
         (diff_policies from_policy to_policy))"

record scope =
  sc_subject_type :: "string option"
  sc_affected_gates :: "string list"
  sc_description :: string

fun join_with :: "string \<Rightarrow> string list \<Rightarrow> string" where
  "join_with sep [] = []"
| "join_with sep [x] = x"
| "join_with sep (x # xs) = x @ sep @ join_with sep xs"

text \<open>The codes of a stored diff are strings; \<open>sorted\<close> of the set of those that changed.\<close>

definition impact_scope :: "string \<Rightarrow> string list \<Rightarrow> string list \<Rightarrow> string list \<Rightarrow> scope" where
  "impact_scope policy_key added removed changed =
     (let affected = sort (remdups (added @ removed @ changed))
      in case map_of POLICY_SUBJECTS policy_key of
           None \<Rightarrow> \<lparr>sc_subject_type = None, sc_affected_gates = affected, sc_description = []\<rparr>
         | Some subject \<Rightarrow>
             \<lparr>sc_subject_type = Some subject, sc_affected_gates = affected,
              sc_description =
                (if affected = [] then ''No gate changes affecting '' @ subject @ '' real-run evaluation.''
                 else ''Affects every '' @ subject @ [CHR 39] @ ''s real-run gate evaluation via ''
                      @ nat_str (length affected) @ '' changed gate(s): ''
                      @ join_with '', '' affected @ ''.'')\<rparr>)"

record rollback_draft =
  rb_policy_key :: pyval
  rb_target_version :: pyval
  rb_reason_code :: string
  rb_rollback_condition :: pyval

definition rollback_plan :: "pydict \<Rightarrow> rollback_draft" where
  "rollback_plan transition =
     \<lparr>rb_policy_key = dget transition ''policy_key'',
      rb_target_version = dget transition ''from_version'',
      rb_reason_code = ''manual_review'',
      rb_rollback_condition = dget transition ''rollback_condition''\<rparr>"

section \<open>Lemmas\<close>

lemma gates_dict_other:
  "gates_dict acc (map PDict gs) = Inr d \<Longrightarrow> \<forall>g \<in> set gs. truthy (dget g ''code'') \<Longrightarrow>
   \<forall>g \<in> set gs. \<not> py_eq (dget g ''code'') c \<Longrightarrow> od_get d c = od_get acc c"
proof (induction gs arbitrary: acc)
  case (Cons h gs)
  have "gates_dict (od_set acc (dget h ''code'') h) (map PDict gs) = Inr d"
    using Cons.prems by (auto split: if_splits)
  then have "od_get d c = od_get (od_set acc (dget h ''code'') h) c"
    using Cons.prems by (intro Cons.IH) auto
  with Cons.prems show ?case by (simp add: od_get_set)
qed simp

lemma gates_dict_get:
  "gates_dict acc (map PDict gs) = Inr d \<Longrightarrow> \<forall>g \<in> set gs. truthy (dget g ''code'') \<Longrightarrow>
   distinct (map (\<lambda>g. canon (dget g ''code'')) gs) \<Longrightarrow> g \<in> set gs \<Longrightarrow>
   od_get d (dget g ''code'') = Some g"
proof (induction gs arbitrary: acc)
  case (Cons h gs)
  have step: "gates_dict (od_set acc (dget h ''code'') h) (map PDict gs) = Inr d"
    using Cons.prems by (auto split: if_splits)
  show ?case
  proof (cases "g = h")
    case True
    have "\<forall>g \<in> set gs. \<not> py_eq (dget g ''code'') (dget h ''code'')"
      using Cons.prems(3) by (simp add: py_eq_def image_iff) metis
    then have "od_get d (dget h ''code'') = od_get (od_set acc (dget h ''code'') h) (dget h ''code'')"
      using Cons.prems by (intro gates_dict_other [OF step]) auto
    with True show ?thesis by (simp add: od_get_set)
  next
    case False
    with step Cons.prems show ?thesis by (intro Cons.IH) auto
  qed
qed simp

lemma policy_gates_valid:
  assumes v: "validate_policy policy = Inr (True, es)"
    and d: "policy_gates policy = Inr d"
  shows "g \<in> set (dict_gates (configured_gates policy)) \<Longrightarrow> od_get d (dget g ''code'') = Some g"
    and "od_get d c = Some g \<Longrightarrow> g \<in> set (dict_gates (configured_gates policy)) \<and> py_eq (dget g ''code'') c"
proof -
  let ?gs = "dict_gates (configured_gates policy)"
  obtain codes where codes: "codes = map (\<lambda>g. dget g ''code'') ?gs" "distinct (map canon codes)"
    "\<forall>c \<in> set codes. truthy c" "dget policy ''gates'' = PList (map PDict ?gs)"
    using v by (rule validate_policyD)
  then have iter: "py_iter (dget_default policy ''gates'' (PList [])) = Inr (map PDict ?gs)"
    by (cases "map_of policy ''gates''") (auto simp: dget_default_def dget_def)
  have gd: "gates_dict [] (map PDict ?gs) = Inr d"
    using d iter by (simp add: policy_gates_def)
  have dist: "distinct (map (\<lambda>g. canon (dget g ''code'')) ?gs)"
    using codes by (simp add: comp_def)
  have tr: "\<forall>g \<in> set ?gs. truthy (dget g ''code'')" using codes by auto
  note get = gates_dict_get [OF gd tr dist] and other = gates_dict_other [OF gd tr]
  show "g \<in> set ?gs \<Longrightarrow> od_get d (dget g ''code'') = Some g" by (rule get)
  assume s: "od_get d c = Some g"
  then obtain h where h: "h \<in> set ?gs" "py_eq (dget h ''code'') c"
    using other [of c] by fastforce
  then have "od_get d c = Some h" using get [OF h(1)] od_get_cong by metis
  with s h show "g \<in> set ?gs \<and> py_eq (dget g ''code'') c" by simp
qed

lemma not_loosening_keeps_required:
  assumes "diff_policies old new = Inr diff" "classify_transition diff \<noteq> Loosening"
    and "policy_gates old = Inr og" "policy_gates new = Inr ng"
    and g: "od_get og c = Some g" "gate_required g"
  shows "\<exists>g'. od_get ng c = Some g' \<and> gate_required g'"
proof -
  have d: "removed_gates diff = filter (\<lambda>code. \<not> is_key code ng) (map fst og)"
    "changed_required_to diff = map (\<lambda>code. (code, required_at ng code))
       (filter (\<lambda>code. is_key code og \<and> required_at og code \<noteq> required_at ng code) (map fst ng))"
    using assms(1,3,4) by (auto simp: diff_policies_def Let_def)
  obtain k where k: "k \<in> set (map fst og)" "py_eq k c"
    using g(1) by (force dest: od_get_in)
  have "removed_gates diff = []" using assms(2) by (auto simp: classify_transition_def split: if_splits)
  then have "filter (\<lambda>code. \<not> is_key code ng) (map fst og) = []" using d(1) by metis
  with k have "is_key k ng" unfolding filter_empty_conv by blast
  then obtain g' where g': "od_get ng c = Some g'"
    using k(2) od_get_cong [of k c ng] by (auto simp: is_key_def)
  have "gate_required g'"
  proof (rule ccontr)
    assume n: "\<not> gate_required g'"
    obtain k' where k': "k' \<in> set (map fst ng)" "py_eq k' c"
      using g' by (force dest: od_get_in)
    have "required_at og k'" "\<not> required_at ng k'" "is_key k' og"
      using g g' n k'(2) od_get_cong [of k' c og] od_get_cong [of k' c ng]
      by (auto simp: required_at_def is_key_def)
    with d(2) k'(1) have "(k', False) \<in> set (changed_required_to diff)" by auto
    with assms(2) show False by (force simp: classify_transition_def split: if_splits)
  qed
  with g' show ?thesis by blast
qed

lemma extra_gates_mem:
  "extra_gates gs = Inr ex \<Longrightarrow> g \<in> set ex \<longleftrightarrow>
     g \<in> set gs \<and> truthy (dget g ''code'') \<and> dget g ''code'' \<notin> PStr ` set MANDATORY_REAL_RUN_GATE_CODES"
  by (induction gs arbitrary: ex) (auto simp: result_eqs split: if_splits)

text \<open>Evidence does not distinguish codes that are equal as Python values.\<close>

lemma gate_present_eq:
  assumes "py_eq (dget g ''code'') (dget g' ''code'')" "gate_present inputs g'"
  shows "gate_present inputs g"
proof -
  obtain w where w: "py_get inputs (dget g' ''code'') = Inr w" "truthy w"
    using assms(2) by (auto simp: gate_present_def split: sum.splits)
  then obtain s where "dget g' ''code'' = PStr s" by (auto dest: py_get_InrD)
  with assms w show ?thesis by (simp add: gate_present_def)
qed

lemma required_gate_survives:
  assumes ok: "validate_policy old = Inr (True, e1)" "validate_policy new = Inr (True, e2)"
    and diff: "diff_policies old new = Inr diff" "classify_transition diff \<noteq> Loosening"
    and g: "g \<in> set (dict_gates (configured_gates old))" "gate_required g"
  shows "\<exists>g' \<in> set (dict_gates (configured_gates new)).
           gate_required g' \<and> py_eq (dget g ''code'') (dget g' ''code'')"
proof -
  obtain og ng where pg: "policy_gates old = Inr og" "policy_gates new = Inr ng"
    using diff(1) by (auto simp: diff_policies_def result_eqs)
  have "od_get og (dget g ''code'') = Some g"
    by (rule policy_gates_valid(1) [OF ok(1) pg(1) g(1)])
  then obtain g' where "od_get ng (dget g ''code'') = Some g'" "gate_required g'"
    using not_loosening_keeps_required [OF diff pg _ g(2)] by blast
  then show ?thesis using policy_gates_valid(2) [OF ok(2) pg(2)] py_eq_sym by blast
qed

section \<open>Properties\<close>

text \<open>
  C4. A transition that is not classified as loosening is never more permissive: between two
  validated versions of one policy whose diff classifies as tightening or neutral, every input
  that the new version allows was already allowed by the old one.
\<close>

theorem not_loosening_never_more_permissive:
  assumes ok: "validate_policy old = Inr (True, e1)" "validate_policy new = Inr (True, e2)"
    and key: "dget new ''policy_key'' = dget old ''policy_key''"
    and diff: "diff_policies old new = Inr diff" "classify_transition diff \<noteq> Loosening"
    and ev: "evaluate_policy old inputs = Inr d1" "evaluate_policy new inputs = Inr d2"
    and allow: "dec_outcome d2 = ''allow''"
  shows "dec_outcome d1 = ''allow''"
proof -
  let ?rr = "PStr REAL_RUN_GATE_POLICY_KEY" and ?man = "PStr ` set MANDATORY_REAL_RUN_GATE_CODES"
  obtain gs1 gs2 where eff: "effective_policy_gates old = Inr gs1" "effective_policy_gates new = Inr gs2"
    using ev by (auto elim!: evaluate_policyD)
  have present: "gate_present inputs g" if "g \<in> set gs2" "gate_required g" for g
    using evaluate_policy_allow_iff [OF ev(2) eff(2)] allow that by blast
  have "gate_present inputs g" if g: "g \<in> set gs1" "gate_required g" for g
  proof (cases "g \<in> set gs2")
    case False
    then have conf: "g \<in> set (dict_gates (configured_gates old))"
      using g eff key by (auto simp: effective_policy_gates_def result_eqs extra_gates_mem split: if_splits)
    obtain g' where g': "g' \<in> set (dict_gates (configured_gates new))" "gate_required g'"
      "py_eq (dget g ''code'') (dget g' ''code'')"
      using required_gate_survives [OF ok diff conf g(2)] by blast
    have "g' \<in> set gs2"
    proof (cases "dget old ''policy_key'' = ?rr")
      case True
      with g eff(1) False eff(2) key have "dget g ''code'' \<notin> ?man"
        by (auto simp: effective_policy_gates_def result_eqs extra_gates_mem)
      then have "dget g' ''code'' \<notin> ?man" using g'(3) by auto
      moreover have "truthy (dget g' ''code'')"
        using ok(2) g'(1) by (auto elim!: validate_policyD)
      ultimately show ?thesis
        using True key eff(2) g'(1) by (auto simp: effective_policy_gates_def result_eqs extra_gates_mem)
    qed (use eff(2) key g'(1) in \<open>auto simp: effective_policy_gates_def\<close>)
    then show ?thesis using present g' gate_present_eq by blast
  qed (use present g(2) in blast)
  then show ?thesis using evaluate_policy_allow_iff [OF ev(1) eff(1)] by blast
qed

definition demo_policy :: "int \<Rightarrow> bool \<Rightarrow> pydict" where
  "demo_policy v required = [(''policy_key'', PStr ''demo''), (''version'', PInt v),
     (''gates'', PList [PDict [(''code'', PStr ''a''), (''required'', PBool required)]])]"

theorem not_loosening_never_more_permissive_witness:
  "\<exists>d1. evaluate_policy (demo_policy 1 False) (PDict [(''a'', PBool True)]) = Inr d1 \<and> dec_outcome d1 = ''allow''"
proof -
  let ?i = "PDict [(''a'', PBool True)]"
  have v: "validate_policy (demo_policy 1 False) = Inr (True, [])"
    "validate_policy (demo_policy 2 True) = Inr (True, [])" by code_simp+
  have k: "dget (demo_policy 2 True) ''policy_key'' = dget (demo_policy 1 False) ''policy_key''" by code_simp
  obtain diff where d: "diff_policies (demo_policy 1 False) (demo_policy 2 True) = Inr diff"
    "classify_transition diff \<noteq> Loosening"
  proof -
    have "(case diff_policies (demo_policy 1 False) (demo_policy 2 True) of Inl _ \<Rightarrow> False
           | Inr diff \<Rightarrow> classify_transition diff \<noteq> Loosening)" by code_simp
    then show thesis using that by (auto split: sum.splits)
  qed
  obtain d1 where e1: "evaluate_policy (demo_policy 1 False) ?i = Inr d1"
    using validated_evaluates [OF v(1)] by blast
  obtain d2 where e2: "evaluate_policy (demo_policy 2 True) ?i = Inr d2" "dec_outcome d2 = ''allow''"
  proof -
    have "(case evaluate_policy (demo_policy 2 True) ?i of Inl _ \<Rightarrow> False | Inr d \<Rightarrow> dec_outcome d = ''allow'')"
      by code_simp
    then show thesis using that by (auto split: sum.splits)
  qed
  show ?thesis
    using not_loosening_never_more_permissive [OF v k d e1 e2] e1 by blast
qed

text \<open>
  A validated transition increments the version by exactly one, names a known reason and a
  rollback condition, and, when it loosens the policy, carries a justification that is not blank
  and does not hide behind a scheduled review.
\<close>

lemma validated_transition_guards:
  assumes "validate_transition from_policy to_policy reason rollback justification = Inr (True, es)"
  shows "version_increments (dget from_policy ''version'') (dget to_policy ''version'')
    \<and> reason \<in> set TRANSITION_REASON_CODES \<and> \<not> blank rollback
    \<and> (\<forall>diff. diff_policies from_policy to_policy = Inr diff \<longrightarrow> classify_transition diff = Loosening \<longrightarrow>
         \<not> blank justification \<and> reason \<noteq> ''scheduled_review'')"
  using assms by (auto simp: validate_transition_def Let_def result_eqs split: if_splits)

text \<open>
  The rollback draft of a published transition can never be published as it is: the
  transition from the current version back to the drafted target version fails validation
  because the version does not increment.
\<close>

theorem rollback_draft_never_validates:
  assumes "version_increments (dget transition ''from_version'') (dget transition ''to_version'')"
    and "dget current ''version'' = dget transition ''to_version''"
    and "dget target ''version'' = rb_target_version (rollback_plan transition)"
  shows "validate_transition current target (rb_reason_code (rollback_plan transition)) rollback justification
         \<noteq> Inr (True, es)"
proof -
  have "\<not> version_increments (dget current ''version'') (dget target ''version'')"
    using assms by (auto simp: rollback_plan_def version_increments_def split: option.splits)
  then show ?thesis by (auto simp: validate_transition_def Let_def result_eqs)
qed

theorem rollback_draft_never_validates_witness:
  "validate_transition (demo_policy 2 True) (demo_policy 1 True) ''manual_review'' (Some ''x'') None \<noteq> Inr (True, [])"
proof -
  let ?t = "[(''policy_key'', PStr ''demo''), (''from_version'', PInt 1), (''to_version'', PInt 2)]"
  have a: "version_increments (dget ?t ''from_version'') (dget ?t ''to_version'')" by code_simp
  have b: "dget (demo_policy 2 True) ''version'' = dget ?t ''to_version''"
    "dget (demo_policy 1 True) ''version'' = rb_target_version (rollback_plan ?t)" by code_simp+
  show ?thesis using rollback_draft_never_validates [OF a b] by (simp add: rollback_plan_def)
qed

end
