(* ===== verification/Security.thy ===== *)
theory Security
  imports PyValue
begin

text \<open>
  Request authentication, role checks, the two-key real-run switch, the circuit breakers and the
  redaction of audit details (\<open>core/app/security.py\<close>). The tables \<open>runtime_settings\<close> and
  \<open>circuit_breakers\<close> are lists of rows; a raised \<open>HTTPException\<close> is its status code.
\<close>

section \<open>Tokens and roles\<close>

datatype http_error = Http nat | Key_error string | Setting_not_persisted string

definition ROLE_LEVELS :: "(string \<times> int) list" where
  "ROLE_LEVELS = [(''viewer'', 0), (''operator'', 1), (''admin'', 2), (''owner'', 3)]"

definition SENSITIVE_KEY_PARTS :: "string list" where
  "SENSITIVE_KEY_PARTS = [''cookie'', ''credential'', ''password'', ''secret'', ''token'',
     ''signature'', ''webhook'', ''key'']"

definition parse_bool_str :: "string \<Rightarrow> bool" where
  "parse_bool_str s \<longleftrightarrow> lower (strip s) \<in> set [''1'', ''true'', ''yes'', ''on'', ''enabled'']"

record actor =
  actor_id :: string
  actor_role :: string
  auth_type :: string

record request =
  req_headers :: "(string \<times> string) list"
  req_state_actor :: "actor option"
  req_client_host :: "string option"

definition header :: "request \<Rightarrow> string \<Rightarrow> string" where
  "header r name = (case map_of (req_headers r) name of None \<Rightarrow> '''' | Some v \<Rightarrow> v)"

text \<open>\<open>s.partition(" ")\<close>: the text before the first space, whether there is one, the rest.\<close>

fun partition_space :: "string \<Rightarrow> string \<times> bool \<times> string" where
  "partition_space [] = ([], False, [])"
| "partition_space (c # s) = (if c = CHR '' '' then ([], True, s)
     else (case partition_space s of (a, sep, b) \<Rightarrow> (c # a, sep, b)))"

definition actor_from_request :: "string \<Rightarrow> request \<Rightarrow> actor option" where
  "actor_from_request admin_token r =
     (let provided0 = header r ''x-admin-token'';
          (provided, auth) =
            (if provided0 \<noteq> [] then (provided0, ''x-admin-token'')
             else case partition_space (header r ''authorization'') of (scheme, sep, bearer) \<Rightarrow>
               if sep \<and> casefold scheme = ''bearer'' then (strip bearer, ''authorization-bearer'')
               else (provided0, ''x-admin-token''))
      in if admin_token \<noteq> [] \<and> provided \<noteq> [] \<and> provided = admin_token
         then Some \<lparr>actor_id = ''admin-token'', actor_role = ''owner'', auth_type = auth\<rparr>
         else None)"

definition authenticate_request :: "string \<Rightarrow> request \<Rightarrow> (http_error, actor \<times> request) result" where
  "authenticate_request admin_token r = (case actor_from_request admin_token r of
       None \<Rightarrow> Inl (Http 401)
     | Some a \<Rightarrow> Inr (a, r\<lparr>req_state_actor := Some a\<rparr>))"

definition current_actor :: "string \<Rightarrow> request \<Rightarrow> (http_error, actor \<times> request) result" where
  "current_actor admin_token r =
     (case (case req_state_actor r of Some a \<Rightarrow> Some a | None \<Rightarrow> actor_from_request admin_token r) of
       None \<Rightarrow> Inl (Http 401)
     | Some a \<Rightarrow> Inr (a, r\<lparr>req_state_actor := Some a\<rparr>))"

definition require_min_role :: "string \<Rightarrow> request \<Rightarrow> string \<Rightarrow> (http_error, actor) result" where
  "require_min_role admin_token r min_role =
     rbind (current_actor admin_token r) (\<lambda>(a, _).
       case map_of ROLE_LEVELS min_role of
         None \<Rightarrow> Inl (Key_error min_role)
       | Some required \<Rightarrow>
           if (case map_of ROLE_LEVELS (actor_role a) of None \<Rightarrow> -1 | Some l \<Rightarrow> l) < required
           then Inl (Http 403) else Inr a)"

definition require_confirmation :: "request \<Rightarrow> (http_error, unit) result" where
  "require_confirmation r = (if parse_bool_str (header r ''x-confirm-action'') then Inr () else Inl (Http 409))"

definition client_ip :: "request \<Rightarrow> string option" where
  "client_ip r =
     (let first = strip (hd (split_on CHR '','' (header r ''x-forwarded-for'')))
      in if header r ''x-forwarded-for'' \<noteq> [] \<and> first \<noteq> [] then Some (take 64 first)
         else if header r ''x-real-ip'' \<noteq> [] then Some (take 64 (header r ''x-real-ip''))
         else req_client_host r)"

section \<open>Runtime settings and the real-run switch\<close>

type_synonym settings_table = "(string \<times> string) list"

definition get_runtime_setting :: "settings_table \<Rightarrow> string \<Rightarrow> string \<Rightarrow> string" where
  "get_runtime_setting t k dflt = (case map_of t k of None \<Rightarrow> dflt | Some v \<Rightarrow> v)"

fun upsert :: "string \<Rightarrow> string \<Rightarrow> settings_table \<Rightarrow> settings_table" where
  "upsert k v [] = [(k, v)]"
| "upsert k v ((k', w) # t) = (if k' = k then (k, v) # t else (k', w) # upsert k v t)"

definition set_runtime_setting :: "settings_table \<Rightarrow> string \<Rightarrow> string \<Rightarrow> (http_error, settings_table) result" where
  "set_runtime_setting t k v =
     (let t' = upsert k v t
      in if map_of t' k \<noteq> Some v then Inl (Setting_not_persisted k) else Inr t')"

text \<open>The environment flag is the ceiling; the stored flag, missing by default, can only close it.\<close>

definition is_real_run_enabled :: "bool \<Rightarrow> settings_table \<Rightarrow> bool" where
  "is_real_run_enabled env_real_run_enabled t =
     (if \<not> env_real_run_enabled then False
      else parse_bool_str (get_runtime_setting t ''real_run_enabled'' ''false''))"

section \<open>Circuit breakers\<close>

record breaker =
  br_scope :: string
  br_status :: string
  br_reason :: "string option"

definition open_breakers :: "breaker list \<Rightarrow> string \<Rightarrow> breaker list" where
  "open_breakers rows platform =
     filter (\<lambda>b. br_scope b \<in> {''global'', ''platform:'' @ platform} \<and> br_status b \<noteq> ''closed'') rows"

definition breaker_reason :: "breaker \<Rightarrow> string" where
  "breaker_reason b = br_scope b @ ''='' @
     (case br_reason b of None \<Rightarrow> br_status b | Some r \<Rightarrow> if r = [] then br_status b else r)"

fun join_semi :: "string list \<Rightarrow> string" where
  "join_semi [] = []"
| "join_semi [x] = x"
| "join_semi (x # xs) = x @ ''; '' @ join_semi xs"

definition circuit_breaker_allows :: "breaker list \<Rightarrow> string \<Rightarrow> bool \<times> string option" where
  "circuit_breaker_allows rows platform =
     (let open_rows = open_breakers rows platform
      in if open_rows = [] then (True, None) else (False, Some (join_semi (map breaker_reason open_rows))))"

section \<open>Redaction\<close>

definition sensitive_key :: "string \<Rightarrow> bool" where
  "sensitive_key k \<longleftrightarrow> (\<exists>part \<in> set SENSITIVE_KEY_PARTS. contains_sub (lower k) part)"

fun redact_detail :: "pyval \<Rightarrow> pyval" where
  "redact_detail (PDict d) = PDict (map (\<lambda>kv. (fst kv,
      if sensitive_key (fst kv) then PStr ''<redacted>'' else redact_detail (snd kv))) d)"
| "redact_detail (PList xs) = PList (map redact_detail xs)"
| "redact_detail v = v"

text \<open>Every value below a sensitive key, at any depth.\<close>

fun sensitive_values :: "pyval \<Rightarrow> pyval list" where
  "sensitive_values (PDict d) = concat (map (\<lambda>kv.
      if sensitive_key (fst kv) then [snd kv] else sensitive_values (snd kv)) d)"
| "sensitive_values (PList xs) = concat (map sensitive_values xs)"
| "sensitive_values v = []"

section \<open>Lemmas and properties\<close>

lemma upsert_get: "map_of (upsert k v t) k' = (if k' = k then Some v else map_of t k')"
  by (induction t) auto

lemma redact_values_are_markers:
  "x \<in> set (sensitive_values (redact_detail v)) \<Longrightarrow> x = PStr ''<redacted>''"
  by (induction v rule: redact_detail.induct) (auto split: if_splits)

lemma redact_idem: "redact_detail (redact_detail v) = redact_detail v"
  by (induction v rule: redact_detail.induct) (auto split: if_splits)

text \<open>
  C35. Redaction is complete and stable: in a redacted detail every value under a sensitive key,
  however deeply nested in objects and lists, is the marker, and redacting again changes nothing.
\<close>

theorem redact_detail_complete:
  "(\<forall>x. x \<in> set (sensitive_values (redact_detail v)) \<longrightarrow> x = PStr ''<redacted>'')
   \<and> redact_detail (redact_detail v) = redact_detail v"
  using redact_values_are_markers redact_idem by blast

theorem redact_detail_complete_witness:
  "PStr ''<redacted>'' \<in> set (sensitive_values (redact_detail (PList [PDict [(''API_Token'', PInt 7)]])))
   \<and> PInt 7 \<notin> set (sensitive_values (redact_detail (PList [PDict [(''API_Token'', PInt 7)]])))"
proof -
  let ?v = "PList [PDict [(''API_Token'', PInt 7)]]"
  have "PStr ''<redacted>'' \<in> set (sensitive_values (redact_detail ?v))" by code_simp
  moreover have "PInt 7 \<noteq> PStr ''<redacted>''" by simp
  ultimately show ?thesis using redact_detail_complete [of ?v] by blast
qed

lemma breaker_open_blocks:
  "fst (circuit_breaker_allows rows platform) \<longleftrightarrow>
   (\<forall>b \<in> set rows. br_scope b \<in> {''global'', ''platform:'' @ platform} \<longrightarrow> br_status b = ''closed'')"
  by (auto simp: circuit_breaker_allows_def Let_def open_breakers_def filter_empty_conv)

lemma min_role_authenticated:
  assumes "require_min_role tok r min_role = Inr a" "req_state_actor r = None"
  shows "tok \<noteq> [] \<and> actor_from_request tok r = Some a"
  using assms
  by (auto simp: require_min_role_def current_actor_def result_eqs actor_from_request_def Let_def
      split: option.splits if_splits prod.splits)

end
