(* ===== verification/RealRunGate.thy ===== *)
theory RealRunGate
  imports Policy Security
begin

text \<open>
  The authoritative real-run gate (\<open>core/app/services/real_run_gate.py\<close>): the readiness status
  of a target is mapped onto the codes of the policy gates, the active policy version is loaded
  (a malformed active row fails closed), the policy is evaluated and the decision is recorded.
  JSON columns hold the value they encode. The readiness status itself
  (\<open>real_run_readiness.py\<close>) is an argument, as are the JSON decoder and the fresh decision id.
\<close>

section \<open>State\<close>

text \<open>A stored definition: decoded already, or the bytes of its JSON text.\<close>

datatype stored = SVal pyval | SBytes string

record policy_version_row =
  pv_policy_key :: string
  pv_version :: int
  pv_definition :: stored
  pv_active :: bool

record decision_row =
  pd_decision_id :: string
  pd_policy_key :: pyval
  pd_policy_version :: pyval
  pd_subject_type :: string
  pd_subject_id :: string
  pd_inputs :: pydict
  pd_outcome :: pyval
  pd_reasons :: pyval

record gov_db =
  policy_versions :: "policy_version_row list"
  policy_decisions :: "decision_row list"
  circuit_breakers :: "breaker list"
  runtime_settings :: settings_table

datatype gov_error = Active_policy_definition_invalid "policy_problem list"
  | Active_policy_key_mismatch | Policy_not_found | Py py_error

definition lift_py :: "(py_error, 'a) result \<Rightarrow> (gov_error, 'a) result" where
  "lift_py r = (case r of Inl e \<Rightarrow> Inl (Py e) | Inr x \<Rightarrow> Inr x)"

section \<open>Gate inputs\<close>

definition ACTION_PLAN_BLOCKER_PREFIXES :: "string list" where
  "ACTION_PLAN_BLOCKER_PREFIXES = [''lottery_action_plan_'', ''lottery_rule_'', ''lottery_required_actions_'']"

text \<open>\<open>str(blocker).startswith(prefixes)\<close>: only a string value can start with one of them.\<close>

fun plan_blocker :: "pyval \<Rightarrow> bool" where
  "plan_blocker (PStr s) = (\<exists>p \<in> set ACTION_PLAN_BLOCKER_PREFIXES. starts_with s p)"
| "plan_blocker _ = False"

definition gate_blockers :: "pydict \<Rightarrow> (py_error, pyval list) result" where
  "gate_blockers gate = rbind (py_iter (py_or (dget gate ''blockers'') (PList []))) (\<lambda>bs.
     if list_all hashable bs then Inr bs else Inl TypeError)"

definition gate_inputs :: "pydict \<Rightarrow> bool \<Rightarrow> (py_error, pydict) result" where
  "gate_inputs gate breaker_allowed =
     rbind (gate_blockers gate) (\<lambda>blockers.
     rbind (py_int (py_or (dget gate ''safe_accounts'') (PInt 0))) (\<lambda>safe_accounts.
     Inr [(''global_real_run_enabled'', PBool (truthy (dget gate ''real_run_enabled''))),
          (''circuit_breaker_closed'', PBool breaker_allowed),
          (''valid_lottery_target'', PBool (truthy (dget gate ''target_valid''))),
          (''action_plan_reviewed'',
             PBool (truthy (dget gate ''action_plan_ready'') \<and> \<not> list_ex plan_blocker blockers)),
          (''calibrated_account_available'', PBool (safe_accounts > 0)),
          (''real_adapter_enabled'', PBool (truthy (dget gate ''adapter_enabled''))),
          (''recent_complete_probe'', PBool (truthy (dget gate ''probe_ready''))),
          (''recent_shadow_run'',
             PBool (truthy (dget_default gate ''execution_preflight_ready'' (dget gate ''shadow_ready'')))),
          (''no_recent_account_risk'', PBool (PStr ''recent_account_risk_event'' \<notin> set blockers))]))"

definition failed_gate_codes :: "pydict \<Rightarrow> (py_error, pyval list) result" where
  "failed_gate_codes decision = gate_codes_from_reasons (dget decision ''reasons'')"

section \<open>The active policy\<close>

definition as_policy_dict ::
  "(string \<Rightarrow> string option) \<Rightarrow> (string \<Rightarrow> pyval option) \<Rightarrow> stored \<Rightarrow> pydict option" where
  "as_policy_dict decode_utf8 json_loads def0 =
     (let text = (case def0 of SVal (PStr s) \<Rightarrow> Some s | SBytes b \<Rightarrow> decode_utf8 b | _ \<Rightarrow> None)
      in case def0 of
           SVal (PDict d) \<Rightarrow> Some d
         | _ \<Rightarrow> (case text of
               None \<Rightarrow> None
             | Some s \<Rightarrow> if strip s = [] then None
                 else (case json_loads s of Some (PDict d) \<Rightarrow> Some d | _ \<Rightarrow> None)))"

text \<open>\<open>ORDER BY version DESC LIMIT 1\<close> over the active rows of the key.\<close>

fun newest :: "policy_version_row list \<Rightarrow> policy_version_row option" where
  "newest [] = None"
| "newest (r # rs) = (case newest rs of None \<Rightarrow> Some r
     | Some b \<Rightarrow> if pv_version r \<ge> pv_version b then Some r else Some b)"

definition active_row :: "gov_db \<Rightarrow> string \<Rightarrow> policy_version_row option" where
  "active_row db key = newest (filter (\<lambda>r. pv_policy_key r = key \<and> pv_active r) (policy_versions db))"

definition load_active_policy ::
  "(string \<Rightarrow> string option) \<Rightarrow> (string \<Rightarrow> pyval option) \<Rightarrow> gov_db \<Rightarrow> string \<Rightarrow> (gov_error, pydict) result" where
  "load_active_policy decode_utf8 json_loads db policy_key =
     (case active_row db policy_key of
       Some row \<Rightarrow>
         (case as_policy_dict decode_utf8 json_loads (pv_definition row) of
           None \<Rightarrow> Inl (Active_policy_definition_invalid [])
         | Some d \<Rightarrow>
             if dget d ''policy_key'' \<noteq> PStr policy_key then Inl Active_policy_key_mismatch
             else rbind (lift_py (validate_policy d)) (\<lambda>(valid, errors).
               if \<not> valid then Inl (Active_policy_definition_invalid errors) else Inr d))
     | None \<Rightarrow> if policy_key = REAL_RUN_GATE_POLICY_KEY then Inr DEFAULT_REAL_RUN_POLICY
               else Inl Policy_not_found)"

section \<open>The decision\<close>

definition record_policy_decision :: "gov_db \<Rightarrow> string \<Rightarrow> pydict \<Rightarrow> pydict \<Rightarrow> pydict \<Rightarrow> string \<Rightarrow> gov_db" where
  "record_policy_decision db decision_id policy inputs decision subject_id =
     db\<lparr>policy_decisions := policy_decisions db @
       [\<lparr>pd_decision_id = decision_id, pd_policy_key = dget policy ''policy_key'',
         pd_policy_version = dget policy ''version'', pd_subject_type = ''lottery'',
         pd_subject_id = subject_id, pd_inputs = inputs, pd_outcome = dget decision ''outcome'',
         pd_reasons = dget decision ''reasons''\<rparr>]\<rparr>"

record real_run_decision =
  rr_allowed :: bool
  rr_outcome :: pyval
  rr_decision_id :: "string option"
  rr_policy_version :: pyval
  rr_blockers :: "pyval list"
  rr_failed_gates :: "pyval list"
  rr_next_action :: pyval
  rr_inputs :: pydict
  rr_gate :: pydict

record gate_env =
  env_real_run :: bool
  env_decode_utf8 :: "string \<Rightarrow> string option"
  env_json_loads :: "string \<Rightarrow> pyval option"
  env_gate_status :: "bool \<Rightarrow> (gov_error, pydict) result"
  env_uuid :: string

definition evaluate_real_run_decision ::
  "gate_env \<Rightarrow> gov_db \<Rightarrow> int \<Rightarrow> string \<Rightarrow> bool \<Rightarrow> (gov_error, real_run_decision \<times> gov_db) result" where
  "evaluate_real_run_decision env db lottery_id platform rec =
     rbind (env_gate_status env (is_real_run_enabled (env_real_run env) (runtime_settings db))) (\<lambda>gate.
     let breaker_allowed = fst (circuit_breaker_allows (circuit_breakers db) platform) in
     rbind (load_active_policy (env_decode_utf8 env) (env_json_loads env) db REAL_RUN_GATE_POLICY_KEY) (\<lambda>policy.
     rbind (lift_py (gate_inputs gate breaker_allowed)) (\<lambda>inputs.
     rbind (lift_py (build_decision_record policy inputs ''lottery'' (Some (int_str lottery_id)))) (\<lambda>decision.
     let db' = (if rec then record_policy_decision db (env_uuid env) policy inputs decision (int_str lottery_id)
                else db) in
     rbind (lift_py (py_iter (py_or (dget gate ''blockers'') (PList [])))) (\<lambda>blockers.
     rbind (lift_py (failed_gate_codes decision)) (\<lambda>failed.
     Inr (\<lparr>rr_allowed = (dget decision ''outcome'' = PStr ''allow''),
           rr_outcome = dget decision ''outcome'',
           rr_decision_id = (if rec then Some (env_uuid env) else None),
           rr_policy_version = dget policy ''version'',
           rr_blockers = blockers, rr_failed_gates = failed,
           rr_next_action = dget decision ''next_action'',
           rr_inputs = inputs, rr_gate = gate\<rparr>, db')))))))"

section \<open>Lemmas\<close>

lemma lift_py_Inr [simp]: "lift_py r = Inr x \<longleftrightarrow> r = Inr x"
  by (cases r) (auto simp: lift_py_def)

lemma newest_in: "newest rs = Some r \<Longrightarrow> r \<in> set rs"
  by (induction rs arbitrary: r) (auto split: option.splits if_splits)

lemma loaded_policy_key:
  "load_active_policy dec ld db key = Inr policy \<Longrightarrow> dget policy ''policy_key'' = PStr key"
  by (auto simp: load_active_policy_def result_eqs DEFAULT_REAL_RUN_POLICY_def
      split: option.splits if_splits)

lemma loaded_policy_valid:
  "load_active_policy dec ld db key = Inr policy \<Longrightarrow> \<exists>es. validate_policy policy = Inr (True, es)"
  using default_policy_valid
  by (auto simp: load_active_policy_def result_eqs split: option.splits if_splits)

lemma build_decision_recordD:
  assumes "build_decision_record policy inputs st si = Inr rec"
  obtains d where "evaluate_policy policy (PDict inputs) = Inr d"
    "dget rec ''outcome'' = PStr (dec_outcome d)" "dget rec ''inputs'' = PDict inputs"
    "dget_default rec ''inputs'' (PDict []) = PDict inputs"
    "dget rec ''policy_version'' = dget policy ''version''"
    "dget rec ''reasons'' = PList (map reason_value (dec_reasons d))"
    "dget rec ''next_action'' = dec_next_action d"
proof -
  obtain d where e: "evaluate_policy policy (PDict inputs) = Inr d"
    using assms by (auto simp: build_decision_record_def result_eqs)
  then have "dec_policy_version d = dget policy ''version''" by (rule evaluate_policyD)
  then show thesis
    using assms e
    by (intro that [OF e]) (auto simp: build_decision_record_def)
qed

lemma gate_inputsD:
  assumes "gate_inputs gate breaker = Inr inputs" "gate_blockers gate = Inr bs"
  shows "truthy (dget inputs ''global_real_run_enabled'') = truthy (dget gate ''real_run_enabled'')"
    and "truthy (dget inputs ''circuit_breaker_closed'') = breaker"
    and "truthy (dget inputs ''valid_lottery_target'') = truthy (dget gate ''target_valid'')"
    and "truthy (dget inputs ''action_plan_reviewed'')
           = (truthy (dget gate ''action_plan_ready'') \<and> \<not> list_ex plan_blocker bs)"
    and "truthy (dget inputs ''calibrated_account_available'')
           = (\<exists>n > 0. py_int (py_or (dget gate ''safe_accounts'') (PInt 0)) = Inr n)"
    and "truthy (dget inputs ''real_adapter_enabled'') = truthy (dget gate ''adapter_enabled'')"
    and "truthy (dget inputs ''recent_complete_probe'') = truthy (dget gate ''probe_ready'')"
    and "truthy (dget inputs ''recent_shadow_run'')
           = truthy (dget_default gate ''execution_preflight_ready'' (dget gate ''shadow_ready''))"
    and "truthy (dget inputs ''no_recent_account_risk'') = (PStr ''recent_account_risk_event'' \<notin> set bs)"
proof -
  obtain n where n: "py_int (py_or (dget gate ''safe_accounts'') (PInt 0)) = Inr n"
    using assms(1) by (auto simp: gate_inputs_def result_eqs)
  note i = assms(1) [unfolded gate_inputs_def assms(2) n rbind.simps, THEN sum.inject(2) [THEN iffD1], symmetric]
  show "truthy (dget inputs ''global_real_run_enabled'') = truthy (dget gate ''real_run_enabled'')"
    and "truthy (dget inputs ''circuit_breaker_closed'') = breaker"
    and "truthy (dget inputs ''valid_lottery_target'') = truthy (dget gate ''target_valid'')"
    and "truthy (dget inputs ''action_plan_reviewed'')
           = (truthy (dget gate ''action_plan_ready'') \<and> \<not> list_ex plan_blocker bs)"
    and "truthy (dget inputs ''calibrated_account_available'')
           = (\<exists>n > 0. py_int (py_or (dget gate ''safe_accounts'') (PInt 0)) = Inr n)"
    and "truthy (dget inputs ''real_adapter_enabled'') = truthy (dget gate ''adapter_enabled'')"
    and "truthy (dget inputs ''recent_complete_probe'') = truthy (dget gate ''probe_ready'')"
    and "truthy (dget inputs ''recent_shadow_run'')
           = truthy (dget_default gate ''execution_preflight_ready'' (dget gate ''shadow_ready''))"
    and "truthy (dget inputs ''no_recent_account_risk'') = (PStr ''recent_account_risk_event'' \<notin> set bs)"
    by (simp_all add: i n)
qed

lemma evaluate_real_run_decisionD:
  assumes "evaluate_real_run_decision env db lid platform rec = Inr (d, db')"
  obtains policy decision where
    "env_gate_status env (is_real_run_enabled (env_real_run env) (runtime_settings db)) = Inr (rr_gate d)"
    "load_active_policy (env_decode_utf8 env) (env_json_loads env) db REAL_RUN_GATE_POLICY_KEY = Inr policy"
    "gate_inputs (rr_gate d) (fst (circuit_breaker_allows (circuit_breakers db) platform)) = Inr (rr_inputs d)"
    "build_decision_record policy (rr_inputs d) ''lottery'' (Some (int_str lid)) = Inr decision"
    "rr_allowed d \<longleftrightarrow> dget decision ''outcome'' = PStr ''allow''"
    "rr_policy_version d = dget policy ''version''"
    "rr_decision_id d = (if rec then Some (env_uuid env) else None)"
    "db' = (if rec then record_policy_decision db (env_uuid env) policy (rr_inputs d) decision (int_str lid) else db)"
  using assms by (auto simp: evaluate_real_run_decision_def result_eqs Let_def)

text \<open>The evidence every allowing decision rests on, read off the readiness status.\<close>

definition gate_evidence :: "pydict \<Rightarrow> bool" where
  "gate_evidence gate \<longleftrightarrow>
     truthy (dget gate ''real_run_enabled'') \<and> truthy (dget gate ''target_valid'')
   \<and> truthy (dget gate ''action_plan_ready'') \<and> truthy (dget gate ''adapter_enabled'')
   \<and> truthy (dget gate ''probe_ready'')
   \<and> truthy (dget_default gate ''execution_preflight_ready'' (dget gate ''shadow_ready''))
   \<and> (\<exists>n > 0. py_int (py_or (dget gate ''safe_accounts'') (PInt 0)) = Inr n)
   \<and> (\<exists>bs. gate_blockers gate = Inr bs \<and> \<not> list_ex plan_blocker bs
         \<and> PStr ''recent_account_risk_event'' \<notin> set bs)"

lemma allow_evidence:
  assumes ev: "evaluate_policy policy (PDict inputs) = Inr d" "dec_outcome d = ''allow''"
    and key: "dget policy ''policy_key'' = PStr REAL_RUN_GATE_POLICY_KEY"
    and gi: "gate_inputs gate breaker = Inr inputs"
  shows "breaker \<and> gate_evidence gate"
proof -
  obtain bs where bs: "gate_blockers gate = Inr bs" using gi by (auto simp: gate_inputs_def result_eqs)
  have m: "truthy (dget inputs c)" if "c \<in> set MANDATORY_REAL_RUN_GATE_CODES" for c
    by (rule allow_needs_mandatory [OF ev(1) key ev(2) that])
  note c = m [unfolded MANDATORY_REAL_RUN_GATE_CODES_def]
  show ?thesis
    unfolding gate_evidence_def
    using c [of "''global_real_run_enabled''"] c [of "''circuit_breaker_closed''"]
      c [of "''valid_lottery_target''"] c [of "''action_plan_reviewed''"]
      c [of "''calibrated_account_available''"] c [of "''real_adapter_enabled''"]
      c [of "''recent_complete_probe''"] c [of "''recent_shadow_run''"] c [of "''no_recent_account_risk''"]
    by (simp add: gate_inputsD [OF gi bs] bs)
qed

section \<open>Properties\<close>

text \<open>
  C3. The real-run gate is fail-closed: whatever policy version is active (built in, custom, or
  written around the API), an allowed decision implies that the global and the platform circuit
  breakers are closed and that the readiness status carries every piece of mandatory evidence
  (switch on, valid target, reviewed plan with no rule blocker, a calibrated account, an enabled
  adapter, a probe, a rehearsal and no recent account risk).
\<close>

theorem real_run_allowed_is_safe:
  assumes "evaluate_real_run_decision env db lid platform rec = Inr (d, db')" "rr_allowed d"
  shows "(\<forall>b \<in> set (circuit_breakers db).
            br_scope b \<in> {''global'', ''platform:'' @ platform} \<longrightarrow> br_status b = ''closed'')
         \<and> gate_evidence (rr_gate d)"
  using assms(1)
proof (rule evaluate_real_run_decisionD)
  fix policy decision
  assume load: "load_active_policy (env_decode_utf8 env) (env_json_loads env) db REAL_RUN_GATE_POLICY_KEY = Inr policy"
    and gi: "gate_inputs (rr_gate d) (fst (circuit_breaker_allows (circuit_breakers db) platform)) = Inr (rr_inputs d)"
    and b: "build_decision_record policy (rr_inputs d) ''lottery'' (Some (int_str lid)) = Inr decision"
    and al: "rr_allowed d \<longleftrightarrow> dget decision ''outcome'' = PStr ''allow''"
  from b obtain e where "evaluate_policy policy (PDict (rr_inputs d)) = Inr e"
    "dget decision ''outcome'' = PStr (dec_outcome e)" by (rule build_decision_recordD)
  then have "fst (circuit_breaker_allows (circuit_breakers db) platform) \<and> gate_evidence (rr_gate d)"
    using al assms(2) by (intro allow_evidence [OF _ _ loaded_policy_key [OF load] gi]) auto
  then show ?thesis by (simp add: breaker_open_blocks)
qed

definition ready_gate :: pydict where
  "ready_gate = [(''real_run_enabled'', PBool True), (''target_valid'', PBool True),
     (''action_plan_ready'', PBool True), (''adapter_enabled'', PBool True), (''probe_ready'', PBool True),
     (''shadow_ready'', PBool True), (''safe_accounts'', PInt 1), (''blockers'', PList [])]"

definition demo_env :: gate_env where
  "demo_env = \<lparr>env_real_run = True, env_decode_utf8 = Some, env_json_loads = (\<lambda>_. None),
     env_gate_status = (\<lambda>on. Inr ((''real_run_enabled'', PBool on) # tl ready_gate)), env_uuid = ''d1''\<rparr>"

definition demo_db :: gov_db where
  "demo_db = \<lparr>policy_versions = [], policy_decisions = [],
     circuit_breakers = [\<lparr>br_scope = ''global'', br_status = ''closed'', br_reason = None\<rparr>],
     runtime_settings = [(''real_run_enabled'', ''true'')]\<rparr>"

theorem real_run_allowed_is_safe_witness:
  "\<exists>d db'. evaluate_real_run_decision demo_env demo_db 7 ''weibo'' True = Inr (d, db') \<and> rr_allowed d
     \<and> gate_evidence (rr_gate d)"
proof -
  have "(case evaluate_real_run_decision demo_env demo_db 7 ''weibo'' True of Inl _ \<Rightarrow> False | Inr r \<Rightarrow> rr_allowed (fst r))"
    by code_simp
  then obtain d db' where r: "evaluate_real_run_decision demo_env demo_db 7 ''weibo'' True = Inr (d, db')" "rr_allowed d"
    by (cases "evaluate_real_run_decision demo_env demo_db 7 ''weibo'' True") auto
  with real_run_allowed_is_safe [OF r] show ?thesis by blast
qed

text \<open>
  C30. A recorded decision is replayable: the row the gate appends carries the returned decision
  id, and replaying its stored inputs under the policy that decided it reproduces the recorded
  outcome and version.
\<close>

theorem recorded_decision_replays:
  assumes "evaluate_real_run_decision env db lid platform True = Inr (d, db')"
  shows "\<exists>policy row rep.
    load_active_policy (env_decode_utf8 env) (env_json_loads env) db REAL_RUN_GATE_POLICY_KEY = Inr policy
    \<and> policy_decisions db' = policy_decisions db @ [row]
    \<and> rr_decision_id d = Some (pd_decision_id row)
    \<and> (rr_allowed d \<longleftrightarrow> pd_outcome row = PStr ''allow'')
    \<and> replay_decision policy [(''inputs'', PDict (pd_inputs row)), (''outcome'', pd_outcome row),
          (''policy_version'', pd_policy_version row)] = Inr rep
    \<and> rep_matches rep \<and> rep_version_matches rep"
  using assms
proof (rule evaluate_real_run_decisionD)
  fix policy decision
  assume load: "load_active_policy (env_decode_utf8 env) (env_json_loads env) db REAL_RUN_GATE_POLICY_KEY = Inr policy"
    and b: "build_decision_record policy (rr_inputs d) ''lottery'' (Some (int_str lid)) = Inr decision"
    and al: "rr_allowed d \<longleftrightarrow> dget decision ''outcome'' = PStr ''allow''"
    and idd: "rr_decision_id d = (if True then Some (env_uuid env) else None)"
    and db': "db' = (if True then record_policy_decision db (env_uuid env) policy (rr_inputs d) decision (int_str lid) else db)"
  from b obtain e where "evaluate_policy policy (PDict (rr_inputs d)) = Inr e"
    "dget decision ''outcome'' = PStr (dec_outcome e)" by (rule build_decision_recordD)
  with load al idd db' show ?thesis
    by (auto simp: record_policy_decision_def replay_decision_def)
qed

theorem recorded_decision_replays_witness:
  "\<exists>d db' row. evaluate_real_run_decision demo_env demo_db 7 ''weibo'' True = Inr (d, db')
     \<and> policy_decisions db' = [row] \<and> pd_decision_id row = ''d1''"
proof -
  have "(case evaluate_real_run_decision demo_env demo_db 7 ''weibo'' True of Inl _ \<Rightarrow> False
         | Inr r \<Rightarrow> rr_decision_id (fst r) = Some ''d1'')"
    by code_simp
  then obtain d db' where r: "evaluate_real_run_decision demo_env demo_db 7 ''weibo'' True = Inr (d, db')"
    "rr_decision_id d = Some ''d1''"
    by (cases "evaluate_real_run_decision demo_env demo_db 7 ''weibo'' True") auto
  have "policy_decisions demo_db = []" by (simp add: demo_db_def)
  with recorded_decision_replays [OF r(1)] r show ?thesis by auto
qed

text \<open>
  C31. A malformed active policy fails closed: when the active row of the real-run policy cannot
  be decoded, names another policy, or does not validate, no decision is produced at all.
\<close>

theorem malformed_active_policy_fails_closed:
  assumes "active_row db REAL_RUN_GATE_POLICY_KEY = Some row"
    and "\<And>p es. as_policy_dict (env_decode_utf8 env) (env_json_loads env) (pv_definition row) = Some p \<Longrightarrow>
           dget p ''policy_key'' = PStr REAL_RUN_GATE_POLICY_KEY \<Longrightarrow> validate_policy p \<noteq> Inr (True, es)"
  shows "\<exists>e. evaluate_real_run_decision env db lid platform rec = Inl e"
proof (rule ccontr)
  assume "\<not> ?thesis"
  then obtain d db' where "evaluate_real_run_decision env db lid platform rec = Inr (d, db')"
    by (cases "evaluate_real_run_decision env db lid platform rec") auto
  then obtain policy where
    load: "load_active_policy (env_decode_utf8 env) (env_json_loads env) db REAL_RUN_GATE_POLICY_KEY = Inr policy"
    by (rule evaluate_real_run_decisionD)
  then have "as_policy_dict (env_decode_utf8 env) (env_json_loads env) (pv_definition row) = Some policy"
    using assms(1) by (auto simp: load_active_policy_def result_eqs split: option.splits if_splits)
  with assms(2) loaded_policy_key [OF load] loaded_policy_valid [OF load] show False by blast
qed

theorem malformed_active_policy_fails_closed_witness:
  "\<exists>e. evaluate_real_run_decision demo_env
     (demo_db\<lparr>policy_versions := [\<lparr>pv_policy_key = ''real_run_gate'', pv_version = 2,
        pv_definition = SVal (PDict [(''policy_key'', PStr ''other'')]), pv_active = True\<rparr>]\<rparr>) 7 ''weibo'' True = Inl e"
proof -
  let ?row = "\<lparr>pv_policy_key = ''real_run_gate'', pv_version = 2,
        pv_definition = SVal (PDict [(''policy_key'', PStr ''other'')]), pv_active = True\<rparr>"
  let ?db = "demo_db\<lparr>policy_versions := [?row]\<rparr>"
  have a: "active_row ?db REAL_RUN_GATE_POLICY_KEY = Some ?row" by code_simp
  show ?thesis
    by (rule malformed_active_policy_fails_closed [OF a])
       (auto simp: as_policy_dict_def REAL_RUN_GATE_POLICY_KEY_def)
qed

text \<open>
  A custom real-run policy can only be stricter than the built-in one: evidence that any
  real-run policy allows is also allowed by the default policy.
\<close>

theorem custom_policy_only_stricter:
  assumes "dget policy ''policy_key'' = PStr REAL_RUN_GATE_POLICY_KEY"
    and "evaluate_policy policy (PDict inputs) = Inr d" "dec_outcome d = ''allow''"
  shows "\<exists>d0. evaluate_policy DEFAULT_REAL_RUN_POLICY (PDict inputs) = Inr d0 \<and> dec_outcome d0 = ''allow''"
proof -
  obtain d0 where d0: "evaluate_policy DEFAULT_REAL_RUN_POLICY (PDict inputs) = Inr d0"
    using validated_evaluates [OF default_policy_valid] by blast
  have "gate_present (PDict inputs) g" if gm: "g \<in> set MANDATORY_REAL_RUN_GATES" for g
  proof -
    obtain c where c: "c \<in> set MANDATORY_REAL_RUN_GATE_CODES" "dget g ''code'' = PStr c"
      using mandatory_gate_code [OF gm] by blast
    have "truthy (dget inputs c)" by (rule allow_needs_mandatory [OF assms(2,1,3) c(1)])
    with c(2) show ?thesis by (simp add: gate_present_def)
  qed
  then show ?thesis using evaluate_policy_allow_iff [OF d0 effective_default] d0 by blast
qed

theorem custom_policy_only_stricter_witness:
  "\<exists>d0. evaluate_policy DEFAULT_REAL_RUN_POLICY (PDict (map (\<lambda>c. (c, PBool True)) MANDATORY_REAL_RUN_GATE_CODES))
     = Inr d0 \<and> dec_outcome d0 = ''allow''"
proof -
  let ?p = "[(''policy_key'', PStr REAL_RUN_GATE_POLICY_KEY), (''gates'', PList [])]"
  let ?i = "map (\<lambda>c. (c, PBool True)) MANDATORY_REAL_RUN_GATE_CODES"
  have k: "dget ?p ''policy_key'' = PStr REAL_RUN_GATE_POLICY_KEY" by simp
  have "(case evaluate_policy ?p (PDict ?i) of Inl _ \<Rightarrow> False | Inr d \<Rightarrow> dec_outcome d = ''allow'')" by code_simp
  then obtain d where d: "evaluate_policy ?p (PDict ?i) = Inr d" "dec_outcome d = ''allow''"
    by (cases "evaluate_policy ?p (PDict ?i)") auto
  show ?thesis by (rule custom_policy_only_stricter [OF k d])
qed

text \<open>
  The policy gate is not a superset of the readiness blockers: a status that lists a blocker
  outside the three action-plan prefixes and the account-risk code, and whose flags are set, is
  allowed, although the readiness check itself (\<open>allowed: not blockers\<close>) rejects it.
\<close>

theorem unmapped_blocker_is_allowed:
  "\<exists>inputs d. gate_inputs ready_gate True = Inr inputs
     \<and> gate_inputs ((''blockers'', PList [PStr ''execution_account_not_ready'']) # ready_gate) True = Inr inputs
     \<and> evaluate_policy DEFAULT_REAL_RUN_POLICY (PDict inputs) = Inr d \<and> dec_outcome d = ''allow''"
proof -
  let ?g = "(''blockers'', PList [PStr ''execution_account_not_ready'']) # ready_gate"
  have same: "gate_inputs ?g True = gate_inputs ready_gate True" by code_simp
  have "(case gate_inputs ?g True of Inl _ \<Rightarrow> False | Inr i \<Rightarrow>
          (case evaluate_policy DEFAULT_REAL_RUN_POLICY (PDict i) of Inl _ \<Rightarrow> False | Inr d \<Rightarrow> dec_outcome d = ''allow''))"
    by code_simp
  then show ?thesis by (simp add: same split: sum.splits)
qed

end
