(* ===== verification/Governance.thy ===== *)
theory Governance
  imports Transition RealRunGate
begin

text \<open>
  The governance handlers that change which policy is in force
  (\<open>core/app/api/governance.py\<close>): publishing a version as a recorded transition and activating a
  published version, with their authorisation, their audit and event entries, and the handler
  that replays a recorded decision. No transaction spans a handler: each statement commits on its own, so a handler in flight is
  a value of \<open>handler\<close>, the statement it executes next, and handlers interleave statement by statement and may stop
  anywhere. The invariant of this state machine is what the real-run gate relies on when it loads the active policy.
\<close>

section \<open>State and requests\<close>

record transition_row =
  tr_id :: int
  tr_policy_key :: string
  tr_from_version :: pyval
  tr_to_version :: int
  tr_reason_code :: string
  tr_classification :: classification
  tr_rollback_condition :: string
  tr_loosening_justification :: "string option"
  tr_requires_extra_review :: bool
  tr_activated :: bool

record gov_state = gov_db +
  policy_transitions :: "transition_row list"
  audit_logs :: "(string \<times> string \<times> string) list"
  gov_events :: "(string \<times> string) list"

record publish_request =
  pub_policy_key :: string
  pub_definition :: pydict
  pub_reason_code :: string
  pub_rollback_condition :: string
  pub_loosening_justification :: "string option"

datatype api_error = Api_http http_error | Invalid_policy "policy_problem list" | Policy_key_mismatch
  | Load_failed gov_error | Invalid_transition "transition_problem list" | Already_published | Duplicate_version
  | Version_not_found | No_transition_record | Api_py py_error

definition via :: "('e \<Rightarrow> api_error) \<Rightarrow> ('e, 'a) result \<Rightarrow> (api_error, 'a) result" where
  "via f r = (case r of Inl e \<Rightarrow> Inl (f e) | Inr x \<Rightarrow> Inr x)"

text \<open>The version number of a validated policy.\<close>

definition policy_version :: "pydict \<Rightarrow> int" where
  "policy_version policy = (case int_of (dget policy ''version'') of Some v \<Rightarrow> v | None \<Rightarrow> 0)"

section \<open>Handlers in flight\<close>

text \<open>
  The statement a handler executes next, with what it has read so far. Publishing: look for the version, insert it, insert its
  transition, write the audit entry and the event. Activating: look for the transition and for the version in force, take every
  version of the key out of force, put the new one in force, date the transition, write the audit entry and the event. Of each handler the first read is
  done by the function that starts it.
\<close>

datatype handler =
    Check_version string publish_request pydict
  | Insert_version string publish_request pydict classification
  | Insert_transition string publish_request pydict classification
  | Audit_publish string publish_request classification
  | Event_publish publish_request classification
  | Find_transition string string int bool
  | Find_active string string int int
  | Deactivate string string int int "int option"
  | Set_active string string int int "int option"
  | Mark_transition string string int int "int option"
  | Audit_activate string string "int option"
  | Event_activate string "int option"

datatype response = Published classification | Already_active | Activated "int option"

definition publish_begin :: "string \<Rightarrow> gate_env \<Rightarrow> request \<Rightarrow> publish_request \<Rightarrow> gov_state \<Rightarrow> (api_error, handler) result" where
  "publish_begin admin_token env req data db =
     rbind (via Api_http (require_min_role admin_token req ''admin'')) (\<lambda>actor.
     rbind (via Api_http (require_confirmation req)) (\<lambda>_.
     let to_policy = pub_definition data in
     rbind (via Api_py (validate_policy to_policy)) (\<lambda>(valid, errors).
     if \<not> valid then Inl (Invalid_policy errors)
     else if dget to_policy ''policy_key'' \<noteq> PStr (pub_policy_key data) then Inl Policy_key_mismatch
     else
     rbind (via Load_failed (load_active_policy (env_decode_utf8 env) (env_json_loads env)
              (gov_db.truncate db) (pub_policy_key data))) (\<lambda>from_policy.
     rbind (via Api_py (validate_transition from_policy to_policy (pub_reason_code data)
              (Some (pub_rollback_condition data)) (pub_loosening_justification data))) (\<lambda>(tvalid, terrors).
     if \<not> tvalid then Inl (Invalid_transition terrors)
     else Inr (Check_version (actor_id actor) data from_policy))))))"

definition activate_begin :: "string \<Rightarrow> request \<Rightarrow> string \<Rightarrow> int \<Rightarrow> gov_state \<Rightarrow> (api_error, handler) result" where
  "activate_begin admin_token req key version db =
     rbind (via Api_http (require_min_role admin_token req ''admin'')) (\<lambda>actor.
     rbind (via Api_http (require_confirmation req)) (\<lambda>_.
     case fetch_one (\<lambda>r. pv_policy_key r = key \<and> pv_version r = version) (policy_versions db) of
       None \<Rightarrow> Inl Version_not_found
     | Some target \<Rightarrow> Inr (Find_transition (actor_id actor) key version (pv_active target))))"

definition published :: "publish_request \<Rightarrow> gov_state \<Rightarrow> bool" where
  "published data db \<longleftrightarrow> (\<exists>r \<in> set (policy_versions db). pv_policy_key r = pub_policy_key data
     \<and> pv_version r = policy_version (pub_definition data))"

definition version_row :: "publish_request \<Rightarrow> policy_version_row" where
  "version_row data = \<lparr>pv_policy_key = pub_policy_key data, pv_version = policy_version (pub_definition data),
     pv_definition = SVal (PDict (pub_definition data)), pv_active = False\<rparr>"

definition transition_row_of :: "int \<Rightarrow> publish_request \<Rightarrow> pydict \<Rightarrow> classification \<Rightarrow> transition_row" where
  "transition_row_of i data from_policy cls = \<lparr>tr_id = i, tr_policy_key = pub_policy_key data, tr_from_version = dget from_policy ''version'',
     tr_to_version = policy_version (pub_definition data), tr_reason_code = pub_reason_code data,
     tr_classification = cls, tr_rollback_condition = pub_rollback_condition data,
     tr_loosening_justification = pub_loosening_justification data,
     tr_requires_extra_review = (cls = Loosening), tr_activated = False\<rparr>"

text \<open>\<open>AUTO_INCREMENT\<close>.\<close>

definition next_transition_id :: "gov_state \<Rightarrow> int" where
  "next_transition_id db = 1 + fold max (map tr_id (policy_transitions db)) 0"

text \<open>
  One statement: the next one, or the answer of the handler, and the tables. The table of versions has the unique
  key \<open>(policy_key, version)\<close>, so an insert may still fail after the check.
\<close>

fun advance :: "handler \<Rightarrow> gov_state \<Rightarrow> (api_error, (handler + response) \<times> gov_state) result" where
  "advance (Check_version actor data from_policy) db =
     (if published data db then Inl Already_published
      else rmap (\<lambda>diff. (Inl (Insert_version actor data from_policy (classify_transition diff)), db))
        (via Api_py (diff_policies from_policy (pub_definition data))))"
| "advance (Insert_version actor data from_policy cls) db =
     (if published data db then Inl Duplicate_version
      else Inr (Inl (Insert_transition actor data from_policy cls), db\<lparr>policy_versions := policy_versions db @ [version_row data]\<rparr>))"
| "advance (Insert_transition actor data from_policy cls) db =
     Inr (Inl (Audit_publish actor data cls), db\<lparr>policy_transitions := policy_transitions db
       @ [transition_row_of (next_transition_id db) data from_policy cls]\<rparr>)"
| "advance (Audit_publish actor data cls) db =
     Inr (Inl (Event_publish data cls), db\<lparr>audit_logs := audit_logs db
       @ [(''governance.policy_publish'', actor, if cls = Loosening then ''high'' else ''medium'')]\<rparr>)"
| "advance (Event_publish data cls) db =
     Inr (Inr (Published cls), db\<lparr>gov_events := gov_events db @ [(pub_policy_key data, ''PolicyVersionPublished'')]\<rparr>)"
| "advance (Find_transition actor key version is_active) db =
     (case fetch_one (\<lambda>t. tr_policy_key t = key \<and> tr_to_version t = version) (policy_transitions db) of
        None \<Rightarrow> Inl No_transition_record
      | Some t \<Rightarrow> Inr (if is_active then Inr Already_active else Inl (Find_active actor key version (tr_id t)), db))"
| "advance (Find_active actor key version tid) db =
     Inr (Inl (Deactivate actor key version tid (map_option pv_version (active_row (gov_db.truncate db) key))), db)"
| "advance (Deactivate actor key version tid previous) db =
     Inr (Inl (Set_active actor key version tid previous), db\<lparr>policy_versions :=
       update_where (\<lambda>r. pv_policy_key r = key \<and> pv_active r) (\<lambda>r. r\<lparr>pv_active := False\<rparr>) (policy_versions db)\<rparr>)"
| "advance (Set_active actor key version tid previous) db =
     Inr (Inl (Mark_transition actor key version tid previous), db\<lparr>policy_versions :=
       update_where (\<lambda>r. pv_policy_key r = key \<and> pv_version r = version) (\<lambda>r. r\<lparr>pv_active := True\<rparr>) (policy_versions db)\<rparr>)"
| "advance (Mark_transition actor key version tid previous) db =
     Inr (Inl (Audit_activate actor key previous), db\<lparr>policy_transitions :=
       update_where (\<lambda>t. tr_id t = tid) (\<lambda>t. t\<lparr>tr_activated := True\<rparr>) (policy_transitions db)\<rparr>)"
| "advance (Audit_activate actor key previous) db =
     Inr (Inl (Event_activate key previous), db\<lparr>audit_logs := audit_logs db @ [(''governance.policy_activate'', actor, ''high'')]\<rparr>)"
| "advance (Event_activate key previous) db =
     Inr (Inr (Activated previous), db\<lparr>gov_events := gov_events db @ [(key, ''PolicyVersionActivated'')]\<rparr>)"

text \<open>A handler that nothing interrupts: every statement moves it closer to its answer.\<close>

fun statements_left :: "handler \<Rightarrow> nat" where
  "statements_left (Check_version _ _ _) = 5"
| "statements_left (Insert_version _ _ _ _) = 4"
| "statements_left (Insert_transition _ _ _ _) = 3"
| "statements_left (Audit_publish _ _ _) = 2"
| "statements_left (Event_publish _ _) = 1"
| "statements_left (Find_transition _ _ _ _) = 7"
| "statements_left (Find_active _ _ _ _) = 6"
| "statements_left (Deactivate _ _ _ _ _) = 5"
| "statements_left (Set_active _ _ _ _ _) = 4"
| "statements_left (Mark_transition _ _ _ _ _) = 3"
| "statements_left (Audit_activate _ _ _) = 2"
| "statements_left (Event_activate _ _) = 1"

lemma advance_closer: "advance h db = Inr (Inl h', db') \<Longrightarrow> statements_left h = Suc (statements_left h')"
  by (cases h) (auto simp: rmap_eq_Inr split: if_splits option.splits)

function run_handler :: "handler \<Rightarrow> gov_state \<Rightarrow> (api_error, response \<times> gov_state) result" where
  "run_handler h db = (case advance h db of
     Inl e \<Rightarrow> Inl e | Inr (Inl h', db') \<Rightarrow> run_handler h' db' | Inr (Inr r, db') \<Rightarrow> Inr (r, db'))"
  by auto
termination by (relation "measure (\<lambda>(h, db). statements_left h)") (auto dest: advance_closer)

declare run_handler.simps [simp del]

definition publish_policy_version ::
  "string \<Rightarrow> gate_env \<Rightarrow> request \<Rightarrow> publish_request \<Rightarrow> gov_state \<Rightarrow> (api_error, response \<times> gov_state) result" where
  "publish_policy_version admin_token env req data db = rbind (publish_begin admin_token env req data db) (\<lambda>h. run_handler h db)"

definition activate_policy_version :: "string \<Rightarrow> request \<Rightarrow> string \<Rightarrow> int \<Rightarrow> gov_state \<Rightarrow> (api_error, response \<times> gov_state) result" where
  "activate_policy_version admin_token req key version db = rbind (activate_begin admin_token req key version db) (\<lambda>h. run_handler h db)"

definition replay_recorded_decision ::
  "gate_env \<Rightarrow> gov_state \<Rightarrow> string \<Rightarrow> (api_error, replay) result" where
  "replay_recorded_decision env db decision_id =
     (case fetch_one (\<lambda>r. pd_decision_id r = decision_id) (policy_decisions db) of
       None \<Rightarrow> Inl Version_not_found
     | Some row \<Rightarrow>
         (case pd_policy_key row of
           PStr key \<Rightarrow>
             rbind (via Load_failed (load_active_policy (env_decode_utf8 env) (env_json_loads env)
                      (gov_db.truncate db) key)) (\<lambda>policy.
             via Api_py (replay_decision policy
               [(''inputs'', PDict (pd_inputs row)), (''outcome'', pd_outcome row),
                (''policy_version'', pd_policy_version row)]))
         | _ \<Rightarrow> Inl Version_not_found))"

section \<open>The state machine\<close>

text \<open>
  The tables and the handlers in flight. A step starts a handler, lets one execute its next statement, loses one (it raised, or
  the process stopped: what it has written stays), or records a decision. With \<open>serial\<close> no activation starts while another
  one is in flight.
\<close>

record gov_run =
  gr_db :: gov_state
  gr_handlers :: "handler list"

fun activating :: "handler \<Rightarrow> bool" where
  "activating (Find_transition _ _ _ _) = True"
| "activating (Find_active _ _ _ _) = True"
| "activating (Deactivate _ _ _ _ _) = True"
| "activating (Set_active _ _ _ _ _) = True"
| "activating (Mark_transition _ _ _ _ _) = True"
| "activating (Audit_activate _ _ _) = True"
| "activating (Event_activate _ _) = True"
| "activating _ = False"

datatype gov_op = Publish request publish_request | Activate request string int | Advance handler
  | Answer handler | Lose handler | Decide int string

inductive gov_step :: "bool \<Rightarrow> string \<Rightarrow> gate_env \<Rightarrow> gov_run \<Rightarrow> gov_op \<Rightarrow> gov_run \<Rightarrow> bool"
  for serial :: bool and admin_token :: string and env :: gate_env where
  publish: "publish_begin admin_token env req data db = Inr h \<Longrightarrow>
     gov_step serial admin_token env \<lparr>gr_db = db, gr_handlers = hs\<rparr> (Publish req data) \<lparr>gr_db = db, gr_handlers = h # hs\<rparr>"
| activate: "activate_begin admin_token req key v db = Inr h \<Longrightarrow> \<not> (serial \<and> (\<exists>g \<in> set hs. activating g)) \<Longrightarrow>
     gov_step serial admin_token env \<lparr>gr_db = db, gr_handlers = hs\<rparr> (Activate req key v) \<lparr>gr_db = db, gr_handlers = h # hs\<rparr>"
| advance: "h \<in> set hs \<Longrightarrow> advance h db = Inr (Inl h', db') \<Longrightarrow>
     gov_step serial admin_token env \<lparr>gr_db = db, gr_handlers = hs\<rparr> (Advance h)
       \<lparr>gr_db = db', gr_handlers = h' # remove1 h hs\<rparr>"
| answer: "h \<in> set hs \<Longrightarrow> advance h db = Inr (Inr r, db') \<Longrightarrow>
     gov_step serial admin_token env \<lparr>gr_db = db, gr_handlers = hs\<rparr> (Answer h) \<lparr>gr_db = db', gr_handlers = remove1 h hs\<rparr>"
| lose: "h \<in> set hs \<Longrightarrow>
     gov_step serial admin_token env \<lparr>gr_db = db, gr_handlers = hs\<rparr> (Lose h) \<lparr>gr_db = db, gr_handlers = remove1 h hs\<rparr>"
| decide: "evaluate_real_run_decision env (gov_db.truncate db) lid platform True = Inr (d, g) \<Longrightarrow>
     gov_step serial admin_token env \<lparr>gr_db = db, gr_handlers = hs\<rparr> (Decide lid platform)
       \<lparr>gr_db = db\<lparr>policy_decisions := policy_decisions g\<rparr>, gr_handlers = hs\<rparr>"

inductive_cases gov_stepE: "gov_step serial tok env s e t"

text \<open>A fresh installation holds the built-in policy as its first version, in force.\<close>

definition seed_row :: policy_version_row where
  "seed_row = \<lparr>pv_policy_key = REAL_RUN_GATE_POLICY_KEY, pv_version = policy_version DEFAULT_REAL_RUN_POLICY,
     pv_definition = SVal (PDict DEFAULT_REAL_RUN_POLICY), pv_active = True\<rparr>"

definition gov_init :: "gov_run \<Rightarrow> bool" where
  "gov_init s \<longleftrightarrow> policy_versions (gr_db s) = [seed_row] \<and> policy_transitions (gr_db s) = []
     \<and> policy_decisions (gr_db s) = [] \<and> gr_handlers s = []"

section \<open>What the tables hold\<close>

definition row_key :: "policy_version_row \<Rightarrow> string \<times> int" where
  "row_key r = (pv_policy_key r, pv_version r)"

definition tr_key :: "transition_row \<Rightarrow> string \<times> int" where
  "tr_key t = (tr_policy_key t, tr_to_version t)"

definition pub_key :: "publish_request \<Rightarrow> string \<times> int" where
  "pub_key data = (pub_policy_key data, policy_version (pub_definition data))"

text \<open>A row holds a validated definition of its key and version.\<close>

definition row_ok :: "policy_version_row \<Rightarrow> bool" where
  "row_ok r \<longleftrightarrow> (\<exists>p es. pv_definition r = SVal (PDict p) \<and> validate_policy p = Inr (True, es)
      \<and> dget p ''policy_key'' = PStr (pv_policy_key r) \<and> policy_version p = pv_version r)"

definition one_active :: "policy_version_row list \<Rightarrow> bool" where
  "one_active rows \<longleftrightarrow> (\<forall>r \<in> set rows. \<forall>r' \<in> set rows.
      pv_active r \<and> pv_active r' \<and> pv_policy_key r = pv_policy_key r' \<longrightarrow> r = r')"

text \<open>
  A transition is the validated step from a policy to this definition: its reason, rollback condition and justification
  passed the checks, and its classification is that of the difference of the two.
\<close>

definition transition_to :: "pydict \<Rightarrow> transition_row \<Rightarrow> bool" where
  "transition_to to_policy t \<longleftrightarrow> (\<exists>from_policy es es' diff. validate_policy from_policy = Inr (True, es)
     \<and> tr_from_version t = dget from_policy ''version''
     \<and> validate_transition from_policy to_policy (tr_reason_code t) (Some (tr_rollback_condition t))
         (tr_loosening_justification t) = Inr (True, es')
     \<and> diff_policies from_policy to_policy = Inr diff \<and> tr_classification t = classify_transition diff
     \<and> tr_requires_extra_review t = (tr_classification t = Loosening))"

definition governed :: "gov_state \<Rightarrow> policy_version_row \<Rightarrow> bool" where
  "governed db r \<longleftrightarrow> r = seed_row \<or> (\<exists>t \<in> set (policy_transitions db). \<exists>p. tr_key t = row_key r
     \<and> pv_definition r = SVal (PDict p) \<and> transition_to p t)"

definition tables_ok :: "gov_state \<Rightarrow> bool" where
  "tables_ok db \<longleftrightarrow> distinct (map row_key (policy_versions db)) \<and> (\<forall>r \<in> set (policy_versions db). row_ok r)
     \<and> (\<forall>t \<in> set (policy_transitions db). tr_key t \<in> row_key ` set (policy_versions db)
          \<and> (\<forall>r \<in> set (policy_versions db). row_key r = tr_key t \<longrightarrow> (\<exists>p. pv_definition r = SVal (PDict p) \<and> transition_to p t)))
     \<and> (\<forall>r \<in> set (policy_versions db). pv_active r \<longrightarrow> r = seed_row \<or> row_key r \<in> tr_key ` set (policy_transitions db))"

text \<open>What a handler has established before its next statement.\<close>

definition request_ok :: "publish_request \<Rightarrow> pydict \<Rightarrow> bool" where
  "request_ok data from_policy \<longleftrightarrow> (\<exists>es es' es''. validate_policy (pub_definition data) = Inr (True, es)
     \<and> dget (pub_definition data) ''policy_key'' = PStr (pub_policy_key data)
     \<and> validate_policy from_policy = Inr (True, es')
     \<and> validate_transition from_policy (pub_definition data) (pub_reason_code data)
         (Some (pub_rollback_condition data)) (pub_loosening_justification data) = Inr (True, es''))"

definition classified :: "publish_request \<Rightarrow> pydict \<Rightarrow> classification \<Rightarrow> bool" where
  "classified data from_policy cls \<longleftrightarrow> (\<exists>diff. diff_policies from_policy (pub_definition data) = Inr diff
     \<and> cls = classify_transition diff)"

fun handler_ok :: "gov_state \<Rightarrow> handler \<Rightarrow> bool" where
  "handler_ok db (Check_version _ data from_policy) \<longleftrightarrow> request_ok data from_policy"
| "handler_ok db (Insert_version _ data from_policy cls) \<longleftrightarrow> request_ok data from_policy \<and> classified data from_policy cls"
| "handler_ok db (Insert_transition _ data from_policy cls) \<longleftrightarrow> request_ok data from_policy \<and> classified data from_policy cls
     \<and> pub_key data \<in> row_key ` set (policy_versions db)
     \<and> (\<forall>r \<in> set (policy_versions db). row_key r = pub_key data \<longrightarrow> pv_definition r = SVal (PDict (pub_definition data)))"
| "handler_ok db (Find_active _ key version _) \<longleftrightarrow> (key, version) \<in> tr_key ` set (policy_transitions db)"
| "handler_ok db (Deactivate _ key version _ _) \<longleftrightarrow> (key, version) \<in> tr_key ` set (policy_transitions db)"
| "handler_ok db (Set_active _ key version _ _) \<longleftrightarrow> (key, version) \<in> tr_key ` set (policy_transitions db)"
| "handler_ok db _ \<longleftrightarrow> True"

definition gov_inv :: "gov_run \<Rightarrow> bool" where
  "gov_inv s \<longleftrightarrow> tables_ok (gr_db s) \<and> (\<forall>h \<in> set (gr_handlers s). handler_ok (gr_db s) h)"

section \<open>Every statement keeps the invariant\<close>

lemma via_Inr [simp]: "via f r = Inr x \<longleftrightarrow> r = Inr x"
  by (cases r) (auto simp: via_def)

lemma publish_beginD:
  assumes "publish_begin tok env req data db = Inr h"
  shows "\<exists>actor from_policy. h = Check_version actor data from_policy \<and> request_ok data from_policy"
  using assms by (auto simp: publish_begin_def request_ok_def result_eqs Let_def split: prod.splits if_splits
      dest: loaded_policy_valid)

lemma activate_beginD:
  "activate_begin tok req key v db = Inr h \<Longrightarrow> \<exists>actor b. h = Find_transition actor key v b"
  by (auto simp: activate_begin_def result_eqs split: option.splits)

lemma row_ok_active [simp]: "row_ok (r\<lparr>pv_active := b\<rparr>) = row_ok r"
  by (simp add: row_ok_def)

lemma row_key_active [simp]: "row_key (r\<lparr>pv_active := b\<rparr>) = row_key r"
  by (simp add: row_key_def)

lemma tr_key_activated [simp]: "tr_key (t\<lparr>tr_activated := b\<rparr>) = tr_key t"
  by (simp add: tr_key_def)

lemma transition_to_activated [simp]: "transition_to p (t\<lparr>tr_activated := b\<rparr>) = transition_to p t"
  by (simp add: transition_to_def)

lemma published_key: "published data db \<longleftrightarrow> pub_key data \<in> row_key ` set (policy_versions db)"
  by (force simp: published_def pub_key_def row_key_def)

lemma version_row_simps [simp]: "row_key (version_row data) = pub_key data"
  "pv_definition (version_row data) = SVal (PDict (pub_definition data))" "\<not> pv_active (version_row data)"
  by (simp_all add: version_row_def row_key_def pub_key_def)

lemma version_row_ok: "request_ok data from_policy \<Longrightarrow> row_ok (version_row data)"
  by (auto simp: row_ok_def version_row_def request_ok_def)

lemma transition_row_key [simp]: "tr_key (transition_row_of i data from_policy cls) = pub_key data"
  by (simp add: tr_key_def transition_row_of_def pub_key_def)

lemma transition_row_to:
  "request_ok data from_policy \<Longrightarrow> classified data from_policy cls \<Longrightarrow>
   transition_to (pub_definition data) (transition_row_of i data from_policy cls)"
  by (auto simp: transition_to_def transition_row_of_def request_ok_def classified_def)

text \<open>
  How the tables may change under a handler that is not looking: rows keep their definitions, new rows have new keys, and
  no transition disappears.
\<close>

definition extends :: "gov_state \<Rightarrow> gov_state \<Rightarrow> bool" where
  "extends db db' \<longleftrightarrow> row_key ` set (policy_versions db) \<subseteq> row_key ` set (policy_versions db')
     \<and> tr_key ` set (policy_transitions db) \<subseteq> tr_key ` set (policy_transitions db')
     \<and> (\<forall>r' \<in> set (policy_versions db'). row_key r' \<in> row_key ` set (policy_versions db) \<longrightarrow>
          (\<exists>r \<in> set (policy_versions db). row_key r = row_key r' \<and> pv_definition r = pv_definition r'))"

lemma handler_ok_mono: "handler_ok db h \<Longrightarrow> extends db db' \<Longrightarrow> handler_ok db' h"
proof (cases h)
  case (Insert_transition a data fp cls)
  assume ok: "handler_ok db h" and ext: "extends db db'"
  have "pv_definition r' = SVal (PDict (pub_definition data))"
    if r': "r' \<in> set (policy_versions db')" "row_key r' = pub_key data" for r'
  proof -
    obtain r where "r \<in> set (policy_versions db)" "row_key r = row_key r'" "pv_definition r = pv_definition r'"
      using ext r' ok Insert_transition by (auto simp: extends_def)
    with ok r'(2) Insert_transition show ?thesis by auto
  qed
  with ok ext Insert_transition show ?thesis by (auto simp: extends_def)
qed (auto simp: extends_def)

lemma extends_same: "policy_versions db' = policy_versions db \<Longrightarrow> policy_transitions db' = policy_transitions db \<Longrightarrow> extends db db'"
  by (auto simp: extends_def)

lemma extends_flag:
  assumes "policy_versions db' = update_where q (\<lambda>r. r\<lparr>pv_active := b\<rparr>) (policy_versions db)"
    and "policy_transitions db' = policy_transitions db"
  shows "extends db db'"
proof -
  have "map row_key (policy_versions db') = map row_key (policy_versions db)"
    by (simp add: assms map_update_where_same)
  then have "row_key ` set (policy_versions db') = row_key ` set (policy_versions db)" by (metis list.set_map)
  moreover have "\<exists>r \<in> set (policy_versions db). row_key r = row_key r' \<and> pv_definition r = pv_definition r'"
    if "r' \<in> set (policy_versions db')" for r'
    using that unfolding assms(1) by (rule in_update_whereE) auto
  ultimately show ?thesis by (simp add: extends_def assms(2))
qed

lemma tkeys_marked [simp]:
  "tr_key ` set (update_where q (\<lambda>t. t\<lparr>tr_activated := b\<rparr>) ts) = tr_key ` set ts"
  by (induction ts) auto

lemma advance_extends: "advance h db = Inr (x, db') \<Longrightarrow> extends db db'"
proof (cases h)
  case (Deactivate a key v tid prev)
  assume "advance h db = Inr (x, db')"
  with Deactivate show ?thesis by (intro extends_flag) auto
next
  case (Set_active a key v tid prev)
  assume "advance h db = Inr (x, db')"
  with Set_active show ?thesis by (intro extends_flag) auto
qed (auto simp: extends_def rmap_eq_Inr published_key split: if_splits option.splits)

lemma advance_handler_ok:
  "handler_ok db h \<Longrightarrow> advance h db = Inr (Inl h', db') \<Longrightarrow> handler_ok db' h'"
  by (cases h) (auto 0 3 simp: rmap_eq_Inr rev_image_eqI classified_def published_key tr_key_def dest!: fetch_one_SomeD
      split: if_splits option.splits)

lemma tables_ok_flag:
  assumes ok: "tables_ok db" and rows: "policy_versions db' = update_where q (\<lambda>r. r\<lparr>pv_active := b\<rparr>) (policy_versions db)"
    and trs: "policy_transitions db' = policy_transitions db"
    and b: "b \<Longrightarrow> \<forall>r. q r \<longrightarrow> row_key r \<in> tr_key ` set (policy_transitions db)"
  shows "tables_ok db'"
proof -
  have keys: "map row_key (policy_versions db') = map row_key (policy_versions db)"
    by (simp add: rows map_update_where_same)
  then have kset: "row_key ` set (policy_versions db') = row_key ` set (policy_versions db)" by (metis list.set_map)
  have "\<forall>r \<in> set (policy_versions db'). row_ok r"
    using ok unfolding rows by (intro update_where_all) (auto simp: tables_ok_def)
  moreover have "\<exists>p. pv_definition r = SVal (PDict p) \<and> transition_to p t"
    if "t \<in> set (policy_transitions db)" "r \<in> set (policy_versions db')" "row_key r = tr_key t" for t r
    using that(2) unfolding rows by (rule in_update_whereE) (use ok that(1,3) in \<open>auto simp: tables_ok_def\<close>)
  moreover have "r = seed_row \<or> row_key r \<in> tr_key ` set (policy_transitions db)"
    if "r \<in> set (policy_versions db')" "pv_active r" for r
    using that(1) unfolding rows by (rule in_update_whereE) (use ok that(2) b in \<open>auto simp: tables_ok_def\<close>)
  ultimately show ?thesis using ok by (simp add: tables_ok_def keys kset trs)
qed

lemma tables_ok_same:
  "tables_ok db \<Longrightarrow> policy_versions db' = policy_versions db \<Longrightarrow> policy_transitions db' = policy_transitions db \<Longrightarrow> tables_ok db'"
  by (simp add: tables_ok_def)

lemma advance_tables_ok:
  assumes ok: "tables_ok db" "handler_ok db h" and adv: "advance h db = Inr (x, db')"
  shows "tables_ok db'"
proof (cases h)
  case (Insert_version a data fp cls)
  then have db': "policy_versions db' = policy_versions db @ [version_row data]" "policy_transitions db' = policy_transitions db"
    and new: "pub_key data \<notin> row_key ` set (policy_versions db)"
    using adv by (auto simp: published_key split: if_splits)
  moreover have "row_ok (version_row data)" using ok(2) Insert_version version_row_ok by auto
  ultimately show ?thesis using ok(1) by (auto simp: tables_ok_def)
next
  case (Insert_transition a data fp cls)
  then have "transition_to (pub_definition data) (transition_row_of i data fp cls)" for i
    using ok(2) transition_row_to by auto
  then show ?thesis using ok adv Insert_transition by (auto simp: tables_ok_def)
next
  case (Deactivate a key v tid prev)
  with adv ok show ?thesis by (intro tables_ok_flag [OF ok(1), where b = False]) auto
next
  case (Set_active a key v tid prev)
  with adv ok show ?thesis by (intro tables_ok_flag [OF ok(1), where b = True]) (auto simp: row_key_def)
next
  case (Mark_transition a key v tid prev)
  then have db': "policy_versions db' = policy_versions db"
    "policy_transitions db' = update_where (\<lambda>t. tr_id t = tid) (\<lambda>t. t\<lparr>tr_activated := True\<rparr>) (policy_transitions db)"
    using adv by auto
  have "\<forall>t \<in> set (policy_transitions db'). tr_key t \<in> row_key ` set (policy_versions db)
      \<and> (\<forall>r \<in> set (policy_versions db). row_key r = tr_key t \<longrightarrow> (\<exists>p. pv_definition r = SVal (PDict p) \<and> transition_to p t))"
    using ok(1) unfolding db'(2) by (intro update_where_all) (auto simp: tables_ok_def)
  then show ?thesis using ok(1) by (simp add: tables_ok_def db'(1)) (simp add: db'(2))
qed (use adv ok(1) in \<open>auto simp: rmap_eq_Inr intro: tables_ok_same split: if_splits option.splits\<close>)

lemma policy_version_default: "policy_version DEFAULT_REAL_RUN_POLICY = 1"
  by code_simp

lemma seed_row_ok: "row_ok seed_row"
  unfolding row_ok_def
  by (intro exI [of _ DEFAULT_REAL_RUN_POLICY] exI [of _ "[]"])
    (simp add: seed_row_def default_policy_valid, simp add: DEFAULT_REAL_RUN_POLICY_def)

lemma gov_init_inv: "gov_init s \<Longrightarrow> gov_inv s"
  by (simp add: gov_init_def gov_inv_def tables_ok_def seed_row_ok)

lemma gov_step_inv:
  assumes "gov_inv s" "gov_step serial tok env s e t"
  shows "gov_inv t"
  using assms(2)
proof (rule gov_stepE)
  fix req data db h hs
  assume "publish_begin tok env req data db = Inr h" "s = \<lparr>gr_db = db, gr_handlers = hs\<rparr>" "t = \<lparr>gr_db = db, gr_handlers = h # hs\<rparr>"
  then show ?thesis using assms(1) by (auto simp: gov_inv_def dest!: publish_beginD)
next
  fix req key v db h hs
  assume "activate_begin tok req key v db = Inr h" "s = \<lparr>gr_db = db, gr_handlers = hs\<rparr>" "t = \<lparr>gr_db = db, gr_handlers = h # hs\<rparr>"
  then show ?thesis using assms(1) by (auto simp: gov_inv_def dest!: activate_beginD)
next
  fix h hs db h' db'
  assume "h \<in> set hs" "advance h db = Inr (Inl h', db')"
    and "s = \<lparr>gr_db = db, gr_handlers = hs\<rparr>" "t = \<lparr>gr_db = db', gr_handlers = h' # remove1 h hs\<rparr>"
  then show ?thesis using assms(1)
    by (auto simp: gov_inv_def intro: advance_tables_ok advance_handler_ok
        dest: set_remove1_subset [THEN subsetD] elim: handler_ok_mono [OF _ advance_extends])
next
  fix h hs db r db'
  assume "h \<in> set hs" "advance h db = Inr (Inr r, db')"
    and "s = \<lparr>gr_db = db, gr_handlers = hs\<rparr>" "t = \<lparr>gr_db = db', gr_handlers = remove1 h hs\<rparr>"
  then show ?thesis using assms(1)
    by (auto simp: gov_inv_def intro: advance_tables_ok dest: set_remove1_subset [THEN subsetD] elim: handler_ok_mono [OF _ advance_extends])
next
  fix h hs db
  assume "s = \<lparr>gr_db = db, gr_handlers = hs\<rparr>" "t = \<lparr>gr_db = db, gr_handlers = remove1 h hs\<rparr>"
  then show ?thesis using assms(1) by (auto simp: gov_inv_def dest: set_remove1_subset [THEN subsetD])
next
  fix lid platform d g db hs
  assume "s = \<lparr>gr_db = db, gr_handlers = hs\<rparr>" "t = \<lparr>gr_db = db\<lparr>policy_decisions := policy_decisions g\<rparr>, gr_handlers = hs\<rparr>"
  then show ?thesis using assms(1)
    by (auto simp: gov_inv_def intro: tables_ok_same handler_ok_mono [OF _ extends_same])
qed

interpretation governance: invariant_system gov_init "gov_step serial tok env" gov_inv for serial tok env
  by unfold_locales (fact gov_init_inv gov_step_inv)+

text \<open>
  When activations do not overlap, at most one version of a key is in force, and none while the new one is about to be put in
  force.
\<close>

fun between_updates :: "gov_state \<Rightarrow> handler \<Rightarrow> bool" where
  "between_updates db (Set_active _ key _ _ _) \<longleftrightarrow> (\<forall>r \<in> set (policy_versions db). pv_policy_key r = key \<longrightarrow> \<not> pv_active r)"
| "between_updates db _ \<longleftrightarrow> True"

definition serial_inv :: "gov_run \<Rightarrow> bool" where
  "serial_inv s \<longleftrightarrow> gov_inv s \<and> length (filter activating (gr_handlers s)) \<le> 1
     \<and> (\<forall>h \<in> set (gr_handlers s). between_updates (gr_db s) h) \<and> one_active (policy_versions (gr_db s))"

text \<open>A statement of a handler that activates nothing leaves the versions in force as they are.\<close>

lemma advance_publication_rows:
  assumes "\<not> activating h" "advance h db = Inr (x, db')"
  obtains rows where "policy_versions db' = policy_versions db @ rows" "\<forall>r \<in> set rows. \<not> pv_active r"
  using assms by (cases h) (auto simp: rmap_eq_Inr split: if_splits)

lemma between_updates_publication:
  "policy_versions db' = policy_versions db @ rows \<Longrightarrow> \<forall>r \<in> set rows. \<not> pv_active r \<Longrightarrow>
   between_updates db g \<Longrightarrow> between_updates db' g"
  by (cases g) auto

lemma advance_not_activating:
  assumes "\<not> activating h" "advance h db = Inr (x, db')"
  shows "one_active (policy_versions db) \<Longrightarrow> one_active (policy_versions db')"
    and "between_updates db g \<Longrightarrow> between_updates db' g"
    and "x = Inl h' \<Longrightarrow> \<not> activating h'"
proof -
  obtain rows where rows: "policy_versions db' = policy_versions db @ rows" "\<forall>r \<in> set rows. \<not> pv_active r"
    using assms by (rule advance_publication_rows)
  show "one_active (policy_versions db) \<Longrightarrow> one_active (policy_versions db')"
    using rows by (auto simp: one_active_def)
  show "between_updates db g \<Longrightarrow> between_updates db' g" using rows by (rule between_updates_publication)
  show "x = Inl h' \<Longrightarrow> \<not> activating h'" using assms by (cases h) (auto simp: rmap_eq_Inr split: if_splits)
qed

lemma between_updates_trivial: "\<not> activating g \<Longrightarrow> between_updates db g"
  by (cases g) auto

lemma one_active_set:
  assumes one: "one_active rows" and d: "distinct (map row_key rows)"
    and off: "\<forall>r \<in> set rows. pv_policy_key r = key \<longrightarrow> \<not> pv_active r"
  shows "one_active (update_where (\<lambda>r. pv_policy_key r = key \<and> pv_version r = v) (\<lambda>r. r\<lparr>pv_active := True\<rparr>) rows)"
    (is "one_active ?rows")
  unfolding one_active_def
proof (intro ballI impI)
  fix x y assume xy: "x \<in> set ?rows" "y \<in> set ?rows" "pv_active x \<and> pv_active y \<and> pv_policy_key x = pv_policy_key y"
  have c: "pv_policy_key z = key \<and> pv_version z = v \<or> z \<in> set rows \<and> pv_policy_key z \<noteq> key"
    if "z \<in> set ?rows" "pv_active z" for z
    using that(1) by (rule in_update_whereE) (use off that(2) in auto)
  have dd: "distinct (map row_key ?rows)" using d by (simp add: map_update_where_same)
  show "x = y"
  proof (cases "pv_policy_key x = key")
    case True
    then have "row_key x = row_key y" using c [of x] c [of y] xy by (auto simp: row_key_def)
    with dd xy show ?thesis by (blast intro: distinct_map_eqD)
  next
    case False
    with c [of x] c [of y] xy one show ?thesis by (auto simp: one_active_def)
  qed
qed

lemma one_active_clear: "one_active rows \<Longrightarrow>
  one_active (update_where (\<lambda>r. pv_policy_key r = key \<and> pv_active r) (\<lambda>r. r\<lparr>pv_active := False\<rparr>) rows)"
  by (auto simp: one_active_def set_update_where)

lemma advance_other:
  "activating h \<Longrightarrow> advance h db = Inr (x, db') \<Longrightarrow>
     policy_versions db' = policy_versions db \<and> (\<forall>h'. x = Inl h' \<longrightarrow> between_updates db' h')
   \<or> (\<exists>a key v tid prev. h = Deactivate a key v tid prev) \<or> (\<exists>a key v tid prev. h = Set_active a key v tid prev)"
  by (cases h) (auto split: option.splits if_splits)

lemma advance_activating:
  assumes "activating h" and adv: "advance h db = Inr (x, db')"
    and one: "one_active (policy_versions db)" and d: "distinct (map row_key (policy_versions db))"
    and b: "between_updates db h"
  shows "one_active (policy_versions db') \<and> (\<forall>h'. x = Inl h' \<longrightarrow> between_updates db' h')"
  using advance_other [OF assms(1,2)]
proof (elim disjE exE)
  fix a key v tid prev assume h: "h = Deactivate a key v tid prev"
  have off: "\<forall>r \<in> set (update_where (\<lambda>r. pv_policy_key r = key \<and> pv_active r) (\<lambda>r. r\<lparr>pv_active := False\<rparr>) rows).
      pv_policy_key r = key \<longrightarrow> \<not> pv_active r" for rows
    by (induction rows) auto
  have "x = Inl (Set_active a key v tid prev)" "policy_versions db' =
      update_where (\<lambda>r. pv_policy_key r = key \<and> pv_active r) (\<lambda>r. r\<lparr>pv_active := False\<rparr>) (policy_versions db)"
    using adv [unfolded h] by auto
  then show ?thesis using one_active_clear [OF one, of key] off by simp
next
  fix a key v tid prev assume h: "h = Set_active a key v tid prev"
  have "x = Inl (Mark_transition a key v tid prev)" "policy_versions db' =
      update_where (\<lambda>r. pv_policy_key r = key \<and> pv_version r = v) (\<lambda>r. r\<lparr>pv_active := True\<rparr>) (policy_versions db)"
    using adv [unfolded h] by auto
  then show ?thesis using one_active_set [OF one d, of key v] b [unfolded h] by simp
qed (simp add: one)

lemma only_activating:
  assumes "length (filter activating hs) \<le> 1" "h \<in> set hs" "activating h" "g \<in> set (remove1 h hs)"
  shows "\<not> activating g"
proof -
  have "length (filter activating (remove1 h hs)) = 0"
    using assms(1-3) by (simp add: filter_remove1 length_remove1)
  with assms(4) show ?thesis by (simp add: filter_empty_conv)
qed

lemma filter_remove1_le: "length (filter p (remove1 x xs)) \<le> length (filter p xs)"
  by (induction xs) auto

lemma serial_advance:
  assumes inv: "serial_inv \<lparr>gr_db = db, gr_handlers = hs\<rparr>" and h: "h \<in> set hs" and adv: "advance h db = Inr (x, db')"
  shows "one_active (policy_versions db') \<and> (\<forall>g \<in> set (remove1 h hs). between_updates db' g)
    \<and> (\<forall>h'. x = Inl h' \<longrightarrow> between_updates db' h' \<and> length (filter activating (h' # remove1 h hs)) \<le> 1)"
proof -
  from inv have le: "length (filter activating hs) \<le> 1" and one: "one_active (policy_versions db)"
    and d: "distinct (map row_key (policy_versions db))" and b: "\<forall>g \<in> set hs. between_updates db g"
    by (auto simp: serial_inv_def gov_inv_def tables_ok_def)
  have rest: "\<forall>g \<in> set (remove1 h hs). between_updates db g" using b set_remove1_subset by fastforce
  have le': "length (filter activating (remove1 h hs)) \<le> 1"
    using filter_remove1_le [of activating h hs] le by linarith
  show ?thesis
  proof (cases "activating h")
    case True
    note a = advance_activating [OF True adv one d bspec [OF b h]]
    have none: "\<forall>g \<in> set (remove1 h hs). \<not> activating g" using only_activating [OF le h True] by blast
    then have "filter activating (remove1 h hs) = []" by (simp add: filter_empty_conv)
    with a none show ?thesis by (auto intro: between_updates_trivial)
  next
    case False
    note n = advance_not_activating [OF False adv]
    with one rest le' show ?thesis by (auto intro: between_updates_trivial)
  qed
qed

lemma serial_step_inv:
  assumes "serial_inv s" "gov_step True tok env s e t"
  shows "serial_inv t"
proof -
  have inv: "gov_inv t" using assms gov_step_inv by (auto simp: serial_inv_def)
  show ?thesis using assms(2)
  proof (rule gov_step.cases)
    fix h hs db h' db'
    assume "h \<in> set hs" "advance h db = Inr (Inl h', db')"
      and st: "s = \<lparr>gr_db = db, gr_handlers = hs\<rparr>" "t = \<lparr>gr_db = db', gr_handlers = h' # remove1 h hs\<rparr>"
    with serial_advance [of db hs h "Inl h'" db'] assms(1) have "one_active (policy_versions db')"
      "\<forall>g \<in> set (remove1 h hs). between_updates db' g" "between_updates db' h'"
      "length (filter activating (h' # remove1 h hs)) \<le> 1" by blast+
    with inv show ?thesis by (simp add: serial_inv_def st)
  next
    fix h hs db r db'
    assume "h \<in> set hs" "advance h db = Inr (Inr r, db')"
      and st: "s = \<lparr>gr_db = db, gr_handlers = hs\<rparr>" "t = \<lparr>gr_db = db', gr_handlers = remove1 h hs\<rparr>"
    with serial_advance [of db hs h "Inr r" db'] assms(1) have "one_active (policy_versions db')"
      "\<forall>g \<in> set (remove1 h hs). between_updates db' g" by blast+
    with inv assms(1) filter_remove1_le [of activating h hs] show ?thesis by (simp add: serial_inv_def st)
  next
    fix req key v db h hs
    assume "activate_begin tok req key v db = Inr h" "\<not> (True \<and> (\<exists>g \<in> set hs. activating g))"
      and st: "s = \<lparr>gr_db = db, gr_handlers = hs\<rparr>" "t = \<lparr>gr_db = db, gr_handlers = h # hs\<rparr>"
    with inv assms(1) show ?thesis
      by (auto simp: serial_inv_def st filter_empty_conv dest!: activate_beginD)
  next
    fix req data db h hs
    assume "publish_begin tok env req data db = Inr h"
      and st: "s = \<lparr>gr_db = db, gr_handlers = hs\<rparr>" "t = \<lparr>gr_db = db, gr_handlers = h # hs\<rparr>"
    with inv assms(1) show ?thesis by (auto simp: serial_inv_def st dest!: publish_beginD)
  next
    fix h hs db
    assume st: "s = \<lparr>gr_db = db, gr_handlers = hs\<rparr>" "t = \<lparr>gr_db = db, gr_handlers = remove1 h hs\<rparr>"
    with inv assms(1) filter_remove1_le [of activating h hs] show ?thesis
      by (auto simp: serial_inv_def st dest: set_remove1_subset [THEN subsetD])
  next
    fix lid platform d g db hs
    assume st: "s = \<lparr>gr_db = db, gr_handlers = hs\<rparr>" "t = \<lparr>gr_db = db\<lparr>policy_decisions := policy_decisions g\<rparr>, gr_handlers = hs\<rparr>"
    have "between_updates (db\<lparr>policy_decisions := x\<rparr>) h = between_updates db h" for h x by (cases h) auto
    with inv assms(1) show ?thesis by (simp add: serial_inv_def st)
  qed
qed

interpretation serial_governance: invariant_system gov_init "gov_step True tok env" serial_inv for tok env
proof unfold_locales
  fix s assume "gov_init s"
  then show "serial_inv s" using gov_init_inv by (auto simp: serial_inv_def gov_init_def one_active_def)
qed (fact serial_step_inv)

lemma truncate_versions [simp]: "policy_versions (gov_db.truncate db) = policy_versions db"
  by (simp add: gov_db.truncate_def)

lemma tables_load:
  assumes "tables_ok db"
  shows "\<exists>p. load_active_policy dec ld (gov_db.truncate db) REAL_RUN_GATE_POLICY_KEY = Inr p"
proof (cases "active_row (gov_db.truncate db) REAL_RUN_GATE_POLICY_KEY")
  case None
  then show ?thesis by (simp add: load_active_policy_def)
next
  case (Some r)
  then have r: "r \<in> set (policy_versions db)" "pv_policy_key r = REAL_RUN_GATE_POLICY_KEY"
    by (auto simp: active_row_def dest!: newest_in)
  with assms obtain p es where "pv_definition r = SVal (PDict p)" "validate_policy p = Inr (True, es)"
    "dget p ''policy_key'' = PStr REAL_RUN_GATE_POLICY_KEY"
    by (auto simp: tables_ok_def row_ok_def)
  with Some show ?thesis by (auto simp: load_active_policy_def as_policy_dict_def lift_py_def)
qed

lemma tables_governed:
  assumes "tables_ok db" "r \<in> set (policy_versions db)" "pv_active r"
  shows "governed db r"
  using assms unfolding tables_ok_def governed_def by (metis imageE)

lemma transition_to_loosening:
  "transition_to p t \<Longrightarrow> tr_classification t = Loosening \<Longrightarrow>
   tr_requires_extra_review t \<and> \<not> blank (tr_loosening_justification t)"
  by (auto simp: transition_to_def validate_transition_def Let_def result_eqs split: if_splits)

section \<open>What is in force\<close>

text \<open>No statement of a publication changes which policy is in force.\<close>

lemma publication_keeps_active_policy:
  assumes "\<not> activating h" "advance h db = Inr (x, db')"
  shows "active_row (gov_db.truncate db') key = active_row (gov_db.truncate db) key"
  using assms by (rule advance_publication_rows) (simp add: active_row_def filter_empty_conv)

lemma advance_reachable:
  assumes "reachable gov_init (gov_step serial tok env) \<lparr>gr_db = db, gr_handlers = h # hs\<rparr>"
    and "advance h db = Inr (Inl h', db')"
  shows "reachable gov_init (gov_step serial tok env) \<lparr>gr_db = db', gr_handlers = h' # hs\<rparr>"
proof -
  have "reachable gov_init (gov_step serial tok env) \<lparr>gr_db = db', gr_handlers = h' # remove1 h (h # hs)\<rparr>"
    using assms(1) by (rule reach_step) (rule gov_step.advance [OF _ assms(2)], simp)
  then show ?thesis by simp
qed

text \<open>A handler nothing interrupts is a path of steps.\<close>

lemma run_reachable:
  "reachable gov_init (gov_step serial tok env) \<lparr>gr_db = db, gr_handlers = h # hs\<rparr> \<Longrightarrow> run_handler h db = Inr (r, db') \<Longrightarrow>
   reachable gov_init (gov_step serial tok env) \<lparr>gr_db = db', gr_handlers = hs\<rparr>"
proof (induction h db rule: run_handler.induct)
  case (1 h db)
  show ?case
  proof (cases "advance h db")
    case (Inl e)
    with 1(3) show ?thesis by (simp add: run_handler.simps)
  next
    case (Inr p)
    then obtain x db1 where adv: "advance h db = Inr (x, db1)" by (cases p) auto
    show ?thesis
    proof (cases x)
      case (Inl h')
      from advance_reachable [OF 1(2) adv [unfolded Inl]] 1 adv Inl show ?thesis by (simp add: run_handler.simps)
    next
      case (Inr r')
      have "reachable gov_init (gov_step serial tok env) \<lparr>gr_db = db1, gr_handlers = remove1 h (h # hs)\<rparr>"
        using 1(2) by (rule reach_step) (rule gov_step.answer [OF _ adv [unfolded Inr]], simp)
      with 1(3) adv Inr show ?thesis by (simp add: run_handler.simps)
    qed
  qed
qed

lemma publish_reachable:
  assumes "reachable gov_init (gov_step serial tok env) \<lparr>gr_db = db, gr_handlers = hs\<rparr>"
    and "publish_policy_version tok env req data db = Inr (r, db')"
  shows "reachable gov_init (gov_step serial tok env) \<lparr>gr_db = db', gr_handlers = hs\<rparr>"
proof -
  obtain h where h: "publish_begin tok env req data db = Inr h" "run_handler h db = Inr (r, db')"
    using assms(2) by (auto simp: publish_policy_version_def rbind_eq_Inr)
  show ?thesis by (rule run_reachable [OF reach_step [OF assms(1) gov_step.publish [OF h(1)]] h(2)])
qed

lemma activate_reachable:
  assumes "reachable gov_init (gov_step serial tok env) \<lparr>gr_db = db, gr_handlers = hs\<rparr>"
    and "\<not> (serial \<and> (\<exists>g \<in> set hs. activating g))"
    and "activate_policy_version tok req key v db = Inr (r, db')"
  shows "reachable gov_init (gov_step serial tok env) \<lparr>gr_db = db', gr_handlers = hs\<rparr>"
proof -
  obtain h where h: "activate_begin tok req key v db = Inr h" "run_handler h db = Inr (r, db')"
    using assms(3) by (auto simp: activate_policy_version_def rbind_eq_Inr)
  show ?thesis by (rule run_reachable [OF reach_step [OF assms(1) gov_step.activate [OF h(1) assms(2)]] h(2)])
qed

definition demo_gov :: gov_state where
  "demo_gov = \<lparr>policy_versions = [seed_row], policy_decisions = [], circuit_breakers = [],
     runtime_settings = [], policy_transitions = [], audit_logs = [], gov_events = []\<rparr>"

definition demo_request :: request where
  "demo_request = \<lparr>req_headers = [(''x-admin-token'', ''t''), (''x-confirm-action'', ''true'')],
     req_state_actor = None, req_client_host = None\<rparr>"

definition demo_publish :: "int \<Rightarrow> publish_request" where
  "demo_publish v = \<lparr>pub_policy_key = REAL_RUN_GATE_POLICY_KEY,
     pub_definition = (''version'', PInt v) # DEFAULT_REAL_RUN_POLICY,
     pub_reason_code = ''manual_review'', pub_rollback_condition = ''incident'',
     pub_loosening_justification = None\<rparr>"

lemma seed_reachable: "reachable gov_init (gov_step serial tok env) \<lparr>gr_db = demo_gov, gr_handlers = []\<rparr>"
  by (rule reach_init) (simp add: gov_init_def demo_gov_def)

section \<open>Properties\<close>

text \<open>
  C5. From a fresh installation, however publications, activations and decisions interleave statement by statement and
  wherever handlers stop: the active policy always loads; the versions of a key are distinct and hold validated definitions; a
  version in force is the seeded one or has its recorded transition, the checked step from a validated policy to exactly this definition,
  which when it loosens is justified in writing and flagged for extra review. If activations do not overlap, at most one
  version of a key is in force.
\<close>

theorem active_policy_is_governed:
  assumes "reachable gov_init (gov_step serial tok env) s"
  shows "(\<exists>p. load_active_policy dec ld (gov_db.truncate (gr_db s)) REAL_RUN_GATE_POLICY_KEY = Inr p)
    \<and> distinct (map row_key (policy_versions (gr_db s))) \<and> (\<forall>r \<in> set (policy_versions (gr_db s)). row_ok r)
    \<and> (\<forall>r \<in> set (policy_versions (gr_db s)). pv_active r \<longrightarrow> r = seed_row \<or>
         (\<exists>t \<in> set (policy_transitions (gr_db s)). \<exists>p. tr_policy_key t = pv_policy_key r \<and> tr_to_version t = pv_version r
            \<and> pv_definition r = SVal (PDict p) \<and> transition_to p t
            \<and> (tr_classification t = Loosening \<longrightarrow> tr_requires_extra_review t \<and> \<not> blank (tr_loosening_justification t))))
    \<and> (serial \<longrightarrow> one_active (policy_versions (gr_db s)))"
proof (intro conjI ballI impI)
  have ok: "tables_ok (gr_db s)" using governance.inv_reachable [OF assms] by (simp add: gov_inv_def)
  then show "\<exists>p. load_active_policy dec ld (gov_db.truncate (gr_db s)) REAL_RUN_GATE_POLICY_KEY = Inr p"
    by (rule tables_load)
  show "distinct (map row_key (policy_versions (gr_db s)))" "\<And>r. r \<in> set (policy_versions (gr_db s)) \<Longrightarrow> row_ok r"
    using ok by (simp_all add: tables_ok_def)
  fix r assume "r \<in> set (policy_versions (gr_db s))" "pv_active r"
  then have "governed (gr_db s) r" using ok by (intro tables_governed)
  then show "r = seed_row \<or> (\<exists>t \<in> set (policy_transitions (gr_db s)). \<exists>p. tr_policy_key t = pv_policy_key r
      \<and> tr_to_version t = pv_version r \<and> pv_definition r = SVal (PDict p) \<and> transition_to p t
      \<and> (tr_classification t = Loosening \<longrightarrow> tr_requires_extra_review t \<and> \<not> blank (tr_loosening_justification t)))"
    unfolding governed_def using transition_to_loosening by (auto simp: tr_key_def row_key_def)
next
  assume serial
  with assms have "serial_inv s" by (simp add: serial_governance.inv_reachable)
  then show "one_active (policy_versions (gr_db s))" by (simp add: serial_inv_def)
qed

definition demo_second :: "(api_error, gov_state) result" where
  "demo_second = rbind (publish_policy_version ''t'' demo_env demo_request (demo_publish 2) demo_gov) (\<lambda>(_, db).
     rmap snd (activate_policy_version ''t'' demo_request REAL_RUN_GATE_POLICY_KEY 2 db))"

lemma demo_second_active:
  obtains db where "demo_second = Inr db"
    and "map (\<lambda>r. (pv_version r, pv_active r)) (policy_versions db) = [(1, False), (2, True)]"
proof -
  have c: "case demo_second of Inl _ \<Rightarrow> False | Inr db \<Rightarrow>
      map (\<lambda>r. (pv_version r, pv_active r)) (policy_versions db) = [(1, False), (2, True)]"
    by code_simp
  show thesis
  proof (cases demo_second)
    case (Inr db)
    from Inr c [unfolded Inr sum.case] show thesis by (rule that)
  next
    case (Inl e)
    from c [unfolded Inl sum.case] show thesis ..
  qed
qed

lemma demo_second_reachable:
  assumes "demo_second = Inr db"
  shows "reachable gov_init (gov_step serial ''t'' demo_env) \<lparr>gr_db = db, gr_handlers = []\<rparr>"
proof -
  obtain r r' db1 where "publish_policy_version ''t'' demo_env demo_request (demo_publish 2) demo_gov = Inr (r, db1)"
    and a: "activate_policy_version ''t'' demo_request REAL_RUN_GATE_POLICY_KEY 2 db1 = Inr (r', db)"
    using assms by (auto simp: demo_second_def rbind_eq_Inr rmap_eq_Inr)
  then have "reachable gov_init (gov_step serial ''t'' demo_env) \<lparr>gr_db = db1, gr_handlers = []\<rparr>"
    by (intro publish_reachable [OF seed_reachable])
  then show ?thesis by (rule activate_reachable) (use a in simp_all)
qed

theorem active_policy_is_governed_witness:
  "\<exists>s. reachable gov_init (gov_step True ''t'' demo_env) s \<and> one_active (policy_versions (gr_db s))
     \<and> (\<exists>r \<in> set (policy_versions (gr_db s)). pv_active r \<and> r \<noteq> seed_row
          \<and> (\<exists>t \<in> set (policy_transitions (gr_db s)). tr_to_version t = pv_version r))"
proof -
  obtain db where d: "demo_second = Inr db"
    and rows: "map (\<lambda>r. (pv_version r, pv_active r)) (policy_versions db) = [(1, False), (2, True)]"
    by (rule demo_second_active)
  let ?s = "\<lparr>gr_db = db, gr_handlers = []\<rparr>"
  note reach = demo_second_reachable [OF d]
  have "\<exists>r \<in> set (policy_versions db). pv_version r = 2 \<and> pv_active r"
    using rows by (auto simp: map_eq_Cons_conv)
  then obtain r where r: "r \<in> set (policy_versions db)" "pv_version r = 2" "pv_active r" by blast
  then have seed: "r \<noteq> seed_row" by (auto simp: seed_row_def policy_version_default)
  have mem: "r \<in> set (policy_versions (gr_db ?s))" using r(1) by simp
  have one: "one_active (policy_versions (gr_db ?s))" using active_policy_is_governed [OF reach] by blast
  have "\<exists>t \<in> set (policy_transitions (gr_db ?s)). tr_to_version t = pv_version r"
    using active_policy_is_governed [OF reach] mem r(3) seed by blast
  then show ?thesis by (intro exI [of _ ?s] conjI [OF reach] conjI [OF one] bexI [OF _ mem] conjI [OF r(3)] conjI [OF seed])
qed

section \<open>What goes wrong\<close>

text \<open>
  A publication that stops between its two inserts leaves a version that can never be activated, has no transition, nor published
  again; and as the next version is always the one after the version in force, no other can be published either.
\<close>

lemma advanced_version:
  assumes "publish_begin tok env req data db = Inr h" "active_row (gov_db.truncate db) (pub_policy_key data) = Some r" "row_ok r"
  shows "\<exists>actor from_policy. h = Check_version actor data from_policy \<and> policy_version (pub_definition data) = pv_version r + 1"
proof -
  obtain p where p: "pv_definition r = SVal (PDict p)" "policy_version p = pv_version r"
    using assms(3) by (auto simp: row_ok_def)
  have "load_active_policy dec ld (gov_db.truncate db) (pub_policy_key data) = Inr q \<Longrightarrow> q = p" for dec ld q
    using assms(2) p(1) by (auto simp: load_active_policy_def as_policy_dict_def rbind_eq_Inr split: if_splits prod.splits)
  moreover have "policy_version to = policy_version q + 1"
    if "validate_transition q to rc rb j = Inr (True, es)" for q to rc rb j es
    using that by (auto simp: validate_transition_def version_increments_def policy_version_def Let_def rmap_eq_Inr
        split: option.splits if_splits)
  ultimately show ?thesis
    using assms(1) p(2) by (auto simp: publish_begin_def rbind_eq_Inr Let_def split: if_splits prod.splits)
qed

lemma interrupted_publication_blocks_publishing:
  assumes "active_row (gov_db.truncate db) (pub_policy_key data) = Some r" "row_ok r"
    and "(pub_policy_key data, pv_version r + 1) \<in> row_key ` set (policy_versions db)"
  shows "publish_policy_version tok env req data db \<noteq> Inr x"
proof
  assume "publish_policy_version tok env req data db = Inr x"
  then obtain h where h: "publish_begin tok env req data db = Inr h" "run_handler h db = Inr x"
    by (auto simp: publish_policy_version_def rbind_eq_Inr)
  from advanced_version [OF h(1) assms(1,2)] obtain actor fp where "h = Check_version actor data fp" "pub_key data = (pub_policy_key data, pv_version r + 1)"
    by (auto simp: pub_key_def)
  with h(2) assms(3) show False by (simp add: run_handler.simps published_key)
qed

lemma activation_needs_transition:
  assumes "(key, v) \<notin> tr_key ` set (policy_transitions db)"
  shows "activate_policy_version tok req key v db \<noteq> Inr x"
proof
  assume "activate_policy_version tok req key v db = Inr x"
  then obtain h where h: "activate_begin tok req key v db = Inr h" "run_handler h db = Inr x"
    by (auto simp: activate_policy_version_def rbind_eq_Inr)
  from activate_beginD [OF h(1)] obtain actor b where "h = Find_transition actor key v b" by auto
  moreover have "fetch_one (\<lambda>t. tr_policy_key t = key \<and> tr_to_version t = v) (policy_transitions db) = None"
    using assms by (auto simp: fetch_one_None tr_key_def image_iff)
  ultimately show False using h(2) by (simp add: run_handler.simps)
qed

lemma interrupted_publication_wedges:
  "\<exists>s. reachable gov_init (gov_step True ''t'' demo_env) s \<and> gr_handlers s = []
     \<and> (\<forall>tok env req data x. pub_policy_key data = REAL_RUN_GATE_POLICY_KEY \<longrightarrow>
          publish_policy_version tok env req data (gr_db s) \<noteq> Inr x)
     \<and> (\<forall>tok req v x. activate_policy_version tok req REAL_RUN_GATE_POLICY_KEY v (gr_db s) \<noteq> Inr x)"
proof -
  let ?R = "reachable gov_init (gov_step True ''t'' demo_env)"
  have "case publish_begin ''t'' demo_env demo_request (demo_publish 2) demo_gov of Inl _ \<Rightarrow> False | Inr _ \<Rightarrow> True" by code_simp
  then obtain h where h: "publish_begin ''t'' demo_env demo_request (demo_publish 2) demo_gov = Inr h" by (auto split: sum.splits)
  have act: "active_row (gov_db.truncate demo_gov) REAL_RUN_GATE_POLICY_KEY = Some seed_row" by code_simp
  have key: "pub_policy_key (demo_publish 2) = REAL_RUN_GATE_POLICY_KEY" by (simp add: demo_publish_def)
  from advanced_version [OF h] act key seed_row_ok obtain a fp where hc: "h = Check_version a (demo_publish 2) fp" by fastforce
  have "handler_ok demo_gov h" using publish_beginD [OF h] by auto
  then obtain diff where diff: "diff_policies fp (pub_definition (demo_publish 2)) = Inr diff"
    by (auto simp: hc request_ok_def validate_transition_def Let_def rmap_eq_Inr)
  let ?db = "demo_gov\<lparr>policy_versions := [seed_row, version_row (demo_publish 2)]\<rparr>"
  let ?i = "Insert_version a (demo_publish 2) fp (classify_transition diff)"
  let ?t = "Insert_transition a (demo_publish 2) fp (classify_transition diff)"
  have v2: "pub_key (demo_publish 2) = (REAL_RUN_GATE_POLICY_KEY, 2)" by code_simp
  have new: "\<not> published (demo_publish 2) demo_gov" by code_simp
  have "?R \<lparr>gr_db = demo_gov, gr_handlers = [h]\<rparr>"
    by (rule reach_step [OF seed_reachable]) (rule gov_step.publish [OF h])
  then have "?R \<lparr>gr_db = demo_gov, gr_handlers = ?i # remove1 h [h]\<rparr>"
    by (rule reach_step) (rule gov_step.advance, use hc new diff in \<open>simp_all add: via_def\<close>)
  then have "?R \<lparr>gr_db = ?db, gr_handlers = ?t # remove1 ?i (?i # remove1 h [h])\<rparr>"
    by (rule reach_step) (rule gov_step.advance, use new in \<open>simp_all add: demo_gov_def\<close>)
  then have "?R \<lparr>gr_db = ?db, gr_handlers = remove1 ?t (?t # remove1 ?i (?i # remove1 h [h]))\<rparr>"
    by (rule reach_step) (rule gov_step.lose, simp)
  then have r: "?R \<lparr>gr_db = ?db, gr_handlers = []\<rparr>" by simp
  have "active_row (gov_db.truncate ?db) REAL_RUN_GATE_POLICY_KEY = Some seed_row"
    using act by (auto simp: active_row_def demo_gov_def seed_row_def)
  moreover have "(REAL_RUN_GATE_POLICY_KEY, pv_version seed_row + 1) \<in> row_key ` set (policy_versions ?db)"
    by (simp add: v2 seed_row_def policy_version_default)
  ultimately have "publish_policy_version tok env req data ?db \<noteq> Inr x"
    if "pub_policy_key data = REAL_RUN_GATE_POLICY_KEY" for tok env req data x
    using that seed_row_ok by (intro interrupted_publication_blocks_publishing [of _ _ seed_row]) simp_all
  moreover have "activate_policy_version tok req REAL_RUN_GATE_POLICY_KEY v ?db \<noteq> Inr x" for tok req v x
    by (rule activation_needs_transition) (simp add: demo_gov_def)
  ultimately show ?thesis using r by (intro exI [of _ "\<lparr>gr_db = ?db, gr_handlers = []\<rparr>"]) simp
qed

text \<open>
  Two activations that overlap, the second taking the versions out of force before the first puts its own in force, leave both
  versions in force: the gate then reads the higher one, so the activation of the lower one has no effect.
\<close>

definition demo_third :: "(api_error, (handler \<times> gov_state)) result" where
  "demo_third = rbind demo_second (\<lambda>db.
     rbind (publish_policy_version ''t'' demo_env demo_request (demo_publish 3) db) (\<lambda>(_, db).
     rmap (\<lambda>h. (h, db)) (activate_begin ''t'' demo_request REAL_RUN_GATE_POLICY_KEY 3 db)))"

definition next_statement :: "(api_error, handler \<times> gov_state) result \<Rightarrow> (api_error, handler \<times> gov_state) result" where
  "next_statement r = rbind r (\<lambda>(h, db). rbind (advance h db) (\<lambda>(x, db). case x of Inl h \<Rightarrow> Inr (h, db) | Inr _ \<Rightarrow> Inl Version_not_found))"

definition demo_overlap :: "(api_error, gov_state) result" where
  "demo_overlap = rbind (next_statement (next_statement (next_statement demo_third))) (\<lambda>(h, db).
     rbind (activate_policy_version ''t'' demo_request REAL_RUN_GATE_POLICY_KEY 2 db) (\<lambda>(_, db). rmap snd (run_handler h db)))"

lemma demo_overlap_active:
  "case demo_overlap of Inl _ \<Rightarrow> False | Inr db \<Rightarrow> \<not> one_active (policy_versions db)"
  by code_simp

lemma next_statement_reachable:
  assumes "\<And>h db. r = Inr (h, db) \<Longrightarrow> reachable gov_init (gov_step serial tok env) \<lparr>gr_db = db, gr_handlers = [h]\<rparr>"
    and "next_statement r = Inr (h', db')"
  shows "reachable gov_init (gov_step serial tok env) \<lparr>gr_db = db', gr_handlers = [h']\<rparr>"
proof -
  obtain h db x db1 where "r = Inr (h, db)" "advance h db = Inr (x, db1)"
    "(case x of Inl h \<Rightarrow> Inr (h, db1) | Inr _ \<Rightarrow> Inl Version_not_found) = Inr (h', db')"
    using assms(2) by (fastforce simp: next_statement_def rbind_eq_Inr)
  then have "r = Inr (h, db)" "advance h db = Inr (Inl h', db')" by (cases x; simp)+
  then show ?thesis using assms(1) advance_reachable by blast
qed

lemma demo_third_reachable:
  assumes "demo_third = Inr (h, db)"
  shows "reachable gov_init (gov_step False ''t'' demo_env) \<lparr>gr_db = db, gr_handlers = [h]\<rparr>"
proof -
  obtain r db0 where s: "demo_second = Inr db0"
    "publish_policy_version ''t'' demo_env demo_request (demo_publish 3) db0 = Inr (r, db)"
    "activate_begin ''t'' demo_request REAL_RUN_GATE_POLICY_KEY 3 db = Inr h"
    using assms by (auto simp: demo_third_def rbind_eq_Inr rmap_eq_Inr)
  note db = publish_reachable [OF demo_second_reachable [OF s(1)] s(2)]
  show ?thesis by (rule reach_step [OF db]) (rule gov_step.activate [OF s(3)], simp)
qed

lemma overlapping_activations:
  "\<exists>s. reachable gov_init (gov_step False ''t'' demo_env) s \<and> gr_handlers s = [] \<and> \<not> one_active (policy_versions (gr_db s))"
proof -
  obtain db where db: "demo_overlap = Inr db" "\<not> one_active (policy_versions db)"
    using demo_overlap_active by (auto split: sum.splits)
  then obtain h db1 r1 db2 r2 where n: "next_statement (next_statement (next_statement demo_third)) = Inr (h, db1)"
    and a: "activate_policy_version ''t'' demo_request REAL_RUN_GATE_POLICY_KEY 2 db1 = Inr (r1, db2)"
    and r: "run_handler h db2 = Inr (r2, db)"
    by (auto simp: demo_overlap_def rbind_eq_Inr rmap_eq_Inr)
  have "reachable gov_init (gov_step False ''t'' demo_env) \<lparr>gr_db = db1, gr_handlers = [h]\<rparr>"
    using n by (intro next_statement_reachable [OF next_statement_reachable [OF next_statement_reachable [OF demo_third_reachable]]])
  then have "reachable gov_init (gov_step False ''t'' demo_env) \<lparr>gr_db = db2, gr_handlers = [h]\<rparr>"
    by (rule activate_reachable) (use a in simp_all)
  from run_reachable [OF this r] db(2) show ?thesis by (intro exI [of _ "\<lparr>gr_db = db, gr_handlers = []\<rparr>"]) simp
qed

end
