(* ===== verification/AccountState.thy ===== *)
theory AccountState
  imports PyValue
begin

text \<open>
  The account life cycle: the transition table and its optimistic-lock update
  (\<open>core/app/services/state_machine.py\<close>), the sliding-window and daily limits and the periodic
  health pass (\<open>core/app/services/risk_engine.py\<close>), the daily counter reset
  (\<open>core/app/services/scheduler.py\<close>), and every other statement of the core and the worker that writes the status of an account, interleaved
  statement by statement. Times are microseconds. The process clock (\<open>py_now\<close>) and the
  clock of the database (\<open>db_now\<close>, one reading per statement) are separate arguments, since the
  code mixes both.
\<close>

section \<open>Data\<close>

datatype account_status = COLD | LOGIN_REQUIRED | WARMING | READY | EXECUTING | COOLING | FROZEN | BANNED

fun status_str :: "account_status \<Rightarrow> string" where
  "status_str COLD = ''cold''"
| "status_str LOGIN_REQUIRED = ''login_required''"
| "status_str WARMING = ''warming''"
| "status_str READY = ''ready''"
| "status_str EXECUTING = ''executing''"
| "status_str COOLING = ''cooling''"
| "status_str FROZEN = ''frozen''"
| "status_str BANNED = ''banned''"

definition all_statuses :: "account_status list" where
  "all_statuses = [COLD, LOGIN_REQUIRED, WARMING, READY, EXECUTING, COOLING, FROZEN, BANNED]"

text \<open>\<open>AccountStatus(value)\<close>: the member with this value, or a \<open>ValueError\<close>.\<close>

definition status_of :: "string \<Rightarrow> account_status option" where
  "status_of s = find (\<lambda>st. status_str st = s) all_statuses"

definition TRANSITIONS :: "account_status \<Rightarrow> account_status list" where
  "TRANSITIONS st = (case st of
     COLD \<Rightarrow> [LOGIN_REQUIRED, WARMING, FROZEN, BANNED]
   | LOGIN_REQUIRED \<Rightarrow> [WARMING, FROZEN, BANNED]
   | WARMING \<Rightarrow> [READY, COOLING, LOGIN_REQUIRED, FROZEN]
   | READY \<Rightarrow> [EXECUTING, COOLING, LOGIN_REQUIRED, FROZEN]
   | EXECUTING \<Rightarrow> [COOLING, LOGIN_REQUIRED, BANNED]
   | COOLING \<Rightarrow> [READY, FROZEN, LOGIN_REQUIRED]
   | FROZEN \<Rightarrow> [LOGIN_REQUIRED, COLD]
   | BANNED \<Rightarrow> [])"

record account =
  acc_id :: int
  acc_platform :: string
  acc_status :: string
  acc_version :: int
  acc_credential :: string
  acc_proxy_id :: "int option"
  acc_updated_at :: int
  acc_daily_task_count :: int
  acc_execution_revision :: int
  acc_deleted :: bool

record proxy_row =
  px_id :: int
  px_cooldown_until :: "int option"

record risk_event =
  re_account_id :: int
  re_event_type :: string
  re_created_at :: int

record acct_db =
  accounts :: "account list"
  proxies :: "proxy_row list"
  risk_events :: "risk_event list"
  acct_settings :: "(string \<times> string) list"
  acct_events :: "(string \<times> string \<times> string) list"

datatype account_error = Version_conflict int | Unknown_status string | Invalid_transition_to string string

section \<open>Transitions\<close>

text \<open>
  \<open>transition_account\<close> reads the row, decides, and writes with the version in the condition. The
  two statements do not share a transaction: \<open>others\<close> is what other sessions commit in between.
  \<open>None\<close> as a decision is the early return when the account is already in the target status.
\<close>

definition transition_decide ::
  "int \<Rightarrow> int \<Rightarrow> string \<Rightarrow> acct_db \<Rightarrow> (account_error, account_status option) result" where
  "transition_decide account_id current_version target db =
     (case fetch_one (\<lambda>a. acc_id a = account_id \<and> acc_version a = current_version) (accounts db) of
        None \<Rightarrow> Inl (Version_conflict account_id)
      | Some current \<Rightarrow>
          (case status_of (acc_status current) of
             None \<Rightarrow> Inl (Unknown_status (acc_status current))
           | Some current_status \<Rightarrow>
               (case status_of target of
                  None \<Rightarrow> Inl (Unknown_status target)
                | Some target_status \<Rightarrow>
                    if current_status = target_status then Inr None
                    else if target_status \<notin> set (TRANSITIONS current_status)
                    then Inl (Invalid_transition_to (status_str current_status) (status_str target_status))
                    else Inr (Some target_status))))"

definition transition_write ::
  "int \<Rightarrow> int \<Rightarrow> account_status \<Rightarrow> int \<Rightarrow> acct_db \<Rightarrow> (account_error, acct_db) result" where
  "transition_write account_id current_version st db_now db =
     (let here = (\<lambda>a. acc_id a = account_id \<and> acc_version a = current_version) in
      if row_count here (accounts db) = 0 then Inl (Version_conflict account_id)
      else Inr (db\<lparr>accounts := update_where here
        (\<lambda>a. a\<lparr>acc_status := status_str st, acc_version := acc_version a + 1, acc_updated_at := db_now\<rparr>) (accounts db)\<rparr>))"

definition transition_account ::
  "int \<Rightarrow> int \<Rightarrow> string \<Rightarrow> int \<Rightarrow> (acct_db \<Rightarrow> acct_db) \<Rightarrow> acct_db \<Rightarrow> (account_error, acct_db) result" where
  "transition_account account_id current_version target db_now others db =
     rbind (transition_decide account_id current_version target db) (\<lambda>decision.
       case decision of
         None \<Rightarrow> Inr db
       | Some st \<Rightarrow> transition_write account_id current_version st db_now (others db))"

section \<open>Rate limits\<close>

definition SLIDING_WINDOW_MINUTES :: int where "SLIDING_WINDOW_MINUTES = 5"
definition SLIDING_WINDOW_MAX :: nat where "SLIDING_WINDOW_MAX = 5"
definition DAILY_LIMIT_DEFAULT :: int where "DAILY_LIMIT_DEFAULT = 30"

definition seconds :: "int \<Rightarrow> int" where "seconds n = n * 1000000"

text \<open>
  The sorted set of one account: its scores (the member is the score's text, so the scores are
  distinct) and when the key expires. A key that has expired is empty.
\<close>

record zset =
  z_scores :: "int list"
  z_expires :: int

definition live_scores :: "zset option \<Rightarrow> int \<Rightarrow> int list" where
  "live_scores z redis_now = (case z of None \<Rightarrow> []
     | Some w \<Rightarrow> if z_expires w \<le> redis_now then [] else z_scores w)"

text \<open>
  The pipeline \<open>ZADD\<close>, \<open>ZREMRANGEBYSCORE 0 window_start\<close>, \<open>ZCARD\<close>, \<open>EXPIRE\<close> for a window, with which the core and the worker
  both count; the key lives twice the window.
\<close>

definition sliding_pipeline :: "int \<Rightarrow> zset option \<Rightarrow> int \<Rightarrow> int \<Rightarrow> zset \<times> nat" where
  "sliding_pipeline window z py_now redis_now =
     (let added = (if py_now \<in> set (live_scores z redis_now) then live_scores z redis_now
                   else py_now # live_scores z redis_now);
          window_start = py_now - window;
          kept = filter (\<lambda>s. \<not> (0 \<le> s \<and> s \<le> window_start)) added in
      (\<lparr>z_scores = kept, z_expires = redis_now + window * 2\<rparr>, length kept))"

definition window_pipeline :: "zset option \<Rightarrow> int \<Rightarrow> int \<Rightarrow> zset \<times> nat" where
  "window_pipeline = sliding_pipeline (seconds (SLIDING_WINDOW_MINUTES * 60))"

record rate_state =
  rs_window :: "int \<Rightarrow> zset option"
  rs_daily :: "int \<Rightarrow> (int \<times> int) option"

text \<open>
  Over the limit the account is sent to cooling; a failing transition is logged and ignored, the
  \<open>RateLimited\<close> event is recorded in any case.
\<close>

definition check_action_rate ::
  "int \<Rightarrow> int \<Rightarrow> int \<Rightarrow> int \<Rightarrow> (acct_db \<Rightarrow> acct_db) \<Rightarrow> rate_state \<Rightarrow> acct_db \<Rightarrow> bool \<times> rate_state \<times> acct_db" where
  "check_action_rate account_id py_now redis_now db_now others rs db =
     (let (w, count) = window_pipeline (rs_window rs account_id) py_now redis_now;
          rs' = rs\<lparr>rs_window := (rs_window rs)(account_id := Some w)\<rparr> in
      if count > SLIDING_WINDOW_MAX then
        let cooled = (case fetch_one (\<lambda>a. acc_id a = account_id) (accounts db) of
              None \<Rightarrow> db
            | Some acc \<Rightarrow>
                (case transition_account account_id (acc_version acc) ''cooling'' db_now others db of
                   Inl _ \<Rightarrow> others db
                 | Inr db1 \<Rightarrow> db1\<lparr>acct_events := acct_events db1 @ [(''account'', int_str account_id, ''AccountCooling'')]\<rparr>))
        in (False, rs', cooled\<lparr>acct_events := acct_events cooled @
              [(''risk'', ''account:'' @ int_str account_id, ''RateLimited'')]\<rparr>)
      else (True, rs', db))"

text \<open>The daily counter: its value and expiry.\<close>

definition daily_value :: "rate_state \<Rightarrow> int \<Rightarrow> int \<Rightarrow> int option" where
  "daily_value rs account_id redis_now = (case rs_daily rs account_id of None \<Rightarrow> None
     | Some (count, expires) \<Rightarrow> if expires \<le> redis_now then None else Some count)"

definition check_daily_limit :: "rate_state \<Rightarrow> int \<Rightarrow> int \<Rightarrow> int \<Rightarrow> bool" where
  "check_daily_limit rs account_id limit redis_now =
     (case daily_value rs account_id redis_now of None \<Rightarrow> True | Some count \<Rightarrow> count < limit)"

definition incr_daily_count :: "int \<Rightarrow> int \<Rightarrow> rate_state \<Rightarrow> rate_state" where
  "incr_daily_count account_id redis_now rs =
     (let count = (case daily_value rs account_id redis_now of None \<Rightarrow> 0 | Some c \<Rightarrow> c) in
      rs\<lparr>rs_daily := (rs_daily rs)(account_id := Some (count + 1, redis_now + seconds 86400))\<rparr>)"

section \<open>The health pass\<close>

definition clamp :: "int \<Rightarrow> int \<Rightarrow> int \<Rightarrow> int" where
  "clamp lo hi x = max lo (min x hi)"

definition no_credential :: "account \<Rightarrow> bool" where
  "no_credential a \<longleftrightarrow> acc_status a = ''ready'' \<and> acc_credential a = []"

definition stale_execution :: "int \<Rightarrow> account \<Rightarrow> bool" where
  "stale_execution cutoff a \<longleftrightarrow> acc_status a = ''executing'' \<and> acc_updated_at a \<le> cutoff"

text \<open>The condition of the restoring statement; the join with \<open>proxies\<close> is an outer one.\<close>

definition proxy_available :: "acct_db \<Rightarrow> int \<Rightarrow> account \<Rightarrow> bool" where
  "proxy_available db db_now a = (case acc_proxy_id a of None \<Rightarrow> True
     | Some pid \<Rightarrow> (case fetch_one (\<lambda>p. px_id p = pid) (proxies db) of None \<Rightarrow> True
         | Some p \<Rightarrow> (case px_cooldown_until p of None \<Rightarrow> True | Some t \<Rightarrow> t < db_now)))"

definition cooled_down :: "acct_db \<Rightarrow> int \<Rightarrow> int \<Rightarrow> account \<Rightarrow> bool" where
  "cooled_down db cutoff db_now a \<longleftrightarrow> acc_status a = ''cooling'' \<and> acc_credential a \<noteq> []
     \<and> acc_updated_at a \<le> cutoff \<and> proxy_available db db_now a
     \<and> \<not> (\<exists>r \<in> set (risk_events db). re_account_id r = acc_id a \<and> re_created_at r > cutoff)"

definition move_to :: "string \<Rightarrow> int \<Rightarrow> account \<Rightarrow> account" where
  "move_to st db_now a = a\<lparr>acc_status := st, acc_updated_at := db_now, acc_version := acc_version a + 1\<rparr>"

definition expire_credentials :: "int \<Rightarrow> acct_db \<Rightarrow> acct_db" where
  "expire_credentials db_now db =
     db\<lparr>accounts := update_where no_credential (move_to ''login_required'' db_now) (accounts db)\<rparr>"

definition record_stale :: "int \<Rightarrow> int \<Rightarrow> acct_db \<Rightarrow> acct_db" where
  "record_stale cutoff db_now db =
     db\<lparr>risk_events := risk_events db @ map (\<lambda>a. \<lparr>re_account_id = acc_id a, re_event_type = ''stale_execution'',
            re_created_at = db_now\<rparr>) (filter (stale_execution cutoff) (accounts db))\<rparr>"

definition cool_executing :: "int \<Rightarrow> int \<Rightarrow> acct_db \<Rightarrow> acct_db" where
  "cool_executing cutoff db_now db =
     db\<lparr>accounts := update_where (stale_execution cutoff) (move_to ''cooling'' db_now) (accounts db)\<rparr>"

definition cool_stale :: "int \<Rightarrow> int \<Rightarrow> int \<Rightarrow> acct_db \<Rightarrow> acct_db" where
  "cool_stale cutoff insert_now update_now db = cool_executing cutoff update_now (record_stale cutoff insert_now db)"

lemmas cool_stale_defs = cool_stale_def cool_executing_def record_stale_def

definition restore_cooled :: "int \<Rightarrow> int \<Rightarrow> acct_db \<Rightarrow> acct_db" where
  "restore_cooled cutoff db_now db =
     db\<lparr>accounts := update_where (cooled_down db cutoff db_now) (move_to ''ready'' db_now) (accounts db)\<rparr>"

record health_report =
  hr_cooldown_minutes :: int
  hr_stale_execution_minutes :: int
  hr_missing_credentials :: nat
  hr_stale_executing :: nat
  hr_cooling_restored :: nat

definition account_event :: "string \<Rightarrow> account \<Rightarrow> string \<times> string \<times> string" where
  "account_event t a = (''account'', int_str (acc_id a), t)"

text \<open>The clock \<open>clk\<close> gives \<open>NOW()\<close> of the statements that read it, in their order.\<close>

definition check_all_accounts_health ::
  "int \<Rightarrow> int \<Rightarrow> int \<Rightarrow> (nat \<Rightarrow> int) \<Rightarrow> acct_db \<Rightarrow> health_report \<times> acct_db" where
  "check_all_accounts_health cooldown stale py_now clk db =
     (let cooldown_minutes = clamp 1 1440 cooldown;
          stale_minutes = clamp 1 120 stale;
          cooldown_cutoff = py_now - seconds (60 * cooldown_minutes);
          stale_cutoff = py_now - seconds (60 * stale_minutes);
          missing = filter no_credential (accounts db);
          db1 = expire_credentials (clk 0) db;
          staled = filter (stale_execution stale_cutoff) (accounts db1);
          db2 = cool_stale stale_cutoff (clk 1) (clk 2) db1;
          restored_count = row_count (cooled_down db2 cooldown_cutoff (clk 3)) (accounts db2);
          restored = filter (cooled_down db2 cooldown_cutoff (clk 4)) (accounts db2);
          db3 = restore_cooled cooldown_cutoff (clk 5) db2
      in (\<lparr>hr_cooldown_minutes = cooldown_minutes, hr_stale_execution_minutes = stale_minutes,
            hr_missing_credentials = length missing, hr_stale_executing = length staled,
            hr_cooling_restored = restored_count\<rparr>,
          db3\<lparr>acct_events := acct_events db3
            @ map (account_event ''AccountLoginRequired'') (take 500 missing)
            @ concat (map (\<lambda>a. [account_event ''AccountCooling'' a,
                                  (''risk'', ''account:'' @ int_str (acc_id a), ''RiskDetected'')]) (take 500 staled))
            @ map (account_event ''AccountRestored'') (take 500 restored)
            @ [(''system'', ''account_health'', ''AccountHealthRecheckCompleted'')]\<rparr>))"

section \<open>The daily reset\<close>

definition DAILY_RESET_SETTING :: string where
  "DAILY_RESET_SETTING = ''daily_task_count_reset_date''"

definition set_daily_reset_marker :: "string \<Rightarrow> acct_db \<Rightarrow> acct_db" where
  "set_daily_reset_marker v db =
     db\<lparr>acct_settings := (if DAILY_RESET_SETTING \<in> fst ` set (acct_settings db)
        then update_where (\<lambda>kv. fst kv = DAILY_RESET_SETTING) (\<lambda>kv. (fst kv, v)) (acct_settings db)
        else acct_settings db @ [(DAILY_RESET_SETTING, v)])\<rparr>"

definition reset_daily_account_counters_if_due :: "string \<Rightarrow> int \<Rightarrow> acct_db \<Rightarrow> acct_db" where
  "reset_daily_account_counters_if_due today db_now db =
     (let last_reset = (case map_of (acct_settings db) DAILY_RESET_SETTING of None \<Rightarrow> '''' | Some v \<Rightarrow> v) in
      if last_reset = today then db
      else if last_reset = '''' then set_daily_reset_marker today db
      else set_daily_reset_marker today
             (db\<lparr>accounts := update_where (\<lambda>a. acc_daily_task_count a \<noteq> 0)
                (\<lambda>a. a\<lparr>acc_daily_task_count := 0, acc_updated_at := db_now\<rparr>) (accounts db)\<rparr>))"

section \<open>The other writers of the accounts table\<close>

text \<open>
  Every remaining statement that inserts into or updates \<open>accounts\<close>. \<open>updated_at\<close> is \<open>ON UPDATE CURRENT_TIMESTAMP\<close>, so
  every one of them sets it. A writer that checks its row count raises when it is not one, and its transaction rolls back;
  the others ignore it. \<open>leased\<close> says which accounts have an unreleased lease that has not expired. The status checks a handler makes
  before its statement only restrict further when it runs, so they are left out.
\<close>

datatype write_error = Not_applied

definition write_rows :: "(account \<Rightarrow> bool) \<Rightarrow> (account \<Rightarrow> account) \<Rightarrow> acct_db \<Rightarrow> acct_db" where
  "write_rows here f db = db\<lparr>accounts := update_where here f (accounts db)\<rparr>"

definition write_one :: "(account \<Rightarrow> bool) \<Rightarrow> (account \<Rightarrow> account) \<Rightarrow> acct_db \<Rightarrow> (write_error, acct_db) result" where
  "write_one here f db = (if row_count here (accounts db) \<noteq> 1 then Inl Not_applied else Inr (write_rows here f db))"

definition bump_revision :: "account \<Rightarrow> account" where
  "bump_revision a = a\<lparr>acc_execution_revision := acc_execution_revision a + 1\<rparr>"











text \<open>A status forced by the worker, with the risk event of the same transaction.\<close>

definition with_risk :: "int \<Rightarrow> string \<Rightarrow> int \<Rightarrow> acct_db \<Rightarrow> acct_db" where
  "with_risk aid event_type db_now db = db\<lparr>risk_events := risk_events db
     @ [\<lparr>re_account_id = aid, re_event_type = event_type, re_created_at = db_now\<rparr>]\<rparr>"


definition set_account_status :: "int \<Rightarrow> string \<Rightarrow> int option \<Rightarrow> int \<Rightarrow> acct_db \<Rightarrow> (write_error, acct_db) result" where
  "set_account_status aid status expected_revision db_now db = rmap (with_risk aid status db_now)
     (case expected_revision of
        None \<Rightarrow> Inr (write_rows (\<lambda>a. acc_id a = aid) (move_to status db_now) db)
      | Some revision \<Rightarrow> write_one (\<lambda>a. acc_id a = aid \<and> \<not> acc_deleted a \<and> acc_execution_revision a = revision)
          (move_to status db_now) db)"




section \<open>Transitions among all writers\<close>






definition status_step :: "string \<Rightarrow> string \<Rightarrow> bool" where
  "status_step a b \<longleftrightarrow> (\<exists>s t. status_of a = Some s \<and> status_of b = Some t \<and> t \<in> set (TRANSITIONS s))"

text \<open>
  What every writer keeps of a row: identity; the version never decreases and marks every change of status; the
  execution revision never decreases and marks every change of what a run executes with.
\<close>

definition row_follows :: "account \<Rightarrow> account \<Rightarrow> bool" where
  "row_follows a b \<longleftrightarrow> acc_id b = acc_id a \<and> acc_version a \<le> acc_version b
     \<and> (acc_status a \<noteq> acc_status b \<longrightarrow> acc_version a < acc_version b)
     \<and> acc_execution_revision a \<le> acc_execution_revision b
     \<and> (acc_credential a \<noteq> acc_credential b \<or> acc_proxy_id a \<noteq> acc_proxy_id b \<or> acc_deleted a \<noteq> acc_deleted b
          \<longrightarrow> acc_execution_revision a < acc_execution_revision b)"

text \<open>A statement rewrites some rows or appends one.\<close>

definition table_change :: "acct_db \<Rightarrow> acct_db \<Rightarrow> bool" where
  "table_change db db' \<longleftrightarrow>
     (\<exists>here f. accounts db' = update_where here f (accounts db) \<and> (\<forall>a. here a \<longrightarrow> row_follows a (f a)))
   \<or> (\<exists>a. accounts db' = accounts db @ [a] \<and> acc_id a \<notin> acc_id ` set (accounts db))"




lemma status_of_str [simp]: "status_of (status_str st) = Some st"
  by (cases st) (simp_all add: status_of_def all_statuses_def)




lemma bump_follows [simp]:
  "row_follows a (bump_revision (move_to st now a)\<lparr>acc_credential := c\<rparr>)"
  "row_follows a (bump_revision (move_to st now a)\<lparr>acc_proxy_id := x\<rparr>)"
  "row_follows a (bump_revision (move_to st now a)\<lparr>acc_credential := c, acc_proxy_id := x, acc_deleted := d\<rparr>)"
  "row_follows a (move_to st now a\<lparr>acc_daily_task_count := n\<rparr>)"
  "row_follows a (a\<lparr>acc_updated_at := now\<rparr>)"
  "row_follows a (a\<lparr>acc_daily_task_count := n, acc_updated_at := now\<rparr>)"
  by (simp_all add: row_follows_def move_to_def bump_revision_def)





lemma with_risk_change [simp]: "table_change db (with_risk aid t now db') = table_change db db'"
  by (simp add: table_change_def with_risk_def)













section \<open>The worker's task starts\<close>

text \<open>
  Before a task the worker checks the account and counts the start in the same sorted set, with a window and limits of its own.
\<close>

definition WINDOW_SECONDS :: int where "WINDOW_SECONDS = 10 * 60"
definition WINDOW_MAX_TASK_STARTS :: nat where "WINDOW_MAX_TASK_STARTS = 2"
definition DAILY_MAX_TASKS :: int where "DAILY_MAX_TASKS = 8"

definition PLATFORM_WINDOW_MAX_TASK_STARTS :: "(string \<times> nat) list" where
  "PLATFORM_WINDOW_MAX_TASK_STARTS = [(''xiaohongshu'', 1)]"

definition PLATFORM_DAILY_MAX_TASKS :: "(string \<times> int) list" where
  "PLATFORM_DAILY_MAX_TASKS = [(''xiaohongshu'', 5)]"

definition limit_of :: "(string \<times> 'n) list \<Rightarrow> 'n \<Rightarrow> string option \<Rightarrow> 'n" where
  "limit_of table usual platform = (case map_of table (case platform of None \<Rightarrow> '''' | Some p \<Rightarrow> p) of None \<Rightarrow> usual | Some n \<Rightarrow> n)"

datatype run_refusal = Account_missing | Account_not_ready | Account_no_credential | Daily_limit_reached | Action_window_exceeded

definition force_cooling :: "int \<Rightarrow> int \<Rightarrow> acct_db \<Rightarrow> acct_db" where
  "force_cooling aid db_now db = (case set_account_status aid ''cooling'' None db_now db of Inl _ \<Rightarrow> db | Inr db' \<Rightarrow> db')"

definition ensure_account_can_run ::
  "int \<Rightarrow> string option \<Rightarrow> int \<Rightarrow> int \<Rightarrow> int \<Rightarrow> (acct_db \<Rightarrow> acct_db) \<Rightarrow> rate_state \<Rightarrow> acct_db
     \<Rightarrow> (run_refusal, unit) result \<times> rate_state \<times> acct_db" where
  "ensure_account_can_run account_id platform py_now redis_now db_now others rs db =
     (case fetch_one (\<lambda>a. acc_id a = account_id) (accounts db) of
        None \<Rightarrow> (Inl Account_missing, rs, db)
      | Some row \<Rightarrow>
          if acc_status row \<noteq> ''ready'' then (Inl Account_not_ready, rs, db)
          else if acc_credential row = [] then (Inl Account_no_credential, rs, db)
          else if acc_daily_task_count row \<ge> limit_of PLATFORM_DAILY_MAX_TASKS DAILY_MAX_TASKS platform
          then (Inl Daily_limit_reached, rs, force_cooling account_id db_now (others db))
          else (let (w, count) = sliding_pipeline (seconds WINDOW_SECONDS) (rs_window rs account_id) py_now redis_now;
                    rs' = rs\<lparr>rs_window := (rs_window rs)(account_id := Some w)\<rparr> in
                if count > limit_of PLATFORM_WINDOW_MAX_TASK_STARTS WINDOW_MAX_TASK_STARTS platform
                then (Inl Action_window_exceeded, rs', force_cooling account_id db_now (others db))
                else (Inr (), rs', db)))"

text \<open>
  A status forced without a revision overwrites whatever the account has become, so a ban or a freeze an operator commits
  while the worker runs is lost: the account cools down and the health pass makes it ready again.
\<close>

lemma forced_cooling_overwrites:
  assumes "a \<in> set (accounts db)" "acc_id a = aid"
  shows "\<exists>b \<in> set (accounts (force_cooling aid db_now db)). acc_id b = aid \<and> acc_status b = ''cooling''"
  using assms by (intro bexI [of _ "move_to ''cooling'' db_now a"])
    (auto simp: force_cooling_def set_account_status_def with_risk_def write_rows_def move_to_def update_where_def)

section \<open>Sliding windows\<close>

text \<open>
  A run of calls, of the core's check and of the worker's, on any accounts, each with the database it finds. The clock of Redis is a
  constant \<open>d\<close> ahead of the clock of the processes.
\<close>

datatype rate_caller = Core_check | Worker_start "string option"

record rate_call =
  rc_caller :: rate_caller
  rc_account :: int
  rc_now :: int
  rc_db_now :: int
  rc_others :: "acct_db \<Rightarrow> acct_db"
  rc_db :: acct_db

definition rate_answer :: "int \<Rightarrow> rate_state \<Rightarrow> rate_call \<Rightarrow> bool \<times> rate_state" where
  "rate_answer d rs c = (case rc_caller c of
     Core_check \<Rightarrow> (case check_action_rate (rc_account c) (rc_now c) (rc_now c + d) (rc_db_now c) (rc_others c) rs (rc_db c) of
       (ok, rs', _) \<Rightarrow> (ok, rs'))
   | Worker_start platform \<Rightarrow>
       (case ensure_account_can_run (rc_account c) platform (rc_now c) (rc_now c + d) (rc_db_now c) (rc_others c) rs (rc_db c) of
         (r, rs', _) \<Rightarrow> (r = Inr (), rs')))"

fun rate_run :: "int \<Rightarrow> rate_state \<Rightarrow> rate_call list \<Rightarrow> bool list" where
  "rate_run d rs [] = []"
| "rate_run d rs (c # cs) = (case rate_answer d rs c of (ok, rs') \<Rightarrow> ok # rate_run d rs' cs)"

lemma length_rate_run [simp]: "length (rate_run d rs cs) = length cs"
  by (induction cs arbitrary: rs) (auto split: prod.split)

abbreviation window_us :: int where
  "window_us \<equiv> seconds (SLIDING_WINDOW_MINUTES * 60)"

abbreviation starts_us :: int where
  "starts_us \<equiv> seconds WINDOW_SECONDS"

text \<open>
  The sorted set covers a window of length \<open>W\<close>: from \<open>now\<close> on it holds the times \<open>seen\<close> that are less than \<open>W\<close> old.
\<close>

definition covers :: "int \<Rightarrow> int \<Rightarrow> zset option \<Rightarrow> int set \<Rightarrow> int \<Rightarrow> bool" where
  "covers W d z seen now \<longleftrightarrow> (\<forall>s \<in> seen. s \<le> now)
     \<and> (\<forall>t \<ge> now. \<forall>s \<in> seen. t - W < s \<longrightarrow> s \<in> set (live_scores z (t + d)))"

lemma covers_later: "covers W d z seen now \<Longrightarrow> now \<le> t \<Longrightarrow> covers W d z seen t"
  unfolding covers_def by (meson order_trans)

lemma covers_empty [simp]: "covers W d z {} now"
  by (simp add: covers_def)

lemma covers_pipeline:
  assumes cov: "covers W d z seen now" and t: "now \<le> t" and W: "0 \<le> W" "W \<le> V"
  shows "covers W d (Some (fst (sliding_pipeline V z t (t + d)))) (insert t seen) t"
    and "card {s \<in> insert t seen. t - W < s} \<le> snd (sliding_pipeline V z t (t + d))"
proof -
  let ?added = "if t \<in> set (live_scores z (t + d)) then live_scores z (t + d) else t # live_scores z (t + d)"
  let ?kept = "filter (\<lambda>s. \<not> (0 \<le> s \<and> s \<le> t - V)) ?added"
  have pipe: "sliding_pipeline V z t (t + d) = (\<lparr>z_scores = ?kept, z_expires = t + d + 2 * V\<rparr>, length ?kept)"
    by (simp add: sliding_pipeline_def Let_def)
  have kept: "s \<in> set ?kept" if "s \<in> insert t seen" "u - W < s" "t \<le> u" for s u
  proof -
    have "s \<in> set ?added" using that cov t by (auto simp: covers_def)
    moreover have "t - V < s" using that W by linarith
    ultimately show ?thesis by simp
  qed
  have le: "s \<le> t" if "s \<in> insert t seen" for s using that cov t by (auto simp: covers_def)
  have "s \<in> set (live_scores (Some (fst (sliding_pipeline V z t (t + d)))) (u + d))"
    if "s \<in> insert t seen" "u - W < s" "t \<le> u" for s u
  proof -
    have "u < t + 2 * V" using that W le [OF that(1)] by linarith
    with kept [OF that] show ?thesis by (simp add: pipe live_scores_def)
  qed
  with le show "covers W d (Some (fst (sliding_pipeline V z t (t + d)))) (insert t seen) t"
    by (auto simp: covers_def)
  have "{s \<in> insert t seen. t - W < s} \<subseteq> set ?kept" using kept [OF _ _ order_refl] by blast
  then have "card {s \<in> insert t seen. t - W < s} \<le> card (set ?kept)" by (intro card_mono) simp_all
  also have "\<dots> \<le> length ?kept" by (rule card_length)
  finally show "card {s \<in> insert t seen. t - W < s} \<le> snd (sliding_pipeline V z t (t + d))" by (simp add: pipe)
qed

text \<open>What a call may do to the window of an account, and its limit when it lets through.\<close>

definition call_limit :: "rate_call \<Rightarrow> nat" where
  "call_limit c = (case rc_caller c of Core_check \<Rightarrow> SLIDING_WINDOW_MAX
     | Worker_start platform \<Rightarrow> limit_of PLATFORM_WINDOW_MAX_TASK_STARTS WINDOW_MAX_TASK_STARTS platform)"

definition call_window :: "rate_call \<Rightarrow> int" where
  "call_window c = (case rc_caller c of Core_check \<Rightarrow> window_us | Worker_start _ \<Rightarrow> starts_us)"

lemma rate_answer_cases:
  assumes "rate_answer d rs c = (ok, rs')"
  obtains (untouched) "rs_window rs' = rs_window rs" "\<not> ok"
  | (counted) w n where "sliding_pipeline (call_window c) (rs_window rs (rc_account c)) (rc_now c) (rc_now c + d) = (w, n)"
      "rs_window rs' = (rs_window rs)(rc_account c := Some w)" "ok \<longleftrightarrow> n \<le> call_limit c"
proof (cases "rc_caller c")
  case Core_check
  obtain db' where e: "check_action_rate (rc_account c) (rc_now c) (rc_now c + d) (rc_db_now c) (rc_others c) rs (rc_db c)
      = (ok, rs', db')"
    using assms Core_check by (auto simp: rate_answer_def split: prod.splits)
  obtain w n where pipe: "sliding_pipeline (call_window c) (rs_window rs (rc_account c)) (rc_now c) (rc_now c + d) = (w, n)" by fastforce
  have "rs_window rs' = (rs_window rs)(rc_account c := Some w) \<and> (ok \<longleftrightarrow> n \<le> call_limit c)"
    using e pipe Core_check
    by (auto simp: check_action_rate_def window_pipeline_def call_window_def call_limit_def Let_def split: if_splits)
  with pipe show thesis using counted by blast
next
  case (Worker_start p)
  obtain r db' where e: "ensure_account_can_run (rc_account c) p (rc_now c) (rc_now c + d) (rc_db_now c) (rc_others c) rs (rc_db c)
      = (r, rs', db')" and ok: "ok \<longleftrightarrow> r = Inr ()"
    using assms Worker_start by (auto simp: rate_answer_def split: prod.splits)
  obtain w n where pipe: "sliding_pipeline (call_window c) (rs_window rs (rc_account c)) (rc_now c) (rc_now c + d) = (w, n)" by fastforce
  have "rs' = rs \<and> r \<noteq> Inr () \<or> rs_window rs' = (rs_window rs)(rc_account c := Some w) \<and> (r = Inr () \<longleftrightarrow> n \<le> call_limit c)"
    using e pipe Worker_start
    by (auto simp: ensure_account_can_run_def call_window_def call_limit_def Let_def split: option.splits if_splits)
  with ok pipe show thesis using untouched counted by metis
qed

text \<open>
  In a run whose calls for an account keep a window of at least \<open>W\<close>, a call that is let through finds at most its limit
  of calls let through in its window, itself included.
\<close>

lemma rate_run_bound:
  assumes "covers W d (rs_window rs a) seen now" "finite seen" "0 \<le> W"
    and "sorted_wrt (<) (map rc_now cs)" "\<forall>c \<in> set cs. now < rc_now c \<and> (rc_account c = a \<longrightarrow> W \<le> call_window c)"
  shows "i < length cs \<Longrightarrow> rc_account (cs ! i) = a \<Longrightarrow> rate_run d rs cs ! i \<Longrightarrow>
    card {s \<in> seen \<union> {rc_now (cs ! j) |j. j \<le> i \<and> rc_account (cs ! j) = a \<and> rate_run d rs cs ! j}. rc_now (cs ! i) - W < s}
      \<le> call_limit (cs ! i)"
  using assms
proof (induction cs arbitrary: rs seen now i)
  case (Cons c cs)
  obtain ok rs' where r: "rate_answer d rs c = (ok, rs')" by fastforce
  let ?seen = "if ok \<and> rc_account c = a then insert (rc_now c) seen else seen"
  have now: "now \<le> rc_now c" "\<forall>x \<in> set cs. rc_now c < rc_now x" using Cons.prems by auto
  have cov: "covers W d (rs_window rs' a) ?seen (rc_now c)
      \<and> (ok \<and> rc_account c = a \<longrightarrow> card {s \<in> ?seen. rc_now c - W < s} \<le> call_limit c)"
    using r
  proof (cases rule: rate_answer_cases)
    case untouched
    with Cons.prems(4) now(1) show ?thesis by (auto intro: covers_later)
  next
    case (counted w n)
    show ?thesis
    proof (cases "rc_account c = a")
      case True
      then have V: "W \<le> call_window c" using Cons.prems by simp
      note p = covers_pipeline [OF Cons.prems(4) now(1) Cons.prems(6) V]
      have "covers W d (Some w) (insert (rc_now c) seen) (rc_now c)" using p(1) counted(1) True by simp
      then have "covers W d (Some w) ?seen (rc_now c)" by (auto simp: covers_def)
      with p(2) counted True show ?thesis by auto
    next
      case False
      with counted Cons.prems(4) now(1) show ?thesis by (auto intro: covers_later)
    qed
  qed
  have split: "seen \<union> {rc_now ((c # cs) ! j) |j. j \<le> i \<and> rc_account ((c # cs) ! j) = a \<and> rate_run d rs (c # cs) ! j}
      = ?seen \<union> {rc_now (cs ! j) |j. Suc j \<le> i \<and> rc_account (cs ! j) = a \<and> rate_run d rs' cs ! j}" (is "?L = ?R")
  proof -
    have "x \<in> ?L \<longleftrightarrow> x \<in> ?R" for x
      by (auto simp: r) (metis Suc_le_eq nth_Cons_0 nth_Cons_Suc not0_implies_Suc zero_le)+
    then show ?thesis by blast
  qed
  show ?case
  proof (cases i)
    case 0
    then show ?thesis using cov Cons.prems(2,3) split by (simp add: r)
  next
    case (Suc k)
    have "card {s \<in> ?seen \<union> {rc_now (cs ! j) |j. j \<le> k \<and> rc_account (cs ! j) = a \<and> rate_run d rs' cs ! j}. rc_now (cs ! k) - W < s}
        \<le> call_limit (cs ! k)"
      by (rule Cons.IH) (use Cons.prems Suc cov now(2) in \<open>auto simp: r\<close>)
    then show ?thesis unfolding split by (simp add: Suc)
  qed
qed simp

text \<open>So no window of length \<open>W\<close> holds more than the limit.\<close>

lemma rate_run_cap:
  assumes "rs_window rs a = None" "0 \<le> W" "sorted_wrt (<) (map rc_now cs)"
    and "\<forall>c \<in> set cs. rc_account c = a \<longrightarrow> W \<le> call_window c"
    and "\<forall>i \<in> A. i < length cs \<and> rc_account (cs ! i) = a \<and> rate_run d rs cs ! i \<and> call_limit (cs ! i) \<le> L
       \<and> w < rc_now (cs ! i) \<and> rc_now (cs ! i) \<le> w + W"
  shows "card A \<le> L"
proof (cases "A = {}")
  case False
  have "A \<subseteq> {..<length cs}" using assms(5) by auto
  then have fin: "finite A" by (rule finite_subset) simp
  define m where "m = Max A"
  have mA: "m \<in> A" and le: "\<forall>i \<in> A. i \<le> m" using fin False by (simp_all add: m_def)
  let ?B = "{rc_now (cs ! j) |j. j \<le> m \<and> rc_account (cs ! j) = a \<and> rate_run d rs cs ! j}"
  have m: "m < length cs" "rc_account (cs ! m) = a" "rate_run d rs cs ! m" using assms(5) mA by auto
  have inj: "inj_on (\<lambda>i. rc_now (cs ! i)) {..<length cs}"
    using assms(3) by (intro linorder_inj_onI) (fastforce simp: sorted_wrt_map sorted_wrt_iff_nth_less)+
  obtain now where now: "\<forall>c \<in> set cs. now < rc_now c"
  proof
    show "\<forall>c \<in> set cs. Min (insert 0 (rc_now ` set cs)) - 1 < rc_now c"
    proof
      fix c assume "c \<in> set cs"
      then have "Min (insert 0 (rc_now ` set cs)) \<le> rc_now c" by (intro Min_le) simp_all
      then show "Min (insert 0 (rc_now ` set cs)) - 1 < rc_now c" by linarith
    qed
  qed
  have "card {s \<in> {} \<union> ?B. rc_now (cs ! m) - W < s} \<le> call_limit (cs ! m)"
    by (rule rate_run_bound [where now = now]) (use assms m now in auto)
  also have "\<dots> \<le> L" using assms(5) mA by blast
  finally have le_m: "card {s \<in> {} \<union> ?B. rc_now (cs ! m) - W < s} \<le> L" .
  have sub: "(\<lambda>i. rc_now (cs ! i)) ` A \<subseteq> {s \<in> {} \<union> ?B. rc_now (cs ! m) - W < s}"
  proof (rule image_subsetI)
    fix i assume i: "i \<in> A"
    have "rc_account (cs ! i) = a \<and> rate_run d rs cs ! i \<and> w < rc_now (cs ! i)" using assms(5) i by blast
    moreover have "rc_now (cs ! m) \<le> w + W" using assms(5) mA by blast
    moreover have "i \<le> m" using le i by blast
    ultimately show "rc_now (cs ! i) \<in> {s \<in> {} \<union> ?B. rc_now (cs ! m) - W < s}" by auto
  qed
  have "finite ?B" by (rule finite_subset [of _ "(\<lambda>j. rc_now (cs ! j)) ` {..m}"]) auto
  then have "card ((\<lambda>i. rc_now (cs ! i)) ` A) \<le> card {s \<in> {} \<union> ?B. rc_now (cs ! m) - W < s}"
    by (intro card_mono [OF _ sub]) simp
  with le_m have "card ((\<lambda>i. rc_now (cs ! i)) ` A) \<le> L" by (rule order_trans [rotated])
  moreover have "card ((\<lambda>i. rc_now (cs ! i)) ` A) = card A"
    using inj \<open>A \<subseteq> {..<length cs}\<close> by (intro card_image) (rule inj_on_subset)
  ultimately show ?thesis by simp
qed simp

section \<open>Properties\<close>


definition demo_account :: "int \<Rightarrow> string \<Rightarrow> account" where
  "demo_account i st = \<lparr>acc_id = i, acc_platform = ''bilibili'', acc_status = st, acc_version = 3,
     acc_credential = ''c'', acc_proxy_id = None, acc_updated_at = 0, acc_daily_task_count = 1,
     acc_execution_revision = 1, acc_deleted = False\<rparr>"

definition demo_accounts :: acct_db where
  "demo_accounts = \<lparr>accounts = [demo_account 1 ''ready'', demo_account 2 ''executing'', demo_account 3 ''cooling''],
     proxies = [], risk_events = [], acct_settings = [], acct_events = []\<rparr>"


text \<open>
  The health pass as one decision per account: the three updates, the last of which sees the
  rows and the risk events the earlier ones wrote.
\<close>

definition health_row :: "acct_db \<Rightarrow> int \<Rightarrow> int \<Rightarrow> (nat \<Rightarrow> int) \<Rightarrow> account \<Rightarrow> account" where
  "health_row db cooldown_cutoff stale_cutoff clk a =
     (if no_credential a then move_to ''login_required'' (clk 0) a
      else if stale_execution stale_cutoff a then move_to ''cooling'' (clk 2) a
      else if cooled_down db cooldown_cutoff (clk 5) a then move_to ''ready'' (clk 5) a
      else a)"

lemma cool_expire_frame [simp]:
  "proxies (cool_stale sc n1 n2 db) = proxies db" "proxies (expire_credentials n0 db) = proxies db"
  "risk_events (expire_credentials n0 db) = risk_events db"
  by (simp_all add: cool_stale_defs expire_credentials_def)

lemma cooled_down_after:
  assumes "distinct (map acc_id (accounts db))" "a \<in> set (accounts db)" "\<not> stale_execution sc a" "\<not> no_credential a"
  shows "cooled_down (cool_stale sc n1 n2 (expire_credentials n0 db)) cc now a = cooled_down db cc now a"
proof -
  have "acc_id r \<noteq> acc_id a" if "r \<in> set (accounts (expire_credentials n0 db))" "stale_execution sc r" for r
    using that assms unfolding expire_credentials_def
    by (auto simp: stale_execution_def move_to_def elim!: in_update_whereE dest: distinct_map_eqD)
  then have "(\<exists>r \<in> set (risk_events (cool_stale sc n1 n2 (expire_credentials n0 db))). re_account_id r = acc_id a \<and> re_created_at r > cc)
      = (\<exists>r \<in> set (risk_events db). re_account_id r = acc_id a \<and> re_created_at r > cc)"
    by (auto simp: cool_stale_defs)
  moreover have "proxy_available (cool_stale sc n1 n2 (expire_credentials n0 db)) now a = proxy_available db now a"
    by (simp add: proxy_available_def split: option.split)
  ultimately show ?thesis by (simp add: cooled_down_def)
qed

text \<open>
  C28. Provided the database clock is not a minute behind the process clock, the health pass acts
  on each account by one rule: a ready account without credential must log in, a stale execution
  cools down, a cooled-down account (with its credential, proxy and a quiet period) is ready
  again, every other account (frozen, banned, login required, still executing) is untouched. In
  particular no account goes from executing to ready in one pass.
\<close>

theorem health_pass_row_rule:
  assumes "distinct (map acc_id (accounts db))" "\<forall>k. py_now - seconds 60 < clk k"
  shows "accounts (snd (check_all_accounts_health cooldown stale py_now clk db))
    = map (health_row db (py_now - seconds (60 * clamp 1 1440 cooldown))
        (py_now - seconds (60 * clamp 1 120 stale)) clk) (accounts db)"
proof -
  let ?cc = "py_now - seconds (60 * clamp 1 1440 cooldown)" and ?sc = "py_now - seconds (60 * clamp 1 120 stale)"
  define d2 where "d2 = cool_stale ?sc (clk 1) (clk 2) (expire_credentials (clk 0) db)"
  have "?cc < clk k" for k
  proof -
    have "1 \<le> clamp 1 1440 cooldown" by (simp add: clamp_def)
    then have "seconds 60 \<le> seconds (60 * clamp 1 1440 cooldown)" by (simp add: seconds_def)
    with assms(2) show ?thesis by (smt (verit))
  qed
  then have fresh: "\<not> cooled_down d2 ?cc (clk 5) (move_to st (clk k) a)" for st k a
    by (simp add: cooled_down_def move_to_def not_le)
  have keep: "cooled_down d2 ?cc (clk 5) a = cooled_down db ?cc (clk 5) a"
    if "a \<in> set (accounts db)" "\<not> stale_execution ?sc a" "\<not> no_credential a" for a
    using that unfolding d2_def by (rule cooled_down_after [OF assms(1)])
  have "accounts (snd (check_all_accounts_health cooldown stale py_now clk db))
      = update_where (cooled_down d2 ?cc (clk 5)) (move_to ''ready'' (clk 5)) (accounts d2)"
    by (simp add: check_all_accounts_health_def Let_def restore_cooled_def d2_def)
  also have "accounts d2 = map (\<lambda>a. if no_credential a then move_to ''login_required'' (clk 0) a
      else if stale_execution ?sc a then move_to ''cooling'' (clk 2) a else a) (accounts db)"
    by (simp add: d2_def cool_stale_defs expire_credentials_def update_where_def)
      (simp add: stale_execution_def move_to_def no_credential_def)
  also have "update_where (cooled_down d2 ?cc (clk 5)) (move_to ''ready'' (clk 5)) \<dots>
      = map (health_row db ?cc ?sc clk) (accounts db)"
    by (simp add: update_where_def health_row_def fresh keep)
  finally show ?thesis .
qed

theorem health_pass_row_rule_witness:
  "(\<forall>k. (10^9 :: int) - seconds 60 < 10^9) \<and>
   map acc_status (accounts (snd (check_all_accounts_health 15 10 (10^9) (\<lambda>_. 10^9) demo_accounts)))
     = [''ready'', ''cooling'', ''ready'']"
proof -
  let ?c = "10^9 - seconds (60 * clamp 1 1440 15)" and ?s = "10^9 - seconds (60 * clamp 1 120 10)"
  have "map acc_status (map (health_row demo_accounts ?c ?s (\<lambda>_. 10^9)) (accounts demo_accounts))
      = [''ready'', ''cooling'', ''ready'']" by code_simp
  moreover have "distinct (map acc_id (accounts demo_accounts))" by code_simp
  moreover have "\<forall>k :: nat. 10^9 - seconds 60 < 10^9" by (simp add: seconds_def)
  ultimately show ?thesis
    using health_pass_row_rule [of demo_accounts "10^9" "\<lambda>_. 10^9" 15 10] by (simp add: seconds_def)
qed

text \<open>
  C34. The sliding windows are real caps. In any run of the core's action check and the worker's start check, on any accounts at
  increasing times, whatever the database holds and other sessions do: at most five actions of an account pass the core's check in
  any five minutes, although refused calls count too, the key expires and the worker trims the same sorted set; and when
  only the worker checks an account, in any ten minutes it starts at most two of its tasks, one on a platform whose limit is one.
\<close>

theorem sliding_window_cap:
  assumes "sorted_wrt (<) (map rc_now cs)" "rs_window rs a = None"
  shows "card {i. i < length cs \<and> rc_account (cs ! i) = a \<and> rc_caller (cs ! i) = Core_check \<and> rate_run d rs cs ! i
      \<and> w < rc_now (cs ! i) \<and> rc_now (cs ! i) \<le> w + window_us} \<le> SLIDING_WINDOW_MAX
    \<and> ((\<forall>c \<in> set cs. rc_account c = a \<longrightarrow> rc_caller c \<noteq> Core_check) \<longrightarrow>
      card {i. i < length cs \<and> rc_account (cs ! i) = a \<and> rate_run d rs cs ! i
        \<and> w < rc_now (cs ! i) \<and> rc_now (cs ! i) \<le> w + starts_us} \<le> WINDOW_MAX_TASK_STARTS
      \<and> card {i. i < length cs \<and> rc_account (cs ! i) = a \<and> rc_caller (cs ! i) = Worker_start (Some ''xiaohongshu'')
        \<and> rate_run d rs cs ! i \<and> w < rc_now (cs ! i) \<and> rc_now (cs ! i) \<le> w + starts_us} \<le> 1)"
proof (intro conjI impI)
  have W: "0 \<le> window_us" "0 \<le> starts_us" "window_us \<le> starts_us"
    by (simp_all add: seconds_def SLIDING_WINDOW_MINUTES_def WINDOW_SECONDS_def)
  have limits: "limit_of PLATFORM_WINDOW_MAX_TASK_STARTS WINDOW_MAX_TASK_STARTS p \<le> WINDOW_MAX_TASK_STARTS"
    "limit_of PLATFORM_WINDOW_MAX_TASK_STARTS WINDOW_MAX_TASK_STARTS (Some ''xiaohongshu'') = 1" for p
    by (simp_all add: limit_of_def PLATFORM_WINDOW_MAX_TASK_STARTS_def WINDOW_MAX_TASK_STARTS_def)
  have "window_us \<le> call_window c" for c using W by (cases "rc_caller c") (simp_all add: call_window_def)
  then show "card {i. i < length cs \<and> rc_account (cs ! i) = a \<and> rc_caller (cs ! i) = Core_check \<and> rate_run d rs cs ! i
      \<and> w < rc_now (cs ! i) \<and> rc_now (cs ! i) \<le> w + window_us} \<le> SLIDING_WINDOW_MAX"
    by (intro rate_run_cap [OF assms(2) W(1) assms(1)]) (auto simp: call_limit_def)
  assume only: "\<forall>c \<in> set cs. rc_account c = a \<longrightarrow> rc_caller c \<noteq> Core_check"
  then have V: "\<forall>c \<in> set cs. rc_account c = a \<longrightarrow> starts_us \<le> call_window c"
    by (auto simp: call_window_def split: rate_caller.split)
  show "card {i. i < length cs \<and> rc_account (cs ! i) = a \<and> rate_run d rs cs ! i
        \<and> w < rc_now (cs ! i) \<and> rc_now (cs ! i) \<le> w + starts_us} \<le> WINDOW_MAX_TASK_STARTS"
    using only limits(1) by (intro rate_run_cap [OF assms(2) W(2) assms(1) V]) (auto simp: call_limit_def split: rate_caller.split)
  show "card {i. i < length cs \<and> rc_account (cs ! i) = a \<and> rc_caller (cs ! i) = Worker_start (Some ''xiaohongshu'')
        \<and> rate_run d rs cs ! i \<and> w < rc_now (cs ! i) \<and> rc_now (cs ! i) \<le> w + starts_us} \<le> 1"
    using limits(2) by (intro rate_run_cap [OF assms(2) W(2) assms(1) V]) (auto simp: call_limit_def)
qed

definition demo_call :: "rate_caller \<Rightarrow> int \<Rightarrow> int \<Rightarrow> rate_call" where
  "demo_call who a t = \<lparr>rc_caller = who, rc_account = a, rc_now = t, rc_db_now = t, rc_others = id, rc_db = demo_accounts\<rparr>"

definition demo_calls :: "rate_call list" where
  "demo_calls = [demo_call (Worker_start None) 1 1, demo_call Core_check 1 2, demo_call Core_check 2 3, demo_call Core_check 1 4,
     demo_call Core_check 1 5, demo_call Core_check 1 6, demo_call Core_check 1 7, demo_call Core_check 2 8]"

definition no_rates :: rate_state where
  "no_rates = \<lparr>rs_window = Map.empty, rs_daily = Map.empty\<rparr>"

theorem sliding_window_cap_witness:
  "rate_run 0 no_rates demo_calls = [True, True, True, True, True, True, False, True]
   \<and> card {i. i < length demo_calls \<and> rc_account (demo_calls ! i) = 1 \<and> rc_caller (demo_calls ! i) = Core_check
        \<and> rate_run 0 no_rates demo_calls ! i \<and> 0 < rc_now (demo_calls ! i) \<and> rc_now (demo_calls ! i) \<le> 0 + window_us} \<le> SLIDING_WINDOW_MAX"
proof
  show "rate_run 0 no_rates demo_calls = [True, True, True, True, True, True, False, True]" by code_simp
  have s: "sorted_wrt (<) (map rc_now demo_calls)" by (simp add: demo_calls_def demo_call_def)
  show "card {i. i < length demo_calls \<and> rc_account (demo_calls ! i) = 1 \<and> rc_caller (demo_calls ! i) = Core_check
        \<and> rate_run 0 no_rates demo_calls ! i \<and> 0 < rc_now (demo_calls ! i) \<and> rc_now (demo_calls ! i) \<le> 0 + window_us} \<le> SLIDING_WINDOW_MAX"
    using sliding_window_cap [OF s, of no_rates 1 0 0, THEN conjunct1] by (simp only: no_rates_def rate_state.simps)
qed

definition cooled_db :: "int \<Rightarrow> int \<Rightarrow> account \<Rightarrow> acct_db \<Rightarrow> acct_db" where
  "cooled_db aid db_now a db = (if status_step (acc_status a) ''cooling''
     then db\<lparr>accounts := update_where (\<lambda>r. acc_id r = aid) (move_to ''cooling'' db_now) (accounts db)\<rparr> else db)"

lemma transition_to_cooling:
  assumes "distinct (map acc_id (accounts db))" "a \<in> set (accounts db)" "acc_id a = aid"
  shows "transition_account aid (acc_version a) ''cooling'' db_now id db = Inr (cooled_db aid db_now a db)
    \<or> (\<not> status_step (acc_status a) ''cooling''
        \<and> (\<exists>e. transition_account aid (acc_version a) ''cooling'' db_now id db = Inl e))"
proof -
  let ?here = "\<lambda>r. acc_id r = aid \<and> acc_version r = acc_version a"
  have av: "fetch_one ?here (accounts db) = Some a"
    by (rule fetch_one_unique [OF assms(1,2)]) (use assms(3) in auto)
  have upd: "update_where ?here f (accounts db) = update_where (\<lambda>r. acc_id r = aid) f (accounts db)" for f
    unfolding update_where_def using assms by (auto dest: distinct_map_eqD)
  have rows: "row_count ?here (accounts db) \<noteq> 0"
    using assms(2,3) by (auto simp: row_count_def filter_empty_conv)
  have cool: "status_of ''cooling'' = Some COOLING" by (simp add: status_of_def all_statuses_def)
  have move: "(\<lambda>r. r\<lparr>acc_status := ''cooling'', acc_version := acc_version r + 1, acc_updated_at := db_now\<rparr>)
      = move_to ''cooling'' db_now" by (simp add: move_to_def fun_eq_iff)
  have commit: "transition_write aid (acc_version a) COOLING db_now db
      = Inr (db\<lparr>accounts := update_where (\<lambda>r. acc_id r = aid) (move_to ''cooling'' db_now) (accounts db)\<rparr>)"
    using rows by (simp add: transition_write_def Let_def upd move)
  show ?thesis
  proof (cases "status_of (acc_status a)")
    case None
    then show ?thesis by (simp add: transition_account_def transition_decide_def av status_step_def)
  next
    case (Some st)
    then show ?thesis
      by (cases st) (simp_all add: transition_account_def transition_decide_def av cool commit
          status_step_def cooled_db_def TRANSITIONS_def)
  qed
qed

text \<open>
  A call over the limit is refused, recorded as an event, and the account is moved to cooling
  whenever the table allows it; a call within the limit changes nothing in the database.
\<close>

theorem over_rate_is_cooled:
  assumes "check_action_rate aid py_now redis_now db_now id rs db = (ok, rs', db')"
    and "distinct (map acc_id (accounts db))" "a \<in> set (accounts db)" "acc_id a = aid"
  shows "(ok \<longrightarrow> db' = db)
    \<and> (\<not> ok \<longrightarrow> last (acct_events db') = (''risk'', ''account:'' @ int_str aid, ''RateLimited'')
        \<and> accounts db' = (if status_step (acc_status a) ''cooling''
             then update_where (\<lambda>r. acc_id r = aid) (move_to ''cooling'' db_now) (accounts db) else accounts db))"
proof -
  obtain w count where wp: "window_pipeline (rs_window rs aid) py_now redis_now = (w, count)" by fastforce
  have a: "fetch_one (\<lambda>r. acc_id r = aid) (accounts db) = Some a"
    by (rule fetch_one_unique [OF assms(2,3)]) (use assms(4) in auto)
  show ?thesis
    using transition_to_cooling [OF assms(2-4), of db_now] assms(1)
    by (auto simp: check_action_rate_def Let_def wp a cooled_db_def split: if_splits)
qed

definition demo_rates :: rate_state where
  "demo_rates = \<lparr>rs_window = (\<lambda>_. Some \<lparr>z_scores = [1, 2, 3, 4, 5], z_expires = 1000\<rparr>), rs_daily = (\<lambda>_. None)\<rparr>"

theorem over_rate_is_cooled_witness:
  "\<exists>rs' db'. check_action_rate 1 6 6 6 id demo_rates demo_accounts = (False, rs', db')
     \<and> last (acct_events db') = (''risk'', ''account:'' @ int_str 1, ''RateLimited'')
     \<and> acc_status (accounts db' ! 0) = ''cooling''"
proof -
  obtain ok rs' db' where r: "check_action_rate 1 6 6 6 id demo_rates demo_accounts = (ok, rs', db')"
    by (metis prod_cases3)
  have "\<not> fst (check_action_rate 1 6 6 6 id demo_rates demo_accounts)" by code_simp
  then have no: "\<not> ok" by (simp add: r)
  have d: "distinct (map acc_id (accounts demo_accounts))" "demo_account 1 ''ready'' \<in> set (accounts demo_accounts)"
    "acc_id (demo_account 1 ''ready'') = 1" by code_simp+
  have "status_step ''ready'' ''cooling''"
    by (simp add: status_step_def status_of_def all_statuses_def TRANSITIONS_def)
  then show ?thesis
    using over_rate_is_cooled [OF r d] no r by (auto simp: demo_accounts_def demo_account_def move_to_def)
qed

section \<open>Counters\<close>

text \<open>A run of counted actions, each at a time.\<close>

definition count_run :: "int \<Rightarrow> int list \<Rightarrow> rate_state \<Rightarrow> rate_state" where
  "count_run aid ts rs = fold (incr_daily_count aid) ts rs"

lemma count_run_value:
  assumes "ts \<noteq> []" "daily_value rs aid (hd ts) = None" "\<forall>i. Suc i < length ts \<longrightarrow> ts ! Suc i < ts ! i + seconds 86400"
  shows "rs_daily (count_run aid ts rs) aid = Some (int (length ts), last ts + seconds 86400)"
  using assms
proof (induction ts rule: rev_nonempty_induct)
  case (single t)
  then show ?case by (simp add: count_run_def incr_daily_count_def)
next
  case (snoc t ts)
  have step: "\<forall>i. Suc i < length ts \<longrightarrow> ts ! Suc i < ts ! i + seconds 86400"
  proof (intro allI impI)
    fix i assume "Suc i < length ts"
    then show "ts ! Suc i < ts ! i + seconds 86400" using snoc.prems(2) [rule_format, of i] by (simp add: nth_append)
  qed
  have "t < last ts + seconds 86400"
    using snoc.prems(2) [rule_format, of "length ts - 1"] snoc.hyps by (simp add: nth_append last_conv_nth)
  with snoc.IH [OF _ step] snoc.prems snoc.hyps show ?case
    by (simp add: count_run_def incr_daily_count_def daily_value_def)
qed

text \<open>
  The daily limit counts: after any run of counted actions with no silent day in between, the
  check refuses exactly when the run is as long as the limit.
\<close>

theorem daily_limit_counts:
  assumes "ts \<noteq> []" "daily_value rs aid (hd ts) = None"
    and "\<forall>i. Suc i < length ts \<longrightarrow> ts ! Suc i < ts ! i + seconds 86400" "now < last ts + seconds 86400"
  shows "check_daily_limit (count_run aid ts rs) aid limit now \<longleftrightarrow> int (length ts) < limit"
  using count_run_value [OF assms(1-3)] assms(4) by (simp add: check_daily_limit_def daily_value_def)

theorem daily_limit_counts_witness:
  "\<not> check_daily_limit (count_run 7 [1, 2, 3] demo_rates) 7 3 4"
  using daily_limit_counts [of "[1, 2, 3]" demo_rates 7 4 3]
  by (simp add: demo_rates_def daily_value_def seconds_def nth_Cons' less_Suc_eq)

text \<open>A second reset on the same day changes nothing.\<close>

lemma marker_set: "map_of (acct_settings (set_daily_reset_marker today d)) DAILY_RESET_SETTING = Some today"
proof -
  have "DAILY_RESET_SETTING \<in> fst ` set kvs \<Longrightarrow>
      map_of (update_where (\<lambda>kv. fst kv = DAILY_RESET_SETTING) (\<lambda>kv. (fst kv, today)) kvs) DAILY_RESET_SETTING
        = Some today" for kvs :: "(string \<times> string) list"
    by (induction kvs) auto
  moreover have "DAILY_RESET_SETTING \<notin> fst ` set (acct_settings d) \<Longrightarrow> map_of (acct_settings d) DAILY_RESET_SETTING = None"
    by (simp add: map_of_eq_None_iff)
  ultimately show ?thesis by (simp add: set_daily_reset_marker_def map_add_def)
qed

lemma daily_reset_idem:
  "reset_daily_account_counters_if_due today now' (reset_daily_account_counters_if_due today now db)
    = reset_daily_account_counters_if_due today now db"
proof (cases "(case map_of (acct_settings db) DAILY_RESET_SETTING of None \<Rightarrow> '''' | Some v \<Rightarrow> v) = today")
  case True
  then show ?thesis by (simp add: reset_daily_account_counters_if_due_def)
next
  case False
  then have "map_of (acct_settings (reset_daily_account_counters_if_due today now db)) DAILY_RESET_SETTING = Some today"
    by (simp add: reset_daily_account_counters_if_due_def Let_def marker_set)
  then show ?thesis by (subst reset_daily_account_counters_if_due_def) simp
qed

end
