(* ===== verification/AccountLease.thy ===== *)
theory AccountLease
  imports AccountState
begin

text \<open>
  The append-only account-operation leases (\<open>core/app/services/account_leases.py\<close>) and the release
  performed by recovery (\<open>core/app/services/recovery_daemon.py\<close>), with the intent kinds that name a
  lease's operation (\<open>shared/execution_contracts.py\<close>). The lease table has the keys of its schema:
  the lease id, and the account with the generation. Times are those of the database clock.
\<close>

section \<open>Execution intent kinds\<close>

definition FULL_EXECUTION_INTENT_KIND :: string where "FULL_EXECUTION_INTENT_KIND = ''full''"
definition REPAIR_EXECUTION_INTENT_KIND :: string where "REPAIR_EXECUTION_INTENT_KIND = ''repair''"
definition LEGACY_FULL_EXECUTION_INTENT_KIND :: string where "LEGACY_FULL_EXECUTION_INTENT_KIND = ''legacy_full''"

definition EXECUTION_INTENT_LEASE_OPERATION_KINDS :: "(string \<times> string) list" where
  "EXECUTION_INTENT_LEASE_OPERATION_KINDS =
     [(FULL_EXECUTION_INTENT_KIND, ''real_run''), (REPAIR_EXECUTION_INTENT_KIND, ''repair_run''),
      (LEGACY_FULL_EXECUTION_INTENT_KIND, ''real_run'')]"

definition lease_operation_kind_for_execution_intent :: "string \<Rightarrow> (py_error, string) result" where
  "lease_operation_kind_for_execution_intent kind =
     (case map_of EXECUTION_INTENT_LEASE_OPERATION_KINDS kind of None \<Rightarrow> Inl ValueError | Some k \<Rightarrow> Inr k)"

section \<open>Leases\<close>

record lease =
  ls_id :: string
  ls_account_id :: int
  ls_generation :: int
  ls_operation_kind :: string
  ls_owner_id :: string
  ls_task_id :: "string option"
  ls_expires_at :: int
  ls_released_at :: "int option"

record lease_db =
  lease_accounts :: "account list"
  leases :: "lease list"

datatype lease_error = Invalid_lease_request | Invalid_expected_revision | Account_not_found
  | Lease_conflict int string string | Lease_owner_task_mismatch | Lease_binding_lost | Duplicate_lease_key

definition LEASE_MINUTES :: int where "LEASE_MINUTES = 30"

definition live :: "int \<Rightarrow> lease \<Rightarrow> bool" where
  "live now l \<longleftrightarrow> ls_released_at l = None \<and> now < ls_expires_at l"

definition account_leases :: "int \<Rightarrow> lease list \<Rightarrow> lease list" where
  "account_leases aid ls = filter (\<lambda>l. ls_account_id l = aid) ls"

text \<open>\<open>COALESCE(MAX(generation), 0)\<close> of an account; the column is unsigned.\<close>

definition max_generation :: "int \<Rightarrow> lease list \<Rightarrow> int" where
  "max_generation aid ls = foldr max (map ls_generation (account_leases aid ls)) 0"

text \<open>
  The account row must still be what the caller decided on: ready, with a credential, on the
  expected platform and at the expected revision.
\<close>

definition account_unchanged :: "string option \<Rightarrow> int option \<Rightarrow> account \<Rightarrow> bool" where
  "account_unchanged platform revision a \<longleftrightarrow>
     norm_str (acc_status a) = ''ready'' \<and> acc_credential a \<noteq> []
     \<and> (let p = norm_str (case platform of None \<Rightarrow> [] | Some s \<Rightarrow> s) in p = [] \<or> norm_str (acc_platform a) = p)
     \<and> (case revision of None \<Rightarrow> True | Some r \<Rightarrow> acc_execution_revision a = r)"

text \<open>\<open>lease_id\<close> is the generated identifier; the insertion fails on a duplicate key.\<close>

definition acquire_account_operation_lease ::
  "int \<Rightarrow> string \<Rightarrow> int \<Rightarrow> string \<Rightarrow> string \<Rightarrow> int option \<Rightarrow> string option \<Rightarrow> lease_db
     \<Rightarrow> (lease_error, lease \<times> lease_db) result" where
  "acquire_account_operation_lease now lease_id account_id operation_kind owner_id revision platform db =
     (let kind = norm_str operation_kind; owner = strip owner_id in
      if account_id \<le> 0 \<or> kind = [] \<or> owner = [] then Inl Invalid_lease_request
      else if (case revision of None \<Rightarrow> False | Some r \<Rightarrow> r \<le> 0) then Inl Invalid_expected_revision
      else case fetch_one (\<lambda>a. acc_id a = account_id) (lease_accounts db) of
        None \<Rightarrow> Inl Account_not_found
      | Some account \<Rightarrow>
          if \<not> account_unchanged platform revision account
          then Inl (Lease_conflict account_id kind ''account_operation_account_changed'')
          else if \<exists>l \<in> set (leases db). ls_account_id l = account_id \<and> live now l
          then Inl (Lease_conflict account_id kind ''account_operation_lease_active'')
          else if lease_id \<in> ls_id ` set (leases db) then Inl Duplicate_lease_key
          else let l = \<lparr>ls_id = lease_id, ls_account_id = account_id,
                 ls_generation = max_generation account_id (leases db) + 1, ls_operation_kind = kind,
                 ls_owner_id = owner, ls_task_id = None,
                 ls_expires_at = now + seconds (60 * LEASE_MINUTES), ls_released_at = None\<rparr>
               in Inr (l, db\<lparr>leases := leases db @ [l]\<rparr>))"

definition bind_lease_to_task :: "lease \<Rightarrow> string \<Rightarrow> lease_db \<Rightarrow> (lease_error, lease_db) result" where
  "bind_lease_to_task l task_id db =
     (if task_id \<noteq> ls_owner_id l then Inl Lease_owner_task_mismatch
      else let here = (\<lambda>x. ls_id x = ls_id l \<and> ls_account_id x = ls_account_id l
             \<and> ls_generation x = ls_generation l \<and> ls_task_id x = None \<and> ls_released_at x = None) in
        if row_count here (leases db) \<noteq> 1 then Inl Lease_binding_lost
        else Inr (db\<lparr>leases := update_where here (\<lambda>x. x\<lparr>ls_task_id := Some task_id\<rparr>) (leases db)\<rparr>))"

text \<open>Recovery releases the exact generation of a task, if its mode names an operation.\<close>

definition recovery_operation_kind :: "string \<Rightarrow> string option \<Rightarrow> (py_error, string) result" where
  "recovery_operation_kind task_mode intent_kind =
     (let mode = casefold (strip task_mode) in
      if mode = ''real_run'' then lease_operation_kind_for_execution_intent
        (case intent_kind of None \<Rightarrow> LEGACY_FULL_EXECUTION_INTENT_KIND
         | Some k \<Rightarrow> if k = [] then LEGACY_FULL_EXECUTION_INTENT_KIND else k)
      else if mode \<in> {''dry_run'', ''shadow_run''} then Inr mode
      else Inl ValueError)"

definition release_recovery_account_lease ::
  "int \<Rightarrow> string \<Rightarrow> string option \<Rightarrow> string option \<Rightarrow> int \<Rightarrow> int option \<Rightarrow> string \<Rightarrow> lease_db \<Rightarrow> bool \<times> lease_db" where
  "release_recovery_account_lease now task_mode intent_kind lease_id account_id generation task_id db =
     (case recovery_operation_kind task_mode intent_kind of
        Inl _ \<Rightarrow> (False, db)
      | Inr kind \<Rightarrow> (True, db\<lparr>leases := update_where
          (\<lambda>l. Some (ls_id l) = lease_id \<and> ls_account_id l = account_id \<and> Some (ls_generation l) = generation
             \<and> ls_operation_kind l = kind \<and> ls_owner_id l = task_id \<and> ls_released_at l = None)
          (\<lambda>l. l\<lparr>ls_released_at := Some now\<rparr>) (leases db)\<rparr>))"

section \<open>The invariant of the lease table\<close>

text \<open>
  Keys are unique, generations are positive, and a live lease is its account's newest: so an
  account never has two live leases.
\<close>

definition lease_inv :: "int \<Rightarrow> lease list \<Rightarrow> bool" where
  "lease_inv now ls \<longleftrightarrow> distinct (map ls_id ls)
     \<and> distinct (map (\<lambda>l. (ls_account_id l, ls_generation l)) ls)
     \<and> (\<forall>l \<in> set ls. 0 < ls_generation l)
     \<and> (\<forall>l \<in> set ls. live now l \<longrightarrow> ls_generation l = max_generation (ls_account_id l) ls)"

lemma max_generation_ge: "l \<in> set ls \<Longrightarrow> ls_account_id l = aid \<Longrightarrow> ls_generation l \<le> max_generation aid ls"
  by (induction ls) (auto simp: max_generation_def account_leases_def)

lemma max_generation_nonneg: "0 \<le> max_generation aid ls"
  by (induction ls) (auto simp: max_generation_def account_leases_def)

lemma max_generation_map:
  "\<forall>l \<in> set ls. ls_account_id (f l) = ls_account_id l \<and> ls_generation (f l) = ls_generation l
   \<Longrightarrow> max_generation aid (map f ls) = max_generation aid ls"
  by (induction ls) (auto simp: max_generation_def account_leases_def)

lemma max_generation_snoc:
  "max_generation aid (ls @ [l]) = (if ls_account_id l = aid then max (max_generation aid ls) (max (ls_generation l) 0)
     else max_generation aid ls)"
  by (induction ls) (auto simp: max_generation_def account_leases_def)

text \<open>An update of rows that keeps the keys and revives no lease keeps the invariant.\<close>

lemma lease_inv_update:
  assumes "lease_inv now ls"
    and "\<forall>l \<in> set ls. p l \<longrightarrow> ls_id (f l) = ls_id l \<and> ls_account_id (f l) = ls_account_id l
       \<and> ls_generation (f l) = ls_generation l \<and> (live now (f l) \<longrightarrow> live now l)"
  shows "lease_inv now (update_where p f ls)"
proof -
  let ?g = "\<lambda>l. if p l then f l else l"
  have "max_generation aid (map ?g ls) = max_generation aid ls" for aid
    using assms(2) by (intro max_generation_map) auto
  moreover have ids: "map ls_id (map ?g ls) = map ls_id ls" using assms(2) by auto
  moreover have keys: "map (\<lambda>l. (ls_account_id l, ls_generation l)) (map ?g ls) = map (\<lambda>l. (ls_account_id l, ls_generation l)) ls"
    using assms(2) by auto
  moreover have "\<forall>l \<in> set ls. 0 < ls_generation (?g l) \<and> (live now (?g l) \<longrightarrow>
      ls_generation (?g l) = max_generation (ls_account_id (?g l)) ls)"
    using assms unfolding lease_inv_def by simp
  moreover have "distinct (map ls_id ls)" "distinct (map (\<lambda>l. (ls_account_id l, ls_generation l)) ls)"
    using assms(1) by (simp_all add: lease_inv_def)
  ultimately show ?thesis
    unfolding lease_inv_def update_where_def by (simp only: ball_simps set_map) blast
qed

lemma lease_inv_later: "lease_inv now ls \<Longrightarrow> now \<le> later \<Longrightarrow> lease_inv later ls"
  unfolding lease_inv_def live_def by (meson le_less_trans)

lemma lease_inv_one_live:
  assumes "lease_inv now ls" "l \<in> set ls" "l' \<in> set ls" "live now l" "live now l'" "ls_account_id l = ls_account_id l'"
  shows "l = l'"
  using assms unfolding lease_inv_def by (auto simp: distinct_map inj_on_def)

lemma acquireD:
  assumes "acquire_account_operation_lease now lid aid kind owner rv plat db = Inr (l, db')"
  shows "db' = db\<lparr>leases := leases db @ [l]\<rparr>" "ls_account_id l = aid" "ls_id l = lid" "live now l"
    "ls_generation l = max_generation aid (leases db) + 1" "lid \<notin> ls_id ` set (leases db)"
    "\<forall>x \<in> set (leases db). ls_account_id x = aid \<longrightarrow> \<not> live now x"
    "\<exists>a \<in> set (lease_accounts db). acc_id a = aid \<and> account_unchanged plat rv a"
  using assms
  by (auto simp: acquire_account_operation_lease_def Let_def live_def seconds_def LEASE_MINUTES_def
      dest: fetch_one_SomeD split: if_splits option.splits)

lemma acquire_inv:
  assumes "lease_inv now (leases db)"
    and "acquire_account_operation_lease now lid aid kind owner rv plat db = Inr (l, db')"
  shows "lease_inv now (leases db')"
proof -
  note a = acquireD [OF assms(2)]
  have "(aid, ls_generation l) \<notin> (\<lambda>x. (ls_account_id x, ls_generation x)) ` set (leases db)"
    using max_generation_ge [of _ "leases db" aid] a(5) by fastforce
  moreover have "0 < ls_generation l" using max_generation_nonneg [of aid "leases db"] a(5) by simp
  ultimately show ?thesis
    using assms(1) a unfolding lease_inv_def by (auto simp: max_generation_snoc)
qed

lemma bind_inv:
  assumes "lease_inv now (leases db)" "bind_lease_to_task l task db = Inr db'"
  shows "lease_inv now (leases db')"
  using assms by (auto simp: bind_lease_to_task_def Let_def live_def split: if_splits intro!: lease_inv_update)

lemma release_inv:
  assumes "lease_inv now (leases db)"
  shows "lease_inv now (leases (snd (release_recovery_account_lease t mode kind lid aid gen task db)))"
  using assms by (auto simp: release_recovery_account_lease_def live_def split: sum.splits intro!: lease_inv_update)

end
