(* ===== verification/ActionIntent.thy ===== *)
theory ActionIntent
  imports AccountLease
begin

text \<open>
  The fence around every real external action (\<open>worker/app/services/external_action_intents.py\<close>) and
  the quarantine recovery applies to an expired task
  (\<open>core/app/services/recovery_daemon.py\<close>). Each operation runs in one transaction: its result pairs
  the returned value or the raised code with the committed database, which is the old one when the
  transaction is rolled back. The operations, the leases and the clock form a state machine whose
  invariant gives the at-most-once guarantee.
\<close>

section \<open>Data\<close>

definition INTENT_PREPARED :: string where "INTENT_PREPARED = ''prepared''"
definition INTENT_STARTED :: string where "INTENT_STARTED = ''started''"
definition INTENT_SUCCEEDED :: string where "INTENT_SUCCEEDED = ''succeeded''"
definition INTENT_FAILED :: string where "INTENT_FAILED = ''failed''"
definition INTENT_UNKNOWN :: string where "INTENT_UNKNOWN = ''unknown''"
definition EFFECT_NOT_STARTED :: string where "EFFECT_NOT_STARTED = ''not_started''"
definition EFFECT_UNKNOWN :: string where "EFFECT_UNKNOWN = ''unknown''"
definition EFFECT_CONFIRMED :: string where "EFFECT_CONFIRMED = ''confirmed_effect''"
definition EFFECT_CONFIRMED_NONE :: string where "EFFECT_CONFIRMED_NONE = ''confirmed_no_effect''"

lemmas intent_consts = INTENT_PREPARED_def INTENT_STARTED_def INTENT_SUCCEEDED_def INTENT_FAILED_def
  INTENT_UNKNOWN_def EFFECT_NOT_STARTED_def EFFECT_UNKNOWN_def EFFECT_CONFIRMED_def EFFECT_CONFIRMED_NONE_def

definition EXPECTED_EFFECT_CERTAINTY :: "(string \<times> string) list" where
  "EXPECTED_EFFECT_CERTAINTY = [(INTENT_PREPARED, EFFECT_NOT_STARTED), (INTENT_STARTED, EFFECT_UNKNOWN),
     (INTENT_SUCCEEDED, EFFECT_CONFIRMED), (INTENT_FAILED, EFFECT_CONFIRMED_NONE), (INTENT_UNKNOWN, EFFECT_UNKNOWN)]"

definition KNOWN_INTENT_STATES :: "string list" where
  "KNOWN_INTENT_STATES = [INTENT_PREPARED, INTENT_STARTED, INTENT_SUCCEEDED, INTENT_FAILED, INTENT_UNKNOWN]"

definition CONFIRMED_SUCCESS_OUTCOMES :: "string list" where
  "CONFIRMED_SUCCESS_OUTCOMES = [''ok'']"

definition CONFIRMED_NO_EFFECT_OUTCOMES :: "string list" where
  "CONFIRMED_NO_EFFECT_OUTCOMES = [''retry'', ''limit'', ''skip'', ''captcha'', ''risk'', ''auth'', ''rejected'']"

record intent =
  in_id :: string
  in_task_id :: string
  in_account_id :: int
  in_lottery_id :: int
  in_lease_id :: string
  in_lease_generation :: int
  in_action :: string
  in_payload_hash :: string
  in_status :: string
  in_certainty :: string
  in_attempt_no :: int
  in_created_at :: int
  in_started_at :: "int option"
  in_completed_at :: "int option"
  in_outcome :: "string option"
  in_remote_ref :: "string option"
  in_error_message :: "string option"
  in_note :: "string option"

record task_run =
  tr_task_id :: string
  tr_account_id :: int
  tr_lottery_id :: int
  tr_status :: string
  tr_worker_id :: "string option"
  tr_lease_id :: "string option"
  tr_lease_generation :: "int option"
  tr_reconciliation :: bool
  tr_error_message :: "string option"
  tr_finished_at :: "int option"

record intent_db = lease_db +
  task_runs :: "task_run list"
  bindings :: "(string \<times> string) list"
  intents :: "intent list"
  breakers :: "(string \<times> string) list"

datatype intent_error = Blocked string | Duplicate_intent_key | Breaker_not_persisted

record started =
  st_intent_id :: string
  st_task_id :: string
  st_account_id :: int
  st_lottery_id :: int
  st_lease_id :: string
  st_lease_generation :: int
  st_action :: string
  st_payload_hash :: string
  st_attempt_no :: int

text \<open>The identity under which an intent is written and checked.\<close>

record fence_key =
  fk_task_id :: string
  fk_account_id :: int
  fk_lottery_id :: int
  fk_lease_id :: string
  fk_generation :: int
  fk_action :: string
  fk_hash :: string

definition started_key :: "started \<Rightarrow> fence_key" where
  "started_key s = \<lparr>fk_task_id = st_task_id s, fk_account_id = st_account_id s, fk_lottery_id = st_lottery_id s,
     fk_lease_id = st_lease_id s, fk_generation = st_lease_generation s, fk_action = st_action s,
     fk_hash = st_payload_hash s\<rparr>"

section \<open>Validation\<close>

text \<open>The row of \<open>_TASK_LEASE_FOR_UPDATE\<close>: the task with its binding kind and its lease, if any.\<close>

record task_lease =
  tl_task :: task_run
  tl_intent_kind :: "string option"
  tl_lease :: "lease option"
  tl_latest_generation :: bool
  tl_live_count :: nat

definition task_lease_for_update :: "int \<Rightarrow> string \<Rightarrow> 'a intent_db_scheme \<Rightarrow> task_lease option" where
  "task_lease_for_update now task_id db =
     (case fetch_one (\<lambda>t. tr_task_id t = task_id) (task_runs db) of
        None \<Rightarrow> None
      | Some t \<Rightarrow>
          let l = fetch_one (\<lambda>l. ls_account_id l = tr_account_id t \<and> Some (ls_id l) = tr_lease_id t) (leases db) in
          Some \<lparr>tl_task = t, tl_intent_kind = map_of (bindings db) task_id, tl_lease = l,
            tl_latest_generation = (case l of None \<Rightarrow> False
              | Some x \<Rightarrow> ls_generation x = max_generation (tr_account_id t) (leases db)),
            tl_live_count = row_count (\<lambda>x. ls_account_id x = tr_account_id t \<and> live now x) (leases db)\<rparr>)"

definition opt_str :: "string option \<Rightarrow> string" where
  "opt_str s = (case s of None \<Rightarrow> [] | Some x \<Rightarrow> x)"

definition validate_task_lease ::
  "int \<Rightarrow> task_lease option \<Rightarrow> string \<Rightarrow> int \<Rightarrow> int \<Rightarrow> string \<Rightarrow> string \<Rightarrow> (intent_error, string \<times> int) result" where
  "validate_task_lease now row task_id account_id lottery_id worker_id kind =
     (case row of
        None \<Rightarrow> Inl (Blocked ''task_lease_missing'')
      | Some r \<Rightarrow>
          let t = tl_task r in
          (case (tl_lease r, tr_lease_generation t) of
             (Some l, Some task_generation) \<Rightarrow>
               if ls_generation l \<le> 0 \<or> task_generation \<le> 0 then Inl (Blocked ''account_lease_generation_invalid'')
               else (case lease_operation_kind_for_execution_intent kind of
                  Inl _ \<Rightarrow> Inl (Blocked ''task_lease_binding_invalid'')
                | Inr expected_kind \<Rightarrow>
                    let lease_id = strip (ls_id l); persisted_kind = strip (opt_str (tl_intent_kind r)) in
                    if strip (tr_task_id t) \<noteq> task_id \<or> tr_account_id t \<noteq> account_id \<or> tr_lottery_id t \<noteq> lottery_id
                      \<or> norm_str (tr_status t) \<noteq> ''running'' \<or> strip (opt_str (tr_worker_id t)) \<noteq> worker_id
                      \<or> lease_id = [] \<or> lease_id \<noteq> strip (opt_str (tr_lease_id t))
                      \<or> ls_generation l \<noteq> task_generation
                      \<or> \<not> (if kind = LEGACY_FULL_EXECUTION_INTENT_KIND then persisted_kind = []
                            else persisted_kind = kind)
                      \<or> norm_str (ls_operation_kind l) \<noteq> expected_kind \<or> strip (ls_owner_id l) \<noteq> task_id
                      \<or> strip (opt_str (ls_task_id l)) \<noteq> task_id \<or> \<not> now < ls_expires_at l
                      \<or> ls_released_at l \<noteq> None \<or> \<not> tl_latest_generation r \<or> tl_live_count r \<noteq> 1
                    then Inl (Blocked ''task_lease_binding_invalid'')
                    else if tr_reconciliation t then Inl (Blocked ''task_reconciliation_required'')
                    else Inr (lease_id, ls_generation l))
           | _ \<Rightarrow> Inl (Blocked ''account_lease_generation_invalid'')))"

definition validate_existing_intent :: "intent option \<Rightarrow> fence_key \<Rightarrow> (intent_error, string \<times> int) result" where
  "validate_existing_intent row k =
     (case row of
        None \<Rightarrow> Inl (Blocked ''intent_binding_invalid'')
      | Some i \<Rightarrow>
          let status = norm_str (in_status i); certainty = norm_str (in_certainty i) in
          if strip (in_task_id i) \<noteq> fk_task_id k \<or> in_account_id i \<noteq> fk_account_id k
            \<or> in_lottery_id i \<noteq> fk_lottery_id k \<or> strip (in_lease_id i) \<noteq> fk_lease_id k
            \<or> in_lease_generation i \<noteq> fk_generation k \<or> norm_str (in_action i) \<noteq> fk_action k
            \<or> strip (in_payload_hash i) \<noteq> fk_hash k \<or> status \<notin> set KNOWN_INTENT_STATES
            \<or> Some certainty \<noteq> map_of EXPECTED_EFFECT_CERTAINTY status \<or> in_attempt_no i \<le> 0
          then Inl (Blocked ''intent_binding_invalid'')
          else Inr (status, in_attempt_no i))"

section \<open>Operations\<close>

definition coalesce :: "'a option \<Rightarrow> 'a \<Rightarrow> 'a option" where
  "coalesce x d = (case x of None \<Rightarrow> Some d | Some _ \<Rightarrow> x)"

definition mark_task_reconciliation :: "string \<Rightarrow> string \<Rightarrow> intent_db \<Rightarrow> intent_db" where
  "mark_task_reconciliation task_id note db =
     db\<lparr>task_runs := update_where (\<lambda>t. tr_task_id t = task_id)
        (\<lambda>t. t\<lparr>tr_reconciliation := True, tr_error_message := coalesce (tr_error_message t) (take 255 note)\<rparr>)
        (task_runs db)\<rparr>"

definition find_intent :: "string \<Rightarrow> intent_db \<Rightarrow> intent option" where
  "find_intent iid db = fetch_one (\<lambda>i. in_id i = iid) (intents db)"

definition set_intents :: "(intent \<Rightarrow> bool) \<Rightarrow> (intent \<Rightarrow> intent) \<Rightarrow> intent_db \<Rightarrow> intent_db" where
  "set_intents p f db = db\<lparr>intents := update_where p f (intents db)\<rparr>"

text \<open>
  The end of the transaction: \<open>prepared\<close> becomes \<open>started\<close> and is read back. \<open>db0\<close> is the database
  before the transaction, to which a raise returns.
\<close>

definition start_phase ::
  "int \<Rightarrow> fence_key \<Rightarrow> string \<Rightarrow> int \<Rightarrow> intent_db \<Rightarrow> intent_db \<Rightarrow> (intent_error, started) result \<times> intent_db" where
  "start_phase now k iid attempt_no db0 db =
     (let db1 = set_intents (\<lambda>i. in_id i = iid \<and> in_status i = ''prepared'' \<and> in_attempt_no i = attempt_no)
            (\<lambda>i. i\<lparr>in_status := ''started'', in_certainty := ''unknown'', in_started_at := Some now,
                   in_completed_at := None\<rparr>) db in
      case validate_existing_intent (find_intent iid db1) k of
        Inl e \<Rightarrow> (Inl e, db0)
      | Inr (status, persisted_attempt) \<Rightarrow>
          if status \<noteq> INTENT_STARTED \<or> persisted_attempt \<noteq> attempt_no
          then (Inl (Blocked ''intent_start_not_persisted''), db0)
          else (Inr \<lparr>st_intent_id = iid, st_task_id = fk_task_id k, st_account_id = fk_account_id k,
                  st_lottery_id = fk_lottery_id k, st_lease_id = fk_lease_id k, st_lease_generation = fk_generation k,
                  st_action = fk_action k, st_payload_hash = fk_hash k, st_attempt_no = attempt_no\<rparr>, db1))"

definition reconcile_note :: "string \<Rightarrow> string \<Rightarrow> string" where
  "reconcile_note action rest = ''external action '' @ action @ rest"

text \<open>An existing row of the same task and action: only a confirmed failure is tried again.\<close>

definition resume_intent ::
  "int \<Rightarrow> fence_key \<Rightarrow> intent \<Rightarrow> intent_db \<Rightarrow> (intent_error, started) result \<times> intent_db" where
  "resume_intent now k row db =
     (let iid = strip (in_id row); note = reconcile_note (fk_action k) '' requires reconciliation'' in
      case validate_existing_intent (Some row) k of
        Inl e \<Rightarrow> (Inl e, db)
      | Inr (status, attempt_no) \<Rightarrow>
          if status = INTENT_STARTED then
            (Inl (Blocked ''intent_started_requires_reconciliation''),
             mark_task_reconciliation (fk_task_id k) note
               (set_intents (\<lambda>i. in_id i = iid \<and> in_status i = ''started'')
                 (\<lambda>i. i\<lparr>in_status := ''unknown'', in_certainty := ''unknown'',
                    in_started_at := coalesce (in_started_at i) now, in_completed_at := coalesce (in_completed_at i) now,
                    in_outcome := Some ''unknown'',
                    in_note := Some ''unsettled started intent observed before automatic replay''\<rparr>) db))
          else if status = INTENT_UNKNOWN then
            (Inl (Blocked ''intent_unknown_requires_reconciliation''), mark_task_reconciliation (fk_task_id k) note db)
          else if status = INTENT_SUCCEEDED then
            (Inl (Blocked ''intent_succeeded_requires_reconciliation''),
             mark_task_reconciliation (fk_task_id k)
               (reconcile_note (fk_action k) '' succeeded but local phase requires reconciliation'') db)
          else if status = INTENT_FAILED then
            start_phase now k iid (attempt_no + 1) db
              (set_intents (\<lambda>i. in_id i = iid \<and> in_status i = ''failed'')
                (\<lambda>i. i\<lparr>in_status := ''prepared'', in_certainty := ''not_started'', in_attempt_no := attempt_no + 1,
                   in_started_at := None, in_completed_at := None, in_outcome := None, in_remote_ref := None,
                   in_error_message := None, in_note := None\<rparr>) db)
          else start_phase now k iid attempt_no db db)"

definition fresh_intent :: "int \<Rightarrow> string \<Rightarrow> fence_key \<Rightarrow> intent" where
  "fresh_intent now iid k = \<lparr>in_id = iid, in_task_id = fk_task_id k, in_account_id = fk_account_id k,
     in_lottery_id = fk_lottery_id k, in_lease_id = fk_lease_id k, in_lease_generation = fk_generation k,
     in_action = fk_action k, in_payload_hash = fk_hash k, in_status = ''prepared'', in_certainty = ''not_started'',
     in_attempt_no = 1, in_created_at = now, in_started_at = None, in_completed_at = None, in_outcome = None, in_remote_ref = None,
     in_error_message = None, in_note = None\<rparr>"

text \<open>
  \<open>sha\<close> is the hexadecimal SHA-256 of the canonical JSON of a payload, \<open>uuid\<close> the generated
  identifier.
\<close>

definition prepare_and_start_action_intent ::
  "(pydict \<Rightarrow> string) \<Rightarrow> int \<Rightarrow> string \<Rightarrow> string \<Rightarrow> int \<Rightarrow> int \<Rightarrow> string \<Rightarrow> string \<Rightarrow> string \<Rightarrow> pyval
     \<Rightarrow> intent_db \<Rightarrow> (intent_error, started) result \<times> intent_db" where
  "prepare_and_start_action_intent sha now uuid task_id0 account_id lottery_id worker_id0 kind action0 payload db =
     (let task_id = strip task_id0; worker_id = strip worker_id0; action = norm_str action0 in
      if task_id = [] \<or> worker_id = [] \<or> action = [] then (Inl (Blocked ''intent_request_invalid''), db)
      else case payload of
        PDict p \<Rightarrow>
          (case validate_task_lease now (task_lease_for_update now task_id db) task_id account_id lottery_id worker_id kind of
             Inl e \<Rightarrow> (Inl e, db)
           | Inr (lease_id, generation) \<Rightarrow>
               let k = \<lparr>fk_task_id = task_id, fk_account_id = account_id, fk_lottery_id = lottery_id,
                     fk_lease_id = lease_id, fk_generation = generation, fk_action = action, fk_hash = sha p\<rparr> in
               (case fetch_one (\<lambda>i. in_task_id i = task_id \<and> in_action i = action) (intents db) of
                  None \<Rightarrow>
                    if uuid \<in> in_id ` set (intents db) then (Inl Duplicate_intent_key, db)
                    else start_phase now k uuid 1 db (db\<lparr>intents := intents db @ [fresh_intent now uuid k]\<rparr>)
                | Some row \<Rightarrow> resume_intent now k row db))
      | _ \<Rightarrow> (Inl (Blocked ''action_payload_invalid''), db))"

definition renew_account_operation_lease ::
  "int \<Rightarrow> string \<Rightarrow> int \<Rightarrow> int \<Rightarrow> string \<Rightarrow> string \<Rightarrow> intent_db \<Rightarrow> (intent_error, string \<times> int) result \<times> intent_db" where
  "renew_account_operation_lease now task_id account_id lottery_id worker_id kind db =
     (case validate_task_lease now (task_lease_for_update now task_id db) task_id account_id lottery_id worker_id kind of
        Inl e \<Rightarrow> (Inl e, db)
      | Inr (lease_id, generation) \<Rightarrow>
          (case lease_operation_kind_for_execution_intent kind of
             Inl _ \<Rightarrow> (Inl (Blocked ''task_lease_binding_invalid''), db)
           | Inr operation_kind \<Rightarrow>
               let db1 = db\<lparr>leases := update_where
                     (\<lambda>l. ls_account_id l = account_id \<and> ls_id l = lease_id \<and> ls_generation l = generation
                        \<and> ls_task_id l = Some task_id \<and> ls_owner_id l = task_id \<and> ls_operation_kind l = operation_kind
                        \<and> live now l)
                     (\<lambda>l. l\<lparr>ls_expires_at := now + seconds 900\<rparr>) (leases db)\<rparr> in
               (case fetch_one (\<lambda>l. ls_account_id l = account_id \<and> ls_id l = lease_id \<and> ls_generation l = generation) (leases db1) of
                  None \<Rightarrow> (Inl (Blocked ''account_lease_renewal_failed''), db)
                | Some l \<Rightarrow>
                    if strip (ls_id l) \<noteq> lease_id \<or> ls_generation l \<noteq> generation \<or> \<not> now < ls_expires_at l \<or> ls_released_at l \<noteq> None
                    then (Inl (Blocked ''account_lease_renewal_failed''), db)
                    else (Inr (lease_id, generation), db1))))"

definition short :: "nat \<Rightarrow> string option \<Rightarrow> string option" where
  "short n s = (case s of None \<Rightarrow> None | Some x \<Rightarrow> if x = [] then None else Some (take n x))"

definition settle_action_intent ::
  "int \<Rightarrow> started \<Rightarrow> bool \<Rightarrow> string \<Rightarrow> string option \<Rightarrow> string option \<Rightarrow> intent_db
     \<Rightarrow> (intent_error, unit) result \<times> intent_db" where
  "settle_action_intent now s succeeded outcome remote_ref error_message db =
     (let final_status = (if succeeded then INTENT_SUCCEEDED else INTENT_FAILED);
          certainty = (if succeeded then EFFECT_CONFIRMED else EFFECT_CONFIRMED_NONE);
          normalized = norm_str outcome;
          allowed = (if succeeded then CONFIRMED_SUCCESS_OUTCOMES else CONFIRMED_NO_EFFECT_OUTCOMES) in
      if normalized \<notin> set allowed then (Inl (Blocked ''intent_outcome_invalid''), db)
      else case validate_existing_intent (find_intent (st_intent_id s) db) (started_key s) of
        Inl e \<Rightarrow> (Inl e, db)
      | Inr (status, attempt_no) \<Rightarrow>
          if status \<noteq> INTENT_STARTED \<or> attempt_no \<noteq> st_attempt_no s then (Inl (Blocked ''intent_not_started''), db)
          else
            let db1 = set_intents (\<lambda>i. in_id i = st_intent_id s \<and> in_status i = ''started'' \<and> in_attempt_no i = st_attempt_no s)
                  (\<lambda>i. i\<lparr>in_status := final_status, in_certainty := certainty, in_completed_at := Some now,
                     in_outcome := Some normalized, in_remote_ref := short 512 remote_ref,
                     in_error_message := short 4096 error_message\<rparr>) db in
            (case find_intent (st_intent_id s) db1 of
               None \<Rightarrow> (Inl (Blocked ''intent_settlement_not_persisted''), db)
             | Some i \<Rightarrow>
                 if norm_str (in_status i) \<noteq> final_status \<or> norm_str (in_certainty i) \<noteq> certainty
                   \<or> in_attempt_no i \<noteq> st_attempt_no s
                 then (Inl (Blocked ''intent_settlement_not_persisted''), db)
                 else (Inr (), db1)))"

definition mark_action_intent_unknown ::
  "int \<Rightarrow> started \<Rightarrow> string \<Rightarrow> intent_db \<Rightarrow> (intent_error, unit) result \<times> intent_db" where
  "mark_action_intent_unknown now s reason db =
     (let note = take 4096 (if strip reason = [] then ''external action outcome unknown'' else strip reason) in
      case validate_existing_intent (find_intent (st_intent_id s) db) (started_key s) of
        Inl e \<Rightarrow> (Inl e, db)
      | Inr (status, attempt_no) \<Rightarrow>
          if status \<notin> {INTENT_STARTED, INTENT_UNKNOWN} \<or> attempt_no \<noteq> st_attempt_no s
          then (Inl (Blocked ''intent_unknown_transition_invalid''), db)
          else
            let db1 = set_intents (\<lambda>i. in_id i = st_intent_id s \<and> (in_status i = ''started'' \<or> in_status i = ''unknown'')
                      \<and> in_attempt_no i = st_attempt_no s)
                  (\<lambda>i. i\<lparr>in_status := ''unknown'', in_certainty := ''unknown'',
                     in_started_at := coalesce (in_started_at i) now, in_completed_at := coalesce (in_completed_at i) now,
                     in_outcome := Some ''unknown'',
                     in_note := (if opt_str (in_note i) = [] then Some note else in_note i)\<rparr>) db;
                db2 = mark_task_reconciliation (st_task_id s)
                  (reconcile_note (st_action s) '' requires reconciliation'') db1 in
            (case find_intent (st_intent_id s) db2 of
               None \<Rightarrow> (Inl (Blocked ''intent_unknown_not_persisted''), db)
             | Some i \<Rightarrow>
                 if norm_str (in_status i) \<noteq> INTENT_UNKNOWN \<or> norm_str (in_certainty i) \<noteq> EFFECT_UNKNOWN
                 then (Inl (Blocked ''intent_unknown_not_persisted''), db)
                 else (Inr (), db2)))"

text \<open>
  Recovery of an expired real run: the task fails and needs reconciliation, every unsettled intent
  of it becomes unknown, the account cools down and the breaker of the platform opens.
\<close>

fun put_breaker :: "string \<Rightarrow> string \<Rightarrow> (string \<times> string) list \<Rightarrow> (string \<times> string) list" where
  "put_breaker scope st [] = [(scope, st)]"
| "put_breaker scope st ((k, v) # bs) = (if k = scope then (k, st) # bs else (k, v) # put_breaker scope st bs)"

definition sql_trim :: "string \<Rightarrow> string" where
  "sql_trim s = rev (dropWhile (\<lambda>c. c = CHR '' '') (rev (dropWhile (\<lambda>c. c = CHR '' '') s)))"

definition quarantine_expired_real_run ::
  "int \<Rightarrow> string \<Rightarrow> int \<Rightarrow> string option \<Rightarrow> intent_db \<Rightarrow> (intent_error, string) result \<times> intent_db" where
  "quarantine_expired_real_run now row_task_id row_account_id lottery_platform db =
     (let task_id = strip row_task_id; platform = casefold (strip (opt_str lottery_platform));
          db1 = db\<lparr>task_runs := update_where (\<lambda>t. tr_task_id t = task_id \<and> tr_status t = ''running'')
              (\<lambda>t. t\<lparr>tr_status := ''failed'', tr_reconciliation := True,
                 tr_error_message := Some ''real-run lease expired; external outcome requires reconciliation'',
                 tr_finished_at := Some now\<rparr>) (task_runs db)\<rparr>;
          db2 = set_intents (\<lambda>i. in_task_id i = task_id \<and> in_status i = ''started'')
              (\<lambda>i. i\<lparr>in_status := ''unknown'', in_outcome := Some ''unknown'', in_certainty := ''unknown'',
                 in_started_at := coalesce (in_started_at i) (in_created_at i),
                 in_completed_at := coalesce (in_completed_at i) now,
                 in_note := (if sql_trim (opt_str (in_note i)) = []
                   then Some ''worker lease expired before external action settlement'' else Some (sql_trim (opt_str (in_note i))))\<rparr>) db1;
          db3 = db2\<lparr>lease_accounts := update_where (\<lambda>a. acc_id a = row_account_id \<and> acc_status a = ''executing'')
              (move_to ''cooling'' now) (lease_accounts db2)\<rparr> in
      if platform = [] then (Inr ''real_run_reconciliation_required'', db3)
      else
        let scope = ''platform:'' @ platform; db4 = db3\<lparr>breakers := put_breaker scope ''open'' (breakers db3)\<rparr> in
        (case map_of (breakers db4) scope of
           None \<Rightarrow> (Inl Breaker_not_persisted, db)
         | Some st \<Rightarrow> if casefold (strip st) \<noteq> ''open'' then (Inl Breaker_not_persisted, db)
             else (Inr ''real_run_reconciliation_required'', db4)))"

section \<open>The fenced system\<close>

text \<open>
  The database, the clock, and two ghost lists: the attempts whose remote call the worker was
  allowed to send, and those a settlement confirmed to have had no effect. The generated
  identifiers carry no white space. \<open>task_write\<close> stands for every other component: it may rewrite
  the tasks, their bindings and the accounts as it likes.
\<close>

type_synonym attempt = "string \<times> string \<times> int"

record fence_sys =
  fs_db :: intent_db
  fs_now :: int
  fs_sent :: "attempt list"
  fs_refuted :: "attempt list"

datatype fence_op = Tick | Acquire | Bind | Release | Renew | Start | Start_refused | Settle | Give_up
  | Quarantine | Task_write

definition with_leases :: "intent_db \<Rightarrow> lease_db \<Rightarrow> intent_db" where
  "with_leases db l = db\<lparr>lease_accounts := lease_accounts l, leases := leases l\<rparr>"

definition attempt_of :: "started \<Rightarrow> attempt" where
  "attempt_of s = (st_task_id s, st_action s, st_attempt_no s)"

inductive fence_step :: "(pydict \<Rightarrow> string) \<Rightarrow> fence_sys \<Rightarrow> fence_op \<Rightarrow> fence_sys \<Rightarrow> bool"
  for sha :: "pydict \<Rightarrow> string" where
  tick: "fs_now s \<le> later \<Longrightarrow> fence_step sha s Tick (s\<lparr>fs_now := later\<rparr>)"
| acquire: "acquire_account_operation_lease (fs_now s) lid aid kind owner rv plat (lease_db.truncate (fs_db s)) = Inr (l, d)
    \<Longrightarrow> fence_step sha s Acquire (s\<lparr>fs_db := with_leases (fs_db s) d\<rparr>)"
| bind_task: "bind_lease_to_task l task (lease_db.truncate (fs_db s)) = Inr d
    \<Longrightarrow> fence_step sha s Bind (s\<lparr>fs_db := with_leases (fs_db s) d\<rparr>)"
| release: "release_recovery_account_lease (fs_now s) mode kind lid aid gen task (lease_db.truncate (fs_db s)) = (ok, d)
    \<Longrightarrow> fence_step sha s Release (s\<lparr>fs_db := with_leases (fs_db s) d\<rparr>)"
| renew: "renew_account_operation_lease (fs_now s) task aid lot wid kind (fs_db s) = (r, d)
    \<Longrightarrow> fence_step sha s Renew (s\<lparr>fs_db := d\<rparr>)"
| start: "strip uuid = uuid \<Longrightarrow> prepare_and_start_action_intent sha (fs_now s) uuid task aid lot wid kind action payload (fs_db s) = (Inr x, d)
    \<Longrightarrow> fence_step sha s Start (s\<lparr>fs_db := d, fs_sent := attempt_of x # fs_sent s\<rparr>)"
| start_refused: "strip uuid = uuid \<Longrightarrow> prepare_and_start_action_intent sha (fs_now s) uuid task aid lot wid kind action payload (fs_db s) = (Inl e, d)
    \<Longrightarrow> fence_step sha s Start_refused (s\<lparr>fs_db := d\<rparr>)"
| settle: "settle_action_intent (fs_now s) x succeeded outcome ref err (fs_db s) = (Inr (), d)
    \<Longrightarrow> fence_step sha s Settle (s\<lparr>fs_db := d, fs_refuted := (if succeeded then [] else [attempt_of x]) @ fs_refuted s\<rparr>)"
| give_up: "mark_action_intent_unknown (fs_now s) x reason (fs_db s) = (r, d)
    \<Longrightarrow> fence_step sha s Give_up (s\<lparr>fs_db := d\<rparr>)"
| quarantine: "quarantine_expired_real_run (fs_now s) task aid plat (fs_db s) = (r, d)
    \<Longrightarrow> fence_step sha s Quarantine (s\<lparr>fs_db := d\<rparr>)"
| task_write: "fence_step sha s Task_write (s\<lparr>fs_db := (fs_db s)\<lparr>task_runs := ts, bindings := bs, lease_accounts := as\<rparr>\<rparr>)"

definition fence_init :: "fence_sys \<Rightarrow> bool" where
  "fence_init s \<longleftrightarrow> intents (fs_db s) = [] \<and> leases (fs_db s) = [] \<and> fs_sent s = [] \<and> fs_refuted s = []"

section \<open>The invariant of the intents\<close>

abbreviation in_key :: "intent \<Rightarrow> string \<times> string" where
  "in_key i \<equiv> (in_task_id i, in_action i)"

text \<open>
  What a row says of the ghost lists: its attempts so far were sent, all but the last are refuted,
  and the last is refuted exactly when the row is \<open>failed\<close>. No row is left \<open>prepared\<close>.
\<close>

definition intent_ok :: "attempt list \<Rightarrow> attempt list \<Rightarrow> intent \<Rightarrow> bool" where
  "intent_ok sent refuted i \<longleftrightarrow> strip (in_id i) = in_id i \<and> strip (in_task_id i) = in_task_id i
     \<and> norm_str (in_action i) = in_action i
     \<and> in_status i \<in> {INTENT_STARTED, INTENT_SUCCEEDED, INTENT_FAILED, INTENT_UNKNOWN} \<and> 1 \<le> in_attempt_no i
     \<and> (\<forall>n. (in_task_id i, in_action i, n) \<in> set sent \<longleftrightarrow> 1 \<le> n \<and> n \<le> in_attempt_no i)
     \<and> (\<forall>n. (in_task_id i, in_action i, n) \<in> set refuted \<longleftrightarrow>
          1 \<le> n \<and> (n < in_attempt_no i \<or> n = in_attempt_no i \<and> in_status i = INTENT_FAILED))"

definition intents_ok :: "attempt list \<Rightarrow> attempt list \<Rightarrow> intent list \<Rightarrow> bool" where
  "intents_ok sent refuted is \<longleftrightarrow> distinct (map in_id is) \<and> distinct (map in_key is)
     \<and> (\<forall>i \<in> set is. intent_ok sent refuted i)
     \<and> (\<forall>t a n. (t, a, n) \<in> set sent \<union> set refuted \<longrightarrow> (t, a) \<in> in_key ` set is) \<and> distinct sent"

definition fence_inv :: "fence_sys \<Rightarrow> bool" where
  "fence_inv s \<longleftrightarrow> lease_inv (fs_now s) (leases (fs_db s)) \<and> intents_ok (fs_sent s) (fs_refuted s) (intents (fs_db s))"

lemma norm_known [simp]: "st \<in> set KNOWN_INTENT_STATES \<Longrightarrow> norm_str st = st"
proof -
  have "list_all (\<lambda>s. norm_str s = s) KNOWN_INTENT_STATES" by code_simp
  then show "st \<in> set KNOWN_INTENT_STATES \<Longrightarrow> norm_str st = st" by (simp add: list_all_iff)
qed

lemma intent_ok_status: "intent_ok sent refuted i \<Longrightarrow> norm_str (in_status i) = in_status i"
  by (rule norm_known) (auto simp: intent_ok_def KNOWN_INTENT_STATES_def)

lemma intent_states_distinct [simp]:
  "INTENT_FAILED \<noteq> INTENT_STARTED" "INTENT_SUCCEEDED \<noteq> INTENT_FAILED" "INTENT_UNKNOWN \<noteq> INTENT_FAILED"
  "INTENT_STARTED \<noteq> INTENT_FAILED" "INTENT_FAILED \<noteq> INTENT_SUCCEEDED" "INTENT_FAILED \<noteq> INTENT_UNKNOWN"
  by (simp_all add: intent_consts)

lemma validate_existingD:
  assumes "validate_existing_intent (Some i) k = Inr (st, n)"
  shows "st = norm_str (in_status i)" "n = in_attempt_no i" "strip (in_task_id i) = fk_task_id k"
    "norm_str (in_action i) = fk_action k" "in_account_id i = fk_account_id k" "st \<in> set KNOWN_INTENT_STATES"
    "in_lease_generation i = fk_generation k" "strip (in_lease_id i) = fk_lease_id k"
  using assms by (auto simp: validate_existing_intent_def Let_def split: if_splits)

text \<open>
  Updates that keep keys and attempts and turn open attempts into unknown or succeeded ones leave
  the ghost lists right.
\<close>

lemma intents_ok_quiet:
  assumes "intents_ok sent refuted is"
    and "\<forall>i \<in> set is. p i \<longrightarrow> in_id (f i) = in_id i \<and> in_key (f i) = in_key i \<and> in_attempt_no (f i) = in_attempt_no i
       \<and> in_status i \<noteq> INTENT_FAILED \<and> in_status (f i) \<in> {INTENT_UNKNOWN, INTENT_SUCCEEDED}"
  shows "intents_ok sent refuted (update_where p f is)"
proof -
  have "map in_id (update_where p f is) = map in_id is" "map in_key (update_where p f is) = map in_key is"
    using assms(2) by (auto intro!: map_update_where_same)
  moreover from this(2) have "in_key ` set (update_where p f is) = in_key ` set is" by (metis list.set_map)
  moreover have "\<forall>i \<in> set (update_where p f is). intent_ok sent refuted i"
  proof
    fix j assume "j \<in> set (update_where p f is)"
    then show "intent_ok sent refuted j"
    proof (rule in_update_whereE)
      fix i assume i: "i \<in> set is" "p i" "j = f i"
      then have "intent_ok sent refuted i" using assms(1) by (simp add: intents_ok_def)
      with i assms(2) show ?thesis by (auto simp: intent_ok_def)
    qed (use assms(1) in \<open>simp add: intents_ok_def\<close>)
  qed
  ultimately show ?thesis using assms(1) unfolding intents_ok_def by simp
qed

text \<open>An update of one row that records its new attempt, or its refutation.\<close>

lemma intents_ok_one:
  assumes ok: "intents_ok sent refuted is" and i0: "i0 \<in> set is" and p: "\<forall>i \<in> set is. p i \<longleftrightarrow> i = i0"
    and f: "in_id (f i0) = in_id i0" "in_key (f i0) = in_key i0" "intent_ok sent' refuted' (f i0)"
    and ghost: "\<forall>t a n. (t, a) \<noteq> in_key i0 \<longrightarrow> ((t, a, n) \<in> set sent' \<longleftrightarrow> (t, a, n) \<in> set sent)
        \<and> ((t, a, n) \<in> set refuted' \<longleftrightarrow> (t, a, n) \<in> set refuted)" "distinct sent'"
  shows "intents_ok sent' refuted' (update_where p f is)"
proof -
  have keys: "map in_id (update_where p f is) = map in_id is" "map in_key (update_where p f is) = map in_key is"
    using p f by (auto intro!: map_update_where_same)
  then have im: "in_key ` set (update_where p f is) = in_key ` set is" by (metis list.set_map)
  have "intent_ok sent' refuted' j" if "j \<in> set (update_where p f is)" for j
    using that
  proof (rule in_update_whereE)
    assume j: "j \<in> set is" "\<not> p j"
    then have "in_key j \<noteq> in_key i0" using ok i0 p by (auto simp: intents_ok_def distinct_map inj_on_def)
    moreover have "intent_ok sent refuted j" using j ok by (simp add: intents_ok_def)
    ultimately show ?thesis using ghost(1) [rule_format, of "in_task_id j" "in_action j"] by (simp add: intent_ok_def)
  qed (use p f in simp)
  moreover have "(t, a) \<in> in_key ` set is" if "(t, a, n) \<in> set sent' \<union> set refuted'" for t a n
    using that ok i0 ghost(1) [rule_format, of t a n] by (cases "(t, a) = in_key i0") (auto simp: intents_ok_def)
  ultimately show ?thesis using ok ghost(2) by (simp only: intents_ok_def keys im) blast
qed

lemma intents_ok_append:
  assumes "intents_ok sent refuted is" "in_id i \<notin> in_id ` set is" "in_key i \<notin> in_key ` set is"
    and "strip (in_id i) = in_id i" "strip (in_task_id i) = in_task_id i" "norm_str (in_action i) = in_action i"
    and "in_status i = INTENT_STARTED" "in_attempt_no i = 1"
  shows "intents_ok ((in_task_id i, in_action i, 1) # sent) refuted (is @ [i])"
proof -
  have none: "(in_task_id i, in_action i, n) \<notin> set sent \<union> set refuted" for n
    using assms(1,3) by (auto simp: intents_ok_def)
  have "intent_ok ((in_task_id i, in_action i, 1) # sent) refuted j" if "j \<in> set is" for j
    using that assms(1,3) by (auto simp: intents_ok_def intent_ok_def image_iff)
  moreover have "intent_ok ((in_task_id i, in_action i, 1) # sent) refuted i"
    using none assms(4-8) by (auto simp: intent_ok_def)
  ultimately show ?thesis using assms none by (auto simp: intents_ok_def)
qed

lemma validate_existing_None: "validate_existing_intent None k = Inl (Blocked ''intent_binding_invalid'')"
  by (simp add: validate_existing_intent_def)

lemma start_phaseD:
  assumes "start_phase now k iid n db0 db = (Inr x, d)"
  shows "d = set_intents (\<lambda>i. in_id i = iid \<and> in_status i = ''prepared'' \<and> in_attempt_no i = n)
            (\<lambda>i. i\<lparr>in_status := ''started'', in_certainty := ''unknown'', in_started_at := Some now,
                   in_completed_at := None\<rparr>) db"
    "attempt_of x = (fk_task_id k, fk_action k, n)" "started_key x = k" "st_intent_id x = iid"
    "\<exists>i. find_intent iid d = Some i \<and> validate_existing_intent (Some i) k = Inr (INTENT_STARTED, n)"
proof -
  let ?d = "set_intents (\<lambda>i. in_id i = iid \<and> in_status i = ''prepared'' \<and> in_attempt_no i = n)
            (\<lambda>i. i\<lparr>in_status := ''started'', in_certainty := ''unknown'', in_started_at := Some now,
                   in_completed_at := None\<rparr>) db"
  have v: "validate_existing_intent (find_intent iid ?d) k = Inr (INTENT_STARTED, n)" and d: "d = ?d"
    using assms by (auto simp: start_phase_def Let_def split: sum.splits if_splits)
  have x: "x = \<lparr>st_intent_id = iid, st_task_id = fk_task_id k, st_account_id = fk_account_id k,
      st_lottery_id = fk_lottery_id k, st_lease_id = fk_lease_id k, st_lease_generation = fk_generation k,
      st_action = fk_action k, st_payload_hash = fk_hash k, st_attempt_no = n\<rparr>"
    using assms unfolding start_phase_def Let_def v by simp
  show "attempt_of x = (fk_task_id k, fk_action k, n)" "st_intent_id x = iid" unfolding x by (simp_all add: attempt_of_def)
  show "started_key x = k" unfolding x by (cases k) (simp add: started_key_def)
  show "d = ?d" by (fact d)
  obtain i where "find_intent iid ?d = Some i"
    using v by (cases "find_intent iid ?d") (simp_all add: validate_existing_None)
  then show "\<exists>i. find_intent iid d = Some i \<and> validate_existing_intent (Some i) k = Inr (INTENT_STARTED, n)"
    using v d by auto
qed

lemma start_phase_refused: "start_phase now k iid n db0 db = (Inl e, d) \<Longrightarrow> d = db0"
  by (auto simp: start_phase_def Let_def split: sum.splits if_splits)

lemma mark_task_intents [simp]:
  "intents (mark_task_reconciliation t n db) = intents db" "leases (mark_task_reconciliation t n db) = leases db"
  by (simp_all add: mark_task_reconciliation_def)

lemma set_intents_simps [simp]:
  "intents (set_intents p f db) = update_where p f (intents db)" "leases (set_intents p f db) = leases db"
  by (simp_all add: set_intents_def)

lemma start_phase_leases: "start_phase now k iid n db0 db = (r, d) \<Longrightarrow> leases db0 = leases db \<Longrightarrow> leases d = leases db"
  by (auto simp: start_phase_def Let_def split: sum.splits if_splits)

lemma resume_leases: "resume_intent now k row db = (r, d) \<Longrightarrow> leases d = leases db"
  by (auto simp: resume_intent_def Let_def split: sum.splits if_splits dest!: start_phase_leases)

lemma prepare_leases:
  "prepare_and_start_action_intent sha now uuid t aid lot wid kind act payload db = (r, d) \<Longrightarrow> leases d = leases db"
  by (auto simp: prepare_and_start_action_intent_def Let_def
      split: if_splits pyval.splits sum.splits option.splits dest!: start_phase_leases resume_leases)

text \<open>Restarting a failed row: the two updates together.\<close>

lemma restart_row:
  assumes ok: "intents_ok sent refuted (intents db)" and row: "row \<in> set (intents db)"
    and v: "validate_existing_intent (Some row) k = Inr (INTENT_FAILED, n)"
    and st: "start_phase now k (in_id row) (n + 1) db (set_intents (\<lambda>i. in_id i = in_id row \<and> in_status i = ''failed'')
                (\<lambda>i. i\<lparr>in_status := ''prepared'', in_certainty := ''not_started'', in_attempt_no := n + 1,
                   in_started_at := None, in_completed_at := None, in_outcome := None, in_remote_ref := None,
                   in_error_message := None, in_note := None\<rparr>) db) = (Inr x, d)"
  shows "intents_ok (attempt_of x # sent) refuted (intents d)"
proof -
  have rok: "intent_ok sent refuted row" using ok row by (simp add: intents_ok_def)
  have failed: "in_status row = INTENT_FAILED" and n: "in_attempt_no row = n"
    and key: "fk_task_id k = in_task_id row" "fk_action k = in_action row"
    using validate_existingD [OF v] intent_ok_status [OF rok] rok by (auto simp: intent_ok_def)
  define f :: "intent \<Rightarrow> intent" where "f = (\<lambda>i. i\<lparr>in_status := ''started'', in_certainty := ''unknown'', in_attempt_no := n + 1,
     in_started_at := Some now, in_completed_at := None, in_outcome := None, in_remote_ref := None,
     in_error_message := None, in_note := None\<rparr>)"
  have one: "\<forall>i \<in> set (intents db). in_id i = in_id row \<longleftrightarrow> i = row"
    using ok row by (auto simp: intents_ok_def dest: distinct_map_eqD)
  have "intents d = update_where (\<lambda>i. i = row) f (intents db)"
    unfolding start_phaseD(1) [OF st] update_where_def set_intents_simps f_def
    using one failed by (auto simp: intent_consts)
  moreover have "intents_ok (attempt_of x # sent) refuted (update_where (\<lambda>i. i = row) f (intents db))"
  proof (rule intents_ok_one [OF ok row])
    have "f row = row\<lparr>in_status := INTENT_STARTED, in_certainty := ''unknown'', in_attempt_no := n + 1,
       in_started_at := Some now, in_completed_at := None, in_outcome := None, in_remote_ref := None,
       in_error_message := None, in_note := None\<rparr>" by (simp add: f_def intent_consts)
    then show "intent_ok (attempt_of x # sent) refuted (f row)"
      using rok failed n key unfolding start_phaseD(2) [OF st] by (auto simp: intent_ok_def)
    show "distinct (attempt_of x # sent)"
      using ok rok n key unfolding start_phaseD(2) [OF st] by (auto simp: intent_ok_def intents_ok_def)
  qed (use key in \<open>auto simp: f_def start_phaseD(2) [OF st]\<close>)
  ultimately show ?thesis by simp
qed


lemma resume_started:
  assumes ok: "intents_ok sent refuted (intents db)" and row: "row \<in> set (intents db)"
    and r: "resume_intent now k row db = (Inr x, d)"
  shows "intents_ok (attempt_of x # sent) refuted (intents d)"
proof -
  obtain st n where v: "validate_existing_intent (Some row) k = Inr (st, n)"
    using r by (auto simp: resume_intent_def Let_def split: sum.splits)
  have rok: "intent_ok sent refuted row" using ok row by (simp add: intents_ok_def)
  have id: "strip (in_id row) = in_id row" using rok by (simp add: intent_ok_def)
  have "st = in_status row" using validate_existingD(1) [OF v] intent_ok_status [OF rok] by simp
  then have "st = INTENT_FAILED"
    using r rok by (auto simp: resume_intent_def Let_def v intent_ok_def split: if_splits)
  with v have v': "validate_existing_intent (Some row) k = Inr (INTENT_FAILED, n)" by simp
  show ?thesis
    by (rule restart_row [OF ok row v', of now]) (use r in \<open>simp add: resume_intent_def Let_def v' id\<close>)
qed

lemma resume_refused:
  assumes ok: "intents_ok sent refuted (intents db)" and r: "resume_intent now k row db = (Inl e, d)"
  shows "intents_ok sent refuted (intents d)"
proof (cases "validate_existing_intent (Some row) k")
  case (Inl e')
  with ok r show ?thesis by (simp add: resume_intent_def Let_def)
next
  case (Inr sn)
  obtain st n where sn: "sn = (st, n)" by fastforce
  let ?p = "\<lambda>i. in_id i = strip (in_id row) \<and> in_status i = ''started''"
  have "intents d = intents db \<or> (\<exists>f. intents d = update_where ?p f (intents db)
      \<and> (\<forall>i. in_id (f i) = in_id i \<and> in_key (f i) = in_key i \<and> in_attempt_no (f i) = in_attempt_no i
          \<and> in_status (f i) = INTENT_UNKNOWN))"
  proof (cases "st = INTENT_STARTED")
    case True
    with r Inr sn show ?thesis
      by (intro disjI2) (auto simp: resume_intent_def Let_def INTENT_UNKNOWN_def)
  next
    case False
    with r Inr sn show ?thesis
      by (intro disjI1) (auto simp: resume_intent_def Let_def split: if_splits dest!: start_phase_refused)
  qed
  then show ?thesis
  proof
    assume "\<exists>f. intents d = update_where ?p f (intents db)
      \<and> (\<forall>i. in_id (f i) = in_id i \<and> in_key (f i) = in_key i \<and> in_attempt_no (f i) = in_attempt_no i
          \<and> in_status (f i) = INTENT_UNKNOWN)"
    then obtain f where f: "intents d = update_where ?p f (intents db)"
      "\<forall>i. in_id (f i) = in_id i \<and> in_key (f i) = in_key i \<and> in_attempt_no (f i) = in_attempt_no i
          \<and> in_status (f i) = INTENT_UNKNOWN" by blast
    show ?thesis unfolding f(1) by (rule intents_ok_quiet [OF ok]) (use f(2) in \<open>simp add: INTENT_FAILED_def\<close>)
  qed (use ok in simp)
qed

lemma fresh_started:
  assumes ok: "intents_ok sent refuted (intents db)" and uuid: "uuid \<notin> in_id ` set (intents db)" "strip uuid = uuid"
    and key: "(fk_task_id k, fk_action k) \<notin> in_key ` set (intents db)" "strip (fk_task_id k) = fk_task_id k"
      "norm_str (fk_action k) = fk_action k"
    and st: "start_phase now k uuid 1 db (db\<lparr>intents := intents db @ [fresh_intent now uuid k]\<rparr>) = (Inr x, d)"
  shows "intents_ok (attempt_of x # sent) refuted (intents d)"
proof -
  let ?i = "(fresh_intent now uuid k)\<lparr>in_status := ''started'', in_certainty := ''unknown'', in_started_at := Some now,
      in_completed_at := None\<rparr>"
  have "intents d = intents db @ [?i]"
    unfolding start_phaseD(1) [OF st] set_intents_simps
    using uuid(1) by (auto simp: fresh_intent_def intro!: update_where_none)
  moreover have "intents_ok ((in_task_id ?i, in_action ?i, 1) # sent) refuted (intents db @ [?i])"
    by (rule intents_ok_append [OF ok]) (use uuid key in \<open>simp_all add: fresh_intent_def INTENT_STARTED_def\<close>)
  ultimately show ?thesis by (simp add: start_phaseD(2) [OF st] fresh_intent_def)
qed


lemma prepare_inv:
  assumes ok: "intents_ok sent refuted (intents db)" and u: "strip uuid = uuid"
    and r: "prepare_and_start_action_intent sha now uuid t aid lot wid kind act payload db = (r, d)"
  shows "intents_ok (case r of Inl _ \<Rightarrow> sent | Inr x \<Rightarrow> attempt_of x # sent) refuted (intents d)"
proof (cases "d = db \<and> (\<exists>e. r = Inl e)")
  case True
  with ok show ?thesis by auto
next
  case False
  let ?t = "strip t" and ?a = "norm_str act"
  obtain p where p: "payload = PDict p"
    using r False by (cases payload) (auto simp: prepare_and_start_action_intent_def Let_def split: if_splits)
  obtain lid gen where v: "validate_task_lease now (task_lease_for_update now ?t db) ?t aid lot (strip wid) kind = Inr (lid, gen)"
    using r False by (auto simp: prepare_and_start_action_intent_def Let_def p split: if_splits sum.splits)
  define k where "k = \<lparr>fk_task_id = ?t, fk_account_id = aid, fk_lottery_id = lot,
      fk_lease_id = lid, fk_generation = gen, fk_action = ?a, fk_hash = sha p\<rparr>"
  show ?thesis
  proof (cases "fetch_one (\<lambda>i. in_task_id i = ?t \<and> in_action i = ?a) (intents db)")
    case None
    then have key: "(fk_task_id k, fk_action k) \<notin> in_key ` set (intents db)"
      by (auto simp: fetch_one_None k_def)
    have s: "uuid \<notin> in_id ` set (intents db)"
      "start_phase now k uuid 1 db (db\<lparr>intents := intents db @ [fresh_intent now uuid k]\<rparr>) = (r, d)"
      using r False by (auto simp: prepare_and_start_action_intent_def Let_def p v None k_def [symmetric] split: if_splits)
    show ?thesis
    proof (cases r)
      case (Inr x)
      with s show ?thesis using fresh_started [OF ok s(1) u key] by (simp add: k_def)
    next
      case (Inl e)
      with s ok show ?thesis by (auto dest: start_phase_refused)
    qed
  next
    case (Some row)
    then have row: "row \<in> set (intents db)" by (auto dest: fetch_one_SomeD)
    have "resume_intent now k row db = (r, d)"
      using r False by (auto simp: prepare_and_start_action_intent_def Let_def p v Some k_def [symmetric] split: if_splits)
    then show ?thesis
      by (cases r) (auto intro: resume_started [OF ok row] resume_refused [OF ok])
  qed
qed

lemma settle_inv:
  assumes ok: "intents_ok sent refuted (intents db)" and r: "settle_action_intent now x succeeded out ref err db = (Inr (), d)"
  shows "intents_ok sent ((if succeeded then [] else [attempt_of x]) @ refuted) (intents d) \<and> leases d = leases db"
proof -
  define p :: "intent \<Rightarrow> bool" where "p = (\<lambda>i. in_id i = st_intent_id x \<and> in_status i = ''started'' \<and> in_attempt_no i = st_attempt_no x)"
  define f :: "intent \<Rightarrow> intent" where "f = (\<lambda>i. i\<lparr>in_status := if succeeded then INTENT_SUCCEEDED else INTENT_FAILED,
      in_certainty := if succeeded then EFFECT_CONFIRMED else EFFECT_CONFIRMED_NONE, in_completed_at := Some now,
      in_outcome := Some (norm_str out), in_remote_ref := short 512 ref, in_error_message := short 4096 err\<rparr>)"
  obtain row where row: "find_intent (st_intent_id x) db = Some row"
    and v: "validate_existing_intent (Some row) (started_key x) = Inr (INTENT_STARTED, st_attempt_no x)"
    using r by (cases "find_intent (st_intent_id x) db")
      (auto simp: settle_action_intent_def Let_def validate_existing_None split: if_splits sum.splits)
  have d: "d = set_intents p f db"
    using r by (auto simp: settle_action_intent_def Let_def row v p_def f_def split: if_splits option.splits)
  have rin: "row \<in> set (intents db)" "in_id row = st_intent_id x"
    using row by (auto simp: find_intent_def dest: fetch_one_SomeD)
  have rok: "intent_ok sent refuted row" using ok rin by (simp add: intents_ok_def)
  have st: "in_status row = INTENT_STARTED" "in_attempt_no row = st_attempt_no x"
    using validate_existingD [OF v] intent_ok_status [OF rok] by auto
  have key: "attempt_of x = (in_task_id row, in_action row, in_attempt_no row)"
    using validate_existingD [OF v] rok by (auto simp: attempt_of_def started_key_def intent_ok_def)
  have one: "\<forall>i \<in> set (intents db). p i \<longleftrightarrow> i = row"
    using ok rin st by (auto simp: p_def intents_ok_def INTENT_STARTED_def dest: distinct_map_eqD)
  show ?thesis
  proof (cases succeeded)
    case True
    have "intents_ok sent refuted (update_where p f (intents db))"
      by (rule intents_ok_quiet [OF ok]) (use one st True in \<open>simp add: f_def\<close>)
    with True d show ?thesis by simp
  next
    case False
    have "intents_ok sent (attempt_of x # refuted) (update_where p f (intents db))"
    proof (rule intents_ok_one [OF ok rin(1) one])
      show "intent_ok sent (attempt_of x # refuted) (f row)"
        using rok st False by (auto simp: intent_ok_def f_def key)
    qed (use ok False in \<open>auto simp: f_def key intents_ok_def\<close>)
    with False d show ?thesis by simp
  qed
qed

lemma give_up_inv:
  assumes ok: "intents_ok sent refuted (intents db)" and r: "mark_action_intent_unknown now x reason db = (r, d)"
  shows "intents_ok sent refuted (intents d) \<and> leases d = leases db"
proof (cases "d = db")
  case False
  have "\<exists>p f n t m. d = mark_task_reconciliation t m (set_intents p f db) \<and> (\<forall>i. p i \<longrightarrow> in_status i \<noteq> INTENT_FAILED)
      \<and> (\<forall>i. in_id (f i) = in_id i \<and> in_key (f i) = in_key i \<and> in_attempt_no (f i) = in_attempt_no i \<and> in_status (f i) = INTENT_UNKNOWN)"
    using r False
    by (auto simp: mark_action_intent_unknown_def Let_def INTENT_UNKNOWN_def INTENT_FAILED_def split: if_splits option.splits sum.splits intro!: exI)
  then show ?thesis
    by (auto intro!: intents_ok_quiet [OF ok])
qed (use ok in simp)


lemma renew_inv:
  assumes "lease_inv now (leases db)" "renew_account_operation_lease now task aid lot wid kind db = (r, d)"
  shows "lease_inv now (leases d) \<and> intents d = intents db"
proof (cases "d = db")
  case False
  have "\<exists>p. d = db\<lparr>leases := update_where p (\<lambda>l. l\<lparr>ls_expires_at := now + seconds 900\<rparr>) (leases db)\<rparr> \<and> (\<forall>l. p l \<longrightarrow> live now l)"
    using assms(2) False
    by (auto simp: renew_account_operation_lease_def Let_def split: if_splits option.splits sum.splits)
  then show ?thesis by (auto intro!: lease_inv_update [OF assms(1)])
qed (use assms in simp)

lemma quarantine_inv:
  assumes ok: "intents_ok sent refuted (intents db)" and r: "quarantine_expired_real_run now task aid plat db = (r, d)"
  shows "intents_ok sent refuted (intents d) \<and> leases d = leases db"
proof (cases "d = db")
  case False
  have "\<exists>p f. intents d = update_where p f (intents db) \<and> (\<forall>i. p i \<longrightarrow> in_status i \<noteq> INTENT_FAILED)
      \<and> (\<forall>i. in_id (f i) = in_id i \<and> in_key (f i) = in_key i \<and> in_attempt_no (f i) = in_attempt_no i \<and> in_status (f i) = INTENT_UNKNOWN)
      \<and> leases d = leases db"
    using r False
    by (auto simp: quarantine_expired_real_run_def Let_def INTENT_UNKNOWN_def INTENT_FAILED_def
        split: if_splits option.splits intro!: exI)
  then show ?thesis by (auto intro!: intents_ok_quiet [OF ok])
qed (use ok in simp)

lemma with_leases_simps [simp]: "leases (with_leases db l) = leases l" "intents (with_leases db l) = intents db"
  by (simp_all add: with_leases_def)

lemma truncate_leases [simp]: "leases (lease_db.truncate db) = leases db"
  by (simp add: lease_db.truncate_def)

interpretation fence: invariant_system fence_init "fence_step sha" fence_inv for sha
proof unfold_locales
  fix s assume "fence_init s"
  then show "fence_inv s" by (simp add: fence_init_def fence_inv_def lease_inv_def intents_ok_def)
next
  fix s e t assume "fence_inv s" and step: "fence_step sha s e t"
  then have L: "lease_inv (fs_now s) (leases (fs_db s))"
    and I: "intents_ok (fs_sent s) (fs_refuted s) (intents (fs_db s))" by (simp_all add: fence_inv_def)
  from step show "fence_inv t"
  proof cases
    case (tick later)
    with L I show ?thesis by (auto simp: fence_inv_def intro: lease_inv_later)
  next
    case acquire
    with L I show ?thesis by (auto simp: fence_inv_def dest: acquire_inv [rotated])
  next
    case bind_task
    with L I show ?thesis by (auto simp: fence_inv_def dest: bind_inv [rotated])
  next
    case (release mode kind lid aid gen task ok d)
    with L I release_inv [of "fs_now s" "lease_db.truncate (fs_db s)" "fs_now s" mode kind lid aid gen task]
    show ?thesis by (simp add: fence_inv_def)
  next
    case renew
    with L I show ?thesis by (auto simp: fence_inv_def dest: renew_inv)
  next
    case (start uuid task aid lot wid kind action payload x d)
    with L I prepare_inv [OF I start(3,4)] show ?thesis by (simp add: fence_inv_def prepare_leases)
  next
    case (start_refused uuid task aid lot wid kind action payload e d)
    with L I prepare_inv [OF I start_refused(3,4)] show ?thesis by (simp add: fence_inv_def prepare_leases)
  next
    case settle
    with L I show ?thesis by (auto simp: fence_inv_def dest!: settle_inv [rotated])
  next
    case give_up
    with L I show ?thesis by (auto simp: fence_inv_def dest: give_up_inv [rotated])
  next
    case quarantine
    with L I show ?thesis by (auto simp: fence_inv_def dest: quarantine_inv [rotated])
  next
    case task_write
    with L I show ?thesis by (simp add: fence_inv_def)
  qed
qed

section \<open>Properties\<close>

text \<open>
  C1. At most once: however tasks, leases, crashes, retries and recoveries interleave, no attempt
  is sent twice, and of the attempts sent for one action of one task at most one is not confirmed
  to have had no effect. A new attempt is only ever sent once every earlier one is so confirmed.
\<close>

theorem external_action_at_most_once:
  assumes "reachable fence_init (fence_step sha) s"
  shows "distinct (fs_sent s)
    \<and> card {n. (task, action, n) \<in> set (fs_sent s) \<and> (task, action, n) \<notin> set (fs_refuted s)} \<le> 1
    \<and> (\<forall>m n. (task, action, n) \<in> set (fs_sent s) \<and> (task, action, m) \<in> set (fs_sent s) \<and> m < n
          \<longrightarrow> (task, action, m) \<in> set (fs_refuted s))"
proof -
  have ok: "intents_ok (fs_sent s) (fs_refuted s) (intents (fs_db s))"
    using fence.inv_reachable [OF assms] by (simp add: fence_inv_def)
  show ?thesis
  proof (cases "(task, action) \<in> in_key ` set (intents (fs_db s))")
    case True
    then obtain i where "i \<in> set (intents (fs_db s))" and key: "task = in_task_id i" "action = in_action i" by auto
    then have i: "intent_ok (fs_sent s) (fs_refuted s) i" using ok by (simp add: intents_ok_def)
    have "{n. (task, action, n) \<in> set (fs_sent s) \<and> (task, action, n) \<notin> set (fs_refuted s)} \<subseteq> {in_attempt_no i}"
      using i by (auto simp: intent_ok_def key)
    then have "card {n. (task, action, n) \<in> set (fs_sent s) \<and> (task, action, n) \<notin> set (fs_refuted s)} \<le> card {in_attempt_no i}"
      by (intro card_mono) auto
    then show ?thesis using ok i by (auto simp: intents_ok_def intent_ok_def key)
  next
    case False
    then have none: "(task, action, n) \<notin> set (fs_sent s)" for n using ok by (auto simp: intents_ok_def)
    then have "{n. (task, action, n) \<in> set (fs_sent s) \<and> (task, action, n) \<notin> set (fs_refuted s)} = {}" by blast
    with ok none show ?thesis by (simp add: intents_ok_def)
  qed
qed

definition demo_task :: task_run where
  "demo_task = \<lparr>tr_task_id = ''T'', tr_account_id = 1, tr_lottery_id = 9, tr_status = ''running'',
     tr_worker_id = Some ''w'', tr_lease_id = Some ''L'', tr_lease_generation = Some 1, tr_reconciliation = False,
     tr_error_message = None, tr_finished_at = None\<rparr>"

definition demo_fence :: intent_db where
  "demo_fence = \<lparr>lease_accounts = [demo_account 1 ''ready''], leases = [], task_runs = [], bindings = [],
     intents = [], breakers = []\<rparr>"

definition demo_lease :: lease where
  "demo_lease = \<lparr>ls_id = ''L'', ls_account_id = 1, ls_generation = 1, ls_operation_kind = ''real_run'',
     ls_owner_id = ''T'', ls_task_id = None, ls_expires_at = seconds 1800, ls_released_at = None\<rparr>"

definition demo_fence_ready :: intent_db where
  "demo_fence_ready = demo_fence\<lparr>leases := [demo_lease\<lparr>ls_task_id := Some ''T''\<rparr>], task_runs := [demo_task]\<rparr>"

definition demo_fence_sys :: "intent_db \<Rightarrow> fence_sys" where
  "demo_fence_sys db = \<lparr>fs_db = db, fs_now = 0, fs_sent = [], fs_refuted = []\<rparr>"

lemma demo_fence_reachable: "reachable fence_init (fence_step sha) (demo_fence_sys demo_fence_ready)"
proof -
  have a: "acquire_account_operation_lease 0 ''L'' 1 ''real_run'' ''T'' None None (lease_db.truncate demo_fence)
      = Inr (demo_lease, (lease_db.truncate demo_fence)\<lparr>leases := [demo_lease]\<rparr>)" by code_simp
  let ?d1 = "with_leases demo_fence ((lease_db.truncate demo_fence)\<lparr>leases := [demo_lease]\<rparr>)"
  have b: "bind_lease_to_task demo_lease ''T'' (lease_db.truncate ?d1)
      = Inr ((lease_db.truncate ?d1)\<lparr>leases := [demo_lease\<lparr>ls_task_id := Some ''T''\<rparr>]\<rparr>)" by code_simp
  let ?d2 = "with_leases ?d1 ((lease_db.truncate ?d1)\<lparr>leases := [demo_lease\<lparr>ls_task_id := Some ''T''\<rparr>]\<rparr>)"
  have "reachable fence_init (fence_step sha) (demo_fence_sys demo_fence)"
    by (rule reach_init) (simp add: fence_init_def demo_fence_sys_def demo_fence_def)
  then have "reachable fence_init (fence_step sha) (demo_fence_sys ?d1)"
    by (rule reach_step) (use fence_step.acquire [of "demo_fence_sys demo_fence"] a in \<open>simp add: demo_fence_sys_def\<close>)
  then have "reachable fence_init (fence_step sha) (demo_fence_sys ?d2)"
    by (rule reach_step) (use fence_step.bind_task [of _ _ "demo_fence_sys ?d1"] b in \<open>simp add: demo_fence_sys_def\<close>)
  then show ?thesis
    by (rule reach_step)
      (use fence_step.task_write [where s = "demo_fence_sys ?d2" and ts = "[demo_task]" and bs = "[]"
            and as = "[demo_account 1 ''ready'']"] in
        \<open>simp add: demo_fence_sys_def demo_fence_ready_def demo_fence_def with_leases_def lease_db.truncate_def\<close>)
qed

abbreviation demo_start :: "intent_db \<Rightarrow> (intent_error, started) result \<times> intent_db" where
  "demo_start db \<equiv> prepare_and_start_action_intent (\<lambda>_. ''h'') 0 ''U'' ''T'' 1 9 ''w'' ''legacy_full'' ''follow'' (PDict []) db"

lemma demo_start_ok: "\<exists>x d. demo_start demo_fence_ready = (Inr x, d) \<and> attempt_of x = (''T'', ''follow'', 1)"
proof -
  have "(case demo_start demo_fence_ready of (Inr x, d) \<Rightarrow> attempt_of x = (''T'', ''follow'', 1) | _ \<Rightarrow> False)" by code_simp
  then show ?thesis by (auto split: prod.splits sum.splits)
qed

theorem external_action_at_most_once_witness:
  "\<exists>s. reachable fence_init (fence_step (\<lambda>_. ''h'')) s \<and> fs_sent s = [(''T'', ''follow'', 1)]
     \<and> card {n. (''T'', ''follow'', n) \<in> set (fs_sent s) \<and> (''T'', ''follow'', n) \<notin> set (fs_refuted s)} \<le> 1"
proof -
  obtain x d where x: "demo_start demo_fence_ready = (Inr x, d)" "attempt_of x = (''T'', ''follow'', 1)"
    using demo_start_ok by blast
  let ?s = "(demo_fence_sys demo_fence_ready)\<lparr>fs_db := d, fs_sent := [(''T'', ''follow'', 1)]\<rparr>"
  have "strip ''U'' = ''U''" by code_simp
  then have "fence_step (\<lambda>_. ''h'') (demo_fence_sys demo_fence_ready) Start ?s"
    using fence_step.start [where s = "demo_fence_sys demo_fence_ready" and uuid = "''U''" and x = x and d = d
        and sha = "\<lambda>_. ''h''" and task = "''T''" and aid = 1 and lot = 9 and wid = "''w''" and kind = "''legacy_full''"
        and action = "''follow''" and payload = "PDict []"] x by (simp add: demo_fence_sys_def)
  then have r: "reachable fence_init (fence_step (\<lambda>_. ''h'')) ?s" by (rule reach_step [OF demo_fence_reachable])
  from external_action_at_most_once [OF r, of "''T''" "''follow''"] r show ?thesis
    by (intro exI [of _ ?s]) (simp add: demo_fence_sys_def)
qed


text \<open>
  An attempt whose outcome is open, unknown or successful is never replayed: asking to start the
  same action of the same task again raises, whatever the lease, the payload and the caller are.
\<close>

theorem unsettled_intent_never_replayed:
  assumes "reachable fence_init (fence_step sha) s" "i \<in> set (intents (fs_db s))"
    and "in_status i \<in> {INTENT_STARTED, INTENT_UNKNOWN, INTENT_SUCCEEDED}"
    and "in_task_id i = strip task" "in_action i = norm_str action"
    and "prepare_and_start_action_intent sha now uuid task aid lot wid kind action payload (fs_db s) = (r, d)"
  shows "\<exists>e. r = Inl e"
proof (cases r)
  case (Inr x)
  have ok: "intents_ok (fs_sent s) (fs_refuted s) (intents (fs_db s))"
    using fence.inv_reachable [OF assms(1)] by (simp add: fence_inv_def)
  let ?p = "\<lambda>j. in_task_id j = strip task \<and> in_action j = norm_str action"
  have f: "fetch_one ?p (intents (fs_db s)) = Some i"
    by (rule fetch_one_unique [of in_key, OF _ assms(2)]) (use ok assms(4,5) in \<open>auto simp: intents_ok_def\<close>)
  obtain k where "resume_intent now k i (fs_db s) = (Inr x, d)"
    using assms(6) Inr
    by (auto simp: prepare_and_start_action_intent_def Let_def f split: if_splits pyval.splits sum.splits)
  then obtain st n where v: "validate_existing_intent (Some i) k = Inr (st, n)" and "st \<notin> {INTENT_STARTED, INTENT_UNKNOWN, INTENT_SUCCEEDED}"
    by (auto simp: resume_intent_def Let_def split: sum.splits if_splits)
  moreover have "st = in_status i"
    using validate_existingD(1) [OF v] intent_ok_status [of "fs_sent s" "fs_refuted s" i] ok assms(2)
    by (simp add: intents_ok_def)
  ultimately show ?thesis using assms(3) by simp
qed simp

text \<open>
  C23. A start that is granted is fenced: the task is running under the calling worker, its lease is
  live, unreleased, of the newest generation and the only live one of the account, no reconciliation
  is pending, and the committed row is \<open>started\<close> with unknown effect before the call is sent.
\<close>

theorem started_intent_is_fenced:
  assumes "prepare_and_start_action_intent sha now uuid task aid lot wid kind action payload db = (Inr x, d)"
  shows "(\<exists>t \<in> set (task_runs db). \<exists>l \<in> set (leases db).
        tr_task_id t = strip task \<and> norm_str (tr_status t) = ''running'' \<and> \<not> tr_reconciliation t
        \<and> strip (opt_str (tr_worker_id t)) = strip wid \<and> tr_lease_id t = Some (ls_id l)
        \<and> tr_lease_generation t = Some (ls_generation l) \<and> ls_account_id l = aid \<and> live now l
        \<and> ls_generation l = max_generation aid (leases db)
        \<and> row_count (\<lambda>y. ls_account_id y = aid \<and> live now y) (leases db) = 1
        \<and> st_lease_generation x = ls_generation l)
    \<and> (\<exists>i. find_intent (st_intent_id x) d = Some i \<and> norm_str (in_status i) = INTENT_STARTED
        \<and> norm_str (in_certainty i) = EFFECT_UNKNOWN \<and> in_attempt_no i = st_attempt_no x
        \<and> in_lease_generation i = st_lease_generation x)"
proof -
  obtain p lid gen where p: "payload = PDict p"
    and v: "validate_task_lease now (task_lease_for_update now (strip task) db) (strip task) aid lot (strip wid) kind = Inr (lid, gen)"
    using assms by (auto simp: prepare_and_start_action_intent_def Let_def split: if_splits pyval.splits sum.splits)
  define k where "k = \<lparr>fk_task_id = strip task, fk_account_id = aid, fk_lottery_id = lot,
      fk_lease_id = lid, fk_generation = gen, fk_action = norm_str action, fk_hash = sha p\<rparr>"
  obtain iid n db1 where st: "start_phase now k iid n db db1 = (Inr x, d)"
    using assms
    by (auto simp: prepare_and_start_action_intent_def resume_intent_def Let_def p v k_def [symmetric]
        split: if_splits option.splits sum.splits)
  note sp = start_phaseD [OF st]
  then obtain i where i: "find_intent iid d = Some i" "validate_existing_intent (Some i) k = Inr (INTENT_STARTED, n)" by blast
  have cert: "norm_str (in_certainty i) = EFFECT_UNKNOWN"
    using i(2) by (auto simp: validate_existing_intent_def Let_def EXPECTED_EFFECT_CERTAINTY_def intent_consts split: if_splits)
  have gens: "st_lease_generation x = gen" "st_attempt_no x = n"
    using sp(2,3) by (auto simp: started_key_def k_def attempt_of_def)
  note vi = validate_existingD [OF i(2)]
  obtain t where t: "fetch_one (\<lambda>t. tr_task_id t = strip task) (task_runs db) = Some t"
    using v by (auto simp: validate_task_lease_def task_lease_for_update_def split: option.splits)
  obtain l where l: "fetch_one (\<lambda>l. ls_account_id l = tr_account_id t \<and> Some (ls_id l) = tr_lease_id t) (leases db) = Some l"
    using v by (auto simp: validate_task_lease_def task_lease_for_update_def t Let_def split: option.splits prod.splits)
  have facts: "norm_str (tr_status t) = ''running'' \<and> \<not> tr_reconciliation t \<and> strip (opt_str (tr_worker_id t)) = strip wid
      \<and> tr_lease_generation t = Some (ls_generation l) \<and> tr_account_id t = aid \<and> live now l
      \<and> ls_generation l = max_generation aid (leases db)
      \<and> row_count (\<lambda>y. ls_account_id y = aid \<and> live now y) (leases db) = 1 \<and> gen = ls_generation l"
    using v by (simp add: validate_task_lease_def task_lease_for_update_def t l Let_def live_def
        split: option.splits sum.splits if_splits)
  show ?thesis
  proof (intro conjI)
    show "\<exists>t \<in> set (task_runs db). \<exists>l \<in> set (leases db).
        tr_task_id t = strip task \<and> norm_str (tr_status t) = ''running'' \<and> \<not> tr_reconciliation t
        \<and> strip (opt_str (tr_worker_id t)) = strip wid \<and> tr_lease_id t = Some (ls_id l)
        \<and> tr_lease_generation t = Some (ls_generation l) \<and> ls_account_id l = aid \<and> live now l
        \<and> ls_generation l = max_generation aid (leases db)
        \<and> row_count (\<lambda>y. ls_account_id y = aid \<and> live now y) (leases db) = 1
        \<and> st_lease_generation x = ls_generation l"
      using facts gens fetch_one_SomeD [OF t] fetch_one_SomeD [OF l]
      by (intro bexI [of _ t] bexI [of _ l]) simp_all
    show "\<exists>i. find_intent (st_intent_id x) d = Some i \<and> norm_str (in_status i) = INTENT_STARTED
        \<and> norm_str (in_certainty i) = EFFECT_UNKNOWN \<and> in_attempt_no i = st_attempt_no x
        \<and> in_lease_generation i = st_lease_generation x"
      using i(1) sp(4) cert gens vi by (intro exI [of _ i]) (simp add: k_def)
  qed
qed

theorem started_intent_is_fenced_witness:
  "\<exists>x d. demo_start demo_fence_ready = (Inr x, d) \<and>
     (\<exists>i. find_intent (st_intent_id x) d = Some i \<and> norm_str (in_status i) = INTENT_STARTED)"
proof -
  obtain x d where x: "demo_start demo_fence_ready = (Inr x, d)" using demo_start_ok by blast
  from started_intent_is_fenced [OF x] x show ?thesis by blast
qed


theorem unsettled_intent_never_replayed_witness:
  "\<exists>s i. reachable fence_init (fence_step (\<lambda>_. ''h'')) s \<and> i \<in> set (intents (fs_db s))
     \<and> (\<exists>e. fst (demo_start (fs_db s)) = Inl e)"
proof -
  let ?base = "demo_fence_sys demo_fence_ready"
  have "(case demo_start demo_fence_ready of (Inr x, d) \<Rightarrow> attempt_of x = (''T'', ''follow'', 1)
      \<and> map (\<lambda>i. (in_task_id i, in_action i, in_status i)) (intents d) = [(''T'', ''follow'', ''started'')] | _ \<Rightarrow> False)" by code_simp
  then obtain x d i where x: "demo_start demo_fence_ready = (Inr x, d)" "attempt_of x = (''T'', ''follow'', 1)"
    and i: "intents d = [i]" "in_task_id i = ''T''" "in_action i = ''follow''" "in_status i = ''started''"
    by (auto split: prod.splits sum.splits)
  let ?s = "?base\<lparr>fs_db := d, fs_sent := [(''T'', ''follow'', 1)]\<rparr>"
  have n: "strip ''U'' = ''U''" "strip ''T'' = ''T''" "norm_str ''follow'' = ''follow''" by code_simp+
  then have "fence_step (\<lambda>_. ''h'') ?base Start ?s"
    using fence_step.start [where s = ?base and uuid = "''U''" and x = x and d = d
        and sha = "\<lambda>_. ''h''" and task = "''T''" and aid = 1 and lot = 9 and wid = "''w''" and kind = "''legacy_full''"
        and action = "''follow''" and payload = "PDict []"] x by (simp add: demo_fence_sys_def)
  then have r: "reachable fence_init (fence_step (\<lambda>_. ''h'')) ?s" by (rule reach_step [OF demo_fence_reachable])
  obtain r' d' where d': "demo_start d = (r', d')" by fastforce
  have "\<exists>e. r' = Inl e"
    by (rule unsettled_intent_never_replayed [OF r, of i "''T''" "''follow''" 0 "''U''" 1 9 "''w''" "''legacy_full''" "PDict []"])
      (use i n d' in \<open>simp_all add: INTENT_STARTED_def\<close>)
  with r i d' show ?thesis by (intro exI [of _ ?s] exI [of _ i]) simp
qed

text \<open>
  C24. Fencing of accounts: in every reachable state an account has at most one live lease, it is the
  newest generation of the account, and every earlier generation is dead.
\<close>

theorem one_live_lease_per_account:
  assumes "reachable fence_init (fence_step sha) s" "l \<in> set (leases (fs_db s))" "live (fs_now s) l"
  shows "(\<forall>l' \<in> set (leases (fs_db s)). ls_account_id l' = ls_account_id l \<and> live (fs_now s) l' \<longrightarrow> l' = l)
    \<and> (\<forall>l' \<in> set (leases (fs_db s)). ls_account_id l' = ls_account_id l \<longrightarrow> ls_generation l' \<le> ls_generation l)"
proof -
  have inv: "lease_inv (fs_now s) (leases (fs_db s))"
    using fence.inv_reachable [OF assms(1)] by (simp add: fence_inv_def)
  then have "ls_generation l = max_generation (ls_account_id l) (leases (fs_db s))"
    using assms(2,3) by (simp add: lease_inv_def)
  with inv assms show ?thesis by (auto intro: lease_inv_one_live max_generation_ge)
qed

theorem one_live_lease_per_account_witness:
  "\<exists>s l. reachable fence_init (fence_step (\<lambda>_. ''h'')) s \<and> l \<in> set (leases (fs_db s)) \<and> live (fs_now s) l
     \<and> (\<forall>l' \<in> set (leases (fs_db s)). ls_account_id l' = ls_account_id l \<and> live (fs_now s) l' \<longrightarrow> l' = l)"
proof -
  let ?l = "demo_lease\<lparr>ls_task_id := Some ''T''\<rparr>" and ?s = "demo_fence_sys demo_fence_ready"
  have l: "?l \<in> set (leases (fs_db ?s))" "live (fs_now ?s) ?l" by code_simp+
  from one_live_lease_per_account [OF demo_fence_reachable l] l demo_fence_reachable show ?thesis by blast
qed

text \<open>
  A settlement is final: after an attempt has been settled, settling it again with any result,
  or giving it up as unknown, raises and changes nothing.
\<close>

theorem settlement_is_final:
  assumes "settle_action_intent now x ok out ref err db = (Inr (), d)"
  shows "\<exists>e e'. settle_action_intent now' x ok' out' ref' err' d = (Inl e, d)
    \<and> mark_action_intent_unknown now'' x reason d = (Inl e', d)"
proof -
  let ?st = "if ok then INTENT_SUCCEEDED else INTENT_FAILED"
  obtain i where i: "find_intent (st_intent_id x) d = Some i" "norm_str (in_status i) = ?st"
    using assms by (auto simp: settle_action_intent_def Let_def split: if_splits sum.splits option.splits)
  have ne: "?st \<noteq> INTENT_STARTED" "?st \<noteq> INTENT_UNKNOWN" by (simp_all add: intent_consts)
  have "(\<exists>e. validate_existing_intent (Some i) (started_key x) = Inl e)
      \<or> (\<exists>n. validate_existing_intent (Some i) (started_key x) = Inr (?st, n))"
    using i(2) by (cases "validate_existing_intent (Some i) (started_key x)") (auto dest: validate_existingD(1))
  then show ?thesis
    using ne by (auto simp: settle_action_intent_def mark_action_intent_unknown_def Let_def i(1))
qed


theorem settlement_is_final_witness:
  "\<exists>x d d'. demo_start demo_fence_ready = (Inr x, d) \<and> settle_action_intent 0 x True ''ok'' None None d = (Inr (), d')
     \<and> (\<exists>e. settle_action_intent 5 x False ''retry'' None None d' = (Inl e, d'))"
proof -
  have "(case demo_start demo_fence_ready of (Inr x, d) \<Rightarrow> fst (settle_action_intent 0 x True ''ok'' None None d) = Inr ()
      | _ \<Rightarrow> False)" by code_simp
  then obtain x d where x: "demo_start demo_fence_ready = (Inr x, d)"
    and "fst (settle_action_intent 0 x True ''ok'' None None d) = Inr ()" by (auto split: prod.splits sum.splits)
  then obtain d' where d': "settle_action_intent 0 x True ''ok'' None None d = (Inr (), d')" by (metis prod.collapse)
  from settlement_is_final [OF d', of 5 False "''retry''" None None] x d' show ?thesis by blast
qed

end
