(* ===== verification/Scheduling.thy ===== *)
theory Scheduling
  imports PyValue "HOL-Library.Product_Lexorder" "HOL-Library.Multiset"
begin

text \<open>
  The scheduling engine (\<open>core/app/scheduling/engine.py\<close>): candidates are assigned to accounts at
  minute offsets, platform by platform. Identifiers are integers or missing, a platform is a string
  or missing; every number the engine reads through \<open>_as_int\<close> is an arbitrary value here as well.
\<close>

section \<open>Data\<close>

type_synonym platform = "string option"

definition mk_limit :: "int \<Rightarrow> int \<Rightarrow> int \<Rightarrow> pydict" where
  "mk_limit daily spacing window = [(''max_daily_per_account'', PInt daily), (''min_spacing_min'', PInt spacing),
     (''max_per_window'', PInt window)]"

type_synonym limit_table = "(string \<times> pydict) list"

definition PLATFORM_RATE_LIMITS :: limit_table where
  "PLATFORM_RATE_LIMITS = [(''bilibili'', mk_limit 8 45 12), (''weibo'', mk_limit 6 60 8),
     (''xiaohongshu'', mk_limit 5 75 6), (''douyin'', mk_limit 5 90 6)]"

definition DEFAULT_RATE_LIMIT :: pydict where
  "DEFAULT_RATE_LIMIT = mk_limit 4 90 4"

text \<open>\<open>table.get(platform, DEFAULT_RATE_LIMIT)\<close>.\<close>

definition limit_in :: "limit_table \<Rightarrow> platform \<Rightarrow> pydict" where
  "limit_in table p = (case p of None \<Rightarrow> DEFAULT_RATE_LIMIT
     | Some s \<Rightarrow> (case map_of table s of None \<Rightarrow> DEFAULT_RATE_LIMIT | Some l \<Rightarrow> l))"

definition rate_limit_for :: "platform \<Rightarrow> pydict" where
  "rate_limit_for p = limit_in PLATFORM_RATE_LIMITS p"

text \<open>\<open>limits or PLATFORM_RATE_LIMITS\<close>.\<close>

definition limits_or :: "limit_table option \<Rightarrow> limit_table" where
  "limits_or limits = (case limits of None \<Rightarrow> PLATFORM_RATE_LIMITS
     | Some t \<Rightarrow> if t = [] then PLATFORM_RATE_LIMITS else t)"

definition spacing_of :: "pydict \<Rightarrow> int" where
  "spacing_of limit = max 1 (as_int (dget limit ''min_spacing_min'') 1)"

record candidate =
  c_lottery_id :: "int option"
  c_platform :: platform
  c_value_score :: pyval

record sched_account =
  sa_account_id :: "int option"
  sa_platform :: platform
  sa_remaining_quota :: pyval
  sa_ready_in_min :: pyval
  sa_risk_score :: pyval

record slot =
  sl_lottery_id :: "int option"
  sl_account_id :: "int option"
  sl_platform :: platform
  sl_offset :: int
  sl_value_score :: int

datatype withheld = Platform_window_cap_reached | No_capacity_within_window

record unscheduled_item =
  us_lottery_id :: "int option"
  us_platform :: platform
  us_reason :: withheld

record pool_account =
  pa_account_id :: "int option"
  pa_next_free :: int
  pa_quota_left :: int
  pa_risk_score :: int

record platform_summary =
  ps_planned :: nat
  ps_unscheduled :: nat
  ps_accounts :: nat
  ps_demand :: nat
  ps_capacity :: int

record schedule_plan =
  sp_window_minutes :: int
  sp_slots :: "slot list"
  sp_unscheduled :: "unscheduled_item list"
  sp_per_platform :: "(platform \<times> platform_summary) list"

definition id_int :: "int option \<Rightarrow> int" where
  "id_int i = (case i of None \<Rightarrow> 0 | Some n \<Rightarrow> n)"

text \<open>\<open>str(platform)\<close> of a string or \<open>None\<close>.\<close>

definition platform_str :: "platform \<Rightarrow> string" where
  "platform_str p = (case p of None \<Rightarrow> ''None'' | Some s \<Rightarrow> s)"

section \<open>Planning\<close>

definition make_pool :: "sched_account list \<Rightarrow> pool_account list" where
  "make_pool accounts = map (\<lambda>a. \<lparr>pa_account_id = sa_account_id a, pa_next_free = max 0 (as_int (sa_ready_in_min a) 0),
       pa_quota_left = as_int (sa_remaining_quota a) 0, pa_risk_score = as_int (sa_risk_score a) 0\<rparr>)
     (filter (\<lambda>a. as_int (sa_remaining_quota a) 0 > 0) accounts)"

definition eligible :: "int \<Rightarrow> pool_account \<Rightarrow> bool" where
  "eligible window a \<longleftrightarrow> pa_quota_left a > 0 \<and> pa_next_free a < window"

text \<open>\<open>min(eligible, key=...)\<close> as the position of the first account with the least key.\<close>

definition pick_key :: "pool_account \<Rightarrow> int \<times> int \<times> int \<times> int" where
  "pick_key a = (pa_next_free a, pa_risk_score a, - pa_quota_left a, id_int (pa_account_id a))"

definition pick :: "int \<Rightarrow> pool_account list \<Rightarrow> nat option" where
  "pick window pool = (case sort_key (\<lambda>i. pick_key (pool ! i)) (filter (\<lambda>i. eligible window (pool ! i)) [0..<length pool]) of
     [] \<Rightarrow> None | i # _ \<Rightarrow> Some i)"

text \<open>The loop over one platform's candidates.\<close>

record plan_state =
  st_slots :: "slot list"
  st_unscheduled :: "unscheduled_item list"
  st_pool :: "pool_account list"
  st_planned :: int

definition place :: "int \<Rightarrow> int \<Rightarrow> int \<Rightarrow> platform \<Rightarrow> candidate \<Rightarrow> plan_state \<Rightarrow> plan_state" where
  "place window spacing cap p cand s =
     (if st_planned s \<ge> cap
      then s\<lparr>st_unscheduled := st_unscheduled s @ [\<lparr>us_lottery_id = c_lottery_id cand, us_platform = p,
             us_reason = Platform_window_cap_reached\<rparr>]\<rparr>
      else case pick window (st_pool s) of
        None \<Rightarrow> s\<lparr>st_unscheduled := st_unscheduled s @ [\<lparr>us_lottery_id = c_lottery_id cand, us_platform = p,
             us_reason = No_capacity_within_window\<rparr>]\<rparr>
      | Some i \<Rightarrow>
          let acct = st_pool s ! i in
          s\<lparr>st_slots := st_slots s @ [\<lparr>sl_lottery_id = c_lottery_id cand, sl_account_id = pa_account_id acct,
               sl_platform = p, sl_offset = pa_next_free acct, sl_value_score = as_int (c_value_score cand) 0\<rparr>],
            st_pool := (st_pool s)[i := acct\<lparr>pa_next_free := pa_next_free acct + spacing,
               pa_quota_left := pa_quota_left acct - 1\<rparr>],
            st_planned := st_planned s + 1\<rparr>)"

definition cand_key :: "candidate \<Rightarrow> int \<times> int" where
  "cand_key c = (- as_int (c_value_score c) 0, id_int (c_lottery_id c))"

definition plan_platform ::
  "int \<Rightarrow> limit_table \<Rightarrow> candidate list \<Rightarrow> sched_account list \<Rightarrow> platform \<Rightarrow> plan_state" where
  "plan_platform window table candidates accounts p =
     (let cands = sort_key cand_key (filter (\<lambda>c. c_platform c = p) candidates);
          limit = limit_in table p;
          cap = as_int (dget limit ''max_per_window'') (int (length cands)) in
      fold (place window (spacing_of limit) cap p) cands
        \<lparr>st_slots = [], st_unscheduled = [], st_pool = make_pool (filter (\<lambda>a. sa_platform a = p) accounts), st_planned = 0\<rparr>)"

text \<open>The platforms of the candidates, in the order of \<open>(p is None, str(p))\<close>.\<close>

definition platform_order :: "candidate list \<Rightarrow> platform list" where
  "platform_order candidates = sort_key (\<lambda>p. (p = None, platform_str p)) (dedupe (map c_platform candidates))"

definition slot_key :: "slot \<Rightarrow> int \<times> string \<times> int" where
  "slot_key s = (sl_offset s, platform_str (sl_platform s), id_int (sl_account_id s))"

definition summarize :: "candidate list \<Rightarrow> sched_account list \<Rightarrow> platform \<Rightarrow> plan_state \<Rightarrow> platform_summary" where
  "summarize candidates accounts p st = \<lparr>ps_planned = length (st_slots st), ps_unscheduled = length (st_unscheduled st),
     ps_accounts = length (st_pool st), ps_demand = length (filter (\<lambda>c. c_platform c = p) candidates),
     ps_capacity = sum_list (map (\<lambda>a. as_int (sa_remaining_quota a) 0) (filter (\<lambda>a. sa_platform a = p) accounts))\<rparr>"

definition plan_schedule ::
  "candidate list \<Rightarrow> sched_account list \<Rightarrow> pyval \<Rightarrow> limit_table option \<Rightarrow> schedule_plan" where
  "plan_schedule candidates accounts window_minutes limits =
     (let window = max 0 (as_int window_minutes 0);
          table = limits_or limits;
          runs = map (\<lambda>p. (p, plan_platform window table candidates accounts p)) (platform_order candidates) in
      \<lparr>sp_window_minutes = window,
       sp_slots = sort_key slot_key (concat (map (\<lambda>(p, st). st_slots st) runs)),
       sp_unscheduled = concat (map (\<lambda>(p, st). st_unscheduled st) runs),
       sp_per_platform = map (\<lambda>(p, st). (p, summarize candidates accounts p st)) runs\<rparr>)"

section \<open>Checking a plan, overload\<close>

datatype plan_violation = Slot_outside_window "int option" | Spacing_violation "int option" int int

definition slot_owner :: "slot \<Rightarrow> platform \<times> int option" where
  "slot_owner s = (sl_platform s, sl_account_id s)"

definition respects_rate_limit :: "schedule_plan \<Rightarrow> limit_table option \<Rightarrow> bool \<times> plan_violation list" where
  "respects_rate_limit plan limits =
     (let table = limits_or limits; window = sp_window_minutes plan;
          outside = map (\<lambda>s. Slot_outside_window (sl_lottery_id s))
            (filter (\<lambda>s. sl_offset s \<ge> window \<and> window > 0) (sp_slots plan));
          spaced = concat (map (\<lambda>k.
            let offsets = sort (map sl_offset (filter (\<lambda>s. slot_owner s = k) (sp_slots plan)));
                spacing = spacing_of (limit_in table (fst k)) in
            map (\<lambda>(e, l). Spacing_violation (snd k) e l) (filter (\<lambda>(e, l). l - e < spacing) (zip offsets (tl offsets))))
            (dedupe (map slot_owner (sp_slots plan)))) in
      (outside @ spaced = [], outside @ spaced))"

definition is_overloaded :: "int \<Rightarrow> limit_table \<Rightarrow> candidate list \<Rightarrow> sched_account list \<Rightarrow> platform \<Rightarrow> bool" where
  "is_overloaded window table candidates accounts p =
     (let limit = limit_in table p; demand = int (length (filter (\<lambda>c. c_platform c = p) candidates));
          here = filter (\<lambda>a. sa_platform a = p) accounts;
          max_per_window = as_int (dget limit ''max_per_window'') demand;
          slots_per_account = (if window > 0 then window div spacing_of limit else 0);
          quota = sum_list (map (\<lambda>a. as_int (sa_remaining_quota a) 0) here);
          time_supply = slots_per_account * int (length here) in
      demand > min quota (min time_supply max_per_window))"

definition detect_overload ::
  "candidate list \<Rightarrow> sched_account list \<Rightarrow> pyval \<Rightarrow> limit_table option \<Rightarrow> platform list" where
  "detect_overload candidates accounts window_minutes limits =
     sort_key platform_str (filter (is_overloaded (max 0 (as_int window_minutes 0)) (limits_or limits) candidates accounts)
       (dedupe (map c_platform candidates)))"

section \<open>What one platform's loop keeps\<close>

definition offsets_of :: "int option \<Rightarrow> slot list \<Rightarrow> int list" where
  "offsets_of a slots = map sl_offset (filter (\<lambda>s. sl_account_id s = a) slots)"

text \<open>The offsets of an account: its first free minute, then one spacing after the other.\<close>

definition progression :: "int \<Rightarrow> int \<Rightarrow> nat \<Rightarrow> int list" where
  "progression first spacing n = map (\<lambda>j. first + spacing * int j) [0..<n]"

definition account_follows :: "int \<Rightarrow> slot list \<Rightarrow> pool_account \<Rightarrow> pool_account \<Rightarrow> bool" where
  "account_follows spacing slots a0 a \<longleftrightarrow>
     (let n = length (offsets_of (pa_account_id a0) slots) in
      pa_account_id a = pa_account_id a0
      \<and> offsets_of (pa_account_id a0) slots = progression (pa_next_free a0) spacing n
      \<and> pa_next_free a = pa_next_free a0 + spacing * int n
      \<and> pa_quota_left a = pa_quota_left a0 - int n \<and> 0 \<le> pa_quota_left a)"

definition plan_inv :: "int \<Rightarrow> int \<Rightarrow> int \<Rightarrow> platform \<Rightarrow> pool_account list \<Rightarrow> plan_state \<Rightarrow> bool" where
  "plan_inv window spacing cap p pool0 s \<longleftrightarrow>
     list_all2 (account_follows spacing (st_slots s)) pool0 (st_pool s)
     \<and> (\<forall>x \<in> set (st_slots s). sl_platform x = p \<and> sl_offset x < window \<and> sl_account_id x \<in> pa_account_id ` set pool0)
     \<and> st_planned s = int (length (st_slots s)) \<and> int (length (st_slots s)) \<le> max 0 cap"

lemma pick_SomeD: "pick window pool = Some i \<Longrightarrow> i < length pool \<and> eligible window (pool ! i)"
proof -
  assume "pick window pool = Some i"
  then obtain js where "sort_key (\<lambda>i. pick_key (pool ! i)) (filter (\<lambda>i. eligible window (pool ! i)) [0..<length pool]) = i # js"
    by (auto simp: pick_def split: list.splits)
  then have "i \<in> set (sort_key (\<lambda>i. pick_key (pool ! i)) (filter (\<lambda>i. eligible window (pool ! i)) [0..<length pool]))"
    by simp
  then show ?thesis by (simp add: set_sort)
qed

lemma progression_snoc: "progression f sp (Suc n) = progression f sp n @ [f + sp * int n]"
  by (simp add: progression_def)

lemma length_progression [simp]: "length (progression f sp n) = n"
  by (simp add: progression_def)

lemma place_inv:
  assumes inv: "plan_inv window spacing cap p pool0 s" and ids: "distinct (map pa_account_id pool0)"
  shows "plan_inv window spacing cap p pool0 (place window spacing cap p c s)"
proof (cases "st_planned s \<ge> cap \<or> pick window (st_pool s) = None")
  case True
  with inv show ?thesis by (auto simp: place_def plan_inv_def)
next
  case False
  then obtain i where room: "st_planned s < cap" and i: "pick window (st_pool s) = Some i" by auto
  let ?a = "st_pool s ! i" and ?s = "place window spacing cap p c s"
  let ?x = "\<lparr>sl_lottery_id = c_lottery_id c, sl_account_id = pa_account_id ?a, sl_platform = p,
      sl_offset = pa_next_free ?a, sl_value_score = as_int (c_value_score c) 0\<rparr>"
  have len: "length (st_pool s) = length pool0" using inv by (auto simp: plan_inv_def list_all2_lengthD)
  have il: "i < length pool0" and el: "eligible window ?a" using pick_SomeD [OF i] len by auto
  have rel: "account_follows spacing (st_slots s) (pool0 ! j) (st_pool s ! j)" if "j < length pool0" for j
    using inv that by (auto simp: plan_inv_def list_all2_conv_all_nth)
  have ai: "pa_account_id ?a = pa_account_id (pool0 ! i)" using rel [OF il] by (simp add: account_follows_def Let_def)
  have slots: "st_slots ?s = st_slots s @ [?x]" and planned: "st_planned ?s = st_planned s + 1"
    and pool: "st_pool ?s = (st_pool s)[i := ?a\<lparr>pa_next_free := pa_next_free ?a + spacing, pa_quota_left := pa_quota_left ?a - 1\<rparr>]"
    using room i by (simp_all add: place_def Let_def)
  have "account_follows spacing (st_slots ?s) (pool0 ! j) (st_pool ?s ! j)" if j: "j < length pool0" for j
  proof (cases "j = i")
    case True
    with rel [OF il] el len il show ?thesis
      by (simp add: account_follows_def Let_def slots pool offsets_of_def progression_snoc eligible_def algebra_simps)
  next
    case False
    then have "pa_account_id (pool0 ! j) \<noteq> pa_account_id (pool0 ! i)"
      using ids j il by (metis length_map nth_eq_iff_index_eq nth_map)
    with rel [OF j] False ai show ?thesis by (simp add: account_follows_def Let_def slots pool offsets_of_def)
  qed
  moreover have "\<forall>x \<in> set (st_slots ?s). sl_platform x = p \<and> sl_offset x < window \<and> sl_account_id x \<in> pa_account_id ` set pool0"
    using inv el il ai by (auto simp: plan_inv_def slots eligible_def)
  ultimately show ?thesis
    using inv room len by (auto simp: plan_inv_def slots planned pool list_all2_conv_all_nth)
qed

lemma fold_place_inv:
  "plan_inv window spacing cap p pool0 s \<Longrightarrow> distinct (map pa_account_id pool0) \<Longrightarrow>
   plan_inv window spacing cap p pool0 (fold (place window spacing cap p) cs s)"
  by (induction cs arbitrary: s) (auto intro: place_inv)

definition distinct_accounts :: "sched_account list \<Rightarrow> bool" where
  "distinct_accounts accounts \<longleftrightarrow> distinct (map (\<lambda>a. (sa_platform a, sa_account_id a)) accounts)"

lemma make_pool_ids:
  assumes "distinct_accounts accounts"
  shows "distinct (map pa_account_id (make_pool (filter (\<lambda>a. sa_platform a = p) accounts)))"
  using assms unfolding distinct_accounts_def make_pool_def
  by (induction accounts) (auto simp: image_iff)

lemma plan_platform_inv:
  assumes "distinct_accounts accounts"
  shows "plan_inv window (spacing_of (limit_in table p))
     (as_int (dget (limit_in table p) ''max_per_window'') (int (length (filter (\<lambda>c. c_platform c = p) candidates))))
     p (make_pool (filter (\<lambda>a. sa_platform a = p) accounts)) (plan_platform window table candidates accounts p)"
proof -
  let ?pool = "make_pool (filter (\<lambda>a. sa_platform a = p) accounts)"
  have "\<forall>a \<in> set ?pool. 0 \<le> pa_quota_left a" by (auto simp: make_pool_def)
  then have "plan_inv window (spacing_of (limit_in table p)) cap p ?pool
      \<lparr>st_slots = [], st_unscheduled = [], st_pool = ?pool, st_planned = 0\<rparr>" for cap
    by (simp add: plan_inv_def account_follows_def offsets_of_def progression_def list_all2_same)
  then show ?thesis
    unfolding plan_platform_def Let_def by (simp add: fold_place_inv make_pool_ids [OF assms])
qed

section \<open>The whole plan\<close>

lemma platform_order_facts [simp]:
  "set (platform_order cs) = c_platform ` set cs" "distinct (platform_order cs)"
  by (simp_all add: platform_order_def distinct_sort)

lemma filter_runs:
  assumes "distinct ps" "\<forall>q \<in> set ps. \<forall>x \<in> set (f q). sl_platform x = q"
  shows "filter (\<lambda>x. sl_platform x = p \<and> P x) (concat (map f ps)) = (if p \<in> set ps then filter P (f p) else [])"
  using assms
proof (induction ps)
  case (Cons q ps)
  have "filter (\<lambda>x. sl_platform x = p \<and> P x) (f q) = (if q = p then filter P (f q) else [])"
    using Cons.prems(2) by (auto simp: filter_empty_conv intro: filter_cong)
  with Cons show ?case by auto
qed simp

lemma plan_slots_of:
  assumes "distinct_accounts accounts"
  shows "mset (filter (\<lambda>x. sl_platform x = p \<and> P x) (sp_slots (plan_schedule cs accounts w limits)))
    = (if p \<in> c_platform ` set cs
       then mset (filter P (st_slots (plan_platform (max 0 (as_int w 0)) (limits_or limits) cs accounts p))) else {#})"
proof -
  let ?f = "\<lambda>q. st_slots (plan_platform (max 0 (as_int w 0)) (limits_or limits) cs accounts q)"
  have sorted: "mset (filter Q (sp_slots (plan_schedule cs accounts w limits))) = mset (filter Q (concat (map ?f (platform_order cs))))" for Q
    by (simp add: plan_schedule_def Let_def comp_def mset_filter)
  have "\<forall>q \<in> set (platform_order cs). \<forall>x \<in> set (?f q). sl_platform x = q"
    using plan_platform_inv [OF assms] by (auto simp: plan_inv_def)
  note runs = filter_runs [OF _ this, of p P]
  show ?thesis unfolding sorted by (subst runs) simp_all
qed

lemma progression_sorted: "0 < sp \<Longrightarrow> sorted (progression f sp n)"
  by (auto simp: progression_def sorted_iff_nth_mono)

lemma progression_ge: "t \<in> set (progression f sp n) \<Longrightarrow> 0 < sp \<Longrightarrow> f \<le> t"
  by (auto simp: progression_def)

lemma progression_gaps: "(e, l) \<in> set (zip (progression f sp n) (tl (progression f sp n))) \<Longrightarrow> l - e = sp"
  by (auto simp: progression_def set_zip nth_tl algebra_simps)

lemma spacing_pos [simp]: "0 < spacing_of limit"
  by (simp add: spacing_of_def)

lemma owner_offsets:
  assumes "distinct_accounts accounts" "x \<in> set (sp_slots (plan_schedule cs accounts w limits))" "slot_owner x = (p, a)"
  shows "\<exists>first n. sort (map sl_offset (filter (\<lambda>s. slot_owner s = (p, a)) (sp_slots (plan_schedule cs accounts w limits))))
     = progression first (spacing_of (limit_in (limits_or limits) p)) n"
proof -
  let ?st = "plan_platform (max 0 (as_int w 0)) (limits_or limits) cs accounts p"
  let ?pool = "make_pool (filter (\<lambda>a. sa_platform a = p) accounts)"
  note inv = plan_platform_inv [OF assms(1), of "max 0 (as_int w 0)" "limits_or limits" p cs]
  have eq: "mset (filter (\<lambda>s. slot_owner s = (p, a)) (sp_slots (plan_schedule cs accounts w limits)))
      = (if p \<in> c_platform ` set cs then mset (filter (\<lambda>s. sl_account_id s = a) (st_slots ?st)) else {#})"
    using plan_slots_of [OF assms(1), of p "\<lambda>s. sl_account_id s = a" cs w limits] by (simp add: slot_owner_def)
  moreover have "x \<in># mset (filter (\<lambda>s. slot_owner s = (p, a)) (sp_slots (plan_schedule cs accounts w limits)))"
    using assms(2,3) by simp
  ultimately have in_p: "p \<in> c_platform ` set cs" and "x \<in> set (filter (\<lambda>s. sl_account_id s = a) (st_slots ?st))"
    by (auto split: if_splits)
  then have "a \<in> pa_account_id ` set ?pool" using inv by (auto simp: plan_inv_def)
  then obtain i where i: "i < length ?pool" "pa_account_id (?pool ! i) = a" by (auto simp: in_set_conv_nth)
  then have "account_follows (spacing_of (limit_in (limits_or limits) p)) (st_slots ?st) (?pool ! i) (st_pool ?st ! i)"
    using inv by (auto simp: plan_inv_def list_all2_conv_all_nth)
  then obtain n where n: "offsets_of a (st_slots ?st)
      = progression (pa_next_free (?pool ! i)) (spacing_of (limit_in (limits_or limits) p)) n"
    using i(2) by (auto simp: account_follows_def Let_def)
  have "mset (map sl_offset (filter (\<lambda>s. slot_owner s = (p, a)) (sp_slots (plan_schedule cs accounts w limits))))
      = mset (offsets_of a (st_slots ?st))"
    using eq in_p unfolding offsets_of_def mset_map by simp
  then show ?thesis
    unfolding n by (intro exI properties_for_sort) (simp_all add: progression_sorted)
qed

text \<open>
  C36. Every plan passes its own compliance check: whatever the candidates, the accounts (no account
  listed twice), the window and the limits are, each slot lies in the window and two slots of one
  account are at least the platform's spacing apart.
\<close>

theorem plan_respects_rate_limit:
  assumes "distinct_accounts accounts"
  shows "respects_rate_limit (plan_schedule cs accounts w limits) limits = (True, [])"
proof -
  let ?plan = "plan_schedule cs accounts w limits"
  have win: "sl_offset x < sp_window_minutes ?plan" if "x \<in> set (sp_slots ?plan)" for x
    using that plan_platform_inv [OF assms] by (fastforce simp: plan_schedule_def Let_def plan_inv_def)
  have gaps: "filter (\<lambda>(e, l). l - e < spacing_of (limit_in (limits_or limits) (fst k)))
      (zip (sort (map sl_offset (filter (\<lambda>s. slot_owner s = k) (sp_slots ?plan))))
           (tl (sort (map sl_offset (filter (\<lambda>s. slot_owner s = k) (sp_slots ?plan)))))) = []"
    if "k \<in> set (map slot_owner (sp_slots ?plan))" for k
  proof -
    obtain x where x: "x \<in> set (sp_slots ?plan)" "slot_owner x = (fst k, snd k)" using \<open>k \<in> _\<close> by force
    from owner_offsets [OF assms x] obtain first n where
      "sort (map sl_offset (filter (\<lambda>s. slot_owner s = k) (sp_slots ?plan)))
        = progression first (spacing_of (limit_in (limits_or limits) (fst k))) n" by auto
    then show ?thesis by (auto simp: filter_empty_conv dest: progression_gaps)
  qed
  have "filter (\<lambda>s. sl_offset s \<ge> sp_window_minutes ?plan \<and> sp_window_minutes ?plan > 0) (sp_slots ?plan) = []"
    using win by (auto simp: filter_empty_conv dest: leD)
  then show ?thesis
    using gaps unfolding respects_rate_limit_def Let_def by (simp add: concat_eq_Nil_conv)
qed

definition demo_cand :: "int \<Rightarrow> int \<Rightarrow> candidate" where
  "demo_cand i v = \<lparr>c_lottery_id = Some i, c_platform = Some ''weibo'', c_value_score = PInt v\<rparr>"

definition demo_sched_account :: "int \<Rightarrow> int \<Rightarrow> sched_account" where
  "demo_sched_account i q = \<lparr>sa_account_id = Some i, sa_platform = Some ''weibo'', sa_remaining_quota = PInt q,
     sa_ready_in_min = PInt 0, sa_risk_score = PInt 0\<rparr>"

abbreviation demo_plan :: schedule_plan where
  "demo_plan \<equiv> plan_schedule [demo_cand 1 5, demo_cand 2 9, demo_cand 3 1, demo_cand 4 2]
     [demo_sched_account 7 2, demo_sched_account 8 1] (PInt 120) None"

theorem plan_respects_rate_limit_witness:
  "map (\<lambda>s. (sl_lottery_id s, sl_account_id s, sl_offset s)) (sp_slots demo_plan)
     = [(Some 2, Some 7, 0), (Some 1, Some 8, 0), (Some 4, Some 7, 60)]
   \<and> respects_rate_limit demo_plan None = (True, [])"
proof -
  have "map (\<lambda>s. (sl_lottery_id s, sl_account_id s, sl_offset s)) (sp_slots demo_plan)
     = [(Some 2, Some 7, 0), (Some 1, Some 8, 0), (Some 4, Some 7, 60)]" by code_simp
  moreover have "distinct_accounts [demo_sched_account 7 2, demo_sched_account 8 1]" by code_simp
  ultimately show ?thesis using plan_respects_rate_limit by blast
qed

definition slots_of_account :: "sched_account \<Rightarrow> schedule_plan \<Rightarrow> slot list" where
  "slots_of_account a plan = filter (\<lambda>s. slot_owner s = (sa_platform a, sa_account_id a)) (sp_slots plan)"

text \<open>
  No account is given more work than its remaining quota, none before it is ready, and no
  platform more than its cap per window.
\<close>

lemma plan_within_quota:
  assumes "distinct_accounts accounts" "a \<in> set accounts"
  shows "int (length (slots_of_account a (plan_schedule cs accounts w limits))) \<le> max 0 (as_int (sa_remaining_quota a) 0)
    \<and> (\<forall>s \<in> set (slots_of_account a (plan_schedule cs accounts w limits)). as_int (sa_ready_in_min a) 0 \<le> sl_offset s)
    \<and> int (length (filter (\<lambda>s. sl_platform s = sa_platform a) (sp_slots (plan_schedule cs accounts w limits))))
      \<le> max 0 (as_int (dget (limit_in (limits_or limits) (sa_platform a)) ''max_per_window'')
           (int (length (filter (\<lambda>c. c_platform c = sa_platform a) cs))))"
proof -
  let ?p = "sa_platform a" and ?st = "plan_platform (max 0 (as_int w 0)) (limits_or limits) cs accounts (sa_platform a)"
  let ?pool = "make_pool (filter (\<lambda>a. sa_platform a = ?p) accounts)"
  note inv = plan_platform_inv [OF assms(1), of "max 0 (as_int w 0)" "limits_or limits" ?p cs]
  have "length (filter (\<lambda>s. sl_platform s = ?p) (sp_slots (plan_schedule cs accounts w limits))) \<le> length (st_slots ?st)"
    using arg_cong [where f = size, OF plan_slots_of [OF assms(1), of ?p "\<lambda>_. True" cs w limits]]
    by (simp only: size_mset) (auto split: if_splits)
  then have cap: "int (length (filter (\<lambda>s. sl_platform s = sa_platform a) (sp_slots (plan_schedule cs accounts w limits))))
      \<le> max 0 (as_int (dget (limit_in (limits_or limits) (sa_platform a)) ''max_per_window'')
           (int (length (filter (\<lambda>c. c_platform c = sa_platform a) cs))))"
    using inv by (simp add: plan_inv_def)
  define mine where "mine = slots_of_account a (plan_schedule cs accounts w limits)"
  have mine: "mset mine \<subseteq># mset (filter (\<lambda>s. sl_account_id s = sa_account_id a) (st_slots ?st))"
    using plan_slots_of [OF assms(1), of ?p "\<lambda>s. sl_account_id s = sa_account_id a" cs w limits]
    by (auto simp: mine_def slots_of_account_def slot_owner_def split: if_splits)
  then have len: "length mine \<le> length (offsets_of (sa_account_id a) (st_slots ?st))"
    by (metis offsets_of_def length_map size_mset size_mset_mono)
  have sub: "sl_offset ` set mine \<subseteq> set (offsets_of (sa_account_id a) (st_slots ?st))"
    using set_mset_mono [OF mine] by (auto simp: offsets_of_def)
  have "int (length (offsets_of (sa_account_id a) (st_slots ?st))) \<le> max 0 (as_int (sa_remaining_quota a) 0)
      \<and> (\<forall>t \<in> set (offsets_of (sa_account_id a) (st_slots ?st)). as_int (sa_ready_in_min a) 0 \<le> t)"
  proof (cases "0 < as_int (sa_remaining_quota a) 0")
    case True
    let ?a = "\<lparr>pa_account_id = sa_account_id a, pa_next_free = max 0 (as_int (sa_ready_in_min a) 0),
       pa_quota_left = as_int (sa_remaining_quota a) 0, pa_risk_score = as_int (sa_risk_score a) 0\<rparr>"
    have "?a \<in> set ?pool" using True assms(2) by (auto simp: make_pool_def)
    then obtain b where "account_follows (spacing_of (limit_in (limits_or limits) ?p)) (st_slots ?st) ?a b"
      using inv by (auto simp: plan_inv_def in_set_conv_nth list_all2_conv_all_nth)
    then have "offsets_of (sa_account_id a) (st_slots ?st) = progression (max 0 (as_int (sa_ready_in_min a) 0))
        (spacing_of (limit_in (limits_or limits) ?p)) (length (offsets_of (sa_account_id a) (st_slots ?st)))"
      and "int (length (offsets_of (sa_account_id a) (st_slots ?st))) \<le> as_int (sa_remaining_quota a) 0"
      by (simp_all add: account_follows_def Let_def)
    then show ?thesis using progression_ge [OF _ spacing_pos] by (metis max.cobounded2 max.coboundedI2 max.bounded_iff)
  next
    case False
    have "sa_account_id a \<notin> pa_account_id ` set ?pool"
    proof
      assume "sa_account_id a \<in> pa_account_id ` set ?pool"
      then obtain a' where "a' \<in> set accounts" "sa_platform a' = ?p" "sa_account_id a' = sa_account_id a"
        "0 < as_int (sa_remaining_quota a') 0" by (auto simp: make_pool_def)
      with assms(1,2) have "a' = a" by (auto simp: distinct_accounts_def distinct_map inj_on_def)
      with False \<open>0 < as_int (sa_remaining_quota a') 0\<close> show False by simp
    qed
    moreover have "\<forall>x \<in> set (st_slots ?st). sl_account_id x \<in> pa_account_id ` set ?pool"
      using inv by (simp add: plan_inv_def)
    ultimately have "filter (\<lambda>s. sl_account_id s = sa_account_id a) (st_slots ?st) = []"
      by (metis (mono_tags, lifting) filter_empty_conv)
    then have "offsets_of (sa_account_id a) (st_slots ?st) = []" by (simp add: offsets_of_def)
    then show ?thesis by simp
  qed
  with len sub have "int (length mine) \<le> max 0 (as_int (sa_remaining_quota a) 0)"
    "\<forall>s \<in> set mine. as_int (sa_ready_in_min a) 0 \<le> sl_offset s" by auto
  with cap show ?thesis by (simp add: mine_def)
qed

section \<open>Nothing is lost, nothing is withheld needlessly\<close>

definition ids_of :: "plan_state \<Rightarrow> int option multiset" where
  "ids_of s = mset (map sl_lottery_id (st_slots s)) + mset (map us_lottery_id (st_unscheduled s))"

lemma fold_place_ids:
  "ids_of (fold (place window spacing cap p) cs s) = ids_of s + mset (map c_lottery_id cs)"
proof (induction cs arbitrary: s)
  case (Cons c cs)
  have "ids_of (place window spacing cap p c s) = ids_of s + {#c_lottery_id c#}"
    by (auto simp: place_def ids_of_def Let_def split: option.split)
  with Cons show ?case by simp
qed simp

lemma sum_list_single:
  "distinct ps \<Longrightarrow> (\<Sum>p\<leftarrow>ps. if q = p then m else {#}) = (if q \<in> set ps then m else {#})"
  by (induction ps) auto

lemma mset_by_platform:
  "distinct ps \<Longrightarrow> f ` set xs \<subseteq> set ps \<Longrightarrow> (\<Sum>p\<leftarrow>ps. mset (map g (filter (\<lambda>x. f x = p) xs))) = mset (map g xs)"
proof (induction xs)
  case (Cons x xs)
  have "(\<Sum>p\<leftarrow>ps. mset (map g (filter (\<lambda>y. f y = p) (x # xs))))
      = (\<Sum>p\<leftarrow>ps. (if f x = p then {#g x#} else {#}) + mset (map g (filter (\<lambda>y. f y = p) xs)))"
    by (intro arg_cong [where f = sum_list] map_cong) auto
  also have "\<dots> = (\<Sum>p\<leftarrow>ps. if f x = p then {#g x#} else {#}) + mset (map g xs)"
    using Cons by (simp add: sum_list_addf)
  also have "(\<Sum>p\<leftarrow>ps. if f x = p then {#g x#} else {#}) = {#g x#}"
    using Cons.prems by (simp add: sum_list_single)
  finally show ?case by simp
qed simp

text \<open>
  Every candidate is accounted for exactly once: the lotteries of the slots and of the withheld
  items together are those of the candidates, with multiplicity.
\<close>

theorem plan_accounts_for_every_candidate:
  "mset (map sl_lottery_id (sp_slots (plan_schedule cs accounts w limits)))
     + mset (map us_lottery_id (sp_unscheduled (plan_schedule cs accounts w limits)))
   = mset (map c_lottery_id cs)"
proof -
  let ?st = "plan_platform (max 0 (as_int w 0)) (limits_or limits) cs accounts"
  have "ids_of (?st p) = mset (map c_lottery_id (filter (\<lambda>c. c_platform c = p) cs))" for p
    unfolding plan_platform_def Let_def by (simp add: fold_place_ids) (simp add: ids_of_def)
  then have "(\<Sum>p\<leftarrow>platform_order cs. ids_of (?st p)) = mset (map c_lottery_id cs)"
    using mset_by_platform [of "platform_order cs" c_platform cs c_lottery_id] by simp
  moreover have "(\<Sum>p\<leftarrow>ps. ids_of (?st p)) = mset (map sl_lottery_id (concat (map (\<lambda>p. st_slots (?st p)) ps)))
      + mset (map us_lottery_id (concat (map (\<lambda>p. st_unscheduled (?st p)) ps)))" for ps
    by (induction ps) (simp_all add: ids_of_def)
  ultimately show ?thesis
    by (simp add: plan_schedule_def Let_def comp_def mset_map)
qed

lemma sort_key_case_None: "(case sort_key f xs of [] \<Rightarrow> None | x # _ \<Rightarrow> Some x) = None \<longleftrightarrow> xs = []"
proof -
  have "length (sort_key f xs) = length xs" by simp
  then show ?thesis by (cases "sort_key f xs"; cases xs) simp_all
qed

lemma pick_None: "pick window pool = None \<longleftrightarrow> (\<forall>a \<in> set pool. \<not> eligible window a)"
  unfolding pick_def sort_key_case_None by (auto simp: filter_empty_conv all_set_conv_all_nth)

definition full_when_withheld :: "int \<Rightarrow> int \<Rightarrow> platform \<Rightarrow> plan_state \<Rightarrow> bool" where
  "full_when_withheld window cap p s \<longleftrightarrow> (\<forall>u \<in> set (st_unscheduled s). us_platform u = p
     \<and> (us_reason u = No_capacity_within_window \<longrightarrow> (\<forall>a \<in> set (st_pool s). \<not> eligible window a))
     \<and> (us_reason u = Platform_window_cap_reached \<longrightarrow> cap \<le> st_planned s))"

lemma place_full: "full_when_withheld window cap p s \<Longrightarrow> full_when_withheld window cap p (place window spacing cap p c s)"
proof (cases "cap \<le> st_planned s")
  case False
  assume inv: "full_when_withheld window cap p s"
  show ?thesis
  proof (cases "pick window (st_pool s)")
    case None
    then have "\<forall>a \<in> set (st_pool s). \<not> eligible window a" by (simp add: pick_None)
    with inv False show ?thesis by (auto simp: place_def full_when_withheld_def None)
  next
    case (Some i)
    then have "eligible window (st_pool s ! i)" "i < length (st_pool s)" by (auto dest: pick_SomeD)
    then have "\<exists>a \<in> set (st_pool s). eligible window a" by auto
    with inv have "\<forall>u \<in> set (st_unscheduled s). us_platform u = p \<and> us_reason u \<noteq> No_capacity_within_window
        \<and> us_reason u \<noteq> Platform_window_cap_reached"
      using False by (auto simp: full_when_withheld_def)
    with False Some show ?thesis by (auto simp: place_def full_when_withheld_def Let_def)
  qed
qed (auto simp: place_def full_when_withheld_def)

lemma fold_place_full:
  "full_when_withheld window cap p s \<Longrightarrow> full_when_withheld window cap p (fold (place window spacing cap p) cs s)"
  by (induction cs arbitrary: s) (auto intro: place_full)

text \<open>
  Work is withheld only when it must be: if a candidate was withheld for lack of capacity, then
  at the end of the plan every account of its platform has used its quota or is busy until after
  the window; if it was withheld by the cap, the platform's cap is used up.
\<close>

lemma withheld_only_when_full:
  assumes "u \<in> set (sp_unscheduled (plan_schedule cs accounts w limits))"
  shows "(us_reason u = No_capacity_within_window \<longrightarrow>
       (\<forall>a \<in> set (st_pool (plan_platform (max 0 (as_int w 0)) (limits_or limits) cs accounts (us_platform u))).
          pa_quota_left a \<le> 0 \<or> max 0 (as_int w 0) \<le> pa_next_free a))
    \<and> (us_reason u = Platform_window_cap_reached \<longrightarrow>
       as_int (dget (limit_in (limits_or limits) (us_platform u)) ''max_per_window'')
           (int (length (filter (\<lambda>c. c_platform c = us_platform u) cs)))
         \<le> st_planned (plan_platform (max 0 (as_int w 0)) (limits_or limits) cs accounts (us_platform u)))"
proof -
  let ?w = "max 0 (as_int w 0)"
  obtain p where u: "u \<in> set (st_unscheduled (plan_platform ?w (limits_or limits) cs accounts p))"
    using assms by (auto simp: plan_schedule_def Let_def)
  have "full_when_withheld ?w (as_int (dget (limit_in (limits_or limits) p) ''max_per_window'')
      (int (length (filter (\<lambda>c. c_platform c = p) cs)))) p (plan_platform ?w (limits_or limits) cs accounts p)"
    unfolding plan_platform_def Let_def by (simp, intro fold_place_full) (simp add: full_when_withheld_def)
  with u have "us_platform u = p"
    "us_reason u = No_capacity_within_window \<Longrightarrow> \<forall>a \<in> set (st_pool (plan_platform ?w (limits_or limits) cs accounts p)). \<not> eligible ?w a"
    "us_reason u = Platform_window_cap_reached \<Longrightarrow> as_int (dget (limit_in (limits_or limits) p) ''max_per_window'')
      (int (length (filter (\<lambda>c. c_platform c = p) cs))) \<le> st_planned (plan_platform ?w (limits_or limits) cs accounts p)"
    by (simp_all add: full_when_withheld_def)
  then show ?thesis by (auto simp: eligible_def not_less)
qed

text \<open>
  The overload check is a coarser estimate than the plan: quota held by one account only is counted
  against the time of all of them, so a platform that is not reported can still withhold work.
\<close>

lemma overload_estimate_is_optimistic:
  "detect_overload [demo_cand 1 1, demo_cand 2 1, demo_cand 3 1]
      [demo_sched_account 7 3, demo_sched_account 8 0] (PInt 120) None = []
   \<and> length (sp_unscheduled (plan_schedule [demo_cand 1 1, demo_cand 2 1, demo_cand 3 1]
      [demo_sched_account 7 3, demo_sched_account 8 0] (PInt 120) None)) = 1"
  by code_simp

end
