(* ===== verification/Capacity.thy ===== *)
theory Capacity
  imports Scheduling
begin

text \<open>
  The capacity engine (\<open>core/app/capacity/engine.py\<close>): the supply of safe accounts and healthy
  proxies per platform, the recommended bindings, and the isolation report. Identifiers are integers
  or missing; a health score is any value, read through \<open>float()\<close>.
\<close>

section \<open>Data\<close>

definition HEALTHY_PROXY_MIN_SCORE :: rat where "HEALTHY_PROXY_MIN_SCORE = 60"
definition READY_STATUS :: string where "READY_STATUS = ''ready''"

record cap_account =
  ca_account_id :: "int option"
  ca_platform :: platform
  ca_status :: "string option"
  ca_proxy_id :: "int option"
  ca_fingerprint_id :: "int option"

record cap_proxy =
  cp_proxy_id :: "int option"
  cp_status :: "string option"
  cp_in_cooldown :: bool
  cp_health_score :: "rat option"

text \<open>
  A score that is missing counts as 0 and one that is not a number raises and is caught: neither
  reaches the minimum, both are \<open>None\<close> here.
\<close>

definition is_healthy_proxy :: "cap_proxy \<Rightarrow> bool" where
  "is_healthy_proxy p \<longleftrightarrow> (cp_status p = None \<or> cp_status p = Some ''active'') \<and> \<not> cp_in_cooldown p
     \<and> (case cp_health_score p of None \<Rightarrow> False | Some q \<Rightarrow> q \<ge> HEALTHY_PROXY_MIN_SCORE)"

text \<open>\<open>limits.get(platform) or DEFAULT_RATE_LIMIT\<close>: an empty entry counts as missing.\<close>

definition max_daily_for :: "platform \<Rightarrow> limit_table \<Rightarrow> int" where
  "max_daily_for p table =
     (let limit = limit_in table p in as_int (dget (if limit = [] then DEFAULT_RATE_LIMIT else limit) ''max_daily_per_account'') 0)"

section \<open>Supply\<close>

record bucket =
  bk_total_accounts :: nat
  bk_safe_accounts :: nat
  bk_healthy_bound_proxies :: nat
  bk_sustainable_daily :: int
  bk_max_daily_per_account :: int

record capacity_report =
  cr_per_platform :: "(platform \<times> bucket) list"
  cr_pool_total :: nat
  cr_pool_healthy :: nat
  cr_pool_bound :: nat
  cr_pool_free_healthy :: nat

definition healthy_ids :: "cap_proxy list \<Rightarrow> int option list" where
  "healthy_ids proxies = dedupe (map cp_proxy_id (filter is_healthy_proxy proxies))"

definition bound_ids :: "cap_account list \<Rightarrow> int option list" where
  "bound_ids accounts = dedupe (filter (\<lambda>i. i \<noteq> None) (map ca_proxy_id accounts))"

definition compute_bucket :: "limit_table \<Rightarrow> cap_account list \<Rightarrow> cap_proxy list \<Rightarrow> platform \<Rightarrow> bucket" where
  "compute_bucket table accounts proxies p =
     (let here = filter (\<lambda>a. ca_platform a = p) accounts;
          safe = filter (\<lambda>a. ca_status a = Some READY_STATUS) here;
          backed = filter (\<lambda>a. ca_proxy_id a \<in> set (healthy_ids proxies)) safe;
          daily = max_daily_for p table in
      \<lparr>bk_total_accounts = length here, bk_safe_accounts = length safe, bk_healthy_bound_proxies = length backed,
       bk_sustainable_daily = int (min (length safe) (length backed)) * daily, bk_max_daily_per_account = daily\<rparr>)"

definition compute_capacity ::
  "cap_account list \<Rightarrow> cap_proxy list \<Rightarrow> limit_table option \<Rightarrow> capacity_report" where
  "compute_capacity accounts proxies limits =
     \<lparr>cr_per_platform = map (\<lambda>p. (p, compute_bucket (limits_or limits) accounts proxies p)) (dedupe (map ca_platform accounts)),
      cr_pool_total = length proxies, cr_pool_healthy = length (healthy_ids proxies),
      cr_pool_bound = length (filter (\<lambda>i. i \<in> set (bound_ids accounts)) (healthy_ids proxies)),
      cr_pool_free_healthy = length (filter (\<lambda>i. i \<notin> set (bound_ids accounts)) (healthy_ids proxies))\<rparr>"

section \<open>Bindings\<close>

record binding =
  bd_account_id :: "int option"
  bd_platform :: platform
  bd_proxy_id :: "int option"
  bd_health_score :: "rat option"

definition free_healthy :: "cap_account list \<Rightarrow> cap_proxy list \<Rightarrow> cap_proxy list" where
  "free_healthy accounts proxies = sort_key
     (\<lambda>p. (- (case cp_health_score p of None \<Rightarrow> 0 | Some q \<Rightarrow> q), id_int (cp_proxy_id p)))
     (filter (\<lambda>p. is_healthy_proxy p \<and> cp_proxy_id p \<notin> set (bound_ids accounts)) proxies)"

definition needy :: "cap_account list \<Rightarrow> cap_account list" where
  "needy accounts = sort_key (\<lambda>a. id_int (ca_account_id a))
     (filter (\<lambda>a. ca_status a = Some READY_STATUS \<and> ca_proxy_id a = None) accounts)"

fun bind_loop :: "cap_account list \<Rightarrow> cap_proxy list \<Rightarrow> binding list \<times> cap_account list" where
  "bind_loop [] pool = ([], [])"
| "bind_loop (a # as) [] = (let (bs, un) = bind_loop as [] in (bs, a # un))"
| "bind_loop (a # as) (p # pool) = (let (bs, un) = bind_loop as pool in
     (\<lparr>bd_account_id = ca_account_id a, bd_platform = ca_platform a, bd_proxy_id = cp_proxy_id p,
       bd_health_score = cp_health_score p\<rparr> # bs, un))"

definition recommend_bindings :: "cap_account list \<Rightarrow> cap_proxy list \<Rightarrow> binding list \<times> cap_account list" where
  "recommend_bindings accounts proxies = bind_loop (needy accounts) (free_healthy accounts proxies)"

section \<open>Isolation\<close>

datatype violation_kind = Shared_proxy | Shared_fingerprint

record isolation_violation =
  iv_kind :: violation_kind
  iv_key :: int
  iv_account_ids :: "int option list"

text \<open>The groups of accounts by a key, in the order in which the keys first appear.\<close>

definition shared_by :: "violation_kind \<Rightarrow> (cap_account \<Rightarrow> int option) \<Rightarrow> cap_account list \<Rightarrow> isolation_violation list" where
  "shared_by kind key accounts =
     map (\<lambda>k. \<lparr>iv_kind = kind, iv_key = k,
           iv_account_ids = sort_key id_int (map ca_account_id (filter (\<lambda>a. key a = Some k) accounts))\<rparr>)
       (filter (\<lambda>k. length (filter (\<lambda>a. key a = Some k) accounts) > 1)
         (dedupe (concat (map (\<lambda>a. case key a of None \<Rightarrow> [] | Some k \<Rightarrow> [k]) accounts))))"

definition isolation_violations :: "cap_account list \<Rightarrow> isolation_violation list" where
  "isolation_violations accounts =
     shared_by Shared_proxy ca_proxy_id accounts @ shared_by Shared_fingerprint ca_fingerprint_id accounts"

section \<open>Lemmas\<close>

lemma distinct_healthy: "distinct (healthy_ids proxies)"
  by (simp add: healthy_ids_def)

lemma bind_loop_proxies: "map bd_proxy_id (fst (bind_loop as pool)) = map cp_proxy_id (take (length as) pool)"
  by (induction as pool rule: bind_loop.induct) (auto simp: split_beta)

lemma bind_loop_accounts:
  "map bd_account_id (fst (bind_loop as pool)) = map ca_account_id (take (length pool) as)
   \<and> snd (bind_loop as pool) = drop (length pool) as"
  by (induction as pool rule: bind_loop.induct) (auto simp: split_beta)

lemma distinct_map_mset: "mset xs = mset ys \<Longrightarrow> distinct (map k xs) \<longleftrightarrow> distinct (map k ys)"
  by (metis mset_eq_imp_distinct_iff mset_map)

lemma distinct_map_sort_filter: "distinct (map k xs) \<Longrightarrow> distinct (map k (sort_key f (filter P xs)))"
  by (subst distinct_map_mset [of _ "filter P xs"]) (simp_all add: distinct_map_filter)

lemma filter_le1_iff:
  "length (filter p xs) \<le> 1 \<longleftrightarrow> (\<forall>i < length xs. \<forall>j < length xs. p (xs ! i) \<and> p (xs ! j) \<longrightarrow> i = j)"
  by (auto simp: length_filter_conv_card card_le_Suc0_iff_eq)

text \<open>No two accounts at different places of the list have the same key.\<close>

definition isolated :: "(cap_account \<Rightarrow> int option) \<Rightarrow> cap_account list \<Rightarrow> bool" where
  "isolated key accounts \<longleftrightarrow> (\<forall>i < length accounts. \<forall>j < length accounts.
     key (accounts ! i) \<noteq> None \<and> key (accounts ! i) = key (accounts ! j) \<longrightarrow> i = j)"

lemma shared_by_Nil: "shared_by kind key accounts = [] \<longleftrightarrow> isolated key accounts"
proof -
  let ?keys = "dedupe (concat (map (\<lambda>a. case key a of None \<Rightarrow> [] | Some k \<Rightarrow> [k]) accounts))"
  have keys: "k \<in> set ?keys \<longleftrightarrow> (\<exists>i < length accounts. key (accounts ! i) = Some k)" for k
    by (auto split: option.splits) (metis in_set_conv_nth, metis nth_mem)
  have "shared_by kind key accounts = [] \<longleftrightarrow> (\<forall>k \<in> set ?keys. length (filter (\<lambda>a. key a = Some k) accounts) \<le> 1)"
    by (auto simp: shared_by_def filter_empty_conv not_less)
  also have "\<dots> \<longleftrightarrow> (\<forall>k. \<forall>i < length accounts. \<forall>j < length accounts.
      key (accounts ! i) = Some k \<and> key (accounts ! j) = Some k \<longrightarrow> i = j)"
    unfolding Ball_def keys filter_le1_iff by blast
  also have "\<dots> \<longleftrightarrow> isolated key accounts"
    unfolding isolated_def by (metis option.exhaust option.distinct(1))
  finally show ?thesis .
qed

lemma isolation_violations_Nil:
  "isolation_violations accounts = [] \<longleftrightarrow> isolated ca_proxy_id accounts \<and> isolated ca_fingerprint_id accounts"
  by (simp add: isolation_violations_def shared_by_Nil)

section \<open>Properties\<close>

text \<open>
  The isolation report is exact: it is empty if and only if no two accounts share a proxy and no
  two accounts share a fingerprint.
\<close>

theorem isolation_report_exact:
  "isolation_violations accounts = [] \<longleftrightarrow> isolated ca_proxy_id accounts \<and> isolated ca_fingerprint_id accounts"
  by (rule isolation_violations_Nil)

text \<open>
  C37. Recommended bindings never share a proxy: each goes to a ready account without proxy, each
  proxy is healthy, bound to no account and recommended at most once, and an account is left unmet
  only when no free healthy proxy is left.
\<close>

theorem bindings_are_isolated:
  assumes "distinct (map cp_proxy_id proxies)" "recommend_bindings accounts proxies = (bs, unmet)"
  shows "distinct (map bd_proxy_id bs)
    \<and> (\<forall>b \<in> set bs. \<exists>p \<in> set proxies. cp_proxy_id p = bd_proxy_id b \<and> is_healthy_proxy p
          \<and> (\<forall>a \<in> set accounts. ca_proxy_id a \<noteq> None \<longrightarrow> ca_proxy_id a \<noteq> bd_proxy_id b))
    \<and> (\<forall>b \<in> set bs. \<exists>a \<in> set accounts. ca_account_id a = bd_account_id b \<and> ca_status a = Some READY_STATUS \<and> ca_proxy_id a = None)
    \<and> (unmet \<noteq> [] \<longrightarrow> length bs = length (free_healthy accounts proxies))"
proof -
  let ?pool = "free_healthy accounts proxies" and ?needy = "needy accounts"
  have bs: "bs = fst (bind_loop ?needy ?pool)" and un: "unmet = snd (bind_loop ?needy ?pool)"
    using assms(2) by (simp_all add: recommend_bindings_def)
  have px: "map bd_proxy_id bs = map cp_proxy_id (take (length ?needy) ?pool)" by (simp add: bs bind_loop_proxies)
  have ac: "map bd_account_id bs = map ca_account_id (take (length ?pool) ?needy)" by (simp add: bs bind_loop_accounts)
  have "distinct (map cp_proxy_id ?pool)" unfolding free_healthy_def by (rule distinct_map_sort_filter [OF assms(1)])
  then have "distinct (map bd_proxy_id bs)" by (simp add: px take_map [symmetric] distinct_take)
  moreover have "\<forall>b \<in> set bs. \<exists>p \<in> set ?pool. cp_proxy_id p = bd_proxy_id b"
    using arg_cong [where f = set, OF px] by (force dest: in_set_takeD)
  then have "\<forall>b \<in> set bs. \<exists>p \<in> set proxies. cp_proxy_id p = bd_proxy_id b \<and> is_healthy_proxy p \<and> cp_proxy_id p \<notin> set (bound_ids accounts)"
    by (fastforce simp: free_healthy_def)
  then have "\<forall>b \<in> set bs. \<exists>p \<in> set proxies. cp_proxy_id p = bd_proxy_id b \<and> is_healthy_proxy p
      \<and> (\<forall>a \<in> set accounts. ca_proxy_id a \<noteq> None \<longrightarrow> ca_proxy_id a \<noteq> bd_proxy_id b)"
    by (force simp: bound_ids_def)
  moreover have "\<forall>b \<in> set bs. \<exists>a \<in> set ?needy. ca_account_id a = bd_account_id b"
    using arg_cong [where f = set, OF ac] by (force dest: in_set_takeD)
  then have "\<forall>b \<in> set bs. \<exists>a \<in> set accounts. ca_account_id a = bd_account_id b \<and> ca_status a = Some READY_STATUS \<and> ca_proxy_id a = None"
    by (fastforce simp: needy_def)
  moreover have "unmet \<noteq> [] \<longrightarrow> length bs = length ?pool"
    using arg_cong [where f = length, OF px] by (auto simp: un bind_loop_accounts)
  ultimately show ?thesis by blast
qed

definition demo_cap_account :: "int \<Rightarrow> int option \<Rightarrow> cap_account" where
  "demo_cap_account i p = \<lparr>ca_account_id = Some i, ca_platform = Some ''weibo'', ca_status = Some ''ready'',
     ca_proxy_id = p, ca_fingerprint_id = Some i\<rparr>"

definition demo_cap_proxy :: "int \<Rightarrow> rat \<Rightarrow> cap_proxy" where
  "demo_cap_proxy i q = \<lparr>cp_proxy_id = Some i, cp_status = Some ''active'', cp_in_cooldown = False, cp_health_score = Some q\<rparr>"

theorem bindings_are_isolated_witness:
  "map bd_proxy_id (fst (recommend_bindings [demo_cap_account 1 (Some 5), demo_cap_account 2 None, demo_cap_account 3 None]
       [demo_cap_proxy 5 90, demo_cap_proxy 6 70, demo_cap_proxy 7 20])) = [Some 6]
   \<and> distinct (map bd_proxy_id (fst (recommend_bindings [demo_cap_account 1 (Some 5), demo_cap_account 2 None, demo_cap_account 3 None]
       [demo_cap_proxy 5 90, demo_cap_proxy 6 70, demo_cap_proxy 7 20])))"
proof -
  let ?as = "[demo_cap_account 1 (Some 5), demo_cap_account 2 None, demo_cap_account 3 None]"
  let ?ps = "[demo_cap_proxy 5 90, demo_cap_proxy 6 70, demo_cap_proxy 7 20]"
  have "map bd_proxy_id (fst (recommend_bindings ?as ?ps)) = [Some 6]" by code_simp
  moreover have "distinct (map cp_proxy_id ?ps)" by code_simp
  ultimately show ?thesis using bindings_are_isolated [of ?ps ?as] by (metis prod.collapse)
qed

lemma length_by_platform:
  "distinct ps \<Longrightarrow> f ` set xs \<subseteq> set ps \<Longrightarrow> (\<Sum>p\<leftarrow>ps. length (filter (\<lambda>x. f x = p) xs)) = length xs"
proof -
  assume "distinct ps" "f ` set xs \<subseteq> set ps"
  then have "(\<Sum>p\<leftarrow>ps. mset (filter (\<lambda>x. f x = p) xs)) = mset xs"
    using mset_by_platform [of ps f xs "\<lambda>x. x"] by simp
  then have "size (\<Sum>p\<leftarrow>ps. mset (filter (\<lambda>x. f x = p) xs)) = length xs" by simp
  moreover have "size (\<Sum>p\<leftarrow>ps. mset (filter (\<lambda>x. f x = p) xs)) = (\<Sum>p\<leftarrow>ps. length (filter (\<lambda>x. f x = p) xs))" for ps
    by (induction ps) (simp_all flip: size_mset)
  ultimately show ?thesis by simp
qed

lemma isolated_distinct:
  assumes "isolated key accounts" "\<forall>a \<in> set accounts. P a \<longrightarrow> key a \<noteq> None"
  shows "distinct (map key (filter P accounts))"
  using assms
proof (induction accounts)
  case (Cons a accounts)
  have "isolated key accounts"
    unfolding isolated_def
  proof (intro allI impI)
    fix i j assume "i < length accounts" "j < length accounts"
      "key (accounts ! i) \<noteq> None \<and> key (accounts ! i) = key (accounts ! j)"
    then have "Suc i = Suc j" using Cons.prems(1) unfolding isolated_def by (metis Suc_less_eq length_Cons nth_Cons_Suc)
    then show "i = j" by simp
  qed
  moreover have "key b \<noteq> key a" if b: "b \<in> set accounts" and pa: "P a" for b
  proof
    assume eq: "key b = key a"
    obtain i where i: "i < length accounts" "accounts ! i = b" using b by (auto simp: in_set_conv_nth)
    then have "Suc i = 0"
      using Cons.prems pa eq unfolding isolated_def
      by (metis Suc_less_eq length_Cons list.set_intros(1) nth_Cons_0 nth_Cons_Suc zero_less_Suc)
    then show False by simp
  qed
  ultimately show ?case using Cons by auto
qed simp

text \<open>
  Capacity is never invented: when accounts are isolated and proxies have identifiers, the
  proxies counted as backing over all platforms are at most the bound healthy proxies of the pool,
  and a platform's sustainable daily ceiling is at most its daily cap times that number.
\<close>

lemma capacity_is_backed:
  assumes "isolation_violations accounts = []" "\<forall>p \<in> set proxies. cp_proxy_id p \<noteq> None"
  shows "(\<Sum>(p, b)\<leftarrow>cr_per_platform (compute_capacity accounts proxies limits). bk_healthy_bound_proxies b)
      \<le> cr_pool_bound (compute_capacity accounts proxies limits)
    \<and> (\<forall>(p, b) \<in> set (cr_per_platform (compute_capacity accounts proxies limits)).
        bk_sustainable_daily b = int (bk_healthy_bound_proxies b) * bk_max_daily_per_account b)"
proof -
  let ?P = "\<lambda>a. ca_status a = Some READY_STATUS \<and> ca_proxy_id a \<in> set (healthy_ids proxies)"
  let ?backed = "filter ?P accounts"
  have "(\<Sum>(p, b)\<leftarrow>cr_per_platform (compute_capacity accounts proxies limits). bk_healthy_bound_proxies b)
      = (\<Sum>p\<leftarrow>dedupe (map ca_platform accounts). length (filter (\<lambda>a. ca_platform a = p) ?backed))"
    by (simp add: compute_capacity_def compute_bucket_def Let_def comp_def conj_ac)
  also have "\<dots> = length ?backed" by (rule length_by_platform) auto
  also have "\<dots> \<le> cr_pool_bound (compute_capacity accounts proxies limits)"
  proof -
    have ids: "None \<notin> set (healthy_ids proxies)" using assms(2) by (auto simp: healthy_ids_def)
    then have some: "\<forall>a \<in> set accounts. ?P a \<longrightarrow> ca_proxy_id a \<noteq> None" by metis
    moreover have "isolated ca_proxy_id accounts" using assms(1) by (simp add: isolation_violations_Nil)
    ultimately have "distinct (map ca_proxy_id ?backed)" using isolated_distinct [of ca_proxy_id accounts ?P] by blast
    then have "length ?backed = card (ca_proxy_id ` set ?backed)" using distinct_card [of "map ca_proxy_id ?backed"] by simp
    also have "\<dots> \<le> card (set (filter (\<lambda>i. i \<in> set (bound_ids accounts)) (healthy_ids proxies)))"
      using some by (intro card_mono) (auto simp: bound_ids_def)
    also have "\<dots> = cr_pool_bound (compute_capacity accounts proxies limits)"
      using distinct_card [of "filter (\<lambda>i. i \<in> set (bound_ids accounts)) (healthy_ids proxies)"]
      by (simp add: compute_capacity_def distinct_healthy)
    finally show ?thesis .
  qed
  finally have sum: "(\<Sum>(p, b)\<leftarrow>cr_per_platform (compute_capacity accounts proxies limits). bk_healthy_bound_proxies b)
      \<le> cr_pool_bound (compute_capacity accounts proxies limits)" .
  have "min (length xs) (length (filter Q xs)) = length (filter Q xs)" for xs :: "cap_account list" and Q
    by (simp add: min_absorb2)
  then show ?thesis using sum by (auto simp: compute_capacity_def compute_bucket_def Let_def)
qed

end
