(* ===== verification/Orchestration.thy ===== *)
theory Orchestration
  imports Capacity
begin

text \<open>
  The orchestration engine (\<open>core/app/orchestration/engine.py\<close>): targets of several platforms are
  staged into waves along the safety ramp, and a plan is re-checked against the gate state.
\<close>

section \<open>Data\<close>

datatype ramp_mode = Dry_run | Shadow_run | Real_run

definition RAMP_STAGES :: "ramp_mode list" where
  "RAMP_STAGES = [Dry_run, Shadow_run, Real_run]"

fun RAMP_INDEX :: "ramp_mode \<Rightarrow> nat" where
  "RAMP_INDEX Dry_run = 0"
| "RAMP_INDEX Shadow_run = 1"
| "RAMP_INDEX Real_run = 2"

definition DEFAULT_WAVE_CAPACITY :: int where "DEFAULT_WAVE_CAPACITY = 4"

record target =
  tg_lottery_id :: "int option"
  tg_platform :: platform
  tg_value_score :: pyval
  tg_gate_ready :: bool
  tg_shadow_eligible :: bool

record wave_item =
  wi_lottery_id :: "int option"
  wi_platform :: platform
  wi_mode :: ramp_mode
  wi_value_score :: int

record wave =
  wv_index :: nat
  wv_mode :: ramp_mode
  wv_ramp_step :: nat
  wv_platform_loads :: "(platform \<times> nat) list"
  wv_items :: "wave_item list"
  wv_size :: nat

record campaign =
  cg_waves :: "wave list"
  cg_total :: nat
  cg_by_mode :: "ramp_mode \<Rightarrow> nat"
  cg_wave_count :: nat
  cg_platforms :: "platform list"
  cg_requires_review :: bool

section \<open>Building\<close>

definition target_stage :: "target \<Rightarrow> ramp_mode" where
  "target_stage t = (if tg_gate_ready t then Real_run else if tg_shadow_eligible t then Shadow_run else Dry_run)"

text \<open>
  The size of a platform's share of a wave. The capacity argument is the per-platform part of the
  capacity report; an empty one is falsy.
\<close>

definition wave_cap_for :: "platform \<Rightarrow> (platform \<times> bucket) list option \<Rightarrow> pyval option \<Rightarrow> int" where
  "wave_cap_for p capacity wave_capacity =
     (case wave_capacity of
        Some w \<Rightarrow> max 1 (as_int w DEFAULT_WAVE_CAPACITY)
      | None \<Rightarrow> (case capacity of
            None \<Rightarrow> DEFAULT_WAVE_CAPACITY
          | Some c \<Rightarrow> (case map_of c p of
                None \<Rightarrow> DEFAULT_WAVE_CAPACITY
              | Some b \<Rightarrow> if bk_sustainable_daily b > 0 then bk_sustainable_daily b else DEFAULT_WAVE_CAPACITY)))"

fun chunk_nat :: "nat \<Rightarrow> 'a list \<Rightarrow> 'a list list" where
  "chunk_nat n items = (if items = [] \<or> n = 0 then [] else take n items # chunk_nat n (drop n items))"

declare chunk_nat.simps [simp del]

definition chunk :: "'a list \<Rightarrow> int \<Rightarrow> 'a list list" where
  "chunk items n = chunk_nat (nat (max 1 n)) items"

definition make_item :: "target \<Rightarrow> wave_item" where
  "make_item t = \<lparr>wi_lottery_id = tg_lottery_id t, wi_platform = tg_platform t, wi_mode = target_stage t,
     wi_value_score = as_int (tg_value_score t) 0\<rparr>"

definition item_key :: "wave_item \<Rightarrow> int \<times> int" where
  "item_key it = (- wi_value_score it, id_int (wi_lottery_id it))"

text \<open>The chunks of each platform of one mode, platforms in the order in which they appear.\<close>

definition mode_items :: "target list \<Rightarrow> ramp_mode \<Rightarrow> wave_item list" where
  "mode_items targets m = filter (\<lambda>it. wi_mode it = m) (map make_item targets)"

definition mode_chunks ::
  "(platform \<times> bucket) list option \<Rightarrow> pyval option \<Rightarrow> wave_item list \<Rightarrow> (platform \<times> wave_item list list) list" where
  "mode_chunks capacity wave_capacity items =
     map (\<lambda>p. (p, chunk (sort_key item_key (filter (\<lambda>it. wi_platform it = p) items)) (wave_cap_for p capacity wave_capacity)))
       (dedupe (map wi_platform items))"

text \<open>One wave: the \<open>k\<close>-th chunk of every platform that has one, platforms sorted by their text.\<close>

definition build_wave :: "ramp_mode \<Rightarrow> nat \<Rightarrow> (platform \<times> wave_item list list) list \<Rightarrow> nat \<Rightarrow> wave" where
  "build_wave m index chunked k =
     (let parts = filter (\<lambda>(p, cs). k < length cs) (sort_key (\<lambda>(p, cs). platform_str p) chunked);
          items = concat (map (\<lambda>(p, cs). cs ! k) parts) in
      \<lparr>wv_index = index, wv_mode = m, wv_ramp_step = RAMP_INDEX m,
       wv_platform_loads = map (\<lambda>(p, cs). (p, length (cs ! k))) parts, wv_items = items, wv_size = length items\<rparr>)"

definition max_chunks :: "(platform \<times> wave_item list list) list \<Rightarrow> nat" where
  "max_chunks chunked = foldr max (map (\<lambda>(p, cs). length cs) chunked) 0"

definition mode_waves ::
  "(platform \<times> bucket) list option \<Rightarrow> pyval option \<Rightarrow> target list \<Rightarrow> nat \<Rightarrow> ramp_mode \<Rightarrow> wave list" where
  "mode_waves capacity wave_capacity targets first m =
     (let chunked = mode_chunks capacity wave_capacity (mode_items targets m) in
      map (\<lambda>k. build_wave m (first + k) chunked k) [0..<max_chunks chunked])"

fun stage_waves ::
  "(platform \<times> bucket) list option \<Rightarrow> pyval option \<Rightarrow> target list \<Rightarrow> nat \<Rightarrow> ramp_mode list \<Rightarrow> wave list" where
  "stage_waves capacity wave_capacity targets first [] = []"
| "stage_waves capacity wave_capacity targets first (m # ms) =
     (let ws = mode_waves capacity wave_capacity targets first m in
      ws @ stage_waves capacity wave_capacity targets (first + length ws) ms)"

definition build_campaign_plan ::
  "target list \<Rightarrow> (platform \<times> bucket) list option \<Rightarrow> pyval option \<Rightarrow> campaign" where
  "build_campaign_plan targets capacity wave_capacity =
     (let waves = stage_waves capacity wave_capacity targets 0 RAMP_STAGES;
          counts = (\<lambda>m. length (mode_items targets m)) in
      \<lparr>cg_waves = waves, cg_total = length targets, cg_by_mode = counts, cg_wave_count = length waves,
       cg_platforms = sort_key platform_str (dedupe (map tg_platform targets)), cg_requires_review = counts Real_run > 0\<rparr>)"

section \<open>Validation and summary\<close>

record gate_flags =
  gf_gate_ready :: bool
  gf_shadow_eligible :: bool

datatype ramp_error = Real_run_without_gate "int option" | Shadow_run_without_probe "int option"

text \<open>The gate state of a lottery, under its number or its text; missing means neither flag.\<close>

type_synonym gate_state = "int option \<Rightarrow> gate_flags option"

definition item_errors :: "gate_state \<Rightarrow> wave_item \<Rightarrow> ramp_error list" where
  "item_errors gate it =
     (let flags = (case gate (wi_lottery_id it) of None \<Rightarrow> \<lparr>gf_gate_ready = False, gf_shadow_eligible = False\<rparr> | Some f \<Rightarrow> f) in
      case wi_mode it of
        Real_run \<Rightarrow> if gf_gate_ready flags then [] else [Real_run_without_gate (wi_lottery_id it)]
      | Shadow_run \<Rightarrow> if gf_shadow_eligible flags then [] else [Shadow_run_without_probe (wi_lottery_id it)]
      | Dry_run \<Rightarrow> [])"

definition validate_campaign :: "campaign \<Rightarrow> gate_state \<Rightarrow> bool \<times> ramp_error list" where
  "validate_campaign plan gate =
     (let errors = concat (map (\<lambda>w. concat (map (item_errors gate) (wv_items w))) (cg_waves plan)) in (errors = [], errors))"

definition campaign_mode_count :: "campaign \<Rightarrow> ramp_mode \<Rightarrow> nat" where
  "campaign_mode_count plan m = sum_list (map wv_size (filter (\<lambda>w. wv_mode w = m) (cg_waves plan)))"

definition campaign_platform_load :: "campaign \<Rightarrow> platform \<Rightarrow> nat" where
  "campaign_platform_load plan p =
     sum_list (map (\<lambda>w. sum_list (map snd (filter (\<lambda>(q, n). q = p) (wv_platform_loads w)))) (cg_waves plan))"

section \<open>Chunks and waves\<close>

lemma concat_chunk_nat: "0 < n \<Longrightarrow> concat (chunk_nat n xs) = xs"
proof (induction n xs rule: chunk_nat.induct)
  case (1 n items)
  then show ?case by (simp add: chunk_nat.simps [of n items])
qed

lemma chunk_nat_size: "c \<in> set (chunk_nat n xs) \<Longrightarrow> c \<noteq> [] \<and> length c \<le> n"
proof (induction n xs rule: chunk_nat.induct)
  case (1 n items)
  from 1(2) have ne: "items \<noteq> []" "n \<noteq> 0" by (auto simp: chunk_nat.simps [of n items] split: if_splits)
  with 1(2) have "c = take n items \<or> c \<in> set (chunk_nat n (drop n items))"
    by (simp add: chunk_nat.simps [of n items])
  with ne 1(1) show ?case by auto
qed

lemma concat_chunk [simp]: "concat (chunk xs n) = xs"
  by (simp add: chunk_def concat_chunk_nat)

lemma chunk_size: "c \<in> set (chunk xs n) \<Longrightarrow> c \<noteq> [] \<and> int (length c) \<le> max 1 n"
  using chunk_nat_size [of c "nat (max 1 n)" xs] by (auto simp: chunk_def)

lemma max_chunks_ge: "(p, cs) \<in> set chunked \<Longrightarrow> length cs \<le> max_chunks chunked"
  by (induction chunked) (auto simp: max_chunks_def)

lemma sum_pieces:
  "length cs \<le> m \<Longrightarrow> (\<Sum>k\<leftarrow>[0..<m]. if k < length cs then mset (cs ! k) else {#}) = mset (concat cs)"
proof (induction m arbitrary: cs)
  case (Suc m)
  show ?case
  proof (cases "length cs \<le> m")
    case True
    with Suc show ?thesis by simp
  next
    case False
    with Suc.prems have len: "length cs = Suc m" by simp
    then obtain ds d where ds: "cs = ds @ [d]" "length ds = m" by (metis length_Suc_conv_rev)
    have "(\<Sum>k\<leftarrow>[0..<m]. if k < length cs then mset (cs ! k) else {#}) = (\<Sum>k\<leftarrow>[0..<m]. if k < length ds then mset (ds ! k) else {#})"
      by (rule arg_cong [where f = sum_list]) (auto simp: ds nth_append)
    with Suc.IH [of ds] ds show ?thesis by (simp add: nth_append)
  qed
qed simp

lemma sum_waves:
  "\<forall>(p, cs) \<in> set L. length cs \<le> m \<Longrightarrow>
   (\<Sum>k\<leftarrow>[0..<m]. mset (concat (map (\<lambda>(p, cs). cs ! k) (filter (\<lambda>(p, cs). k < length cs) L))))
     = (\<Sum>(p, cs)\<leftarrow>L. mset (concat cs))"
proof (induction L)
  case (Cons pc L)
  obtain p cs where pc: "pc = (p, cs)" by fastforce
  have "(\<Sum>k\<leftarrow>[0..<m]. mset (concat (map (\<lambda>(p, cs). cs ! k) (filter (\<lambda>(p, cs). k < length cs) (pc # L)))))
      = (\<Sum>k\<leftarrow>[0..<m]. (if k < length cs then mset (cs ! k) else {#})
          + mset (concat (map (\<lambda>(p, cs). cs ! k) (filter (\<lambda>(p, cs). k < length cs) L))))"
    by (rule arg_cong [where f = sum_list]) (auto simp: pc)
  also have "\<dots> = mset (concat cs) + (\<Sum>(p, cs)\<leftarrow>L. mset (concat cs))"
    using Cons by (simp add: sum_list_addf sum_pieces pc)
  finally show ?case by (simp add: pc)
qed simp

lemma mode_waves_items:
  "(\<Sum>w\<leftarrow>mode_waves capacity wc targets first m. mset (wv_items w)) = mset (mode_items targets m)"
proof -
  let ?items = "mode_items targets m"
  let ?ch = "mode_chunks capacity wc ?items"
  have "(\<Sum>w\<leftarrow>mode_waves capacity wc targets first m. mset (wv_items w))
      = (\<Sum>k\<leftarrow>[0..<max_chunks ?ch]. mset (concat (map (\<lambda>(p, cs). cs ! k)
          (filter (\<lambda>(p, cs). k < length cs) (sort_key (\<lambda>(p, cs). platform_str p) ?ch)))))"
    by (simp add: mode_waves_def build_wave_def Let_def comp_def)
  also have "\<dots> = (\<Sum>(p, cs)\<leftarrow>sort_key (\<lambda>(p, cs). platform_str p) ?ch. mset (concat cs))"
    by (rule sum_waves) (auto dest: max_chunks_ge)
  also have "\<dots> = (\<Sum>(p, cs)\<leftarrow>?ch. mset (concat cs))"
    by (simp flip: sum_mset_sum_list)
  also have "\<dots> = (\<Sum>p\<leftarrow>dedupe (map wi_platform ?items). mset (map (\<lambda>x. x) (filter (\<lambda>it. wi_platform it = p) ?items)))"
    by (simp add: mode_chunks_def comp_def)
  also have "\<dots> = mset ?items"
    using mset_by_platform [of "dedupe (map wi_platform ?items)" wi_platform ?items "\<lambda>x. x"] by simp
  finally show ?thesis .
qed

text \<open>
  Every target is staged exactly once, at the mode it is cleared for: the items of all waves
  together are the targets' items, with multiplicity.
\<close>

theorem waves_partition_targets:
  "(\<Sum>w\<leftarrow>cg_waves (build_campaign_plan targets capacity wc). mset (wv_items w)) = mset (map make_item targets)"
proof -
  have stage: "(\<Sum>w\<leftarrow>stage_waves capacity wc targets first ms. mset (wv_items w)) = (\<Sum>m\<leftarrow>ms. mset (mode_items targets m))" for first ms
    by (induction ms arbitrary: first) (simp_all add: Let_def mode_waves_items)
  have "(\<Sum>m\<leftarrow>RAMP_STAGES. mset (map (\<lambda>x. x) (filter (\<lambda>it. wi_mode it = m) (map make_item targets)))) = mset (map (\<lambda>x. x) (map make_item targets))"
    by (rule mset_by_platform) (auto simp: RAMP_STAGES_def make_item_def target_stage_def split: if_splits)
  then show ?thesis by (simp add: build_campaign_plan_def Let_def stage mode_items_def)
qed

lemma wave_in_modeE:
  assumes "w \<in> set (cg_waves (build_campaign_plan targets capacity wc))"
  obtains m first where "w \<in> set (mode_waves capacity wc targets first m)"
proof -
  have "w \<in> set (stage_waves capacity wc targets first ms) \<Longrightarrow> \<exists>m f. w \<in> set (mode_waves capacity wc targets f m)" for first ms
    by (induction ms arbitrary: first) (auto simp: Let_def)
  from this [of 0 RAMP_STAGES] assms that show thesis by (auto simp: build_campaign_plan_def Let_def)
qed

lemma mode_wave_mode: "w \<in> set (mode_waves capacity wc targets first m) \<Longrightarrow> wv_mode w = m \<and> wv_ramp_step w = RAMP_INDEX m"
  by (auto simp: mode_waves_def build_wave_def Let_def)

lemma mode_wave_index: "map wv_index (mode_waves capacity wc targets first m)
    = [first..<first + length (mode_waves capacity wc targets first m)]"
  by (rule nth_equalityI) (simp_all add: mode_waves_def build_wave_def Let_def)

lemma item_in_sum: "w \<in> set ws \<Longrightarrow> it \<in> set (wv_items w) \<Longrightarrow> it \<in># (\<Sum>w\<leftarrow>ws. mset (wv_items w))"
  by (induction ws) auto

lemma mode_wave_items:
  assumes "w \<in> set (mode_waves capacity wc targets first m)" "it \<in> set (wv_items w)"
  shows "wi_mode it = m \<and> it \<in> make_item ` set targets"
proof -
  have "it \<in># (\<Sum>w\<leftarrow>mode_waves capacity wc targets first m. mset (wv_items w))"
    by (rule item_in_sum [OF assms])
  then show ?thesis by (auto simp: mode_waves_items mode_items_def)
qed

text \<open>
  C38. Waves run along the ramp: their indices count up from zero, a wave's items all have its mode,
  and no wave of a riskier mode comes before one of a safer mode.
\<close>

theorem campaign_follows_ramp:
  "map wv_index (cg_waves (build_campaign_plan targets capacity wc))
      = [0..<length (cg_waves (build_campaign_plan targets capacity wc))]
   \<and> sorted (map wv_ramp_step (cg_waves (build_campaign_plan targets capacity wc)))
   \<and> (\<forall>w \<in> set (cg_waves (build_campaign_plan targets capacity wc)). \<forall>it \<in> set (wv_items w).
        wi_mode it = wv_mode w \<and> wv_ramp_step w = RAMP_INDEX (wv_mode w))"
proof -
  have index: "map wv_index (stage_waves capacity wc targets first ms)
      = [first..<first + length (stage_waves capacity wc targets first ms)]" for first ms
  proof (induction ms arbitrary: first)
    case (Cons m ms)
    let ?n = "length (mode_waves capacity wc targets first m)"
    let ?k = "length (stage_waves capacity wc targets (first + ?n) ms)"
    have "map wv_index (stage_waves capacity wc targets first (m # ms)) = [first..<first + ?n] @ [first + ?n..<first + ?n + ?k]"
      by (simp add: Let_def mode_wave_index Cons.IH)
    also have "\<dots> = [first..<first + ?n + ?k]" by (rule upt_add_eq_append [symmetric]) simp
    finally show ?case by (simp add: Let_def add.assoc)
  qed simp
  have steps: "wv_ramp_step w \<in> RAMP_INDEX ` set ms" if "w \<in> set (stage_waves capacity wc targets first ms)" for w first ms
    using that by (induction ms arbitrary: first) (auto simp: Let_def dest: mode_wave_mode)
  have const: "map wv_ramp_step (mode_waves capacity wc targets first m)
      = replicate (length (mode_waves capacity wc targets first m)) (RAMP_INDEX m)" for first m
    by (rule replicate_eqI) (auto dest: mode_wave_mode)
  have "sorted (map RAMP_INDEX ms) \<Longrightarrow> sorted (map wv_ramp_step (stage_waves capacity wc targets first ms))" for first ms
  proof (induction ms arbitrary: first)
    case (Cons m ms)
    show ?case
      using Cons by (auto simp: Let_def const sorted_append dest!: steps)
  qed simp
  moreover have "sorted (map RAMP_INDEX RAMP_STAGES)" by (simp add: RAMP_STAGES_def)
  ultimately have "sorted (map wv_ramp_step (stage_waves capacity wc targets 0 RAMP_STAGES))" by blast
  moreover have "wi_mode it = wv_mode w \<and> wv_ramp_step w = RAMP_INDEX (wv_mode w)"
    if "w \<in> set (cg_waves (build_campaign_plan targets capacity wc))" "it \<in> set (wv_items w)" for w it
    using that by (elim wave_in_modeE) (auto dest: mode_wave_mode mode_wave_items)
  ultimately show ?thesis using index [of 0 RAMP_STAGES] by (auto simp: build_campaign_plan_def Let_def)
qed

text \<open>
  The builder passes the check: a plan built from targets whose flags the gate state confirms is
  accepted, for any capacity.
\<close>

theorem built_campaign_validates:
  assumes "\<forall>t \<in> set targets. gate (tg_lottery_id t) = Some \<lparr>gf_gate_ready = tg_gate_ready t, gf_shadow_eligible = tg_shadow_eligible t\<rparr>"
  shows "validate_campaign (build_campaign_plan targets capacity wc) gate = (True, [])"
proof -
  have "item_errors gate it = []"
    if w: "w \<in> set (cg_waves (build_campaign_plan targets capacity wc))" and it: "it \<in> set (wv_items w)" for w it
  proof -
    obtain t where "t \<in> set targets" "it = make_item t"
      using w it by (elim wave_in_modeE) (auto dest: mode_wave_items)
    with assms show ?thesis by (auto simp: item_errors_def make_item_def target_stage_def)
  qed
  then show ?thesis by (auto simp: validate_campaign_def Let_def)
qed

text \<open>
  Validation is exact: a plan is accepted if and only if every real-run item is cleared by the
  gate and every shadow item is shadow-eligible, so no accepted plan lets a target jump the ramp.
\<close>

lemma validated_campaign_respects_gate:
  "fst (validate_campaign plan gate) \<longleftrightarrow> (\<forall>w \<in> set (cg_waves plan). \<forall>it \<in> set (wv_items w).
     (wi_mode it = Real_run \<longrightarrow> (\<exists>f. gate (wi_lottery_id it) = Some f \<and> gf_gate_ready f))
     \<and> (wi_mode it = Shadow_run \<longrightarrow> (\<exists>f. gate (wi_lottery_id it) = Some f \<and> gf_shadow_eligible f)))"
proof -
  have "item_errors gate it = [] \<longleftrightarrow> (wi_mode it = Real_run \<longrightarrow> (\<exists>f. gate (wi_lottery_id it) = Some f \<and> gf_gate_ready f))
     \<and> (wi_mode it = Shadow_run \<longrightarrow> (\<exists>f. gate (wi_lottery_id it) = Some f \<and> gf_shadow_eligible f))" for it
    by (auto simp: item_errors_def Let_def split: option.splits ramp_mode.splits)
  then show ?thesis by (simp add: validate_campaign_def Let_def)
qed

text \<open>
  Waves are capacity-bounded: no wave carries more items of a platform than the platform's wave
  capacity (at least one).
\<close>

lemma waves_within_capacity:
  assumes "w \<in> set (cg_waves (build_campaign_plan targets capacity wc))" "(p, n) \<in> set (wv_platform_loads w)"
  shows "0 < n \<and> int n \<le> max 1 (wave_cap_for p capacity wc)"
proof -
  obtain first m where "w \<in> set (mode_waves capacity wc targets first m)" using assms(1) by (rule wave_in_modeE)
  then obtain k cs where "(p, cs) \<in> set (mode_chunks capacity wc (mode_items targets m))" "k < length cs" "n = length (cs ! k)"
    using assms(2) by (auto simp: mode_waves_def build_wave_def Let_def)
  then show ?thesis by (auto simp: mode_chunks_def dest: chunk_size [OF nth_mem])
qed

definition demo_target :: "int \<Rightarrow> bool \<Rightarrow> bool \<Rightarrow> target" where
  "demo_target i g s = \<lparr>tg_lottery_id = Some i, tg_platform = Some ''weibo'', tg_value_score = PInt i,
     tg_gate_ready = g, tg_shadow_eligible = s\<rparr>"

definition demo_gate :: gate_state where
  "demo_gate l = (if l = Some 2 then Some \<lparr>gf_gate_ready = True, gf_shadow_eligible = True\<rparr>
     else Some \<lparr>gf_gate_ready = False, gf_shadow_eligible = False\<rparr>)"

theorem built_campaign_validates_witness:
  "cg_by_mode (build_campaign_plan [demo_target 1 False False, demo_target 2 True True] None None) Real_run = 1
   \<and> validate_campaign (build_campaign_plan [demo_target 1 False False, demo_target 2 True True] None None) demo_gate = (True, [])"
proof -
  have "cg_by_mode (build_campaign_plan [demo_target 1 False False, demo_target 2 True True] None None) Real_run = 1" by code_simp
  moreover have "validate_campaign (build_campaign_plan [demo_target 1 False False, demo_target 2 True True] None None) demo_gate = (True, [])"
    by (rule built_campaign_validates) (simp add: demo_target_def demo_gate_def)
  ultimately show ?thesis by blast
qed

theorem campaign_follows_ramp_witness:
  "map wv_mode (cg_waves (build_campaign_plan [demo_target 1 True True, demo_target 2 False False] None None)) = [Dry_run, Real_run]
   \<and> sorted (map wv_ramp_step (cg_waves (build_campaign_plan [demo_target 1 True True, demo_target 2 False False] None None)))"
proof -
  have "map wv_mode (cg_waves (build_campaign_plan [demo_target 1 True True, demo_target 2 False False] None None)) = [Dry_run, Real_run]"
    by code_simp
  with campaign_follows_ramp show ?thesis by blast
qed

end
