(* ===== verification/TaskStreams.thy ===== *)
theory TaskStreams
  imports PyValue
begin

text \<open>
  The transport contract of task streams (\<open>shared/task_streams.py\<close>): the lanes of each platform, the
  check of a message against its lane, and the Lua scripts that acknowledge and delete an entry only
  once every consumer group is past it; with the platform catalog (\<open>shared/platform_ids.py\<close>) and the
  deployment scope (\<open>shared/platform_scope.py\<close>).
\<close>

section \<open>Platforms and scopes\<close>

definition PLATFORM_IDS :: "string list" where
  "PLATFORM_IDS = [''bilibili'', ''weibo'', ''xiaohongshu'', ''douyin'']"

definition ALL_PLATFORM_SCOPE :: string where "ALL_PLATFORM_SCOPE = ''all''"

datatype scope_value = Scope_none | Scope_text string | Scope_items "string list"

datatype scope_error = Scope_required | Scope_all_must_be_exclusive | Scope_unsupported "string list"
  | Scope_exactly_one_required

definition scope_tokens :: "scope_value \<Rightarrow> string list" where
  "scope_tokens v = (case v of
     Scope_none \<Rightarrow> [ALL_PLATFORM_SCOPE]
   | Scope_text s \<Rightarrow> map (\<lambda>i. casefold (strip i)) (filter (\<lambda>i. strip i \<noteq> []) (split_on CHR '','' s))
   | Scope_items xs \<Rightarrow> map (\<lambda>i. casefold (strip i)) (filter (\<lambda>i. strip i \<noteq> []) xs))"

definition normalize_platform_scope :: "scope_value \<Rightarrow> bool \<Rightarrow> (scope_error, string list) result" where
  "normalize_platform_scope v allow_all =
     (let raw = scope_tokens v; unknown = sort (dedupe (filter (\<lambda>p. p \<notin> set PLATFORM_IDS) raw)) in
      if raw = [] then Inl Scope_required
      else if ALL_PLATFORM_SCOPE \<in> set raw then
        (if \<not> allow_all \<or> length raw \<noteq> 1 then Inl Scope_all_must_be_exclusive else Inr PLATFORM_IDS)
      else if unknown \<noteq> [] then Inl (Scope_unsupported unknown)
      else Inr (filter (\<lambda>p. p \<in> set raw) PLATFORM_IDS))"

definition exact_platform_scope :: "scope_value \<Rightarrow> (scope_error, string) result" where
  "exact_platform_scope v = rbind (normalize_platform_scope v False) (\<lambda>ps.
     case ps of [p] \<Rightarrow> Inr p | _ \<Rightarrow> Inl Scope_exactly_one_required)"

section \<open>Lanes\<close>

definition LEGACY_TASK_STREAM_KEY :: string where "LEGACY_TASK_STREAM_KEY = ''lottery_tasks''"
definition LEGACY_TASK_GROUP_NAME :: string where "LEGACY_TASK_GROUP_NAME = ''workers''"
definition REPAIR_TASK_PROTOCOL_VERSION :: int where "REPAIR_TASK_PROTOCOL_VERSION = 1"
definition REPAIR_TASK_STREAM_PREFIX :: string where "REPAIR_TASK_STREAM_PREFIX = ''lottery_repair_tasks:v1''"
definition REPAIR_TASK_GROUP_PREFIX :: string where "REPAIR_TASK_GROUP_PREFIX = ''repair-workers:v1''"
definition MAX_SAFE_TERMINAL_CONSUMER_GROUPS :: nat where "MAX_SAFE_TERMINAL_CONSUMER_GROUPS = 32"

record task_stream_binding =
  tb_stream_key :: string
  tb_group_name :: string
  tb_platform :: "string option"
  tb_legacy :: bool
  tb_repair :: bool
  tb_protocol_version :: "int option"

definition platform_binding :: "string \<Rightarrow> task_stream_binding" where
  "platform_binding p = \<lparr>tb_stream_key = LEGACY_TASK_STREAM_KEY @ '':'' @ p, tb_group_name = LEGACY_TASK_GROUP_NAME @ '':'' @ p,
     tb_platform = Some p, tb_legacy = False, tb_repair = False, tb_protocol_version = None\<rparr>"

definition repair_binding :: "string \<Rightarrow> task_stream_binding" where
  "repair_binding p = \<lparr>tb_stream_key = REPAIR_TASK_STREAM_PREFIX @ '':'' @ p, tb_group_name = REPAIR_TASK_GROUP_PREFIX @ '':'' @ p,
     tb_platform = Some p, tb_legacy = False, tb_repair = True, tb_protocol_version = Some REPAIR_TASK_PROTOCOL_VERSION\<rparr>"

definition PLATFORM_TASK_STREAM_BINDINGS :: "task_stream_binding list" where
  "PLATFORM_TASK_STREAM_BINDINGS = map platform_binding PLATFORM_IDS"

definition PLATFORM_REPAIR_TASK_STREAM_BINDINGS :: "task_stream_binding list" where
  "PLATFORM_REPAIR_TASK_STREAM_BINDINGS = map repair_binding PLATFORM_IDS"

definition LEGACY_TASK_STREAM_BINDING :: task_stream_binding where
  "LEGACY_TASK_STREAM_BINDING = \<lparr>tb_stream_key = LEGACY_TASK_STREAM_KEY, tb_group_name = LEGACY_TASK_GROUP_NAME,
     tb_platform = None, tb_legacy = True, tb_repair = False, tb_protocol_version = None\<rparr>"

definition all_bindings :: "task_stream_binding list" where
  "all_bindings = PLATFORM_TASK_STREAM_BINDINGS @ PLATFORM_REPAIR_TASK_STREAM_BINDINGS @ [LEGACY_TASK_STREAM_BINDING]"

datatype stream_error = Platform_unsupported string | Repair_platform_unsupported string
  | Legacy_repair_forbidden | Stream_platform_mismatch | Repair_contract_mismatch | Standard_repair_forbidden

definition task_stream_binding_for_platform :: "string \<Rightarrow> (stream_error, task_stream_binding) result" where
  "task_stream_binding_for_platform p =
     (let n = casefold (strip p) in
      case find (\<lambda>b. tb_platform b = Some n) PLATFORM_TASK_STREAM_BINDINGS of
        None \<Rightarrow> Inl (Platform_unsupported (if n = [] then ''missing'' else n)) | Some b \<Rightarrow> Inr b)"

definition repair_task_stream_binding_for_platform :: "string \<Rightarrow> (stream_error, task_stream_binding) result" where
  "repair_task_stream_binding_for_platform p =
     (let n = casefold (strip p) in
      case find (\<lambda>b. tb_platform b = Some n) PLATFORM_REPAIR_TASK_STREAM_BINDINGS of
        None \<Rightarrow> Inl (Repair_platform_unsupported (if n = [] then ''missing'' else n)) | Some b \<Rightarrow> Inr b)"

text \<open>The dictionary keyed by stream: a later binding of a key would replace an earlier one.\<close>

definition task_stream_binding_for_key :: "string \<Rightarrow> task_stream_binding option" where
  "task_stream_binding_for_key k = map_of (rev (map (\<lambda>b. (tb_stream_key b, b)) all_bindings)) (strip k)"

definition task_stream_bindings :: "bool \<Rightarrow> bool \<Rightarrow> task_stream_binding list" where
  "task_stream_bindings include_legacy include_repair =
     PLATFORM_TASK_STREAM_BINDINGS @ (if include_repair then PLATFORM_REPAIR_TASK_STREAM_BINDINGS else [])
       @ (if include_legacy then [LEGACY_TASK_STREAM_BINDING] else [])"

definition validate_task_stream_message ::
  "(pyval \<Rightarrow> string) \<Rightarrow> task_stream_binding \<Rightarrow> pydict \<Rightarrow> (stream_error, unit) result" where
  "validate_task_stream_message rp b message =
     (let platform = norm_token rp (dget message ''platform'');
          kind = norm_token rp (dget message ''execution_intent_kind'');
          mode = norm_token rp (dget message ''mode'') in
      if tb_legacy b then
        (if kind = ''repair'' then Inl Legacy_repair_forbidden
         else if platform \<noteq> [] then rmap (\<lambda>_. ()) (task_stream_binding_for_platform platform)
         else Inr ())
      else if platform = [] \<or> Some platform \<noteq> tb_platform b then Inl Stream_platform_mismatch
      else if tb_repair b then
        (if mode \<noteq> ''real_run'' \<or> kind \<noteq> ''repair'' then Inl Repair_contract_mismatch else Inr ())
      else if kind = ''repair'' then Inl Standard_repair_forbidden
      else Inr ())"

section \<open>The Lua scripts\<close>

text \<open>\<open>decimal_compare\<close>: numbers as digit strings, so that no 64-bit value is rounded.\<close>

definition strip_zeros :: "string \<Rightarrow> string" where
  "strip_zeros s = (let t = dropWhile (\<lambda>c. c = CHR ''0'') s in if t = [] then ''0'' else t)"

definition decimal_compare :: "string \<Rightarrow> string \<Rightarrow> int" where
  "decimal_compare l r =
     (let a = strip_zeros l; b = strip_zeros r in
      if length a \<noteq> length b then (if length a > length b then 1 else -1)
      else if a = b then 0 else if a > b then 1 else -1)"

text \<open>\<open>string.match(id, '^(%d+)%-(%d+)$')\<close>.\<close>

definition is_digit :: "char \<Rightarrow> bool" where
  "is_digit c \<longleftrightarrow> digit_of c \<noteq> None"

definition match_id :: "string \<Rightarrow> (string \<times> string) option" where
  "match_id s = (let ms = takeWhile is_digit s; rest = dropWhile is_digit s in
     case rest of
       [] \<Rightarrow> None
     | c # q \<Rightarrow> if c = CHR ''-'' \<and> ms \<noteq> [] \<and> q \<noteq> [] \<and> list_all is_digit q then Some (ms, q) else None)"

definition id_gte :: "string \<Rightarrow> string \<Rightarrow> bool" where
  "id_gte l r = (case (match_id l, match_id r) of
     (Some (lm, lq), Some (rm, rq)) \<Rightarrow>
       let o1 = decimal_compare lm rm in o1 > 0 \<or> (o1 = 0 \<and> decimal_compare lq rq \<ge> 0)
   | _ \<Rightarrow> False)"

record consumer_group =
  cg_name :: string
  cg_last_delivered :: string
  cg_pending :: "string list"

record redis_stream =
  rs_entries :: "string list"
  rs_groups :: "consumer_group list"

definition all_groups_confirmed :: "redis_stream \<Rightarrow> string \<Rightarrow> bool" where
  "all_groups_confirmed st mid \<longleftrightarrow> rs_groups st \<noteq> [] \<and> length (rs_groups st) \<le> MAX_SAFE_TERMINAL_CONSUMER_GROUPS
     \<and> list_all (\<lambda>g. id_gte (cg_last_delivered g) mid \<and> mid \<notin> set (cg_pending g)) (rs_groups st)"

definition xack :: "string \<Rightarrow> string \<Rightarrow> redis_stream \<Rightarrow> nat \<times> redis_stream" where
  "xack grp mid st =
     (row_count (\<lambda>g. cg_name g = grp \<and> mid \<in> set (cg_pending g)) (rs_groups st),
      st\<lparr>rs_groups := update_where (\<lambda>g. cg_name g = grp) (\<lambda>g. g\<lparr>cg_pending := removeAll mid (cg_pending g)\<rparr>) (rs_groups st)\<rparr>)"

definition xdel :: "string \<Rightarrow> redis_stream \<Rightarrow> nat \<times> redis_stream" where
  "xdel mid st = (if mid \<in> set (rs_entries st) then 1 else 0, st\<lparr>rs_entries := removeAll mid (rs_entries st)\<rparr>)"

definition SAFE_TERMINAL_STREAM_ACK_DELETE_LUA :: "string \<Rightarrow> string \<Rightarrow> redis_stream \<Rightarrow> (nat \<times> nat) \<times> redis_stream" where
  "SAFE_TERMINAL_STREAM_ACK_DELETE_LUA grp mid st =
     (let (acknowledged, st1) = xack grp mid st in
      if all_groups_confirmed st1 mid then let (deleted, st2) = xdel mid st1 in ((acknowledged, deleted), st2)
      else ((acknowledged, 0), st1))"

definition SAFE_CONFIRMED_STREAM_ENTRY_DELETE_LUA :: "string \<Rightarrow> redis_stream \<Rightarrow> (nat \<times> nat) \<times> redis_stream" where
  "SAFE_CONFIRMED_STREAM_ENTRY_DELETE_LUA mid st =
     (if all_groups_confirmed st mid then let (deleted, st1) = xdel mid st in ((1, deleted), st1) else ((0, 0), st))"

text \<open>The fan-out variant also needs the marker, which it removes with the entry.\<close>

definition SAFE_TERMINAL_FANOUT_ACK_DELETE_LUA ::
  "string \<Rightarrow> string \<Rightarrow> string \<Rightarrow> string list \<times> redis_stream \<Rightarrow> (nat \<times> nat) \<times> string list \<times> redis_stream" where
  "SAFE_TERMINAL_FANOUT_ACK_DELETE_LUA grp mid marker s =
     (let (markers, st) = s; authorized = (marker \<in> set markers); (acknowledged, st1) = xack grp mid st in
      if authorized \<and> all_groups_confirmed st1 mid
      then let (deleted, st2) = xdel mid st1 in ((acknowledged, deleted), removeAll marker markers, st2)
      else ((acknowledged, 0), markers, st1))"

text \<open>
  Re-enqueueing from recovery: \<open>fresh\<close> is the identifier \<open>XADD\<close> assigns. Without its marker the
  source has been re-enqueued before.
\<close>

definition SAFE_FANOUT_RECOVERY_REENQUEUE_LUA ::
  "string \<Rightarrow> string \<Rightarrow> string \<Rightarrow> string \<Rightarrow> string list \<times> redis_stream \<Rightarrow> string option \<times> string list \<times> redis_stream" where
  "SAFE_FANOUT_RECOVERY_REENQUEUE_LUA fresh grp mid prefix s =
     (let (markers, st) = s; source = prefix @ mid in
      if source \<notin> set markers then (None, markers, st)
      else let st1 = st\<lparr>rs_entries := rs_entries st @ [fresh]\<rparr>;
               markers1 = removeAll source (if prefix @ fresh \<in> set markers then markers else markers @ [prefix @ fresh]);
               st2 = snd (xack grp mid st1);
               st3 = (if all_groups_confirmed st2 mid then snd (xdel mid st2) else st2) in
           (Some fresh, markers1, st3))"

section \<open>Decimal comparison is numeric\<close>

definition digit_val :: "char \<Rightarrow> nat" where
  "digit_val c = (of_char c :: nat) - 48"

fun dec :: "string \<Rightarrow> nat" where
  "dec [] = 0"
| "dec (c # s) = digit_val c * 10 ^ length s + dec s"

lemma is_digit_iff: "is_digit c \<longleftrightarrow> 48 \<le> (of_char c :: nat) \<and> (of_char c :: nat) \<le> 57"
  by (simp add: is_digit_def digit_of_def Let_def)

lemma dec_bound: "list_all is_digit s \<Longrightarrow> dec s < 10 ^ length s"
proof (induction s)
  case (Cons c s)
  then have "digit_val c \<le> 9" "dec s < 10 ^ length s" by (auto simp: is_digit_iff digit_val_def)
  then have "digit_val c * 10 ^ length s \<le> 9 * 10 ^ length s" by simp
  with \<open>dec s < 10 ^ length s\<close> have "digit_val c * 10 ^ length s + dec s < 9 * 10 ^ length s + 10 ^ length s" by linarith
  then show ?case by simp
qed simp

lemma dec_strip_zeros [simp]: "dec (strip_zeros s) = dec s"
proof -
  have "dec (dropWhile (\<lambda>c. c = CHR ''0'') s) = dec s"
    by (induction s) (auto simp: digit_val_def)
  then show ?thesis by (cases "dropWhile (\<lambda>c. c = CHR ''0'') s") (simp_all add: strip_zeros_def Let_def digit_val_def)
qed

lemma strip_zeros_digits: "list_all is_digit s \<Longrightarrow> list_all is_digit (strip_zeros s)"
  by (auto simp: strip_zeros_def Let_def list_all_iff is_digit_iff dest: set_dropWhileD)

lemma strip_zeros_head: "length (strip_zeros s) > 1 \<Longrightarrow> hd (strip_zeros s) \<noteq> CHR ''0''"
proof -
  assume "length (strip_zeros s) > 1"
  then have "dropWhile (\<lambda>c. c = CHR ''0'') s \<noteq> []" "strip_zeros s = dropWhile (\<lambda>c. c = CHR ''0'') s"
    by (auto simp: strip_zeros_def Let_def split: if_splits)
  then show ?thesis using hd_dropWhile [of "\<lambda>c. c = CHR ''0''" s] by simp
qed

lemma dec_longer:
  assumes "list_all is_digit a" "list_all is_digit b" "length b < length a" "hd a \<noteq> CHR ''0''"
  shows "dec b < dec a"
proof -
  obtain c s where a: "a = c # s" using assms(3) by (cases a) auto
  have "c \<noteq> CHR ''0''" using assms(4) a by simp
  then have "(of_char c :: nat) \<noteq> 48" using of_char_eq_iff [of c "CHR ''0''", where 'a = nat] by simp
  with assms(1) a have "1 \<le> digit_val c" by (auto simp: digit_val_def is_digit_iff)
  then have "1 * 10 ^ length s \<le> digit_val c * 10 ^ length s" by (rule mult_right_mono) simp
  then have "10 ^ length s \<le> dec a" unfolding a dec.simps by linarith
  moreover have "dec b < 10 ^ length b" using assms(2) by (rule dec_bound)
  moreover have "(10 :: nat) ^ length b \<le> 10 ^ length s" using assms(3) a by (simp add: power_increasing)
  ultimately show ?thesis by linarith
qed

lemma digit_val_less: "is_digit c \<Longrightarrow> is_digit d \<Longrightarrow> c < d \<longleftrightarrow> digit_val c < digit_val d"
  by (auto simp: is_digit_iff digit_val_def less_char_def)

lemma dec_same_length:
  "length a = length b \<Longrightarrow> list_all is_digit a \<Longrightarrow> list_all is_digit b \<Longrightarrow> a < b \<Longrightarrow> dec a < dec b"
proof (induction a b rule: list_induct2)
  case (Cons c a d b)
  have len: "length a = length b" by (fact Cons.hyps)
  show ?case
  proof (cases "c = d")
    case True
    with Cons show ?thesis by simp
  next
    case False
    with Cons.prems have "c < d" by simp
    with Cons.prems have "digit_val c < digit_val d" by (simp add: digit_val_less)
    then have "(digit_val c + 1) * 10 ^ length b \<le> digit_val d * 10 ^ length b" by (intro mult_right_mono) auto
    moreover have "dec a < 10 ^ length b" using dec_bound [of a] Cons.prems len by simp
    ultimately show ?thesis by (simp add: len)
  qed
qed simp

lemma decimal_compare_sgn:
  assumes "list_all is_digit l" "list_all is_digit r"
  shows "decimal_compare l r = sgn (int (dec l) - int (dec r))"
proof -
  let ?a = "strip_zeros l" and ?b = "strip_zeros r"
  note d = strip_zeros_digits [OF assms(1)] strip_zeros_digits [OF assms(2)]
  have ne: "?a \<noteq> []" "?b \<noteq> []" by (auto simp: strip_zeros_def Let_def)
  consider "length ?a > length ?b" | "length ?a < length ?b" | "length ?a = length ?b" by linarith
  then show ?thesis
  proof cases
    case 1
    with ne have "hd ?a \<noteq> CHR ''0''" by (intro strip_zeros_head) (metis length_greater_0_conv less_trans_Suc One_nat_def Suc_lessI)
    from dec_longer [OF d 1 this] 1 show ?thesis by (simp add: decimal_compare_def Let_def)
  next
    case 2
    with ne have "hd ?b \<noteq> CHR ''0''" by (intro strip_zeros_head) (metis length_greater_0_conv less_trans_Suc One_nat_def Suc_lessI)
    from dec_longer [OF d(2,1) 2 this] 2 show ?thesis by (simp add: decimal_compare_def Let_def)
  next
    case 3
    show ?thesis
    proof (cases ?a ?b rule: linorder_cases)
      case less
      with dec_same_length [OF 3 d] 3 show ?thesis by (auto simp: decimal_compare_def Let_def)
    next
      case equal
      then have "dec l = dec r" by (metis dec_strip_zeros)
      with equal show ?thesis by (simp add: decimal_compare_def Let_def)
    next
      case greater
      with dec_same_length [OF 3 [symmetric] d(2,1)] 3 show ?thesis by (auto simp: decimal_compare_def Let_def)
    qed
  qed
qed

text \<open>
  The digit-string comparison of the scripts is the numeric one, for numbers of any size.
\<close>

lemma decimal_compare_is_numeric:
  assumes "list_all is_digit l" "list_all is_digit r"
  shows "decimal_compare l r = sgn (int (dec l) - int (dec r))"
  using assms by (rule decimal_compare_sgn)

section \<open>Retention\<close>

lemma match_id_digits: "match_id s = Some (m, q) \<Longrightarrow> list_all is_digit m \<and> list_all is_digit q"
  by (auto simp: match_id_def Let_def list_all_iff split: list.splits if_splits dest: set_takeWhileD)

text \<open>The order of entry identifiers: milliseconds, then the sequence number.\<close>

definition id_le :: "string \<Rightarrow> string \<Rightarrow> bool" where
  "id_le a b \<longleftrightarrow> (\<exists>am aq bm bq. match_id a = Some (am, aq) \<and> match_id b = Some (bm, bq)
     \<and> (dec am < dec bm \<or> dec am = dec bm \<and> dec aq \<le> dec bq))"

lemma decimal_compare_numeric:
  assumes "list_all is_digit l" "list_all is_digit r"
  shows "decimal_compare l r > 0 \<longleftrightarrow> dec r < dec l" "decimal_compare l r = 0 \<longleftrightarrow> dec l = dec r"
    "decimal_compare l r \<ge> 0 \<longleftrightarrow> dec r \<le> dec l"
  using decimal_compare_sgn [OF assms] by (auto simp: sgn_if)

lemma id_gte_iff: "id_gte l r \<longleftrightarrow> id_le r l"
  by (auto simp: id_gte_def id_le_def Let_def decimal_compare_numeric dest!: match_id_digits split: option.splits)

text \<open>
  C39. An entry is deleted only when it is safe for everyone: the terminal script removes an entry
  only if, after the acknowledgement, every consumer group of the stream (one to thirty-two of them)
  has been delivered past it and none still has it pending; other entries, and the pending lists of
  other groups, are untouched.
\<close>

theorem terminal_delete_is_safe:
  assumes "SAFE_TERMINAL_STREAM_ACK_DELETE_LUA grp mid st = ((acked, deleted), st')"
    and "mid \<in> set (rs_entries st)" "mid \<notin> set (rs_entries st')"
  shows "rs_groups st \<noteq> [] \<and> length (rs_groups st) \<le> MAX_SAFE_TERMINAL_CONSUMER_GROUPS
    \<and> (\<forall>g \<in> set (rs_groups st'). id_le mid (cg_last_delivered g) \<and> mid \<notin> set (cg_pending g))
    \<and> deleted = 1 \<and> rs_entries st' = removeAll mid (rs_entries st)
    \<and> (\<forall>g \<in> set (rs_groups st). cg_name g \<noteq> grp \<longrightarrow> g \<in> set (rs_groups st') \<and> mid \<notin> set (cg_pending g))"
proof -
  let ?st1 = "snd (xack grp mid st)"
  have c: "all_groups_confirmed ?st1 mid"
    using assms by (auto simp: SAFE_TERMINAL_STREAM_ACK_DELETE_LUA_def xack_def split: if_splits)
  then have st': "st' = snd (xdel mid ?st1)" "deleted = 1"
    using assms(1,2) by (auto simp: SAFE_TERMINAL_STREAM_ACK_DELETE_LUA_def split_beta xack_def xdel_def Let_def split: if_splits)
  have groups: "rs_groups st' = update_where (\<lambda>g. cg_name g = grp) (\<lambda>g. g\<lparr>cg_pending := removeAll mid (cg_pending g)\<rparr>) (rs_groups st)"
    by (simp add: st' xdel_def xack_def)
  have "g \<in> set (rs_groups st')" if "g \<in> set (rs_groups st)" "cg_name g \<noteq> grp" for g
    using that by (auto simp: groups set_update_where)
  moreover have "rs_groups ?st1 = rs_groups st'" by (simp add: st' xdel_def)
  moreover have "rs_groups st \<noteq> []" "length (rs_groups st) \<le> MAX_SAFE_TERMINAL_CONSUMER_GROUPS"
    using c by (auto simp: all_groups_confirmed_def xack_def)
  ultimately show ?thesis
    using c st' by (auto simp: all_groups_confirmed_def id_gte_iff list_all_iff xdel_def xack_def)
qed

definition demo_stream :: redis_stream where
  "demo_stream = \<lparr>rs_entries = [''5-0'', ''6-0''], rs_groups =
     [\<lparr>cg_name = ''workers'', cg_last_delivered = ''6-0'', cg_pending = [''5-0'', ''6-0'']\<rparr>]\<rparr>"

theorem terminal_delete_is_safe_witness:
  "\<exists>st'. SAFE_TERMINAL_STREAM_ACK_DELETE_LUA ''workers'' ''5-0'' demo_stream = ((1, 1), st') \<and> rs_entries st' = [''6-0'']
     \<and> (\<forall>g \<in> set (rs_groups st'). id_le ''5-0'' (cg_last_delivered g))"
proof -
  obtain st' where s: "SAFE_TERMINAL_STREAM_ACK_DELETE_LUA ''workers'' ''5-0'' demo_stream = ((1, 1), st')"
    and e: "rs_entries st' = [''6-0'']"
  proof -
    have "fst (SAFE_TERMINAL_STREAM_ACK_DELETE_LUA ''workers'' ''5-0'' demo_stream) = (1, 1)"
      "rs_entries (snd (SAFE_TERMINAL_STREAM_ACK_DELETE_LUA ''workers'' ''5-0'' demo_stream)) = [''6-0'']" by code_simp+
    then show thesis using that by (metis prod.collapse)
  qed
  have "''5-0'' \<in> set (rs_entries demo_stream)" by code_simp
  with terminal_delete_is_safe [OF s] e s show ?thesis by simp
qed

section \<open>Lanes\<close>

text \<open>
  Each stream belongs to exactly one lane: looking up the stream of a lane gives that lane back,
  and every platform has exactly one standard and one repair lane.
\<close>

lemma lanes_are_disjoint:
  "distinct (map tb_stream_key all_bindings) \<and> distinct (map tb_group_name all_bindings)
   \<and> (\<forall>b \<in> set all_bindings. task_stream_binding_for_key (tb_stream_key b) = Some b)
   \<and> (\<forall>p \<in> set PLATFORM_IDS. task_stream_binding_for_platform p = Inr (platform_binding p)
        \<and> repair_task_stream_binding_for_platform p = Inr (repair_binding p))"
proof -
  have "distinct (map tb_stream_key all_bindings)" "distinct (map tb_group_name all_bindings)" by code_simp+
  moreover have "list_all (\<lambda>b. task_stream_binding_for_key (tb_stream_key b) = Some b) all_bindings" by code_simp
  moreover have "list_all (\<lambda>p. task_stream_binding_for_platform p = Inr (platform_binding p)
        \<and> repair_task_stream_binding_for_platform p = Inr (repair_binding p)) PLATFORM_IDS" by code_simp
  ultimately show ?thesis by (simp add: list_all_iff)
qed

text \<open>
  Lanes are isolated: a message accepted on a platform lane is of that platform; repair intents
  are accepted on repair lanes only, where nothing but a real-run repair is accepted; the legacy
  lane accepts no repair and no unknown platform.
\<close>

lemma accepted_message_fits_lane:
  assumes "b \<in> set all_bindings" "validate_task_stream_message rp b message = Inr ()"
  shows "(tb_platform b \<noteq> None \<longrightarrow> tb_platform b = Some (norm_token rp (dget message ''platform'')))
    \<and> (tb_repair b \<longleftrightarrow> norm_token rp (dget message ''execution_intent_kind'') = ''repair'')
    \<and> (tb_repair b \<longrightarrow> norm_token rp (dget message ''mode'') = ''real_run'')
    \<and> norm_token rp (dget message ''platform'') \<in> set ([] # PLATFORM_IDS)"
proof -
  have shape: "(tb_legacy b \<longleftrightarrow> tb_platform b = None) \<and> (tb_legacy b \<longrightarrow> \<not> tb_repair b)
      \<and> (\<forall>p. tb_platform b = Some p \<longrightarrow> p \<in> set PLATFORM_IDS)"
    using assms(1) by (auto simp: all_bindings_def PLATFORM_TASK_STREAM_BINDINGS_def PLATFORM_REPAIR_TASK_STREAM_BINDINGS_def
        LEGACY_TASK_STREAM_BINDING_def platform_binding_def repair_binding_def)
  have known: "p \<in> set PLATFORM_IDS" if "rmap (\<lambda>_. ()) (task_stream_binding_for_platform p) = Inr ()" "casefold (strip p) = p" for p
    using that by (auto simp: task_stream_binding_for_platform_def Let_def rmap_eq_Inr find_Some_iff
        PLATFORM_TASK_STREAM_BINDINGS_def platform_binding_def split: option.splits)
  show ?thesis
    using assms(2) shape known
    by (auto simp: validate_task_stream_message_def Let_def split: if_splits)
qed

text \<open>
  A deployment scope fails closed: an accepted scope is a non-empty, duplicate-free list of known
  platforms in catalog order, holding exactly the requested ones (or all of them when everything is
  requested and allowed).
\<close>

theorem scope_fails_closed:
  assumes "normalize_platform_scope v allow_all = Inr ps"
  shows "ps \<noteq> [] \<and> distinct ps \<and> ps = filter (\<lambda>p. p \<in> set ps) PLATFORM_IDS
    \<and> (if scope_tokens v = [ALL_PLATFORM_SCOPE] then allow_all \<and> ps = PLATFORM_IDS else set ps = set (scope_tokens v))"
proof -
  have ids: "distinct PLATFORM_IDS" "PLATFORM_IDS \<noteq> []" "ALL_PLATFORM_SCOPE \<notin> set PLATFORM_IDS" by code_simp+
  show ?thesis
  proof (cases "ALL_PLATFORM_SCOPE \<in> set (scope_tokens v)")
    case True
    then have "ps = PLATFORM_IDS" "allow_all" "length (scope_tokens v) = 1"
      using assms by (auto simp: normalize_platform_scope_def Let_def split: if_splits)
    with True ids show ?thesis by (auto simp: length_Suc_conv)
  next
    case False
    then have ps: "ps = filter (\<lambda>p. p \<in> set (scope_tokens v)) PLATFORM_IDS" and ne: "scope_tokens v \<noteq> []"
      and known: "\<forall>p \<in> set (scope_tokens v). p \<in> set PLATFORM_IDS"
      using assms by (auto simp: normalize_platform_scope_def Let_def split: if_splits)
        (metis (mono_tags, lifting) empty_filter_conv dedupe.simps(1) list.set(1) set_dedupe set_empty set_sort sort_key_simps(1))
    have "set ps = set (scope_tokens v)" using ps known by auto
    moreover have "scope_tokens v \<noteq> [ALL_PLATFORM_SCOPE]" using False by auto
    moreover have "distinct ps" using ids by (simp add: ps)
    moreover have "ps = filter (\<lambda>p. p \<in> set ps) PLATFORM_IDS" unfolding \<open>set ps = set (scope_tokens v)\<close> by (fact ps)
    moreover have "ps \<noteq> []" using \<open>set ps = set (scope_tokens v)\<close> ne by auto
    ultimately show ?thesis by simp
  qed
qed

theorem scope_fails_closed_witness:
  "normalize_platform_scope (Scope_text ''weibo, Bilibili'') True = Inr [''bilibili'', ''weibo'']
   \<and> set [''bilibili'', ''weibo''] = set (scope_tokens (Scope_text ''weibo, Bilibili''))"
proof -
  have n: "normalize_platform_scope (Scope_text ''weibo, Bilibili'') True = Inr [''bilibili'', ''weibo'']" by code_simp
  have "scope_tokens (Scope_text ''weibo, Bilibili'') \<noteq> [ALL_PLATFORM_SCOPE]" by code_simp
  with scope_fails_closed [OF n] have "set [''bilibili'', ''weibo''] = set (scope_tokens (Scope_text ''weibo, Bilibili''))"
    by (simp only: if_False)
  with n show ?thesis by (rule conjI)
qed

end
