(* ===== verification/DeviceUi.thy ===== *)
theory DeviceUi
  imports PyValue
begin

text \<open>
  The device agent's reviewed calibration (\<open>src/device_agent/calibration.py\<close>) and the
  screen it is compared with (\<open>src/device_agent/ui.py\<close>). A selector compares exactly; a
  manifest is accepted only with all the evidence the engine relies on; a snapshot is the list
  of the \<open>node\<close> elements of a \<open>uiautomator\<close> dump.

  Screens and manifests hold Chinese text, so in this theory a string is its UTF-8 bytes: equality
  and substring search agree with those on code points, and \<open>py_len\<close> and \<open>py_take\<close> count code
  points by skipping continuation bytes. The XML parser of the standard library (expat) is the
  argument \<open>xml_of\<close>: the element tree of a document, \<open>None\<close> for a \<open>ParseError\<close>.
\<close>

section \<open>Errors\<close>

datatype dev_error = AdbError | UiDocumentError | ManifestError | RateLimitStateError
  | OSErr string | Builtin py_error | KeyErr string | IndexErr

text \<open>\<open>type(exc).__name__\<close>; an \<open>OSError\<close> carries the name of its subclass.\<close>

fun error_name :: "dev_error \<Rightarrow> string" where
  "error_name AdbError = ''AdbError''"
| "error_name UiDocumentError = ''UiDocumentError''"
| "error_name ManifestError = ''ManifestError''"
| "error_name RateLimitStateError = ''RateLimitStateError''"
| "error_name (OSErr n) = n"
| "error_name (Builtin TypeError) = ''TypeError''"
| "error_name (Builtin ValueError) = ''ValueError''"
| "error_name (Builtin AttributeError) = ''AttributeError''"
| "error_name (KeyErr _) = ''KeyError''"
| "error_name IndexErr = ''IndexError''"

section \<open>Text\<close>

definition utf8 :: "nat list \<Rightarrow> string" where
  "utf8 bs = map char_of bs"

definition is_cont :: "char \<Rightarrow> bool" where
  "is_cont c \<longleftrightarrow> (let n = (of_char c :: nat) in 128 \<le> n \<and> n < 192)"

definition py_len :: "string \<Rightarrow> nat" where
  "py_len s = length (filter (\<lambda>c. \<not> is_cont c) s)"

fun py_take :: "int \<Rightarrow> string \<Rightarrow> string" where
  "py_take n [] = []"
| "py_take n (c # s) = (if is_cont c then c # py_take n s
     else if n \<le> 0 then [] else c # py_take (n - 1) s)"

definition upper_char :: "char \<Rightarrow> char" where
  "upper_char c = (let n = (of_char c :: nat) in if 97 \<le> n \<and> n \<le> 122 then char_of (n - 32) else c)"

definition is_hex_lower :: "char \<Rightarrow> bool" where
  "is_hex_lower c \<longleftrightarrow> (let n = (of_char c :: nat) in (48 \<le> n \<and> n \<le> 57) \<or> (97 \<le> n \<and> n \<le> 102))"

definition TARGET_HASH_RE :: "string \<Rightarrow> bool" where
  "TARGET_HASH_RE s \<longleftrightarrow> length s = 64 \<and> list_all is_hex_lower s"

section \<open>Selectors\<close>

definition ALLOWED_DOUYIN_PACKAGES :: "string list" where
  "ALLOWED_DOUYIN_PACKAGES = [''com.ss.android.ugc.aweme'']"

text \<open>In the order of \<open>sorted(SUPPORTED_ACTIONS)\<close>.\<close>

definition SUPPORTED_ACTIONS :: "string list" where
  "SUPPORTED_ACTIONS = [''comment'', ''favorite'', ''follow'', ''like'']"

definition COMMENT_PLACEHOLDER :: string where
  "COMMENT_PLACEHOLDER = ''$comment''"

definition MANDATORY_RISK_TEXTS :: "string list" where
  "MANDATORY_RISK_TEXTS = map utf8
     [[233, 170, 140, 232, 175, 129, 231, 160, 129],
      [229, 174, 137, 229, 133, 168, 233, 170, 140, 232, 175, 129],
      [228, 186, 186, 232, 132, 184],
      [230, 187, 145, 229, 157, 151],
      [230, 147, 141, 228, 189, 156, 233, 162, 145, 231, 185, 129],
      [232, 180, 166, 229, 143, 183, 229, 188, 130, 229, 184, 184]]"

record node_selector =
  sel_text :: "string option"
  sel_resource_id :: "string option"
  sel_content_desc :: "string option"

text \<open>One selector field: absent or null, or a non-empty string.\<close>

fun selector_field :: "pyval \<Rightarrow> (dev_error, string option) result" where
  "selector_field PNone = Inr None"
| "selector_field (PStr s) = (if s = [] then Inl ManifestError else Inr (Some s))"
| "selector_field _ = Inl ManifestError"

definition only_keys :: "string list \<Rightarrow> pydict \<Rightarrow> bool" where
  "only_keys allowed d \<longleftrightarrow> list_all (\<lambda>kv. fst kv \<in> set allowed) d"

definition selector_from_mapping :: "pydict \<Rightarrow> (dev_error, node_selector) result" where
  "selector_from_mapping raw =
     (if \<not> only_keys [''text'', ''resource_id'', ''content_desc''] raw then Inl ManifestError
      else rbind (selector_field (dget raw ''text'')) (\<lambda>t.
        rbind (selector_field (dget raw ''resource_id'')) (\<lambda>r.
        rbind (selector_field (dget raw ''content_desc'')) (\<lambda>c.
          if t = None \<and> r = None \<and> c = None then Inl ManifestError
          else Inr \<lparr>sel_text = t, sel_resource_id = r, sel_content_desc = c\<rparr>))))"

definition replace_comment :: "string option \<Rightarrow> string option \<Rightarrow> (dev_error, string option) result" where
  "replace_comment comment v =
     (if v \<noteq> Some COMMENT_PLACEHOLDER then Inr v
      else if comment = None \<or> comment = Some [] then Inl ManifestError
      else Inr comment)"

definition selector_resolve :: "string option \<Rightarrow> node_selector \<Rightarrow> (dev_error, node_selector) result" where
  "selector_resolve comment sel =
     rbind (replace_comment comment (sel_text sel)) (\<lambda>t.
     rbind (replace_comment comment (sel_resource_id sel)) (\<lambda>r.
     rbind (replace_comment comment (sel_content_desc sel)) (\<lambda>c.
       Inr \<lparr>sel_text = t, sel_resource_id = r, sel_content_desc = c\<rparr>)))"

definition has_placeholder :: "node_selector \<Rightarrow> bool" where
  "has_placeholder sel \<longleftrightarrow>
     Some COMMENT_PLACEHOLDER \<in> {sel_text sel, sel_resource_id sel, sel_content_desc sel}"

section \<open>The manifest\<close>

record action_calibration =
  cal_trigger :: node_selector
  cal_done :: "node_selector list"
  cal_typed :: "node_selector option"
  cal_submit :: "node_selector option"

record target_calibration =
  tc_markers :: "node_selector list"
  tc_author_handle :: string
  tc_follow_markers :: "node_selector list"

record calibration_manifest =
  man_version :: int
  man_package :: string
  man_risk_texts :: "string list"
  man_actions :: "(string \<times> action_calibration) list"
  man_target_markers :: "(string \<times> target_calibration) list"
  man_settle_seconds :: rat

text \<open>A value that has to be an object, or a non-empty list of objects that are selectors.\<close>

fun selector_of :: "pyval \<Rightarrow> (dev_error, node_selector) result" where
  "selector_of (PDict d) = selector_from_mapping d"
| "selector_of _ = Inl ManifestError"

fun selector_list_of :: "pyval \<Rightarrow> (dev_error, node_selector list) result" where
  "selector_list_of (PList vs) = (if vs = [] then Inl ManifestError else rmapM selector_of vs)"
| "selector_list_of _ = Inl ManifestError"

text \<open>\<open>isinstance(v, (int, float))\<close> with \<open>float(v)\<close>: a bool is a number.\<close>

fun num_of :: "pyval \<Rightarrow> rat option" where
  "num_of (PFloat q) = Some q"
| "num_of (PInt i) = Some (of_int i)"
| "num_of (PBool b) = Some (if b then 1 else 0)"
| "num_of _ = None"

fun risk_text_of :: "pyval \<Rightarrow> (dev_error, string) result" where
  "risk_text_of (PStr s) = (if strip s = [] then Inl ManifestError else Inr (strip s))"
| "risk_text_of _ = Inl ManifestError"

fun risk_texts_of :: "pyval \<Rightarrow> (dev_error, string list) result" where
  "risk_texts_of (PList vs) = (if vs = [] then Inl ManifestError else rmapM risk_text_of vs)"
| "risk_texts_of _ = Inl ManifestError"

definition comment_selectors :: "pydict \<Rightarrow> node_selector list \<Rightarrow>
    (dev_error, node_selector \<times> node_selector) result" where
  "comment_selectors action_raw done_sel =
     (if \<not> is_dict (dget action_raw ''typed'') \<or> \<not> is_dict (dget action_raw ''submit'')
      then Inl ManifestError
      else rbind (selector_of (dget action_raw ''typed'')) (\<lambda>typed.
        rbind (selector_of (dget action_raw ''submit'')) (\<lambda>submit.
          if \<not> has_placeholder typed then Inl ManifestError
          else if \<not> list_ex has_placeholder done_sel then Inl ManifestError
          else Inr (typed, submit))))"

definition action_from_mapping :: "string \<Rightarrow> pyval \<Rightarrow> (dev_error, string \<times> action_calibration) result" where
  "action_from_mapping action_name v = (case v of PDict action_raw \<Rightarrow>
     if \<not> only_keys [''trigger'', ''done'', ''typed'', ''submit''] action_raw then Inl ManifestError
     else rbind (selector_of (dget action_raw ''trigger'')) (\<lambda>trigger.
       rbind (selector_list_of (dget action_raw ''done'')) (\<lambda>done_sel.
         if action_name = ''comment'' then
           rbind (comment_selectors action_raw done_sel) (\<lambda>(typed, submit).
             Inr (action_name, \<lparr>cal_trigger = trigger, cal_done = done_sel,
                               cal_typed = Some typed, cal_submit = Some submit\<rparr>))
         else if ''typed'' \<in> fst ` set action_raw \<or> ''submit'' \<in> fst ` set action_raw
           then Inl ManifestError
         else Inr (action_name, \<lparr>cal_trigger = trigger, cal_done = done_sel,
                               cal_typed = None, cal_submit = None\<rparr>)))
   | _ \<Rightarrow> Inl ManifestError)"

text \<open>An exact handle: a string without outer white space, of 1 to 200 characters.\<close>

fun handle_of :: "pyval \<Rightarrow> (dev_error, string) result" where
  "handle_of (PStr s) = (if s = [] \<or> s \<noteq> strip s \<or> py_len s > 200 then Inl ManifestError else Inr s)"
| "handle_of _ = Inl ManifestError"

definition target_from_mapping :: "string \<times> pyval \<Rightarrow> (dev_error, string \<times> target_calibration) result" where
  "target_from_mapping kv = (case kv of (target_hash, v) \<Rightarrow>
     if \<not> TARGET_HASH_RE target_hash then Inl ManifestError
     else (case v of PDict target_raw \<Rightarrow>
       if \<not> only_keys [''markers'', ''author_handle'', ''follow_markers''] target_raw
       then Inl ManifestError
       else rbind (handle_of (dget target_raw ''author_handle'')) (\<lambda>author_handle.
         rbind (selector_list_of (dget target_raw ''markers'')) (\<lambda>markers.
         rbind (selector_list_of (dget target_raw ''follow_markers'')) (\<lambda>follow_markers.
           Inr (target_hash, \<lparr>tc_markers = markers, tc_author_handle = author_handle,
                             tc_follow_markers = follow_markers\<rparr>))))
     | _ \<Rightarrow> Inl ManifestError))"

fun settle_of :: "pyval \<Rightarrow> (dev_error, rat) result" where
  "settle_of v = (case num_of v of None \<Rightarrow> Inl ManifestError
     | Some q \<Rightarrow> if 0 \<le> q \<and> q \<le> 30 then Inr q else Inl ManifestError)"

text \<open>\<open>package not in ALLOWED_DOUYIN_PACKAGES\<close>: an unhashable value raises \<open>TypeError\<close>.\<close>

fun package_of :: "pyval \<Rightarrow> (dev_error, string) result" where
  "package_of (PStr s) = (if s \<in> set ALLOWED_DOUYIN_PACKAGES then Inr s else Inl ManifestError)"
| "package_of v = (if hashable v then Inl ManifestError else Inl (Builtin TypeError))"

fun actions_of :: "pyval \<Rightarrow> (dev_error, (string \<times> action_calibration) list) result" where
  "actions_of (PDict d) =
     (if fst ` set d \<noteq> set SUPPORTED_ACTIONS then Inl ManifestError
      else rmapM (\<lambda>a. action_from_mapping a (dget d a)) SUPPORTED_ACTIONS)"
| "actions_of _ = Inl ManifestError"

fun targets_of :: "pyval \<Rightarrow> (dev_error, (string \<times> target_calibration) list) result" where
  "targets_of (PDict d) = rmapM target_from_mapping d"
| "targets_of _ = Inl ManifestError"

definition manifest_from_mapping :: "pyval \<Rightarrow> (dev_error, calibration_manifest) result" where
  "manifest_from_mapping v = (case v of PDict raw \<Rightarrow>
     if \<not> only_keys [''version'', ''package'', ''risk_texts'', ''actions'', ''target_markers'',
                     ''settle_seconds''] raw then Inl ManifestError
     else if \<not> py_eq (dget raw ''version'') (PInt 1) then Inl ManifestError
     else rbind (package_of (dget raw ''package'')) (\<lambda>package.
       rbind (risk_texts_of (dget raw ''risk_texts'')) (\<lambda>risk_texts.
       rbind (settle_of (dget_default raw ''settle_seconds'' (PFloat 1))) (\<lambda>settle.
       rbind (actions_of (dget raw ''actions'')) (\<lambda>actions.
       rbind (targets_of (dget_default raw ''target_markers'' (PDict []))) (\<lambda>targets.
         Inr \<lparr>man_version = 1, man_package = package,
              man_risk_texts = dedupe (MANDATORY_RISK_TEXTS @ risk_texts),
              man_actions = actions, man_target_markers = targets,
              man_settle_seconds = settle\<rparr>)))))
   | _ \<Rightarrow> Inl ManifestError)"

section \<open>Screens\<close>

record ui_node =
  nd_text :: string
  nd_resource_id :: string
  nd_content_desc :: string
  nd_bounds :: "(int \<times> int \<times> int \<times> int) option"
  nd_enabled :: bool
  nd_clickable :: bool

definition node_matches :: "node_selector \<Rightarrow> ui_node \<Rightarrow> bool" where
  "node_matches sel nd \<longleftrightarrow>
     (sel_text sel = None \<or> sel_text sel = Some (nd_text nd)) \<and>
     (sel_resource_id sel = None \<or> sel_resource_id sel = Some (nd_resource_id nd)) \<and>
     (sel_content_desc sel = None \<or> sel_content_desc sel = Some (nd_content_desc nd))"

definition tap_point :: "ui_node \<Rightarrow> (dev_error, int \<times> int) result" where
  "tap_point nd =
     (if \<not> nd_enabled nd then Inl UiDocumentError
      else if \<not> nd_clickable nd then Inl UiDocumentError
      else case nd_bounds nd of None \<Rightarrow> Inl UiDocumentError
      | Some (lt, tp, rt, bt) \<Rightarrow>
          if rt \<le> lt \<or> bt \<le> tp then Inl UiDocumentError
          else Inr ((lt + rt) div 2, (tp + bt) div 2))"

record ui_snapshot =
  snap_nodes :: "ui_node list"
  snap_xml :: string

datatype xml = Elem (xml_tag: string) (xml_attrib: "(string \<times> string) list") (xml_children: "xml list")

text \<open>\<open>root.iter(tag)\<close>: the element itself and its descendants in document order.\<close>

fun xml_iter :: "string \<Rightarrow> xml \<Rightarrow> xml list" where
  "xml_iter t (Elem g a cs) = (if g = t then [Elem g a cs] else []) @ concat (map (xml_iter t) cs)"

definition attr :: "xml \<Rightarrow> string \<Rightarrow> string \<Rightarrow> string" where
  "attr x k d = (case map_of (xml_attrib x) k of None \<Rightarrow> d | Some v \<Rightarrow> v)"

text \<open>The pieces of \<open>_BOUNDS_RE\<close>: a literal character, and a maximal run of digits.\<close>

fun lit :: "char \<Rightarrow> string \<Rightarrow> string option" where
  "lit c [] = None"
| "lit c (x # s) = (if x = c then Some s else None)"

fun num_run :: "nat \<Rightarrow> string \<Rightarrow> nat \<times> string" where
  "num_run acc [] = (acc, [])"
| "num_run acc (c # s) = (case digit_of c of Some n \<Rightarrow> num_run (10 * acc + n) s | None \<Rightarrow> (acc, c # s))"

definition number :: "string \<Rightarrow> (int \<times> string) option" where
  "number s = (case s of [] \<Rightarrow> None | c # r \<Rightarrow> (case digit_of c of None \<Rightarrow> None
     | Some n \<Rightarrow> (case num_run n r of (v, rest) \<Rightarrow> Some (int v, rest))))"

definition number_pair :: "string \<Rightarrow> ((int \<times> int) \<times> string) option" where
  "number_pair s = Option.bind (lit (CHR ''['') s) (\<lambda>s. Option.bind (number s) (\<lambda>(a, s).
     Option.bind (lit (CHR '','') s) (\<lambda>s. Option.bind (number s) (\<lambda>(b, s).
     Option.bind (lit (CHR '']'') s) (\<lambda>s. Some ((a, b), s))))))"

definition bounds_of :: "string \<Rightarrow> (int \<times> int \<times> int \<times> int) option" where
  "bounds_of s = (case number_pair s of None \<Rightarrow> None
     | Some ((l, t), s) \<Rightarrow> (case number_pair s of Some ((r, b), []) \<Rightarrow> Some (l, t, r, b) | _ \<Rightarrow> None))"

definition MAX_XML_CHARS :: int where
  "MAX_XML_CHARS = 5 * 1024 * 1024"

definition node_of :: "xml \<Rightarrow> ui_node" where
  "node_of x = \<lparr>nd_text = attr x ''text'' [], nd_resource_id = attr x ''resource-id'' [],
     nd_content_desc = attr x ''content-desc'' [], nd_bounds = bounds_of (attr x ''bounds'' []),
     nd_enabled = (lower (attr x ''enabled'' ''false'') = ''true''),
     nd_clickable = (lower (attr x ''clickable'' ''false'') = ''true'')\<rparr>"

definition ui_parse :: "(string \<Rightarrow> xml option) \<Rightarrow> string \<Rightarrow> (dev_error, ui_snapshot) result" where
  "ui_parse xml_of xml =
     (if strip xml = [] then Inl UiDocumentError
      else if int (py_len xml) > MAX_XML_CHARS then Inl UiDocumentError
      else let upper_prefix = map upper_char (py_take 2048 xml) in
        if contains_sub upper_prefix ''<!DOCTYPE'' \<or> contains_sub upper_prefix ''<!ENTITY''
        then Inl UiDocumentError
        else (case xml_of xml of None \<Rightarrow> Inl UiDocumentError
          | Some rt \<Rightarrow>
            if xml_tag rt \<noteq> ''hierarchy'' then Inl UiDocumentError
            else let nodes = map node_of (xml_iter ''node'' rt) in
              if nodes = [] then Inl UiDocumentError
              else Inr \<lparr>snap_nodes = nodes, snap_xml = xml\<rparr>))"

definition matching :: "ui_snapshot \<Rightarrow> node_selector \<Rightarrow> ui_node list" where
  "matching snap sel = filter (node_matches sel) (snap_nodes snap)"

definition unique_node :: "ui_snapshot \<Rightarrow> node_selector \<Rightarrow> (dev_error, ui_node) result" where
  "unique_node snap sel = (case matching snap sel of [nd] \<Rightarrow> Inr nd | _ \<Rightarrow> Inl UiDocumentError)"

definition has_any :: "ui_snapshot \<Rightarrow> node_selector list \<Rightarrow> bool" where
  "has_any snap sels \<longleftrightarrow> list_ex (\<lambda>sel. matching snap sel \<noteq> []) sels"

definition visible_values :: "ui_snapshot \<Rightarrow> string list" where
  "visible_values snap = filter (\<lambda>v. v \<noteq> [])
     (concat (map (\<lambda>nd. [nd_text nd, nd_content_desc nd]) (snap_nodes snap)))"

definition detect_risk :: "ui_snapshot \<Rightarrow> string list \<Rightarrow> string list" where
  "detect_risk snap risk_texts =
     filter (\<lambda>r. list_ex (\<lambda>v. contains_sub v r) (visible_values snap)) risk_texts"

section \<open>What an accepted manifest guarantees\<close>

text \<open>A selector that constrains something, with no empty constraint.\<close>

definition selects :: "node_selector \<Rightarrow> bool" where
  "selects sel \<longleftrightarrow>
     Some [] \<notin> {sel_text sel, sel_resource_id sel, sel_content_desc sel} \<and>
     \<not> (sel_text sel = None \<and> sel_resource_id sel = None \<and> sel_content_desc sel = None)"

definition calibrated :: "string \<Rightarrow> action_calibration \<Rightarrow> bool" where
  "calibrated a cal \<longleftrightarrow> selects (cal_trigger cal) \<and> cal_done cal \<noteq> [] \<and> list_all selects (cal_done cal) \<and>
     (if a = ''comment''
      then (\<exists>t u. cal_typed cal = Some t \<and> cal_submit cal = Some u \<and> selects t \<and> selects u \<and>
              has_placeholder t) \<and> list_ex has_placeholder (cal_done cal)
      else cal_typed cal = None \<and> cal_submit cal = None)"

definition target_calibrated :: "target_calibration \<Rightarrow> bool" where
  "target_calibrated tc \<longleftrightarrow> tc_markers tc \<noteq> [] \<and> list_all selects (tc_markers tc) \<and>
     tc_follow_markers tc \<noteq> [] \<and> list_all selects (tc_follow_markers tc) \<and>
     tc_author_handle tc \<noteq> [] \<and> strip (tc_author_handle tc) = tc_author_handle tc"

lemma selector_field_InrD: "selector_field v = Inr x \<Longrightarrow> x \<noteq> Some []"
  by (cases v) (auto split: if_splits)

lemma selector_from_mapping_selects: "selector_from_mapping d = Inr sel \<Longrightarrow> selects sel"
  by (auto simp: selector_from_mapping_def result_eqs selects_def split: if_splits
      dest: selector_field_InrD)

lemma selector_of_selects: "selector_of v = Inr sel \<Longrightarrow> selects sel"
  by (cases v) (auto intro: selector_from_mapping_selects)

lemma rmapM_all2: "rmapM f xs = Inr ys \<Longrightarrow> list_all2 (\<lambda>x y. f x = Inr y) xs ys"
  by (induction xs arbitrary: ys) (auto simp: result_eqs)

lemma rmapM_list_all:
  assumes "rmapM f xs = Inr ys" and P: "\<And>x y. f x = Inr y \<Longrightarrow> P y"
  shows "list_all P ys"
proof -
  have "list_all2 (\<lambda>x y. f x = Inr y) xs ys" by (rule rmapM_all2 [OF assms(1)])
  then show ?thesis by (induction rule: list_all2_induct) (auto dest: P)
qed

lemma rmapM_keys:
  assumes "rmapM f xs = Inr ys" and P: "\<And>x y. f x = Inr y \<Longrightarrow> fst y = x"
  shows "map fst ys = xs"
proof -
  have "list_all2 (\<lambda>x y. f x = Inr y) xs ys" by (rule rmapM_all2 [OF assms(1)])
  then show ?thesis by (induction rule: list_all2_induct) (auto dest: P)
qed

lemma selector_list_of_selects:
  "selector_list_of v = Inr sels \<Longrightarrow> sels \<noteq> [] \<and> list_all selects sels"
proof (cases v)
  case (PList vs)
  assume "selector_list_of v = Inr sels"
  then have vs: "vs \<noteq> []" and m: "rmapM selector_of vs = Inr sels"
    using PList by (auto split: if_splits)
  have "length sels = length vs" by (rule rmapM_length [OF m])
  with vs have "sels \<noteq> []" by auto
  moreover have "list_all selects sels"
    by (rule rmapM_list_all [OF m]) (rule selector_of_selects)
  ultimately show ?thesis ..
qed auto

lemma action_from_mapping_calibrated:
  "action_from_mapping a v = Inr (b, cal) \<Longrightarrow> b = a \<and> calibrated a cal"
  by (cases v)
     (auto simp: action_from_mapping_def comment_selectors_def calibrated_def result_eqs
       split: if_splits prod.splits dest: selector_of_selects selector_list_of_selects)

lemma handle_of_InrD: "handle_of v = Inr s \<Longrightarrow> s \<noteq> [] \<and> strip s = s"
  by (cases v) (auto split: if_splits)

lemma target_from_mapping_calibrated:
  "target_from_mapping kv = Inr (h, tc) \<Longrightarrow> TARGET_HASH_RE h \<and> target_calibrated tc"
  by (cases kv; cases "snd kv")
     (auto simp: target_from_mapping_def target_calibrated_def result_eqs
       split: if_splits dest: selector_list_of_selects handle_of_InrD)

lemma actions_of_calibrated:
  assumes "actions_of v = Inr acts"
  shows "map fst acts = SUPPORTED_ACTIONS" "list_all (\<lambda>(a, cal). calibrated a cal) acts"
proof -
  from assms obtain d where m: "rmapM (\<lambda>a. action_from_mapping a (dget d a)) SUPPORTED_ACTIONS = Inr acts"
    by (cases v) (auto split: if_splits)
  show "map fst acts = SUPPORTED_ACTIONS"
    by (rule rmapM_keys [OF m]) (metis action_from_mapping_calibrated prod.collapse)
  show "list_all (\<lambda>(a, cal). calibrated a cal) acts"
    by (rule rmapM_list_all [OF m]) (auto dest: action_from_mapping_calibrated)
qed

lemma targets_of_calibrated:
  "targets_of v = Inr tgts \<Longrightarrow> list_all (\<lambda>(h, tc). TARGET_HASH_RE h \<and> target_calibrated tc) tgts"
  by (cases v) (auto elim!: rmapM_list_all dest: target_from_mapping_calibrated)

lemma manifest_from_mapping_cases:
  assumes "manifest_from_mapping v = Inr m"
  obtains raw pk risks st acts tgts where "v = PDict raw"
    "package_of (dget raw ''package'') = Inr pk" "risk_texts_of (dget raw ''risk_texts'') = Inr risks"
    "settle_of (dget_default raw ''settle_seconds'' (PFloat 1)) = Inr st"
    "actions_of (dget raw ''actions'') = Inr acts"
    "targets_of (dget_default raw ''target_markers'' (PDict [])) = Inr tgts"
    "m = \<lparr>man_version = 1, man_package = pk, man_risk_texts = dedupe (MANDATORY_RISK_TEXTS @ risks),
          man_actions = acts, man_target_markers = tgts, man_settle_seconds = st\<rparr>"
  using assms by (cases v) (auto simp: manifest_from_mapping_def result_eqs split: if_splits)

lemma manifest_action_lookup:
  assumes "manifest_from_mapping v = Inr m" "a \<in> set SUPPORTED_ACTIONS"
  obtains cal where "map_of (man_actions m) a = Some cal" "calibrated a cal"
proof -
  from assms(1) obtain w where a: "actions_of w = Inr (man_actions m)"
    by (auto elim: manifest_from_mapping_cases)
  note c = actions_of_calibrated [OF a]
  have "a \<in> fst ` set (man_actions m)"
    using assms(2) c(1) by (metis list.set_map)
  then obtain cal where l: "map_of (man_actions m) a = Some cal"
    by (metis map_of_eq_None_iff option.exhaust)
  then have "calibrated a cal" using c(2) map_of_SomeD by (fastforce simp: list_all_iff)
  with l show ?thesis by (rule that)
qed

lemma manifest_mandatory_risks:
  "manifest_from_mapping v = Inr m \<Longrightarrow> set MANDATORY_RISK_TEXTS \<subseteq> set (man_risk_texts m)"
  by (auto elim!: manifest_from_mapping_cases)

lemma manifest_targets:
  "manifest_from_mapping v = Inr m \<Longrightarrow> (h, tc) \<in> set (man_target_markers m) \<Longrightarrow>
     TARGET_HASH_RE h \<and> target_calibrated tc"
  by (auto elim!: manifest_from_mapping_cases dest!: targets_of_calibrated simp: list_all_iff)

lemma package_of_InrD: "package_of v = Inr s \<Longrightarrow> s \<in> set ALLOWED_DOUYIN_PACKAGES"
  by (cases v) (auto split: if_splits)

text \<open>A resolved selector no longer mentions the placeholder but the comment itself.\<close>

lemma selector_resolve_exact:
  assumes "selector_resolve (Some c) sel = Inr sel'" "has_placeholder sel" "node_matches sel' nd"
  shows "c \<in> {nd_text nd, nd_resource_id nd, nd_content_desc nd}"
  using assms
  by (auto simp: selector_resolve_def replace_comment_def has_placeholder_def node_matches_def
      result_eqs split: if_splits)

lemma unique_node_InrD: "unique_node snap sel = Inr nd \<Longrightarrow> matching snap sel = [nd]"
  by (auto simp: unique_node_def split: list.splits)

text \<open>No risk detected: no visible text of the screen contains any of the risk texts.\<close>

lemma detect_risk_Nil:
  "detect_risk snap rs = [] \<longleftrightarrow>
     (\<forall>r \<in> set rs. \<forall>nd \<in> set (snap_nodes snap). \<forall>v \<in> {nd_text nd, nd_content_desc nd}.
        v \<noteq> [] \<longrightarrow> \<not> contains_sub v r)"
  by (auto simp: detect_risk_def visible_values_def filter_empty_conv list_ex_iff)

text \<open>
  The tap point of a node is inside its bounds, whatever the node; only an enabled,
  clickable node with a non-empty rectangle has one.
\<close>

lemma tap_point_inside:
  "tap_point nd = Inr (x, y) \<Longrightarrow> nd_enabled nd \<and> nd_clickable nd \<and>
     (\<exists>l t r b. nd_bounds nd = Some (l, t, r, b) \<and> l \<le> x \<and> x < r \<and> t \<le> y \<and> y < b)"
  by (auto simp: tap_point_def split: if_splits option.splits)

section \<open>A concrete manifest\<close>

definition demo_selector :: "string \<Rightarrow> pyval" where
  "demo_selector t = PDict [(''text'', PStr t)]"

definition demo_action :: "string \<Rightarrow> string \<Rightarrow> pyval" where
  "demo_action t d = PDict [(''trigger'', demo_selector t), (''done'', PList [demo_selector d])]"

definition demo_manifest_json :: pyval where
  "demo_manifest_json = PDict
     [(''version'', PInt 1), (''package'', PStr ''com.ss.android.ugc.aweme''),
      (''risk_texts'', PList [PStr '' captcha '']), (''settle_seconds'', PInt 2),
      (''actions'', PDict
        [(''like'', demo_action ''Like'' ''Liked''), (''follow'', demo_action ''Follow'' ''Following''),
         (''favorite'', demo_action ''Save'' ''Saved''),
         (''comment'', PDict [(''trigger'', demo_selector ''Say''),
            (''done'', PList [demo_selector ''$comment'']), (''typed'', demo_selector ''$comment''),
            (''submit'', demo_selector ''Send'')])]),
      (''target_markers'', PDict [(replicate 64 (CHR ''a''),
         PDict [(''markers'', PList [demo_selector ''Page'']), (''author_handle'', PStr ''@bob''),
                (''follow_markers'', PList [demo_selector ''@bob''])])])]"

definition demo_sel :: "string \<Rightarrow> node_selector" where
  "demo_sel t = \<lparr>sel_text = Some t, sel_resource_id = None, sel_content_desc = None\<rparr>"

definition demo_cal :: "string \<Rightarrow> string \<Rightarrow> action_calibration" where
  "demo_cal t d = \<lparr>cal_trigger = demo_sel t, cal_done = [demo_sel d], cal_typed = None, cal_submit = None\<rparr>"

definition demo_manifest :: calibration_manifest where
  "demo_manifest = \<lparr>man_version = 1, man_package = ''com.ss.android.ugc.aweme'',
     man_risk_texts = MANDATORY_RISK_TEXTS @ [''captcha''],
     man_actions = [(''comment'', \<lparr>cal_trigger = demo_sel ''Say'', cal_done = [demo_sel ''$comment''],
                       cal_typed = Some (demo_sel ''$comment''), cal_submit = Some (demo_sel ''Send'')\<rparr>),
       (''favorite'', demo_cal ''Save'' ''Saved''), (''follow'', demo_cal ''Follow'' ''Following''),
       (''like'', demo_cal ''Like'' ''Liked'')],
     man_target_markers = [(replicate 64 (CHR ''a''), \<lparr>tc_markers = [demo_sel ''Page''],
        tc_author_handle = ''@bob'', tc_follow_markers = [demo_sel ''@bob'']\<rparr>)],
     man_settle_seconds = 2\<rparr>"

lemma demo_manifest_accepted: "manifest_from_mapping demo_manifest_json = Inr demo_manifest"
  by code_simp

text \<open>
  C33. Every accepted calibration manifest is fail-closed: it is bound to the one supported
  package, always looks for all mandatory risk texts whatever the file lists, calibrates each of
  the four actions with a trigger and at least one done marker that really constrain the screen
  (a comment also with a typed read-back and a submit button), and every target is keyed by a
  64-digit hash and has non-empty identity and follow markers and an exact author handle.
\<close>

theorem accepted_manifest_is_fail_closed:
  assumes "manifest_from_mapping v = Inr m"
  shows "man_package m \<in> set ALLOWED_DOUYIN_PACKAGES \<and>
    set MANDATORY_RISK_TEXTS \<subseteq> set (man_risk_texts m) \<and>
    (\<forall>a \<in> set SUPPORTED_ACTIONS. \<exists>cal. map_of (man_actions m) a = Some cal \<and> calibrated a cal) \<and>
    (\<forall>(h, tc) \<in> set (man_target_markers m). TARGET_HASH_RE h \<and> target_calibrated tc)"
proof (intro conjI ballI)
  show "man_package m \<in> set ALLOWED_DOUYIN_PACKAGES"
    using assms by (auto elim!: manifest_from_mapping_cases dest: package_of_InrD)
  show "set MANDATORY_RISK_TEXTS \<subseteq> set (man_risk_texts m)"
    by (rule manifest_mandatory_risks [OF assms])
  show "\<exists>cal. map_of (man_actions m) a = Some cal \<and> calibrated a cal" if "a \<in> set SUPPORTED_ACTIONS" for a
    using manifest_action_lookup [OF assms that] by blast
  show "case htc of (h, tc) \<Rightarrow> TARGET_HASH_RE h \<and> target_calibrated tc"
    if "htc \<in> set (man_target_markers m)" for htc
    using manifest_targets [OF assms] that by (cases htc) simp
qed

theorem accepted_manifest_is_fail_closed_witness:
  "set MANDATORY_RISK_TEXTS \<subseteq> set (man_risk_texts demo_manifest) \<and>
   (\<exists>cal. map_of (man_actions demo_manifest) ''comment'' = Some cal \<and> calibrated ''comment'' cal)"
  using accepted_manifest_is_fail_closed [OF demo_manifest_accepted]
  by (simp add: SUPPORTED_ACTIONS_def)

end
