(* ===== verification/DeviceLimiter.thy ===== *)
theory DeviceLimiter
  imports DeviceUi
begin

text \<open>
  The device agent's persistent rate limiter (\<open>src/device_agent/guard.py\<close>): the policy, the
  state file and its fail-closed decoding, the admission check, and the two records an action
  leaves (a mutation, a cooldown). The clock reading an operation uses is its argument \<open>now\<close>; times
  are exact rationals. A run of the limiter is a step relation with the history of all recorded
  mutations as ghost state.
\<close>

section \<open>Policy and decision\<close>

record rate_policy =
  min_interval_seconds :: rat
  max_actions_per_hour :: int
  unknown_cooldown_seconds :: rat
  blocked_cooldown_seconds :: rat

definition rate_policy_ok :: "rate_policy \<Rightarrow> (py_error, rate_policy) result" where
  "rate_policy_ok p =
     (if min_interval_seconds p < 0 then Inl ValueError
      else if max_actions_per_hour p \<le> 0 then Inl ValueError
      else if unknown_cooldown_seconds p < 0 \<or> blocked_cooldown_seconds p < 0 then Inl ValueError
      else Inr p)"

definition default_rate_policy :: rate_policy where
  "default_rate_policy = \<lparr>min_interval_seconds = 30, max_actions_per_hour = 20,
     unknown_cooldown_seconds = 300, blocked_cooldown_seconds = 900\<rparr>"

record rate_decision =
  rd_allowed :: bool
  rd_reason :: "string option"
  rd_retry_after :: rat

section \<open>The state file\<close>

text \<open>
  What the path holds: nothing, bytes that cannot be read or decoded, or a decoded JSON value.
\<close>

datatype rate_file = NoFile | Unreadable | Json pyval

record limiter_state =
  action_times :: "rat list"
  cooldown_until :: rat

fun times_of :: "pyval list \<Rightarrow> rat list option" where
  "times_of [] = Some []"
| "times_of (v # vs) = (case (num_of v, times_of vs) of (Some q, Some qs) \<Rightarrow> Some (q # qs) | _ \<Rightarrow> None)"

definition load_values :: "pydict \<Rightarrow> (dev_error, limiter_state) result" where
  "load_values raw = (case (dget raw ''action_times'', num_of (dget raw ''cooldown_until'')) of
     (PList vs, Some c) \<Rightarrow> (case times_of vs of
        Some qs \<Rightarrow> Inr \<lparr>action_times = qs, cooldown_until = c\<rparr> | None \<Rightarrow> Inl RateLimitStateError)
   | _ \<Rightarrow> Inl RateLimitStateError)"

fun limiter_load :: "rate_file \<Rightarrow> (dev_error, limiter_state) result" where
  "limiter_load NoFile = Inr \<lparr>action_times = [], cooldown_until = 0\<rparr>"
| "limiter_load Unreadable = Inl RateLimitStateError"
| "limiter_load (Json (PDict raw)) =
     (if \<not> py_eq (dget raw ''version'') (PInt 1) then Inl RateLimitStateError else load_values raw)"
| "limiter_load (Json _) = Inl RateLimitStateError"

text \<open>\<open>_save\<close>: the file is replaced as a whole by the encoded state.\<close>

definition limiter_save :: "limiter_state \<Rightarrow> rate_file" where
  "limiter_save st = Json (PDict [(''action_times'', PList (map PFloat (action_times st))),
     (''cooldown_until'', PFloat (cooldown_until st)), (''version'', PInt 1)])"

section \<open>Operations\<close>

definition recent_times :: "rat \<Rightarrow> rat list \<Rightarrow> rat list" where
  "recent_times now ts = filter (\<lambda>v. now - v < 3600) ts"

definition rate_check :: "rate_policy \<Rightarrow> rat \<Rightarrow> rate_file \<Rightarrow> (dev_error, rate_decision) result" where
  "rate_check pol now file = rbind (limiter_load file) (\<lambda>st.
     if cooldown_until st > now then
       Inr \<lparr>rd_allowed = False, rd_reason = Some ''cooldown_active'',
            rd_retry_after = cooldown_until st - now\<rparr>
     else let recent = sort (recent_times now (action_times st)) in
       if int (length recent) \<ge> max_actions_per_hour pol then
         (if recent = [] then Inl IndexErr
          else Inr \<lparr>rd_allowed = False, rd_reason = Some ''hourly_rate_limit'',
            rd_retry_after = max 0 (3600 - (now - hd recent))\<rparr>)
       else if recent \<noteq> [] \<and> now - last recent < min_interval_seconds pol then
         Inr \<lparr>rd_allowed = False, rd_reason = Some ''minimum_interval'',
            rd_retry_after = min_interval_seconds pol - (now - last recent)\<rparr>
       else Inr \<lparr>rd_allowed = True, rd_reason = None, rd_retry_after = 0\<rparr>)"

definition record_mutation :: "rat \<Rightarrow> rate_file \<Rightarrow> (dev_error, limiter_state) result" where
  "record_mutation now file = rmap
     (\<lambda>st. st\<lparr>action_times := recent_times now (action_times st) @ [now]\<rparr>) (limiter_load file)"

definition record_cooldown :: "rate_policy \<Rightarrow> bool \<Rightarrow> rat \<Rightarrow> rate_file \<Rightarrow> (dev_error, limiter_state) result" where
  "record_cooldown pol blocked now file = rmap
     (\<lambda>st. st\<lparr>cooldown_until := max (cooldown_until st)
        (now + (if blocked then blocked_cooldown_seconds pol else unknown_cooldown_seconds pol))\<rparr>)
     (limiter_load file)"

section \<open>The file round-trips, and a damaged file stops everything\<close>

lemma times_of_PFloat [simp]: "times_of (map PFloat qs) = Some qs"
  by (induction qs) auto

lemma load_save [simp]: "limiter_load (limiter_save st) = Inr st"
  by (simp add: limiter_save_def load_values_def)

lemma load_error: "limiter_load file = Inl e \<Longrightarrow> e = RateLimitStateError"
  by (cases "file" rule: limiter_load.cases)
     (auto simp: load_values_def split: if_splits pyval.splits option.splits)

lemma sort_eq_Nil [simp]: "sort xs = [] \<longleftrightarrow> xs = []"
  by (metis length_0_conv length_sort)

lemma rate_check_error:
  "max_actions_per_hour pol > 0 \<Longrightarrow> rate_check pol now file = Inl e \<Longrightarrow> limiter_load file = Inl e"
  by (cases "limiter_load file") (auto simp: rate_check_def Let_def split: if_splits)

lemma rate_check_allowedD:
  assumes "rate_check pol now file = Inr d" "rd_allowed d"
  obtains st where "limiter_load file = Inr st" "cooldown_until st \<le> now"
    "int (length (recent_times now (action_times st))) < max_actions_per_hour pol"
    "\<And>v. v \<in> set (recent_times now (action_times st)) \<Longrightarrow> v + min_interval_seconds pol \<le> now"
proof -
  from assms obtain st where st: "limiter_load file = Inr st" and c: "cooldown_until st \<le> now"
    and n: "int (length (recent_times now (action_times st))) < max_actions_per_hour pol"
    and l: "recent_times now (action_times st) \<noteq> [] \<Longrightarrow>
      min_interval_seconds pol \<le> now - last (sort (recent_times now (action_times st)))"
    by (auto simp: rate_check_def Let_def result_eqs split: if_splits)
  have "v + min_interval_seconds pol \<le> now" if v: "v \<in> set (recent_times now (action_times st))" for v
  proof -
    let ?xs = "sort (recent_times now (action_times st))"
    have ne: "?xs \<noteq> []" using v by auto
    have "v \<in> set ?xs" using v by simp
    then have "v \<le> last ?xs"
      using ne sorted_sort [of "recent_times now (action_times st)"]
      by (metis sorted_append append_butlast_last_id in_set_conv_decomp order_refl set_ConsD
          list.set_intros(1) Un_iff set_append empty_iff list.set(1))
    moreover have "recent_times now (action_times st) \<noteq> []" using v by force
    then have "min_interval_seconds pol \<le> now - last ?xs" by (rule l)
    ultimately show ?thesis by simp
  qed
  with st c n show ?thesis by (rule that)
qed

section \<open>The cooldown contract\<close>

text \<open>
  What the engine relies on: once a cooldown is recorded, no operation shortens it, and no action
  is admitted before it ends. \<open>until s\<close> is the end of the cooldown the state \<open>s\<close> holds.
\<close>

locale admission =
  fixes check :: "rat \<Rightarrow> 's \<Rightarrow> ('e, rate_decision) result"
    and mutate :: "rat \<Rightarrow> 's \<Rightarrow> ('e, 's) result"
    and cool :: "bool \<Rightarrow> rat \<Rightarrow> 's \<Rightarrow> ('e, 's) result"
    and until :: "'s \<Rightarrow> rat option"
    and span :: "bool \<Rightarrow> rat"
  assumes check_until: "until s = Some u \<Longrightarrow> t < u \<Longrightarrow> check t s = Inr d \<Longrightarrow> \<not> rd_allowed d"
    and mutate_until: "mutate t s = Inr s' \<Longrightarrow> until s' = until s \<and> until s \<noteq> None"
    and cool_until: "cool b t s = Inr s' \<Longrightarrow>
      \<exists>u. until s = Some u \<and> until s' = Some (max u (t + span b))"
begin

text \<open>The states later operations can lead to.\<close>

inductive later :: "'s \<Rightarrow> 's \<Rightarrow> bool" where
  later_refl: "later s s"
| later_mutate: "later s s' \<Longrightarrow> mutate t s' = Inr s'' \<Longrightarrow> later s s''"
| later_cool: "later s s' \<Longrightarrow> cool b t s' = Inr s'' \<Longrightarrow> later s s''"

lemma until_grows: "later s s' \<Longrightarrow> until s = Some u \<Longrightarrow> \<exists>u'. until s' = Some u' \<and> u \<le> u'"
proof (induction rule: later.induct)
  case (later_mutate s s' t s'')
  then show ?case using mutate_until [OF later_mutate(2)] by simp
next
  case (later_cool s s' b t s'')
  then show ?case using cool_until [OF later_cool(2)] by fastforce
qed simp

lemma cooled_refuses:
  assumes "cool b t s = Inr s1" "later s1 s2" "t' < t + span b" "check t' s2 = Inr d"
  shows "\<not> rd_allowed d"
proof -
  from cool_until [OF assms(1)] obtain u where u: "until s1 = Some (max u (t + span b))" by blast
  from until_grows [OF assms(2) u] obtain u' where u': "until s2 = Some u'" "max u (t + span b) \<le> u'" by blast
  then have "t' < u'" using assms(3) by simp
  then show ?thesis using check_until [OF u'(1)] assms(4) by blast
qed

end

definition limiter_until :: "rate_file \<Rightarrow> rat option" where
  "limiter_until file = (case limiter_load file of Inl _ \<Rightarrow> None | Inr st \<Rightarrow> Some (cooldown_until st))"

definition cooldown_span :: "rate_policy \<Rightarrow> bool \<Rightarrow> rat" where
  "cooldown_span pol blocked = (if blocked then blocked_cooldown_seconds pol else unknown_cooldown_seconds pol)"

interpretation device_limiter: admission
  "rate_check pol" "\<lambda>t f. rmap limiter_save (record_mutation t f)"
  "\<lambda>b t f. rmap limiter_save (record_cooldown pol b t f)" limiter_until "cooldown_span pol"
  for pol
proof
  show "\<not> rd_allowed d" if "limiter_until s = Some u" "t < u" "rate_check pol t s = Inr d" for s u t d
    using that by (auto simp: limiter_until_def rate_check_def split: sum.splits if_splits)
  show "limiter_until s' = limiter_until s \<and> limiter_until s \<noteq> None"
    if "rmap limiter_save (record_mutation t s) = Inr s'" for t s s'
    using that by (auto simp: limiter_until_def record_mutation_def result_eqs)
  show "\<exists>u. limiter_until s = Some u \<and> limiter_until s' = Some (max u (t + cooldown_span pol b))"
    if "rmap limiter_save (record_cooldown pol b t s) = Inr s'" for b t s s'
    using that by (auto simp: limiter_until_def record_cooldown_def cooldown_span_def result_eqs)
qed

section \<open>Runs of the limiter\<close>

text \<open>
  \<open>lm_history\<close> is every mutation ever recorded, oldest first: the file forgets those older than
  an hour. The account lock makes each action's check and record one step; the clock may advance
  between them and between steps.
\<close>

record limiter_run =
  lm_file :: rate_file
  lm_now :: rat
  lm_history :: "rat list"

datatype limiter_event = Pass rat | Act rat | Cool bool

definition limiter_init :: "limiter_run \<Rightarrow> bool" where
  "limiter_init s \<longleftrightarrow> lm_file s = NoFile \<and> lm_history s = []"

inductive limiter_step :: "rate_policy \<Rightarrow> limiter_run \<Rightarrow> limiter_event \<Rightarrow> limiter_run \<Rightarrow> bool"
  for pol :: rate_policy where
  pass: "lm_now s \<le> t \<Longrightarrow> limiter_step pol s (Pass t) (s\<lparr>lm_now := t\<rparr>)"
| act: "rate_check pol (lm_now s) (lm_file s) = Inr d \<Longrightarrow> rd_allowed d \<Longrightarrow> lm_now s \<le> t \<Longrightarrow>
    record_mutation t (lm_file s) = Inr st \<Longrightarrow>
    limiter_step pol s (Act t) (s\<lparr>lm_file := limiter_save st, lm_now := t, lm_history := lm_history s @ [t]\<rparr>)"
| cool: "record_cooldown pol b (lm_now s) (lm_file s) = Inr st \<Longrightarrow>
    limiter_step pol s (Cool b) (s\<lparr>lm_file := limiter_save st\<rparr>)"

inductive_cases limiter_passE: "limiter_step pol s (Pass t) s'"
inductive_cases limiter_actE: "limiter_step pol s (Act t) s'"
inductive_cases limiter_coolE: "limiter_step pol s (Cool b) s'"

definition window_count :: "rat \<Rightarrow> rat list \<Rightarrow> nat" where
  "window_count t hs = length (filter (\<lambda>v. t - 3600 < v \<and> v \<le> t) hs)"

definition spaced :: "rate_policy \<Rightarrow> rat list \<Rightarrow> bool" where
  "spaced pol hs \<longleftrightarrow> successively (\<lambda>a b. a + min (min_interval_seconds pol) 3600 \<le> b) hs"

definition limiter_inv :: "rate_policy \<Rightarrow> limiter_run \<Rightarrow> bool" where
  "limiter_inv pol s \<longleftrightarrow> (\<exists>st. limiter_load (lm_file s) = Inr st \<and>
      recent_times (lm_now s) (action_times st) = recent_times (lm_now s) (lm_history s)) \<and>
    (\<forall>v \<in> set (lm_history s). v \<le> lm_now s) \<and>
    (\<forall>t. int (window_count t (lm_history s)) \<le> max_actions_per_hour pol) \<and>
    spaced pol (lm_history s)"

lemma recent_times_later:
  "now \<le> now' \<Longrightarrow> recent_times now' (recent_times now ts) = recent_times now' ts"
  unfolding recent_times_def filter_filter by (rule filter_cong) auto

lemma recent_eq_later:
  "recent_times now ts = recent_times now hs \<Longrightarrow> now \<le> now' \<Longrightarrow> recent_times now' ts = recent_times now' hs"
  by (metis recent_times_later)

lemma window_le_recent: "c \<le> t \<Longrightarrow> window_count t hs \<le> length (recent_times c hs)"
  unfolding window_count_def recent_times_def
  by (induction hs) auto

lemma spaced_snoc:
  "spaced pol hs \<Longrightarrow> (hs \<noteq> [] \<Longrightarrow> last hs + min (min_interval_seconds pol) 3600 \<le> t) \<Longrightarrow> spaced pol (hs @ [t])"
  by (auto simp: spaced_def successively_append_iff)

lemma limiter_act_inv:
  assumes inv: "limiter_inv pol s" and chk: "rate_check pol (lm_now s) (lm_file s) = Inr d" "rd_allowed d"
    and t: "lm_now s \<le> t" and rec: "record_mutation t (lm_file s) = Inr st'"
  shows "limiter_inv pol (s\<lparr>lm_file := limiter_save st', lm_now := t, lm_history := lm_history s @ [t]\<rparr>)"
proof -
  let ?H = "lm_history s" and ?c = "lm_now s"
  from inv obtain st where st: "limiter_load (lm_file s) = Inr st"
    and rt: "recent_times ?c (action_times st) = recent_times ?c ?H"
    and le: "\<And>v. v \<in> set ?H \<Longrightarrow> v \<le> ?c" and win: "\<And>t. int (window_count t ?H) \<le> max_actions_per_hour pol"
    and sp: "spaced pol ?H"
    by (auto simp: limiter_inv_def)
  from chk obtain n: "int (length (recent_times ?c ?H)) < max_actions_per_hour pol"
    and l: "\<And>v. v \<in> set (recent_times ?c ?H) \<Longrightarrow> v + min_interval_seconds pol \<le> ?c"
    using st rt by (auto elim!: rate_check_allowedD)
  have newfile: "action_times st' = recent_times t (action_times st) @ [t]"
    using rec st by (auto simp: record_mutation_def)
  have "recent_times t (action_times st') = recent_times t (?H @ [t])"
    using recent_eq_later [OF rt t] by (simp add: newfile) (simp add: recent_times_def)
  moreover have "int (window_count u (?H @ [t])) \<le> max_actions_per_hour pol" for u
  proof (cases "t \<le> u")
    case True
    have "window_count u (?H @ [t]) \<le> Suc (window_count u ?H)" by (simp add: window_count_def)
    also have "\<dots> \<le> Suc (length (recent_times ?c ?H))" using window_le_recent [of ?c u] t True by simp
    finally show ?thesis using n by linarith
  next
    case False
    then have "window_count u (?H @ [t]) = window_count u ?H" by (simp add: window_count_def)
    then show ?thesis using win by simp
  qed
  moreover have "last ?H + min (min_interval_seconds pol) 3600 \<le> t" if "?H \<noteq> []"
  proof (cases "last ?H \<in> set (recent_times ?c ?H)")
    case True
    then have "last ?H + min_interval_seconds pol \<le> ?c" by (rule l)
    then show ?thesis using t by (auto simp: min_def)
  next
    case False
    then have "last ?H + 3600 \<le> ?c" using that by (auto simp: recent_times_def)
    then show ?thesis using t by (auto simp: min_def)
  qed
  then have "spaced pol (?H @ [t])" using sp by (rule spaced_snoc [rotated])
  ultimately show ?thesis using le t by (auto simp: limiter_inv_def intro: order_trans)
qed

lemma limiter_inv_init: "max_actions_per_hour pol > 0 \<Longrightarrow> limiter_init s \<Longrightarrow> limiter_inv pol s"
  by (simp add: limiter_init_def limiter_inv_def window_count_def spaced_def)

lemma limiter_inv_step:
  assumes "limiter_inv pol s" "limiter_step pol s ev s'"
  shows "limiter_inv pol s'"
  using assms(2)
proof cases
  case (pass t)
  then show ?thesis using assms(1)
    by (auto simp: limiter_inv_def intro: recent_eq_later order_trans)
next
  case (act d t st)
  then show ?thesis using limiter_act_inv [OF assms(1)] by blast
next
  case (cool b st)
  then show ?thesis using assms(1) by (auto simp: limiter_inv_def record_cooldown_def result_eqs)
qed

text \<open>The limiter under a policy the constructor accepts.\<close>

definition limiter_start :: "rate_policy \<Rightarrow> limiter_run \<Rightarrow> bool" where
  "limiter_start pol s \<longleftrightarrow> rate_policy_ok pol = Inr pol \<and> limiter_init s"

interpretation limiter_runs: invariant_system "limiter_start pol" "limiter_step pol" "limiter_inv pol" for pol
proof
  show "limiter_inv pol s" if "limiter_start pol s" for s
    using that by (auto simp: limiter_start_def rate_policy_ok_def intro: limiter_inv_init split: if_splits)
  show "limiter_inv pol t" if "limiter_inv pol s" "limiter_step pol s e t" for s e t
    using that by (rule limiter_inv_step)
qed

section \<open>Properties\<close>

text \<open>
  C32. Rate limit of a device account. Along every run of the limiter from an empty state (actions,
  cooldowns and the passing of time in any order, under an accepted policy) no window of 3600
  seconds contains more than \<open>max_actions_per_hour\<close> recorded mutations, and two successive ones
  are at least the minimum interval apart, up to an hour: the limiter looks back one hour only, so a
  longer minimum interval is enforced as one hour.
\<close>

theorem device_rate_is_capped:
  assumes "reachable (limiter_start pol) (limiter_step pol) s"
  shows "(\<forall>t. int (window_count t (lm_history s)) \<le> max_actions_per_hour pol) \<and> spaced pol (lm_history s)"
  using limiter_runs.inv_reachable [OF assms] by (simp add: limiter_inv_def)

definition demo_policy :: rate_policy where
  "demo_policy = \<lparr>min_interval_seconds = 30, max_actions_per_hour = 1,
     unknown_cooldown_seconds = 300, blocked_cooldown_seconds = 900\<rparr>"

definition demo_run0 :: limiter_run where
  "demo_run0 = \<lparr>lm_file = NoFile, lm_now = 100, lm_history = []\<rparr>"

definition demo_run1 :: limiter_run where
  "demo_run1 = \<lparr>lm_file = limiter_save \<lparr>action_times = [101], cooldown_until = 0\<rparr>, lm_now = 101,
     lm_history = [101]\<rparr>"

lemma demo_run1_reachable: "reachable (limiter_start demo_policy) (limiter_step demo_policy) demo_run1"
proof (rule reach_step)
  show "reachable (limiter_start demo_policy) (limiter_step demo_policy) demo_run0"
    by (rule reach_init) code_simp
  show "limiter_step demo_policy demo_run0 (Act 101) demo_run1"
    using limiter_step.act [of demo_policy demo_run0
        "\<lparr>rd_allowed = True, rd_reason = None, rd_retry_after = 0\<rparr>" 101
        "\<lparr>action_times = [101], cooldown_until = 0\<rparr>"]
    by (simp add: rate_check_def record_mutation_def recent_times_def demo_policy_def
        demo_run0_def demo_run1_def)
qed

theorem device_rate_is_capped_witness:
  "window_count 101 (lm_history demo_run1) \<le> 1"
  using device_rate_is_capped [OF demo_run1_reachable] by (simp add: demo_policy_def)

text \<open>
  A recorded cooldown holds: whatever is recorded after it, no action is admitted before the
  cooldown's duration has passed.
\<close>

lemma cooldown_is_kept:
  assumes "record_cooldown pol blocked now file = Inr st" "t < now + cooldown_span pol blocked"
    and "device_limiter.later pol (limiter_save st) file'" "rate_check pol t file' = Inr d"
  shows "\<not> rd_allowed d"
  using device_limiter.cooled_refuses [of pol blocked now "file" "limiter_save st" file' t d] assms by simp

text \<open>
  The one-hour horizon: with a minimum interval of two hours an action is admitted one hour
  after the previous one.
\<close>

lemma long_interval_is_not_enforced:
  "rate_policy_ok (demo_policy\<lparr>min_interval_seconds := 7200\<rparr>) = Inr (demo_policy\<lparr>min_interval_seconds := 7200\<rparr>) \<and>
   rmap rd_allowed (rate_check (demo_policy\<lparr>min_interval_seconds := 7200\<rparr>) 3700
     (limiter_save \<lparr>action_times = [100], cooldown_until = 0\<rparr>)) = Inr True"
  by (simp add: rate_policy_ok_def demo_policy_def rate_check_def recent_times_def)

end
