(* ===== verification/DeviceEngine.thy ===== *)
theory DeviceEngine
  imports DeviceLimiter
begin

text \<open>
  The device agent's ADB transport and action engine (\<open>src/device_agent/adb.py\<close> and
  \<open>engine.py\<close>). Everything outside the process is the environment \<open>device_env\<close>: what the
  n-th interaction returns (an ADB command, a clock reading, a write of the limiter file, a lock
  operation) and the XML parser. The state records the interactions made: \<open>ag_tick\<close> counts them,
  \<open>ag_log\<close> lists the ADB commands with the output of those that completed, and \<open>ag_file\<close> is the
  limiter's file. \<open>ag_mutation\<close> and \<open>ag_before\<close> are the two local variables of
  \<open>_execute_locked\<close> its \<open>except\<close> clause reads.
\<close>

section \<open>Environment, state and effects\<close>

datatype adb_cmd = DumpWindows | DumpUi | CatDump | Tap int int | InputText string

datatype run_outcome = TimedOut | LaunchFailed | Exited int string string

text \<open>The end of \<open>AccountFileLock.acquire\<close>: taken, \<open>AccountLockError\<close> at the deadline, or an \<open>OSError\<close>.\<close>

datatype lock_outcome = Acquired | LockHeld | LockOSError string

record device_env =
  e_run :: "nat \<Rightarrow> adb_cmd \<Rightarrow> run_outcome"
  e_clock :: "nat \<Rightarrow> rat"
  e_mono :: "nat \<Rightarrow> rat"
  e_save :: "nat \<Rightarrow> string option"
  e_lock :: "nat \<Rightarrow> lock_outcome"
  e_unlock :: "nat \<Rightarrow> string option"
  e_xml :: "string \<Rightarrow> xml option"

record agent =
  ag_tick :: nat
  ag_log :: "(adb_cmd \<times> string option) list"
  ag_file :: rate_file
  ag_mutation :: bool
  ag_before :: "bool option"

type_synonym 'a dev = "agent \<Rightarrow> (dev_error, 'a) result \<times> agent"

definition dret :: "'a \<Rightarrow> 'a dev" where
  "dret x s = (Inr x, s)"

definition dlift :: "(dev_error, 'a) result \<Rightarrow> 'a dev" where
  "dlift r s = (r, s)"

definition dbind :: "'a dev \<Rightarrow> ('a \<Rightarrow> 'b dev) \<Rightarrow> 'b dev" where
  "dbind m f s = (case m s of (Inl e, s') \<Rightarrow> (Inl e, s') | (Inr x, s') \<Rightarrow> f x s')"

text \<open>\<open>try: m except caught as exc: h exc\<close>.\<close>

definition dtry :: "'a dev \<Rightarrow> (dev_error \<Rightarrow> bool) \<Rightarrow> (dev_error \<Rightarrow> 'a dev) \<Rightarrow> 'a dev" where
  "dtry m caught h s = (case m s of (Inl e, s') \<Rightarrow> (if caught e then h e s' else (Inl e, s')) | r \<Rightarrow> r)"

definition tick :: "(nat \<Rightarrow> 'a) \<Rightarrow> 'a dev" where
  "tick f s = (Inr (f (ag_tick s)), s\<lparr>ag_tick := ag_tick s + 1\<rparr>)"

definition set_mutation :: "unit dev" where
  "set_mutation s = (Inr (), s\<lparr>ag_mutation := True\<rparr>)"

definition set_before :: "bool \<Rightarrow> unit dev" where
  "set_before b s = (Inr (), s\<lparr>ag_before := Some b\<rparr>)"

section \<open>ADB\<close>

text \<open>
  \<open>_run\<close>: a timeout, a failed launch and a non-zero exit status all raise \<open>AdbError\<close>; the log
  keeps the output of a command that completed.
\<close>

definition adb_run :: "device_env \<Rightarrow> adb_cmd \<Rightarrow> string dev" where
  "adb_run e c s = (let s1 = s\<lparr>ag_tick := ag_tick s + 1\<rparr> in case e_run e (ag_tick s) c of
     Exited rc out err \<Rightarrow>
       if rc \<noteq> 0 then (Inl AdbError, s1\<lparr>ag_log := ag_log s @ [(c, None)]\<rparr>)
       else (Inr out, s1\<lparr>ag_log := ag_log s @ [(c, Some out)]\<rparr>)
   | _ \<Rightarrow> (Inl AdbError, s1\<lparr>ag_log := ag_log s @ [(c, None)]\<rparr>))"

definition is_line_break :: "char \<Rightarrow> bool" where
  "is_line_break c \<longleftrightarrow> (let n = (of_char c :: nat) in (10 \<le> n \<and> n \<le> 13) \<or> (28 \<le> n \<and> n \<le> 30))"

text \<open>\<open>str.splitlines\<close>; an empty line between \<open>\r\<close> and \<open>\n\<close> never matters to the callers.\<close>

fun splitlines :: "string \<Rightarrow> string list" where
  "splitlines [] = [[]]"
| "splitlines (c # s) = (if is_line_break c then [] # splitlines s
     else (case splitlines s of [] \<Rightarrow> [[c]] | w # ws \<Rightarrow> (c # w) # ws))"

definition is_alpha :: "char \<Rightarrow> bool" where
  "is_alpha c \<longleftrightarrow> (let n = (of_char c :: nat) in (65 \<le> n \<and> n \<le> 90) \<or> (97 \<le> n \<and> n \<le> 122))"

definition is_package_char :: "char \<Rightarrow> bool" where
  "is_package_char c \<longleftrightarrow> is_alpha c \<or> digit_of c \<noteq> None \<or> c = CHR ''.'' \<or> c = CHR ''_''"

text \<open>A match of \<open>_FOREGROUND_RE\<close> at the first character.\<close>

definition foreground_at :: "string \<Rightarrow> string option" where
  "foreground_at s = (case s of [] \<Rightarrow> None | c # r \<Rightarrow>
     if \<not> is_alpha c \<or> takeWhile is_package_char r = [] then None
     else (case dropWhile is_package_char r of
         sl # k # _ \<Rightarrow> if sl = CHR ''/'' \<and> (is_package_char k \<or> k = CHR ''$'')
            then Some (c # takeWhile is_package_char r) else None
       | _ \<Rightarrow> None))"

fun foreground_search :: "string \<Rightarrow> string option" where
  "foreground_search [] = None"
| "foreground_search (c # s) = (case foreground_at (c # s) of Some p \<Rightarrow> Some p | None \<Rightarrow> foreground_search s)"

fun first_package :: "string list \<Rightarrow> string option" where
  "first_package [] = None"
| "first_package (line # ls) =
     (if \<not> contains_sub line ''mCurrentFocus'' \<and> \<not> contains_sub line ''mFocusedApp'' then first_package ls
      else case foreground_search line of Some p \<Rightarrow> Some p | None \<Rightarrow> first_package ls)"

definition foreground_package :: "device_env \<Rightarrow> string dev" where
  "foreground_package e = dbind (adb_run e DumpWindows) (\<lambda>out.
     dlift (case first_package (splitlines out) of Some p \<Rightarrow> Inr p | None \<Rightarrow> Inl AdbError))"

definition dump_ui_xml :: "device_env \<Rightarrow> string dev" where
  "dump_ui_xml e = dbind (adb_run e DumpUi) (\<lambda>_. dbind (adb_run e CatDump) (\<lambda>out.
     dlift (if int (length out) > MAX_XML_CHARS then Inl AdbError
            else if \<not> contains_sub out ''<hierarchy'' then Inl AdbError else Inr out)))"

definition adb_tap :: "device_env \<Rightarrow> int \<times> int \<Rightarrow> unit dev" where
  "adb_tap e pt = (case pt of (x, y) \<Rightarrow>
     if x < 0 \<or> y < 0 then dlift (Inl (Builtin ValueError))
     else dbind (adb_run e (Tap x y)) (\<lambda>_. dret ()))"

definition encode_spaces :: "string \<Rightarrow> string" where
  "encode_spaces v = concat (map (\<lambda>c. if c = CHR '' '' then ''%s'' else [c]) v)"

definition adb_input_text :: "device_env \<Rightarrow> string \<Rightarrow> unit dev" where
  "adb_input_text e v =
     (if v = [] \<or> py_len v > 500 then dlift (Inl (Builtin ValueError))
      else if list_ex (\<lambda>c. of_char c \<in> {0, 10, 13 :: nat}) v then dlift (Inl (Builtin ValueError))
      else dbind (adb_run e (InputText (encode_spaces v))) (\<lambda>_. dret ()))"

section \<open>Requests and results\<close>

record action_request =
  rq_action :: string
  rq_comment :: "string option"
  rq_target_hash :: "string option"
  rq_follow_target_handle :: "string option"

text \<open>\<open>__post_init__\<close>: every rejected combination raises \<open>ValueError\<close>.\<close>

definition request_ok :: "action_request \<Rightarrow> bool" where
  "request_ok rq \<longleftrightarrow>
     rq_action rq \<in> set SUPPORTED_ACTIONS \<and>
     (if rq_action rq = ''comment''
      then (case rq_comment rq of None \<Rightarrow> False | Some c \<Rightarrow> strip c \<noteq> [] \<and> py_len c \<le> 500)
      else rq_comment rq = None) \<and>
     (case rq_target_hash rq of None \<Rightarrow> True | Some h \<Rightarrow> TARGET_HASH_RE h) \<and>
     (if rq_action rq = ''follow'' then
        (if rq_target_hash rq \<noteq> None
         then (case rq_follow_target_handle rq of None \<Rightarrow> False
           | Some h \<Rightarrow> h \<noteq> [] \<and> h = strip h \<and> py_len h \<le> 200)
         else rq_follow_target_handle rq = None)
      else rq_follow_target_handle rq = None)"

definition make_request :: "action_request \<Rightarrow> (py_error, action_request) result" where
  "make_request rq = (if request_ok rq then Inr rq else Inl ValueError)"

datatype action_status = SUCCEEDED | ALREADY_DONE | BLOCKED | UNKNOWN

record action_result =
  res_status :: action_status
  res_action :: string
  res_reason :: string
  res_outcome_known :: bool
  res_halt :: bool
  res_mutation_attempted :: bool
  res_before_done :: "bool option"
  res_after_done :: "bool option"
  res_observed_at :: rat
  res_retry_after :: rat

record engine =
  eng_manifest :: calibration_manifest
  eng_policy :: rate_policy

text \<open>\<open>_result\<close>: the observation time is one reading of the clock.\<close>

definition result_of :: "device_env \<Rightarrow> action_request \<Rightarrow> action_status \<Rightarrow> string \<Rightarrow> bool \<Rightarrow> bool \<Rightarrow> bool \<Rightarrow>
    bool option \<Rightarrow> bool option \<Rightarrow> rat \<Rightarrow> action_result dev" where
  "result_of e rq st reason known halt mut before after retry = dbind (tick (e_clock e)) (\<lambda>now.
     dret \<lparr>res_status = st, res_action = rq_action rq, res_reason = reason, res_outcome_known = known,
           res_halt = halt, res_mutation_attempted = mut, res_before_done = before,
           res_after_done = after, res_observed_at = now, res_retry_after = max 0 retry\<rparr>)"

section \<open>The engine's helpers\<close>

definition read_ui :: "device_env \<Rightarrow> calibration_manifest \<Rightarrow> (string \<times> ui_snapshot \<times> string list) dev" where
  "read_ui e man = dbind (foreground_package e) (\<lambda>package.
     if package \<noteq> man_package man then dlift (Inl UiDocumentError)
     else dbind (dump_ui_xml e) (\<lambda>xml. dbind (dlift (ui_parse (e_xml e) xml)) (\<lambda>snap.
       dret (package, snap, detect_risk snap (man_risk_texts man)))))"

definition resolved_done :: "action_calibration \<Rightarrow> string option \<Rightarrow> (dev_error, node_selector list) result" where
  "resolved_done cal comment = rmapM (selector_resolve comment) (cal_done cal)"

definition markers_verified :: "ui_snapshot \<Rightarrow> node_selector list \<Rightarrow> bool" where
  "markers_verified snap markers \<longleftrightarrow>
     markers \<noteq> [] \<and> list_all (\<lambda>sel. length (matching snap sel) = 1) markers"

definition target_verification :: "calibration_manifest \<Rightarrow> ui_snapshot \<Rightarrow> string option \<Rightarrow> string option \<Rightarrow>
    bool option \<times> bool option \<times> target_calibration option" where
  "target_verification man snap target_hash handle = (case target_hash of
     None \<Rightarrow> (None, None, None)
   | Some h \<Rightarrow> (case map_of (man_target_markers man) h of
       None \<Rightarrow> (Some False, if handle \<noteq> None then Some False else None, None)
     | Some tc \<Rightarrow> (Some (markers_verified snap (tc_markers tc)),
         (case handle of None \<Rightarrow> None
          | Some f \<Rightarrow> Some (f = tc_author_handle tc \<and> markers_verified snap (tc_follow_markers tc))),
         Some tc)))"

definition lim_check :: "device_env \<Rightarrow> engine \<Rightarrow> rate_decision dev" where
  "lim_check e eng = dbind (tick (e_clock e)) (\<lambda>now s. (rate_check (eng_policy eng) now (ag_file s), s))"

text \<open>\<open>_save\<close> may raise an \<open>OSError\<close>; the file is then unchanged.\<close>

definition lim_save :: "device_env \<Rightarrow> limiter_state \<Rightarrow> unit dev" where
  "lim_save e st = dbind (tick (e_save e)) (\<lambda>r. case r of
     Some name \<Rightarrow> dlift (Inl (OSErr name))
   | None \<Rightarrow> (\<lambda>s. (Inr (), s\<lparr>ag_file := limiter_save st\<rparr>)))"

definition lim_record_mutation :: "device_env \<Rightarrow> unit dev" where
  "lim_record_mutation e = dbind (tick (e_clock e)) (\<lambda>now.
     dbind (\<lambda>s. dlift (record_mutation now (ag_file s)) s) (lim_save e))"

definition lim_record_cooldown :: "device_env \<Rightarrow> engine \<Rightarrow> bool \<Rightarrow> unit dev" where
  "lim_record_cooldown e eng blocked = dbind (\<lambda>s. dlift (limiter_load (ag_file s)) s) (\<lambda>_.
     dbind (tick (e_clock e)) (\<lambda>now.
     dbind (\<lambda>s. dlift (record_cooldown (eng_policy eng) blocked now (ag_file s)) s) (lim_save e)))"

definition deadline_passed :: "device_env \<Rightarrow> rat option \<Rightarrow> bool dev" where
  "deadline_passed e deadline = (case deadline of None \<Rightarrow> dret False
     | Some d \<Rightarrow> dbind (tick (e_mono e)) (\<lambda>t. dret (t \<ge> d)))"

definition settle :: "calibration_manifest \<Rightarrow> unit dev" where
  "settle man = (if man_settle_seconds man \<noteq> 0 then tick (\<lambda>_. ()) else dret ())"

fun join_comma :: "string list \<Rightarrow> string" where
  "join_comma [] = []"
| "join_comma [w] = w"
| "join_comma (w # ws) = w @ '','' @ join_comma ws"

definition risk_result :: "device_env \<Rightarrow> engine \<Rightarrow> action_request \<Rightarrow> string list \<Rightarrow> bool \<Rightarrow> bool \<Rightarrow>
    bool option \<Rightarrow> action_result dev" where
  "risk_result e eng rq risks known mut before = dbind (lim_record_cooldown e eng True) (\<lambda>_.
     result_of e rq BLOCKED (''risk_text_detected:'' @ join_comma risks) known True mut before None 0)"

section \<open>Execution\<close>

text \<open>The tap that performs the action, and the assignment after it.\<close>

definition mutating_tap :: "device_env \<Rightarrow> int \<times> int \<Rightarrow> unit dev" where
  "mutating_tap e pt = dbind (adb_tap e pt) (\<lambda>_. set_mutation)"

text \<open>
  The comment branch: type, read back, verify, submit. \<open>Some r\<close> is an early return of \<open>r\<close>;
  \<open>None\<close> falls through to the confirmation.
\<close>

definition submit_tap :: "device_env \<Rightarrow> action_request \<Rightarrow> rat option \<Rightarrow> ui_snapshot \<Rightarrow> node_selector \<Rightarrow>
    node_selector \<Rightarrow> action_result option dev" where
  "submit_tap e rq deadline typed_snapshot typed submit_selector =
     dbind (dlift (selector_resolve (rq_comment rq) typed)) (\<lambda>typed_selector.
     dbind (dlift (unique_node typed_snapshot typed_selector)) (\<lambda>_.
     dbind (dlift (unique_node typed_snapshot submit_selector)) (\<lambda>submit.
     dbind (dlift (tap_point submit)) (\<lambda>submit_point.
     dbind (deadline_passed e deadline) (\<lambda>late.
       if late then
         dbind (result_of e rq BLOCKED ''operation_deadline_before_comment_submit'' True True False
           (Some False) None 0) (\<lambda>r. dret (Some r))
       else dbind (mutating_tap e submit_point) (\<lambda>_. dret None))))))"

definition submit_phase :: "device_env \<Rightarrow> engine \<Rightarrow> action_request \<Rightarrow> rat option \<Rightarrow> action_calibration \<Rightarrow>
    ui_snapshot \<Rightarrow> string list \<Rightarrow> action_result option dev" where
  "submit_phase e eng rq deadline cal typed_snapshot typed_risks =
     (if typed_risks \<noteq> [] then
        dbind (risk_result e eng rq typed_risks True False (Some False)) (\<lambda>r. dret (Some r))
      else (case target_verification (eng_manifest eng) typed_snapshot (rq_target_hash rq) None of
        (typed_target_verified, _, typed_target_calibration) \<Rightarrow>
      if rq_target_hash rq \<noteq> None \<and> (typed_target_calibration = None \<or> typed_target_verified = Some False) then
        dbind (result_of e rq BLOCKED ''target_identity_unverified_before_comment_submit'' True True False
          (Some False) None 0) (\<lambda>r. dret (Some r))
      else (case (cal_typed cal, cal_submit cal) of
          (Some typed, Some submit_selector) \<Rightarrow> submit_tap e rq deadline typed_snapshot typed submit_selector
        | _ \<Rightarrow> dlift (Inl ManifestError))))"

definition comment_phase :: "device_env \<Rightarrow> engine \<Rightarrow> action_request \<Rightarrow> rat option \<Rightarrow> action_calibration \<Rightarrow>
    int \<times> int \<Rightarrow> action_result option dev" where
  "comment_phase e eng rq deadline cal trigger_point =
     dbind (adb_tap e trigger_point) (\<lambda>_.
     dbind (adb_input_text e (case rq_comment rq of None \<Rightarrow> [] | Some c \<Rightarrow> c)) (\<lambda>_.
     dbind (settle (eng_manifest eng)) (\<lambda>_.
     dbind (read_ui e (eng_manifest eng)) (\<lambda>(_, typed_snapshot, typed_risks).
       submit_phase e eng rq deadline cal typed_snapshot typed_risks))))"

text \<open>After the mutation: the screen decides whether it is confirmed.\<close>

definition confirm_screen :: "device_env \<Rightarrow> engine \<Rightarrow> action_request \<Rightarrow> node_selector list \<Rightarrow>
    ui_snapshot \<Rightarrow> string list \<Rightarrow> action_result dev" where
  "confirm_screen e eng rq done_selectors after after_risks =
     (if after_risks \<noteq> [] then risk_result e eng rq after_risks False True (Some False)
      else (case target_verification (eng_manifest eng) after (rq_target_hash rq) (rq_follow_target_handle rq) of
        (after_target_verified, after_follow_verified, _) \<Rightarrow>
      if after_target_verified = Some False \<or> after_follow_verified = Some False then
        dbind (lim_record_cooldown e eng False) (\<lambda>_.
          result_of e rq UNKNOWN (if after_follow_verified = Some False
            then ''follow_target_unverified_after_action'' else ''target_identity_unverified_after_action'')
            False True True (Some False) None 0)
      else if \<not> has_any after done_selectors then
        dbind (lim_record_cooldown e eng False) (\<lambda>_.
          result_of e rq UNKNOWN ''done_state_missing_after_action'' False True True (Some False) (Some False) 0)
      else result_of e rq SUCCEEDED ''done_state_confirmed'' True False True (Some False) (Some True) 0))"

definition confirm_phase :: "device_env \<Rightarrow> engine \<Rightarrow> action_request \<Rightarrow> node_selector list \<Rightarrow> action_result dev" where
  "confirm_phase e eng rq done_selectors =
     dbind (lim_record_mutation e) (\<lambda>_.
     dbind (settle (eng_manifest eng)) (\<lambda>_.
     dbind (read_ui e (eng_manifest eng)) (\<lambda>(_, after, after_risks).
       confirm_screen e eng rq done_selectors after after_risks)))"

definition act_phase :: "device_env \<Rightarrow> engine \<Rightarrow> action_request \<Rightarrow> rat option \<Rightarrow> action_calibration \<Rightarrow>
    ui_snapshot \<Rightarrow> node_selector list \<Rightarrow> action_result dev" where
  "act_phase e eng rq deadline cal before done_selectors =
     dbind (dlift (unique_node before (cal_trigger cal))) (\<lambda>trigger.
     dbind (dlift (tap_point trigger)) (\<lambda>trigger_point.
     dbind (deadline_passed e deadline) (\<lambda>late.
     if late then result_of e rq BLOCKED ''operation_deadline_before_mutation'' True True False (Some False) None 0
     else dbind (if rq_action rq = ''comment'' then comment_phase e eng rq deadline cal trigger_point
                 else dbind (mutating_tap e trigger_point) (\<lambda>_. dret None)) (\<lambda>early.
       case early of Some r \<Rightarrow> dret r | None \<Rightarrow> confirm_phase e eng rq done_selectors))))"

definition body_screen :: "device_env \<Rightarrow> engine \<Rightarrow> action_request \<Rightarrow> rat option \<Rightarrow> action_calibration \<Rightarrow>
    ui_snapshot \<Rightarrow> string list \<Rightarrow> action_result dev" where
  "body_screen e eng rq deadline cal before risks =
     (if risks \<noteq> [] then risk_result e eng rq risks True False None
      else (case target_verification (eng_manifest eng) before (rq_target_hash rq) (rq_follow_target_handle rq) of
        (target_verified, follow_verified, target_calibration) \<Rightarrow>
      if rq_target_hash rq \<noteq> None \<and> target_calibration = None then
        result_of e rq BLOCKED ''unknown_target_hash'' True True False None None 0
      else if target_verified = Some False then
        result_of e rq BLOCKED ''target_identity_unverified_before_action'' True True False None None 0
      else if follow_verified = Some False then
        result_of e rq BLOCKED ''follow_target_unverified_before_action'' True True False None None 0
      else dbind (dlift (resolved_done cal (rq_comment rq))) (\<lambda>done_selectors.
        dbind (set_before (has_any before done_selectors)) (\<lambda>_.
        if has_any before done_selectors then
          result_of e rq ALREADY_DONE ''done_state_present_before_action'' True False False (Some True) (Some True) 0
        else act_phase e eng rq deadline cal before done_selectors))))"

definition execute_body :: "device_env \<Rightarrow> engine \<Rightarrow> action_request \<Rightarrow> rat option \<Rightarrow> action_calibration \<Rightarrow>
    action_result dev" where
  "execute_body e eng rq deadline cal =
     dbind (read_ui e (eng_manifest eng)) (\<lambda>(_, before, risks). body_screen e eng rq deadline cal before risks)"

text \<open>The exception classes the \<open>except\<close> clause lists.\<close>

fun caught :: "dev_error \<Rightarrow> bool" where
  "caught (KeyErr _) = False"
| "caught IndexErr = False"
| "caught (Builtin TypeError) = False"
| "caught (Builtin AttributeError) = False"
| "caught _ = True"

definition state_error :: "dev_error \<Rightarrow> bool" where
  "state_error err \<longleftrightarrow> (case err of RateLimitStateError \<Rightarrow> True | OSErr _ \<Rightarrow> True | _ \<Rightarrow> False)"

definition execute_except :: "device_env \<Rightarrow> engine \<Rightarrow> action_request \<Rightarrow> dev_error \<Rightarrow> action_result dev" where
  "execute_except e eng rq err s =
     (if ag_mutation s then
        dbind (dtry (lim_record_cooldown e eng False) state_error (\<lambda>_. dret ())) (\<lambda>_.
          result_of e rq UNKNOWN (''unconfirmed_after_mutation:'' @ error_name err) False True True
            (ag_before s) None 0) s
      else result_of e rq BLOCKED (''precondition_failed:'' @ error_name err) True True False (ag_before s) None 0 s)"

definition reset_locals :: "unit dev" where
  "reset_locals s = (Inr (), s\<lparr>ag_mutation := False, ag_before := None\<rparr>)"

definition execute_admitted :: "device_env \<Rightarrow> engine \<Rightarrow> action_request \<Rightarrow> rat option \<Rightarrow> action_result dev" where
  "execute_admitted e eng rq deadline =
     (case map_of (man_actions (eng_manifest eng)) (rq_action rq) of
        None \<Rightarrow> dlift (Inl (KeyErr (rq_action rq)))
      | Some cal \<Rightarrow> dbind reset_locals (\<lambda>_.
          dtry (execute_body e eng rq deadline cal) caught (execute_except e eng rq)))"

definition execute_locked :: "device_env \<Rightarrow> engine \<Rightarrow> action_request \<Rightarrow> rat option \<Rightarrow> action_result dev" where
  "execute_locked e eng rq deadline =
     dbind (dtry (dbind (lim_check e eng) (\<lambda>d. dret (Some d))) (\<lambda>err. err = RateLimitStateError) (\<lambda>_. dret None)) (\<lambda>d.
     case d of
       None \<Rightarrow> result_of e rq BLOCKED ''invalid_rate_limit_state'' True True False None None 0
     | Some decision \<Rightarrow>
         if \<not> rd_allowed decision then
           result_of e rq BLOCKED (case rd_reason decision of Some r \<Rightarrow> (if r = [] then ''rate_limited'' else r)
             | None \<Rightarrow> ''rate_limited'') True True False None None (rd_retry_after decision)
         else execute_admitted e eng rq deadline)"

text \<open>
  \<open>execute\<close>: the account lock is taken and released whatever happens; an \<open>OSError\<close> of either, or
  one that escapes the body, is reported as an unavailable lock.
\<close>

definition execute :: "device_env \<Rightarrow> engine \<Rightarrow> action_request \<Rightarrow> rat option \<Rightarrow> action_result dev" where
  "execute e eng rq deadline = dbind (tick (e_lock e)) (\<lambda>l. case l of
     LockHeld \<Rightarrow> result_of e rq BLOCKED ''account_lock_held'' True True False None None 0
   | LockOSError _ \<Rightarrow> result_of e rq BLOCKED ''account_lock_unavailable'' True True False None None 0
   | Acquired \<Rightarrow> (\<lambda>s. case execute_locked e eng rq deadline s of (r, s1) \<Rightarrow>
       dbind (tick (e_unlock e)) (\<lambda>u. case u of
         Some _ \<Rightarrow> result_of e rq BLOCKED ''account_lock_unavailable'' True True False None None 0
       | None \<Rightarrow> (case r of Inl (OSErr _) \<Rightarrow>
             result_of e rq BLOCKED ''account_lock_unavailable'' True True False None None 0
           | _ \<Rightarrow> dlift r)) s1))"

end
