(* ===== verification/DeviceSafety.thy ===== *)
theory DeviceSafety
  imports DeviceEngine
begin

text \<open>
  Correctness of the device engine, by a Hoare logic over its state and exceptions: what each
  operation does to the log of ADB commands, then each phase of an execution, then the whole
  \<open>execute\<close>. The theory ends with the engine's properties and a concrete device on which it succeeds.
\<close>

section \<open>A Hoare logic for the engine\<close>

text \<open>
  \<open>dhoare P m Q\<close>: from every state with \<open>P\<close> the computation ends with a result and a state that
  satisfy \<open>Q\<close>; the result is a value or the exception raised.
\<close>

definition dhoare :: "(agent \<Rightarrow> bool) \<Rightarrow> 'a dev \<Rightarrow> ((dev_error, 'a) result \<Rightarrow> agent \<Rightarrow> bool) \<Rightarrow> bool" where
  "dhoare P m Q \<longleftrightarrow> (\<forall>s. P s \<longrightarrow> Q (fst (m s)) (snd (m s)))"

lemma dhoareD: "dhoare P m Q \<Longrightarrow> P s \<Longrightarrow> m s = (r, s') \<Longrightarrow> Q r s'"
  unfolding dhoare_def by (metis fst_conv snd_conv)

lemma dhoareI: "(\<And>s r s'. P s \<Longrightarrow> m s = (r, s') \<Longrightarrow> Q r s') \<Longrightarrow> dhoare P m Q"
  unfolding dhoare_def by simp

lemma dhoare_conseq:
  "dhoare P m Q \<Longrightarrow> (\<And>s. P' s \<Longrightarrow> P s) \<Longrightarrow> (\<And>r s. Q r s \<Longrightarrow> Q' r s) \<Longrightarrow> dhoare P' m Q'"
  unfolding dhoare_def by blast

lemma dhoare_pre: "dhoare P m Q \<Longrightarrow> (\<And>s. P' s \<Longrightarrow> P s) \<Longrightarrow> dhoare P' m Q"
  unfolding dhoare_def by blast

lemma dhoare_bind:
  assumes "dhoare P m (\<lambda>r s. case r of Inl err \<Rightarrow> Q (Inl err) s | Inr x \<Rightarrow> A x s)"
    and "\<And>x. dhoare (A x) (f x) Q"
  shows "dhoare P (dbind m f) Q"
proof (rule dhoareI)
  fix s r s'
  assume P: "P s" and b: "dbind m f s = (r, s')"
  obtain r1 s1 where m: "m s = (r1, s1)" by fastforce
  note q = dhoareD [OF assms(1) P m]
  show "Q r s'"
  proof (cases r1)
    case (Inl err)
    then show ?thesis using q b m by (simp add: dbind_def)
  next
    case (Inr x)
    then have "f x s1 = (r, s')" using b m by (simp add: dbind_def)
    then show ?thesis using q Inr dhoareD [OF assms(2)] by simp
  qed
qed

lemma dhoare_try:
  assumes "dhoare P m (\<lambda>r s. case r of Inl err \<Rightarrow> (if c err then E err s else Q (Inl err) s) | Inr x \<Rightarrow> Q (Inr x) s)"
    and "\<And>err. c err \<Longrightarrow> dhoare (E err) (h err) Q"
  shows "dhoare P (dtry m c h) Q"
proof (rule dhoareI)
  fix s r s'
  assume P: "P s" and b: "dtry m c h s = (r, s')"
  obtain r1 s1 where m: "m s = (r1, s1)" by fastforce
  note q = dhoareD [OF assms(1) P m]
  show "Q r s'"
  proof (cases r1)
    case (Inl err)
    show ?thesis
    proof (cases "c err")
      case True
      then have "h err s1 = (r, s')" using b m Inl by (simp add: dtry_def)
      then show ?thesis using q Inl True dhoareD [OF assms(2)] by simp
    next
      case False
      then show ?thesis using q Inl b m by (simp add: dtry_def)
    qed
  next
    case (Inr x)
    then show ?thesis using q b m by (simp add: dtry_def)
  qed
qed

lemma dhoare_ret: "(\<And>s. P s \<Longrightarrow> Q (Inr x) s) \<Longrightarrow> dhoare P (dret x) Q"
  unfolding dhoare_def dret_def by simp

lemma dhoare_lift: "(\<And>s. P s \<Longrightarrow> Q r s) \<Longrightarrow> dhoare P (dlift r) Q"
  unfolding dhoare_def dlift_def by simp

lemma dhoare_if:
  "(c \<Longrightarrow> dhoare P m Q) \<Longrightarrow> (\<not> c \<Longrightarrow> dhoare P m' Q) \<Longrightarrow> dhoare P (if c then m else m') Q"
  by simp

lemma dhoare_assume: "(\<And>s. P s \<Longrightarrow> R) \<Longrightarrow> (R \<Longrightarrow> dhoare P m Q) \<Longrightarrow> dhoare P m Q"
  unfolding dhoare_def by blast

section \<open>Taps and screens of a log\<close>

fun is_tap :: "adb_cmd \<Rightarrow> bool" where
  "is_tap (Tap _ _) = True"
| "is_tap _ = False"

text \<open>The taps of a log: \<open>True\<close> for one that completed.\<close>

definition tap_outcomes :: "(adb_cmd \<times> string option) list \<Rightarrow> bool list" where
  "tap_outcomes lg = map (\<lambda>(c, out). out \<noteq> None) (filter (\<lambda>(c, out). is_tap c) lg)"

text \<open>The screen the engine knows: the output of the last completed dump.\<close>

definition next_screen :: "string option \<Rightarrow> adb_cmd \<times> string option \<Rightarrow> string option" where
  "next_screen scr ev = (case ev of (CatDump, Some out) \<Rightarrow> Some out | _ \<Rightarrow> scr)"

definition screen_of :: "(adb_cmd \<times> string option) list \<Rightarrow> string option" where
  "screen_of lg = foldl next_screen None lg"

text \<open>Every tap satisfies \<open>P\<close> with the screen known when it is sent.\<close>

fun taps_ok :: "(string option \<Rightarrow> int \<times> int \<Rightarrow> bool) \<Rightarrow> string option \<Rightarrow> (adb_cmd \<times> string option) list \<Rightarrow> bool" where
  "taps_ok P scr [] \<longleftrightarrow> True"
| "taps_ok P scr (ev # lg) \<longleftrightarrow>
     (case fst ev of Tap x y \<Rightarrow> P scr (x, y) | _ \<Rightarrow> True) \<and> taps_ok P (next_screen scr ev) lg"

lemma taps_ok_append:
  "taps_ok P scr (xs @ ys) \<longleftrightarrow> taps_ok P scr xs \<and> taps_ok P (foldl next_screen scr xs) ys"
  by (induction xs arbitrary: scr) auto

lemma tap_outcomes_simps [simp]:
  "tap_outcomes [] = []" "tap_outcomes (xs @ ys) = tap_outcomes xs @ tap_outcomes ys"
  "tap_outcomes [(c, out)] = (if is_tap c then [out \<noteq> None] else [])"
  by (simp_all add: tap_outcomes_def)

lemma screen_of_snoc [simp]: "screen_of (xs @ [ev]) = next_screen (screen_of xs) ev"
  by (simp add: screen_of_def)

text \<open>
  The state of an execution: all taps so far satisfy \<open>P\<close>, \<open>ts\<close> are their outcomes, \<open>mut\<close> and
  \<open>b\<close> the two local variables.
\<close>

definition at_point :: "(string option \<Rightarrow> int \<times> int \<Rightarrow> bool) \<Rightarrow> bool list \<Rightarrow> bool \<Rightarrow> bool option \<Rightarrow> agent \<Rightarrow> bool" where
  "at_point P ts mut b s \<longleftrightarrow> taps_ok P None (ag_log s) \<and> tap_outcomes (ag_log s) = ts \<and>
     ag_mutation s = mut \<and> ag_before s = b"

text \<open>The screen last read is the snapshot \<open>snap\<close>.\<close>

definition shows_snap :: "device_env \<Rightarrow> ui_snapshot \<Rightarrow> agent \<Rightarrow> bool" where
  "shows_snap e snap s \<longleftrightarrow> (\<exists>out. screen_of (ag_log s) = Some out \<and> ui_parse (e_xml e) out = Inr snap)"

text \<open>\<open>still m\<close>: the computation sends no ADB command and keeps the two local variables.\<close>

definition still :: "'a dev \<Rightarrow> bool" where
  "still m \<longleftrightarrow> (\<forall>s. ag_log (snd (m s)) = ag_log s \<and> ag_mutation (snd (m s)) = ag_mutation s \<and>
     ag_before (snd (m s)) = ag_before s)"

definition framed :: "(agent \<Rightarrow> bool) \<Rightarrow> bool" where
  "framed P \<longleftrightarrow> (\<forall>s s'. ag_log s' = ag_log s \<longrightarrow> ag_mutation s' = ag_mutation s \<longrightarrow>
     ag_before s' = ag_before s \<longrightarrow> P s \<longrightarrow> P s')"

lemma framed_at_point [simp]: "framed (at_point P ts mut b)"
  by (simp add: framed_def at_point_def)

lemma framed_shows [simp]: "framed (shows_snap e snap)"
  by (simp add: framed_def shows_snap_def)

lemma framed_conj [simp]: "framed P \<Longrightarrow> framed Q \<Longrightarrow> framed (\<lambda>s. P s \<and> Q s)"
  unfolding framed_def by blast

lemma framed_const [simp]: "framed (\<lambda>s. c)"
  by (simp add: framed_def)

lemma still_hoare: "still m \<Longrightarrow> framed P \<Longrightarrow> dhoare P m (\<lambda>r s. P s)"
  unfolding still_def framed_def dhoare_def by blast

lemma still_dret [simp]: "still (dret x)"
  by (simp add: still_def dret_def)

lemma still_dlift [simp]: "still (dlift r)"
  by (simp add: still_def dlift_def)

lemma still_tick [simp]: "still (tick f)"
  by (simp add: still_def tick_def)

lemma still_dbind [intro]:
  assumes "still m" "\<And>x. still (f x)"
  shows "still (dbind m f)"
  unfolding still_def
proof
  fix s
  obtain r s1 where m: "m s = (r, s1)" by fastforce
  have "ag_log s1 = ag_log s" "ag_mutation s1 = ag_mutation s" "ag_before s1 = ag_before s"
    using assms(1) m unfolding still_def by (metis snd_conv)+
  then show "ag_log (snd (dbind m f s)) = ag_log s \<and> ag_mutation (snd (dbind m f s)) = ag_mutation s \<and>
     ag_before (snd (dbind m f s)) = ag_before s"
    using assms(2) m unfolding still_def by (cases r) (simp_all add: dbind_def)
qed

lemma still_dtry: "still m \<Longrightarrow> (\<And>err. still (h err)) \<Longrightarrow> still (dtry m c h)"
  unfolding still_def dtry_def by (auto split: prod.splits sum.splits) (metis snd_conv)+

section \<open>What each operation does to the log\<close>

text \<open>\<open>quiet m\<close>: \<open>still\<close>, and only exceptions the engine catches.\<close>

definition quiet :: "'a dev \<Rightarrow> bool" where
  "quiet m \<longleftrightarrow> still m \<and> (\<forall>s err. fst (m s) = Inl err \<longrightarrow> caught err)"

lemma quiet_hoare:
  "quiet m \<Longrightarrow> framed P \<Longrightarrow> dhoare P m (\<lambda>r s. P s \<and> (case r of Inl err \<Rightarrow> caught err | Inr _ \<Rightarrow> True))"
  unfolding quiet_def still_def framed_def dhoare_def by (auto split: sum.splits)

lemma quiet_bind:
  assumes "quiet m" "\<And>x. quiet (f x)"
  shows "quiet (dbind m f)"
proof -
  have "caught err" if e: "fst (dbind m f s) = Inl err" for s err
  proof -
    obtain r s1 where m: "m s = (r, s1)" by fastforce
    show ?thesis
    proof (cases r)
      case (Inl err')
      then have "fst (m s) = Inl err" using e m by (simp add: dbind_def)
      then show ?thesis using assms(1) by (simp add: quiet_def)
    next
      case (Inr x)
      then have "fst (f x s1) = Inl err" using e m by (simp add: dbind_def)
      then show ?thesis using assms(2) [of x] by (simp add: quiet_def)
    qed
  qed
  then show ?thesis using assms by (auto simp: quiet_def)
qed

lemma quiet_basic [simp]:
  "quiet (dret x)" "quiet (tick g)" "quiet (dlift r) \<longleftrightarrow> (\<forall>err. r = Inl err \<longrightarrow> caught err)"
  by (auto simp: quiet_def dret_def tick_def dlift_def still_def)

lemma quiet_file: "(\<And>f err. g f = Inl err \<Longrightarrow> caught err) \<Longrightarrow> quiet (\<lambda>s. dlift (g (ag_file s)) s)"
  by (auto simp: quiet_def still_def dlift_def)

lemma quiet_lim_save: "quiet (lim_save e st)"
  unfolding lim_save_def
  by (rule quiet_bind [OF quiet_basic(2)]) (auto simp: quiet_def still_def dlift_def split: option.splits)

lemma quiet_cooldown: "quiet (lim_record_cooldown e eng blocked)"
  unfolding lim_record_cooldown_def
  by (intro quiet_bind quiet_file quiet_lim_save)
     (auto simp: record_cooldown_def result_eqs dest: load_error)

lemma quiet_mutation: "quiet (lim_record_mutation e)"
  unfolding lim_record_mutation_def
  by (intro quiet_bind quiet_file quiet_lim_save)
     (auto simp: record_mutation_def result_eqs dest: load_error)

lemma quiet_deadline: "quiet (deadline_passed e d)"
  by (cases d) (auto simp: deadline_passed_def intro: quiet_bind)

lemma quiet_settle: "quiet (settle man)"
  by (simp add: settle_def)

lemma quiet_result: "quiet (result_of e rq st reason known halt mut before after retry)"
  unfolding result_of_def by (intro quiet_bind) auto

text \<open>A result carries the fields it is built from.\<close>

lemma result_of_hoare:
  assumes "framed P"
    and "\<And>s res. P s \<Longrightarrow> res_status res = st \<Longrightarrow> res_outcome_known res = known \<Longrightarrow> res_halt res = halt \<Longrightarrow>
      res_mutation_attempted res = mut \<Longrightarrow> res_before_done res = before \<Longrightarrow> res_after_done res = after \<Longrightarrow>
      Q (Inr res) s"
  shows "dhoare P (result_of e rq st reason known halt mut before after retry) Q"
proof (rule dhoareI)
  fix s r s'
  assume s: "P s" "result_of e rq st reason known halt mut before after retry s = (r, s')"
  then have "s' = s\<lparr>ag_tick := ag_tick s + 1\<rparr>"
    by (auto simp: result_of_def dbind_def tick_def dret_def)
  then have "P s'" using s(1) assms(1) by (simp add: framed_def)
  then show "Q r s'"
    using s(2) by (auto simp: result_of_def dbind_def tick_def dret_def intro!: assms(2))
qed

lemma adb_run_hoare:
  assumes "\<not> is_tap c"
  shows "dhoare (at_point P ts mut b) (adb_run e c) (\<lambda>r s. at_point P ts mut b s \<and>
    (case r of Inl err \<Rightarrow> caught err | Inr out \<Rightarrow> c = CatDump \<longrightarrow> screen_of (ag_log s) = Some out))"
proof (rule dhoareI)
  fix s r s'
  assume "at_point P ts mut b s" "adb_run e c s = (r, s')"
  then show "at_point P ts mut b s' \<and> (case r of Inl err \<Rightarrow> caught err
      | Inr out \<Rightarrow> c = CatDump \<longrightarrow> screen_of (ag_log s') = Some out)"
    using assms
    by (cases c) (auto simp: adb_run_def at_point_def taps_ok_append next_screen_def Let_def
        split: run_outcome.splits if_splits)
qed

lemma adb_tap_hoare:
  "dhoare (\<lambda>s. at_point P ts mut b s \<and> P (screen_of (ag_log s)) pt) (adb_tap e pt)
     (\<lambda>r s. case r of Inl err \<Rightarrow> caught err \<and> (at_point P ts mut b s \<or> at_point P (ts @ [False]) mut b s)
        | Inr _ \<Rightarrow> at_point P (ts @ [True]) mut b s)"
proof (rule dhoareI)
  fix s r s'
  assume "at_point P ts mut b s \<and> P (screen_of (ag_log s)) pt" "adb_tap e pt s = (r, s')"
  then show "case r of Inl err \<Rightarrow> caught err \<and> (at_point P ts mut b s' \<or> at_point P (ts @ [False]) mut b s')
        | Inr _ \<Rightarrow> at_point P (ts @ [True]) mut b s'"
    by (cases pt) (auto simp: adb_tap_def adb_run_def at_point_def taps_ok_append screen_of_def Let_def
        dbind_def dlift_def dret_def split: run_outcome.splits if_splits)
qed

lemma mutating_tap_hoare:
  "dhoare (\<lambda>s. at_point P ts False b s \<and> P (screen_of (ag_log s)) pt) (mutating_tap e pt)
     (\<lambda>r s. case r of Inl err \<Rightarrow> caught err \<and> (at_point P ts False b s \<or> at_point P (ts @ [False]) False b s)
        | Inr _ \<Rightarrow> at_point P (ts @ [True]) True b s)"
  unfolding mutating_tap_def
  by (rule dhoare_bind [OF dhoare_conseq [OF adb_tap_hoare], where A = "\<lambda>_. at_point P (ts @ [True]) False b"])
     (auto simp: dhoare_def set_mutation_def at_point_def split: sum.splits)

lemma ui_parse_error: "ui_parse x d = Inl err \<Longrightarrow> err = UiDocumentError"
  by (auto simp: ui_parse_def Let_def split: if_splits option.splits)

lemma dump_ui_xml_hoare:
  "dhoare (at_point P ts mut b) (dump_ui_xml e) (\<lambda>r s. at_point P ts mut b s \<and>
    (case r of Inl err \<Rightarrow> caught err | Inr out \<Rightarrow> screen_of (ag_log s) = Some out))"
  unfolding dump_ui_xml_def
proof (rule dhoare_bind)
  show "dhoare (at_point P ts mut b) (adb_run e DumpUi) (\<lambda>r s. case r of
      Inl err \<Rightarrow> at_point P ts mut b s \<and> (case Inl err of Inl err \<Rightarrow> caught err | Inr out \<Rightarrow> screen_of (ag_log s) = Some out)
    | Inr _ \<Rightarrow> at_point P ts mut b s)"
    by (rule dhoare_conseq [OF adb_run_hoare]) (auto split: sum.splits)
next
  fix x
  show "dhoare (at_point P ts mut b) (dbind (adb_run e CatDump) (\<lambda>out.
     dlift (if int (length out) > MAX_XML_CHARS then Inl AdbError
            else if \<not> contains_sub out ''<hierarchy'' then Inl AdbError else Inr out)))
     (\<lambda>r s. at_point P ts mut b s \<and> (case r of Inl err \<Rightarrow> caught err | Inr out \<Rightarrow> screen_of (ag_log s) = Some out))"
    by (rule dhoare_bind [OF dhoare_conseq [OF adb_run_hoare [of CatDump]],
          where A = "\<lambda>out s. at_point P ts mut b s \<and> screen_of (ag_log s) = Some out"])
       (auto intro!: dhoare_lift split: sum.splits)
qed

lemma foreground_hoare:
  "dhoare (at_point P ts mut b) (foreground_package e) (\<lambda>r s. at_point P ts mut b s \<and>
    (case r of Inl err \<Rightarrow> caught err | Inr _ \<Rightarrow> True))"
  unfolding foreground_package_def
  by (rule dhoare_bind [OF dhoare_conseq [OF adb_run_hoare], where A = "\<lambda>out s. at_point P ts mut b s"])
     (auto intro!: dhoare_lift split: sum.splits option.splits)

lemma read_ui_hoare:
  "dhoare (at_point P ts mut b) (read_ui e man) (\<lambda>r s. at_point P ts mut b s \<and>
    (case r of Inl err \<Rightarrow> caught err
     | Inr (_, snap, risks) \<Rightarrow> shows_snap e snap s \<and> risks = detect_risk snap (man_risk_texts man)))"
  (is "dhoare ?I _ ?Q")
proof -
  have parse: "dhoare (\<lambda>s. ?I s \<and> screen_of (ag_log s) = Some xml)
      (dbind (dlift (ui_parse (e_xml e) xml)) (\<lambda>snap.
       dret (package, snap, detect_risk snap (man_risk_texts man)))) ?Q" for xml package
    by (rule dhoare_bind [OF dhoare_lift,
          where A = "\<lambda>snap s. ?I s \<and> screen_of (ag_log s) = Some xml \<and> ui_parse (e_xml e) xml = Inr snap"])
       (auto intro!: dhoare_ret simp: shows_snap_def dest: ui_parse_error split: sum.splits)
  have dump: "dhoare ?I (dbind (dump_ui_xml e) (\<lambda>xml. dbind (dlift (ui_parse (e_xml e) xml)) (\<lambda>snap.
       dret (package, snap, detect_risk snap (man_risk_texts man))))) ?Q" for package
    by (rule dhoare_bind [OF dhoare_conseq [OF dump_ui_xml_hoare] parse]) (auto split: sum.splits)
  show ?thesis
    unfolding read_ui_def
  proof (rule dhoare_bind [OF dhoare_conseq [OF foreground_hoare], where A = "\<lambda>_. ?I"])
    show "dhoare ?I (if package \<noteq> man_package man then dlift (Inl UiDocumentError)
       else dbind (dump_ui_xml e) (\<lambda>xml. dbind (dlift (ui_parse (e_xml e) xml)) (\<lambda>snap.
         dret (package, snap, detect_risk snap (man_risk_texts man))))) ?Q" for package
      by (intro dhoare_if dump) (simp add: dhoare_lift)
  qed (auto split: sum.splits)
qed

section \<open>What a result means\<close>

text \<open>The taps an action performs when nothing stops it: a comment opens the box and submits.\<close>

definition full_taps :: "action_request \<Rightarrow> bool list" where
  "full_taps rq = (if rq_action rq = ''comment'' then [True, True] else [True])"

text \<open>The mutation flag says exactly whether the performing tap completed.\<close>

definition flag_exact :: "action_request \<Rightarrow> bool \<Rightarrow> bool list \<Rightarrow> bool" where
  "flag_exact rq mut ts \<longleftrightarrow> length ts \<le> length (full_taps rq) \<and> (mut \<longleftrightarrow> ts = full_taps rq)"

text \<open>
  The fields agree with each other: a success was attempted and is known; an action found done was
  not attempted; a blocked action is known exactly when it was not attempted; an unknown one was.
  Everything but a success stops the account.
\<close>

definition honest :: "action_result \<Rightarrow> bool" where
  "honest res \<longleftrightarrow> (case res_status res of
     SUCCEEDED \<Rightarrow> res_outcome_known res \<and> \<not> res_halt res \<and> res_mutation_attempted res \<and>
       res_before_done res = Some False \<and> res_after_done res = Some True
   | ALREADY_DONE \<Rightarrow> res_outcome_known res \<and> \<not> res_halt res \<and> \<not> res_mutation_attempted res \<and>
       res_before_done res = Some True
   | BLOCKED \<Rightarrow> res_halt res \<and> (res_outcome_known res \<longleftrightarrow> \<not> res_mutation_attempted res)
   | UNKNOWN \<Rightarrow> res_halt res \<and> \<not> res_outcome_known res \<and> res_mutation_attempted res)"

text \<open>The screen shows the page of the requested target, and of the author to follow.\<close>

definition target_confirmed :: "calibration_manifest \<Rightarrow> action_request \<Rightarrow> ui_snapshot \<Rightarrow> bool" where
  "target_confirmed man rq snap \<longleftrightarrow> (case rq_target_hash rq of None \<Rightarrow> True
     | Some h \<Rightarrow> (case map_of (man_target_markers man) h of None \<Rightarrow> False
       | Some tc \<Rightarrow> markers_verified snap (tc_markers tc) \<and>
           (case rq_follow_target_handle rq of None \<Rightarrow> True
            | Some f \<Rightarrow> f = tc_author_handle tc \<and> markers_verified snap (tc_follow_markers tc))))"

text \<open>The comment typed is on the screen, once and exactly.\<close>

definition typed_back :: "action_request \<Rightarrow> action_calibration \<Rightarrow> ui_snapshot \<Rightarrow> bool" where
  "typed_back rq cal snap \<longleftrightarrow> (\<exists>typed sel nd. cal_typed cal = Some typed \<and>
     selector_resolve (rq_comment rq) typed = Inr sel \<and> matching snap sel = [nd])"

text \<open>
  A tap is safe on a screen without risk text that shows the target, at the point of the one
  enabled and clickable node that the calibrated trigger or submit selector matches; a submit needs
  the comment read back.
\<close>

definition tap_safe :: "device_env \<Rightarrow> engine \<Rightarrow> action_request \<Rightarrow> action_calibration \<Rightarrow>
    string option \<Rightarrow> int \<times> int \<Rightarrow> bool" where
  "tap_safe e eng rq cal scr pt \<longleftrightarrow> (\<exists>out snap sel nd. scr = Some out \<and> ui_parse (e_xml e) out = Inr snap \<and>
     detect_risk snap (man_risk_texts (eng_manifest eng)) = [] \<and> target_confirmed (eng_manifest eng) rq snap \<and>
     (sel = cal_trigger cal \<or> cal_submit cal = Some sel \<and> typed_back rq cal snap) \<and>
     matching snap sel = [nd] \<and> tap_point nd = Inr pt)"

text \<open>The last screen read shows the done state of the action, on the target's page, with no risk text.\<close>

definition confirmed :: "device_env \<Rightarrow> engine \<Rightarrow> action_request \<Rightarrow> action_calibration \<Rightarrow> agent \<Rightarrow> bool" where
  "confirmed e eng rq cal s \<longleftrightarrow> (\<exists>snap done_sel. shows_snap e snap s \<and>
     detect_risk snap (man_risk_texts (eng_manifest eng)) = [] \<and> target_confirmed (eng_manifest eng) rq snap \<and>
     resolved_done cal (rq_comment rq) = Inr done_sel \<and> has_any snap done_sel)"

text \<open>The postcondition of the body: a result, or an exception for the \<open>except\<close> clause.\<close>

definition body_post :: "device_env \<Rightarrow> engine \<Rightarrow> action_request \<Rightarrow> action_calibration \<Rightarrow>
    (dev_error, action_result) result \<Rightarrow> agent \<Rightarrow> bool" where
  "body_post e eng rq cal r s \<longleftrightarrow> taps_ok (tap_safe e eng rq cal) None (ag_log s) \<and> (case r of
     Inl err \<Rightarrow> caught err \<and> flag_exact rq (ag_mutation s) (tap_outcomes (ag_log s))
   | Inr res \<Rightarrow> honest res \<and> flag_exact rq (res_mutation_attempted res) (tap_outcomes (ag_log s)) \<and>
       (res_status res = SUCCEEDED \<longrightarrow> confirmed e eng rq cal s))"

lemma target_verification_confirmed:
  assumes "target_verification man snap (rq_target_hash rq) (rq_follow_target_handle rq) = (tv, fv, tc)"
    and "tv \<noteq> Some False" "fv \<noteq> Some False"
  shows "target_confirmed man rq snap"
  using assms by (auto simp: target_verification_def target_confirmed_def split: option.splits if_splits)

lemma framed_confirmed [simp]: "framed (confirmed e eng rq cal)"
  unfolding framed_def confirmed_def shows_snap_def by simp

text \<open>Ending with a result: the state need only be right for the fields given.\<close>

lemma body_result:
  assumes "framed I" "\<And>s. I s \<Longrightarrow> at_point (tap_safe e eng rq cal) ts m b s"
    and "flag_exact rq mut ts" "\<And>s. I s \<Longrightarrow> st = SUCCEEDED \<Longrightarrow> confirmed e eng rq cal s"
    and "\<And>res. res_status res = st \<Longrightarrow> res_outcome_known res = known \<Longrightarrow> res_halt res = halt \<Longrightarrow>
      res_mutation_attempted res = mut \<Longrightarrow> res_before_done res = before \<Longrightarrow> res_after_done res = after \<Longrightarrow> honest res"
  shows "dhoare I (result_of e rq st reason known halt mut before after retry) (body_post e eng rq cal)"
  by (rule result_of_hoare [OF assms(1)])
     (use assms(2-5) in \<open>auto simp: body_post_def at_point_def\<close>)

text \<open>A quiet computation, then a continuation: an exception is fine as long as the flag is exact.\<close>

lemma body_quiet:
  assumes "quiet m" "framed I" "\<And>s. I s \<Longrightarrow> at_point (tap_safe e eng rq cal) ts mut b s" "flag_exact rq mut ts"
    and "\<And>x. dhoare I (f x) (body_post e eng rq cal)"
  shows "dhoare I (dbind m f) (body_post e eng rq cal)"
  by (rule dhoare_bind [OF dhoare_conseq [OF quiet_hoare [OF assms(1,2)]] assms(5)])
     (use assms(3,4) in \<open>auto simp: body_post_def at_point_def split: sum.splits\<close>)

text \<open>A value or an exception, then a continuation.\<close>

lemma body_lift:
  assumes "\<And>err. r = Inl err \<Longrightarrow> caught err" "\<And>s. I s \<Longrightarrow> at_point (tap_safe e eng rq cal) ts mut b s"
    "flag_exact rq mut ts" "\<And>x. r = Inr x \<Longrightarrow> dhoare I (f x) (body_post e eng rq cal)"
  shows "dhoare I (dbind (dlift r) f) (body_post e eng rq cal)"
proof (cases r)
  case (Inl err)
  then show ?thesis using assms(1-3)
    by (auto simp: dhoare_def dbind_def dlift_def body_post_def at_point_def)
next
  case (Inr x)
  then show ?thesis using assms(4) by (simp add: dhoare_def dbind_def dlift_def)
qed

lemma risk_result_hoare:
  assumes "flag_exact rq mut ts" "known \<longleftrightarrow> \<not> mut"
  shows "dhoare (at_point (tap_safe e eng rq cal) ts mut b)
    (risk_result e eng rq risks known mut before) (body_post e eng rq cal)"
  unfolding risk_result_def
  by (rule body_quiet [OF quiet_cooldown framed_at_point _ assms(1)])
     (use assms in \<open>auto intro!: body_result simp: honest_def\<close>)

text \<open>Reading the screen, then a continuation that may use what is on it.\<close>

lemma read_ui_then:
  assumes "\<And>p snap. dhoare (\<lambda>s. at_point P ts mut b s \<and> shows_snap e snap s)
      (f (p, snap, detect_risk snap (man_risk_texts man))) Q"
    and "\<And>err s. caught err \<Longrightarrow> at_point P ts mut b s \<Longrightarrow> Q (Inl err) s"
  shows "dhoare (at_point P ts mut b) (dbind (read_ui e man) f) Q"
proof (rule dhoare_bind [OF dhoare_conseq [OF read_ui_hoare]])
  show "dhoare (\<lambda>s. at_point P ts mut b s \<and> shows_snap e (fst (snd x)) s \<and>
      snd (snd x) = detect_risk (fst (snd x)) (man_risk_texts man)) (f x) Q" for x
    using assms(1) [of "fst (snd x)" "fst x"] by (cases x) (auto simp: dhoare_def)
qed (use assms(2) in \<open>auto split: sum.splits\<close>)

lemma confirm_phase_hoare:
  assumes done_sel: "resolved_done cal (rq_comment rq) = Inr done_sel"
  shows "dhoare (at_point (tap_safe e eng rq cal) (full_taps rq) True (Some False))
    (confirm_phase e eng rq done_sel) (body_post e eng rq cal)"
    (is "dhoare ?I _ ?Q")
proof -
  have fx: "flag_exact rq True (full_taps rq)" by (simp add: flag_exact_def)
  have unknown: "dhoare ?I (dbind (lim_record_cooldown e eng False) (\<lambda>_.
      result_of e rq UNKNOWN reason False True True (Some False) after 0)) ?Q" for reason after
    by (rule body_quiet [OF quiet_cooldown framed_at_point _ fx])
       (auto intro!: body_result fx simp: honest_def)
  have after: "dhoare (\<lambda>s. ?I s \<and> shows_snap e snap s) (confirm_screen e eng rq done_sel snap risks) ?Q"
    if r: "risks = detect_risk snap (man_risk_texts (eng_manifest eng))" for snap risks
  proof -
    obtain tv fv tc where tv: "target_verification (eng_manifest eng) snap (rq_target_hash rq)
        (rq_follow_target_handle rq) = (tv, fv, tc)" by (metis prod_cases3)
    have ok: "dhoare (\<lambda>s. ?I s \<and> shows_snap e snap s)
       (result_of e rq SUCCEEDED ''done_state_confirmed'' True False True (Some False) (Some True) 0) ?Q"
      if "risks = []" "tv \<noteq> Some False" "fv \<noteq> Some False" "has_any snap done_sel"
      using that r done_sel target_verification_confirmed [OF tv]
      by (intro body_result [where ts = "full_taps rq" and b = "Some False"])
         (auto simp: honest_def confirmed_def intro: fx)
    show ?thesis
      unfolding confirm_screen_def tv prod.case
      by (intro dhoare_if ok dhoare_pre [OF unknown] dhoare_pre [OF risk_result_hoare [OF fx]]) auto
  qed
  have err: "?Q (Inl err) s" if "caught err" "?I s" for err s
    using that fx by (simp add: body_post_def at_point_def)
  show ?thesis
    unfolding confirm_phase_def
    by (intro body_quiet [OF quiet_mutation framed_at_point _ fx]
          body_quiet [OF quiet_settle framed_at_point _ fx] read_ui_then err)
       (simp_all only: prod.case after)
qed

section \<open>The phases that tap\<close>

lemma input_text_hoare:
  "dhoare (at_point P ts mut b) (adb_input_text e v) (\<lambda>r s. at_point P ts mut b s \<and>
     (case r of Inl err \<Rightarrow> caught err | Inr _ \<Rightarrow> True))"
  unfolding adb_input_text_def
  by (intro dhoare_if dhoare_lift
        dhoare_bind [OF dhoare_conseq [OF adb_run_hoare], where A = "\<lambda>_. at_point P ts mut b"])
     (auto intro!: dhoare_ret split: sum.splits)

text \<open>A phase that may return early.\<close>

definition early_post :: "device_env \<Rightarrow> engine \<Rightarrow> action_request \<Rightarrow> action_calibration \<Rightarrow>
    (dev_error, action_result option) result \<Rightarrow> agent \<Rightarrow> bool" where
  "early_post e eng rq cal r s \<longleftrightarrow> (case r of
     Inl err \<Rightarrow> body_post e eng rq cal (Inl err) s
   | Inr (Some res) \<Rightarrow> body_post e eng rq cal (Inr res) s
   | Inr None \<Rightarrow> at_point (tap_safe e eng rq cal) (full_taps rq) True (Some False) s)"

lemma early_error:
  "caught err \<Longrightarrow> at_point (tap_safe e eng rq cal) ts mut b s \<Longrightarrow> flag_exact rq mut ts \<Longrightarrow>
     early_post e eng rq cal (Inl err) s"
  by (simp add: early_post_def body_post_def at_point_def)

lemma early_return:
  "dhoare I m (body_post e eng rq cal) \<Longrightarrow> dhoare I (dbind m (\<lambda>r. dret (Some r))) (early_post e eng rq cal)"
  by (rule dhoare_bind [where A = "\<lambda>res. body_post e eng rq cal (Inr res)"])
     (auto simp: early_post_def intro!: dhoare_ret elim!: dhoare_conseq split: sum.splits)

lemma early_lift:
  assumes "\<And>err. r = Inl err \<Longrightarrow> caught err" "\<And>s. I s \<Longrightarrow> at_point (tap_safe e eng rq cal) ts mut b s"
    "flag_exact rq mut ts" "\<And>x. r = Inr x \<Longrightarrow> dhoare I (f x) (early_post e eng rq cal)"
  shows "dhoare I (dbind (dlift r) f) (early_post e eng rq cal)"
proof (cases r)
  case (Inl err)
  have "early_post e eng rq cal (Inl err) s" if "I s" for s
    by (rule early_error [OF assms(1) [OF Inl] assms(2) [OF that] assms(3)])
  then show ?thesis using Inl by (simp add: dhoare_def dbind_def dlift_def)
next
  case (Inr x)
  then show ?thesis using assms(4) by (simp add: dhoare_def dbind_def dlift_def)
qed

lemma early_quiet:
  assumes "quiet m" "framed I" "\<And>s. I s \<Longrightarrow> at_point (tap_safe e eng rq cal) ts mut b s" "flag_exact rq mut ts"
    and "\<And>x. dhoare I (f x) (early_post e eng rq cal)"
  shows "dhoare I (dbind m f) (early_post e eng rq cal)"
  by (rule dhoare_bind [OF dhoare_conseq [OF quiet_hoare [OF assms(1,2)]] assms(5)])
     (use assms(3) in \<open>auto split: sum.splits intro: early_error [OF _ _ assms(4)]\<close>)

text \<open>The last tap of an action, once the screen is known to allow it.\<close>

lemma performing_tap:
  assumes "full_taps rq = ts @ [True]" "\<And>s. I s \<Longrightarrow> at_point (tap_safe e eng rq cal) ts False (Some False) s"
    and "\<And>s. I s \<Longrightarrow> tap_safe e eng rq cal (screen_of (ag_log s)) pt"
  shows "dhoare I (dbind (mutating_tap e pt) (\<lambda>_. dret None)) (early_post e eng rq cal)"
proof (rule dhoare_bind [OF dhoare_conseq [OF mutating_tap_hoare]])
  show "dhoare (at_point (tap_safe e eng rq cal) (ts @ [True]) True (Some False)) (dret None) (early_post e eng rq cal)"
    using assms(1) by (auto intro!: dhoare_ret simp: early_post_def)
next
  have fx: "flag_exact rq False ts" "flag_exact rq False (ts @ [False])"
    using assms(1) by (auto simp: flag_exact_def)
  fix r s
  assume q: "case r of Inl err \<Rightarrow> caught err \<and> (at_point (tap_safe e eng rq cal) ts False (Some False) s \<or>
      at_point (tap_safe e eng rq cal) (ts @ [False]) False (Some False) s)
    | Inr _ \<Rightarrow> at_point (tap_safe e eng rq cal) (ts @ [True]) True (Some False) s"
  then show "case r of Inl err \<Rightarrow> early_post e eng rq cal (Inl err) s
    | Inr x \<Rightarrow> at_point (tap_safe e eng rq cal) (ts @ [True]) True (Some False) s"
    using fx by (auto split: sum.splits intro: early_error)
qed (use assms(2,3) in auto)

lemma unique_node_error: "unique_node snap sel = Inl err \<Longrightarrow> caught err"
  by (auto simp: unique_node_def split: list.splits)

lemma tap_point_error: "tap_point nd = Inl err \<Longrightarrow> caught err"
  by (auto simp: tap_point_def split: if_splits option.splits)

lemma resolve_error: "selector_resolve c sel = Inl err \<Longrightarrow> caught err"
  by (auto simp: selector_resolve_def replace_comment_def result_eqs split: if_splits)

lemma rmapM_error: "rmapM f xs = Inl err \<Longrightarrow> \<exists>x. f x = Inl err"
  by (induction xs) (auto simp: result_eqs)

lemma resolved_done_error: "resolved_done cal c = Inl err \<Longrightarrow> caught err"
  unfolding resolved_done_def by (drule rmapM_error) (auto dest: resolve_error)

text \<open>After the comment has been typed: the read-back screen decides.\<close>

lemma submit_hoare:
  assumes comment: "rq_action rq = ''comment''" and handle: "rq_follow_target_handle rq = None"
    and risks: "detect_risk snap (man_risk_texts (eng_manifest eng)) = []"
    and tv: "target_verification (eng_manifest eng) snap (rq_target_hash rq) None = (tv, fv, tc)"
    and target: "\<not> (rq_target_hash rq \<noteq> None \<and> (tc = None \<or> tv = Some False))"
    and cal: "cal_typed cal = Some typed" "cal_submit cal = Some submit_selector"
  shows "dhoare (\<lambda>s. at_point (tap_safe e eng rq cal) [True] False (Some False) s \<and> shows_snap e snap s)
    (submit_tap e rq deadline snap typed submit_selector)
    (early_post e eng rq cal)"
  (is "dhoare ?I _ ?Q")
proof -
  have fx: "flag_exact rq False [True]" using comment by (simp add: flag_exact_def full_taps_def)
  have "fv = None" using tv by (auto simp: target_verification_def split: option.splits)
  then have tc: "target_confirmed (eng_manifest eng) rq snap"
    using target_verification_confirmed [of "eng_manifest eng" snap rq tv fv tc] tv handle target
    by (cases "rq_target_hash rq") (auto simp: target_confirmed_def)
  have safe: "tap_safe e eng rq cal (screen_of (ag_log s)) pt"
    if "shows_snap e snap s" "selector_resolve (rq_comment rq) typed = Inr sel" "unique_node snap sel = Inr nd"
      "unique_node snap submit_selector = Inr sub" "tap_point sub = Inr pt" for s sel nd sub pt
    using that risks tc cal unique_node_InrD
    by (fastforce simp: tap_safe_def shows_snap_def typed_back_def)
  show ?thesis
    unfolding submit_tap_def
  proof (intro early_lift [where ts = "[True]" and mut = False and b = "Some False"] fx early_quiet [OF quiet_deadline _ _ fx]
      dhoare_if early_return)
    show "dhoare ?I (result_of e rq BLOCKED ''operation_deadline_before_comment_submit'' True True False
           (Some False) None 0) (body_post e eng rq cal)"
      by (rule body_result [OF _ _ fx]) (auto simp: honest_def)
  next
    fix sel nd sub pt
    assume "selector_resolve (rq_comment rq) typed = Inr sel" "unique_node snap sel = Inr nd"
      "unique_node snap submit_selector = Inr sub" "tap_point sub = Inr pt"
    then show "dhoare ?I (dbind (mutating_tap e pt) (\<lambda>_. dret None)) ?Q"
      using comment by (intro performing_tap) (auto simp: full_taps_def intro: safe)
  qed (auto dest: resolve_error unique_node_error tap_point_error)
qed

lemma submit_phase_hoare:
  assumes comment: "rq_action rq = ''comment''" and handle: "rq_follow_target_handle rq = None"
    and risks: "risks = detect_risk snap (man_risk_texts (eng_manifest eng))"
  shows "dhoare (\<lambda>s. at_point (tap_safe e eng rq cal) [True] False (Some False) s \<and> shows_snap e snap s)
    (submit_phase e eng rq deadline cal snap risks) (early_post e eng rq cal)" (is "dhoare ?I _ ?Q")
proof -
  have fx: "flag_exact rq False [True]" using comment by (simp add: flag_exact_def full_taps_def)
  obtain tv fv tc where tv: "target_verification (eng_manifest eng) snap (rq_target_hash rq) None = (tv, fv, tc)"
    by (metis prod_cases3)
  have risky: "dhoare ?I (risk_result e eng rq risks True False (Some False)) (body_post e eng rq cal)"
    by (rule dhoare_pre [OF risk_result_hoare [OF fx]]) auto
  have blocked: "dhoare ?I (result_of e rq BLOCKED reason True True False (Some False) None 0)
      (body_post e eng rq cal)" for reason
    by (rule body_result [OF _ _ fx]) (auto simp: honest_def)
  have submit: "dhoare ?I (case (cal_typed cal, cal_submit cal) of
      (Some typed, Some submit_selector) \<Rightarrow> submit_tap e rq deadline snap typed submit_selector
    | _ \<Rightarrow> dlift (Inl ManifestError)) ?Q"
    if "\<not> risks \<noteq> []" "\<not> (rq_target_hash rq \<noteq> None \<and> (tc = None \<or> tv = Some False))"
  proof (cases "cal_typed cal = None \<or> cal_submit cal = None")
    case True
    then show ?thesis by (auto split: option.split intro!: dhoare_lift early_error fx)
  next
    case False
    then obtain typed sub where cal: "cal_typed cal = Some typed" "cal_submit cal = Some sub" by auto
    then show ?thesis using submit_hoare [OF comment handle _ tv that(2) cal] that(1) risks by simp
  qed
  show ?thesis
    unfolding submit_phase_def tv prod.case
    by (intro dhoare_if early_return risky blocked submit [unfolded prod.case])
qed

lemma comment_phase_hoare:
  assumes comment: "rq_action rq = ''comment''" and handle: "rq_follow_target_handle rq = None"
  shows "dhoare (\<lambda>s. at_point (tap_safe e eng rq cal) [] False (Some False) s \<and>
      tap_safe e eng rq cal (screen_of (ag_log s)) pt)
    (comment_phase e eng rq deadline cal pt) (early_post e eng rq cal)"
proof -
  let ?I = "at_point (tap_safe e eng rq cal) [True] False (Some False)" and ?Q = "early_post e eng rq cal"
  have fx: "flag_exact rq False [True]" "flag_exact rq False []" "flag_exact rq False [False]"
    using comment by (auto simp: flag_exact_def full_taps_def)
  have read: "dhoare ?I (dbind (read_ui e (eng_manifest eng)) (\<lambda>(_, typed_snapshot, typed_risks).
       submit_phase e eng rq deadline cal typed_snapshot typed_risks)) ?Q"
    by (rule read_ui_then) (auto intro: submit_phase_hoare [OF comment handle] early_error fx)
  have settled: "dhoare ?I (dbind (settle (eng_manifest eng)) (\<lambda>_.
     dbind (read_ui e (eng_manifest eng)) (\<lambda>(_, typed_snapshot, typed_risks).
       submit_phase e eng rq deadline cal typed_snapshot typed_risks))) ?Q"
    by (rule early_quiet [OF quiet_settle framed_at_point _ fx(1) read])
  have typed: "dhoare ?I (dbind (adb_input_text e v) (\<lambda>_. dbind (settle (eng_manifest eng)) (\<lambda>_.
     dbind (read_ui e (eng_manifest eng)) (\<lambda>(_, typed_snapshot, typed_risks).
       submit_phase e eng rq deadline cal typed_snapshot typed_risks)))) ?Q" for v
    by (rule dhoare_bind [OF dhoare_conseq [OF input_text_hoare] settled])
       (auto intro: early_error fx split: sum.splits)
  show ?thesis
    unfolding comment_phase_def
    by (rule dhoare_bind [OF dhoare_conseq [OF adb_tap_hoare] typed])
       (auto intro: early_error fx split: sum.splits)
qed

text \<open>From a screen that shows the action is not done yet.\<close>

lemma act_phase_hoare:
  assumes rq: "request_ok rq" and done_sel: "resolved_done cal (rq_comment rq) = Inr done_sel"
    and risks: "detect_risk snap (man_risk_texts (eng_manifest eng)) = []"
    and target: "target_confirmed (eng_manifest eng) rq snap"
  shows "dhoare (\<lambda>s. at_point (tap_safe e eng rq cal) [] False (Some False) s \<and> shows_snap e snap s)
    (act_phase e eng rq deadline cal snap done_sel) (body_post e eng rq cal)" (is "dhoare ?I _ ?Q")
proof -
  have fx: "flag_exact rq False []" by (simp add: flag_exact_def full_taps_def)
  have safe: "tap_safe e eng rq cal (screen_of (ag_log s)) pt"
    if "?I s" "unique_node snap (cal_trigger cal) = Inr nd" "tap_point nd = Inr pt" for s nd pt
    using that risks target unique_node_InrD by (fastforce simp: tap_safe_def shows_snap_def)
  have early: "dhoare ?I (if rq_action rq = ''comment'' then comment_phase e eng rq deadline cal pt
      else dbind (mutating_tap e pt) (\<lambda>_. dret None)) (early_post e eng rq cal)"
    if "unique_node snap (cal_trigger cal) = Inr nd" "tap_point nd = Inr pt" for nd pt
  proof (rule dhoare_if)
    assume "rq_action rq = ''comment''"
    then show "dhoare ?I (comment_phase e eng rq deadline cal pt) (early_post e eng rq cal)"
      using rq safe [OF _ that] by (intro dhoare_pre [OF comment_phase_hoare]) (auto simp: request_ok_def)
  next
    assume "rq_action rq \<noteq> ''comment''"
    then show "dhoare ?I (dbind (mutating_tap e pt) (\<lambda>_. dret None)) (early_post e eng rq cal)"
      using safe [OF _ that] by (intro performing_tap) (auto simp: full_taps_def)
  qed
  have finish: "dhoare (early_post e eng rq cal (Inr early))
      (case early of Some r \<Rightarrow> dret r | None \<Rightarrow> confirm_phase e eng rq done_sel) ?Q" for early
  proof (cases early)
    case None
    have "dhoare (early_post e eng rq cal (Inr None)) (confirm_phase e eng rq done_sel) ?Q"
      by (rule dhoare_pre [OF confirm_phase_hoare [OF done_sel]]) (simp add: early_post_def)
    then show ?thesis using None by simp
  qed (auto simp: early_post_def intro!: dhoare_ret)
  have act: "dhoare ?I (dbind (if rq_action rq = ''comment'' then comment_phase e eng rq deadline cal pt
      else dbind (mutating_tap e pt) (\<lambda>_. dret None)) (\<lambda>early.
        case early of Some r \<Rightarrow> dret r | None \<Rightarrow> confirm_phase e eng rq done_sel)) ?Q"
    if "unique_node snap (cal_trigger cal) = Inr nd" "tap_point nd = Inr pt" for nd pt
    by (rule dhoare_bind [OF dhoare_conseq [OF early [OF that]] finish])
       (auto simp: early_post_def split: sum.splits)
  have late: "dhoare ?I (result_of e rq BLOCKED ''operation_deadline_before_mutation'' True True False
      (Some False) None 0) ?Q"
    by (rule body_result [OF _ _ fx]) (auto simp: honest_def)
  show ?thesis
    unfolding act_phase_def
    by (intro body_lift [where ts = "[]" and mut = False and b = "Some False"] body_quiet [OF quiet_deadline _ _ fx]
          dhoare_if late act fx)
       (auto dest: unique_node_error tap_point_error)
qed

lemma body_screen_hoare:
  assumes rq: "request_ok rq" and risks: "risks = detect_risk snap (man_risk_texts (eng_manifest eng))"
  shows "dhoare (\<lambda>s. at_point (tap_safe e eng rq cal) [] False None s \<and> shows_snap e snap s)
    (body_screen e eng rq deadline cal snap risks) (body_post e eng rq cal)" (is "dhoare ?I _ ?Q")
proof -
  have fx: "flag_exact rq False []" by (simp add: flag_exact_def full_taps_def)
  obtain tv fv tc where tv: "target_verification (eng_manifest eng) snap (rq_target_hash rq)
      (rq_follow_target_handle rq) = (tv, fv, tc)" by (metis prod_cases3)
  have blocked: "dhoare ?I (result_of e rq BLOCKED reason True True False None None 0) ?Q" for reason
    by (rule body_result [OF _ _ fx]) (auto simp: honest_def)
  have risky: "dhoare ?I (risk_result e eng rq risks True False None) ?Q"
    by (rule dhoare_pre [OF risk_result_hoare [OF fx]]) auto
  have found: "dhoare (\<lambda>s. at_point (tap_safe e eng rq cal) [] False (Some b) s \<and> shows_snap e snap s)
      (result_of e rq ALREADY_DONE reason True False False (Some True) (Some True) 0) ?Q" for reason b
    by (rule body_result [OF _ _ fx]) (auto simp: honest_def)
  have act: "dhoare ?I (dbind (set_before (has_any snap done_sel)) (\<lambda>_.
        if has_any snap done_sel then
          result_of e rq ALREADY_DONE ''done_state_present_before_action'' True False False (Some True) (Some True) 0
        else act_phase e eng rq deadline cal snap done_sel)) ?Q"
    if "\<not> risks \<noteq> []" "\<not> tv = Some False" "\<not> fv = Some False"
      "resolved_done cal (rq_comment rq) = Inr done_sel" for done_sel
  proof (rule dhoare_bind [where A = "\<lambda>_ s. at_point (tap_safe e eng rq cal) [] False
      (Some (has_any snap done_sel)) s \<and> shows_snap e snap s"], goal_cases)
    case 1
    show ?case by (auto simp: dhoare_def set_before_def at_point_def shows_snap_def)
  next
    case (2 x)
    show ?case
      using that risks target_verification_confirmed [OF tv]
      by (cases "has_any snap done_sel")
         (auto intro: found act_phase_hoare [OF rq, unfolded conj_imp_eq_imp_imp])
  qed
  show ?thesis
    unfolding body_screen_def tv prod.case
    by (intro dhoare_if risky blocked body_lift [where ts = "[]" and mut = False and b = None] fx act)
       (auto dest: resolved_done_error)
qed

lemma execute_body_hoare:
  assumes "request_ok rq"
  shows "dhoare (at_point (tap_safe e eng rq cal) [] False None)
    (execute_body e eng rq deadline cal) (body_post e eng rq cal)"
  unfolding execute_body_def
proof (rule read_ui_then)
  show "body_post e eng rq cal (Inl err) s"
    if "caught err" "at_point (tap_safe e eng rq cal) [] False None s" for err s
    using that by (simp add: body_post_def at_point_def flag_exact_def full_taps_def)
qed (simp add: body_screen_hoare [OF assms])

section \<open>The whole execution\<close>

text \<open>A result of the engine: honest, with an exact flag, only safe taps, and a confirmed success.\<close>

definition returns_ok :: "device_env \<Rightarrow> engine \<Rightarrow> action_request \<Rightarrow> action_calibration \<Rightarrow>
    (dev_error, action_result) result \<Rightarrow> agent \<Rightarrow> bool" where
  "returns_ok e eng rq cal r s \<longleftrightarrow> (\<exists>res. r = Inr res) \<and> body_post e eng rq cal r s"

text \<open>Recording a cooldown raises only what the \<open>except\<close> clause around it catches.\<close>

lemma lim_save_errors: "fst (lim_save e st s) = Inl err \<Longrightarrow> state_error err"
  by (auto simp: lim_save_def dbind_def tick_def dlift_def state_error_def split: option.splits)

lemma cooldown_errors:
  assumes "fst (lim_record_cooldown e eng blocked s) = Inl err"
  shows "state_error err"
proof (cases "limiter_load (ag_file s)")
  case (Inl x)
  then have "x = RateLimitStateError" by (rule load_error)
  then show ?thesis using Inl assms
    by (simp add: lim_record_cooldown_def dbind_def dlift_def state_error_def)
next
  case (Inr st)
  then show ?thesis using assms
    by (auto simp: lim_record_cooldown_def record_cooldown_def dbind_def dlift_def tick_def dest!: lim_save_errors)
qed

lemma dhoare_cooldown:
  assumes "framed I"
  shows "dhoare I (lim_record_cooldown e eng blocked)
    (\<lambda>r s. I s \<and> (case r of Inl err \<Rightarrow> state_error err | Inr _ \<Rightarrow> True))"
  using quiet_hoare [OF quiet_cooldown assms] cooldown_errors
  unfolding dhoare_def by (auto split: sum.split)

lemma execute_except_hoare:
  "dhoare (body_post e eng rq cal (Inl err)) (execute_except e eng rq err) (returns_ok e eng rq cal)"
proof (rule dhoareI)
  fix s r s'
  assume p: "body_post e eng rq cal (Inl err) s" and x: "execute_except e eng rq err s = (r, s')"
  define I where "I = at_point (tap_safe e eng rq cal) (tap_outcomes (ag_log s)) (ag_mutation s) (ag_before s)"
  have I: "I s" and fx: "flag_exact rq (ag_mutation s) (tap_outcomes (ag_log s))" and fr: "framed I"
    using p by (auto simp: I_def body_post_def at_point_def)
  have res: "dhoare I (result_of e rq st reason known True (ag_mutation s) b None 0) (returns_ok e eng rq cal)"
    if "st = (if ag_mutation s then UNKNOWN else BLOCKED)" "known \<longleftrightarrow> \<not> ag_mutation s" for st reason known b
    by (rule result_of_hoare [OF fr])
       (use that fx in \<open>auto simp: I_def returns_ok_def body_post_def at_point_def honest_def split: if_splits\<close>)
  have cool: "dhoare I (dtry (lim_record_cooldown e eng False) state_error (\<lambda>_. dret ()))
      (\<lambda>r s. I s \<and> r = Inr ())"
    by (intro dhoare_try [OF dhoare_conseq [OF dhoare_cooldown [OF fr]], where E = "\<lambda>_. I"])
       (auto intro!: dhoare_ret split: sum.splits)
  show "returns_ok e eng rq cal r s'"
  proof (cases "ag_mutation s")
    case True
    have "dhoare I (dbind (dtry (lim_record_cooldown e eng False) state_error (\<lambda>_. dret ())) (\<lambda>_.
          result_of e rq UNKNOWN (''unconfirmed_after_mutation:'' @ error_name err) False True True
            (ag_before s) None 0)) (returns_ok e eng rq cal)"
      using True res [of UNKNOWN False]
      by (intro dhoare_bind [OF dhoare_conseq [OF cool], where A = "\<lambda>_. I"]) (auto split: sum.splits)
    then show ?thesis using True I x by (auto simp: execute_except_def dest: dhoareD)
  next
    case False
    then show ?thesis using I x res [of BLOCKED True] by (auto simp: execute_except_def dest: dhoareD)
  qed
qed

lemma execute_admitted_hoare:
  assumes "request_ok rq" and cal: "map_of (man_actions (eng_manifest eng)) (rq_action rq) = Some cal"
  shows "dhoare (\<lambda>s. ag_log s = []) (execute_admitted e eng rq deadline) (returns_ok e eng rq cal)"
proof -
  have "dhoare (\<lambda>s. ag_log s = []) (dbind reset_locals (\<lambda>_.
      dtry (execute_body e eng rq deadline cal) caught (execute_except e eng rq))) (returns_ok e eng rq cal)"
  proof (rule dhoare_bind [where A = "\<lambda>_. at_point (tap_safe e eng rq cal) [] False None"])
    show "dhoare (at_point (tap_safe e eng rq cal) [] False None)
        (dtry (execute_body e eng rq deadline cal) caught (execute_except e eng rq)) (returns_ok e eng rq cal)"
      by (rule dhoare_try [OF dhoare_conseq [OF execute_body_hoare [OF assms(1)]] execute_except_hoare])
         (auto simp: returns_ok_def body_post_def split: sum.splits)
  qed (auto simp: dhoare_def reset_locals_def at_point_def)
  then show ?thesis by (simp add: execute_admitted_def cal)
qed

text \<open>The admission decision the execution starts with: the clock read after the lock is taken.\<close>

definition admission_of :: "device_env \<Rightarrow> engine \<Rightarrow> agent \<Rightarrow> (dev_error, rate_decision) result" where
  "admission_of e eng s = rate_check (eng_policy eng) (e_clock e (ag_tick s)) (ag_file s)"

definition admits :: "device_env \<Rightarrow> engine \<Rightarrow> agent \<Rightarrow> bool" where
  "admits e eng s \<longleftrightarrow> (case admission_of e eng s of Inr d \<Rightarrow> rd_allowed d | Inl _ \<Rightarrow> False)"

lemma result_of_run:
  "result_of e rq st reason known halt mut before after retry s =
     (Inr \<lparr>res_status = st, res_action = rq_action rq, res_reason = reason, res_outcome_known = known,
           res_halt = halt, res_mutation_attempted = mut, res_before_done = before,
           res_after_done = after, res_observed_at = e_clock e (ag_tick s), res_retry_after = max 0 retry\<rparr>,
      s\<lparr>ag_tick := ag_tick s + 1\<rparr>)"
  by (simp add: result_of_def dbind_def tick_def dret_def)

text \<open>An execution that is not admitted, and one whose lock is not available, send nothing.\<close>

definition idle_block :: "action_result \<Rightarrow> agent \<Rightarrow> bool" where
  "idle_block res s \<longleftrightarrow> res_status res = BLOCKED \<and> res_halt res \<and> res_outcome_known res \<and>
     \<not> res_mutation_attempted res \<and> ag_log s = []"

lemma idle_block_ok: "\<exists>res. r = Inr res \<and> idle_block res s \<Longrightarrow> returns_ok e eng rq cal r s \<and> ag_log s = []"
  by (auto simp: idle_block_def returns_ok_def body_post_def honest_def flag_exact_def full_taps_def)

lemma idle_result:
  assumes "ag_log s = []" "result_of e rq BLOCKED reason True True False before after retry s = (r, s')"
  shows "\<exists>res. r = Inr res \<and> idle_block res s'"
proof -
  have "r = fst (result_of e rq BLOCKED reason True True False before after retry s)"
    "s' = snd (result_of e rq BLOCKED reason True True False before after retry s)"
    using assms(2) by simp_all
  then show ?thesis using assms(1) by (simp add: result_of_run idle_block_def)
qed

lemma execute_locked_run:
  assumes rq: "request_ok rq" and cal: "map_of (man_actions (eng_manifest eng)) (rq_action rq) = Some cal"
    and pol: "max_actions_per_hour (eng_policy eng) > 0"
    and "ag_log s = []" and x: "execute_locked e eng rq deadline s = (r, s')"
  shows "returns_ok e eng rq cal r s'" "\<not> admits e eng s \<Longrightarrow> ag_log s' = []"
proof -
  let ?s1 = "s\<lparr>ag_tick := ag_tick s + 1\<rparr>"
  have "returns_ok e eng rq cal r s' \<and> (\<not> admits e eng s \<longrightarrow> ag_log s' = [])"
  proof (cases "admission_of e eng s")
    case (Inl err)
    then have "err = RateLimitStateError"
      by (auto simp: admission_of_def dest!: rate_check_error [OF pol] load_error)
    then have "execute_locked e eng rq deadline s =
        result_of e rq BLOCKED ''invalid_rate_limit_state'' True True False None None 0 ?s1"
      using Inl by (simp add: execute_locked_def lim_check_def admission_of_def dbind_def dtry_def tick_def dret_def)
    then have "\<exists>res. r = Inr res \<and> idle_block res s'"
      using x assms(4) idle_result [of ?s1] by fastforce
    then show ?thesis using idle_block_ok by blast
  next
    case (Inr d)
    show ?thesis
    proof (cases "rd_allowed d")
      case True
      then have "execute_locked e eng rq deadline s = execute_admitted e eng rq deadline ?s1"
        using Inr by (simp add: execute_locked_def lim_check_def admission_of_def dbind_def dtry_def tick_def dret_def)
      then have adm: "execute_admitted e eng rq deadline ?s1 = (r, s')" using x by simp
      have "returns_ok e eng rq cal r s'"
        by (rule dhoareD [OF execute_admitted_hoare [OF rq cal] _ adm]) (simp add: assms(4))
      then show ?thesis using Inr True by (simp add: admits_def)
    next
      case False
      then have "\<exists>reason. execute_locked e eng rq deadline s =
          result_of e rq BLOCKED reason True True False None None (rd_retry_after d) ?s1"
        using Inr by (intro exI)
          (simp add: execute_locked_def lim_check_def admission_of_def dbind_def dtry_def tick_def dret_def)
      then have "\<exists>res. r = Inr res \<and> idle_block res s'"
        using x assms(4) idle_result [of ?s1] by fastforce
      then show ?thesis using idle_block_ok by blast
    qed
  qed
  then show "returns_ok e eng rq cal r s'" "\<not> admits e eng s \<Longrightarrow> ag_log s' = []" by blast+
qed

text \<open>With the lock: as long as releasing it does not fail.\<close>

lemma execute_run:
  assumes rq: "request_ok rq" and cal: "map_of (man_actions (eng_manifest eng)) (rq_action rq) = Some cal"
    and pol: "max_actions_per_hour (eng_policy eng) > 0"
    and unlock: "\<And>i. e_unlock e i = None"
    and log0: "ag_log s = []" and x: "execute e eng rq deadline s = (r, s')"
  shows "returns_ok e eng rq cal r s'"
    "e_lock e (ag_tick s) \<noteq> Acquired \<or> \<not> admits e eng (s\<lparr>ag_tick := ag_tick s + 1\<rparr>) \<Longrightarrow> ag_log s' = []"
proof -
  let ?s1 = "s\<lparr>ag_tick := ag_tick s + 1\<rparr>"
  have "returns_ok e eng rq cal r s' \<and>
    (e_lock e (ag_tick s) \<noteq> Acquired \<or> \<not> admits e eng ?s1 \<longrightarrow> ag_log s' = [])"
  proof (cases "e_lock e (ag_tick s) = Acquired")
    case True
    obtain r1 s2 where b: "execute_locked e eng rq deadline ?s1 = (r1, s2)" by fastforce
    note run = execute_locked_run [OF rq cal pol _ b]
    have ok: "returns_ok e eng rq cal r1 s2" using run(1) log0 by simp
    then obtain res where res: "r1 = Inr res" by (auto simp: returns_ok_def)
    have "r = r1 \<and> s' = s2\<lparr>ag_tick := ag_tick s2 + 1\<rparr>"
      using x b True unlock res by (simp add: execute_def dbind_def tick_def dlift_def)
    then show ?thesis
      using ok run(2) log0 True by (auto simp: returns_ok_def body_post_def confirmed_def shows_snap_def split: sum.splits)
  next
    case False
    then obtain reason where "execute e eng rq deadline s =
        result_of e rq BLOCKED reason True True False None None 0 ?s1"
      by (cases "e_lock e (ag_tick s)") (auto simp: execute_def dbind_def tick_def)
    then have "\<exists>res. r = Inr res \<and> idle_block res s'"
      using x log0 idle_result [of ?s1] by fastforce
    then show ?thesis using idle_block_ok by blast
  qed
  then show "returns_ok e eng rq cal r s'"
    "e_lock e (ag_tick s) \<noteq> Acquired \<or> \<not> admits e eng ?s1 \<Longrightarrow> ag_log s' = []" by blast+
qed

section \<open>A concrete device\<close>

text \<open>Every dump shows the same two buttons: one to like, one to open the comments.\<close>

definition demo_node :: "string \<Rightarrow> xml" where
  "demo_node t = Elem ''node'' [(''text'', t), (''enabled'', ''true''), (''clickable'', ''true''),
     (''bounds'', ''[10,20][30,60]'')] []"

definition demo_screen :: "string list \<Rightarrow> string" where
  "demo_screen ts = ''<hierarchy '' @ concat ts"

definition demo_focus :: string where
  "demo_focus = ''mCurrentFocus=Window{1 u0 com.ss.android.ugc.aweme/.Main}''"

definition demo_run_adb :: "nat \<Rightarrow> adb_cmd \<Rightarrow> run_outcome" where
  "demo_run_adb i c = (case c of
     DumpWindows \<Rightarrow> Exited 0 demo_focus []
   | CatDump \<Rightarrow> Exited 0 (demo_screen (if i < 8 then [''Like''] else [''Liked''])) []
   | _ \<Rightarrow> Exited 0 [] [])"

definition demo_xml :: "string \<Rightarrow> xml option" where
  "demo_xml s = (if s = demo_screen [''Like''] then Some (Elem ''hierarchy'' [] [demo_node ''Like''])
     else if s = demo_screen [''Liked''] then Some (Elem ''hierarchy'' [] [demo_node ''Liked'']) else None)"

definition demo_env :: device_env where
  "demo_env = \<lparr>e_run = demo_run_adb, e_clock = (\<lambda>i. of_nat i), e_mono = (\<lambda>i. of_nat i), e_save = (\<lambda>_. None),
     e_lock = (\<lambda>_. Acquired), e_unlock = (\<lambda>_. None), e_xml = demo_xml\<rparr>"

definition demo_engine :: engine where
  "demo_engine = \<lparr>eng_manifest = demo_manifest, eng_policy = default_rate_policy\<rparr>"

definition demo_request :: action_request where
  "demo_request = \<lparr>rq_action = ''like'', rq_comment = None, rq_target_hash = None, rq_follow_target_handle = None\<rparr>"

definition demo_agent :: agent where
  "demo_agent = \<lparr>ag_tick = 0, ag_log = [], ag_file = NoFile, ag_mutation = False, ag_before = None\<rparr>"

definition demo_snap :: "string \<Rightarrow> ui_snapshot" where
  "demo_snap t = \<lparr>snap_nodes = [\<lparr>nd_text = t, nd_resource_id = [], nd_content_desc = [],
     nd_bounds = Some (10, 20, 30, 60), nd_enabled = True, nd_clickable = True\<rparr>], snap_xml = demo_screen [t]\<rparr>"

lemma demo_foreground: "first_package (splitlines demo_focus) = Some ''com.ss.android.ugc.aweme''"
  by code_simp

lemma demo_like_parses: "ui_parse demo_xml (demo_screen [''Like'']) = Inr (demo_snap ''Like'')"
  by code_simp

lemma demo_liked_parses: "ui_parse demo_xml (demo_screen [''Liked'']) = Inr (demo_snap ''Liked'')"
  by code_simp

lemma demo_dump_ok:
  "contains_sub (demo_screen ts) ''<hierarchy''" "int (length (demo_screen [''Like''])) \<le> MAX_XML_CHARS"
  "int (length (demo_screen [''Liked''])) \<le> MAX_XML_CHARS"
  by (simp_all add: demo_screen_def MAX_XML_CHARS_def starts_with_def)

lemma demo_like_risk: "detect_risk (demo_snap ''Like'') (man_risk_texts demo_manifest) = []"
  by code_simp

lemma demo_liked_risk: "detect_risk (demo_snap ''Liked'') (man_risk_texts demo_manifest) = []"
  by code_simp

lemma demo_package: "man_package demo_manifest = ''com.ss.android.ugc.aweme''"
  by (simp add: demo_manifest_def)

lemmas demo_pieces = demo_foreground demo_like_parses demo_liked_parses demo_dump_ok demo_like_risk
  demo_liked_risk demo_package

lemmas dev_run = dbind_def dtry_def dret_def dlift_def tick_def set_mutation_def set_before_def reset_locals_def
  result_of_run adb_run_def adb_tap_def mutating_tap_def

text \<open>Reading the screen takes three commands; the screen changes after the eighth interaction.\<close>

definition demo_text :: "nat \<Rightarrow> string" where
  "demo_text i = (if i < 8 then ''Like'' else ''Liked'')"

definition demo_env_like :: "device_env \<Rightarrow> bool" where
  "demo_env_like env \<longleftrightarrow> (\<forall>i c. \<not> is_tap c \<longrightarrow> e_run env i c = demo_run_adb i c) \<and> e_xml env = demo_xml"

lemma demo_read:
  assumes "demo_env_like env"
  shows "read_ui env demo_manifest s =
     (Inr (''com.ss.android.ugc.aweme'', demo_snap (demo_text (ag_tick s + 2)), []),
      s\<lparr>ag_tick := ag_tick s + 3, ag_log := ag_log s @
        [(DumpWindows, Some demo_focus), (DumpUi, Some []), (CatDump, Some (demo_screen [demo_text (ag_tick s + 2)]))]\<rparr>)"
proof -
  have run: "e_run env i DumpWindows = Exited 0 demo_focus []" "e_run env i DumpUi = Exited 0 [] []"
    "e_run env i CatDump = Exited 0 (demo_screen [demo_text i]) []" for i
    using assms by (simp_all add: demo_env_like_def demo_run_adb_def demo_text_def)
  have parse: "ui_parse (e_xml env) (demo_screen [demo_text i]) = Inr (demo_snap (demo_text i))"
    "\<not> MAX_XML_CHARS < int (length (demo_screen [demo_text i]))"
    "detect_risk (demo_snap (demo_text i)) (man_risk_texts demo_manifest) = []" for i
    using assms demo_pieces by (simp_all add: demo_text_def demo_env_like_def not_less)
  have fg: "foreground_package env s = (Inr ''com.ss.android.ugc.aweme'',
      s\<lparr>ag_tick := ag_tick s + 1, ag_log := ag_log s @ [(DumpWindows, Some demo_focus)]\<rparr>)" for s
    by (simp add: foreground_package_def dbind_def adb_run_def run dlift_def demo_foreground)
  have dump: "dump_ui_xml env s = (Inr (demo_screen [demo_text (ag_tick s + 1)]),
      s\<lparr>ag_tick := ag_tick s + 2, ag_log := ag_log s @ [(DumpUi, Some []),
         (CatDump, Some (demo_screen [demo_text (ag_tick s + 1)]))]\<rparr>)" for s
    by (simp add: dump_ui_xml_def dbind_def adb_run_def run dlift_def parse demo_dump_ok(1))
  show ?thesis
    by (simp add: read_ui_def dbind_def fg dump dlift_def dret_def parse demo_package)
qed

lemma demo_like_cal:
  "map_of (man_actions demo_manifest) ''like'' = Some (demo_cal ''Like'' ''Liked'')"
  "resolved_done (demo_cal ''Like'' ''Liked'') None = Inr [demo_sel ''Liked'']"
  "cal_trigger (demo_cal ''Like'' ''Liked'') = demo_sel ''Like''"
  by (simp_all add: demo_manifest_def resolved_done_def demo_cal_def selector_resolve_def replace_comment_def
      demo_sel_def COMMENT_PLACEHOLDER_def)

lemma demo_like_screen:
  "unique_node (demo_snap ''Like'') (demo_sel ''Like'') = Inr (hd (snap_nodes (demo_snap ''Like'')))"
  "tap_point (hd (snap_nodes (demo_snap ''Like''))) = Inr (20, 40)"
  "\<not> has_any (demo_snap ''Like'') [demo_sel ''Liked'']" "has_any (demo_snap ''Liked'') [demo_sel ''Liked'']"
  by (simp_all add: unique_node_def matching_def node_matches_def demo_snap_def demo_sel_def tap_point_def has_any_def)

lemma demo_admitted:
  "rate_check default_rate_policy 1 NoFile = Inr \<lparr>rd_allowed = True, rd_reason = None, rd_retry_after = 0\<rparr>"
  by (simp add: rate_check_def default_rate_policy_def recent_times_def)

lemma demo_env_simps [simp]:
  "e_clock demo_env i = of_nat i" "e_save demo_env i = None" "e_lock demo_env i = Acquired"
  "e_unlock demo_env i = None" "e_run demo_env = demo_run_adb" "demo_env_like demo_env"
  by (simp_all add: demo_env_def demo_env_like_def)

lemmas demo_steps = execute_def execute_locked_def execute_admitted_def execute_body_def body_screen_def
  act_phase_def confirm_phase_def confirm_screen_def target_verification_def lim_check_def
  lim_record_mutation_def lim_save_def record_mutation_def settle_def deadline_passed_def dev_run
  demo_read demo_like_cal demo_like_screen demo_admitted demo_engine_def demo_request_def demo_agent_def demo_text_def
  demo_run_adb_def

lemma demo_execute:
  "rmap res_status (fst (execute demo_env demo_engine demo_request None demo_agent)) = Inr SUCCEEDED \<and>
   tap_outcomes (ag_log (snd (execute demo_env demo_engine demo_request None demo_agent))) = [True]"
  by (simp add: demo_steps tap_outcomes_def)

section \<open>Properties\<close>

text \<open>
  C6. Honest outcomes of a device action. For every accepted manifest, valid request and accepted
  rate policy, and whatever ADB, the clocks, the file system and the lock do (releasing the lock
  apart), \<open>execute\<close> returns a result, never an exception; the result's fields agree: an action
  that was attempted is either confirmed as succeeded or reported with an unknown outcome and a
  halt, and one reported with a known failure was not attempted. The mutation flag is exact for
  completed taps: it is set if and only if the tap that performs the action completed, and an
  execution sends at most that tap, after the one that opens the comment box.
\<close>

theorem device_outcome_is_honest:
  assumes "manifest_from_mapping v = Inr (eng_manifest eng)" and "make_request rq0 = Inr rq"
    and "rate_policy_ok pol0 = Inr (eng_policy eng)"
    and "\<And>i. e_unlock e i = None" and "ag_log s = []"
    and "execute e eng rq deadline s = (r, s')"
  shows "\<exists>res. r = Inr res \<and> honest res \<and>
    flag_exact rq (res_mutation_attempted res) (tap_outcomes (ag_log s'))"
proof -
  have rq: "request_ok rq" "rq_action rq \<in> set SUPPORTED_ACTIONS"
    using assms(2) by (auto simp: make_request_def request_ok_def split: if_splits)
  have pol: "max_actions_per_hour (eng_policy eng) > 0"
    using assms(3) by (auto simp: rate_policy_ok_def split: if_splits)
  obtain cal where cal: "map_of (man_actions (eng_manifest eng)) (rq_action rq) = Some cal"
    using manifest_action_lookup [OF assms(1) rq(2)] by blast
  show ?thesis
    using execute_run(1) [OF rq(1) cal pol assms(4-6)] by (auto simp: returns_ok_def body_post_def)
qed

lemma demo_setup:
  "manifest_from_mapping demo_manifest_json = Inr (eng_manifest demo_engine)"
  "make_request demo_request = Inr demo_request"
  "rate_policy_ok default_rate_policy = Inr (eng_policy demo_engine)"
  "e_unlock demo_env i = None" "ag_log demo_agent = []"
  by (simp_all add: demo_engine_def demo_manifest_accepted make_request_def request_ok_def demo_request_def
      SUPPORTED_ACTIONS_def rate_policy_ok_def default_rate_policy_def demo_agent_def)

theorem device_outcome_is_honest_witness:
  "\<exists>res. fst (execute demo_env demo_engine demo_request None demo_agent) = Inr res \<and> honest res \<and>
     res_mutation_attempted res"
  using device_outcome_is_honest [OF demo_setup prod.collapse [symmetric], of None]
  using demo_execute by (auto simp: flag_exact_def full_taps_def demo_request_def)

text \<open>
  C7. Verified taps. Every tap an execution sends, whether or not it completes, is aimed at the
  single enabled, clickable node that the calibrated trigger (or, once the typed comment has been
  read back, the submit selector) matches on the screen dumped last, and that screen shows none of the
  manifest's risk texts and, for a bound request, exactly the markers of the target and of the author
  to follow. Without the account lock or without the limiter's admission no command is sent at
  all. A success is only reported when the last screen dumped shows the action's done state under
  the same conditions.
\<close>

theorem device_taps_are_verified:
  assumes "manifest_from_mapping v = Inr (eng_manifest eng)" and "make_request rq0 = Inr rq"
    and "rate_policy_ok pol0 = Inr (eng_policy eng)"
    and "\<And>i. e_unlock e i = None" and "ag_log s = []"
    and "execute e eng rq deadline s = (r, s')"
  shows "\<exists>cal. map_of (man_actions (eng_manifest eng)) (rq_action rq) = Some cal \<and>
    taps_ok (tap_safe e eng rq cal) None (ag_log s') \<and>
    (e_lock e (ag_tick s) \<noteq> Acquired \<or> \<not> admits e eng (s\<lparr>ag_tick := ag_tick s + 1\<rparr>) \<longrightarrow> ag_log s' = []) \<and>
    (\<forall>res. r = Inr res \<longrightarrow> res_status res = SUCCEEDED \<longrightarrow> confirmed e eng rq cal s')"
proof -
  have rq: "request_ok rq" "rq_action rq \<in> set SUPPORTED_ACTIONS"
    using assms(2) by (auto simp: make_request_def request_ok_def split: if_splits)
  have pol: "max_actions_per_hour (eng_policy eng) > 0"
    using assms(3) by (auto simp: rate_policy_ok_def split: if_splits)
  obtain cal where cal: "map_of (man_actions (eng_manifest eng)) (rq_action rq) = Some cal"
    using manifest_action_lookup [OF assms(1) rq(2)] by blast
  show ?thesis
    using cal execute_run [OF rq(1) cal pol assms(4-6)] by (auto simp: returns_ok_def body_post_def)
qed

theorem device_taps_are_verified_witness:
  "\<exists>cal. confirmed demo_env demo_engine demo_request cal
     (snd (execute demo_env demo_engine demo_request None demo_agent))"
proof -
  obtain res where r: "fst (execute demo_env demo_engine demo_request None demo_agent) = Inr res"
    "res_status res = SUCCEEDED"
    using demo_execute by (auto simp: rmap_eq_Inr)
  show ?thesis
    using device_taps_are_verified [OF demo_setup prod.collapse [symmetric], of None] r by blast
qed

text \<open>
  The flag is exact for completed taps only. A tap that was delivered but whose ADB command timed
  out leaves the flag unset: the result is \<open>BLOCKED\<close> with a known outcome, although the action may
  have taken effect.
\<close>

definition lost_reply_env :: device_env where
  "lost_reply_env = demo_env\<lparr>e_run := (\<lambda>i c. if is_tap c then TimedOut else demo_run_adb i c)\<rparr>"

lemma timed_out_tap_is_reported_known:
  "rmap (\<lambda>res. (res_status res, res_outcome_known res, res_mutation_attempted res))
     (fst (execute lost_reply_env demo_engine demo_request None demo_agent)) = Inr (BLOCKED, True, False) \<and>
   tap_outcomes (ag_log (snd (execute lost_reply_env demo_engine demo_request None demo_agent))) = [False]"
proof -
  have "demo_env_like lost_reply_env" "e_run lost_reply_env i (Tap x y) = TimedOut"
    "e_clock lost_reply_env i = of_nat i" "e_lock lost_reply_env i = Acquired" "e_unlock lost_reply_env i = None"
    for i x y
    by (simp_all add: demo_env_like_def lost_reply_env_def) (simp add: demo_env_def)
  then show ?thesis
    by (simp add: demo_steps tap_outcomes_def execute_except_def)
qed

end
