(* ===== verification/ControlStreams.thy ===== *)
theory ControlStreams
  imports TaskStreams
begin

text \<open>
  The transport contracts of the control streams: adapter probes
  (\<open>shared/adapter_probe_streams.py\<close>), account calibrations
  (\<open>shared/account_calibration_streams.py\<close>), browser logins (\<open>shared/login_streams.py\<close>) and manual
  discovery scans (\<open>shared/discovery_scan_streams.py\<close>). Each has one lane per platform, the first two
  also a legacy lane; an envelope is checked against its lane before it is written and before it
  is sent. The URL parser of the standard library is the argument \<open>urlsplit\<close>: the parts of
  a URL the code reads, \<open>None\<close> where parsing or reading the port raises.
\<close>

section \<open>Lanes\<close>

record control_binding =
  cb_stream_key :: string
  cb_group_name :: string
  cb_platform :: "string option"
  cb_legacy :: bool

definition LEGACY_ADAPTER_PROBE_STREAM_KEY :: string where
  "LEGACY_ADAPTER_PROBE_STREAM_KEY = ''adapter_probe_requests''"
definition LEGACY_ADAPTER_PROBE_GROUP_NAME :: string where
  "LEGACY_ADAPTER_PROBE_GROUP_NAME = ''adapter-probers''"
definition LEGACY_ACCOUNT_CALIBRATION_STREAM_KEY :: string where
  "LEGACY_ACCOUNT_CALIBRATION_STREAM_KEY = ''account_calibration_requests''"
definition LEGACY_ACCOUNT_CALIBRATION_GROUP_NAME :: string where
  "LEGACY_ACCOUNT_CALIBRATION_GROUP_NAME = ''account-calibrators''"
definition LOGIN_REQUEST_STREAM_KEY :: string where "LOGIN_REQUEST_STREAM_KEY = ''login_requests''"
definition LOGIN_REQUEST_GROUP_NAME :: string where "LOGIN_REQUEST_GROUP_NAME = ''login-workers''"

definition lane_of :: "string \<Rightarrow> string \<Rightarrow> string \<Rightarrow> control_binding" where
  "lane_of stream gname p = \<lparr>cb_stream_key = stream @ '':'' @ p, cb_group_name = gname @ '':'' @ p,
     cb_platform = Some p, cb_legacy = False\<rparr>"

definition legacy_lane :: "string \<Rightarrow> string \<Rightarrow> control_binding" where
  "legacy_lane stream gname = \<lparr>cb_stream_key = stream, cb_group_name = gname, cb_platform = None, cb_legacy = True\<rparr>"

definition PLATFORM_ADAPTER_PROBE_STREAM_BINDINGS :: "control_binding list" where
  "PLATFORM_ADAPTER_PROBE_STREAM_BINDINGS =
     map (lane_of LEGACY_ADAPTER_PROBE_STREAM_KEY LEGACY_ADAPTER_PROBE_GROUP_NAME) PLATFORM_IDS"

definition LEGACY_ADAPTER_PROBE_STREAM_BINDING :: control_binding where
  "LEGACY_ADAPTER_PROBE_STREAM_BINDING = legacy_lane LEGACY_ADAPTER_PROBE_STREAM_KEY LEGACY_ADAPTER_PROBE_GROUP_NAME"

definition PLATFORM_ACCOUNT_CALIBRATION_STREAM_BINDINGS :: "control_binding list" where
  "PLATFORM_ACCOUNT_CALIBRATION_STREAM_BINDINGS =
     map (lane_of LEGACY_ACCOUNT_CALIBRATION_STREAM_KEY LEGACY_ACCOUNT_CALIBRATION_GROUP_NAME) PLATFORM_IDS"

definition LEGACY_ACCOUNT_CALIBRATION_STREAM_BINDING :: control_binding where
  "LEGACY_ACCOUNT_CALIBRATION_STREAM_BINDING =
     legacy_lane LEGACY_ACCOUNT_CALIBRATION_STREAM_KEY LEGACY_ACCOUNT_CALIBRATION_GROUP_NAME"

definition adapter_probe_stream_bindings :: "bool \<Rightarrow> control_binding list" where
  "adapter_probe_stream_bindings include_legacy = PLATFORM_ADAPTER_PROBE_STREAM_BINDINGS @
     (if include_legacy then [LEGACY_ADAPTER_PROBE_STREAM_BINDING] else [])"

definition account_calibration_stream_bindings :: "bool \<Rightarrow> control_binding list" where
  "account_calibration_stream_bindings include_legacy = PLATFORM_ACCOUNT_CALIBRATION_STREAM_BINDINGS @
     (if include_legacy then [LEGACY_ACCOUNT_CALIBRATION_STREAM_BINDING] else [])"

definition binding_in :: "control_binding list \<Rightarrow> string \<Rightarrow> control_binding option" where
  "binding_in bs k = map_of (rev (map (\<lambda>b. (cb_stream_key b, b)) bs)) (strip k)"

definition adapter_probe_stream_binding_for_key :: "string \<Rightarrow> control_binding option" where
  "adapter_probe_stream_binding_for_key = binding_in (adapter_probe_stream_bindings True)"

definition account_calibration_stream_binding_for_key :: "string \<Rightarrow> control_binding option" where
  "account_calibration_stream_binding_for_key = binding_in (account_calibration_stream_bindings True)"

definition is_adapter_probe_stream :: "string \<Rightarrow> bool" where
  "is_adapter_probe_stream k \<longleftrightarrow> adapter_probe_stream_binding_for_key k \<noteq> None"

definition is_account_calibration_stream :: "string \<Rightarrow> bool" where
  "is_account_calibration_stream k \<longleftrightarrow> account_calibration_stream_binding_for_key k \<noteq> None"

definition is_login_request_stream :: "string \<Rightarrow> bool" where
  "is_login_request_stream k \<longleftrightarrow> strip k = LOGIN_REQUEST_STREAM_KEY"

definition is_task_stream :: "string \<Rightarrow> bool" where
  "is_task_stream k \<longleftrightarrow> task_stream_binding_for_key k \<noteq> None"

datatype control_error = Control_platform_unsupported string | Control_message_invalid
  | Control_platform_mismatch | Control_contract_invalid | Control_secret_forbidden
  | Control_fallback_invalid | Login_session_invalid | Login_platform_invalid | Login_url_invalid

definition binding_for_platform :: "control_binding list \<Rightarrow> string \<Rightarrow> (control_error, control_binding) result" where
  "binding_for_platform bs p = (let n = casefold (strip p) in
     case find (\<lambda>b. cb_platform b = Some n) bs of
       None \<Rightarrow> Inl (Control_platform_unsupported (if n = [] then ''missing'' else n)) | Some b \<Rightarrow> Inr b)"

definition adapter_probe_stream_binding_for_platform :: "string \<Rightarrow> (control_error, control_binding) result" where
  "adapter_probe_stream_binding_for_platform = binding_for_platform PLATFORM_ADAPTER_PROBE_STREAM_BINDINGS"

definition account_calibration_stream_binding_for_platform :: "string \<Rightarrow> (control_error, control_binding) result" where
  "account_calibration_stream_binding_for_platform = binding_for_platform PLATFORM_ACCOUNT_CALIBRATION_STREAM_BINDINGS"

section \<open>Envelopes\<close>

definition ADAPTER_PROBE_STREAM_FIELDS :: "string list" where
  "ADAPTER_PROBE_STREAM_FIELDS = [''probe_id'', ''platform'', ''account_id'', ''lottery_id'', ''target_url'',
     ''canonical_url'', ''execution_path_id'', ''target_hash'', ''rule_snapshot_id'', ''rule_hash'',
     ''action_plan_hash'', ''config_hash'', ''execution_revision'', ''account_lease_id'',
     ''account_lease_generation'']"

text \<open>\<open>str(message.get(k) or "").strip()\<close>.\<close>

definition text_field :: "(pyval \<Rightarrow> string) \<Rightarrow> pydict \<Rightarrow> string \<Rightarrow> string" where
  "text_field rp m k = strip (py_str rp (py_or (dget m k) (PStr [])))"

text \<open>A field Redis can carry: a string or an integer, not a bool.\<close>

fun redis_value :: "pyval \<Rightarrow> bool" where
  "redis_value (PStr _) = True"
| "redis_value (PInt _) = True"
| "redis_value _ = False"

definition validate_adapter_probe_stream_message ::
  "(pyval \<Rightarrow> string) \<Rightarrow> control_binding \<Rightarrow> pyval \<Rightarrow> (control_error, unit) result" where
  "validate_adapter_probe_stream_message rp b v = (case v of PDict message \<Rightarrow>
     let platform = casefold (text_field rp message ''platform'');
         probe_id = text_field rp message ''probe_id'' in
     if platform = [] \<or> probe_id = [] then Inl Control_message_invalid
     else rbind (adapter_probe_stream_binding_for_platform platform) (\<lambda>expected.
       if \<not> cb_legacy b \<and> cb_stream_key expected \<noteq> cb_stream_key b then Inl Control_platform_mismatch
       else if \<not> cb_legacy b \<and> fst ` set message \<noteq> set ADAPTER_PROBE_STREAM_FIELDS then Inl Control_contract_invalid
       else if list_ex (\<lambda>kv. \<not> redis_value (snd kv)) message then Inl Control_message_invalid
       else Inr ())
   | _ \<Rightarrow> Inl Control_message_invalid)"

definition SAFE_ACCOUNT_FALLBACK_STATUSES :: "string list" where
  "SAFE_ACCOUNT_FALLBACK_STATUSES = [''cold'', ''login_required'', ''ready'', ''cooling'', ''frozen'', ''banned'']"

definition SENSITIVE_FIELD_FRAGMENTS :: "string list" where
  "SENSITIVE_FIELD_FRAGMENTS = [''authorization'', ''cookie'', ''credential'', ''password'', ''private_key'',
     ''refresh_token'', ''access_token'', ''weibo_rip'']"

definition is_hex :: "char \<Rightarrow> bool" where
  "is_hex c \<longleftrightarrow> (let n = (of_char (lower_char c) :: nat) in (48 \<le> n \<and> n \<le> 57) \<or> (97 \<le> n \<and> n \<le> 102))"

text \<open>
  \<open>str(uuid.UUID(s)) == s.casefold()\<close>: of all the spellings \<open>uuid.UUID\<close> reads, only the one it
  prints, in either case.
\<close>

definition canonical_uuid :: "string \<Rightarrow> bool" where
  "canonical_uuid s \<longleftrightarrow> map length (split_on (CHR ''-'') s) = [8, 4, 4, 4, 12] \<and>
     list_all is_hex (filter (\<lambda>c. c \<noteq> CHR ''-'') s)"

definition validate_account_calibration_stream_message ::
  "(pyval \<Rightarrow> string) \<Rightarrow> control_binding \<Rightarrow> pyval \<Rightarrow> (control_error, unit) result" where
  "validate_account_calibration_stream_message rp b v = (case v of PDict message \<Rightarrow>
     if list_ex (\<lambda>kv. list_ex (contains_sub (casefold (strip (fst kv)))) SENSITIVE_FIELD_FRAGMENTS) message
     then Inl Control_secret_forbidden
     else let platform = casefold (text_field rp message ''platform'');
              calibration_id = text_field rp message ''calibration_id'';
              account_id = parse_int (text_field rp message ''account_id'');
              check_url = text_field rp message ''check_url'' in
       if \<not> canonical_uuid calibration_id \<or> account_id = None \<or> the account_id \<le> 0 \<or> platform = []
          \<or> check_url = [] \<or> length check_url > 1024
       then Inl Control_message_invalid
       else rbind (account_calibration_stream_binding_for_platform platform) (\<lambda>expected.
         if \<not> cb_legacy b \<and> cb_stream_key expected \<noteq> cb_stream_key b then Inl Control_platform_mismatch
         else if norm_token rp (py_or (dget message ''fallback_account_status'') (PStr ''login_required''))
              \<notin> set SAFE_ACCOUNT_FALLBACK_STATUSES then Inl Control_fallback_invalid
         else Inr ())
   | _ \<Rightarrow> Inl Control_message_invalid)"

definition LOGIN_REQUEST_STREAM_FIELDS :: "string list" where
  "LOGIN_REQUEST_STREAM_FIELDS = [''session_id'', ''platform'', ''login_url'']"

record url_parts =
  url_scheme :: string
  url_hostname :: "string option"
  url_username :: "string option"
  url_password :: "string option"
  url_port :: "int option"

definition login_url_ok :: "(string \<Rightarrow> url_parts option) \<Rightarrow> string \<Rightarrow> bool" where
  "login_url_ok urlsplit u \<longleftrightarrow> u \<noteq> [] \<and> length u \<le> 512 \<and> (case urlsplit u of None \<Rightarrow> False
     | Some p \<Rightarrow> casefold (url_scheme p) \<in> {''http'', ''https''} \<and>
         (case url_hostname p of None \<Rightarrow> False | Some h \<Rightarrow> h \<noteq> []) \<and>
         url_username p = None \<and> url_password p = None \<and>
         (case url_port p of None \<Rightarrow> True | Some n \<Rightarrow> 1 \<le> n \<and> n \<le> 65535))"

definition validate_login_request_stream_message ::
  "(pyval \<Rightarrow> string) \<Rightarrow> (string \<Rightarrow> url_parts option) \<Rightarrow> pyval \<Rightarrow> (control_error, unit) result" where
  "validate_login_request_stream_message rp urlsplit v = (case v of PDict message \<Rightarrow>
     if fst ` set message \<noteq> set LOGIN_REQUEST_STREAM_FIELDS then Inl Control_contract_invalid
     else if \<not> canonical_uuid (text_field rp message ''session_id'') then Inl Login_session_invalid
     else if casefold (text_field rp message ''platform'') \<notin> set PLATFORM_IDS then Inl Login_platform_invalid
     else if \<not> login_url_ok urlsplit (text_field rp message ''login_url'') then Inl Login_url_invalid
     else Inr ()
   | _ \<Rightarrow> Inl Control_contract_invalid)"

section \<open>Discovery scans\<close>

definition DISCOVERY_SCAN_STREAM_PREFIX :: string where "DISCOVERY_SCAN_STREAM_PREFIX = ''discovery_scan_requests:v1''"
definition DISCOVERY_SCAN_GROUP_PREFIX :: string where "DISCOVERY_SCAN_GROUP_PREFIX = ''discovery-platform-runners:v1''"
definition DISCOVERY_SCAN_RESULT_PREFIX :: string where "DISCOVERY_SCAN_RESULT_PREFIX = ''discovery_scan_result:v1''"

definition DISCOVERY_SCAN_STREAM_BINDINGS :: "control_binding list" where
  "DISCOVERY_SCAN_STREAM_BINDINGS = map (lane_of DISCOVERY_SCAN_STREAM_PREFIX DISCOVERY_SCAN_GROUP_PREFIX) PLATFORM_IDS"

definition discovery_scan_binding_for_platform :: "string \<Rightarrow> (control_error, control_binding) result" where
  "discovery_scan_binding_for_platform = binding_for_platform DISCOVERY_SCAN_STREAM_BINDINGS"

definition discovery_scan_result_key :: "string \<Rightarrow> string \<Rightarrow> (control_error, string) result" where
  "discovery_scan_result_key request_id platform =
     rmap (\<lambda>b. DISCOVERY_SCAN_RESULT_PREFIX @ '':'' @ casefold (strip request_id) @ '':'' @
        (case cb_platform b of None \<Rightarrow> [] | Some p \<Rightarrow> p)) (discovery_scan_binding_for_platform platform)"

section \<open>Lanes do not overlap\<close>

text \<open>Every stream key of the transport, with the family that owns it.\<close>

definition control_keys :: "string list" where
  "control_keys = map tb_stream_key all_bindings @ map cb_stream_key (adapter_probe_stream_bindings True)
     @ map cb_stream_key (account_calibration_stream_bindings True) @ [LOGIN_REQUEST_STREAM_KEY]
     @ map cb_stream_key DISCOVERY_SCAN_STREAM_BINDINGS"

lemma control_keys_distinct: "distinct control_keys"
  by code_simp

lemma binding_for_platform_lane:
  "binding_for_platform (map (lane_of st gp) PLATFORM_IDS) p = Inr b \<Longrightarrow>
     casefold (strip p) \<in> set PLATFORM_IDS \<and> b = lane_of st gp (casefold (strip p))"
  by (auto simp: binding_for_platform_def Let_def lane_of_def PLATFORM_IDS_def split: option.splits if_splits)

end
