(* ===== verification/RedisEpoch.thy ===== *)
theory RedisEpoch
  imports ControlStreams
begin

text \<open>
  The proof of Redis continuity the outbox demands before it trusts a delivery
  (\<open>read_redis_task_stream_epoch\<close> of \<open>core/app/services/outbox.py\<close> and its two Lua scripts). An epoch
  is a digest of the Redis process, a global token and a lane token; the lane token is replaced when a
  lane that was, or was about to be, non-empty is seen empty. The digest \<open>sha\<close> and the two random
  candidates are arguments.
\<close>

section \<open>Redis\<close>

type_synonym message = pydict

record redis_state =
  rd_up :: bool
  rd_run_id :: string
  rd_keys :: "string \<Rightarrow> string option"
  rd_streams :: "string \<Rightarrow> message list"

definition REDIS_TASK_STREAM_EPOCH_PREFIX :: string where "REDIS_TASK_STREAM_EPOCH_PREFIX = ''redis:v2:''"
definition REDIS_TASK_STREAM_LANE_EPOCH_PREFIX :: string where "REDIS_TASK_STREAM_LANE_EPOCH_PREFIX = ''redis:v3:''"
definition REDIS_TASK_STREAM_SENTINEL_KEY :: string where
  "REDIS_TASK_STREAM_SENTINEL_KEY = ''dpms:task-stream:continuity:v1''"
definition REDIS_TASK_STREAM_LANE_TOKEN_PREFIX :: string where
  "REDIS_TASK_STREAM_LANE_TOKEN_PREFIX = ''dpms:task-stream:lane-continuity:v1:''"
definition REDIS_TASK_STREAM_LANE_STATE_PREFIX :: string where
  "REDIS_TASK_STREAM_LANE_STATE_PREFIX = ''dpms:task-stream:lane-state:v1:''"

definition hex_string :: "nat \<Rightarrow> string \<Rightarrow> bool" where
  "hex_string n s \<longleftrightarrow> length s = n \<and> list_all is_hex s"

section \<open>The Lua scripts\<close>

text \<open>\<open>SET key candidate NX\<close>, then \<open>GET key\<close>.\<close>

definition READ_OR_CREATE_REDIS_CONTINUITY_TOKEN_LUA ::
  "string \<Rightarrow> string \<Rightarrow> redis_state \<Rightarrow> string \<times> redis_state" where
  "READ_OR_CREATE_REDIS_CONTINUITY_TOKEN_LUA key candidate rd = (case rd_keys rd key of
     Some v \<Rightarrow> (v, rd)
   | None \<Rightarrow> (candidate, rd\<lparr>rd_keys := (rd_keys rd)(key \<mapsto> candidate)\<rparr>))"

text \<open>An empty lane: rotate the token if it was expected to be non-empty, and note its new state.\<close>

definition observe_empty :: "string \<Rightarrow> string \<Rightarrow> string \<Rightarrow> bool \<Rightarrow> bool \<Rightarrow> string \<Rightarrow> redis_state \<Rightarrow> string \<times> redis_state" where
  "observe_empty token_key state_key candidate arm preexisting lane_token rd =
     (let lane_state = rd_keys rd state_key;
          rotate = (lane_state = Some ''nonempty'' \<or> (lane_state = None \<and> preexisting));
          keys = (if rotate then (rd_keys rd)(token_key \<mapsto> candidate) else rd_keys rd) in
      (if rotate then candidate else lane_token,
       rd\<lparr>rd_keys := keys(state_key \<mapsto> (if arm then ''nonempty'' else ''empty''))\<rparr>))"

definition READ_REDIS_TASK_STREAM_LANE_CONTINUITY_LUA ::
  "string \<Rightarrow> string \<Rightarrow> string \<Rightarrow> bool \<Rightarrow> redis_state \<Rightarrow> (string \<times> string) \<times> redis_state" where
  "READ_REDIS_TASK_STREAM_LANE_CONTINUITY_LUA stream_key candidate lane_candidate arm rd =
     (let token_key = REDIS_TASK_STREAM_LANE_TOKEN_PREFIX @ stream_key;
          state_key = REDIS_TASK_STREAM_LANE_STATE_PREFIX @ stream_key in
      case READ_OR_CREATE_REDIS_CONTINUITY_TOKEN_LUA REDIS_TASK_STREAM_SENTINEL_KEY candidate rd of
        (global_token, rd1) \<Rightarrow>
      let preexisting = rd_keys rd1 token_key \<noteq> None in
      case READ_OR_CREATE_REDIS_CONTINUITY_TOKEN_LUA token_key lane_candidate rd1 of
        (lane_token, rd2) \<Rightarrow>
      if rd_streams rd2 stream_key = [] then
        (case observe_empty token_key state_key lane_candidate arm preexisting lane_token rd2 of
           (lane_token', rd3) \<Rightarrow> ((global_token, lane_token'), rd3))
      else ((global_token, lane_token), rd2\<lparr>rd_keys := (rd_keys rd2)(state_key \<mapsto> ''nonempty'')\<rparr>))"

section \<open>Reading an epoch\<close>

definition known_stream :: "string \<Rightarrow> bool" where
  "known_stream k \<longleftrightarrow> is_task_stream k \<or> is_adapter_probe_stream k \<or> is_account_calibration_stream k
     \<or> is_login_request_stream k"

definition lane_digest_input :: "string \<Rightarrow> string \<Rightarrow> string \<Rightarrow> string \<Rightarrow> string" where
  "lane_digest_input run_id token stream_key lane_token =
     lower run_id @ '':'' @ lower token @ '':'' @ stream_key @ '':'' @ lower lane_token"

definition global_epoch :: "string \<Rightarrow> string \<Rightarrow> string" where
  "global_epoch run_id token = REDIS_TASK_STREAM_EPOCH_PREFIX @ lower run_id @ '':'' @ lower token"

text \<open>An error is the message of \<open>RedisTaskStreamEpochUnavailable\<close>.\<close>

definition read_redis_task_stream_epoch ::
  "(string \<Rightarrow> string) \<Rightarrow> string \<times> string \<Rightarrow> string option \<Rightarrow> bool \<Rightarrow> redis_state \<Rightarrow> (string, string) result \<times> redis_state" where
  "read_redis_task_stream_epoch sha cands stream_key prepare rd =
     (if (case stream_key of Some k \<Rightarrow> \<not> known_stream k | None \<Rightarrow> False)
      then (Inl ''redis_task_stream_lane_unknown'', rd)
      else if stream_key = None \<and> prepare then (Inl ''redis_task_stream_lane_required'', rd)
      else if \<not> rd_up rd then (Inl ''redis_server_info_unavailable'', rd)
      else let run_id = strip (rd_run_id rd) in
      if \<not> hex_string 40 run_id then (Inl ''redis_server_run_id_unavailable'', rd)
      else (case stream_key of
        None \<Rightarrow> (case READ_OR_CREATE_REDIS_CONTINUITY_TOKEN_LUA REDIS_TASK_STREAM_SENTINEL_KEY (fst cands) rd of
          (t, rd1) \<Rightarrow> let token = strip t in
            if \<not> hex_string 64 token then (Inl ''redis_continuity_sentinel_invalid'', rd1)
            else (Inr (global_epoch run_id token), rd1))
      | Some k \<Rightarrow> (case READ_REDIS_TASK_STREAM_LANE_CONTINUITY_LUA (strip k) (fst cands) (snd cands) prepare rd of
          ((t, l), rd1) \<Rightarrow> let token = strip t; lane_token = strip l in
            if \<not> hex_string 64 token then (Inl ''redis_continuity_sentinel_invalid'', rd1)
            else if \<not> hex_string 64 lane_token then (Inl ''redis_task_stream_lane_continuity_invalid'', rd1)
            else (Inr (REDIS_TASK_STREAM_LANE_EPOCH_PREFIX @ sha (lane_digest_input run_id token (strip k) lane_token)), rd1))))"

section \<open>The contract of an epoch\<close>

text \<open>
  What a relay relies on: reading an epoch moves no message; a delivery nothing interferes
  with is confirmed, i.e. the epoch read after the append is the one the append was prepared under.
\<close>

locale continuity =
  fixes read :: "'c \<Rightarrow> string \<Rightarrow> bool \<Rightarrow> 'r \<Rightarrow> ('e, string) result \<times> 'r"
    and add :: "string \<Rightarrow> message \<Rightarrow> 'r \<Rightarrow> 'r"
    and stream :: "'r \<Rightarrow> string \<Rightarrow> message list"
  assumes read_streams: "stream (snd (read c k arm r)) = stream r"
    and add_stream: "stream (add k m r) = (stream r)(k := stream r k @ [m])"
    and read_add: "strip k = k \<Longrightarrow> read c k True r = (Inr x, r1) \<Longrightarrow> fst (read c' k False (add k m r1)) = Inr x"
begin

lemma delivery_confirmed:
  assumes "strip k = k" "read c k True r = (Inr x, r1)"
  obtains r2 where "read c' k False (add k m r1) = (Inr x, r2)" "stream r2 = (stream r)(k := stream r k @ [m])"
proof -
  obtain y r2 where r: "read c' k False (add k m r1) = (y, r2)" by fastforce
  have "y = Inr x" using read_add [OF assms, of c' m] r by simp
  moreover have "stream r1 = stream r" using read_streams [of c k True r] assms(2) by simp
  moreover have "stream r2 = stream (add k m r1)" using read_streams [of c' k False "add k m r1"] r by simp
  ultimately show ?thesis using r that by (simp add: add_stream)
qed

end

definition xadd :: "string \<Rightarrow> message \<Rightarrow> redis_state \<Rightarrow> redis_state" where
  "xadd k m rd = rd\<lparr>rd_streams := (rd_streams rd)(k := rd_streams rd k @ [m])\<rparr>"

lemma lane_keys_distinct [simp]:
  "REDIS_TASK_STREAM_LANE_TOKEN_PREFIX @ k \<noteq> REDIS_TASK_STREAM_LANE_STATE_PREFIX @ k'"
  "REDIS_TASK_STREAM_LANE_STATE_PREFIX @ k' \<noteq> REDIS_TASK_STREAM_LANE_TOKEN_PREFIX @ k"
  "REDIS_TASK_STREAM_SENTINEL_KEY \<noteq> REDIS_TASK_STREAM_LANE_TOKEN_PREFIX @ k"
  "REDIS_TASK_STREAM_SENTINEL_KEY \<noteq> REDIS_TASK_STREAM_LANE_STATE_PREFIX @ k"
  "REDIS_TASK_STREAM_LANE_TOKEN_PREFIX @ k \<noteq> REDIS_TASK_STREAM_SENTINEL_KEY"
  "REDIS_TASK_STREAM_LANE_STATE_PREFIX @ k \<noteq> REDIS_TASK_STREAM_SENTINEL_KEY"
  "REDIS_TASK_STREAM_LANE_TOKEN_PREFIX \<noteq> REDIS_TASK_STREAM_LANE_STATE_PREFIX"
  "REDIS_TASK_STREAM_LANE_STATE_PREFIX \<noteq> REDIS_TASK_STREAM_LANE_TOKEN_PREFIX"
  by (simp_all add: REDIS_TASK_STREAM_LANE_TOKEN_PREFIX_def REDIS_TASK_STREAM_LANE_STATE_PREFIX_def
      REDIS_TASK_STREAM_SENTINEL_KEY_def)

lemmas lua_defs = READ_OR_CREATE_REDIS_CONTINUITY_TOKEN_LUA_def
  READ_REDIS_TASK_STREAM_LANE_CONTINUITY_LUA_def observe_empty_def Let_def

text \<open>After any lane read the two tokens returned are the ones stored.\<close>

lemma lane_read_stores:
  assumes "READ_REDIS_TASK_STREAM_LANE_CONTINUITY_LUA k c lc arm rd = ((g, l), rd1)"
  shows "rd_keys rd1 REDIS_TASK_STREAM_SENTINEL_KEY = Some g"
    "rd_keys rd1 (REDIS_TASK_STREAM_LANE_TOKEN_PREFIX @ k) = Some l"
    "rd_streams rd1 = rd_streams rd" "rd_up rd1 = rd_up rd" "rd_run_id rd1 = rd_run_id rd"
    "arm \<or> rd_streams rd k \<noteq> [] \<Longrightarrow> rd_keys rd1 (REDIS_TASK_STREAM_LANE_STATE_PREFIX @ k) = Some ''nonempty''"
proof -
  let ?L = "READ_REDIS_TASK_STREAM_LANE_CONTINUITY_LUA k c lc arm rd"
  have e: "g = fst (fst ?L)" "l = snd (fst ?L)" "rd1 = snd ?L" using assms by simp_all
  show "rd_keys rd1 REDIS_TASK_STREAM_SENTINEL_KEY = Some g"
    unfolding e by (auto simp add: lua_defs split: option.split)
  show "rd_keys rd1 (REDIS_TASK_STREAM_LANE_TOKEN_PREFIX @ k) = Some l"
    unfolding e by (auto simp add: lua_defs split: option.split)
  show "rd_streams rd1 = rd_streams rd" "rd_up rd1 = rd_up rd" "rd_run_id rd1 = rd_run_id rd"
    unfolding e by (simp_all add: lua_defs split: option.split)
  show "rd_keys rd1 (REDIS_TASK_STREAM_LANE_STATE_PREFIX @ k) = Some ''nonempty''"
    if "arm \<or> rd_streams rd k \<noteq> []"
    unfolding e using that by (auto simp: lua_defs split: option.split)
qed

text \<open>With both tokens stored, reading a non-empty lane returns them.\<close>

lemma lane_read_again:
  assumes "rd_keys rd REDIS_TASK_STREAM_SENTINEL_KEY = Some g"
    "rd_keys rd (REDIS_TASK_STREAM_LANE_TOKEN_PREFIX @ k) = Some l" "rd_streams rd k \<noteq> []"
  shows "\<exists>rd1. READ_REDIS_TASK_STREAM_LANE_CONTINUITY_LUA k c lc arm rd = ((g, l), rd1)"
  using assms by (simp add: lua_defs)

text \<open>An armed lane seen empty gets the new candidate.\<close>

lemma lane_read_rotates:
  assumes "rd_keys rd (REDIS_TASK_STREAM_LANE_STATE_PREFIX @ k) = Some ''nonempty''" "rd_streams rd k = []"
  shows "\<exists>g rd1. READ_REDIS_TASK_STREAM_LANE_CONTINUITY_LUA k c lc arm rd = ((g, lc), rd1)"
  using assms by (auto simp: lua_defs split: option.splits)

lemma epoch_streams: "rd_streams (snd (read_redis_task_stream_epoch sha c k arm rd)) = rd_streams rd"
  by (auto simp: read_redis_task_stream_epoch_def Let_def READ_OR_CREATE_REDIS_CONTINUITY_TOKEN_LUA_def
      split: option.splits prod.splits dest: lane_read_stores(3))

text \<open>A lane epoch that was read: where it came from.\<close>

lemma lane_epoch_cases:
  assumes "read_redis_task_stream_epoch sha c (Some k) arm rd = (Inr x, rd1)"
  obtains g l where "known_stream k" "rd_up rd" "hex_string 40 (strip (rd_run_id rd))"
    "READ_REDIS_TASK_STREAM_LANE_CONTINUITY_LUA (strip k) (fst c) (snd c) arm rd = ((g, l), rd1)"
    "hex_string 64 (strip g)" "hex_string 64 (strip l)"
    "x = REDIS_TASK_STREAM_LANE_EPOCH_PREFIX @
       sha (lane_digest_input (strip (rd_run_id rd)) (strip g) (strip k) (strip l))"
  using assms
  by (auto simp: read_redis_task_stream_epoch_def Let_def split: if_splits prod.splits)

lemma epoch_read_add:
  assumes k: "strip k = k" and r: "read_redis_task_stream_epoch sha c (Some k) True rd = (Inr x, rd1)"
  shows "fst (read_redis_task_stream_epoch sha c' (Some k) False (xadd k m rd1)) = Inr x"
proof -
  from r obtain g l where L: "known_stream k" "rd_up rd" "hex_string 40 (strip (rd_run_id rd))"
    "READ_REDIS_TASK_STREAM_LANE_CONTINUITY_LUA k (fst c) (snd c) True rd = ((g, l), rd1)"
    "hex_string 64 (strip g)" "hex_string 64 (strip l)"
    "x = REDIS_TASK_STREAM_LANE_EPOCH_PREFIX @ sha (lane_digest_input (strip (rd_run_id rd)) (strip g) k (strip l))"
    by (rule lane_epoch_cases) (simp add: k)
  note s = lane_read_stores [OF L(4)]
  have "\<exists>rd2. READ_REDIS_TASK_STREAM_LANE_CONTINUITY_LUA k (fst c') (snd c') False (xadd k m rd1) = ((g, l), rd2)"
    by (rule lane_read_again) (use s in \<open>simp_all add: xadd_def\<close>)
  then show ?thesis using L s k by (auto simp: read_redis_task_stream_epoch_def Let_def xadd_def)
qed

interpretation redis_continuity: continuity
  "\<lambda>c k arm rd. read_redis_task_stream_epoch sha c (Some k) arm rd" xadd rd_streams for sha
proof
  show "rd_streams (snd (read_redis_task_stream_epoch sha c (Some k) arm r)) = rd_streams r" for c k arm r
    by (rule epoch_streams)
  show "rd_streams (xadd k m r) = (rd_streams r)(k := rd_streams r k @ [m])" for k m r
    by (simp add: xadd_def)
  show "fst (read_redis_task_stream_epoch sha c' (Some k) False (xadd k m r1)) = Inr x"
    if "strip k = k" "read_redis_task_stream_epoch sha c (Some k) True r = (Inr x, r1)" for k c r x r1 c' m
    using that by (rule epoch_read_add)
qed

text \<open>Two digest inputs of the same lane are equal only for equal lane tokens.\<close>

lemma lane_digest_inj:
  assumes "lane_digest_input r t k l = lane_digest_input r' t' k l'" "hex_string 40 r" "hex_string 40 r'"
    "hex_string 64 t" "hex_string 64 t'"
  shows "lower r = lower r' \<and> lower t = lower t' \<and> lower l = lower l'"
  using assms by (simp add: lane_digest_input_def hex_string_def lower_def)

end
