(* ===== verification/Outbox.thy ===== *)
theory Outbox
  imports ActionIntent RedisEpoch
begin

text \<open>
  The transactional outbox (\<open>core/app/services/outbox.py\<close>): rows written with the state change they
  announce, claimed by a relayer, appended to a Redis stream under a proof of continuity and marked
  sent, with retries, reclaiming of abandoned claims, replay after a Redis loss, and the settlement
  of a task that cannot be delivered. A relayer is also modelled step by step, so that any number
  of relayers, crashes and Redis failures interleave. Parameters: the digest \<open>sha\<close>, the rendering
  \<open>rp\<close> of containers by \<open>str\<close>, the URL parser \<open>urlsplit\<close>, the clock and the random candidates.
\<close>

section \<open>Tables\<close>

datatype ob_status = OB_pending | OB_sending | OB_sent | OB_failed

record outbox_row =
  ob_id :: nat
  ob_stream :: string
  ob_payload :: message
  ob_status :: ob_status
  ob_attempts :: nat
  ob_dedup :: "string option"
  ob_epoch :: "string option"
  ob_sent_at :: "int option"
  ob_updated_at :: int
  ob_archived_at :: "int option"
  ob_last_error :: "string option"

record dispatch_task = task_run +
  tr_task_mode :: string
  tr_stream_message_id :: "string option"
  tr_lease_expires_at :: "int option"

record lottery =
  lot_id :: int
  lot_status :: string
  lot_lock :: "string option"
  lot_locked_at :: "int option"

record dispatch_db =
  ob_rows :: "outbox_row list"
  ob_next :: nat
  ob_tasks :: "dispatch_task list"
  ob_lotteries :: "lottery list"
  ob_leases :: "lease list"
  ob_bindings :: "(string \<times> string) list"
  ob_intents :: "intent list"

definition OUTBOX_MAX_ATTEMPTS :: nat where "OUTBOX_MAX_ATTEMPTS = 5"
definition OUTBOX_BATCH :: nat where "OUTBOX_BATCH = 50"
definition OUTBOX_SENDING_RECLAIM_SECONDS :: int where "OUTBOX_SENDING_RECLAIM_SECONDS = 60"
definition OUTBOX_RECLAIM_BATCH :: nat where "OUTBOX_RECLAIM_BATCH = 500"

section \<open>Envelopes\<close>

datatype envelope_error = Plaintext_weibo_rip_forbidden | Task_envelope stream_error | Control_envelope control_error

definition reject_plaintext_weibo_rip :: "message \<Rightarrow> string \<Rightarrow> (envelope_error, unit) result" where
  "reject_plaintext_weibo_rip message stream_key =
     (if is_task_stream stream_key \<and> ''weibo_rip'' \<in> fst ` set message then Inl Plaintext_weibo_rip_forbidden else Inr ())"

fun map_error :: "('e \<Rightarrow> 'f) \<Rightarrow> ('e, 'a) result \<Rightarrow> ('f, 'a) result" where
  "map_error f (Inl e) = Inl (f e)"
| "map_error f (Inr x) = Inr x"

definition validate_task_stream_binding ::
  "(pyval \<Rightarrow> string) \<Rightarrow> (string \<Rightarrow> url_parts option) \<Rightarrow> message \<Rightarrow> string \<Rightarrow> (envelope_error, unit) result" where
  "validate_task_stream_binding rp urlsplit message stream_key =
     (case task_stream_binding_for_key stream_key of
        Some b \<Rightarrow> rbind (reject_plaintext_weibo_rip message stream_key) (\<lambda>_.
          map_error Task_envelope (validate_task_stream_message rp b message))
      | None \<Rightarrow> (case adapter_probe_stream_binding_for_key stream_key of
          Some b \<Rightarrow> map_error Control_envelope (validate_adapter_probe_stream_message rp b (PDict message))
        | None \<Rightarrow> (case account_calibration_stream_binding_for_key stream_key of
            Some b \<Rightarrow> map_error Control_envelope (validate_account_calibration_stream_message rp b (PDict message))
          | None \<Rightarrow> if is_login_request_stream stream_key
              then map_error Control_envelope (validate_login_request_stream_message rp urlsplit (PDict message))
              else Inr ())))"

definition should_retry :: "nat \<Rightarrow> bool" where
  "should_retry attempts \<longleftrightarrow> attempts < OUTBOX_MAX_ATTEMPTS"

definition terminal_status :: "nat \<Rightarrow> ob_status" where
  "terminal_status attempts = (if should_retry attempts then OB_pending else OB_failed)"

section \<open>Writing and claiming a row\<close>

text \<open>The unique index on \<open>dedup_key\<close> turns a second insertion into a no-op; a null key never collides.\<close>

definition enqueue_outbox :: "(pyval \<Rightarrow> string) \<Rightarrow> (string \<Rightarrow> url_parts option) \<Rightarrow> int \<Rightarrow> message \<Rightarrow> string \<Rightarrow>
    string option \<Rightarrow> dispatch_db \<Rightarrow> (envelope_error, dispatch_db) result" where
  "enqueue_outbox rp urlsplit now message stream_key dedup_key db =
     rbind (validate_task_stream_binding rp urlsplit message stream_key) (\<lambda>_.
       if dedup_key \<noteq> None \<and> dedup_key \<in> ob_dedup ` set (ob_rows db) then Inr db
       else Inr (db\<lparr>ob_rows := ob_rows db @ [\<lparr>ob_id = ob_next db, ob_stream = stream_key, ob_payload = message,
              ob_status = OB_pending, ob_attempts = 0, ob_dedup = dedup_key, ob_epoch = None, ob_sent_at = None,
              ob_updated_at = now, ob_archived_at = None, ob_last_error = None\<rparr>],
            ob_next := Suc (ob_next db)\<rparr>))"

text \<open>The claimed row a relayer works on: a copy, with the attempt number as its fencing token.\<close>

record claim =
  cl_id :: nat
  cl_stream :: string
  cl_payload :: message
  cl_attempts :: nat

definition claim_row :: "int \<Rightarrow> nat \<Rightarrow> outbox_row list \<Rightarrow> claim option \<times> outbox_row list" where
  "claim_row now row_id rows =
     (case fetch_one (\<lambda>r. ob_id r = row_id \<and> ob_status r = OB_pending) rows of
        None \<Rightarrow> (None, rows)
      | Some r \<Rightarrow> (Some \<lparr>cl_id = row_id, cl_stream = ob_stream r, cl_payload = ob_payload r, cl_attempts = ob_attempts r + 1\<rparr>,
          update_where (\<lambda>x. ob_id x = row_id \<and> ob_status x = OB_pending)
            (\<lambda>x. x\<lparr>ob_status := OB_sending, ob_attempts := ob_attempts r + 1, ob_updated_at := now\<rparr>) rows))"

section \<open>Finalising a claim\<close>

text \<open>The \<open>WHERE\<close> clause of every statement a relayer finalises its claim with.\<close>

definition owns :: "claim \<Rightarrow> outbox_row \<Rightarrow> bool" where
  "owns cl r \<longleftrightarrow> ob_id r = cl_id cl \<and> ob_status r = OB_sending \<and> ob_attempts r = cl_attempts cl"

definition mark_sent :: "int \<Rightarrow> claim \<Rightarrow> string option \<Rightarrow> outbox_row list \<Rightarrow> nat \<times> outbox_row list" where
  "mark_sent now cl epoch rows = (row_count (owns cl) rows,
     update_where (owns cl) (\<lambda>r. r\<lparr>ob_status := OB_sent, ob_sent_at := Some now, ob_epoch := epoch, ob_updated_at := now\<rparr>) rows)"

definition release_unavailable :: "int \<Rightarrow> claim \<Rightarrow> string \<Rightarrow> outbox_row list \<Rightarrow> outbox_row list" where
  "release_unavailable now cl err rows = update_where (owns cl)
     (\<lambda>r. r\<lparr>ob_status := OB_pending, ob_attempts := ob_attempts r - 1, ob_last_error := Some (take 480 err), ob_updated_at := now\<rparr>) rows"

definition release_failed :: "int \<Rightarrow> claim \<Rightarrow> string \<Rightarrow> outbox_row list \<Rightarrow> outbox_row list" where
  "release_failed now cl err rows = update_where (owns cl)
     (\<lambda>r. r\<lparr>ob_status := OB_pending, ob_last_error := Some (take 480 err), ob_updated_at := now\<rparr>) rows"

definition reset_epoch_ambiguous_delivery :: "int \<Rightarrow> claim \<Rightarrow> string \<Rightarrow> string \<Rightarrow> outbox_row list \<Rightarrow> bool \<times> outbox_row list" where
  "reset_epoch_ambiguous_delivery now cl epoch reason rows =
     (let here = (\<lambda>r. ob_id r = cl_id cl \<and> ob_status r = OB_sent \<and> ob_attempts r = cl_attempts cl \<and> ob_epoch r = Some epoch) in
      (row_count here rows \<noteq> 0, update_where here
        (\<lambda>r. r\<lparr>ob_status := OB_pending, ob_sent_at := None, ob_epoch := None, ob_last_error := Some (take 480 reason), ob_updated_at := now\<rparr>) rows))"

text \<open>The lease kind of an undeliverable task, from its mode, its binding and its message.\<close>

definition terminal_failure_lease_operation_kind ::
  "(pyval \<Rightarrow> string) \<Rightarrow> string \<Rightarrow> string option \<Rightarrow> message \<Rightarrow> string \<Rightarrow> (py_error, string) result" where
  "terminal_failure_lease_operation_kind rp task_mode binding message stream_key =
     (let mode = casefold (strip task_mode) in
      if mode \<noteq> ''real_run'' then (if mode \<in> {''dry_run'', ''shadow_run''} then Inr mode else Inl ValueError)
      else let message_kind = text_field rp message ''execution_intent_kind'';
               binding_kind = strip (opt_str binding) in
        if binding_kind \<noteq> [] then
          (if message_kind \<noteq> binding_kind then Inl ValueError
           else lease_operation_kind_for_execution_intent binding_kind)
        else if stream_key \<noteq> LEGACY_TASK_STREAM_KEY \<or> message_kind \<noteq> [] then Inl ValueError
        else lease_operation_kind_for_execution_intent LEGACY_FULL_EXECUTION_INTENT_KIND)"

definition release_task_lease :: "int \<Rightarrow> string \<Rightarrow> dispatch_task \<Rightarrow> lease list \<Rightarrow> lease list" where
  "release_task_lease now kind t ls = update_where
     (\<lambda>l. Some (ls_id l) = tr_lease_id t \<and> ls_account_id l = tr_account_id t \<and> Some (ls_generation l) = tr_lease_generation t
        \<and> ls_operation_kind l = kind \<and> ls_owner_id l = tr_task_id t)
     (\<lambda>l. l\<lparr>ls_released_at := Some (case ls_released_at l of None \<Rightarrow> now | Some x \<Rightarrow> x)\<rparr>) ls"

text \<open>
  The task side of a terminal failure: the queued task fails, its lottery is unlocked and its lease
  released. Rows of the control streams are settled by their own modules on their own tables, which
  are not part of this model.
\<close>

definition settle_task :: "(pyval \<Rightarrow> string) \<Rightarrow> int \<Rightarrow> string \<Rightarrow> outbox_row \<Rightarrow> dispatch_db \<Rightarrow> dispatch_db" where
  "settle_task rp now err row db =
     (let stream_key = strip (ob_stream row); task_id = strip (opt_str (ob_dedup row)) in
      if \<not> is_task_stream stream_key \<or> task_id = [] then db
      else case fetch_one (\<lambda>t. tr_task_id t = task_id) (ob_tasks db) of
        None \<Rightarrow> db
      | Some t \<Rightarrow>
          if norm_str (tr_status t) \<noteq> ''queued'' then db
          else db\<lparr>ob_tasks := update_where (\<lambda>x. tr_task_id x = task_id \<and> tr_status x = ''queued'')
                 (\<lambda>x. x\<lparr>tr_status := ''failed'', tr_error_message := Some (take 480 (''outbox delivery exhausted: '' @ err)),
                        tr_finished_at := Some now, tr_worker_id := None,
                        tr_stream_message_id := None, tr_lease_expires_at := None\<rparr>) (ob_tasks db),
               ob_lotteries := update_where
                 (\<lambda>l. lot_id l = tr_lottery_id t \<and> lot_lock l = Some task_id \<and> lot_status l = ''claimed'')
                 (\<lambda>l. l\<lparr>lot_status := ''pending'', lot_lock := None, lot_locked_at := None\<rparr>) (ob_lotteries db),
               ob_leases := (case terminal_failure_lease_operation_kind rp (tr_task_mode t)
                    (map_of (ob_bindings db) task_id) (ob_payload row) stream_key of
                  Inl _ \<Rightarrow> ob_leases db | Inr kind \<Rightarrow> release_task_lease now kind t (ob_leases db))\<rparr>)"

definition settle_terminal_delivery_failure ::
  "(pyval \<Rightarrow> string) \<Rightarrow> int \<Rightarrow> claim \<Rightarrow> string \<Rightarrow> dispatch_db \<Rightarrow> dispatch_db" where
  "settle_terminal_delivery_failure rp now cl err db =
     (case fetch_one (\<lambda>r. ob_id r = cl_id cl) (ob_rows db) of
        None \<Rightarrow> db
      | Some current \<Rightarrow>
          if ob_status current \<noteq> OB_sending \<or> ob_attempts current \<noteq> cl_attempts cl then db
          else settle_task rp now (take 480 err) current
            (db\<lparr>ob_rows := update_where (owns cl)
              (\<lambda>r. r\<lparr>ob_status := OB_failed, ob_last_error := Some (take 480 err), ob_updated_at := now\<rparr>) (ob_rows db)\<rparr>))"

text \<open>The \<open>except Exception\<close> clause of a delivery.\<close>

definition delivery_failed :: "(pyval \<Rightarrow> string) \<Rightarrow> int \<Rightarrow> claim \<Rightarrow> string \<Rightarrow> dispatch_db \<Rightarrow> dispatch_db" where
  "delivery_failed rp now cl err db =
     (if terminal_status (cl_attempts cl) = OB_failed then settle_terminal_delivery_failure rp now cl err db
      else db\<lparr>ob_rows := release_failed now cl err (ob_rows db)\<rparr>)"

section \<open>Delivering a claim\<close>

text \<open>The streams whose delivery needs a proof of continuity are the known lanes.\<close>

definition prepare_delivery :: "(string \<Rightarrow> string) \<Rightarrow> string \<times> string \<Rightarrow> string \<Rightarrow> redis_state \<Rightarrow>
    (string, string option) result \<times> redis_state" where
  "prepare_delivery sha c stream_key rd =
     (if known_stream stream_key
      then (case read_redis_task_stream_epoch sha c (Some stream_key) True rd of (r, rd1) \<Rightarrow> (rmap Some r, rd1))
      else (Inr None, rd))"

text \<open>After the row is marked: a second reading of the epoch decides whether the receipt stands.\<close>

definition confirm_delivery :: "(string \<Rightarrow> string) \<Rightarrow> int \<Rightarrow> string \<times> string \<Rightarrow> claim \<Rightarrow> string \<Rightarrow>
    outbox_row list \<times> redis_state \<Rightarrow> bool \<times> outbox_row list \<times> redis_state" where
  "confirm_delivery sha now c cl epoch st = (case st of (rows, rd) \<Rightarrow>
     (case read_redis_task_stream_epoch sha c (Some (cl_stream cl)) False rd of
        (Inr confirmed, rd1) \<Rightarrow>
          if confirmed \<noteq> epoch
          then (False, snd (reset_epoch_ambiguous_delivery now cl epoch ''redis_epoch_changed_during_delivery'' rows), rd1)
          else (True, rows, rd1)
      | (Inl reason, rd1) \<Rightarrow> (False, snd (reset_epoch_ambiguous_delivery now cl epoch reason rows), rd1)))"

text \<open>
  \<open>_deliver_claimed\<close> without interference. \<open>xadd_error\<close> is the exception of the append, if it
  raises; \<open>cs\<close> holds the random candidates of the two readings. The text of a rejected envelope's
  exception is abbreviated.
\<close>

definition deliver_claimed ::
  "(string \<Rightarrow> string) \<Rightarrow> (pyval \<Rightarrow> string) \<Rightarrow> (string \<Rightarrow> url_parts option) \<Rightarrow> int \<Rightarrow> (string \<times> string) \<times> (string \<times> string) \<Rightarrow>
     string option \<Rightarrow> claim \<Rightarrow> dispatch_db \<times> redis_state \<Rightarrow> bool \<times> dispatch_db \<times> redis_state" where
  "deliver_claimed sha rp urlsplit now cs xadd_error cl st = (case st of (db, rd) \<Rightarrow>
     (case validate_task_stream_binding rp urlsplit (cl_payload cl) (cl_stream cl) of
        Inl _ \<Rightarrow> (False, delivery_failed rp now cl ''envelope'' db, rd)
      | Inr _ \<Rightarrow> (case prepare_delivery sha (fst cs) (cl_stream cl) rd of
          (Inl reason, rd1) \<Rightarrow> (False, db\<lparr>ob_rows := release_unavailable now cl reason (ob_rows db)\<rparr>, rd1)
        | (Inr epoch, rd1) \<Rightarrow> (case xadd_error of
            Some err \<Rightarrow> (False, delivery_failed rp now cl err db, rd1)
          | None \<Rightarrow>
              let rd2 = xadd (cl_stream cl) (cl_payload cl) rd1 in
              (case mark_sent now cl epoch (ob_rows db) of (updated, rows) \<Rightarrow>
                if updated = 0 then (False, db\<lparr>ob_rows := rows\<rparr>, rd2)
                else (case epoch of None \<Rightarrow> (True, db\<lparr>ob_rows := rows\<rparr>, rd2)
                  | Some x \<Rightarrow> (case confirm_delivery sha now (snd cs) cl x (rows, rd2) of
                      (ok, rows', rd3) \<Rightarrow> (ok, db\<lparr>ob_rows := rows'\<rparr>, rd3))))))))"

datatype relay_outcome = Unclaimed | Relay_sent | Relay_failed

definition relay_by_id ::
  "(string \<Rightarrow> string) \<Rightarrow> (pyval \<Rightarrow> string) \<Rightarrow> (string \<Rightarrow> url_parts option) \<Rightarrow> int \<Rightarrow> (string \<times> string) \<times> (string \<times> string) \<Rightarrow>
     string option \<Rightarrow> nat \<Rightarrow> dispatch_db \<times> redis_state \<Rightarrow> relay_outcome \<times> dispatch_db \<times> redis_state" where
  "relay_by_id sha rp urlsplit now cs xadd_error row_id st = (case st of (db, rd) \<Rightarrow>
     (case claim_row now row_id (ob_rows db) of
        (None, _) \<Rightarrow> (Unclaimed, db, rd)
      | (Some cl, rows) \<Rightarrow> (case deliver_claimed sha rp urlsplit now cs xadd_error cl (db\<lparr>ob_rows := rows\<rparr>, rd) of
          (ok, st') \<Rightarrow> (if ok then Relay_sent else Relay_failed, st'))))"

section \<open>Scopes, reclaiming and flushing\<close>

datatype scope_problem = Outbox_stream_scope_is_ambiguous | Outbox_stream_scope_is_empty

definition norm_streams :: "string list \<Rightarrow> string list" where
  "norm_streams ks = dedupe (filter (\<lambda>k. k \<noteq> []) (map strip ks))"

text \<open>\<open>_outbox_stream_scope\<close>: the predicate its SQL clause and parameters denote.\<close>

definition outbox_stream_scope :: "string option \<Rightarrow> string list \<Rightarrow> string list \<Rightarrow> (scope_problem, string \<Rightarrow> bool) result" where
  "outbox_stream_scope stream_key stream_keys exclude =
     (if length (filter id [stream_key \<noteq> None, stream_keys \<noteq> [], exclude \<noteq> []]) > 1
      then Inl Outbox_stream_scope_is_ambiguous
      else case stream_key of Some k \<Rightarrow> Inr (\<lambda>s. s = k)
      | None \<Rightarrow>
          if stream_keys \<noteq> [] \<and> norm_streams stream_keys = [] then Inl Outbox_stream_scope_is_empty
          else if norm_streams stream_keys \<noteq> [] then Inr (\<lambda>s. s \<in> set (norm_streams stream_keys))
          else if norm_streams exclude = [] then Inr (\<lambda>_. True)
          else Inr (\<lambda>s. s \<notin> set (norm_streams exclude)))"

text \<open>\<open>UPDATE \<dots> WHERE p ORDER BY id LIMIT n\<close>: the first rows that satisfy the condition.\<close>

fun update_first :: "nat \<Rightarrow> ('r \<Rightarrow> bool) \<Rightarrow> ('r \<Rightarrow> 'r) \<Rightarrow> 'r list \<Rightarrow> 'r list" where
  "update_first n p f [] = []"
| "update_first n p f (r # rs) = (if p r then (case n of 0 \<Rightarrow> r # rs | Suc m \<Rightarrow> f r # update_first m p f rs)
     else r # update_first n p f rs)"

definition reclaim_stale_sending :: "int \<Rightarrow> int \<Rightarrow> (string \<Rightarrow> bool) \<Rightarrow> nat \<Rightarrow> outbox_row list \<Rightarrow> outbox_row list" where
  "reclaim_stale_sending now threshold scope limit rows = update_first limit
     (\<lambda>r. ob_status r = OB_sending \<and> ob_updated_at r < now - threshold \<and> scope (ob_stream r))
     (\<lambda>r. r\<lparr>ob_status := OB_pending, ob_updated_at := now\<rparr>) rows"

definition pending_ids :: "(string \<Rightarrow> bool) \<Rightarrow> outbox_row list \<Rightarrow> nat list" where
  "pending_ids scope rows = map ob_id (filter (\<lambda>r. ob_status r = OB_pending \<and> scope (ob_stream r)) rows)"

text \<open>
  \<open>flush_pending_outbox\<close>: the rows are in the order of their ids. \<open>env i\<close> gives the random candidates
  and the exception of the append for the i-th row of the batch.
\<close>

fun relay_batch ::
  "(string \<Rightarrow> string) \<Rightarrow> (pyval \<Rightarrow> string) \<Rightarrow> (string \<Rightarrow> url_parts option) \<Rightarrow> int \<Rightarrow>
     (nat \<Rightarrow> ((string \<times> string) \<times> (string \<times> string)) \<times> string option) \<Rightarrow> nat list \<Rightarrow>
     dispatch_db \<times> redis_state \<Rightarrow> (nat \<times> nat) \<times> dispatch_db \<times> redis_state" where
  "relay_batch sha rp urlsplit now env [] st = ((0, 0), st)"
| "relay_batch sha rp urlsplit now env (i # ids) st =
     (case relay_by_id sha rp urlsplit now (fst (env i)) (snd (env i)) i st of
        (outcome, st1) \<Rightarrow> (case relay_batch sha rp urlsplit now env ids st1 of
          ((sent, failures), st2) \<Rightarrow>
            ((sent + (if outcome = Relay_sent then 1 else 0), failures + (if outcome = Relay_failed then 1 else 0)), st2)))"

definition flush_pending_outbox ::
  "(string \<Rightarrow> string) \<Rightarrow> (pyval \<Rightarrow> string) \<Rightarrow> (string \<Rightarrow> url_parts option) \<Rightarrow> int \<Rightarrow>
     (nat \<Rightarrow> ((string \<times> string) \<times> (string \<times> string)) \<times> string option) \<Rightarrow> nat \<Rightarrow> (string \<Rightarrow> bool) \<Rightarrow>
     dispatch_db \<times> redis_state \<Rightarrow> (nat \<times> nat \<times> nat) \<times> dispatch_db \<times> redis_state" where
  "flush_pending_outbox sha rp urlsplit now env limit scope st =
     (let ids = take limit (pending_ids scope (ob_rows (fst st))) in
      case relay_batch sha rp urlsplit now env ids st of
        ((sent, failures), st') \<Rightarrow> ((length ids, sent, failures), st'))"

definition try_flush_dedup ::
  "(string \<Rightarrow> string) \<Rightarrow> (pyval \<Rightarrow> string) \<Rightarrow> (string \<Rightarrow> url_parts option) \<Rightarrow> int \<Rightarrow> (string \<times> string) \<times> (string \<times> string) \<Rightarrow>
     string option \<Rightarrow> string \<Rightarrow> dispatch_db \<times> redis_state \<Rightarrow> bool \<times> dispatch_db \<times> redis_state" where
  "try_flush_dedup sha rp urlsplit now cs xadd_error dedup_key st =
     (case fetch_one (\<lambda>r. ob_dedup r = Some dedup_key \<and> ob_status r = OB_pending) (ob_rows (fst st)) of
        None \<Rightarrow> (False, st)
      | Some r \<Rightarrow> (case relay_by_id sha rp urlsplit now cs xadd_error (ob_id r) st of
          (outcome, st') \<Rightarrow> (outcome = Relay_sent, st')))"

section \<open>Replay after a Redis loss\<close>

text \<open>
  The \<open>UPDATE\<close> of \<open>reconcile_redis_task_stream_epoch\<close>: sent rows of queued tasks whose recorded epoch
  is not the one observed for their lane; \<open>observed\<close> lists the lanes that could be read. (The
  global epoch the transaction also stores is only compared for the log.)
\<close>

definition replay_row :: "(string \<times> string) list \<Rightarrow> dispatch_task list \<Rightarrow> outbox_row \<Rightarrow> bool" where
  "replay_row observed tasks r \<longleftrightarrow> ob_status r = OB_sent \<and>
     (\<exists>t \<in> set tasks. ob_dedup r = Some (tr_task_id t) \<and> tr_status t = ''queued'') \<and>
     (case map_of observed (ob_stream r) of None \<Rightarrow> False | Some x \<Rightarrow> ob_epoch r \<noteq> Some x)"

definition replay_rows :: "int \<Rightarrow> (string \<times> string) list \<Rightarrow> dispatch_task list \<Rightarrow> outbox_row list \<Rightarrow> outbox_row list" where
  "replay_rows now observed tasks rows = update_where (replay_row observed tasks)
     (\<lambda>r. r\<lparr>ob_status := OB_pending, ob_attempts := 0, ob_sent_at := None, ob_epoch := None,
            ob_last_error := Some ''Redis task-stream lane epoch changed; queued delivery scheduled for safe replay'',
            ob_updated_at := now\<rparr>) rows"

text \<open>Reading the epoch of each lane; a lane that cannot be read is skipped.\<close>

fun read_lanes :: "(string \<Rightarrow> string) \<Rightarrow> (string \<Rightarrow> string \<times> string) \<Rightarrow> string list \<Rightarrow> redis_state \<Rightarrow>
    (string \<times> string) list \<times> redis_state" where
  "read_lanes sha cands [] rd = ([], rd)"
| "read_lanes sha cands (k # ks) rd =
     (case read_redis_task_stream_epoch sha (cands k) (Some k) False rd of (r, rd1) \<Rightarrow>
       (case read_lanes sha cands ks rd1 of (obs, rd2) \<Rightarrow>
         (case r of Inl _ \<Rightarrow> (obs, rd2) | Inr x \<Rightarrow> ((k, x) # obs, rd2))))"

definition owned_bindings :: "task_stream_binding list \<Rightarrow> string list \<Rightarrow> bool \<Rightarrow> task_stream_binding list" where
  "owned_bindings bs selected include_shared = filter (\<lambda>b. case tb_platform b of
     None \<Rightarrow> include_shared | Some p \<Rightarrow> p \<in> set selected) bs"

definition reconcile_redis_task_stream_epoch ::
  "(string \<Rightarrow> string) \<Rightarrow> int \<Rightarrow> string \<times> string \<Rightarrow> (string \<Rightarrow> string \<times> string) \<Rightarrow> bool \<Rightarrow> string list \<Rightarrow> bool \<Rightarrow> bool \<Rightarrow>
     dispatch_db \<times> redis_state \<Rightarrow> (string, nat) result \<times> dispatch_db \<times> redis_state" where
  "reconcile_redis_task_stream_epoch sha now c cands legacy_drain selected include_shared require_all st =
     (case st of (db, rd) \<Rightarrow>
      let bs = owned_bindings (task_stream_bindings (include_shared \<and> legacy_drain) True) selected include_shared in
      if bs = [] then (Inr 0, db, rd)
      else (case read_redis_task_stream_epoch sha c None False rd of
        (Inl e, rd1) \<Rightarrow> (Inl e, db, rd1)
      | (Inr _, rd1) \<Rightarrow> (case read_lanes sha cands (map tb_stream_key bs) rd1 of (observed, rd2) \<Rightarrow>
          if observed = [] \<or> (require_all \<and> length observed \<noteq> length bs)
          then (Inl ''redis_task_stream_lane_epochs_unavailable'', db, rd2)
          else (Inr (row_count (replay_row observed (ob_tasks db)) (ob_rows db)),
                db\<lparr>ob_rows := replay_rows now observed (ob_tasks db) (ob_rows db)\<rparr>, rd2))))"

end
