(* ===== verification/OutboxFlush.thy ===== *)
theory OutboxFlush
  imports Outbox
begin

text \<open>
  What a flush of the outbox achieves when nothing interferes: on a Redis that answers with
  well-formed tokens every scanned row is claimed, appended once, marked sent and confirmed, in the
  order of the ids, so repeated flushes drain the outbox.
\<close>

section \<open>A Redis that answers\<close>

definition hex_token :: "string \<Rightarrow> bool" where
  "hex_token v \<longleftrightarrow> hex_string 64 (strip v)"

definition redis_healthy :: "redis_state \<Rightarrow> bool" where
  "redis_healthy rd \<longleftrightarrow> rd_up rd \<and> hex_string 40 (strip (rd_run_id rd))
     \<and> (\<forall>v. rd_keys rd REDIS_TASK_STREAM_SENTINEL_KEY = Some v \<longrightarrow> hex_token v)
     \<and> (\<forall>k v. rd_keys rd (REDIS_TASK_STREAM_LANE_TOKEN_PREFIX @ k) = Some v \<longrightarrow> hex_token v)"

lemma healthy_xadd [simp]: "redis_healthy (xadd k m rd) = redis_healthy rd"
  by (simp add: redis_healthy_def xadd_def)

lemma token_read_healthy:
  assumes "redis_healthy rd" "hex_token c"
    "key = REDIS_TASK_STREAM_SENTINEL_KEY \<or> key = REDIS_TASK_STREAM_LANE_TOKEN_PREFIX @ k"
    "READ_OR_CREATE_REDIS_CONTINUITY_TOKEN_LUA key c rd = (g, rd1)"
  shows "hex_token g \<and> redis_healthy rd1"
  using assms by (auto simp: READ_OR_CREATE_REDIS_CONTINUITY_TOKEN_LUA_def redis_healthy_def split: option.splits if_splits)

lemma observe_empty_healthy:
  assumes "redis_healthy rd" "hex_token c" "hex_token l"
    "observe_empty (REDIS_TASK_STREAM_LANE_TOKEN_PREFIX @ k) (REDIS_TASK_STREAM_LANE_STATE_PREFIX @ k) c arm pre l rd = (l', rd1)"
  shows "hex_token l' \<and> redis_healthy rd1"
proof -
  have "l' = fst (l', rd1)" "rd1 = snd (l', rd1)" by simp_all
  note e = this [folded assms(4)]
  show ?thesis unfolding e observe_empty_def Let_def using assms(1-3) by (auto simp: redis_healthy_def)
qed

lemma lane_read_healthy:
  assumes h: "redis_healthy rd" and c: "hex_token c" "hex_token lc"
    and r: "READ_REDIS_TASK_STREAM_LANE_CONTINUITY_LUA k c lc arm rd = ((g, l), rd1)"
  shows "hex_token g \<and> hex_token l \<and> redis_healthy rd1"
proof -
  let ?tk = "REDIS_TASK_STREAM_LANE_TOKEN_PREFIX @ k" and ?sk = "REDIS_TASK_STREAM_LANE_STATE_PREFIX @ k"
  obtain g0 rda where a: "READ_OR_CREATE_REDIS_CONTINUITY_TOKEN_LUA REDIS_TASK_STREAM_SENTINEL_KEY c rd = (g0, rda)" by fastforce
  obtain l0 rdb where b: "READ_OR_CREATE_REDIS_CONTINUITY_TOKEN_LUA ?tk lc rda = (l0, rdb)" by fastforce
  have ha: "hex_token g0 \<and> redis_healthy rda" using token_read_healthy [OF h c(1) _ a] by simp
  then have hb: "hex_token l0 \<and> redis_healthy rdb" using token_read_healthy [OF _ c(2) _ b] by blast
  show ?thesis
  proof (cases "rd_streams rdb k = []")
    case True
    obtain l1 rdc where o: "observe_empty ?tk ?sk lc arm (rd_keys rda ?tk \<noteq> None) l0 rdb = (l1, rdc)" by fastforce
    have "hex_token l1 \<and> redis_healthy rdc" using observe_empty_healthy [OF _ c(2) _ o] hb by blast
    moreover have "((g, l), rd1) = ((g0, l1), rdc)"
      using r [symmetric] by (simp only: READ_REDIS_TASK_STREAM_LANE_CONTINUITY_LUA_def Let_def a b o prod.case True if_True simp_thms)
    ultimately show ?thesis using ha by simp
  next
    case False
    then have e: "((g, l), rd1) = ((g0, l0), rdb\<lparr>rd_keys := (rd_keys rdb)(?sk \<mapsto> ''nonempty'')\<rparr>)"
      using r by (simp add: READ_REDIS_TASK_STREAM_LANE_CONTINUITY_LUA_def Let_def a b)
    have "redis_healthy (rdb\<lparr>rd_keys := (rd_keys rdb)(?sk \<mapsto> ''nonempty'')\<rparr>)" using hb by (simp add: redis_healthy_def)
    then show ?thesis using e ha hb by simp
  qed
qed

lemma read_epoch_healthy:
  assumes "redis_healthy rd" "hex_token (fst c)" "hex_token (snd c)" "known_stream k"
  shows "\<exists>x rd1. read_redis_task_stream_epoch sha c (Some k) arm rd = (Inr x, rd1) \<and> redis_healthy rd1"
proof -
  obtain g l rd1 where r: "READ_REDIS_TASK_STREAM_LANE_CONTINUITY_LUA (strip k) (fst c) (snd c) arm rd = ((g, l), rd1)"
    by (metis prod.exhaust)
  have t: "hex_token g" "hex_token l" "redis_healthy rd1" using lane_read_healthy [OF assms(1-3) r] by simp_all
  then show ?thesis using assms(1,4) r
    by (simp add: read_redis_task_stream_epoch_def Let_def redis_healthy_def hex_token_def)
qed

section \<open>Delivering one row\<close>

definition sent_row :: "int \<Rightarrow> string option \<Rightarrow> outbox_row \<Rightarrow> outbox_row" where
  "sent_row now x r = r\<lparr>ob_status := OB_sent, ob_attempts := ob_attempts r + 1, ob_sent_at := Some now,
     ob_epoch := x, ob_updated_at := now\<rparr>"

text \<open>A row the code can deliver: pending, with an accepted envelope and a stripped stream key.\<close>

definition deliverable :: "(pyval \<Rightarrow> string) \<Rightarrow> (string \<Rightarrow> url_parts option) \<Rightarrow> outbox_row \<Rightarrow> bool" where
  "deliverable rp us r \<longleftrightarrow> ob_status r = OB_pending \<and> strip (ob_stream r) = ob_stream r
     \<and> validate_task_stream_binding rp us (ob_payload r) (ob_stream r) = Inr ()"

lemma prepare_confirm:
  assumes "redis_healthy rd" "hex_token (fst c)" "hex_token (snd c)" "strip k = k"
  obtains x rd1 where "prepare_delivery sha c k rd = (Inr x, rd1)" "redis_healthy rd1" "rd_streams rd1 = rd_streams rd"
    "x = None \<or> (\<exists>y. x = Some y \<and> known_stream k \<and> read_redis_task_stream_epoch sha c (Some k) True rd = (Inr y, rd1))"
proof (cases "known_stream k")
  case True
  with assms obtain y rd1 where r: "read_redis_task_stream_epoch sha c (Some k) True rd = (Inr y, rd1)" "redis_healthy rd1"
    using read_epoch_healthy by blast
  have "rd_streams rd1 = rd_streams rd" using epoch_streams [of sha c "Some k" True rd] r(1) by simp
  with r True show ?thesis by (intro that [of "Some y" rd1]) (simp_all add: prepare_delivery_def)
qed (use assms that [of None rd] in \<open>simp add: prepare_delivery_def\<close>)

lemma healthy_confirm:
  assumes r: "read_redis_task_stream_epoch sha c (Some (cl_stream cl)) True rd = (Inr y, rd1)" "redis_healthy rd1"
    and k: "strip (cl_stream cl) = cl_stream cl" "known_stream (cl_stream cl)" and c': "hex_token (fst c')" "hex_token (snd c')"
  obtains rd2 where "confirm_delivery sha now c' cl y (rows, xadd (cl_stream cl) m rd1) = (True, rows, rd2)" "redis_healthy rd2"
    "rd_streams rd2 = (rd_streams rd)(cl_stream cl := rd_streams rd (cl_stream cl) @ [m])"
proof -
  obtain rd2 where a: "read_redis_task_stream_epoch sha c' (Some (cl_stream cl)) False (xadd (cl_stream cl) m rd1) = (Inr y, rd2)"
    "rd_streams rd2 = (rd_streams rd)(cl_stream cl := rd_streams rd (cl_stream cl) @ [m])"
    by (rule redis_continuity.delivery_confirmed [OF k(1) r(1)])
  moreover have "redis_healthy rd2"
    using read_epoch_healthy [of "xadd (cl_stream cl) m rd1" c' "cl_stream cl" sha False] r(2) k(2) c' a(1) by simp
  ultimately show ?thesis by (intro that [of rd2]) (simp_all add: confirm_delivery_def)
qed

lemma deliver_healthy:
  assumes h: "redis_healthy rd" and c: "hex_token (fst c)" "hex_token (snd c)" "hex_token (fst c')" "hex_token (snd c')"
    and k: "strip (cl_stream cl) = cl_stream cl" and v: "validate_task_stream_binding rp us (cl_payload cl) (cl_stream cl) = Inr ()"
    and n: "row_count (owns cl) (ob_rows db) \<noteq> 0"
  obtains x rd' where "deliver_claimed sha rp us now (c, c') None cl (db, rd) =
      (True, db\<lparr>ob_rows := snd (mark_sent now cl x (ob_rows db))\<rparr>, rd')" "redis_healthy rd'"
    "rd_streams rd' = (rd_streams rd)(cl_stream cl := rd_streams rd (cl_stream cl) @ [cl_payload cl])"
proof -
  from h c(1,2) k obtain x rd1 where p: "prepare_delivery sha c (cl_stream cl) rd = (Inr x, rd1)" "redis_healthy rd1"
    "rd_streams rd1 = rd_streams rd" and
    x: "x = None \<or> (\<exists>y. x = Some y \<and> known_stream (cl_stream cl) \<and> read_redis_task_stream_epoch sha c (Some (cl_stream cl)) True rd = (Inr y, rd1))"
    by (rule prepare_confirm)
  have m: "mark_sent now cl x (ob_rows db) = (row_count (owns cl) (ob_rows db), snd (mark_sent now cl x (ob_rows db)))"
    by (simp add: mark_sent_def)
  show ?thesis
  proof (cases x)
    case None
    show ?thesis
    proof (rule that)
      show "deliver_claimed sha rp us now (c, c') None cl (db, rd) =
        (True, db\<lparr>ob_rows := snd (mark_sent now cl x (ob_rows db))\<rparr>, xadd (cl_stream cl) (cl_payload cl) rd1)"
        using n None by (simp add: deliver_claimed_def v p(1) mark_sent_def)
    qed (use p in \<open>simp_all add: xadd_def [of _ _ rd1] redis_healthy_def\<close>)
  next
    case (Some y)
    with x have y: "known_stream (cl_stream cl)" "read_redis_task_stream_epoch sha c (Some (cl_stream cl)) True rd = (Inr y, rd1)" by auto
    let ?rows = "snd (mark_sent now cl x (ob_rows db))"
    obtain rd2 where f: "confirm_delivery sha now c' cl y (?rows, xadd (cl_stream cl) (cl_payload cl) rd1) = (True, ?rows, rd2)"
      "redis_healthy rd2" "rd_streams rd2 = (rd_streams rd)(cl_stream cl := rd_streams rd (cl_stream cl) @ [cl_payload cl])"
      by (rule healthy_confirm [OF y(2) p(2) k y(1) c(3,4)])
    have "deliver_claimed sha rp us now (c, c') None cl (db, rd) = (True, db\<lparr>ob_rows := ?rows\<rparr>, rd2)"
      unfolding deliver_claimed_def using n f(1) by (simp add: v p(1) Some mark_sent_def)
    then show ?thesis using f(2,3) by (rule that)
  qed
qed

section \<open>Delivering a batch\<close>

lemma claim_mark_compose:
  assumes d: "distinct (map ob_id rows)" and r: "r \<in> set rows" "ob_status r = OB_pending"
  defines "cl \<equiv> \<lparr>cl_id = ob_id r, cl_stream = ob_stream r, cl_payload = ob_payload r, cl_attempts = ob_attempts r + 1\<rparr>"
  obtains rows1 where "claim_row now (ob_id r) rows = (Some cl, rows1)" "row_count (owns cl) rows1 \<noteq> 0"
    "\<forall>x. snd (mark_sent now cl x rows1) = update_where (\<lambda>q. ob_id q = ob_id r) (sent_row now x) rows"
proof -
  have u: "q = r" if "q \<in> set rows" "ob_id q = ob_id r" for q
    using d that(1) r(1) that(2) by (rule distinct_map_eqD)
  have fetch: "fetch_one (\<lambda>q. ob_id q = ob_id r \<and> ob_status q = OB_pending) rows = Some r"
    by (rule fetch_one_unique [OF d r(1)]) (use r(2) in auto)
  let ?f = "\<lambda>q. q\<lparr>ob_status := OB_sending, ob_attempts := ob_attempts r + 1, ob_updated_at := now\<rparr>"
  let ?rows1 = "update_where (\<lambda>q. ob_id q = ob_id r \<and> ob_status q = OB_pending) ?f rows"
  have "?f r \<in> set ?rows1" using r by (force simp: update_where_def)
  moreover have "owns cl (?f r)" by (simp add: owns_def cl_def)
  ultimately have n: "row_count (owns cl) ?rows1 \<noteq> 0" by (auto simp: row_count_def filter_empty_conv)
  have pt: "(if owns cl (if ob_id q = ob_id r \<and> ob_status q = OB_pending then ?f q else q)
          then (if ob_id q = ob_id r \<and> ob_status q = OB_pending then ?f q else q)
            \<lparr>ob_status := OB_sent, ob_sent_at := Some now, ob_epoch := x, ob_updated_at := now\<rparr>
          else (if ob_id q = ob_id r \<and> ob_status q = OB_pending then ?f q else q)) =
        (if ob_id q = ob_id r then sent_row now x q else q)" if "q \<in> set rows" for q x
  proof (cases "ob_id q = ob_id r")
    case True
    then have "q = r" using u that by blast
    then show ?thesis using r(2) by (simp add: owns_def cl_def sent_row_def)
  qed (simp add: owns_def cl_def)
  have m: "\<forall>x. snd (mark_sent now cl x ?rows1) = update_where (\<lambda>q. ob_id q = ob_id r) (sent_row now x) rows"
    unfolding mark_sent_def update_where_def snd_conv map_map
    by (intro allI map_cong [OF refl]) (simp only: o_apply pt)
  have "claim_row now (ob_id r) rows = (Some cl, ?rows1)" by (simp add: claim_row_def fetch cl_def)
  from that [OF this n m] show ?thesis .
qed

lemma relay_sends:
  assumes h: "redis_healthy rd" and d: "distinct (map ob_id (ob_rows db))" and r: "r \<in> set (ob_rows db)" "deliverable rp us r"
    and c: "hex_token (fst c)" "hex_token (snd c)" "hex_token (fst c')" "hex_token (snd c')"
  obtains x rd' where "relay_by_id sha rp us now (c, c') None (ob_id r) (db, rd) =
      (Relay_sent, db\<lparr>ob_rows := update_where (\<lambda>q. ob_id q = ob_id r) (sent_row now x) (ob_rows db)\<rparr>, rd')"
    "redis_healthy rd'" "rd_streams rd' = (rd_streams rd)(ob_stream r := rd_streams rd (ob_stream r) @ [ob_payload r])"
proof -
  define cl where "cl = \<lparr>cl_id = ob_id r, cl_stream = ob_stream r, cl_payload = ob_payload r, cl_attempts = ob_attempts r + 1\<rparr>"
  have sel: "cl_stream cl = ob_stream r" "cl_payload cl = ob_payload r" by (simp_all add: cl_def)
  have p: "ob_status r = OB_pending" "strip (ob_stream r) = ob_stream r"
    "validate_task_stream_binding rp us (ob_payload r) (ob_stream r) = Inr ()" using r(2) by (simp_all add: deliverable_def)
  obtain rows1 where cm: "claim_row now (ob_id r) (ob_rows db) = (Some cl, rows1)" "row_count (owns cl) rows1 \<noteq> 0"
    "\<forall>x. snd (mark_sent now cl x rows1) = update_where (\<lambda>q. ob_id q = ob_id r) (sent_row now x) (ob_rows db)"
    by (rule claim_mark_compose [OF d r(1) p(1), folded cl_def])
  obtain x rd' where "deliver_claimed sha rp us now (c, c') None cl (db\<lparr>ob_rows := rows1\<rparr>, rd) =
      (True, (db\<lparr>ob_rows := rows1\<rparr>)\<lparr>ob_rows := snd (mark_sent now cl x (ob_rows (db\<lparr>ob_rows := rows1\<rparr>)))\<rparr>, rd')" "redis_healthy rd'"
    "rd_streams rd' = (rd_streams rd)(cl_stream cl := rd_streams rd (cl_stream cl) @ [cl_payload cl])"
    by (rule deliver_healthy [OF h c, where cl = cl and rp = rp and us = us and db = "db\<lparr>ob_rows := rows1\<rparr>"]) (use p cm(2) in \<open>simp_all add: cl_def\<close>)
  then show ?thesis by (intro that [of x rd']) (simp_all add: relay_by_id_def cm(1) cm(3) sel)
qed

text \<open>The rows with an id of \<open>I\<close> were sent, the others were not touched.\<close>

definition delivered :: "int \<Rightarrow> nat set \<Rightarrow> outbox_row list \<Rightarrow> outbox_row list \<Rightarrow> bool" where
  "delivered now I rows rows' \<longleftrightarrow>
     list_all2 (\<lambda>r r'. if ob_id r \<in> I then \<exists>x. r' = sent_row now x r else r' = r) rows rows'"

lemma sent_row_simps [simp]:
  "ob_id (sent_row now x r) = ob_id r" "ob_stream (sent_row now x r) = ob_stream r" "ob_status (sent_row now x r) = OB_sent"
  "ob_payload (sent_row now x r) = ob_payload r"
  by (simp_all add: sent_row_def)

lemma delivered_ids: "delivered now I rows rows' \<Longrightarrow> map ob_id rows' = map ob_id rows"
  unfolding delivered_def by (induction rule: list_all2_induct) (auto split: if_splits)

lemma delivered_pending:
  "delivered now I rows rows' \<Longrightarrow> filter (\<lambda>r. ob_status r = OB_pending \<and> sc (ob_stream r)) rows' =
     filter (\<lambda>r. ob_id r \<notin> I) (filter (\<lambda>r. ob_status r = OB_pending \<and> sc (ob_stream r)) rows)"
  unfolding delivered_def by (induction rule: list_all2_induct) (auto split: if_splits)

lemma delivered_one:
  assumes "delivered now I (update_where (\<lambda>q. ob_id q = i) (sent_row now x) rows) rows'" "i \<notin> I"
  shows "delivered now (insert i I) rows rows'"
  using assms(1) unfolding delivered_def update_where_def list.rel_map
  by (rule list_all2_mono) (use assms(2) in \<open>auto split: if_splits\<close>)

text \<open>Appends that succeed, with well-formed candidates.\<close>

definition calm :: "(nat \<Rightarrow> ((string \<times> string) \<times> (string \<times> string)) \<times> string option) \<Rightarrow> bool" where
  "calm env \<longleftrightarrow> (\<forall>i. snd (env i) = None \<and> hex_token (fst (fst (fst (env i)))) \<and> hex_token (snd (fst (fst (env i))))
     \<and> hex_token (fst (snd (fst (env i)))) \<and> hex_token (snd (snd (fst (env i)))))"

lemma batch_sends:
  assumes "redis_healthy rd" "calm env" "distinct (map ob_id (ob_rows db))" "distinct (map ob_id rs)"
    "set rs \<subseteq> set (ob_rows db)" "\<forall>r \<in> set rs. deliverable rp us r"
  shows "\<exists>rows' rd'. relay_batch sha rp us now env (map ob_id rs) (db, rd) = ((length rs, 0), db\<lparr>ob_rows := rows'\<rparr>, rd')
    \<and> redis_healthy rd' \<and> delivered now (ob_id ` set rs) (ob_rows db) rows'
    \<and> (\<forall>k. rd_streams rd' k = rd_streams rd k @ map ob_payload (filter (\<lambda>r. ob_stream r = k) rs))"
  using assms
proof (induction rs arbitrary: db rd)
  case Nil
  then show ?case by (auto intro!: exI [of _ "ob_rows db"] simp: delivered_def list_all2_refl)
next
  case (Cons r rs)
  obtain c c' where env: "env (ob_id r) = ((c, c'), None)" using Cons.prems(2) by (metis calm_def prod.exhaust_sel)
  have hex: "hex_token (fst c)" "hex_token (snd c)" "hex_token (fst c')" "hex_token (snd c')"
    using Cons.prems(2) env unfolding calm_def by (metis fst_conv snd_conv)+
  have r: "r \<in> set (ob_rows db)" "deliverable rp us r" using Cons.prems(5,6) by simp_all
  obtain x rd1 where one: "relay_by_id sha rp us now (c, c') None (ob_id r) (db, rd) =
      (Relay_sent, db\<lparr>ob_rows := update_where (\<lambda>q. ob_id q = ob_id r) (sent_row now x) (ob_rows db)\<rparr>, rd1)" "redis_healthy rd1"
    "rd_streams rd1 = (rd_streams rd)(ob_stream r := rd_streams rd (ob_stream r) @ [ob_payload r])"
    by (rule relay_sends [OF Cons.prems(1,3) r hex])
  define rows1 where "rows1 = update_where (\<lambda>q. ob_id q = ob_id r) (sent_row now x) (ob_rows db)"
  have ids: "map ob_id rows1 = map ob_id (ob_rows db)" unfolding rows1_def by (rule map_update_where_same) simp
  have "set rs \<subseteq> set rows1"
    using Cons.prems(4,5) unfolding rows1_def set_update_where by (force simp: image_iff)
  with Cons.IH [of rd1 "db\<lparr>ob_rows := rows1\<rparr>"] Cons.prems one(2) ids obtain rows' rd' where
    b: "relay_batch sha rp us now env (map ob_id rs) (db\<lparr>ob_rows := rows1\<rparr>, rd1) = ((length rs, 0), db\<lparr>ob_rows := rows'\<rparr>, rd')"
    "redis_healthy rd'" "delivered now (ob_id ` set rs) rows1 rows'"
    "\<forall>k. rd_streams rd' k = rd_streams rd1 k @ map ob_payload (filter (\<lambda>r. ob_stream r = k) rs)"
    by (auto simp del: map_eq_conv)
  have "delivered now (ob_id ` set (r # rs)) (ob_rows db) rows'"
    using delivered_one [OF b(3) [unfolded rows1_def]] Cons.prems(4) by simp
  moreover have "relay_batch sha rp us now env (map ob_id (r # rs)) (db, rd) = ((length (r # rs), 0), db\<lparr>ob_rows := rows'\<rparr>, rd')"
    using one(1) b(1) by (simp add: env rows1_def)
  moreover have "\<forall>k. rd_streams rd' k = rd_streams rd k @ map ob_payload (filter (\<lambda>r. ob_stream r = k) (r # rs))"
    using b(4) one(3) by simp
  ultimately show ?case using b(2) by blast
qed

section \<open>Flushing\<close>

definition pending_rows :: "(string \<Rightarrow> bool) \<Rightarrow> outbox_row list \<Rightarrow> outbox_row list" where
  "pending_rows sc rows = filter (\<lambda>r. ob_status r = OB_pending \<and> sc (ob_stream r)) rows"

lemma pending_ids_rows: "pending_ids sc rows = map ob_id (pending_rows sc rows)"
  by (simp add: pending_ids_def pending_rows_def)

lemma distinct_map_filter: "distinct (map f xs) \<Longrightarrow> distinct (map f (filter p xs))"
  by (induction xs) auto

lemma filter_not_take:
  "distinct (map f xs) \<Longrightarrow> filter (\<lambda>x. f x \<notin> f ` set (take n xs)) xs = drop n xs"
proof (induction xs arbitrary: n)
  case (Cons x xs)
  show ?case
  proof (cases n)
    case (Suc m)
    have "filter (\<lambda>y. f y \<notin> f ` set (take n (x # xs))) xs = filter (\<lambda>y. f y \<notin> f ` set (take m xs)) xs"
      using Cons.prems by (intro filter_cong) (fastforce simp: Suc image_iff)+
    then show ?thesis using Cons Suc by simp
  qed simp
qed simp

text \<open>
  The database a flush may run on: unique ids, and every pending row in scope deliverable.
\<close>

definition flushable :: "(pyval \<Rightarrow> string) \<Rightarrow> (string \<Rightarrow> url_parts option) \<Rightarrow> (string \<Rightarrow> bool) \<Rightarrow> dispatch_db \<Rightarrow> bool" where
  "flushable rp us sc db \<longleftrightarrow> distinct (map ob_id (ob_rows db)) \<and> list_all (deliverable rp us) (pending_rows sc (ob_rows db))"

lemma flush_sends:
  assumes h: "redis_healthy rd" and c: "calm env" and f: "flushable rp us sc db"
  shows "\<exists>rows' rd'. flush_pending_outbox sha rp us now env limit sc (db, rd) =
      ((min limit (length (pending_rows sc (ob_rows db))), min limit (length (pending_rows sc (ob_rows db))), 0), db\<lparr>ob_rows := rows'\<rparr>, rd')
    \<and> redis_healthy rd' \<and> delivered now (set (take limit (pending_ids sc (ob_rows db)))) (ob_rows db) rows'
    \<and> (\<forall>k. rd_streams rd' k = rd_streams rd k @
          map ob_payload (filter (\<lambda>r. ob_stream r = k) (take limit (pending_rows sc (ob_rows db)))))"
proof -
  let ?rs = "take limit (pending_rows sc (ob_rows db))"
  have d: "distinct (map ob_id (ob_rows db))" and a: "list_all (deliverable rp us) (pending_rows sc (ob_rows db))"
    using f by (simp_all add: flushable_def)
  have "distinct (map ob_id (pending_rows sc (ob_rows db)))" unfolding pending_rows_def using d by (rule distinct_map_filter)
  then have "distinct (map ob_id ?rs)" unfolding take_map [symmetric] by (rule distinct_take)
  moreover have "set ?rs \<subseteq> set (ob_rows db)" by (auto simp: pending_rows_def dest: in_set_takeD)
  moreover have "\<forall>r \<in> set ?rs. deliverable rp us r" using a by (auto simp: list_all_iff dest: in_set_takeD)
  ultimately obtain rows' rd' where b: "relay_batch sha rp us now env (map ob_id ?rs) (db, rd) = ((length ?rs, 0), db\<lparr>ob_rows := rows'\<rparr>, rd')"
    "redis_healthy rd'" "delivered now (ob_id ` set ?rs) (ob_rows db) rows'"
    "\<forall>k. rd_streams rd' k = rd_streams rd k @ map ob_payload (filter (\<lambda>r. ob_stream r = k) ?rs)"
    using batch_sends [OF h c d] by blast
  have m: "map ob_id ?rs = take limit (pending_ids sc (ob_rows db))" by (simp add: pending_ids_rows take_map)
  have i: "ob_id ` set ?rs = set (take limit (pending_ids sc (ob_rows db)))" by (simp add: m [symmetric])
  have n: "length (take limit (pending_ids sc (ob_rows db))) = min limit (length (pending_rows sc (ob_rows db)))"
    "length ?rs = min limit (length (pending_rows sc (ob_rows db)))" by (simp_all add: pending_ids_rows min.commute)
  have "flush_pending_outbox sha rp us now env limit sc (db, rd) =
      ((min limit (length (pending_rows sc (ob_rows db))), min limit (length (pending_rows sc (ob_rows db))), 0), db\<lparr>ob_rows := rows'\<rparr>, rd')"
    unfolding flush_pending_outbox_def Let_def fst_conv n(1) using b(1) [unfolded m n(2)] by simp
  then show ?thesis using b(2-4) unfolding i by blast
qed

lemma flush_pending:
  assumes "delivered now (set (take limit (pending_ids sc rows))) rows rows'" "distinct (map ob_id rows)"
  shows "pending_rows sc rows' = drop limit (pending_rows sc rows)"
proof -
  have "distinct (map ob_id (pending_rows sc rows))" unfolding pending_rows_def using assms(2) by (rule distinct_map_filter)
  moreover have "set (take limit (pending_ids sc rows)) = ob_id ` set (take limit (pending_rows sc rows))"
    by (simp add: pending_ids_rows take_map)
  ultimately show ?thesis using delivered_pending [OF assms(1), of sc] filter_not_take [of ob_id "pending_rows sc rows" limit]
    by (simp add: pending_rows_def)
qed

text \<open>Rounds of flushing, each with its own clock and random candidates.\<close>

fun flush_rounds ::
  "(string \<Rightarrow> string) \<Rightarrow> (pyval \<Rightarrow> string) \<Rightarrow> (string \<Rightarrow> url_parts option) \<Rightarrow>
     (int \<times> (nat \<Rightarrow> ((string \<times> string) \<times> (string \<times> string)) \<times> string option)) list \<Rightarrow> nat \<Rightarrow> (string \<Rightarrow> bool) \<Rightarrow>
     dispatch_db \<times> redis_state \<Rightarrow> dispatch_db \<times> redis_state" where
  "flush_rounds sha rp us [] limit sc st = st"
| "flush_rounds sha rp us ((now, env) # rounds) limit sc st =
     flush_rounds sha rp us rounds limit sc (snd (flush_pending_outbox sha rp us now env limit sc st))"

lemma flush_rounds_drain:
  assumes "redis_healthy rd" "\<forall>(now, env) \<in> set rounds. calm env" "flushable rp us sc db"
  shows "\<exists>rows' rd'. flush_rounds sha rp us rounds limit sc (db, rd) = (db\<lparr>ob_rows := rows'\<rparr>, rd')
    \<and> pending_rows sc rows' = drop (length rounds * limit) (pending_rows sc (ob_rows db))
    \<and> (\<forall>k. rd_streams rd' k = rd_streams rd k @ map ob_payload
         (filter (\<lambda>r. ob_stream r = k) (take (length rounds * limit) (pending_rows sc (ob_rows db)))))"
  using assms
proof (induction rounds arbitrary: db rd)
  case Nil
  then show ?case by (auto intro!: exI [of _ "ob_rows db"])
next
  case (Cons round rounds)
  obtain now env where rd: "round = (now, env)" by fastforce
  have c: "calm env" using Cons.prems(2) rd by simp
  let ?p = "pending_rows sc (ob_rows db)"
  from flush_sends [OF Cons.prems(1) c Cons.prems(3), of sha now limit] obtain rows1 rd1 where
    f: "snd (flush_pending_outbox sha rp us now env limit sc (db, rd)) = (db\<lparr>ob_rows := rows1\<rparr>, rd1)" "redis_healthy rd1"
    "delivered now (set (take limit (pending_ids sc (ob_rows db)))) (ob_rows db) rows1"
    "\<forall>k. rd_streams rd1 k = rd_streams rd k @ map ob_payload (filter (\<lambda>r. ob_stream r = k) (take limit ?p))"
    by auto
  have d: "distinct (map ob_id (ob_rows db))" using Cons.prems(3) by (simp add: flushable_def)
  have p: "pending_rows sc rows1 = drop limit ?p" using f(3) d by (rule flush_pending)
  have "flushable rp us sc (db\<lparr>ob_rows := rows1\<rparr>)"
    using Cons.prems(3) delivered_ids [OF f(3)] by (auto simp: flushable_def p list_all_iff dest: in_set_dropD)
  from Cons.IH [OF f(2) _ this] Cons.prems(2) obtain rows' rd' where
    g: "flush_rounds sha rp us rounds limit sc (db\<lparr>ob_rows := rows1\<rparr>, rd1) = (db\<lparr>ob_rows := rows'\<rparr>, rd')"
    "pending_rows sc rows' = drop (length rounds * limit) (pending_rows sc rows1)"
    "\<forall>k. rd_streams rd' k = rd_streams rd1 k @ map ob_payload
         (filter (\<lambda>r. ob_stream r = k) (take (length rounds * limit) (pending_rows sc rows1)))"
    by auto
  have t: "take (limit + length rounds * limit) ?p = take limit ?p @ take (length rounds * limit) (drop limit ?p)"
    by (rule take_add)
  show ?case
    by (intro exI [of _ rows'] exI [of _ rd'] conjI allI) (use f(1,4) g in \<open>simp_all add: rd p t add.commute\<close>)
qed

section \<open>Properties\<close>

text \<open>
  C21. The outbox drains. While Redis answers with well-formed tokens and appends succeed, and every pending row in scope holds an
  envelope its stream accepts under a key without surrounding blanks, as enqueueing leaves it, enough flushes
  of at most \<open>limit\<close> rows (as many as it takes to cover the pending rows in scope) leave no pending row
  in scope, and every stream has grown by exactly the payloads of the rows that were pending for it, once each
  and in the order of their ids.
\<close>

theorem flush_drains_outbox:
  assumes "redis_healthy rd" "\<forall>(now, env) \<in> set rounds. calm env" "flushable rp us sc db"
    "length (pending_rows sc (ob_rows db)) \<le> length rounds * limit"
  shows "pending_rows sc (ob_rows (fst (flush_rounds sha rp us rounds limit sc (db, rd)))) = []
    \<and> (\<forall>k. rd_streams (snd (flush_rounds sha rp us rounds limit sc (db, rd))) k =
         rd_streams rd k @ map ob_payload (filter (\<lambda>r. ob_stream r = k) (pending_rows sc (ob_rows db))))"
  using flush_rounds_drain [OF assms(1-3), of sha limit] assms(4) by (auto simp: take_all)

definition demo_token :: "char \<Rightarrow> string" where
  "demo_token ch = replicate 64 ch"

definition demo_redis0 :: redis_state where
  "demo_redis0 = \<lparr>rd_up = True, rd_run_id = replicate 40 (CHR ''a''), rd_keys = (\<lambda>_. None), rd_streams = (\<lambda>_. [])\<rparr>"

definition demo_env :: "nat \<Rightarrow> ((string \<times> string) \<times> (string \<times> string)) \<times> string option" where
  "demo_env i = (((demo_token (CHR ''a''), demo_token (CHR ''b'')), (demo_token (CHR ''c''), demo_token (CHR ''d''))), None)"

definition demo_pending :: "nat \<Rightarrow> string \<Rightarrow> outbox_row" where
  "demo_pending i t = \<lparr>ob_id = i, ob_stream = ''lottery_tasks'', ob_payload = [(''task_id'', PStr t)], ob_status = OB_pending,
     ob_attempts = 0, ob_dedup = Some t, ob_epoch = None, ob_sent_at = None, ob_updated_at = 0, ob_archived_at = None,
     ob_last_error = None\<rparr>"

definition demo_db :: "outbox_row list \<Rightarrow> dispatch_db" where
  "demo_db rows = \<lparr>ob_rows = rows, ob_next = 3, ob_tasks = [], ob_lotteries = [], ob_leases = [], ob_bindings = [], ob_intents = []\<rparr>"

lemma demo_healthy: "redis_healthy demo_redis0"
proof -
  have "hex_string 40 (strip (rd_run_id demo_redis0))" by code_simp
  then show ?thesis by (simp add: redis_healthy_def demo_redis0_def)
qed

lemma demo_hex: "list_all hex_token (map demo_token [CHR ''a'', CHR ''b'', CHR ''c'', CHR ''d''])"
  by code_simp

lemma demo_calm: "calm demo_env"
  using demo_hex by (simp add: calm_def demo_env_def)

definition demo_two :: dispatch_db where
  "demo_two = demo_db [demo_pending 1 ''t1'', demo_pending 2 ''t2'']"

lemma demo_flushable: "flushable (\<lambda>_. []) (\<lambda>_. None) (\<lambda>_. True) demo_two"
  by code_simp

theorem flush_drains_outbox_witness:
  "rd_streams (snd (flush_rounds id (\<lambda>_. []) (\<lambda>_. None) [(5, demo_env), (6, demo_env)] 1 (\<lambda>_. True) (demo_two, demo_redis0)))
     ''lottery_tasks'' = [[(''task_id'', PStr ''t1'')], [(''task_id'', PStr ''t2'')]]"
proof -
  have p: "pending_rows (\<lambda>_. True) (ob_rows demo_two) = [demo_pending 1 ''t1'', demo_pending 2 ''t2'']"
    by (simp add: pending_rows_def demo_two_def demo_db_def demo_pending_def)
  have e: "rd_streams demo_redis0 k = []" for k by (simp add: demo_redis0_def)
  show ?thesis
    using flush_drains_outbox [OF demo_healthy _ demo_flushable, of "[(5, demo_env), (6, demo_env)]" 1 id] demo_calm
    by (simp add: p e) (simp add: demo_pending_def)
qed

end
