(* ===== verification/OutboxReplay.thy ===== *)
theory OutboxReplay
  imports OutboxFlush
begin

text \<open>
  Detection of a Redis loss: the epoch under which a row was delivered is compared with the epoch a
  later reconciliation reads for its lane; a row of a task still queued goes back to pending when
  they differ. The reconciliation first reads the global epoch and then the lanes one by one, so the
  lemmas follow what each of those readings leaves of the lane of interest.
\<close>

section \<open>What a reading leaves of another lane\<close>

definition same_lane :: "string \<Rightarrow> redis_state \<Rightarrow> redis_state \<Rightarrow> bool" where
  "same_lane k rd rd' \<longleftrightarrow> rd_up rd' = rd_up rd \<and> rd_run_id rd' = rd_run_id rd \<and> rd_streams rd' = rd_streams rd
     \<and> rd_keys rd' REDIS_TASK_STREAM_SENTINEL_KEY = rd_keys rd REDIS_TASK_STREAM_SENTINEL_KEY
     \<and> rd_keys rd' (REDIS_TASK_STREAM_LANE_TOKEN_PREFIX @ k) = rd_keys rd (REDIS_TASK_STREAM_LANE_TOKEN_PREFIX @ k)
     \<and> rd_keys rd' (REDIS_TASK_STREAM_LANE_STATE_PREFIX @ k) = rd_keys rd (REDIS_TASK_STREAM_LANE_STATE_PREFIX @ k)"

lemma same_lane_refl [simp]: "same_lane k rd rd"
  by (simp add: same_lane_def)

lemma same_lane_trans: "same_lane k a b \<Longrightarrow> same_lane k b c \<Longrightarrow> same_lane k a c"
  by (simp add: same_lane_def)

text \<open>The input of the digest of a lane's epoch, as a reading of the lane would compute it.\<close>

definition lane_input :: "string \<Rightarrow> string \<Rightarrow> string \<Rightarrow> bool \<Rightarrow> redis_state \<Rightarrow> string" where
  "lane_input k c lc arm rd = (case READ_REDIS_TASK_STREAM_LANE_CONTINUITY_LUA k c lc arm rd of ((g, l), _) \<Rightarrow>
     lane_digest_input (strip (rd_run_id rd)) (strip g) k (strip l))"

text \<open>The two tokens a reading returns, spelt out.\<close>

definition lane_rotates :: "string \<Rightarrow> redis_state \<Rightarrow> bool" where
  "lane_rotates k rd \<longleftrightarrow> rd_streams rd k = [] \<and> (rd_keys rd (REDIS_TASK_STREAM_LANE_STATE_PREFIX @ k) = Some ''nonempty''
     \<or> (rd_keys rd (REDIS_TASK_STREAM_LANE_STATE_PREFIX @ k) = None \<and> rd_keys rd (REDIS_TASK_STREAM_LANE_TOKEN_PREFIX @ k) \<noteq> None))"

lemma lane_read_tokens:
  "fst (READ_REDIS_TASK_STREAM_LANE_CONTINUITY_LUA k c lc arm rd) =
     (case rd_keys rd REDIS_TASK_STREAM_SENTINEL_KEY of None \<Rightarrow> c | Some v \<Rightarrow> v,
      if lane_rotates k rd then lc else case rd_keys rd (REDIS_TASK_STREAM_LANE_TOKEN_PREFIX @ k) of None \<Rightarrow> lc | Some v \<Rightarrow> v)"
  by (auto simp: lua_defs lane_rotates_def split: option.split)

lemma lane_input_alt:
  "lane_input k c lc arm rd = lane_digest_input (strip (rd_run_id rd))
     (strip (case rd_keys rd REDIS_TASK_STREAM_SENTINEL_KEY of None \<Rightarrow> c | Some v \<Rightarrow> v)) k
     (strip (if lane_rotates k rd then lc else case rd_keys rd (REDIS_TASK_STREAM_LANE_TOKEN_PREFIX @ k) of None \<Rightarrow> lc | Some v \<Rightarrow> v))"
proof -
  obtain g l rd1 where r: "READ_REDIS_TASK_STREAM_LANE_CONTINUITY_LUA k c lc arm rd = ((g, l), rd1)" by (metis prod.exhaust)
  have "(g, l) = fst (READ_REDIS_TASK_STREAM_LANE_CONTINUITY_LUA k c lc arm rd)" unfolding r by simp
  then show ?thesis unfolding lane_read_tokens by (simp add: lane_input_def r)
qed

lemma lane_frame:
  assumes "rd_keys rd REDIS_TASK_STREAM_SENTINEL_KEY = Some g" "k' \<noteq> k"
  shows "same_lane k rd (snd (READ_REDIS_TASK_STREAM_LANE_CONTINUITY_LUA k' c lc arm rd))"
  using assms by (auto simp: same_lane_def lua_defs split: option.split)

lemma epoch_frame:
  assumes "rd_keys rd REDIS_TASK_STREAM_SENTINEL_KEY = Some g" "strip k' \<noteq> k"
  shows "same_lane k rd (snd (read_redis_task_stream_epoch sha c (Some k') arm rd))"
proof -
  obtain t l rd1 where r: "READ_REDIS_TASK_STREAM_LANE_CONTINUITY_LUA (strip k') (fst c) (snd c) arm rd = ((t, l), rd1)"
    by (metis prod.exhaust)
  have "same_lane k rd rd1" using lane_frame [OF assms, of "fst c" "snd c" arm] by (simp add: r)
  then show ?thesis by (simp add: read_redis_task_stream_epoch_def Let_def r)
qed

text \<open>The reading of the global epoch sets the sentinel if it was missing and touches no lane.\<close>

lemma global_read:
  assumes "read_redis_task_stream_epoch sha c None False rd = (Inr e, rd1)"
  shows "rd_keys rd1 REDIS_TASK_STREAM_SENTINEL_KEY =
      Some (case rd_keys rd REDIS_TASK_STREAM_SENTINEL_KEY of None \<Rightarrow> fst c | Some v \<Rightarrow> v)"
    "same_lane k (rd\<lparr>rd_keys := (rd_keys rd)(REDIS_TASK_STREAM_SENTINEL_KEY :=
      rd_keys rd1 REDIS_TASK_STREAM_SENTINEL_KEY)\<rparr>) rd1"
  using assms by (auto simp: read_redis_task_stream_epoch_def Let_def READ_OR_CREATE_REDIS_CONTINUITY_TOKEN_LUA_def
      same_lane_def split: if_splits option.splits)

section \<open>Reading every lane\<close>

lemma read_lanes_length: "length (fst (read_lanes sha cands ks rd)) \<le> length ks"
proof (induction ks arbitrary: rd)
  case (Cons k ks)
  obtain r rd1 where r: "read_redis_task_stream_epoch sha (cands k) (Some k) False rd = (r, rd1)" by fastforce
  obtain obs rd2 where o: "read_lanes sha cands ks rd1 = (obs, rd2)" by fastforce
  have "length obs \<le> length ks" using Cons [of rd1] o by simp
  then show ?case by (cases r) (simp_all add: r o)
qed simp

text \<open>With every lane read, the epoch found for a lane was read from a state that shows it unchanged.\<close>

lemma read_lanes_lookup:
  assumes "rd_keys rd REDIS_TASK_STREAM_SENTINEL_KEY = Some g" "\<forall>q \<in> set ks. strip q = q" "distinct ks" "k \<in> set ks"
    "length (fst (read_lanes sha cands ks rd)) = length ks"
  shows "\<exists>rda y rdb. same_lane k rd rda \<and> read_redis_task_stream_epoch sha (cands k) (Some k) False rda = (Inr y, rdb)
    \<and> map_of (fst (read_lanes sha cands ks rd)) k = Some y"
  using assms
proof (induction ks arbitrary: rd)
  case (Cons q ks)
  obtain r rd1 where r: "read_redis_task_stream_epoch sha (cands q) (Some q) False rd = (r, rd1)" by fastforce
  obtain obs rd2 where o: "read_lanes sha cands ks rd1 = (obs, rd2)" by fastforce
  have "length obs \<le> length ks" using read_lanes_length [of sha cands ks rd1] o by simp
  with Cons.prems(5) obtain y where y: "r = Inr y" by (cases r) (simp_all add: r o)
  have all: "fst (read_lanes sha cands (q # ks) rd) = (q, y) # obs" "length obs = length ks"
    using Cons.prems(5) by (simp_all add: r o y)
  show ?case
  proof (cases "q = k")
    case True
    show ?thesis by (intro exI [of _ rd] exI [of _ y] exI [of _ rd1]) (use r y True all in simp)
  next
    case False
    then have "same_lane k rd (snd (r, rd1))" unfolding r [symmetric]
      by (intro epoch_frame [OF Cons.prems(1)]) (use Cons.prems(2) in simp)
    then have s: "same_lane k rd rd1" by simp
    then have g: "rd_keys rd1 REDIS_TASK_STREAM_SENTINEL_KEY = Some g" using Cons.prems(1) by (simp add: same_lane_def)
    obtain rda y' rdb where "same_lane k rd1 rda" "read_redis_task_stream_epoch sha (cands k) (Some k) False rda = (Inr y', rdb)"
      "map_of obs k = Some y'"
      using Cons.IH [OF g] Cons.prems(2-4) False all(2) o by auto
    then show ?thesis using same_lane_trans [OF s] all(1) False by auto
  qed
qed simp

section \<open>A lost lane\<close>

text \<open>
  Ways to lose a lane between two readings: the process was replaced, the sentinel or the lane's token
  is gone, or the lane is empty although it was armed or seen non-empty.
\<close>

definition lane_lost :: "string \<Rightarrow> redis_state \<Rightarrow> redis_state \<Rightarrow> bool" where
  "lane_lost k rd rd' \<longleftrightarrow> lower (strip (rd_run_id rd')) \<noteq> lower (strip (rd_run_id rd))
     \<or> rd_keys rd' REDIS_TASK_STREAM_SENTINEL_KEY = None
     \<or> rd_keys rd' (REDIS_TASK_STREAM_LANE_TOKEN_PREFIX @ k) = None
     \<or> (rd_keys rd' (REDIS_TASK_STREAM_LANE_STATE_PREFIX @ k) = Some ''nonempty'' \<and> rd_streams rd' k = [])"

text \<open>New random candidates: neither is a token stored by the first reading.\<close>

definition fresh_candidates :: "string \<Rightarrow> redis_state \<Rightarrow> string \<Rightarrow> string \<Rightarrow> bool" where
  "fresh_candidates k rd c lc \<longleftrightarrow>
     (\<forall>v. rd_keys rd REDIS_TASK_STREAM_SENTINEL_KEY = Some v \<longrightarrow> lower (strip c) \<noteq> lower (strip v)) \<and>
     (\<forall>v. rd_keys rd (REDIS_TASK_STREAM_LANE_TOKEN_PREFIX @ k) = Some v \<longrightarrow> lower (strip lc) \<noteq> lower (strip v))"

lemma task_stream_keys: "b \<in> set (task_stream_bindings l r) \<Longrightarrow> strip (tb_stream_key b) = tb_stream_key b"
  "distinct (map tb_stream_key (task_stream_bindings l r))"
proof -
  have "list_all (\<lambda>b. strip (tb_stream_key b) = tb_stream_key b) (task_stream_bindings True True)" by code_simp
  then show "strip (tb_stream_key b) = tb_stream_key b" if "b \<in> set (task_stream_bindings l r)"
    using that by (auto simp: list_all_iff task_stream_bindings_def split: if_splits)
  have "distinct (map tb_stream_key (task_stream_bindings True True))" by code_simp
  then show "distinct (map tb_stream_key (task_stream_bindings l r))"
    by (auto simp: task_stream_bindings_def)
qed

lemma owned_keys:
  "\<forall>k \<in> set (map tb_stream_key (owned_bindings (task_stream_bindings l r) sel sh)). strip k = k"
  "distinct (map tb_stream_key (owned_bindings (task_stream_bindings l r) sel sh))"
proof -
  show "\<forall>k \<in> set (map tb_stream_key (owned_bindings (task_stream_bindings l r) sel sh)). strip k = k"
    by (auto simp: owned_bindings_def task_stream_keys(1))
  have "distinct (map f xs) \<Longrightarrow> distinct (map f (filter p xs))" for f :: "task_stream_binding \<Rightarrow> string" and xs p
    by (induction xs) auto
  then show "distinct (map tb_stream_key (owned_bindings (task_stream_bindings l r) sel sh))"
    unfolding owned_bindings_def using task_stream_keys(2) by blast
qed

text \<open>After a loss the input of the digest is another one.\<close>

lemma lost_input_differs:
  assumes a: "READ_REDIS_TASK_STREAM_LANE_CONTINUITY_LUA k c0 lc0 True rd0 = ((g, l), rd1)"
    and hex: "hex_string 40 (strip (rd_run_id rd0))" "hex_string 64 (strip g)"
    and b: "READ_REDIS_TASK_STREAM_LANE_CONTINUITY_LUA k c lc False rd2 = ((g', l'), rd3)"
    and hex': "hex_string 40 (strip (rd_run_id rd2))" "hex_string 64 (strip g')"
    and lost: "lane_lost k rd1 rd2" and fresh: "fresh_candidates k rd1 c lc"
  shows "lane_digest_input (strip (rd_run_id rd0)) (strip g) k (strip l) \<noteq>
    lane_digest_input (strip (rd_run_id rd2)) (strip g') k (strip l')"
proof
  assume e: "lane_digest_input (strip (rd_run_id rd0)) (strip g) k (strip l) =
    lane_digest_input (strip (rd_run_id rd2)) (strip g') k (strip l')"
  note inj = lane_digest_inj [OF e hex(1) hex'(1) hex(2) hex'(2)]
  note s = lane_read_stores [OF a]
  have t: "(g', l') = fst (READ_REDIS_TASK_STREAM_LANE_CONTINUITY_LUA k c lc False rd2)" unfolding b by simp
  have f: "lower (strip c) \<noteq> lower (strip g)" "lower (strip lc) \<noteq> lower (strip l)"
    using fresh s(1,2) by (simp_all add: fresh_candidates_def)
  have "g' = c \<or> rd_keys rd2 REDIS_TASK_STREAM_SENTINEL_KEY \<noteq> None"
    "l' = lc \<or> (rd_keys rd2 (REDIS_TASK_STREAM_LANE_TOKEN_PREFIX @ k) \<noteq> None \<and> \<not> lane_rotates k rd2)"
    using t unfolding lane_read_tokens by (auto split: option.splits)
  then show False using lost inj f s(5) by (auto simp: lane_lost_def lane_rotates_def)
qed

lemma updated_in: "r \<in> set rows \<Longrightarrow> p r \<Longrightarrow> f r \<in> set (update_where p f rows)"
  unfolding set_update_where by blast

lemma same_lane_input:
  assumes g: "rd_keys rd1 REDIS_TASK_STREAM_SENTINEL_KEY =
      Some (case rd_keys rd REDIS_TASK_STREAM_SENTINEL_KEY of None \<Rightarrow> c | Some v \<Rightarrow> v)"
    and s: "same_lane k (rd\<lparr>rd_keys := (rd_keys rd)(REDIS_TASK_STREAM_SENTINEL_KEY := rd_keys rd1 REDIS_TASK_STREAM_SENTINEL_KEY)\<rparr>) rda"
  shows "fst (READ_REDIS_TASK_STREAM_LANE_CONTINUITY_LUA k c' lc arm rda) = fst (READ_REDIS_TASK_STREAM_LANE_CONTINUITY_LUA k c lc arm rd)"
    "rd_run_id rda = rd_run_id rd"
proof -
  have r: "lane_rotates k rda = lane_rotates k rd"
    "rd_keys rda REDIS_TASK_STREAM_SENTINEL_KEY = Some (case rd_keys rd REDIS_TASK_STREAM_SENTINEL_KEY of None \<Rightarrow> c | Some v \<Rightarrow> v)"
    "rd_keys rda (REDIS_TASK_STREAM_LANE_TOKEN_PREFIX @ k) = rd_keys rd (REDIS_TASK_STREAM_LANE_TOKEN_PREFIX @ k)"
    using s g by (simp_all add: same_lane_def lane_rotates_def)
  show "fst (READ_REDIS_TASK_STREAM_LANE_CONTINUITY_LUA k c' lc arm rda) = fst (READ_REDIS_TASK_STREAM_LANE_CONTINUITY_LUA k c lc arm rd)"
    unfolding lane_read_tokens r by simp
  show "rd_run_id rda = rd_run_id rd" using s by (simp add: same_lane_def)
qed

lemma reconcile_cases:
  assumes run: "reconcile_redis_task_stream_epoch sha now c cands legacy sel sh True (db, rd) = (Inr n, db', rd')"
    and b: "b \<in> set (owned_bindings (task_stream_bindings (sh \<and> legacy) True) sel sh)"
  obtains observed y rda rdb and rd1 :: redis_state where "db' = db\<lparr>ob_rows := replay_rows now observed (ob_tasks db) (ob_rows db)\<rparr>"
    "map_of observed (tb_stream_key b) = Some y"
    "rd_keys rd1 REDIS_TASK_STREAM_SENTINEL_KEY = Some (case rd_keys rd REDIS_TASK_STREAM_SENTINEL_KEY of None \<Rightarrow> fst c | Some v \<Rightarrow> v)"
    "same_lane (tb_stream_key b) (rd\<lparr>rd_keys := (rd_keys rd)(REDIS_TASK_STREAM_SENTINEL_KEY :=
      rd_keys rd1 REDIS_TASK_STREAM_SENTINEL_KEY)\<rparr>) rda"
    "read_redis_task_stream_epoch sha (cands (tb_stream_key b)) (Some (tb_stream_key b)) False rda = (Inr y, rdb)"
proof -
  let ?bs = "owned_bindings (task_stream_bindings (sh \<and> legacy) True) sel sh"
  have ne: "?bs \<noteq> []" using b by (metis empty_iff empty_set)
  obtain q rd1 where q: "read_redis_task_stream_epoch sha c None False rd = (q, rd1)" by fastforce
  obtain obs rd2 where o: "read_lanes sha cands (map tb_stream_key ?bs) rd1 = (obs, rd2)" by fastforce
  obtain e where e: "q = Inr e" using run ne q by (cases q) (simp_all add: reconcile_redis_task_stream_epoch_def Let_def)
  have all: "length obs = length ?bs" "db' = db\<lparr>ob_rows := replay_rows now obs (ob_tasks db) (ob_rows db)\<rparr>"
    using run ne q o by (simp_all add: reconcile_redis_task_stream_epoch_def Let_def e split: if_splits)
  note g = global_read [OF q [unfolded e]]
  obtain rda y rdb where l: "same_lane (tb_stream_key b) rd1 rda"
    "read_redis_task_stream_epoch sha (cands (tb_stream_key b)) (Some (tb_stream_key b)) False rda = (Inr y, rdb)"
    "map_of obs (tb_stream_key b) = Some y"
    using read_lanes_lookup [OF g(1) owned_keys, where k = "tb_stream_key b" and sha = sha and cands = cands] b all(1) o by fastforce
  from same_lane_trans [OF g(2) l(1)] show ?thesis
    by (intro that [of obs y rd1 rda rdb]) (use all(2) l(2,3) g(1) in simp_all)
qed

section \<open>Properties\<close>

text \<open>
  C20. A lost lane is detected and its queued deliveries are replayed. A row was marked sent under the
  epoch its delivery was prepared with; afterwards the Redis process was replaced, or the
  continuity sentinel or the lane's token is gone, or the lane is empty although its stored state still says nonempty. Then a reconciliation that reads
  all its lanes with fresh random candidates returns the row, its task being still queued, to
  pending with a full retry budget and no epoch (the digests of the two readings do not collide).
\<close>

theorem lost_lane_is_replayed:
  assumes prepared: "read_redis_task_stream_epoch sha c0 (Some (tb_stream_key b)) True rd0 = (Inr x, rd1)"
    and lost: "lane_lost (tb_stream_key b) rd1 rd2"
    and fresh: "fresh_candidates (tb_stream_key b) rd1 (fst c) (snd (cands (tb_stream_key b)))"
    and sha: "sha (lane_input (tb_stream_key b) (fst c0) (snd c0) True rd0) =
        sha (lane_input (tb_stream_key b) (fst c) (snd (cands (tb_stream_key b))) False rd2) \<longrightarrow>
      lane_input (tb_stream_key b) (fst c0) (snd c0) True rd0 =
        lane_input (tb_stream_key b) (fst c) (snd (cands (tb_stream_key b))) False rd2"
    and r: "r \<in> set (ob_rows db)" "ob_status r = OB_sent" "ob_stream r = tb_stream_key b" "ob_epoch r = Some x"
    and queued: "t \<in> set (ob_tasks db)" "ob_dedup r = Some (tr_task_id t)" "tr_status t = ''queued''"
    and b: "b \<in> set (owned_bindings (task_stream_bindings (sh \<and> legacy) True) sel sh)"
    and run: "reconcile_redis_task_stream_epoch sha now c cands legacy sel sh True (db, rd2) = (Inr n, db', rd3)"
  shows "\<exists>r' \<in> set (ob_rows db'). ob_id r' = ob_id r \<and> ob_payload r' = ob_payload r \<and> ob_status r' = OB_pending
    \<and> ob_attempts r' = 0 \<and> ob_epoch r' = None"
proof -
  let ?k = "tb_stream_key b" and ?lc = "snd (cands (tb_stream_key b))"
  have k: "strip ?k = ?k" using owned_keys(1) b by fastforce
  from prepared obtain g l where p: "hex_string 40 (strip (rd_run_id rd0))"
    "READ_REDIS_TASK_STREAM_LANE_CONTINUITY_LUA ?k (fst c0) (snd c0) True rd0 = ((g, l), rd1)" "hex_string 64 (strip g)"
    "x = REDIS_TASK_STREAM_LANE_EPOCH_PREFIX @ sha (lane_digest_input (strip (rd_run_id rd0)) (strip g) ?k (strip l))"
    by (rule lane_epoch_cases) (simp add: k)
  from run b obtain observed y rda rdb and rda0 :: redis_state where o: "db' = db\<lparr>ob_rows := replay_rows now observed (ob_tasks db) (ob_rows db)\<rparr>"
    "map_of observed ?k = Some y"
    "rd_keys rda0 REDIS_TASK_STREAM_SENTINEL_KEY = Some (case rd_keys rd2 REDIS_TASK_STREAM_SENTINEL_KEY of None \<Rightarrow> fst c | Some v \<Rightarrow> v)"
    "same_lane ?k (rd2\<lparr>rd_keys := (rd_keys rd2)(REDIS_TASK_STREAM_SENTINEL_KEY := rd_keys rda0 REDIS_TASK_STREAM_SENTINEL_KEY)\<rparr>) rda"
    "read_redis_task_stream_epoch sha (cands ?k) (Some ?k) False rda = (Inr y, rdb)"
    by (rule reconcile_cases)
  from o(5) obtain g' l' where q: "hex_string 40 (strip (rd_run_id rda))"
    "READ_REDIS_TASK_STREAM_LANE_CONTINUITY_LUA ?k (fst (cands ?k)) ?lc False rda = ((g', l'), rdb)" "hex_string 64 (strip g')"
    "y = REDIS_TASK_STREAM_LANE_EPOCH_PREFIX @ sha (lane_digest_input (strip (rd_run_id rda)) (strip g') ?k (strip l'))"
    by (rule lane_epoch_cases) (simp add: k)
  note same = same_lane_input [OF o(3,4)]
  obtain rdc where q2: "READ_REDIS_TASK_STREAM_LANE_CONTINUITY_LUA ?k (fst c) ?lc False rd2 = ((g', l'), rdc)"
    using same(1) [of "fst (cands ?k)" ?lc False] q(2) by (metis fst_conv prod.collapse)
  have "y \<noteq> x"
    using lost_input_differs [OF p(2,1,3) q2 _ q(3) lost fresh] q(1) sha
    by (auto simp: p(2,4) q(4) q2 same(2) lane_input_def)
  then have "replay_row observed (ob_tasks db) r" using r queued o(2) by (auto simp: replay_row_def)
  note u = updated_in [where p = "replay_row observed (ob_tasks db)", OF r(1) this]
  have rows: "ob_rows db' = update_where (replay_row observed (ob_tasks db)) (\<lambda>r. r\<lparr>ob_status := OB_pending, ob_attempts := 0,
      ob_sent_at := None, ob_epoch := None, ob_last_error := Some
      ''Redis task-stream lane epoch changed; queued delivery scheduled for safe replay'', ob_updated_at := now\<rparr>) (ob_rows db)"
    by (simp add: o(1) replay_rows_def)
  show ?thesis unfolding rows by (rule bexI [OF _ u]) simp
qed

definition demo_lane :: task_stream_binding where
  "demo_lane = platform_binding ''weibo''"

definition demo_read :: "(string, string) result \<times> redis_state" where
  "demo_read = read_redis_task_stream_epoch id (demo_token (CHR ''a''), demo_token (CHR ''b'')) (Some (tb_stream_key demo_lane)) True demo_redis0"

definition demo_replay_task :: dispatch_task where
  "demo_replay_task = \<lparr>tr_task_id = ''t1'', tr_account_id = 1, tr_lottery_id = 1, tr_status = ''queued'', tr_worker_id = None,
     tr_lease_id = None, tr_lease_generation = None, tr_reconciliation = False, tr_error_message = None, tr_finished_at = None,
     tr_task_mode = ''real_run'', tr_stream_message_id = None, tr_lease_expires_at = None\<rparr>"

definition demo_replay_row :: outbox_row where
  "demo_replay_row = \<lparr>ob_id = 7, ob_stream = tb_stream_key demo_lane, ob_payload = [], ob_status = OB_sent, ob_attempts = 1,
     ob_dedup = Some ''t1'', ob_epoch = Some (projr (fst demo_read)), ob_sent_at = Some 1, ob_updated_at = 1, ob_archived_at = None,
     ob_last_error = None\<rparr>"

definition demo_replay_db :: dispatch_db where
  "demo_replay_db = \<lparr>ob_rows = [demo_replay_row], ob_next = 8, ob_tasks = [demo_replay_task], ob_lotteries = [], ob_leases = [],
     ob_bindings = [], ob_intents = []\<rparr>"

definition demo_reconcile :: "(string, nat) result \<times> dispatch_db \<times> redis_state" where
  "demo_reconcile = reconcile_redis_task_stream_epoch id 5 (demo_token (CHR ''c''), demo_token (CHR ''d''))
     (\<lambda>_. (demo_token (CHR ''e''), demo_token (CHR ''f''))) False [''weibo''] False True (demo_replay_db, snd demo_read)"

lemma demo_read_ok: "isl (fst demo_read) = False"
  by code_simp

lemma demo_keys:
  "rd_keys (snd demo_read) REDIS_TASK_STREAM_SENTINEL_KEY = Some (demo_token (CHR ''a''))"
  "rd_keys (snd demo_read) (REDIS_TASK_STREAM_LANE_TOKEN_PREFIX @ tb_stream_key demo_lane) = Some (demo_token (CHR ''b''))"
  "rd_keys (snd demo_read) (REDIS_TASK_STREAM_LANE_STATE_PREFIX @ tb_stream_key demo_lane) = Some ''nonempty''"
  "rd_streams (snd demo_read) (tb_stream_key demo_lane) = []"
  by code_simp+

lemma demo_tokens_differ:
  "lower (strip (demo_token (CHR ''c''))) \<noteq> lower (strip (demo_token (CHR ''a'')))"
  "lower (strip (demo_token (CHR ''f''))) \<noteq> lower (strip (demo_token (CHR ''b'')))"
  by code_simp+

lemma demo_lane_owned: "demo_lane \<in> set (owned_bindings (task_stream_bindings (False \<and> False) True) [''weibo''] False)"
  by code_simp

lemma demo_reconcile_ok: "isl (fst demo_reconcile) = False"
  by code_simp

theorem lost_lane_is_replayed_witness:
  "\<exists>r' \<in> set (ob_rows (fst (snd demo_reconcile))). ob_id r' = ob_id demo_replay_row \<and> ob_payload r' = ob_payload demo_replay_row
     \<and> ob_status r' = OB_pending \<and> ob_attempts r' = 0 \<and> ob_epoch r' = None"
proof -
  obtain x where x: "fst demo_read = Inr x" using demo_read_ok by (cases "fst demo_read") simp_all
  obtain n where n: "fst demo_reconcile = Inr n" using demo_reconcile_ok by (cases "fst demo_reconcile") simp_all
  let ?a = "demo_token (CHR ''a'')" and ?b = "demo_token (CHR ''b'')" and ?c = "demo_token (CHR ''c'')" and ?f = "demo_token (CHR ''f'')"
  have p: "read_redis_task_stream_epoch id (?a, ?b) (Some (tb_stream_key demo_lane)) True demo_redis0 = (Inr x, snd demo_read)"
    using x unfolding demo_read_def by (metis prod.collapse)
  have run: "reconcile_redis_task_stream_epoch id 5 (?c, demo_token (CHR ''d'')) (\<lambda>_. (demo_token (CHR ''e''), ?f)) False [''weibo''] False True
      (demo_replay_db, snd demo_read) = (Inr n, fst (snd demo_reconcile), snd (snd demo_reconcile))"
    using n unfolding demo_reconcile_def by (metis prod.collapse)
  have db: "demo_replay_row \<in> set (ob_rows demo_replay_db)" "demo_replay_task \<in> set (ob_tasks demo_replay_db)"
    by (simp_all add: demo_replay_db_def)
  show ?thesis
    by (rule lost_lane_is_replayed [OF p _ _ _ db(1) _ _ _ db(2) _ _ demo_lane_owned run])
      (simp_all add: lane_lost_def demo_keys fresh_candidates_def demo_tokens_differ demo_replay_row_def demo_replay_task_def x)
qed

end
