(* ===== verification/OutboxRelay.thy ===== *)
theory OutboxRelay
  imports OutboxReplay
begin

text \<open>
  Concurrent relaying of the outbox. Each relayer runs the statements of \<open>_deliver_claimed\<close> one at
  a time; between any two of them other relayers run, a relayer may crash, abandoned claims are
  reclaimed, Redis may lose or change anything, tasks change state, and the epoch reconciler replays
  rows. \<open>ry_appended\<close> is the history of every append that reached Redis.
\<close>

section \<open>The system\<close>

datatype relay_phase = Ph_claimed | Ph_prepared "string option" | Ph_appended "string option" | Ph_marked string

record relay_sys =
  ry_db :: dispatch_db
  ry_redis :: redis_state
  ry_relayers :: "nat \<Rightarrow> (claim \<times> relay_phase) option"
  ry_appended :: "(nat \<times> string \<times> message) list"

datatype relay_event = Ev_enqueue | Ev_claim nat | Ev_prepare nat | Ev_append nat | Ev_mark nat | Ev_confirm nat
  | Ev_fail nat | Ev_crash nat | Ev_reclaim | Ev_replay | Ev_world

definition set_rows :: "outbox_row list \<Rightarrow> relay_sys \<Rightarrow> relay_sys" where
  "set_rows rows s = s\<lparr>ry_db := (ry_db s)\<lparr>ob_rows := rows\<rparr>\<rparr>"

definition relayer_at :: "nat \<Rightarrow> (claim \<times> relay_phase) option \<Rightarrow> relay_sys \<Rightarrow> relay_sys" where
  "relayer_at p x s = s\<lparr>ry_relayers := (ry_relayers s)(p := x)\<rparr>"

definition entry_of :: "claim \<Rightarrow> nat \<times> string \<times> message" where
  "entry_of cl = (cl_id cl, cl_stream cl, cl_payload cl)"

text \<open>The parameters of the code the relayers share.\<close>

record relay_params =
  pm_sha :: "string \<Rightarrow> string"
  pm_repr :: "pyval \<Rightarrow> string"
  pm_urlsplit :: "string \<Rightarrow> url_parts option"

abbreviation valid_envelope :: "relay_params \<Rightarrow> message \<Rightarrow> string \<Rightarrow> bool" where
  "valid_envelope P m k \<equiv> validate_task_stream_binding (pm_repr P) (pm_urlsplit P) m k = Inr ()"

inductive relay_step :: "relay_params \<Rightarrow> relay_sys \<Rightarrow> relay_event \<Rightarrow> relay_sys \<Rightarrow> bool" for P :: relay_params where
  enqueue: "enqueue_outbox (pm_repr P) (pm_urlsplit P) now m k dedup (ry_db s) = Inr db \<Longrightarrow>
    relay_step P s Ev_enqueue (s\<lparr>ry_db := db\<rparr>)"
| claim: "ry_relayers s p = None \<Longrightarrow> claim_row now i (ob_rows (ry_db s)) = (Some cl, rows) \<Longrightarrow>
    relay_step P s (Ev_claim p) (relayer_at p (Some (cl, Ph_claimed)) (set_rows rows s))"
| prepare: "ry_relayers s p = Some (cl, Ph_claimed) \<Longrightarrow> valid_envelope P (cl_payload cl) (cl_stream cl) \<Longrightarrow>
    prepare_delivery (pm_sha P) c (cl_stream cl) (ry_redis s) = (Inr epoch, rd) \<Longrightarrow>
    relay_step P s (Ev_prepare p) (relayer_at p (Some (cl, Ph_prepared epoch)) (s\<lparr>ry_redis := rd\<rparr>))"
| unavailable: "ry_relayers s p = Some (cl, Ph_claimed) \<Longrightarrow>
    prepare_delivery (pm_sha P) c (cl_stream cl) (ry_redis s) = (Inl reason, rd) \<Longrightarrow>
    relay_step P s (Ev_prepare p) (relayer_at p None
      (set_rows (release_unavailable now cl reason (ob_rows (ry_db s))) (s\<lparr>ry_redis := rd\<rparr>)))"
| append: "ry_relayers s p = Some (cl, Ph_prepared epoch) \<Longrightarrow>
    relay_step P s (Ev_append p) (relayer_at p (Some (cl, Ph_appended epoch))
      (s\<lparr>ry_redis := xadd (cl_stream cl) (cl_payload cl) (ry_redis s), ry_appended := ry_appended s @ [entry_of cl]\<rparr>))"
| fail: "ry_relayers s p = Some (cl, ph) \<Longrightarrow>
    relay_step P s (Ev_fail p) (relayer_at p None (s\<lparr>ry_db := delivery_failed (pm_repr P) now cl err (ry_db s)\<rparr>))"
| mark: "ry_relayers s p = Some (cl, Ph_appended epoch) \<Longrightarrow>
    mark_sent now cl epoch (ob_rows (ry_db s)) = (n, rows) \<Longrightarrow>
    relay_step P s (Ev_mark p) (relayer_at p (case epoch of None \<Rightarrow> None
      | Some x \<Rightarrow> if n = 0 then None else Some (cl, Ph_marked x)) (set_rows rows s))"
| confirm: "ry_relayers s p = Some (cl, Ph_marked x) \<Longrightarrow>
    confirm_delivery (pm_sha P) now c cl x (ob_rows (ry_db s), ry_redis s) = (ok, rows, rd) \<Longrightarrow>
    relay_step P s (Ev_confirm p) (relayer_at p None (set_rows rows (s\<lparr>ry_redis := rd\<rparr>)))"
| crash: "relay_step P s (Ev_crash p) (relayer_at p None s)"
| reclaim: "relay_step P s Ev_reclaim
    (set_rows (reclaim_stale_sending now threshold scope limit (ob_rows (ry_db s))) s)"
| replay: "relay_step P s Ev_replay (set_rows (replay_rows now observed (ob_tasks (ry_db s)) (ob_rows (ry_db s))) s)"
| world: "ob_rows db = ob_rows (ry_db s) \<Longrightarrow> ob_next db = ob_next (ry_db s) \<Longrightarrow>
    relay_step P s Ev_world (s\<lparr>ry_db := db, ry_redis := rd\<rparr>)"

definition relay_init :: "relay_sys \<Rightarrow> bool" where
  "relay_init s \<longleftrightarrow> ob_rows (ry_db s) = [] \<and> (\<forall>p. ry_relayers s p = None) \<and> ry_appended s = []"

section \<open>What every statement keeps\<close>

text \<open>
  A statement on the rows that keeps identity, stream, payload and key of each row, and changes
  the rest as \<open>Q\<close> allows.
\<close>

definition row_same :: "outbox_row \<Rightarrow> outbox_row \<Rightarrow> bool" where
  "row_same r r' \<longleftrightarrow> ob_id r' = ob_id r \<and> ob_stream r' = ob_stream r \<and> ob_payload r' = ob_payload r \<and> ob_dedup r' = ob_dedup r"

definition rows_step :: "(outbox_row \<Rightarrow> outbox_row \<Rightarrow> bool) \<Rightarrow> outbox_row list \<Rightarrow> outbox_row list \<Rightarrow> bool" where
  "rows_step Q rows rows' \<longleftrightarrow> list_all2 (\<lambda>r r'. row_same r r' \<and> (r' = r \<or> Q r r')) rows rows'"

lemma row_same_refl [simp]: "row_same r r"
  by (simp add: row_same_def)

lemma rows_step_refl [simp]: "rows_step Q rows rows"
  by (simp add: rows_step_def list_all2_refl)

lemma rows_step_update:
  assumes f: "\<And>r. p r \<Longrightarrow> row_same r (f r) \<and> Q r (f r)"
  shows "rows_step Q rows (update_where p f rows)"
  unfolding rows_step_def update_where_def list.rel_map
proof (rule list.rel_refl)
  show "row_same r (if p r then f r else r) \<and> ((if p r then f r else r) = r \<or> Q r (if p r then f r else r))" for r
    using f [of r] by (cases "p r") (simp_all only: if_True if_False row_same_refl simp_thms)
qed

lemma rows_step_update_first:
  assumes f: "\<And>r. p r \<Longrightarrow> row_same r (f r) \<and> Q r (f r)"
  shows "rows_step Q rows (update_first n p f rows)"
  unfolding rows_step_def
proof (induction rows arbitrary: n)
  case (Cons r rows)
  show ?case
  proof (cases "p r")
    case True
    then have "row_same r (f r) \<and> (f r = r \<or> Q r (f r))" using f by blast
    then show ?thesis using Cons.IH True by (cases n) (simp_all only: update_first.simps if_True nat.case list.rel_inject rows_step_refl [unfolded rows_step_def] simp_thms)
  qed (use Cons.IH in simp)
qed simp

lemma rows_step_mono: "rows_step Q rows rows' \<Longrightarrow> (\<And>r r'. Q r r' \<Longrightarrow> Q' r r') \<Longrightarrow> rows_step Q' rows rows'"
  unfolding rows_step_def by (erule list_all2_mono) blast

lemma list_all2_in2: "list_all2 R xs ys \<Longrightarrow> y \<in> set ys \<Longrightarrow> \<exists>x \<in> set xs. R x y"
  by (induction rule: list_all2_induct) auto

lemma list_all2_in1: "list_all2 R xs ys \<Longrightarrow> x \<in> set xs \<Longrightarrow> \<exists>y \<in> set ys. R x y"
  by (induction rule: list_all2_induct) auto

lemma rows_step_in:
  assumes "rows_step Q rows rows'" "r' \<in> set rows'"
  obtains r where "r \<in> set rows" "row_same r r'" "r' = r \<or> Q r r'"
  using list_all2_in2 [OF assms(1) [unfolded rows_step_def] assms(2)] by blast

lemma rows_step_in':
  assumes "rows_step Q rows rows'" "r \<in> set rows"
  obtains r' where "r' \<in> set rows'" "row_same r r'"
  using list_all2_in1 [OF assms(1) [unfolded rows_step_def] assms(2)] by blast

lemma rows_step_map:
  assumes "rows_step Q rows rows'"
  shows "map ob_id rows' = map ob_id rows" "map ob_dedup rows' = map ob_dedup rows"
proof -
  have "list_all2 row_same rows rows'"
    using assms unfolding rows_step_def by (rule list_all2_mono) blast
  then show "map ob_id rows' = map ob_id rows" "map ob_dedup rows' = map ob_dedup rows"
    unfolding row_same_def by (induction rule: list_all2_induct) simp_all
qed

section \<open>The effect of each statement on a row\<close>

text \<open>No statement creates a sent or a failed row, except the two that finalise a claim so.\<close>

definition demotes :: "outbox_row \<Rightarrow> outbox_row \<Rightarrow> bool" where
  "demotes r r' \<longleftrightarrow> ob_status r' \<notin> {OB_sent, OB_failed}"

definition settles :: "claim \<Rightarrow> outbox_row \<Rightarrow> outbox_row \<Rightarrow> bool" where
  "settles cl r r' \<longleftrightarrow> owns cl r \<and> ob_status r' = OB_sent"

definition fails :: "claim \<Rightarrow> outbox_row \<Rightarrow> outbox_row \<Rightarrow> bool" where
  "fails cl r r' \<longleftrightarrow> demotes r r' \<or>
     (owns cl r \<and> ob_status r' = OB_failed \<and> ob_attempts r' = cl_attempts cl \<and> OUTBOX_MAX_ATTEMPTS \<le> cl_attempts cl)"

lemmas effect_defs = demotes_def settles_def fails_def row_same_def owns_def

lemma claim_row_cases:
  assumes "claim_row now i rows = (Some cl, rows')"
  obtains r where "r \<in> set rows" "ob_id r = i" "ob_status r = OB_pending"
    "cl = \<lparr>cl_id = i, cl_stream = ob_stream r, cl_payload = ob_payload r, cl_attempts = ob_attempts r + 1\<rparr>"
    "rows' = update_where (\<lambda>x. ob_id x = i \<and> ob_status x = OB_pending)
       (\<lambda>x. x\<lparr>ob_status := OB_sending, ob_attempts := ob_attempts r + 1, ob_updated_at := now\<rparr>) rows"
proof (cases "fetch_one (\<lambda>r. ob_id r = i \<and> ob_status r = OB_pending) rows")
  case (Some r)
  with assms have e: "(Some cl, rows') = (Some \<lparr>cl_id = i, cl_stream = ob_stream r, cl_payload = ob_payload r, cl_attempts = ob_attempts r + 1\<rparr>,
      update_where (\<lambda>x. ob_id x = i \<and> ob_status x = OB_pending)
       (\<lambda>x. x\<lparr>ob_status := OB_sending, ob_attempts := ob_attempts r + 1, ob_updated_at := now\<rparr>) rows)"
    by (simp only: claim_row_def option.case)
  from fetch_one_SomeD [OF Some] show ?thesis using e that by blast
next
  case None
  with assms show ?thesis by (simp add: claim_row_def)
qed

lemma claim_step: "claim_row now i rows = (Some cl, rows') \<Longrightarrow> rows_step demotes rows rows'"
  by (erule claim_row_cases, simp only:) (rule rows_step_update, simp add: effect_defs)

lemma unavailable_step: "rows_step demotes rows (release_unavailable now cl e rows)"
  unfolding release_unavailable_def by (rule rows_step_update) (simp add: effect_defs)

lemma reclaim_step: "rows_step demotes rows (reclaim_stale_sending now th scope n rows)"
  unfolding reclaim_stale_sending_def by (rule rows_step_update_first) (simp add: effect_defs)

lemma replay_step: "rows_step demotes rows (replay_rows now obs ts rows)"
  unfolding replay_rows_def by (rule rows_step_update) (simp add: effect_defs)

lemma reset_step: "rows_step demotes rows (snd (reset_epoch_ambiguous_delivery now cl x e rows))"
  unfolding reset_epoch_ambiguous_delivery_def Let_def snd_conv by (rule rows_step_update) (simp add: effect_defs)

lemma mark_step: "rows_step (settles cl) rows (snd (mark_sent now cl x rows))"
  unfolding mark_sent_def snd_conv by (rule rows_step_update) (simp add: effect_defs)

lemma settle_task_rows [simp]:
  "ob_rows (settle_task rp now e r db) = ob_rows db" "ob_next (settle_task rp now e r db) = ob_next db"
  by (simp_all add: settle_task_def Let_def split: option.split)

lemma failed_step: "rows_step (fails cl) (ob_rows db) (ob_rows (delivery_failed rp now cl e db))"
proof (cases "terminal_status (cl_attempts cl) = OB_failed")
  case True
  then have m: "OUTBOX_MAX_ATTEMPTS \<le> cl_attempts cl"
    by (simp add: terminal_status_def should_retry_def split: if_splits)
  have "rows_step (fails cl) (ob_rows db) (update_where (owns cl)
      (\<lambda>r. r\<lparr>ob_status := OB_failed, ob_last_error := Some (take 480 e), ob_updated_at := now\<rparr>) (ob_rows db))"
    by (rule rows_step_update) (use m in \<open>simp add: effect_defs\<close>)
  then show ?thesis using True
    by (simp add: delivery_failed_def settle_terminal_delivery_failure_def split: option.split)
next
  case False
  have "rows_step (fails cl) (ob_rows db) (release_failed now cl e (ob_rows db))"
    unfolding release_failed_def by (rule rows_step_update) (simp add: effect_defs)
  with False show ?thesis by (simp add: delivery_failed_def)
qed

lemma failed_next: "ob_next (delivery_failed rp now cl e db) = ob_next db"
  by (simp add: delivery_failed_def settle_terminal_delivery_failure_def split: option.split)

lemma confirm_step:
  "rows_step demotes rows (fst (snd (confirm_delivery sha now c cl x (rows, rd))))"
  by (auto simp: confirm_delivery_def reset_step split: prod.split sum.split)

section \<open>The invariant\<close>

definition row_entry :: "outbox_row \<Rightarrow> nat \<times> string \<times> message" where
  "row_entry r = (ob_id r, ob_stream r, ob_payload r)"

definition row_ok :: "(nat \<times> string \<times> message) set \<Rightarrow> outbox_row \<Rightarrow> bool" where
  "row_ok hist r \<longleftrightarrow> (ob_status r = OB_sent \<longrightarrow> row_entry r \<in> hist)
     \<and> (ob_status r = OB_failed \<longrightarrow> OUTBOX_MAX_ATTEMPTS \<le> ob_attempts r)"

definition table_ok :: "nat \<Rightarrow> outbox_row list \<Rightarrow> bool" where
  "table_ok next rows \<longleftrightarrow> distinct (map ob_id rows) \<and> (\<forall>i \<in> set (map ob_id rows). i < next)
     \<and> distinct (filter (\<lambda>d. d \<noteq> None) (map ob_dedup rows))"

definition relayer_ok :: "relay_params \<Rightarrow> (nat \<times> string \<times> message) set \<Rightarrow> (nat \<times> string \<times> message) set \<Rightarrow> claim \<times> relay_phase \<Rightarrow> bool" where
  "relayer_ok P entries hist x \<longleftrightarrow> entry_of (fst x) \<in> entries
     \<and> (snd x \<noteq> Ph_claimed \<longrightarrow> valid_envelope P (cl_payload (fst x)) (cl_stream (fst x)))
     \<and> (case snd x of Ph_appended _ \<Rightarrow> entry_of (fst x) \<in> hist | Ph_marked _ \<Rightarrow> entry_of (fst x) \<in> hist | _ \<Rightarrow> True)"

definition relay_inv :: "relay_params \<Rightarrow> relay_sys \<Rightarrow> bool" where
  "relay_inv P s \<longleftrightarrow> table_ok (ob_next (ry_db s)) (ob_rows (ry_db s))
     \<and> (\<forall>r \<in> set (ob_rows (ry_db s)). row_ok (set (ry_appended s)) r)
     \<and> (\<forall>(i, k, m) \<in> set (ry_appended s). valid_envelope P m k)
     \<and> (\<forall>p x. ry_relayers s p = Some x \<longrightarrow>
          relayer_ok P (row_entry ` set (ob_rows (ry_db s))) (set (ry_appended s)) x)"

lemma relay_inv_redis [simp]: "relay_inv P (s\<lparr>ry_redis := rd\<rparr>) = relay_inv P s"
  by (simp add: relay_inv_def)

lemma row_entry_same: "row_same r r' \<Longrightarrow> row_entry r' = row_entry r"
  by (simp add: row_same_def row_entry_def)

lemma relay_inv_rows:
  assumes inv: "relay_inv P s" and st: "rows_step Q (ob_rows (ry_db s)) (ob_rows db)" and n: "ob_next db = ob_next (ry_db s)"
    and Q: "\<And>r r'. r \<in> set (ob_rows (ry_db s)) \<Longrightarrow> row_same r r' \<Longrightarrow> Q r r' \<Longrightarrow> row_ok (set (ry_appended s)) r'"
  shows "relay_inv P (s\<lparr>ry_db := db\<rparr>)"
proof -
  have "\<forall>r' \<in> set (ob_rows db). row_ok (set (ry_appended s)) r'"
  proof
    fix r' assume "r' \<in> set (ob_rows db)"
    with st obtain r where r: "r \<in> set (ob_rows (ry_db s))" "row_same r r'" "r' = r \<or> Q r r'" by (rule rows_step_in)
    then show "row_ok (set (ry_appended s)) r'" using inv Q [OF r(1,2)] unfolding relay_inv_def by blast
  qed
  moreover have "row_entry ` set (ob_rows db) = row_entry ` set (ob_rows (ry_db s))"
  proof (intro equalityI subsetI)
    show "e \<in> row_entry ` set (ob_rows (ry_db s))" if "e \<in> row_entry ` set (ob_rows db)" for e
      using that by (metis (no_types) imageE imageI row_entry_same rows_step_in [OF st])
    show "e \<in> row_entry ` set (ob_rows db)" if "e \<in> row_entry ` set (ob_rows (ry_db s))" for e
      using that by (metis (no_types) imageE imageI row_entry_same rows_step_in' [OF st])
  qed
  ultimately show ?thesis using inv rows_step_map [OF st] n by (simp add: relay_inv_def table_ok_def del: set_map)
qed

lemma relay_inv_relayer:
  assumes "relay_inv P s"
    "\<And>y. x = Some y \<Longrightarrow> relayer_ok P (row_entry ` set (ob_rows (ry_db s))) (set (ry_appended s)) y"
  shows "relay_inv P (relayer_at p x s)"
  using assms by (simp add: relay_inv_def relayer_at_def)

lemma relay_inv_relayerD:
  "relay_inv P s \<Longrightarrow> ry_relayers s p = Some x \<Longrightarrow>
     relayer_ok P (row_entry ` set (ob_rows (ry_db s))) (set (ry_appended s)) x"
  unfolding relay_inv_def by blast

lemma demotes_ok: "demotes r r' \<Longrightarrow> row_ok h r'"
  by (simp add: demotes_def row_ok_def)

lemma relay_inv_demotes:
  "relay_inv P s \<Longrightarrow> rows_step demotes (ob_rows (ry_db s)) (ob_rows db) \<Longrightarrow> ob_next db = ob_next (ry_db s) \<Longrightarrow>
     relay_inv P (s\<lparr>ry_db := db\<rparr>)"
  by (rule relay_inv_rows [of P s demotes]) (simp_all add: demotes_ok)

text \<open>The row a relayer owns is the one its claim was copied from.\<close>

lemma owned_entry:
  assumes "relay_inv P s" "ry_relayers s p = Some (cl, ph)" "r \<in> set (ob_rows (ry_db s))" "ob_id r = cl_id cl"
  shows "row_entry r = entry_of cl"
proof -
  have "entry_of cl \<in> row_entry ` set (ob_rows (ry_db s))"
    using relay_inv_relayerD [OF assms(1,2)] by (simp only: relayer_ok_def fst_conv)
  then obtain q where q: "q \<in> set (ob_rows (ry_db s))" "row_entry q = entry_of cl" by (metis imageE)
  then have "ob_id q = ob_id r" using assms(4) by (simp add: row_entry_def entry_of_def)
  with assms(1,3) q(1) have "q = r" by (auto simp: relay_inv_def table_ok_def intro: distinct_map_eqD [of ob_id])
  with q(2) show ?thesis by simp
qed

text \<open>Every statement keeps the invariant.\<close>

lemma enqueue_cases:
  assumes "enqueue_outbox rp us now m k dedup db = Inr db'"
  obtains (kept) "db' = db" | (added) r where "validate_task_stream_binding rp us m k = Inr ()"
    "db' = db\<lparr>ob_rows := ob_rows db @ [r], ob_next := Suc (ob_next db)\<rparr>" "ob_id r = ob_next db" "ob_status r = OB_pending"
    "ob_attempts r = 0" "ob_stream r = k" "ob_payload r = m" "ob_dedup r = dedup" "dedup = None \<or> dedup \<notin> ob_dedup ` set (ob_rows db)"
proof (cases "dedup \<noteq> None \<and> dedup \<in> ob_dedup ` set (ob_rows db)")
  case True
  with assms kept show ?thesis by (auto simp: enqueue_outbox_def result_eqs)
next
  case False
  let ?r = "\<lparr>ob_id = ob_next db, ob_stream = k, ob_payload = m, ob_status = OB_pending, ob_attempts = 0, ob_dedup = dedup,
    ob_epoch = None, ob_sent_at = None, ob_updated_at = now, ob_archived_at = None, ob_last_error = None\<rparr>"
  from assms False have "validate_task_stream_binding rp us m k = Inr ()"
    "db' = db\<lparr>ob_rows := ob_rows db @ [?r], ob_next := Suc (ob_next db)\<rparr>"
    by (auto simp add: enqueue_outbox_def rbind_eq_Inr split: if_splits)
  then show ?thesis by (rule added) (use False in auto)
qed

lemma relay_inv_enqueue:
  assumes "relay_inv P s" "enqueue_outbox (pm_repr P) (pm_urlsplit P) now m k dedup (ry_db s) = Inr db"
  shows "relay_inv P (s\<lparr>ry_db := db\<rparr>)"
  using assms(2)
proof (cases rule: enqueue_cases)
  case kept
  then show ?thesis using assms(1) by simp
next
  case (added r)
  have "table_ok (ob_next db) (ob_rows db)" using assms(1) added
    by (fastforce simp: relay_inv_def table_ok_def)
  moreover have "row_ok (set (ry_appended s)) r" using added by (simp add: row_ok_def)
  moreover have "relayer_ok P (insert (row_entry r) E) h x" if "relayer_ok P E h x" for E h x
    using that by (simp add: relayer_ok_def)
  ultimately show ?thesis using assms(1) added(2) by (simp add: relay_inv_def)
qed

lemma relay_inv_append:
  assumes "relay_inv P s" "ry_relayers s p = Some (cl, Ph_prepared x)"
  shows "relay_inv P (s\<lparr>ry_redis := rd, ry_appended := ry_appended s @ [entry_of cl]\<rparr>)"
proof -
  have "valid_envelope P (cl_payload cl) (cl_stream cl)"
    using relay_inv_relayerD [OF assms] by (simp add: relayer_ok_def)
  moreover have "row_ok (insert e h) r" if "row_ok h r" for e h r
    using that by (simp add: row_ok_def)
  moreover have "relayer_ok P E (insert e h) y" if "relayer_ok P E h y" for E e h y
    using that by (simp add: relayer_ok_def split: relay_phase.splits)
  ultimately show ?thesis using assms(1) by (simp add: relay_inv_def entry_of_def)
qed

lemma relay_inv_mark:
  assumes inv: "relay_inv P s" and p: "ry_relayers s p = Some (cl, Ph_appended x)"
  shows "relay_inv P (s\<lparr>ry_db := (ry_db s)\<lparr>ob_rows := snd (mark_sent now cl x (ob_rows (ry_db s)))\<rparr>\<rparr>)"
proof (rule relay_inv_rows [OF inv, of "settles cl"])
  have h: "entry_of cl \<in> set (ry_appended s)" using relay_inv_relayerD [OF inv p] by (simp add: relayer_ok_def)
  fix r r' assume r: "r \<in> set (ob_rows (ry_db s))" "row_same r r'" "settles cl r r'"
  then have "row_entry r = entry_of cl" using owned_entry [OF inv p r(1)] by (simp add: settles_def owns_def)
  with h have "row_entry r' \<in> set (ry_appended s)" by (simp only: row_entry_same [OF r(2)])
  then show "row_ok (set (ry_appended s)) r'" using r(3) by (simp add: row_ok_def settles_def)
qed (simp_all add: mark_step)

lemma relay_inv_fail:
  assumes inv: "relay_inv P s"
  shows "relay_inv P (s\<lparr>ry_db := delivery_failed (pm_repr P) now cl e (ry_db s)\<rparr>)"
  by (rule relay_inv_rows [OF inv failed_step failed_next]) (auto simp: fails_def row_ok_def demotes_def)

lemma relay_inv_claim:
  assumes inv: "relay_inv P s" and c: "claim_row now i (ob_rows (ry_db s)) = (Some cl, rows)"
  shows "relay_inv P (relayer_at p (Some (cl, Ph_claimed)) (set_rows rows s))"
proof (rule relay_inv_relayer)
  show "relay_inv P (set_rows rows s)" unfolding set_rows_def
    by (rule relay_inv_demotes [OF inv]) (simp_all add: claim_step [OF c])
  from c obtain r where r: "r \<in> set (ob_rows (ry_db s))" "ob_id r = i"
    "cl = \<lparr>cl_id = i, cl_stream = ob_stream r, cl_payload = ob_payload r, cl_attempts = ob_attempts r + 1\<rparr>"
    by (rule claim_row_cases)
  from rows_step_in' [OF claim_step [OF c] r(1)] obtain r' where r': "r' \<in> set rows" "row_same r r'" .
  have "entry_of cl = row_entry r'"
    unfolding row_entry_same [OF r'(2)] unfolding r(3) row_entry_def entry_of_def r(2) by simp
  with r'(1) show "relayer_ok P (row_entry ` set (ob_rows (ry_db (set_rows rows s)))) (set (ry_appended (set_rows rows s))) y"
    if "Some (cl, Ph_claimed) = Some y" for y
    using that by (auto simp: relayer_ok_def set_rows_def)
qed

lemma relayer_at_upd [simp]:
  "relayer_at p x (s\<lparr>ry_redis := rd\<rparr>) = (relayer_at p x s)\<lparr>ry_redis := rd\<rparr>"
  "set_rows rows (s\<lparr>ry_redis := rd\<rparr>) = (set_rows rows s)\<lparr>ry_redis := rd\<rparr>"
  by (simp_all add: relayer_at_def set_rows_def)

lemma relay_inv_world:
  assumes "relay_inv P s" "ob_rows db = ob_rows (ry_db s)" "ob_next db = ob_next (ry_db s)"
  shows "relay_inv P (s\<lparr>ry_db := db, ry_redis := rd\<rparr>)"
  using assms by (simp add: relay_inv_def)

lemma relay_inv_step: "relay_step P s e t \<Longrightarrow> relay_inv P s \<Longrightarrow> relay_inv P t"
proof (induction rule: relay_step.induct)
  case (enqueue now m k dedup s db)
  then show ?case by (intro relay_inv_enqueue)
next
  case (claim s p now i cl rows)
  then show ?case by (intro relay_inv_claim)
next
  case (prepare s p cl c epoch rd)
  show ?case unfolding relayer_at_upd relay_inv_redis
  proof (rule relay_inv_relayer [OF prepare(4)])
    show "relayer_ok P (row_entry ` set (ob_rows (ry_db s))) (set (ry_appended s)) y" if "Some (cl, Ph_prepared epoch) = Some y" for y
      using that relay_inv_relayerD [OF prepare(4,1)] prepare(2) by (auto simp: relayer_ok_def)
  qed
next
  case (unavailable s p cl c reason rd now)
  then show ?case unfolding relayer_at_upd relay_inv_redis set_rows_def
    by (intro relay_inv_relayer relay_inv_demotes) (simp_all add: unavailable_step)
next
  case (append s p cl epoch)
  show ?case
  proof (rule relay_inv_relayer [OF relay_inv_append [OF append(2,1)]])
    fix y assume "Some (cl, Ph_appended epoch) = Some y"
    then show "relayer_ok P (row_entry ` set (ob_rows (ry_db (s\<lparr>ry_redis := xadd (cl_stream cl) (cl_payload cl) (ry_redis s),
        ry_appended := ry_appended s @ [entry_of cl]\<rparr>)))) (set (ry_appended (s\<lparr>ry_redis := xadd (cl_stream cl) (cl_payload cl) (ry_redis s),
        ry_appended := ry_appended s @ [entry_of cl]\<rparr>))) y"
      using relay_inv_relayerD [OF append(2,1)] by (auto simp: relayer_ok_def)
  qed
next
  case (fail s p cl ph now err)
  then show ?case by (intro relay_inv_relayer relay_inv_fail) simp_all
next
  case (mark s p cl epoch now n rows)
  have rows: "rows = snd (mark_sent now cl epoch (ob_rows (ry_db s)))" unfolding mark(2) by simp
  have inv: "relay_inv P (set_rows rows s)" unfolding rows set_rows_def by (rule relay_inv_mark [OF mark(3,1)])
  have p: "ry_relayers (set_rows rows s) p = Some (cl, Ph_appended epoch)" using mark(1) by (simp add: set_rows_def)
  show ?case by (rule relay_inv_relayer [OF inv])
    (use relay_inv_relayerD [OF inv p] in \<open>auto simp: relayer_ok_def split: option.splits if_splits\<close>)
next
  case (confirm s p cl x now c ok rows rd)
  have "rows = fst (snd (confirm_delivery (pm_sha P) now c cl x (ob_rows (ry_db s), ry_redis s)))" unfolding confirm(2) by simp
  then have "rows_step demotes (ob_rows (ry_db s)) rows" by (simp only: confirm_step)
  with confirm(3) show ?case unfolding relayer_at_upd relay_inv_redis set_rows_def
    by (intro relay_inv_relayer relay_inv_demotes) simp_all
next
  case (crash s p)
  then show ?case by (intro relay_inv_relayer) simp_all
next
  case (reclaim s now threshold scope limit)
  then show ?case unfolding set_rows_def by (intro relay_inv_demotes) (simp_all add: reclaim_step)
next
  case (replay s now observed)
  then show ?case unfolding set_rows_def by (intro relay_inv_demotes) (simp_all add: replay_step)
next
  case (world db s rd)
  then show ?case by (intro relay_inv_world)
qed

interpretation relay_runs: invariant_system relay_init "relay_step P" "relay_inv P" for P
proof
  show "relay_inv P s" if "relay_init s" for s
    using that by (simp add: relay_init_def relay_inv_def table_ok_def)
  show "relay_inv P t" if "relay_inv P s" "relay_step P s e t" for s e t
    using that(2,1) by (rule relay_inv_step)
qed

section \<open>Fencing\<close>

text \<open>
  The attempt number as a fencing token: no relayer's token exceeds the attempts of its row, and
  two relayers of one row hold different tokens.
\<close>

definition fence :: "relay_sys \<Rightarrow> bool" where
  "fence s \<longleftrightarrow>
     (\<forall>p x. ry_relayers s p = Some x \<longrightarrow>
        (\<forall>r \<in> set (ob_rows (ry_db s)). ob_id r = cl_id (fst x) \<longrightarrow> cl_attempts (fst x) \<le> ob_attempts r))
     \<and> (\<forall>p q x y. p \<noteq> q \<longrightarrow> ry_relayers s p = Some x \<longrightarrow> ry_relayers s q = Some y \<longrightarrow>
          cl_id (fst x) = cl_id (fst y) \<longrightarrow> cl_attempts (fst x) \<noteq> cl_attempts (fst y))"

definition keeps_token :: "outbox_row \<Rightarrow> outbox_row \<Rightarrow> bool" where
  "keeps_token r r' \<longleftrightarrow> ob_attempts r' = ob_attempts r"

lemmas token_defs = keeps_token_def row_same_def

lemma reclaim_keeps: "rows_step keeps_token rows (reclaim_stale_sending now th scope n rows)"
  unfolding reclaim_stale_sending_def by (rule rows_step_update_first) (simp add: token_defs)

lemma mark_keeps: "rows_step keeps_token rows (snd (mark_sent now cl x rows))"
  unfolding mark_sent_def snd_conv by (rule rows_step_update) (simp add: token_defs)

lemma confirm_keeps: "rows_step keeps_token rows (fst (snd (confirm_delivery sha now c cl x (rows, rd))))"
proof -
  have "rows_step keeps_token rows (snd (reset_epoch_ambiguous_delivery now cl x e rows))" for e
    unfolding reset_epoch_ambiguous_delivery_def Let_def snd_conv by (rule rows_step_update) (simp add: token_defs)
  then show ?thesis by (auto simp: confirm_delivery_def split: prod.split sum.split)
qed

lemma failed_keeps: "rows_step keeps_token (ob_rows db) (ob_rows (delivery_failed rp now cl e db))"
proof -
  have "rows_step keeps_token rows (release_failed now cl e rows)" for rows
    unfolding release_failed_def by (rule rows_step_update) (simp add: token_defs)
  moreover have "rows_step keeps_token rows (update_where (owns cl)
      (\<lambda>r. r\<lparr>ob_status := OB_failed, ob_last_error := Some (take 480 e), ob_updated_at := now\<rparr>) rows)" for rows
    by (rule rows_step_update) (simp add: token_defs)
  ultimately show ?thesis
    by (simp add: delivery_failed_def settle_terminal_delivery_failure_def split: option.split)
qed

lemma fence_redis [simp]:
  "fence (s\<lparr>ry_redis := rd\<rparr>) = fence s" "fence (s\<lparr>ry_redis := rd, ry_appended := h\<rparr>) = fence s"
  by (simp_all add: fence_def)

lemma fence_bound: "fence s \<Longrightarrow> ry_relayers s p = Some x \<Longrightarrow> r \<in> set (ob_rows (ry_db s)) \<Longrightarrow> ob_id r = cl_id (fst x) \<Longrightarrow>
    cl_attempts (fst x) \<le> ob_attempts r"
  unfolding fence_def by blast

lemma fence_distinct: "fence s \<Longrightarrow> ry_relayers s p = Some x \<Longrightarrow> ry_relayers s q = Some y \<Longrightarrow>
    cl_id (fst x) = cl_id (fst y) \<Longrightarrow> cl_attempts (fst x) = cl_attempts (fst y) \<Longrightarrow> p = q"
  unfolding fence_def by blast

lemma fence_rows:
  assumes f: "fence s" and st: "rows_step Q (ob_rows (ry_db s)) (ob_rows db)"
    and Q: "\<And>r r' p x. r \<in> set (ob_rows (ry_db s)) \<Longrightarrow> Q r r' \<Longrightarrow> ry_relayers s p = Some x \<Longrightarrow> ob_id r = cl_id (fst x) \<Longrightarrow>
      cl_attempts (fst x) \<le> ob_attempts r \<Longrightarrow> cl_attempts (fst x) \<le> ob_attempts r'"
  shows "fence (s\<lparr>ry_db := db\<rparr>)"
proof -
  have "cl_attempts (fst x) \<le> ob_attempts r'"
    if x: "ry_relayers s p = Some x" and r': "r' \<in> set (ob_rows db)" "ob_id r' = cl_id (fst x)" for p x r'
  proof -
    from st r'(1) obtain r where r: "r \<in> set (ob_rows (ry_db s))" "row_same r r'" "r' = r \<or> Q r r'" by (rule rows_step_in)
    have i: "ob_id r = cl_id (fst x)" using r(2) r'(2) by (simp add: row_same_def)
    note b = fence_bound [OF f x r(1) i]
    from r(3) show ?thesis using b Q [OF r(1) _ x i b] by (elim disjE) simp_all
  qed
  then show ?thesis using f by (simp add: fence_def)
qed

lemma fence_keeps: "fence s \<Longrightarrow> rows_step keeps_token (ob_rows (ry_db s)) (ob_rows db) \<Longrightarrow> fence (s\<lparr>ry_db := db\<rparr>)"
  by (rule fence_rows [of s keeps_token]) (simp_all add: keeps_token_def)

lemma fence_relayer:
  assumes "fence s" "x = None \<or> (\<exists>ph ph' cl. x = Some (cl, ph) \<and> ry_relayers s p = Some (cl, ph'))"
  shows "fence (relayer_at p x s)"
  using assms unfolding fence_def relayer_at_def by (auto split: if_splits)

text \<open>A new claim takes a token above every token in flight.\<close>

lemma fence_claim:
  assumes f: "fence s" and inv: "relay_inv P s" and p: "ry_relayers s p = None"
    and c: "claim_row now i (ob_rows (ry_db s)) = (Some cl, rows)"
  shows "fence (relayer_at p (Some (cl, Ph_claimed)) (set_rows rows s))"
proof -
  from c obtain r where r: "r \<in> set (ob_rows (ry_db s))" "ob_id r = i" "ob_status r = OB_pending"
    "cl = \<lparr>cl_id = i, cl_stream = ob_stream r, cl_payload = ob_payload r, cl_attempts = ob_attempts r + 1\<rparr>"
    and rows: "rows = update_where (\<lambda>x. ob_id x = i \<and> ob_status x = OB_pending)
       (\<lambda>x. x\<lparr>ob_status := OB_sending, ob_attempts := ob_attempts r + 1, ob_updated_at := now\<rparr>) (ob_rows (ry_db s))"
    by (rule claim_row_cases)
  have u: "x = r" if "x \<in> set (ob_rows (ry_db s))" "ob_id x = i" for x
    using inv that r(1,2) by (auto simp: relay_inv_def table_ok_def intro: distinct_map_eqD [of ob_id])
  define raised where "raised = (\<lambda>(x :: outbox_row) (x' :: outbox_row). ob_id x = i \<and> ob_attempts x' = ob_attempts r + 1)"
  have "rows_step raised (ob_rows (ry_db s)) rows" unfolding rows
    by (rule rows_step_update) (simp add: raised_def row_same_def)
  then have f': "fence (s\<lparr>ry_db := (ry_db s)\<lparr>ob_rows := rows\<rparr>\<rparr>)"
    by (intro fence_rows [OF f, of raised]) (auto simp: raised_def dest: u)
  have new: "ob_attempts x' = ob_attempts r + 1" if "x' \<in> set rows" "ob_id x' = i" for x'
    using that(1) unfolding rows
    by (rule in_update_whereE) (use that(2) u r(3) in auto)
  have old: "cl_attempts (fst y) \<noteq> cl_attempts cl" if "ry_relayers s q = Some y" "cl_id (fst y) = i" for q y
    using fence_bound [OF f that(1) r(1)] that(2) r(2,4) by simp
  have i: "cl_id cl = i" "cl_attempts cl = ob_attempts r + 1" using r(4) by simp_all
  show ?thesis unfolding fence_def
  proof (intro conjI allI impI ballI)
    fix q x r' assume "ry_relayers (relayer_at p (Some (cl, Ph_claimed)) (set_rows rows s)) q = Some x"
      "r' \<in> set (ob_rows (ry_db (relayer_at p (Some (cl, Ph_claimed)) (set_rows rows s))))" "ob_id r' = cl_id (fst x)"
    then show "cl_attempts (fst x) \<le> ob_attempts r'"
      using fence_bound [OF f', of q x r'] new [of r'] i
      by (auto simp: relayer_at_def set_rows_def split: if_splits)
  next
    fix q q' x y assume "q \<noteq> q'" "ry_relayers (relayer_at p (Some (cl, Ph_claimed)) (set_rows rows s)) q = Some x"
      "ry_relayers (relayer_at p (Some (cl, Ph_claimed)) (set_rows rows s)) q' = Some y" "cl_id (fst x) = cl_id (fst y)"
    then show "cl_attempts (fst x) \<noteq> cl_attempts (fst y)"
      using fence_distinct [OF f, of q x q' y] old [of q x] old [of q' y] i
      by (auto simp: relayer_at_def set_rows_def split: if_splits)
  qed
qed

text \<open>Giving the attempt back is safe: only the holder of the highest token can do it, and it stops.\<close>

lemma fence_unavailable:
  assumes f: "fence s" and p: "ry_relayers s p = Some (cl, ph)"
  shows "fence (relayer_at p None (set_rows (release_unavailable now cl e (ob_rows (ry_db s))) s))"
proof -
  define lowered where "lowered = (\<lambda>r (r' :: outbox_row). owns cl r \<and> ob_attempts r' = ob_attempts r - 1)"
  define t where "t = relayer_at p None s"
  have f': "fence t" unfolding t_def using f by (intro fence_relayer) simp_all
  have st: "rows_step lowered (ob_rows (ry_db t)) (release_unavailable now cl e (ob_rows (ry_db s)))"
    unfolding release_unavailable_def t_def relayer_at_def
    by simp (rule rows_step_update, simp add: lowered_def row_same_def)
  have low: "cl_attempts (fst x) \<le> ob_attempts r'"
    if l: "lowered r r'" and x: "ry_relayers t q = Some x" and i: "ob_id r = cl_id (fst x)" and b: "cl_attempts (fst x) \<le> ob_attempts r" for r r' q x
  proof -
    have q: "q \<noteq> p" "ry_relayers s q = Some x" using x by (auto simp: t_def relayer_at_def split: if_splits)
    have c: "cl_id (fst x) = cl_id cl" "ob_attempts r = cl_attempts cl" "ob_attempts r' = ob_attempts r - 1"
      using l i by (simp_all add: lowered_def owns_def)
    have "cl_attempts (fst x) \<noteq> cl_attempts cl" using fence_distinct [OF f q(2) p] q(1) c(1) by auto
    then show ?thesis using b c(2,3) by linarith
  qed
  have "fence (t\<lparr>ry_db := (ry_db t)\<lparr>ob_rows := release_unavailable now cl e (ob_rows (ry_db s))\<rparr>\<rparr>)"
    by (rule fence_rows [OF f', of lowered]) (use st low in simp_all)
  then show ?thesis by (simp add: t_def relayer_at_def set_rows_def fence_def)
qed

definition relay_step_no_replay :: "relay_params \<Rightarrow> relay_sys \<Rightarrow> relay_event \<Rightarrow> relay_sys \<Rightarrow> bool" where
  "relay_step_no_replay P s e t \<longleftrightarrow> relay_step P s e t \<and> e \<noteq> Ev_replay"

lemma fence_step: "relay_step P s e t \<Longrightarrow> e \<noteq> Ev_replay \<Longrightarrow> relay_inv P s \<Longrightarrow> fence s \<Longrightarrow> fence t"
proof (induction rule: relay_step.induct)
  case (enqueue now m k dedup s db)
  from enqueue(1) show ?case
  proof (cases rule: enqueue_cases)
    case (added r)
    have "ob_id r \<noteq> cl_id (fst x)" if "ry_relayers s p = Some x" for p x
      using relay_inv_relayerD [OF enqueue(3) that] enqueue(3) added(3)
      by (fastforce simp: relayer_ok_def relay_inv_def table_ok_def row_entry_def entry_of_def)
    then show ?thesis using enqueue(4) added(2) by (auto simp: fence_def)
  qed (use enqueue(4) in simp)
next
  case (claim s p now i cl rows)
  then show ?case by (intro fence_claim)
next
  case (prepare s p cl c epoch rd)
  then show ?case unfolding relayer_at_upd fence_redis by (intro fence_relayer) auto
next
  case (unavailable s p cl c reason rd now)
  then show ?case unfolding relayer_at_upd fence_redis by (intro fence_unavailable)
next
  case (append s p cl epoch)
  then show ?case by (intro fence_relayer) simp_all
next
  case (fail s p cl ph now err)
  then show ?case by (intro fence_relayer fence_keeps) (simp_all add: failed_keeps)
next
  case (mark s p cl epoch now n rows)
  have rows: "rows = snd (mark_sent now cl epoch (ob_rows (ry_db s)))" unfolding mark(2) by simp
  have "fence (set_rows rows s)" unfolding rows set_rows_def using mark(5) by (rule fence_keeps) (simp add: mark_keeps)
  then show ?case by (rule fence_relayer) (use mark(1) in \<open>auto simp: set_rows_def split: option.splits\<close>)
next
  case (confirm s p cl x now c ok rows rd)
  have "rows = fst (snd (confirm_delivery (pm_sha P) now c cl x (ob_rows (ry_db s), ry_redis s)))" unfolding confirm(2) by simp
  then have "rows_step keeps_token (ob_rows (ry_db s)) rows" by (simp only: confirm_keeps)
  with confirm(5) show ?case unfolding relayer_at_upd fence_redis set_rows_def
    by (intro fence_relayer fence_keeps) simp_all
next
  case (crash s p)
  then show ?case by (intro fence_relayer) simp_all
next
  case (reclaim s now threshold scope limit)
  then show ?case unfolding set_rows_def by (intro fence_keeps) (simp_all add: reclaim_keeps)
next
  case (world db s rd)
  then show ?case by (simp add: fence_def)
qed simp

interpretation fenced_runs: invariant_system relay_init "relay_step_no_replay P" "\<lambda>s. relay_inv P s \<and> fence s" for P
proof
  show "relay_inv P s \<and> fence s" if "relay_init s" for s
    using that relay_runs.inv_init by (auto simp: relay_init_def fence_def)
  show "relay_inv P t \<and> fence t" if "relay_inv P s \<and> fence s" "relay_step_no_replay P s e t" for s e t
    using that relay_inv_step fence_step unfolding relay_step_no_replay_def by blast
qed

section \<open>A replay reissues a token\<close>

text \<open>
  The reconciler resets the attempts of a replayed row, so the next claim takes token 1 again: a
  relayer that still holds token 1 from before the first delivery then owns the row together with the
  new one. (The fencing of \<open>_deliver_claimed\<close> holds between replays.)
\<close>

lemma replay_reissues_token:
  assumes inv: "relay_inv P s" and p: "ry_relayers s p = Some (cl, ph)" "cl_attempts cl = 1" and q: "ry_relayers s q = None"
    and r: "r \<in> set (ob_rows (ry_db s))" "ob_id r = cl_id cl" "replay_row observed (ob_tasks (ry_db s)) r"
  shows "\<exists>t u cl' r'. relay_step P s Ev_replay t \<and> relay_step P t (Ev_claim q) u \<and> ry_relayers u p = Some (cl, ph)
    \<and> ry_relayers u q = Some (cl', Ph_claimed) \<and> r' \<in> set (ob_rows (ry_db u)) \<and> owns cl r' \<and> owns cl' r'"
proof -
  let ?rows = "replay_rows 0 observed (ob_tasks (ry_db s)) (ob_rows (ry_db s))"
  let ?f = "\<lambda>r. r\<lparr>ob_status := OB_pending, ob_attempts := 0, ob_sent_at := None, ob_epoch := None,
    ob_last_error := Some ''Redis task-stream lane epoch changed; queued delivery scheduled for safe replay'', ob_updated_at := 0\<rparr>"
  let ?t = "set_rows ?rows s"
  have in0: "?f r \<in> set ?rows" unfolding replay_rows_def
    by (rule updated_in [where p = "replay_row observed (ob_tasks (ry_db s))", OF r(1,3)])
  have d: "distinct (map ob_id ?rows)"
    using rows_step_map(1) [OF replay_step] inv by (simp add: relay_inv_def table_ok_def)
  define cl' where "cl' = \<lparr>cl_id = ob_id (?f r), cl_stream = ob_stream (?f r), cl_payload = ob_payload (?f r), cl_attempts = ob_attempts (?f r) + 1\<rparr>"
  obtain rows1 where c: "claim_row 0 (ob_id (?f r)) ?rows = (Some cl', rows1)" "row_count (owns cl') rows1 \<noteq> 0"
    by (rule claim_mark_compose [OF d in0, folded cl'_def]) simp_all
  then obtain r' where r': "r' \<in> set rows1" "owns cl' r'" by (auto simp: row_count_def filter_empty_conv)
  have "owns cl r'" using r'(2) p(2) r(2) by (simp add: owns_def cl'_def)
  let ?u = "relayer_at q (Some (cl', Ph_claimed)) (set_rows rows1 ?t)"
  have "relay_step P s Ev_replay ?t" by (rule relay_step.replay)
  moreover have "relay_step P ?t (Ev_claim q) ?u" by (rule relay_step.claim) (use q c(1) in \<open>simp_all add: set_rows_def\<close>)
  moreover have "ry_relayers ?u p = Some (cl, ph)" "ry_relayers ?u q = Some (cl', Ph_claimed)" "r' \<in> set (ob_rows (ry_db ?u))"
    using p(1) q r'(1) by (auto simp: relayer_at_def set_rows_def)
  ultimately show ?thesis using \<open>owns cl r'\<close> r'(2) by blast
qed

section \<open>Deliveries that complete\<close>

lemma reach_no_replay: "reachable relay_init (relay_step_no_replay P) s \<Longrightarrow> reachable relay_init (relay_step P) s"
  by (induction rule: reachable.induct) (auto intro: reachable.intros simp: relay_step_no_replay_def)

lemma relay_delivers:
  assumes reach: "reachable relay_init (relay_step_no_replay P) s" and p: "ry_relayers s p = None" and h: "redis_healthy (ry_redis s)"
    and r: "r \<in> set (ob_rows (ry_db s))" "deliverable (pm_repr P) (pm_urlsplit P) r" and c: "hex_token (fst c)" "hex_token (snd c)"
  shows "\<exists>t r'. reachable relay_init (relay_step_no_replay P) t \<and> r' \<in> set (ob_rows (ry_db t)) \<and> ob_id r' = ob_id r \<and> ob_status r' = OB_sent"
proof -
  let ?R = "reachable relay_init (relay_step_no_replay P)"
  have go: "?R u" if "?R v" "relay_step P v e u" "e \<noteq> Ev_replay" for u v e
    using that by (auto intro: reach_step simp: relay_step_no_replay_def)
  have d: "distinct (map ob_id (ob_rows (ry_db s)))"
    using fenced_runs.inv_reachable [OF reach] by (simp add: relay_inv_def table_ok_def)
  define cl where "cl = \<lparr>cl_id = ob_id r, cl_stream = ob_stream r, cl_payload = ob_payload r, cl_attempts = ob_attempts r + 1\<rparr>"
  have sel: "cl_stream cl = ob_stream r" "cl_payload cl = ob_payload r" by (simp_all add: cl_def)
  have v: "ob_status r = OB_pending" "strip (ob_stream r) = ob_stream r" "valid_envelope P (cl_payload cl) (cl_stream cl)"
    using r(2) by (simp_all add: deliverable_def sel)
  obtain rows1 where m: "claim_row 0 (ob_id r) (ob_rows (ry_db s)) = (Some cl, rows1)"
    "\<forall>x. snd (mark_sent 0 cl x rows1) = update_where (\<lambda>q. ob_id q = ob_id r) (sent_row 0 x) (ob_rows (ry_db s))"
    by (rule claim_mark_compose [OF d r(1) v(1), folded cl_def])
  let ?s1 = "relayer_at p (Some (cl, Ph_claimed)) (set_rows rows1 s)"
  have s1: "?R ?s1" by (rule go [OF reach relay_step.claim [OF p m(1)]]) simp
  have red: "ry_redis ?s1 = ry_redis s" by (simp add: relayer_at_def set_rows_def)
  obtain x rd1 where pr: "prepare_delivery (pm_sha P) c (cl_stream cl) (ry_redis ?s1) = (Inr x, rd1)"
    unfolding red sel by (rule prepare_confirm [OF h c v(2)])
  let ?s2 = "relayer_at p (Some (cl, Ph_prepared x)) (?s1\<lparr>ry_redis := rd1\<rparr>)"
  have s2: "?R ?s2" by (rule go [OF s1 relay_step.prepare [OF _ v(3) pr]]) (simp_all add: relayer_at_def)
  let ?s3 = "relayer_at p (Some (cl, Ph_appended x)) (?s2\<lparr>ry_redis := xadd (cl_stream cl) (cl_payload cl) (ry_redis ?s2),
      ry_appended := ry_appended ?s2 @ [entry_of cl]\<rparr>)"
  have s3: "?R ?s3" by (rule go [OF s2 relay_step.append]) (simp_all add: relayer_at_def)
  have rows: "ob_rows (ry_db ?s3) = rows1" by (simp add: relayer_at_def set_rows_def)
  obtain n where mk: "mark_sent 0 cl x (ob_rows (ry_db ?s3)) =
      (n, update_where (\<lambda>q. ob_id q = ob_id r) (sent_row 0 x) (ob_rows (ry_db s)))"
    unfolding rows using m(2) by (metis prod.collapse)
  let ?s4 = "relayer_at p (case x of None \<Rightarrow> None | Some y \<Rightarrow> if n = 0 then None else Some (cl, Ph_marked y))
      (set_rows (update_where (\<lambda>q. ob_id q = ob_id r) (sent_row 0 x) (ob_rows (ry_db s))) ?s3)"
  have s4: "?R ?s4" by (rule go [OF s3 relay_step.mark [OF _ mk]]) (simp_all add: relayer_at_def)
  have "sent_row 0 x r \<in> set (update_where (\<lambda>q. ob_id q = ob_id r) (sent_row 0 x) (ob_rows (ry_db s)))"
    by (rule updated_in [where p = "\<lambda>q. ob_id q = ob_id r", OF r(1)]) simp
  then show ?thesis
    by (intro exI [of _ ?s4] exI [of _ "sent_row 0 x r"] conjI s4) (simp_all add: relayer_at_def set_rows_def)
qed

section \<open>Properties\<close>

text \<open>
  C19. A sent row was really appended. However relayers, crashes, reclaims, replays and Redis failures
  interleave, a row is marked sent only after its payload was appended to its stream, and nothing was
  ever appended that the envelope validation of its stream rejects. The rows are those the core enqueues; the legacy probe
  rows the worker inserts as already sent are not among them.
\<close>

theorem sent_row_was_appended:
  assumes "reachable relay_init (relay_step P) s"
  shows "(\<forall>r \<in> set (ob_rows (ry_db s)). ob_status r = OB_sent \<longrightarrow> (ob_id r, ob_stream r, ob_payload r) \<in> set (ry_appended s))
    \<and> (\<forall>(i, k, m) \<in> set (ry_appended s). validate_task_stream_binding (pm_repr P) (pm_urlsplit P) m k = Inr ())"
  using relay_runs.inv_reachable [OF assms] by (simp add: relay_inv_def row_ok_def row_entry_def)

text \<open>
  One row per message, given up only after the whole retry budget. In every reachable state no two
  rows carry the same deduplication key, and a row is failed only when its attempts have reached
  \<open>OUTBOX_MAX_ATTEMPTS\<close>.
\<close>

theorem outbox_rows_are_unique_and_persistent:
  assumes "reachable relay_init (relay_step P) s" "r \<in> set (ob_rows (ry_db s))"
  shows "(ob_status r = OB_failed \<longrightarrow> OUTBOX_MAX_ATTEMPTS \<le> ob_attempts r)
    \<and> (\<forall>r' \<in> set (ob_rows (ry_db s)). ob_dedup r \<noteq> None \<and> ob_dedup r' = ob_dedup r \<longrightarrow> r' = r)"
proof -
  have inv: "relay_inv P s" using assms(1) by (rule relay_runs.inv_reachable)
  have d: "distinct (filter (\<lambda>d. d \<noteq> None) (map ob_dedup (ob_rows (ry_db s))))" using inv by (simp add: relay_inv_def table_ok_def)
  have "a = b" if "distinct (filter (\<lambda>d. d \<noteq> None) (map ob_dedup xs))" "a \<in> set xs" "b \<in> set xs" "ob_dedup a \<noteq> None"
    "ob_dedup a = ob_dedup b" for xs and a b :: outbox_row
    using that by (induction xs) (auto split: if_splits simp: image_iff)
  from this [OF d] show ?thesis using inv assms(2) by (auto simp: relay_inv_def row_ok_def)
qed

text \<open>
  C22. A stale relayer is fenced. As long as no row is replayed, a relayer whose claim was taken over
  cannot disturb the new owner: when a relayer owns a row, every statement another relayer can finalise
  its own claim with leaves that row as it is.
\<close>

theorem stale_relayer_is_fenced:
  assumes "reachable relay_init (relay_step_no_replay P) s" "r \<in> set (ob_rows (ry_db s))"
    and "ry_relayers s q = Some (cl', ph')" "owns cl' r" and "ry_relayers s p = Some (cl, ph)" "p \<noteq> q"
  shows "r \<in> set (snd (mark_sent now cl x (ob_rows (ry_db s)))) \<and> r \<in> set (release_unavailable now cl e (ob_rows (ry_db s)))
    \<and> r \<in> set (ob_rows (delivery_failed rp now cl e (ry_db s)))"
proof -
  have "\<not> owns cl r"
    using fenced_runs.inv_reachable [OF assms(1)] fence_distinct [of s p "(cl, ph)" q "(cl', ph')"] assms(3-6)
    by (auto simp: owns_def)
  then have "r \<in> set (update_where (owns cl) f (ob_rows (ry_db s)))" for f
    using assms(2) unfolding set_update_where by blast
  then show ?thesis
    by (simp add: mark_sent_def release_unavailable_def delivery_failed_def settle_terminal_delivery_failure_def
        release_failed_def assms(2) split: option.split)
qed

section \<open>Witnesses\<close>

definition demo_params :: relay_params where
  "demo_params = \<lparr>pm_sha = id, pm_repr = (\<lambda>_. []), pm_urlsplit = (\<lambda>_. None)\<rparr>"

definition demo_sys :: "dispatch_db \<Rightarrow> relay_sys" where
  "demo_sys db = \<lparr>ry_db = db, ry_redis = demo_redis0, ry_relayers = (\<lambda>_. None), ry_appended = []\<rparr>"

definition demo_queued :: relay_sys where
  "demo_queued = demo_sys ((demo_db [demo_pending 3 ''t1''])\<lparr>ob_next := 4\<rparr>)"

lemma demo_valid: "validate_task_stream_binding (\<lambda>_. []) (\<lambda>_. None) [(''task_id'', PStr ''t1'')] ''lottery_tasks'' = Inr ()"
  "strip ''lottery_tasks'' = ''lottery_tasks''"
  using demo_flushable by (simp_all add: flushable_def demo_two_def demo_db_def demo_pending_def pending_rows_def deliverable_def)

lemma demo_queued_reachable: "reachable relay_init (relay_step_no_replay demo_params) demo_queued"
proof (rule reach_step)
  show "reachable relay_init (relay_step_no_replay demo_params) (demo_sys (demo_db []))"
    by (rule reach_init) (simp add: relay_init_def demo_sys_def demo_db_def)
  have "enqueue_outbox (pm_repr demo_params) (pm_urlsplit demo_params) 0 [(''task_id'', PStr ''t1'')] ''lottery_tasks'' (Some ''t1'')
      (ry_db (demo_sys (demo_db []))) = Inr ((demo_db [demo_pending 3 ''t1''])\<lparr>ob_next := 4\<rparr>)"
    by (simp add: enqueue_outbox_def demo_params_def demo_valid demo_sys_def demo_db_def demo_pending_def)
  then have "relay_step demo_params (demo_sys (demo_db [])) Ev_enqueue
      ((demo_sys (demo_db []))\<lparr>ry_db := (demo_db [demo_pending 3 ''t1''])\<lparr>ob_next := 4\<rparr>\<rparr>)" by (rule relay_step.enqueue)
  then show "relay_step_no_replay demo_params (demo_sys (demo_db [])) Ev_enqueue demo_queued"
    by (simp add: relay_step_no_replay_def demo_queued_def demo_sys_def)
qed

lemma demo_deliverable: "deliverable (pm_repr demo_params) (pm_urlsplit demo_params) (demo_pending 3 ''t1'')"
  by (simp add: deliverable_def demo_params_def demo_pending_def demo_valid)

lemma demo_sent: "\<exists>t r'. reachable relay_init (relay_step_no_replay demo_params) t \<and> r' \<in> set (ob_rows (ry_db t))
    \<and> ob_id r' = ob_id (demo_pending 3 ''t1'') \<and> ob_status r' = OB_sent"
  by (rule relay_delivers [OF demo_queued_reachable, where p = 0 and c = "(demo_token (CHR ''a''), demo_token (CHR ''b''))"])
    (use demo_deliverable demo_healthy demo_hex in \<open>simp_all add: demo_queued_def demo_sys_def demo_db_def\<close>)

theorem sent_row_was_appended_witness:
  "\<exists>s. reachable relay_init (relay_step demo_params) s \<and> (\<exists>r \<in> set (ob_rows (ry_db s)).
     ob_status r = OB_sent \<and> (ob_id r, ob_stream r, ob_payload r) \<in> set (ry_appended s))"
proof -
  obtain t r where t: "reachable relay_init (relay_step demo_params) t" "r \<in> set (ob_rows (ry_db t))" "ob_status r = OB_sent"
    using demo_sent reach_no_replay by blast
  then show ?thesis using sent_row_was_appended [OF t(1)] by blast
qed

theorem outbox_rows_are_unique_and_persistent_witness:
  "\<not> (\<exists>r' \<in> set (ob_rows (ry_db demo_queued)). ob_dedup r' = Some ''t1'' \<and> r' \<noteq> demo_pending 3 ''t1'')"
proof -
  have m: "demo_pending 3 ''t1'' \<in> set (ob_rows (ry_db demo_queued))" by (simp add: demo_queued_def demo_sys_def demo_db_def)
  have d: "ob_dedup (demo_pending 3 ''t1'') = Some ''t1''" by (simp add: demo_pending_def)
  note u = conjunct2 [OF outbox_rows_are_unique_and_persistent [OF reach_no_replay [OF demo_queued_reachable] m], unfolded d]
  show ?thesis
  proof (rule notI, elim bexE conjE)
    fix r' assume "r' \<in> set (ob_rows (ry_db demo_queued))" "ob_dedup r' = Some ''t1''" "r' \<noteq> demo_pending 3 ''t1''"
    then show False using bspec [OF u] by (metis option.distinct(1))
  qed
qed

text \<open>Relayer 0 claims the row, its claim is reclaimed after the timeout, relayer 1 claims the row.\<close>

definition demo_claim :: "nat \<Rightarrow> claim" where
  "demo_claim n = \<lparr>cl_id = 3, cl_stream = ''lottery_tasks'', cl_payload = [(''task_id'', PStr ''t1'')], cl_attempts = n\<rparr>"

definition demo_held :: "ob_status \<Rightarrow> nat \<Rightarrow> int \<Rightarrow> outbox_row" where
  "demo_held st n now = (demo_pending 3 ''t1'')\<lparr>ob_status := st, ob_attempts := n, ob_updated_at := now\<rparr>"

definition demo_taken :: relay_sys where
  "demo_taken = relayer_at 1 (Some (demo_claim 2, Ph_claimed)) (set_rows [demo_held OB_sending 2 100]
     (set_rows [demo_held OB_pending 1 100] (relayer_at 0 (Some (demo_claim 1, Ph_claimed)) (set_rows [demo_held OB_sending 1 0] demo_queued))))"

lemmas demo_row_defs = demo_claim_def demo_held_def demo_pending_def

lemma demo_taken_reachable: "reachable relay_init (relay_step_no_replay demo_params) demo_taken"
proof -
  let ?R = "reachable relay_init (relay_step_no_replay demo_params)"
  have go: "?R u" if "?R v" "relay_step demo_params v e u" "e \<noteq> Ev_replay" for u v e
    using that by (auto intro: reach_step simp: relay_step_no_replay_def)
  let ?s1 = "relayer_at 0 (Some (demo_claim 1, Ph_claimed)) (set_rows [demo_held OB_sending 1 0] demo_queued)"
  have "claim_row 0 3 (ob_rows (ry_db demo_queued)) = (Some (demo_claim 1), [demo_held OB_sending 1 0])"
    by (simp add: claim_row_def fetch_one_def demo_queued_def demo_sys_def demo_db_def demo_row_defs)
  then have s1: "?R ?s1" by (intro go [OF demo_queued_reachable relay_step.claim]) (simp_all add: demo_queued_def demo_sys_def)
  have "reclaim_stale_sending 100 OUTBOX_SENDING_RECLAIM_SECONDS (\<lambda>_. True) OUTBOX_RECLAIM_BATCH (ob_rows (ry_db ?s1)) =
      [demo_held OB_pending 1 100]"
    by (simp add: reclaim_stale_sending_def OUTBOX_SENDING_RECLAIM_SECONDS_def OUTBOX_RECLAIM_BATCH_def relayer_at_def
        set_rows_def demo_row_defs)
  then have s2: "?R (set_rows [demo_held OB_pending 1 100] ?s1)"
    using go [OF s1 relay_step.reclaim [of demo_params ?s1 100 OUTBOX_SENDING_RECLAIM_SECONDS "\<lambda>_. True" OUTBOX_RECLAIM_BATCH]] by simp
  have "claim_row 100 3 (ob_rows (ry_db (set_rows [demo_held OB_pending 1 100] ?s1))) = (Some (demo_claim 2), [demo_held OB_sending 2 100])"
    by (simp add: claim_row_def fetch_one_def set_rows_def demo_row_defs)
  then show ?thesis unfolding demo_taken_def
    by (intro go [OF s2 relay_step.claim]) (simp_all add: relayer_at_def set_rows_def demo_queued_def demo_sys_def)
qed

theorem stale_relayer_is_fenced_witness:
  "demo_held OB_sending 2 100 \<in> set (snd (mark_sent 101 (demo_claim 1) None (ob_rows (ry_db demo_taken))))"
proof -
  have "demo_held OB_sending 2 100 \<in> set (ob_rows (ry_db demo_taken))" "ry_relayers demo_taken 1 = Some (demo_claim 2, Ph_claimed)"
    "ry_relayers demo_taken 0 = Some (demo_claim 1, Ph_claimed)" "owns (demo_claim 2) (demo_held OB_sending 2 100)"
    by (simp_all add: demo_taken_def relayer_at_def set_rows_def owns_def demo_row_defs)
  then show ?thesis using stale_relayer_is_fenced [OF demo_taken_reachable, of _ 1 "demo_claim 2" _ 0 "demo_claim 1"] by simp
qed

end
