(* ===== verification/OutboxArchive.thy ===== *)
theory OutboxArchive
  imports OutboxRelay
begin

text \<open>
  Archiving and purging of delivered outbox rows behind an operator's watermark, and the release of
  lottery locks stranded by a finished task (\<open>core/app/services/outbox.py\<close>). Rows are kept in the order
  of their ids. The creation time of a row, set once at insertion and only copied, is not a column of the
  model.
\<close>

section \<open>Tables\<close>

record archive_row =
  ar_id :: nat
  ar_stream :: string
  ar_payload :: message
  ar_dedup :: "string option"
  ar_epoch :: "string option"
  ar_sent_at :: "int option"

record watermark =
  wm_stream :: string
  wm_epoch :: string
  wm_safe_id :: int

record archive_db =
  av_rows :: "outbox_row list"
  av_next :: nat
  av_archive :: "archive_row list"
  av_marks :: "watermark list"

datatype archive_error = Archive_retention_too_short | Archive_stream_required | Archive_watermark_invalid
  | Archive_epoch_invalid | Archive_limit_invalid | Purge_limit_invalid | Archive_epoch_unavailable string | Sql_syntax_error

section \<open>The watermark\<close>

definition archive_cutoff_datetime :: "int \<Rightarrow> int \<Rightarrow> (archive_error, int) result" where
  "archive_cutoff_datetime now retention_seconds =
     (if retention_seconds < 3600 then Inl Archive_retention_too_short else Inr (now - retention_seconds))"

text \<open>
  The table's primary key is the stream alone, so \<open>INSERT IGNORE\<close> does nothing when the stream has a row.
\<close>

definition insert_ignore_mark :: "watermark \<Rightarrow> watermark list \<Rightarrow> watermark list" where
  "insert_ignore_mark w marks = (if \<exists>m \<in> set marks. wm_stream m = wm_stream w then marks else marks @ [w])"

definition set_outbox_archive_watermark ::
  "string \<Rightarrow> int \<Rightarrow> string \<Rightarrow> archive_db \<Rightarrow> (archive_error, watermark \<times> archive_db) result" where
  "set_outbox_archive_watermark stream_key safe_outbox_id continuity_epoch db =
     (let s = strip stream_key; e = strip continuity_epoch in
      if s = [] then Inl Archive_stream_required
      else if safe_outbox_id < 0 then Inl Archive_watermark_invalid
      else if e = [] \<or> length e > 128 then Inl Archive_epoch_invalid
      else case fetch_one (\<lambda>m. wm_stream m = s) (av_marks db) of
        Some m \<Rightarrow>
          if wm_epoch m = e then
            (let next_id = max (wm_safe_id m) safe_outbox_id in
             Inr (\<lparr>wm_stream = s, wm_epoch = e, wm_safe_id = next_id\<rparr>,
                  db\<lparr>av_marks := update_where (\<lambda>m. wm_stream m = s \<and> wm_epoch m = e) (\<lambda>m. m\<lparr>wm_safe_id := next_id\<rparr>) (av_marks db)\<rparr>))
          else (let w = \<lparr>wm_stream = s, wm_epoch = e, wm_safe_id = safe_outbox_id\<rparr> in
             Inr (w, db\<lparr>av_marks := update_where (\<lambda>m. wm_stream m = s \<and> wm_epoch m = e)
               (\<lambda>m. m\<lparr>wm_epoch := e, wm_safe_id := safe_outbox_id\<rparr>) (insert_ignore_mark w (av_marks db))\<rparr>))
      | None \<Rightarrow> (let w = \<lparr>wm_stream = s, wm_epoch = e, wm_safe_id = safe_outbox_id\<rparr> in
             Inr (w, db\<lparr>av_marks := update_where (\<lambda>m. wm_stream m = s \<and> wm_epoch m = e)
               (\<lambda>m. m\<lparr>wm_epoch := e, wm_safe_id := safe_outbox_id\<rparr>) (insert_ignore_mark w (av_marks db))\<rparr>)))"

section \<open>Archiving\<close>

definition archive_copy :: "outbox_row \<Rightarrow> archive_row" where
  "archive_copy r = \<lparr>ar_id = ob_id r, ar_stream = ob_stream r, ar_payload = ob_payload r, ar_dedup = ob_dedup r,
     ar_epoch = ob_epoch r, ar_sent_at = ob_sent_at r\<rparr>"

text \<open>The body of the loop: copy the row (a copy already there is kept), then mark the source.\<close>

definition archive_one :: "int \<Rightarrow> outbox_row \<Rightarrow> archive_db \<Rightarrow> archive_db" where
  "archive_one now r db = db\<lparr>
     av_archive := (if \<exists>a \<in> set (av_archive db). ar_id a = ob_id r then av_archive db else av_archive db @ [archive_copy r]),
     av_rows := update_where (\<lambda>x. ob_id x = ob_id r \<and> ob_status x = OB_sent \<and> ob_archived_at x = None)
       (\<lambda>x. x\<lparr>ob_archived_at := Some now\<rparr>) (av_rows db)\<rparr>"

definition archive_gap :: "string \<Rightarrow> int \<Rightarrow> outbox_row \<Rightarrow> bool" where
  "archive_gap s safe_id r \<longleftrightarrow> ob_stream r = s \<and> int (ob_id r) \<le> safe_id \<and> (ob_status r \<noteq> OB_sent \<or> ob_sent_at r = None)"

definition archive_ready :: "string \<Rightarrow> int \<Rightarrow> int \<Rightarrow> outbox_row \<Rightarrow> bool" where
  "archive_ready s safe_id cutoff r \<longleftrightarrow> ob_stream r = s \<and> ob_status r = OB_sent \<and> ob_archived_at r = None
     \<and> int (ob_id r) \<le> safe_id \<and> (case ob_sent_at r of None \<Rightarrow> False | Some t \<Rightarrow> t < cutoff)"

definition archive_batch :: "string \<Rightarrow> int \<Rightarrow> int \<Rightarrow> nat \<Rightarrow> archive_db \<Rightarrow> outbox_row list" where
  "archive_batch s safe_id cutoff limit db = take limit (filter (archive_ready s safe_id cutoff) (av_rows db))"

definition archive_sent_outbox_once ::
  "(string \<Rightarrow> string) \<Rightarrow> int \<Rightarrow> string \<times> string \<Rightarrow> string \<Rightarrow> int \<Rightarrow> int \<Rightarrow> archive_db \<times> redis_state \<Rightarrow>
     (archive_error, string \<times> string \<times> nat) result \<times> archive_db \<times> redis_state" where
  "archive_sent_outbox_once sha now c stream_key limit retention_seconds st = (case st of (db, rd) \<Rightarrow>
     (let s = strip stream_key in
      if limit \<le> 0 \<or> limit > 5000 then (Inl Archive_limit_invalid, db, rd)
      else if s = [] then (Inl Archive_stream_required, db, rd)
      else case archive_cutoff_datetime now retention_seconds of
        Inl e \<Rightarrow> (Inl e, db, rd)
      | Inr cutoff \<Rightarrow> (case read_redis_task_stream_epoch sha c None False rd of
          (Inl e, rd1) \<Rightarrow> (Inl (Archive_epoch_unavailable e), db, rd1)
        | (Inr observed, rd1) \<Rightarrow> (case fetch_one (\<lambda>m. wm_stream m = s) (av_marks db) of
            None \<Rightarrow> (Inr (s, observed, 0), db, rd1)
          | Some w \<Rightarrow>
              if wm_epoch w \<noteq> observed \<or> wm_safe_id w \<le> 0 \<or> row_count (archive_gap s (wm_safe_id w)) (av_rows db) > 0
              then (Inr (s, observed, 0), db, rd1)
              else let rows = archive_batch s (wm_safe_id w) cutoff (nat limit) db in
                (Inr (s, observed, length rows), fold (archive_one now) rows db, rd1)))))"

section \<open>Purging\<close>

text \<open>
  A multiple-table \<open>DELETE\<close> with \<open>ORDER BY\<close> and \<open>LIMIT\<close>: the documentation of MySQL excludes both clauses in that
  form, so whether the server accepts the statement is the argument \<open>limited_multi_delete\<close>; a server that
  does not raises a syntax error.
\<close>

definition purge_ready :: "string \<Rightarrow> int \<Rightarrow> archive_row list \<Rightarrow> outbox_row \<Rightarrow> bool" where
  "purge_ready s cutoff archive r \<longleftrightarrow> (\<exists>a \<in> set archive. ar_id a = ob_id r) \<and> ob_stream r = s
     \<and> (case ob_archived_at r of None \<Rightarrow> False | Some t \<Rightarrow> t < cutoff)"

fun delete_first :: "nat \<Rightarrow> ('r \<Rightarrow> bool) \<Rightarrow> 'r list \<Rightarrow> 'r list" where
  "delete_first n p [] = []"
| "delete_first n p (r # rs) = (if p r then (case n of 0 \<Rightarrow> r # rs | Suc m \<Rightarrow> delete_first m p rs) else r # delete_first n p rs)"

definition purge_archived_outbox_once ::
  "bool \<Rightarrow> int \<Rightarrow> string \<Rightarrow> int \<Rightarrow> int \<Rightarrow> archive_db \<Rightarrow> (archive_error, nat \<times> archive_db) result" where
  "purge_archived_outbox_once limited_multi_delete now stream_key limit retention_seconds db =
     (if limit \<le> 0 \<or> limit > 5000 then Inl Purge_limit_invalid
      else rbind (archive_cutoff_datetime now retention_seconds) (\<lambda>cutoff.
        if \<not> limited_multi_delete then Inl Sql_syntax_error
        else let p = purge_ready (strip stream_key) cutoff (av_archive db) in
          Inr (min (nat limit) (row_count p (av_rows db)), db\<lparr>av_rows := delete_first (nat limit) p (av_rows db)\<rparr>)))"

section \<open>Orphaned locks\<close>

definition ORPHAN_LOCK_GRACE_MINUTES :: int where "ORPHAN_LOCK_GRACE_MINUTES = 15"

definition unsettled_intent :: "string \<Rightarrow> intent \<Rightarrow> bool" where
  "unsettled_intent task_id i \<longleftrightarrow> in_task_id i = task_id \<and>
     (in_status i \<in> {''started'', ''unknown'', ''succeeded''} \<or> in_certainty i \<in> {''unknown'', ''confirmed_effect''}
      \<or> (in_status i = ''failed'' \<and> in_certainty i \<noteq> ''confirmed_no_effect''))"

definition lock_task :: "dispatch_db \<Rightarrow> lottery \<Rightarrow> dispatch_task option" where
  "lock_task db l = (case lot_lock l of None \<Rightarrow> None | Some k \<Rightarrow> fetch_one (\<lambda>t. tr_task_id t = k) (ob_tasks db))"

definition orphaned :: "int \<Rightarrow> int \<Rightarrow> dispatch_db \<Rightarrow> lottery \<Rightarrow> bool" where
  "orphaned now grace_minutes db l \<longleftrightarrow> lot_lock l \<noteq> None
     \<and> (case lot_locked_at l of None \<Rightarrow> False | Some t \<Rightarrow> t < now - grace_minutes * 60)
     \<and> (case lock_task db l of None \<Rightarrow> True
        | Some t \<Rightarrow> tr_status t \<in> {''succeeded'', ''failed''} \<and> \<not> tr_reconciliation t
            \<and> (tr_status t = ''succeeded'' \<or> \<not> (\<exists>i \<in> set (ob_intents db). unsettled_intent (tr_task_id t) i)))"

definition release_lock :: "dispatch_db \<Rightarrow> lottery \<Rightarrow> lottery" where
  "release_lock db l = l\<lparr>
     lot_status := (case lock_task db l of None \<Rightarrow> ''pending''
       | Some t \<Rightarrow> if tr_task_mode t = ''real_run'' \<and> tr_status t = ''succeeded'' then ''participated'' else ''pending''),
     lot_lock := None, lot_locked_at := None\<rparr>"

definition reconcile_orphaned_locks :: "int \<Rightarrow> int \<Rightarrow> dispatch_db \<Rightarrow> nat \<times> dispatch_db" where
  "reconcile_orphaned_locks now grace_minutes db = (row_count (orphaned now grace_minutes db) (ob_lotteries db),
     db\<lparr>ob_lotteries := update_where (orphaned now grace_minutes db) (release_lock db) (ob_lotteries db)\<rparr>)"

section \<open>What archiving and purging keep\<close>

type_synonym message_key = "nat \<times> string \<times> message \<times> string option"

definition row_key :: "outbox_row \<Rightarrow> message_key" where
  "row_key r = (ob_id r, ob_stream r, ob_payload r, ob_dedup r)"

definition copy_key :: "archive_row \<Rightarrow> message_key" where
  "copy_key a = (ar_id a, ar_stream a, ar_payload a, ar_dedup a)"

text \<open>A run: insertions, any statement that keeps the identity of rows, and the operations above.\<close>

record archive_sys =
  as_db :: archive_db
  as_seen :: "message_key list"

datatype archive_event = Ev_insert | Ev_change | Ev_archive | Ev_purge | Ev_watermark

inductive archive_step :: "archive_sys \<Rightarrow> archive_event \<Rightarrow> archive_sys \<Rightarrow> bool" where
  insert_row: "ob_id r = av_next (as_db s) \<Longrightarrow>
    archive_step s Ev_insert \<lparr>as_db = (as_db s)\<lparr>av_rows := av_rows (as_db s) @ [r], av_next := Suc (av_next (as_db s))\<rparr>,
      as_seen = as_seen s @ [row_key r]\<rparr>"
| change: "rows_step (\<lambda>_ _. True) (av_rows (as_db s)) rows \<Longrightarrow>
    archive_step s Ev_change (s\<lparr>as_db := (as_db s)\<lparr>av_rows := rows\<rparr>\<rparr>)"
| archive: "archive_sent_outbox_once sha now c k limit retention (as_db s, rd) = (res, db, rd') \<Longrightarrow>
    archive_step s Ev_archive (s\<lparr>as_db := db\<rparr>)"
| purge: "purge_archived_outbox_once ok now k limit retention (as_db s) = Inr (n, db) \<Longrightarrow>
    archive_step s Ev_purge (s\<lparr>as_db := db\<rparr>)"
| watermark: "set_outbox_archive_watermark k safe_id e (as_db s) = Inr (w, db) \<Longrightarrow>
    archive_step s Ev_watermark (s\<lparr>as_db := db\<rparr>)"

definition archive_init :: "archive_sys \<Rightarrow> bool" where
  "archive_init s \<longleftrightarrow> av_rows (as_db s) = [] \<and> av_archive (as_db s) = [] \<and> as_seen s = []"

definition archive_ok :: "archive_db \<Rightarrow> bool" where
  "archive_ok db \<longleftrightarrow> distinct (map ob_id (av_rows db))
     \<and> (\<forall>e \<in> row_key ` set (av_rows db) \<union> copy_key ` set (av_archive db). fst e < av_next db)
     \<and> (\<forall>r \<in> set (av_rows db). \<forall>a \<in> set (av_archive db). ar_id a = ob_id r \<longrightarrow> copy_key a = row_key r)"

definition held :: "archive_db \<Rightarrow> message_key set" where
  "held db = row_key ` set (av_rows db) \<union> copy_key ` set (av_archive db)"

definition archive_inv :: "archive_sys \<Rightarrow> bool" where
  "archive_inv s \<longleftrightarrow> archive_ok (as_db s) \<and> set (as_seen s) \<subseteq> held (as_db s)"

lemma archive_one_rows: "rows_step (\<lambda>r0 r'. ob_id r0 = ob_id r \<and> r' = r0\<lparr>ob_archived_at := Some now\<rparr>) (av_rows db) (av_rows (archive_one now r db))"
proof -
  have e: "av_rows (archive_one now r db) = update_where (\<lambda>x. ob_id x = ob_id r \<and> ob_status x = OB_sent \<and> ob_archived_at x = None)
    (\<lambda>x. x\<lparr>ob_archived_at := Some now\<rparr>) (av_rows db)" by (simp add: archive_one_def)
  show ?thesis unfolding e by (rule rows_step_update) (simp add: row_same_def)
qed

lemma rows_step_keys:
  assumes "rows_step Q rows rows'"
  shows "row_key ` set rows' = row_key ` set rows"
proof -
  have k: "row_key r' = row_key r" if "row_same r r'" for r r' using that by (simp add: row_same_def row_key_def)
  show ?thesis
  proof (intro equalityI subsetI)
    show "e \<in> row_key ` set rows" if "e \<in> row_key ` set rows'" for e
      using that by (metis (no_types) imageE imageI k rows_step_in [OF assms])
    show "e \<in> row_key ` set rows'" if "e \<in> row_key ` set rows" for e
      using that by (metis (no_types) imageE imageI k rows_step_in' [OF assms])
  qed
qed

lemma archive_ok_rows:
  assumes "archive_ok db" "rows_step Q (av_rows db) rows"
  shows "archive_ok (db\<lparr>av_rows := rows\<rparr>)" "held (db\<lparr>av_rows := rows\<rparr>) = held db"
proof -
  have "copy_key a = row_key r'" if r': "r' \<in> set rows" and a: "a \<in> set (av_archive db)" "ar_id a = ob_id r'" for r' a
  proof -
    from rows_step_in [OF assms(2) r'] obtain r where "r \<in> set (av_rows db)" "row_same r r'" .
    then show ?thesis using assms(1) a by (auto simp: archive_ok_def row_same_def row_key_def)
  qed
  then show "archive_ok (db\<lparr>av_rows := rows\<rparr>)"
    using assms(1) rows_step_map(1) [OF assms(2)] rows_step_keys [OF assms(2)] by (simp add: archive_ok_def)
  show "held (db\<lparr>av_rows := rows\<rparr>) = held db" using rows_step_keys [OF assms(2)] by (simp add: held_def)
qed

lemma archive_one_ok:
  assumes ok: "archive_ok db" and r: "row_key r \<in> row_key ` set (av_rows db)"
  shows "archive_ok (archive_one now r db) \<and> held (archive_one now r db) = held db
    \<and> row_key ` set (av_rows (archive_one now r db)) = row_key ` set (av_rows db)"
proof -
  define arc where "arc = (if \<exists>a \<in> set (av_archive db). ar_id a = ob_id r then av_archive db else av_archive db @ [archive_copy r])"
  have k: "copy_key (archive_copy r) = row_key r" by (simp add: copy_key_def archive_copy_def row_key_def)
  have i: "row_key r = row_key q" if "q \<in> set (av_rows db)" "ob_id q = ob_id r" for q
    using r ok that by (auto simp: archive_ok_def row_key_def dest: distinct_map_eqD)
  have ok1: "archive_ok (db\<lparr>av_archive := arc\<rparr>)"
    using ok r i k by (auto simp: archive_ok_def arc_def archive_copy_def)
  have h1: "held (db\<lparr>av_archive := arc\<rparr>) = held db" using r k by (auto simp: held_def arc_def)
  have e: "archive_one now r db = (db\<lparr>av_archive := arc\<rparr>)\<lparr>av_rows := av_rows (archive_one now r db)\<rparr>"
    by (simp add: archive_one_def arc_def)
  have st: "rows_step (\<lambda>r0 r'. ob_id r0 = ob_id r \<and> r' = r0\<lparr>ob_archived_at := Some now\<rparr>) (av_rows (db\<lparr>av_archive := arc\<rparr>)) (av_rows (archive_one now r db))"
    using archive_one_rows by simp
  note s = archive_ok_rows [OF ok1 st, folded e]
  show ?thesis using s h1 rows_step_keys [OF st] by simp
qed

lemma archive_fold_ok:
  assumes "archive_ok db" "\<forall>r \<in> set rs. row_key r \<in> row_key ` set (av_rows db)"
  shows "archive_ok (fold (archive_one now) rs db) \<and> held (fold (archive_one now) rs db) = held db"
  using assms
proof (induction rs arbitrary: db)
  case (Cons r rs)
  have one: "archive_ok (archive_one now r db) \<and> held (archive_one now r db) = held db
    \<and> row_key ` set (av_rows (archive_one now r db)) = row_key ` set (av_rows db)"
    by (rule archive_one_ok) (use Cons.prems in simp_all)
  then show ?case using Cons.IH [of "archive_one now r db"] Cons.prems(2) by simp
qed simp

lemma archive_result:
  assumes "archive_sent_outbox_once sha now c k limit retention (db, rd) = (res, db', rd')"
  obtains "db' = db" "\<And>s e n. res = Inr (s, e, n) \<Longrightarrow> n = 0"
  | w cutoff observed where "fetch_one (\<lambda>m. wm_stream m = strip k) (av_marks db) = Some w"
    "cutoff = now - retention" "3600 \<le> retention" "wm_epoch w = observed" "0 < wm_safe_id w"
    "\<forall>r \<in> set (av_rows db). \<not> archive_gap (strip k) (wm_safe_id w) r"
    "res = Inr (strip k, observed, length (archive_batch (strip k) (wm_safe_id w) cutoff (nat limit) db))"
    "db' = fold (archive_one now) (archive_batch (strip k) (wm_safe_id w) cutoff (nat limit) db) db"
proof (cases "limit \<le> 0 \<or> limit > 5000 \<or> strip k = [] \<or> retention < 3600")
  case True
  with assms have "db' = db" "\<exists>e. res = Inl e"
    by (auto simp: archive_sent_outbox_once_def Let_def archive_cutoff_datetime_def split: if_splits)
  with that(1) show ?thesis by auto
next
  case False
  obtain q rd1 where q: "read_redis_task_stream_epoch sha c None False rd = (q, rd1)" by fastforce
  note run = assms [unfolded archive_sent_outbox_once_def Let_def archive_cutoff_datetime_def prod.case q]
  show ?thesis
  proof (cases q)
    case (Inl e)
    with run False show ?thesis by (intro that(1)) auto
  next
    case (Inr observed)
    show ?thesis
    proof (cases "fetch_one (\<lambda>m. wm_stream m = strip k) (av_marks db)")
      case None
      with run False Inr show ?thesis by (intro that(1)) auto
    next
      case (Some w)
      show ?thesis
      proof (cases "wm_epoch w \<noteq> observed \<or> wm_safe_id w \<le> 0 \<or> row_count (archive_gap (strip k) (wm_safe_id w)) (av_rows db) > 0")
        case True
        with run False Inr Some show ?thesis by (intro that(1)) auto
      next
        case g: False
        then have "\<forall>r \<in> set (av_rows db). \<not> archive_gap (strip k) (wm_safe_id w) r"
          by (simp add: row_count_def filter_empty_conv)
        moreover have "res = Inr (strip k, observed, length (archive_batch (strip k) (wm_safe_id w) (now - retention) (nat limit) db))"
          "db' = fold (archive_one now) (archive_batch (strip k) (wm_safe_id w) (now - retention) (nat limit) db) db"
          using run False Inr Some g by simp_all
        ultimately show ?thesis using that(2) [OF Some refl] False g by simp
      qed
    qed
  qed
qed

lemma delete_first_sub: "set (delete_first n p rows) \<subseteq> set rows"
  by (induction rows arbitrary: n) (auto split: nat.splits if_splits)

lemma delete_first_in: "r \<in> set rows \<Longrightarrow> r \<in> set (delete_first n p rows) \<or> p r"
  by (induction rows arbitrary: n) (auto split: nat.splits)

lemma delete_first_distinct: "distinct (map f rows) \<Longrightarrow> distinct (map f (delete_first n p rows))"
proof (induction rows arbitrary: n)
  case (Cons r rows)
  then show ?case using delete_first_sub [of _ p rows] by (auto split: nat.splits)
qed simp

lemma purge_ok:
  assumes ok: "archive_ok db" and p: "purge_archived_outbox_once b now k limit retention db = Inr (n, db')"
  shows "archive_ok db' \<and> held db' = held db"
proof -
  from p obtain cutoff where d: "db' = db\<lparr>av_rows := delete_first (nat limit) (purge_ready (strip k) cutoff (av_archive db)) (av_rows db)\<rparr>"
    by (auto simp: purge_archived_outbox_once_def rbind_eq_Inr Let_def split: if_splits)
  define m where "m = nat limit"
  define q where "q = purge_ready (strip k) cutoff (av_archive db)"
  have q: "\<exists>a \<in> set (av_archive db). ar_id a = ob_id r" if "q r" for r using that by (simp add: q_def purge_ready_def)
  note db' = d [folded m_def q_def]
  have sub: "set (av_rows db') \<subseteq> set (av_rows db)" unfolding db' using delete_first_sub by simp
  have "row_key r \<in> held db'" if r: "r \<in> set (av_rows db)" for r
  proof (cases "q r")
    case True
    then obtain a where "a \<in> set (av_archive db)" "ar_id a = ob_id r" using q by blast
    then show ?thesis using ok r by (force simp: archive_ok_def held_def db')
  next
    case False
    then show ?thesis using delete_first_in [OF r, of m q] by (simp add: held_def db')
  qed
  then have "row_key ` set (av_rows db) \<subseteq> held db'" by blast
  moreover have "copy_key ` set (av_archive db) \<subseteq> held db'" by (simp add: held_def db')
  moreover have "held db' \<subseteq> held db" using sub by (auto simp: held_def db')
  ultimately have "held db' = held db" unfolding held_def [of db] by blast
  moreover have "archive_ok db'"
    using ok sub delete_first_distinct [of ob_id "av_rows db" m q] unfolding archive_ok_def by (auto simp: db')
  ultimately show ?thesis by simp
qed

lemma watermark_ok:
  assumes "set_outbox_archive_watermark k safe_id e db = Inr (w, db')"
  shows "av_rows db' = av_rows db \<and> av_archive db' = av_archive db \<and> av_next db' = av_next db"
  using assms by (auto simp: set_outbox_archive_watermark_def Let_def split: if_splits option.splits)

lemma archive_inv_step: "archive_step s e t \<Longrightarrow> archive_inv s \<Longrightarrow> archive_inv t"
proof (induction rule: archive_step.induct)
  case (insert_row r s)
  have "copy_key a \<noteq> row_key r \<and> ar_id a \<noteq> ob_id r" if "a \<in> set (av_archive (as_db s))" for a
    using insert_row that by (force simp: archive_inv_def archive_ok_def copy_key_def row_key_def)
  moreover have "ob_id r \<notin> ob_id ` set (av_rows (as_db s))"
    using insert_row by (force simp: archive_inv_def archive_ok_def row_key_def)
  ultimately show ?case using insert_row
    by (auto simp: archive_inv_def archive_ok_def held_def row_key_def [of r] less_Suc_eq)
next
  case (change s rows)
  then show ?case using archive_ok_rows [of "as_db s" "\<lambda>_ _. True" rows] by (simp add: archive_inv_def)
next
  case (archive sha now c k limit retention s rd res db rd')
  from archive(1) show ?case
  proof (cases rule: archive_result)
    case 1
    then show ?thesis using archive(2) by simp
  next
    case (2 w cutoff observed)
    have "\<forall>r \<in> set (archive_batch (strip k) (wm_safe_id w) cutoff (nat limit) (as_db s)). row_key r \<in> row_key ` set (av_rows (as_db s))"
      by (auto simp: archive_batch_def dest!: in_set_takeD)
    then show ?thesis using archive_fold_ok [of "as_db s" _ now] archive(2) 2(8) by (simp add: archive_inv_def)
  qed
next
  case (purge ok now k limit retention s n db)
  then show ?case using purge_ok [of "as_db s"] by (simp add: archive_inv_def)
next
  case (watermark k safe_id e s w db)
  then show ?case using watermark_ok [OF watermark(1)] by (simp add: archive_inv_def archive_ok_def held_def)
qed

interpretation archive_runs: invariant_system archive_init archive_step archive_inv
proof
  show "archive_inv s" if "archive_init s" for s
    using that by (simp add: archive_init_def archive_inv_def archive_ok_def)
  show "archive_inv t" if "archive_inv s" "archive_step s e t" for s e t
    using that(2,1) by (rule archive_inv_step)
qed

text \<open>What a pass of the archiver did to the rows.\<close>

lemma archive_fold_rows:
  "r' \<in> set (av_rows (fold (archive_one now) rs db)) \<Longrightarrow>
     r' \<in> set (av_rows db) \<or> (\<exists>r \<in> set (av_rows db). ob_id r \<in> ob_id ` set rs \<and> r' = r\<lparr>ob_archived_at := Some now\<rparr>)"
proof (induction rs arbitrary: db)
  case (Cons q rs)
  then have "r' \<in> set (av_rows (archive_one now q db)) \<or>
    (\<exists>r \<in> set (av_rows (archive_one now q db)). ob_id r \<in> ob_id ` set rs \<and> r' = r\<lparr>ob_archived_at := Some now\<rparr>)" by simp
  moreover have "x \<in> set (av_rows db) \<or> (\<exists>r \<in> set (av_rows db). ob_id r = ob_id q \<and> x = r\<lparr>ob_archived_at := Some now\<rparr>)"
    if "x \<in> set (av_rows (archive_one now q db))" for x
    using rows_step_in [OF archive_one_rows that] by blast
  ultimately show ?case by force
qed simp

lemma archive_fold_copies:
  "(\<exists>a \<in> set (av_archive db). ar_id a = i) \<or> i \<in> ob_id ` set rs \<Longrightarrow>
     \<exists>a \<in> set (av_archive (fold (archive_one now) rs db)). ar_id a = i"
proof (induction rs arbitrary: db)
  case (Cons q rs)
  have "\<exists>a \<in> set (av_archive (archive_one now q db)). ar_id a = i" if "(\<exists>a \<in> set (av_archive db). ar_id a = i) \<or> i = ob_id q"
    using that by (auto simp: archive_one_def archive_copy_def)
  then show ?case using Cons.IH [of "archive_one now q db"] Cons.prems by auto
qed simp

section \<open>Properties\<close>

text \<open>
  C29. No message vanishes. Whatever relaying, archiving, purging and watermark changes are made in whatever
  order, every message that was ever written to the outbox is still in the outbox table or in the
  archive, with its stream, payload and key unchanged.
\<close>

theorem no_message_vanishes:
  assumes "reachable archive_init archive_step s" "e \<in> set (as_seen s)"
  shows "(\<exists>r \<in> set (av_rows (as_db s)). (ob_id r, ob_stream r, ob_payload r, ob_dedup r) = e)
    \<or> (\<exists>a \<in> set (av_archive (as_db s)). (ar_id a, ar_stream a, ar_payload a, ar_dedup a) = e)"
  using archive_runs.inv_reachable [OF assms(1)] assms(2) by (fastforce simp: archive_inv_def held_def row_key_def copy_key_def)

text \<open>
  Archiving stays behind the watermark. A pass that archives anything found the stream's watermark under the
  Redis epoch it observed, with no unsent row of the stream at or below it; it only touches sent rows of
  that stream, at or below the watermark and older than the retention, and leaves a copy of each in
  the archive.
\<close>

theorem archive_stays_behind_watermark:
  assumes run: "archive_sent_outbox_once sha now c k limit retention (db, rd) = (Inr (s, e, n), db', rd')" and n: "n \<noteq> 0"
    and d: "distinct (map ob_id (av_rows db))"
  shows "\<exists>w \<in> set (av_marks db). wm_stream w = s \<and> wm_epoch w = e
    \<and> (\<forall>r \<in> set (av_rows db). ob_stream r = s \<and> int (ob_id r) \<le> wm_safe_id w \<longrightarrow> ob_status r = OB_sent \<and> ob_sent_at r \<noteq> None)
    \<and> (\<forall>r' \<in> set (av_rows db'). r' \<in> set (av_rows db) \<or>
        (\<exists>r \<in> set (av_rows db). archive_ready s (wm_safe_id w) (now - retention) r \<and> 3600 \<le> retention
           \<and> r' = r\<lparr>ob_archived_at := Some now\<rparr> \<and> (\<exists>a \<in> set (av_archive db'). ar_id a = ob_id r)))"
  using run
proof (cases rule: archive_result)
  case (2 w cutoff observed)
  let ?rs = "archive_batch (strip k) (wm_safe_id w) cutoff (nat limit) db"
  have w: "w \<in> set (av_marks db)" "wm_stream w = s" "wm_epoch w = e" "s = strip k"
    using fetch_one_SomeD [OF 2(1)] 2(4,7) by auto
  have ready: "archive_ready s (wm_safe_id w) (now - retention) r" if "r \<in> set (av_rows db)" "ob_id r \<in> ob_id ` set ?rs" for r
    using that d 2(2) w(4) by (auto simp: archive_batch_def dest!: in_set_takeD dest: distinct_map_eqD)
  have "r' \<in> set (av_rows db) \<or> (\<exists>r \<in> set (av_rows db). archive_ready s (wm_safe_id w) (now - retention) r \<and> 3600 \<le> retention
      \<and> r' = r\<lparr>ob_archived_at := Some now\<rparr> \<and> (\<exists>a \<in> set (av_archive db'). ar_id a = ob_id r))" if "r' \<in> set (av_rows db')" for r'
    using archive_fold_rows [OF that [unfolded 2(8)]]
  proof
    assume "\<exists>r \<in> set (av_rows db). ob_id r \<in> ob_id ` set ?rs \<and> r' = r\<lparr>ob_archived_at := Some now\<rparr>"
    then obtain r where r: "r \<in> set (av_rows db)" "ob_id r \<in> ob_id ` set ?rs" "r' = r\<lparr>ob_archived_at := Some now\<rparr>" by blast
    from archive_fold_copies [OF disjI2 [OF r(2)]] show ?thesis using ready [OF r(1,2)] r(1,3) 2(3) unfolding 2(8) by blast
  qed simp
  then show ?thesis using w 2(6) by (intro bexI [OF _ w(1)]) (auto simp: archive_gap_def)
qed (use n in auto)

text \<open>
  A changed epoch leaves the old watermark in place. Recording a watermark under a new Redis epoch for a
  stream that already has one changes nothing in the table (the insertion is ignored for the stream's primary
  key, the update looks for the new epoch), although the call reports the new boundary; archiving under
  the new epoch then still archives nothing.
\<close>

theorem new_epoch_watermark_is_dropped:
  assumes s: "strip k \<noteq> []" "0 \<le> safe_id" "strip e \<noteq> []" "length (strip e) \<le> 128"
    and m: "fetch_one (\<lambda>m. wm_stream m = strip k) (av_marks db) = Some m" "wm_epoch m \<noteq> strip e"
    and u: "distinct (map wm_stream (av_marks db))"
  shows "set_outbox_archive_watermark k safe_id e db =
      Inr (\<lparr>wm_stream = strip k, wm_epoch = strip e, wm_safe_id = safe_id\<rparr>, db)
    \<and> (archive_sent_outbox_once sha now c k limit retention (db, rd) = (Inr (x, strip e, n), db', rd') \<longrightarrow> n = 0 \<and> db' = db)"
proof -
  have i: "m \<in> set (av_marks db)" "wm_stream m = strip k" using fetch_one_SomeD [OF m(1)] by auto
  have "update_where (\<lambda>m. wm_stream m = strip k \<and> wm_epoch m = strip e) f (av_marks db) = av_marks db" for f
    by (rule update_where_none) (use u i m(2) in \<open>auto dest: distinct_map_eqD\<close>)
  then have "set_outbox_archive_watermark k safe_id e db = Inr (\<lparr>wm_stream = strip k, wm_epoch = strip e, wm_safe_id = safe_id\<rparr>, db)"
    using s m i by (auto simp: set_outbox_archive_watermark_def Let_def insert_ignore_mark_def)
  moreover have "n = 0 \<and> db' = db" if "archive_sent_outbox_once sha now c k limit retention (db, rd) = (Inr (x, strip e, n), db', rd')"
    using that by (cases rule: archive_result) (use m in auto)
  ultimately show ?thesis by blast
qed

text \<open>The specification of a release: what the task named by a lock must look like, and the status it gives.\<close>

definition may_release :: "dispatch_db \<Rightarrow> string \<Rightarrow> bool" where
  "may_release db k \<longleftrightarrow> (case fetch_one (\<lambda>t. tr_task_id t = k) (ob_tasks db) of None \<Rightarrow> True
     | Some t \<Rightarrow> \<not> tr_reconciliation t \<and> (tr_status t = ''succeeded'' \<or> (tr_status t = ''failed'' \<and>
         (\<forall>i \<in> set (ob_intents db). in_task_id i = k \<longrightarrow> in_status i \<notin> {''started'', ''unknown'', ''succeeded''}
            \<and> in_certainty i \<notin> {''unknown'', ''confirmed_effect''}
            \<and> (in_status i = ''failed'' \<longrightarrow> in_certainty i = ''confirmed_no_effect'')))))"

definition real_run_succeeded :: "dispatch_db \<Rightarrow> string \<Rightarrow> bool" where
  "real_run_succeeded db k \<longleftrightarrow> (case fetch_one (\<lambda>t. tr_task_id t = k) (ob_tasks db) of None \<Rightarrow> False
     | Some t \<Rightarrow> tr_task_mode t = ''real_run'' \<and> tr_status t = ''succeeded'')"

lemma orphaned_may_release:
  "orphaned now grace db l \<longleftrightarrow> (\<exists>k t0. lot_lock l = Some k \<and> lot_locked_at l = Some t0 \<and> t0 < now - grace * 60 \<and> may_release db k)"
proof (cases "lot_lock l")
  case (Some k)
  show ?thesis
  proof (cases "fetch_one (\<lambda>t. tr_task_id t = k) (ob_tasks db)")
    case None
    then show ?thesis using Some by (simp add: orphaned_def lock_task_def may_release_def split: option.split)
  next
    case t: (Some t)
    then have "tr_task_id t = k" using fetch_one_SomeD [OF t] by simp
    then have "(\<exists>i \<in> set (ob_intents db). unsettled_intent (tr_task_id t) i) \<longleftrightarrow>
        \<not> (\<forall>i \<in> set (ob_intents db). in_task_id i = k \<longrightarrow> in_status i \<notin> {''started'', ''unknown'', ''succeeded''}
            \<and> in_certainty i \<notin> {''unknown'', ''confirmed_effect''} \<and> (in_status i = ''failed'' \<longrightarrow> in_certainty i = ''confirmed_no_effect''))"
      unfolding unsettled_intent_def by (auto simp del: insert_iff singleton_iff)
    then show ?thesis using Some t by (cases "lot_locked_at l") (auto simp: orphaned_def lock_task_def may_release_def)
  qed
qed (simp add: orphaned_def)

lemma release_lock_status:
  "lot_lock l = Some k \<Longrightarrow> release_lock db l =
     l\<lparr>lot_status := if real_run_succeeded db k then ''participated'' else ''pending'', lot_lock := None, lot_locked_at := None\<rparr>"
  by (simp add: release_lock_def lock_task_def real_run_succeeded_def split: option.split)

text \<open>
  The reconciling \<open>UPDATE\<close> row by row: which locks it releases and what the lottery becomes.
\<close>

lemma reconcile_orphaned_locks_rows:
  "ob_lotteries (snd (reconcile_orphaned_locks now grace db)) = map (\<lambda>l.
     case (lot_lock l, lot_locked_at l) of
       (Some k, Some t0) \<Rightarrow> if t0 < now - grace * 60 \<and> may_release db k
         then l\<lparr>lot_status := if real_run_succeeded db k then ''participated'' else ''pending'', lot_lock := None, lot_locked_at := None\<rparr>
         else l
     | _ \<Rightarrow> l) (ob_lotteries db)"
proof -
  have "(if orphaned now grace db l then release_lock db l else l) =
     (case (lot_lock l, lot_locked_at l) of
       (Some k, Some t0) \<Rightarrow> if t0 < now - grace * 60 \<and> may_release db k
         then l\<lparr>lot_status := if real_run_succeeded db k then ''participated'' else ''pending'', lot_lock := None, lot_locked_at := None\<rparr>
         else l
     | _ \<Rightarrow> l)" for l
    by (cases "lot_lock l"; cases "lot_locked_at l") (simp_all add: orphaned_may_release release_lock_status)
  then show ?thesis by (simp add: reconcile_orphaned_locks_def update_where_def)
qed

text \<open>
  Two consequences of the code that its comments do not mention. A succeeded task releases its lock
  whatever its intents say; and a row that was archived and then replayed keeps its archive
  date, so the purge removes it although it is pending again.
\<close>

lemma succeeded_task_ignores_intents:
  "fetch_one (\<lambda>t. tr_task_id t = k) (ob_tasks db) = Some t \<Longrightarrow> tr_status t = ''succeeded'' \<Longrightarrow> \<not> tr_reconciliation t \<Longrightarrow>
     may_release (db\<lparr>ob_intents := is\<rparr>) k"
  by (simp add: may_release_def)

lemma replayed_archived_row_is_purged:
  assumes "replay_row observed tasks r" "ob_archived_at r = Some t" "t < now - retention" "3600 \<le> retention"
    "a \<in> set (av_archive db)" "ar_id a = ob_id r" "strip (ob_stream r) = ob_stream r" "av_rows db = replay_rows now' observed tasks [r]"
  shows "\<exists>r'. av_rows db = [r'] \<and> ob_status r' = OB_pending
    \<and> purge_archived_outbox_once True now (ob_stream r) 1 retention db = Inr (1, db\<lparr>av_rows := []\<rparr>)"
  using assms by (auto simp: replay_rows_def purge_archived_outbox_once_def archive_cutoff_datetime_def purge_ready_def row_count_def Let_def)

section \<open>Witnesses\<close>

definition demo_epoch :: string where
  "demo_epoch = global_epoch (replicate 40 (CHR ''a'')) (demo_token (CHR ''c''))"

definition demo_arow :: outbox_row where
  "demo_arow = (demo_pending 1 ''t1'')\<lparr>ob_status := OB_sent, ob_sent_at := Some 0\<rparr>"

definition demo_a0 :: archive_db where
  "demo_a0 = \<lparr>av_rows = [], av_next = 1, av_archive = [], av_marks = []\<rparr>"

definition demo_a1 :: archive_db where
  "demo_a1 = demo_a0\<lparr>av_rows := [demo_arow], av_next := 2\<rparr>"

definition demo_set :: "(archive_error, watermark \<times> archive_db) result" where
  "demo_set = set_outbox_archive_watermark ''lottery_tasks'' 1 demo_epoch demo_a1"

definition demo_a2 :: archive_db where
  "demo_a2 = snd (projr demo_set)"

definition demo_arc :: "(archive_error, string \<times> string \<times> nat) result \<times> archive_db \<times> redis_state" where
  "demo_arc = archive_sent_outbox_once id 10000 (demo_token (CHR ''c''), []) ''lottery_tasks'' 200 3600 (demo_a2, demo_redis0)"

definition demo_purge :: "(archive_error, nat \<times> archive_db) result" where
  "demo_purge = purge_archived_outbox_once True 20000 ''lottery_tasks'' 200 3600 (fst (snd demo_arc))"

lemma demo_set_ok: "demo_set = Inr (fst (projr demo_set), demo_a2)"
proof -
  have "\<not> isl demo_set" by code_simp
  then show ?thesis by (cases demo_set) (simp_all add: demo_a2_def)
qed

lemma demo_arc_ok: "fst demo_arc = Inr (''lottery_tasks'', demo_epoch, 1)"
  by code_simp

lemma demo_purge_ok: "demo_purge = Inr (fst (projr demo_purge), snd (projr demo_purge))" "av_rows (snd (projr demo_purge)) = []"
proof -
  have "\<not> isl demo_purge" by code_simp
  then show "demo_purge = Inr (fst (projr demo_purge), snd (projr demo_purge))" by (cases demo_purge) simp_all
  show "av_rows (snd (projr demo_purge)) = []" by code_simp
qed

theorem no_message_vanishes_witness:
  "\<exists>a \<in> set (av_archive (snd (projr demo_purge))). (ar_id a, ar_stream a, ar_payload a, ar_dedup a) = row_key demo_arow"
proof -
  let ?s = "\<lambda>db. \<lparr>as_db = db, as_seen = [row_key demo_arow]\<rparr>"
  have "reachable archive_init archive_step \<lparr>as_db = demo_a0, as_seen = []\<rparr>"
    by (rule reach_init) (simp add: archive_init_def demo_a0_def)
  moreover have "archive_step \<lparr>as_db = demo_a0, as_seen = []\<rparr> Ev_insert (?s demo_a1)"
    using archive_step.insert_row [of demo_arow "\<lparr>as_db = demo_a0, as_seen = []\<rparr>"]
    by (simp add: demo_a1_def demo_a0_def demo_arow_def demo_pending_def numeral_2_eq_2)
  ultimately have r1: "reachable archive_init archive_step (?s demo_a1)" by (rule reach_step)
  have "archive_step (?s demo_a1) Ev_watermark ((?s demo_a1)\<lparr>as_db := demo_a2\<rparr>)"
    by (rule archive_step.watermark) (use demo_set_ok in \<open>simp add: demo_set_def\<close>)
  with r1 have r2: "reachable archive_init archive_step (?s demo_a2)" using reach_step by fastforce
  have "archive_step (?s demo_a2) Ev_archive ((?s demo_a2)\<lparr>as_db := fst (snd demo_arc)\<rparr>)"
    by (rule archive_step.archive [where rd = demo_redis0 and res = "fst demo_arc" and rd' = "snd (snd demo_arc)"])
      (simp add: demo_arc_def)
  with r2 have r3: "reachable archive_init archive_step (?s (fst (snd demo_arc)))" using reach_step by fastforce
  have "archive_step (?s (fst (snd demo_arc))) Ev_purge ((?s (fst (snd demo_arc)))\<lparr>as_db := snd (projr demo_purge)\<rparr>)"
    by (rule archive_step.purge [where ok = True and now = 20000 and k = "''lottery_tasks''" and limit = 200 and retention = 3600])
      (simp only: archive_sys.simps demo_purge_def [symmetric], rule demo_purge_ok(1))
  with r3 have "reachable archive_init archive_step (?s (snd (projr demo_purge)))" using reach_step by fastforce
  from no_message_vanishes [OF this, of "row_key demo_arow"] show ?thesis using demo_purge_ok(2) by simp
qed

theorem archive_stays_behind_watermark_witness:
  "\<exists>w \<in> set (av_marks demo_a2). wm_stream w = ''lottery_tasks'' \<and> wm_epoch w = demo_epoch"
proof -
  have a: "archive_sent_outbox_once id 10000 (demo_token (CHR ''c''), []) ''lottery_tasks'' 200 3600 (demo_a2, demo_redis0) =
      (Inr (''lottery_tasks'', demo_epoch, 1), fst (snd demo_arc), snd (snd demo_arc))"
    using demo_arc_ok unfolding demo_arc_def by (metis prod.collapse)
  have d: "distinct (map ob_id (av_rows demo_a2))" by code_simp
  from archive_stays_behind_watermark [OF a one_neq_zero d] show ?thesis by blast
qed

theorem new_epoch_watermark_is_dropped_witness:
  "set_outbox_archive_watermark ''lottery_tasks'' 9 ''e2'' (demo_a0\<lparr>av_marks := [\<lparr>wm_stream = ''lottery_tasks'', wm_epoch = ''e1'', wm_safe_id = 5\<rparr>]\<rparr>) =
     Inr (\<lparr>wm_stream = ''lottery_tasks'', wm_epoch = ''e2'', wm_safe_id = 9\<rparr>,
       demo_a0\<lparr>av_marks := [\<lparr>wm_stream = ''lottery_tasks'', wm_epoch = ''e1'', wm_safe_id = 5\<rparr>]\<rparr>)"
proof -
  let ?db = "demo_a0\<lparr>av_marks := [\<lparr>wm_stream = ''lottery_tasks'', wm_epoch = ''e1'', wm_safe_id = 5\<rparr>]\<rparr>"
  have e: "strip ''e2'' = ''e2''" by code_simp
  show ?thesis
    using new_epoch_watermark_is_dropped [of "''lottery_tasks''" 9 "''e2''" ?db
        "\<lparr>wm_stream = ''lottery_tasks'', wm_epoch = ''e1'', wm_safe_id = 5\<rparr>"]
    by (simp add: demo_valid(2) e fetch_one_def)
qed

end
