(* ===== verification/PlatformModules.thy ===== *)
theory PlatformModules
  imports PyValue
begin

text \<open>
  The platform business modules as far as action plans and execution intents read them
  (\<open>core/app/platform_modules\<close>): the order of the actions, the execution paths with their evidence
  kind, the paths that may not execute, and the per-platform options of the plan validator. All four
  modules are taken to be loadable. The strings of a plan are sequences of characters below
  code point 256.
\<close>

section \<open>Module metadata\<close>

record execution_path =
  path_id :: string
  path_task_modes :: "string list"
  path_real_actions :: bool
  path_blocker :: "string option"
  path_evidence_kind :: "string option"

text \<open>
  \<open>pf_handle_limit\<close> stands for the post-validator of a module (only the Weibo module has one, which
  limits the number of distinct handles), \<open>pf_text_too_long\<close> for its error template.
\<close>

record platform_module =
  pf_id :: string
  pf_action_order :: "string list"
  pf_paths :: "execution_path list"
  pf_default_path :: string
  pf_invalid_path_blocker :: string
  pf_always_blockers :: "string list"
  pf_aliases :: "(string \<times> string) list"
  pf_non_executable_path_errors :: "(string \<times> string) list"
  pf_allow_empty_repost :: bool
  pf_max_utf16 :: "nat option"
  pf_text_too_long :: "string \<Rightarrow> string"
  pf_empty_requirement_errors :: "(string \<times> string) list"
  pf_handle_limit :: bool
  pf_capabilities :: "(string list \<Rightarrow> string \<Rightarrow> pydict) option"

definition execution_path_blockers :: "platform_module \<Rightarrow> string \<Rightarrow> string list" where
  "execution_path_blockers m path = dedupe
     ((case find (\<lambda>p. path_id p = strip path) (pf_paths m) of
         None \<Rightarrow> [pf_invalid_path_blocker m]
       | Some p \<Rightarrow> (case path_blocker p of Some b \<Rightarrow> if b = [] then [] else [b] | None \<Rightarrow> []))
      @ pf_always_blockers m)"

definition execution_evidence_kind_for :: "platform_module \<Rightarrow> string \<Rightarrow> string option" where
  "execution_evidence_kind_for m path = (case find (\<lambda>p. path_id p = strip path) (pf_paths m) of
     None \<Rightarrow> None | Some p \<Rightarrow> path_evidence_kind p)"

definition normalize_external_action :: "platform_module \<Rightarrow> string \<Rightarrow> string option" where
  "normalize_external_action m action =
     (let normalized = casefold (strip action) in
      if normalized \<in> set (pf_action_order m) then Some normalized
      else case map_of (pf_aliases m) normalized of
        Some c \<Rightarrow> if c \<in> set (pf_action_order m) then Some c else None
      | None \<Rightarrow> None)"

definition non_executable_error :: "platform_module \<Rightarrow> pyval \<Rightarrow> string option" where
  "non_executable_error m path = (case path of PStr s \<Rightarrow> map_of (pf_non_executable_path_errors m) s | _ \<Rightarrow> None)"

definition validate_action_plan_path :: "platform_module \<Rightarrow> string \<Rightarrow> (string, unit) result" where
  "validate_action_plan_path m path =
     (if path \<notin> path_id ` set (pf_paths m) then Inl (pf_invalid_path_blocker m) else Inr ())"

section \<open>The four modules\<close>

definition BILIBILI_ACTION_ORDER :: "string list" where
  "BILIBILI_ACTION_ORDER = [''followed'', ''liked'', ''commented'', ''reposted'']"
definition WEIBO_ACTION_ORDER :: "string list" where
  "WEIBO_ACTION_ORDER = [''followed'', ''liked'', ''commented'', ''favorited'', ''reposted'']"
definition XIAOHONGSHU_ACTION_ORDER :: "string list" where
  "XIAOHONGSHU_ACTION_ORDER = [''followed'', ''liked'', ''commented'', ''favorited'']"
definition DOUYIN_ACTION_ORDER :: "string list" where
  "DOUYIN_ACTION_ORDER = [''followed'', ''liked'', ''commented'', ''favorited'']"

definition BILIBILI_PLATFORM :: platform_module where
  "BILIBILI_PLATFORM = \<lparr>pf_id = ''bilibili'', pf_action_order = BILIBILI_ACTION_ORDER,
     pf_paths = [\<lparr>path_id = ''bilibili_api_v2'', path_task_modes = [''dry_run'', ''shadow_run'', ''real_run''], path_real_actions = True,
       path_blocker = None, path_evidence_kind = Some ''exact_execution_evidence''\<rparr>],
     pf_default_path = ''bilibili_api_v2'', pf_invalid_path_blocker = ''bilibili_execution_path_not_supported'', pf_always_blockers = [],
     pf_aliases = [(''follow'', ''followed''), (''like'', ''liked''), (''comment'', ''commented''), (''repost'', ''reposted'')],
     pf_non_executable_path_errors = [], pf_allow_empty_repost = False, pf_max_utf16 = None,
     pf_text_too_long = (\<lambda>a. ''action_payload_'' @ a @ ''_text_too_long''), pf_empty_requirement_errors = [],
     pf_handle_limit = False, pf_capabilities = None\<rparr>"

text \<open>The OAuth capability contract of a Weibo plan: the endpoints of the selected actions.\<close>

definition weibo_capability :: "string \<Rightarrow> pydict" where
  "weibo_capability a =
     (if a = ''followed'' then [(''endpoint'', PStr ''friendships/create''), (''permission'', PStr ''advanced''), (''client_type'', PStr ''weibo'')]
      else if a = ''liked'' then [(''endpoint'', PStr ''attitudes/create''), (''permission'', PStr ''advanced'')]
      else if a = ''commented'' then [(''endpoint'', PStr ''comments/create''), (''permission'', PStr ''standard'')]
      else if a = ''favorited'' then [(''endpoint'', PStr ''favorites/create''), (''permission'', PStr ''standard'')]
      else [(''endpoint'', PStr ''statuses/repost''), (''permission'', PStr ''standard'')])"

definition weibo_runtime_capability_requirements :: "string list \<Rightarrow> string \<Rightarrow> pydict" where
  "weibo_runtime_capability_requirements required_actions path =
     (if path \<noteq> ''weibo_oauth_v1'' then []
      else [(''contract_version'', PInt 1), (''actions'', PDict (map (\<lambda>a. (a, PDict (weibo_capability a)))
        (filter (\<lambda>a. a \<in> set required_actions) WEIBO_ACTION_ORDER)))])"

definition WEIBO_PLATFORM :: platform_module where
  "WEIBO_PLATFORM = \<lparr>pf_id = ''weibo'', pf_action_order = WEIBO_ACTION_ORDER,
     pf_paths = [\<lparr>path_id = ''weibo_oauth_v1'', path_task_modes = [''dry_run'', ''real_run''], path_real_actions = True,
         path_blocker = None, path_evidence_kind = Some ''oauth_account_calibration''\<rparr>,
       \<lparr>path_id = ''weibo_manual_v1'', path_task_modes = [''shadow_run''], path_real_actions = False,
         path_blocker = Some ''weibo_manual_execution_selected'', path_evidence_kind = None\<rparr>],
     pf_default_path = ''weibo_oauth_v1'', pf_invalid_path_blocker = ''weibo_execution_path_invalid'', pf_always_blockers = [],
     pf_aliases = [], pf_non_executable_path_errors = [(''weibo_manual_v1'', ''weibo_manual_plan_must_be_non_executable'')],
     pf_allow_empty_repost = True, pf_max_utf16 = Some 140, pf_text_too_long = (\<lambda>a. ''weibo_'' @ a @ ''_text_too_long''),
     pf_empty_requirement_errors = [], pf_handle_limit = True, pf_capabilities = Some weibo_runtime_capability_requirements\<rparr>"

definition XIAOHONGSHU_PLATFORM :: platform_module where
  "XIAOHONGSHU_PLATFORM = \<lparr>pf_id = ''xiaohongshu'', pf_action_order = XIAOHONGSHU_ACTION_ORDER,
     pf_paths = [\<lparr>path_id = ''xiaohongshu_browser_v1'', path_task_modes = [''dry_run'', ''shadow_run'', ''real_run''], path_real_actions = True,
         path_blocker = None, path_evidence_kind = Some ''exact_execution_evidence''\<rparr>,
       \<lparr>path_id = ''xiaohongshu_manual_v1'', path_task_modes = [''shadow_run''], path_real_actions = False,
         path_blocker = Some ''xiaohongshu_manual_execution_selected'', path_evidence_kind = None\<rparr>],
     pf_default_path = ''xiaohongshu_browser_v1'', pf_invalid_path_blocker = ''xiaohongshu_execution_path_not_supported'', pf_always_blockers = [],
     pf_aliases = [(''follow'', ''followed''), (''like'', ''liked''), (''comment'', ''commented''), (''favorite'', ''favorited'')],
     pf_non_executable_path_errors = [(''xiaohongshu_manual_v1'', ''xiaohongshu_manual_plan_must_be_non_executable'')],
     pf_allow_empty_repost = False, pf_max_utf16 = None, pf_text_too_long = (\<lambda>a. ''action_payload_'' @ a @ ''_text_too_long''),
     pf_empty_requirement_errors = [(''reposted'', ''xiaohongshu_repost_content_not_supported'')],
     pf_handle_limit = False, pf_capabilities = None\<rparr>"

definition DOUYIN_PLATFORM :: platform_module where
  "DOUYIN_PLATFORM = \<lparr>pf_id = ''douyin'', pf_action_order = DOUYIN_ACTION_ORDER,
     pf_paths = [\<lparr>path_id = ''douyin_device_v1'', path_task_modes = [''dry_run'', ''shadow_run'', ''real_run''], path_real_actions = True,
         path_blocker = None, path_evidence_kind = Some ''exact_execution_evidence''\<rparr>,
       \<lparr>path_id = ''douyin_manual_v1'', path_task_modes = [''shadow_run''], path_real_actions = False,
         path_blocker = Some ''douyin_no_official_interaction_api'', path_evidence_kind = None\<rparr>],
     pf_default_path = ''douyin_device_v1'', pf_invalid_path_blocker = ''douyin_execution_path_invalid'', pf_always_blockers = [],
     pf_aliases = [(''follow'', ''followed''), (''like'', ''liked''), (''comment'', ''commented''), (''favorite'', ''favorited'')],
     pf_non_executable_path_errors = [(''douyin_manual_v1'', ''douyin_manual_plan_must_be_non_executable'')],
     pf_allow_empty_repost = False, pf_max_utf16 = None, pf_text_too_long = (\<lambda>a. ''action_payload_'' @ a @ ''_text_too_long''),
     pf_empty_requirement_errors = [], pf_handle_limit = False, pf_capabilities = None\<rparr>"

definition PLATFORM_REGISTRY :: "platform_module list" where
  "PLATFORM_REGISTRY = [BILIBILI_PLATFORM, WEIBO_PLATFORM, DOUYIN_PLATFORM, XIAOHONGSHU_PLATFORM]"

definition get_platform_module :: "string \<Rightarrow> platform_module option" where
  "get_platform_module platform = find (\<lambda>m. pf_id m = casefold (strip platform)) PLATFORM_REGISTRY"

definition action_order_for_platform :: "string \<Rightarrow> string list" where
  "action_order_for_platform platform = (case get_platform_module platform of Some m \<Rightarrow> pf_action_order m | None \<Rightarrow> BILIBILI_ACTION_ORDER)"

definition default_execution_path_for_platform :: "string \<Rightarrow> string" where
  "default_execution_path_for_platform platform = (case get_platform_module platform of Some m \<Rightarrow> pf_default_path m | None \<Rightarrow> ''bilibili_api_v2'')"

section \<open>Facts about the modules\<close>

lemma get_platform_moduleD: "get_platform_module p = Some m \<Longrightarrow> m \<in> set PLATFORM_REGISTRY \<and> pf_id m = casefold (strip p)"
  by (auto simp: get_platform_module_def find_Some_iff)

text \<open>
  Every path is a real one with an evidence kind, or a manual one that the module refuses to
  execute; action orders have no repetition.
\<close>

lemma registry_paths:
  "list_all (\<lambda>m. distinct (pf_action_order m) \<and> distinct (map path_id (pf_paths m)) \<and> list_all (\<lambda>p. strip (path_id p) = path_id p \<and>
     (path_real_actions p \<longleftrightarrow> path_evidence_kind p \<in> {Some ''exact_execution_evidence'', Some ''oauth_account_calibration''}) \<and>
     (path_real_actions p \<longleftrightarrow> map_of (pf_non_executable_path_errors m) (path_id p) = None)) (pf_paths m)) PLATFORM_REGISTRY"
  by code_simp

end
