(* ===== verification/ActionPlan.thy ===== *)
theory ActionPlan
  imports PlatformModules
begin

text \<open>
  The contract of an executable action plan (\<open>core/app/action_plan.py\<close>): canonical JSON and hashes,
  the payload of each action, content and friend-mention requirements, and the validator
  \<open>validate_action_plan_v2\<close> with its branches in the code's order. Arguments: the digest, the text of
  a float, the Unicode normalisation of a handle, the JSON decoder and \<open>repr\<close>. Every value of the model has a
  canonical JSON text, so the deferred encoding error of the code does not arise.
\<close>

section \<open>Characters and JSON\<close>

text \<open>The class \<open>\w\<close> of the regular expressions, on code points below 256, with the hyphen.\<close>

definition handle_char :: "char \<Rightarrow> bool" where
  "handle_char c \<longleftrightarrow> (let n = (of_char c :: int) in (48 \<le> n \<and> n \<le> 57) \<or> (65 \<le> n \<and> n \<le> 90) \<or> (97 \<le> n \<and> n \<le> 122)
     \<or> n \<in> set [45, 95, 170, 178, 179, 181, 185, 186, 188, 189, 190] \<or> (192 \<le> n \<and> n \<noteq> 215 \<and> n \<noteq> 247))"

definition HANDLE_PATTERN :: "string \<Rightarrow> bool" where
  "HANDLE_PATTERN s \<longleftrightarrow> (case s of [] \<Rightarrow> False
     | c # r \<Rightarrow> c = CHR ''@'' \<and> r \<noteq> [] \<and> length r \<le> 64 \<and> list_all handle_char r)"

text \<open>\<open>MENTION_IN_TEXT_PATTERN.findall\<close>: the complete handles, i.e. not followed by another handle character.\<close>

fun mentions_in :: "string \<Rightarrow> string list" where
  "mentions_in [] = []"
| "mentions_in (c # s) = (let run = takeWhile handle_char s in
     if c = CHR ''@'' \<and> run \<noteq> [] \<and> length run \<le> 64 then (c # run) # mentions_in s else mentions_in s)"

definition utf8_length :: "string \<Rightarrow> nat" where
  "utf8_length s = length s + length (filter (\<lambda>c. (of_char c :: int) \<ge> 128) s)"

definition hex_digit :: "nat \<Rightarrow> char" where
  "hex_digit n = (if n < 10 then char_of (48 + n) else char_of (87 + n))"

definition json_char :: "char \<Rightarrow> string" where
  "json_char c = (let n = (of_char c :: nat) in
     if n = 34 then [char_of (92 :: nat), char_of (34 :: nat)]
     else if n = 92 then [char_of (92 :: nat), char_of (92 :: nat)]
     else if n = 8 then char_of (92 :: nat) # ''b''
     else if n = 9 then char_of (92 :: nat) # ''t''
     else if n = 10 then char_of (92 :: nat) # ''n''
     else if n = 12 then char_of (92 :: nat) # ''f''
     else if n = 13 then char_of (92 :: nat) # ''r''
     else if n < 32 then char_of (92 :: nat) # ''u00'' @ [hex_digit (n div 16), hex_digit (n mod 16)]
     else [c])"

definition json_string :: "string \<Rightarrow> string" where
  "json_string s = (let q = char_of (34 :: nat) in q # concat (map json_char s) @ [q])"

fun joined :: "string list \<Rightarrow> string" where
  "joined [] = []"
| "joined [x] = x"
| "joined (x # xs) = x @ '','' @ joined xs"

text \<open>\<open>json.dumps(value, ensure_ascii=False, sort_keys=True, separators=(",", ":"))\<close>.\<close>

fun canonical_json_bytes :: "(rat \<Rightarrow> string) \<Rightarrow> pyval \<Rightarrow> string" where
  "canonical_json_bytes fr PNone = ''null''"
| "canonical_json_bytes fr (PBool b) = (if b then ''true'' else ''false'')"
| "canonical_json_bytes fr (PInt i) = int_str i"
| "canonical_json_bytes fr (PFloat q) = fr q"
| "canonical_json_bytes fr (PStr s) = json_string s"
| "canonical_json_bytes fr (PList xs) = ''['' @ joined (map (canonical_json_bytes fr) xs) @ '']''"
| "canonical_json_bytes fr (PDict d) = ''{'' @ joined (map snd (sort_key fst
     (map (\<lambda>kv. (fst kv, json_string (fst kv) @ '':'' @ canonical_json_bytes fr (snd kv))) d))) @ ''}''"

record plan_env =
  px_sha :: "string \<Rightarrow> string"
  px_float :: "rat \<Rightarrow> string"
  px_ident :: "string \<Rightarrow> string"
  px_loads :: "string \<Rightarrow> pyval option"
  px_repr :: "pyval \<Rightarrow> string"

definition json_hash :: "plan_env \<Rightarrow> pyval \<Rightarrow> string" where
  "json_hash E v = px_sha E (canonical_json_bytes (px_float E) v)"

section \<open>Errors and hashes\<close>

text \<open>A code of \<open>ActionPlanV2Error\<close>, or another exception the validator lets through.\<close>

datatype plan_error = Code string | Uncaught

definition compute_rule_hash :: "plan_env \<Rightarrow> pyval \<Rightarrow> (plan_error, string) result" where
  "compute_rule_hash E v = (case v of PStr s \<Rightarrow> if s = [] then Inl (Code ''rule_text_required'') else Inr (px_sha E s)
     | _ \<Rightarrow> Inl (Code ''rule_text_required''))"

definition compute_action_plan_hash :: "plan_env \<Rightarrow> pydict \<Rightarrow> string" where
  "compute_action_plan_hash E plan = json_hash E (PDict (filter (\<lambda>kv. fst kv \<noteq> ''plan_hash'') plan))"

definition compute_target_hash :: "plan_env \<Rightarrow> string \<Rightarrow> (plan_error, string) result" where
  "compute_target_hash E url = (if strip url = [] then Inl (Code ''canonical_target_required'') else Inr (px_sha E (strip url)))"

definition compute_config_hash :: "plan_env \<Rightarrow> pydict \<Rightarrow> string" where
  "compute_config_hash E config = json_hash E (PDict config)"

definition compute_bilibili_api_config_hash :: "plan_env \<Rightarrow> pyval \<Rightarrow> (plan_error, string) result" where
  "compute_bilibili_api_config_hash E v = (case v of PInt n \<Rightarrow>
       if n \<le> 0 then Inl (Code ''execution_revision_invalid'')
       else Inr (compute_config_hash E [(''execution_revision'', PInt n), (''execution_path_id'', PStr ''bilibili_api_v2''),
         (''preflight_contract_version'', PInt 1)])
     | _ \<Rightarrow> Inl (Code ''execution_revision_invalid''))"

definition required_string :: "pydict \<Rightarrow> string \<Rightarrow> (plan_error, string) result" where
  "required_string plan field = (case dget plan field of
     PStr s \<Rightarrow> if strip s = [] \<or> s \<noteq> strip s then Inl (Code (''action_plan_'' @ field @ ''_invalid'')) else Inr s
   | _ \<Rightarrow> Inl (Code (''action_plan_'' @ field @ ''_invalid'')))"

text \<open>\<open>iter(v)\<close> as a list: the items of a list, the characters of a string, the keys of a dictionary.\<close>

fun iter_items :: "pyval \<Rightarrow> pyval list option" where
  "iter_items (PList xs) = Some xs"
| "iter_items (PStr s) = Some (map (\<lambda>c. PStr [c]) s)"
| "iter_items (PDict d) = Some (map (\<lambda>kv. PStr (fst kv)) d)"
| "iter_items _ = None"

text \<open>\<open>set(d) == {...}\<close> and \<open>not set(d) - {...}\<close>.\<close>

definition keys_are :: "pydict \<Rightarrow> string list \<Rightarrow> bool" where
  "keys_are d ks \<longleftrightarrow> set (map fst d) = set ks"

definition keys_within :: "pydict \<Rightarrow> string list \<Rightarrow> bool" where
  "keys_within d ks \<longleftrightarrow> set (map fst d) \<subseteq> set ks"

section \<open>Payloads\<close>

definition TEXT_ACTIONS :: "string list" where "TEXT_ACTIONS = [''commented'', ''reposted'']"
definition OPTIONAL_TEXT_METADATA :: "string list" where
  "OPTIONAL_TEXT_METADATA = [''topic_tags'', ''mentions'', ''media_refs'', ''translation'']"
definition FRIEND_MENTION_MODES :: "string list" where "FRIEND_MENTION_MODES = [''minimum'', ''exact'']"
definition CONTENT_REQUIREMENT_ACTIONS :: "string list" where "CONTENT_REQUIREMENT_ACTIONS = [''commented'', ''reposted'']"

fun metadata_items :: "string \<Rightarrow> string list \<Rightarrow> pyval list \<Rightarrow> (plan_error, string list) result" where
  "metadata_items field acc [] = Inr acc"
| "metadata_items field acc (v # vs) = (case v of
     PStr s \<Rightarrow>
       if s = [] \<or> s \<noteq> strip s \<or> utf8_length s > 512 \<or> s \<in> set acc \<or> (field = ''mentions'' \<and> \<not> HANDLE_PATTERN s)
       then Inl (Code (''action_payload_'' @ field @ ''_invalid''))
       else metadata_items field (acc @ [s]) vs
   | _ \<Rightarrow> Inl (Code (''action_payload_'' @ field @ ''_invalid'')))"

definition validated_metadata_list :: "pydict \<Rightarrow> string \<Rightarrow> (plan_error, string list) result" where
  "validated_metadata_list payload field = (case dget_default payload field (PList []) of
     PNone \<Rightarrow> Inr []
   | PList vs \<Rightarrow> if length vs > 32 then Inl (Code (''action_payload_'' @ field @ ''_too_many'')) else metadata_items field [] vs
   | _ \<Rightarrow> Inl (Code (''action_payload_'' @ field @ ''_invalid'')))"

text \<open>What the platform says of a text: whether a repost may be empty, the limit and its error code.\<close>

record text_policy =
  tp_allow_empty_repost :: bool
  tp_limit :: "nat option"
  tp_too_long :: "string \<Rightarrow> string"

definition text_policy_of :: "platform_module \<Rightarrow> text_policy" where
  "text_policy_of m = \<lparr>tp_allow_empty_repost = pf_allow_empty_repost m, tp_limit = pf_max_utf16 m, tp_too_long = pf_text_too_long m\<rparr>"

definition validate_text_payload :: "string \<Rightarrow> pydict \<Rightarrow> text_policy \<Rightarrow> (plan_error, pydict) result" where
  "validate_text_payload action payload tp = (case dget payload ''text'' of
     PStr text \<Rightarrow>
       if strip text = [] then Inl (Code (''action_payload_'' @ action @ ''_text_required''))
       else if utf8_length text > 4096 then Inl (Code (''action_payload_'' @ action @ ''_text_too_large''))
       else if (case tp_limit tp of Some n \<Rightarrow> length text > n | None \<Rightarrow> False) then Inl (Code (tp_too_long tp action))
       else rbind (validated_metadata_list payload ''topic_tags'') (\<lambda>topic_tags.
            rbind (validated_metadata_list payload ''mentions'') (\<lambda>mentions.
            rbind (validated_metadata_list payload ''media_refs'') (\<lambda>_.
              if (\<exists>t \<in> set topic_tags. \<not> contains_sub text t) \<or> (\<exists>t \<in> set mentions. t \<notin> set (mentions_in text))
              then Inl (Code ''action_payload_required_token_missing'')
              else (case dget payload ''translation'' of
                  PNone \<Rightarrow> Inr payload
                | PStr tr \<Rightarrow> if strip tr = [] then Inl (Code ''action_payload_translation_invalid'')
                    else if \<not> contains_sub text tr then Inl (Code ''action_payload_translation_missing'') else Inr payload
                | _ \<Rightarrow> Inl (Code ''action_payload_translation_invalid'')))))
   | _ \<Rightarrow> Inl (Code (''action_payload_'' @ action @ ''_text_required'')))"

definition validate_follow_payload :: "pydict \<Rightarrow> (plan_error, pydict) result" where
  "validate_follow_payload payload =
     (if \<not> keys_are payload [''target_handle''] then Inl (Code ''action_payload_followed_target_required'')
      else case dget payload ''target_handle'' of
        PStr h \<Rightarrow> if HANDLE_PATTERN h \<and> utf8_length h \<le> 512 then Inr payload else Inl (Code ''action_payload_followed_target_invalid'')
      | _ \<Rightarrow> Inl (Code ''action_payload_followed_target_invalid''))"

definition validate_action_payload :: "string \<Rightarrow> pyval \<Rightarrow> text_policy \<Rightarrow> (plan_error, pydict) result" where
  "validate_action_payload action value tp = (case value of
     PDict payload \<Rightarrow>
       if action = ''followed'' then validate_follow_payload payload
       else if action \<notin> set TEXT_ACTIONS
       then (if payload \<noteq> [] then Inl (Code ''non_text_action_payload_not_empty'') else Inr payload)
       else if \<not> keys_within payload (''text'' # OPTIONAL_TEXT_METADATA) then Inl (Code ''action_payload_unknown_field'')
       else if action = ''reposted'' \<and> tp_allow_empty_repost tp \<and> payload = [] then Inr []
       else validate_text_payload action payload tp
   | _ \<Rightarrow> Inl (Code ''action_payload_invalid''))"

text \<open>
  \<open>dict(value or {})\<close>: any iterable of pairs with hashable keys makes a dictionary, later pairs
  replacing the value of earlier ones; anything else raises.
\<close>

definition pair_of :: "pyval \<Rightarrow> (pyval \<times> pyval) option" where
  "pair_of v = (case iter_items v of Some [k, w] \<Rightarrow> if hashable k then Some (k, w) else None | _ \<Rightarrow> None)"

definition dict_of :: "pyval \<Rightarrow> (plan_error, (pyval \<times> pyval) list) result" where
  "dict_of v = (if \<not> truthy v then Inr []
     else case v of PDict d \<Rightarrow> Inr (map (\<lambda>(k, w). (PStr k, w)) d)
     | _ \<Rightarrow> (case iter_items v of None \<Rightarrow> Inl Uncaught
         | Some xs \<Rightarrow> (case those (map pair_of xs) of None \<Rightarrow> Inl Uncaught
             | Some kvs \<Rightarrow> Inr (fold (\<lambda>(k, w) d. od_set d k w) kvs []))))"

type_synonym payloads = "(string \<times> pydict) list"

definition normalize_action_payloads ::
  "string list \<Rightarrow> pyval \<Rightarrow> string list \<Rightarrow> text_policy \<Rightarrow> (plan_error, payloads) result" where
  "normalize_action_payloads required_actions value allowed tp = rbind (dict_of value) (\<lambda>raw.
     if \<not> set (map fst raw) \<subseteq> PStr ` set allowed then Inl (Code ''action_plan_payload_unknown_action'')
     else if set (map fst raw) \<noteq> PStr ` set required_actions then Inl (Code ''action_plan_payload_binding_mismatch'')
     else rmapM (\<lambda>a. rmap (Pair a) (validate_action_payload a
         (case od_get raw (PStr a) of Some v \<Rightarrow> v | None \<Rightarrow> PDict []) tp)) required_actions)"

definition payload_field :: "payloads \<Rightarrow> string \<Rightarrow> string \<Rightarrow> pyval \<Rightarrow> pyval" where
  "payload_field ps a field d = (case map_of ps a of None \<Rightarrow> d | Some p \<Rightarrow> dget_default p field d)"

section \<open>Content and friend-mention requirements\<close>

record content_requirements =
  cr_follow_targets :: "string list"
  cr_commented :: "string list \<times> string list"
  cr_reposted :: "string list \<times> string list"

definition cr_action :: "content_requirements \<Rightarrow> string \<Rightarrow> string list \<times> string list" where
  "cr_action r a = (if a = ''commented'' then cr_commented r else cr_reposted r)"

definition action_requirements :: "pyval \<Rightarrow> (plan_error, string list \<times> string list) result" where
  "action_requirements v = (case v of
     PDict d \<Rightarrow> if \<not> keys_are d [''topic_tags'', ''mentions''] then Inl (Code ''action_plan_content_requirements_invalid'')
       else rbind (validated_metadata_list d ''topic_tags'') (\<lambda>t. rmap (Pair t) (validated_metadata_list d ''mentions''))
   | _ \<Rightarrow> Inl (Code ''action_plan_content_requirements_invalid''))"

definition validated_content_requirements :: "pyval \<Rightarrow> (plan_error, content_requirements) result" where
  "validated_content_requirements value = (case value of
     PDict d \<Rightarrow>
       if \<not> keys_are d [''follow_targets'', ''commented'', ''reposted''] then Inl (Code ''action_plan_content_requirements_invalid'')
       else rbind (validated_metadata_list d ''follow_targets'') (\<lambda>targets.
         if \<not> list_all HANDLE_PATTERN targets then Inl (Code ''action_plan_follow_target_source_invalid'')
         else rbind (action_requirements (dget d ''commented'')) (\<lambda>c.
              rbind (action_requirements (dget d ''reposted'')) (\<lambda>r.
                Inr \<lparr>cr_follow_targets = targets, cr_commented = c, cr_reposted = r\<rparr>)))
   | _ \<Rightarrow> Inl (Code ''action_plan_content_requirements_invalid''))"

text \<open>An action with the mode (\<open>minimum\<close> or \<open>exact\<close>) and the number of friends to mention.\<close>

type_synonym friend_requirements = "(string \<times> string \<times> int) list"

definition friend_constraint :: "pyval \<Rightarrow> (plan_error, string \<times> int) result" where
  "friend_constraint v = (case v of
     PDict d \<Rightarrow> if \<not> keys_are d [''mode'', ''count''] then Inl (Code ''action_plan_friend_mention_requirements_invalid'')
       else if \<not> hashable (dget d ''mode'') then Inl Uncaught
       else (case (dget d ''mode'', dget d ''count'') of
           (PStr mode, PInt count) \<Rightarrow>
             if mode \<in> set FRIEND_MENTION_MODES \<and> 1 \<le> count \<and> count \<le> 32 then Inr (mode, count)
             else Inl (Code ''action_plan_friend_mention_requirements_invalid'')
         | _ \<Rightarrow> Inl (Code ''action_plan_friend_mention_requirements_invalid''))
   | _ \<Rightarrow> Inl (Code ''action_plan_friend_mention_requirements_invalid''))"

definition validate_friend_mention_requirements :: "pyval \<Rightarrow> (plan_error, friend_requirements) result" where
  "validate_friend_mention_requirements value = (case value of
     PNone \<Rightarrow> Inr []
   | PDict d \<Rightarrow>
       if \<not> keys_within d CONTENT_REQUIREMENT_ACTIONS then Inl (Code ''action_plan_friend_mention_requirements_invalid'')
       else rmapM (\<lambda>a. rmap (Pair a) (friend_constraint (dget d a)))
         (filter (\<lambda>a. a \<in> set (map fst d)) CONTENT_REQUIREMENT_ACTIONS)
   | _ \<Rightarrow> Inl (Code ''action_plan_friend_mention_requirements_invalid''))"

definition friend_count_satisfied :: "string \<times> int \<Rightarrow> int \<Rightarrow> bool" where
  "friend_count_satisfied constraint actual = (if fst constraint = ''exact'' then actual = snd constraint else actual \<ge> snd constraint)"

text \<open>The strings of a list value: handles and tags reach these functions validated.\<close>

fun str_items :: "pyval \<Rightarrow> string list option" where
  "str_items (PList vs) = those (map (\<lambda>v. case v of PStr s \<Rightarrow> Some s | _ \<Rightarrow> None) vs)"
| "str_items _ = None"

definition friend_action_satisfied ::
  "plan_env \<Rightarrow> payloads \<Rightarrow> content_requirements \<Rightarrow> content_requirements \<Rightarrow> string \<times> string \<times> int \<Rightarrow> bool" where
  "friend_action_satisfied E ps bound source ac =
     (let keys = map (px_ident E); action = fst ac; source_keys = set (keys (snd (cr_action source action)));
          follow_keys = set (keys (cr_follow_targets source)) \<union> set (keys (cr_follow_targets bound)) in
      case map_of ps action of None \<Rightarrow> False
      | Some payload \<Rightarrow> (case str_items (dget_default payload ''mentions'' (PList [])) of
          None \<Rightarrow> False
        | Some mentions \<Rightarrow> snd (cr_action bound action) = mentions \<and> distinct (keys mentions)
            \<and> source_keys \<subseteq> set (keys mentions)
            \<and> friend_count_satisfied (snd ac)
                (int (length (filter (\<lambda>k. k \<notin> source_keys \<and> k \<notin> follow_keys) (keys mentions))))))"

definition friend_mention_requirements_satisfied ::
  "plan_env \<Rightarrow> payloads \<Rightarrow> content_requirements \<Rightarrow> friend_requirements \<Rightarrow> content_requirements \<Rightarrow> bool" where
  "friend_mention_requirements_satisfied E ps bound constraints source \<longleftrightarrow>
     constraints \<noteq> [] \<and> list_all (friend_action_satisfied E ps bound source) constraints"

text \<open>Every reviewed handle of a Weibo plan counts once towards the limit of a preflight.\<close>

definition WEIBO_PREFLIGHT_UNIQUE_HANDLE_LIMIT :: nat where "WEIBO_PREFLIGHT_UNIQUE_HANDLE_LIMIT = 32"

definition plan_handles :: "payloads \<Rightarrow> content_requirements \<Rightarrow> content_requirements \<Rightarrow> string list" where
  "plan_handles ps bound source = filter HANDLE_PATTERN
     (concat (map (\<lambda>r. cr_follow_targets r @ snd (cr_commented r) @ snd (cr_reposted r)) [source, bound])
      @ (case payload_field ps ''followed'' ''target_handle'' PNone of PStr h \<Rightarrow> [h] | _ \<Rightarrow> [])
      @ concat (map (\<lambda>a. case str_items (payload_field ps a ''mentions'' PNone) of Some hs \<Rightarrow> hs | None \<Rightarrow> []) CONTENT_REQUIREMENT_ACTIONS))"

definition validate_weibo_preflight_unique_handle_limit ::
  "plan_env \<Rightarrow> payloads \<Rightarrow> content_requirements \<Rightarrow> content_requirements \<Rightarrow> (plan_error, unit) result" where
  "validate_weibo_preflight_unique_handle_limit E ps bound source =
     (if card (set (map (px_ident E) (plan_handles ps bound source))) > WEIBO_PREFLIGHT_UNIQUE_HANDLE_LIMIT
      then Inl (Code ''weibo_preflight_unique_handle_limit_exceeded'') else Inr ())"

section \<open>The validator\<close>

record validated_plan =
  vp_plan :: pydict
  vp_plan_hash :: string
  vp_rule_snapshot_id :: int
  vp_rule_hash :: string
  vp_execution_path_id :: string
  vp_required_actions :: "string list"
  vp_action_payloads :: payloads
  vp_content_requirements :: content_requirements
  vp_source_content_requirements :: content_requirements
  vp_friend_mention_requirements :: friend_requirements
  vp_runtime_capability_requirements :: pydict

definition lower_hex64 :: "string \<Rightarrow> bool" where
  "lower_hex64 s \<longleftrightarrow> length s = 64 \<and> list_all (\<lambda>c. c \<in> set ''0123456789abcdef'') s"

text \<open>The attested head of a plan: version, platform, review, rule, path and hash fields.\<close>

record plan_head =
  ph_module :: platform_module
  ph_snapshot :: int
  ph_rule_hash :: string
  ph_path :: string
  ph_plan_hash :: string

definition plan_module :: "pydict \<Rightarrow> platform_module option" where
  "plan_module plan = get_platform_module (case dget plan ''platform'' of PStr p \<Rightarrow> casefold (strip p) | _ \<Rightarrow> [])"

definition review_attested :: "pydict \<Rightarrow> bool" where
  "review_attested plan \<longleftrightarrow> (case dget plan ''reviewed_by'' of
     PStr s \<Rightarrow> strip s \<noteq> [] \<and> s = strip s \<and> utf8_length s \<le> 128 | _ \<Rightarrow> False)
   \<and> dget plan ''rule_complete_confirmed'' = PBool True"

definition validate_plan_head :: "pydict \<Rightarrow> bool \<Rightarrow> (plan_error, plan_head) result" where
  "validate_plan_head plan require_executable =
     (if dget plan ''version'' \<noteq> PInt 2 then Inl (Code ''action_plan_version_unsupported'')
      else case plan_module plan of
        None \<Rightarrow> Inl (Code ''action_plan_platform_unsupported'')
      | Some m \<Rightarrow>
          if non_executable_error m (dget plan ''execution_path_id'') \<noteq> None \<and> dget plan ''executable'' \<noteq> PBool False
          then Inl (Code (the (non_executable_error m (dget plan ''execution_path_id''))))
          else if require_executable \<and> dget plan ''executable'' \<noteq> PBool True then Inl (Code ''action_plan_not_executable'')
          else if dget plan ''review_required'' \<noteq> PBool False then Inl (Code ''action_plan_review_required'')
          else if \<not> review_attested plan then Inl (Code ''action_plan_review_attestation_invalid'')
          else (case dget plan ''rule_snapshot_id'' of
            PInt n \<Rightarrow>
              if n \<le> 0 then Inl (Code ''action_plan_rule_snapshot_id_invalid'')
              else rbind (required_string plan ''rule_hash'') (\<lambda>rule_hash.
                rbind (required_string plan ''execution_path_id'') (\<lambda>path.
                (case validate_action_plan_path m path of Inl e \<Rightarrow> Inl (Code e)
                 | Inr _ \<Rightarrow> rbind (required_string plan ''plan_hash'') (\<lambda>plan_hash.
                     if \<not> lower_hex64 rule_hash then Inl (Code ''action_plan_rule_hash_invalid'')
                     else if \<not> lower_hex64 plan_hash then Inl (Code ''action_plan_hash_invalid'')
                     else Inr \<lparr>ph_module = m, ph_snapshot = n, ph_rule_hash = rule_hash, ph_path = path, ph_plan_hash = plan_hash\<rparr>))))
          | _ \<Rightarrow> Inl (Code ''action_plan_rule_snapshot_id_invalid'')))"

text \<open>The loop over \<open>required_actions\<close>.\<close>

fun plan_actions :: "string list \<Rightarrow> string list \<Rightarrow> pyval list \<Rightarrow> (plan_error, string list) result" where
  "plan_actions order acc [] = Inr acc"
| "plan_actions order acc (v # vs) = (case v of
     PStr a \<Rightarrow> if a \<notin> set order \<or> a \<in> set acc then Inl (Code ''action_plan_required_actions_invalid'')
       else plan_actions order (acc @ [a]) vs
   | _ \<Rightarrow> Inl (Code ''action_plan_required_actions_invalid''))"

definition required_actions_of :: "pydict \<Rightarrow> (plan_error, string list) result" where
  "required_actions_of plan = rbind (required_string plan ''platform'') (\<lambda>platform.
     let order = action_order_for_platform platform in
     case dget plan ''required_actions'' of
       PList vs \<Rightarrow> if vs = [] then Inl (Code ''action_plan_required_actions_invalid'')
         else rbind (plan_actions order [] vs) (\<lambda>actions.
           if actions \<noteq> filter (\<lambda>a. a \<in> set actions) order then Inl (Code ''action_plan_action_order_invalid'') else Inr actions)
     | _ \<Rightarrow> Inl (Code ''action_plan_required_actions_invalid''))"

definition source_bound :: "plan_env \<Rightarrow> content_requirements \<Rightarrow> content_requirements \<Rightarrow> friend_requirements \<Rightarrow> bool" where
  "source_bound E source bound friends \<longleftrightarrow>
     set (map (px_ident E) (cr_follow_targets source)) \<subseteq> set (map (px_ident E) (cr_follow_targets bound))
     \<and> (\<forall>a \<in> set CONTENT_REQUIREMENT_ACTIONS. fst (cr_action source a) = fst (cr_action bound a)
         \<and> (if a \<in> set (map fst friends)
            then distinct (map (px_ident E) (snd (cr_action bound a)))
              \<and> set (map (px_ident E) (snd (cr_action source a))) \<subseteq> set (map (px_ident E) (snd (cr_action bound a)))
            else snd (cr_action source a) = snd (cr_action bound a)))"

fun first_error :: "(bool \<times> string) list \<Rightarrow> (plan_error, unit) result" where
  "first_error [] = Inr ()"
| "first_error ((ok, e) # cs) = (if ok then first_error cs else Inl (Code e))"

definition str_list :: "string list \<Rightarrow> pyval" where
  "str_list xs = PList (map PStr xs)"

definition content_checks :: "platform_module \<Rightarrow> payloads \<Rightarrow> content_requirements \<Rightarrow> (bool \<times> string) list" where
  "content_checks m ps bound =
     map (\<lambda>(a, e). (cr_action bound a = ([], []), e)) (pf_empty_requirement_errors m)
     @ concat (map (\<lambda>a. [(payload_field ps a ''topic_tags'' (PList []) = str_list (fst (cr_action bound a)), ''action_plan_required_topic_mismatch''),
         (payload_field ps a ''mentions'' (PList []) = str_list (snd (cr_action bound a)), ''action_plan_required_mention_mismatch'')])
         CONTENT_REQUIREMENT_ACTIONS)"

definition follow_checks :: "string list \<Rightarrow> payloads \<Rightarrow> content_requirements \<Rightarrow> (bool \<times> string) list" where
  "follow_checks actions ps bound =
     (if ''followed'' \<in> set actions
      then [(length (cr_follow_targets bound) = 1, ''action_plan_follow_target_source_ambiguous''),
            (payload_field ps ''followed'' ''target_handle'' PNone = PStr (hd (cr_follow_targets bound)), ''action_plan_follow_target_mismatch'')]
      else [(cr_follow_targets bound = [], ''action_plan_follow_target_without_action'')])"

definition has_media :: "payloads \<Rightarrow> bool" where
  "has_media ps \<longleftrightarrow> (\<exists>p \<in> set ps. truthy (dget (snd p) ''media_refs''))"

definition source_requirements_of :: "pydict \<Rightarrow> content_requirements \<Rightarrow> friend_requirements \<Rightarrow> (plan_error, content_requirements) result" where
  "source_requirements_of plan bound friends = (case dget plan ''source_content_requirements'' of
     PNone \<Rightarrow> if friends \<noteq> [] then Inl (Code ''action_plan_friend_mention_requirement_binding_mismatch'') else Inr bound
   | v \<Rightarrow> validated_content_requirements v)"

definition runtime_capabilities_of :: "pydict \<Rightarrow> platform_module \<Rightarrow> string list \<Rightarrow> string \<Rightarrow> (plan_error, pydict) result" where
  "runtime_capabilities_of plan m actions path = rbind
     (case dget_default plan ''runtime_capability_requirements'' (PDict []) of
        PNone \<Rightarrow> Inr [] | PDict d \<Rightarrow> Inr d | _ \<Rightarrow> Inl (Code ''weibo_oauth_capability_contract_mismatch''))
     (\<lambda>caps. case pf_capabilities m of
        None \<Rightarrow> Inr caps
      | Some f \<Rightarrow> if py_eq (PDict caps) (PDict (f actions path)) then Inr caps
          else Inl (Code ''weibo_oauth_capability_contract_mismatch''))"

definition validate_plan_body ::
  "plan_env \<Rightarrow> pydict \<Rightarrow> bool \<Rightarrow> plan_head \<Rightarrow> string list \<Rightarrow> (plan_error, validated_plan) result" where
  "validate_plan_body E plan reject_media h actions = (let m = ph_module h in
     rbind (normalize_action_payloads actions (dget plan ''action_payloads'') (pf_action_order m) (text_policy_of m)) (\<lambda>ps.
     rbind (validated_content_requirements (dget plan ''content_requirements'')) (\<lambda>bound.
     rbind (validate_friend_mention_requirements (dget_default plan ''friend_mention_requirements'' (PDict []))) (\<lambda>friends.
     if \<not> set (map fst friends) \<subseteq> set actions then Inl (Code ''action_plan_friend_mention_action_missing'')
     else rbind (source_requirements_of plan bound friends) (\<lambda>source.
     rbind (if pf_handle_limit m then validate_weibo_preflight_unique_handle_limit E ps bound source else Inr ()) (\<lambda>_.
     if \<not> source_bound E source bound friends then Inl (Code ''action_plan_friend_mention_requirement_binding_mismatch'')
     else rbind (first_error (content_checks m ps bound @ follow_checks actions ps bound)) (\<lambda>_.
     if friends \<noteq> [] \<and> \<not> friend_mention_requirements_satisfied E ps bound friends source
     then Inl (Code ''action_plan_friend_mention_count_mismatch'')
     else if reject_media \<and> has_media ps then Inl (Code ''action_payload_media_unsupported'')
     else rbind (runtime_capabilities_of plan m actions (ph_path h)) (\<lambda>caps.
       Inr \<lparr>vp_plan = plan, vp_plan_hash = ph_plan_hash h, vp_rule_snapshot_id = ph_snapshot h, vp_rule_hash = ph_rule_hash h,
         vp_execution_path_id = ph_path h, vp_required_actions = actions, vp_action_payloads = ps, vp_content_requirements = bound,
         vp_source_content_requirements = source, vp_friend_mention_requirements = friends,
         vp_runtime_capability_requirements = caps\<rparr>))))))))"

definition validate_action_plan_v2 :: "plan_env \<Rightarrow> pyval \<Rightarrow> bool \<Rightarrow> bool \<Rightarrow> (plan_error, validated_plan) result" where
  "validate_action_plan_v2 E value require_executable reject_media = (case value of
     PDict plan \<Rightarrow> rbind (validate_plan_head plan require_executable) (\<lambda>h.
       rbind (required_actions_of plan) (\<lambda>actions.
         if compute_action_plan_hash E plan \<noteq> ph_plan_hash h then Inl (Code ''action_plan_hash_mismatch'')
         else validate_plan_body E plan reject_media h actions))
   | _ \<Rightarrow> Inl (Code ''action_plan_v2_invalid''))"

end
