(* ===== verification/ExecutionIntents.thy ===== *)
theory ExecutionIntents
  imports ActionPlan "HOL-Library.AList"
begin

text \<open>
  Durable execution intents (\<open>core/app/services/execution_intents.py\<close>): the reviewed business intent
  of a lottery is frozen at its first real run, hashed and stored; every task is bound to the whole
  intent or, for a repair, to a strict subset of its actions. Tables are lists of rows. A JSON column
  gives back the value that was written to it, decoded or as JSON text. A statement that violates a
  unique key raises; the caller's transaction then rolls back.
\<close>

section \<open>Frozen intents\<close>

datatype ei_error = Ei string | Ei_uncaught | Ei_duplicate_key

definition lift_plan :: "string \<Rightarrow> (plan_error, 'a) result \<Rightarrow> (ei_error, 'a) result" where
  "lift_plan pfx r = (case r of Inr x \<Rightarrow> Inr x | Inl (Code c) \<Rightarrow> Inl (Ei (pfx @ c)) | Inl Uncaught \<Rightarrow> Inl Ei_uncaught)"

definition EXECUTION_INTENT_CONTRACT_VERSION :: int where "EXECUTION_INTENT_CONTRACT_VERSION = 1"
definition EXECUTION_INTENT_KINDS :: "string list" where "EXECUTION_INTENT_KINDS = [''full'', ''repair'']"
definition EXECUTION_EVIDENCE_KINDS :: "string list" where
  "EXECUTION_EVIDENCE_KINDS = [''exact_execution_evidence'', ''oauth_account_calibration'']"
definition MAX_TARGET_URL_LENGTH :: nat where "MAX_TARGET_URL_LENGTH = 512"

record frozen_intent =
  fi_intent_id :: string
  fi_intent_hash :: string
  fi_lottery_id :: int
  fi_source_task_id :: string
  fi_source_account_id :: int
  fi_platform :: string
  fi_raw_url :: string
  fi_canonical_url :: string
  fi_plan :: pydict
  fi_plan_hash :: string
  fi_required_actions :: "string list"
  fi_required_actions_hash :: string
  fi_rule_snapshot_id :: int
  fi_rule_hash :: string
  fi_execution_path_id :: string
  fi_target_hash :: string

definition require_positive_int :: "pyval \<Rightarrow> string \<Rightarrow> (ei_error, int) result" where
  "require_positive_int v code = (case v of PInt n \<Rightarrow> if n \<le> 0 then Inl (Ei code) else Inr n | _ \<Rightarrow> Inl (Ei code))"

definition require_string :: "pyval \<Rightarrow> string \<Rightarrow> nat option \<Rightarrow> (ei_error, string) result" where
  "require_string v code max_length = (case v of
     PStr s \<Rightarrow> if s = [] \<or> s \<noteq> strip s \<or> (case max_length of Some n \<Rightarrow> length s > n | None \<Rightarrow> False) then Inl (Ei code) else Inr s
   | _ \<Rightarrow> Inl (Ei code))"

definition require_hash :: "pyval \<Rightarrow> string \<Rightarrow> (ei_error, string) result" where
  "require_hash v code = rbind (require_string v code None) (\<lambda>s. if lower_hex64 s then Inr s else Inl (Ei code))"

text \<open>
  A string equals the text of the UUID it parses to exactly when it has the canonical form: groups of
  8, 4, 4, 4 and 12 lower-case hexadecimal digits.
\<close>

definition is_uuid :: "string \<Rightarrow> bool" where
  "is_uuid s \<longleftrightarrow> length s = 36 \<and> list_all (\<lambda>(i, c). if i \<in> {8, 13, 18, 23} then c = CHR ''-'' else c \<in> set ''0123456789abcdef'')
     (zip [0..<36] s)"

definition require_uuid :: "pyval \<Rightarrow> string \<Rightarrow> (ei_error, string) result" where
  "require_uuid v code = rbind (require_string v code None) (\<lambda>s. if is_uuid s then Inr s else Inl (Ei code))"

definition required_actions_hash :: "plan_env \<Rightarrow> pyval list \<Rightarrow> string" where
  "required_actions_hash E actions = json_hash E (PList actions)"

definition intent_hash_payload :: "frozen_intent \<Rightarrow> pydict" where
  "intent_hash_payload f =
     [(''contract_version'', PInt EXECUTION_INTENT_CONTRACT_VERSION), (''intent_id'', PStr (fi_intent_id f)),
      (''lottery_id'', PInt (fi_lottery_id f)), (''source_task_id'', PStr (fi_source_task_id f)),
      (''source_account_id'', PInt (fi_source_account_id f)), (''platform'', PStr (fi_platform f)),
      (''raw_url'', PStr (fi_raw_url f)), (''canonical_url'', PStr (fi_canonical_url f)),
      (''full_action_plan'', PDict (fi_plan f)), (''full_action_plan_hash'', PStr (fi_plan_hash f)),
      (''full_required_actions'', str_list (fi_required_actions f)),
      (''full_required_actions_hash'', PStr (fi_required_actions_hash f)),
      (''rule_snapshot_id'', PInt (fi_rule_snapshot_id f)), (''rule_hash'', PStr (fi_rule_hash f)),
      (''execution_path_id'', PStr (fi_execution_path_id f)), (''target_hash'', PStr (fi_target_hash f))]"

definition compute_intent_hash :: "plan_env \<Rightarrow> frozen_intent \<Rightarrow> string" where
  "compute_intent_hash E f = json_hash E (PDict (intent_hash_payload f))"

text \<open>The row of an intent: the attributes of the object, also the columns that are inserted.\<close>

definition intent_row :: "frozen_intent \<Rightarrow> pydict" where
  "intent_row f = (''intent_hash'', PStr (fi_intent_hash f)) # intent_hash_payload f"

text \<open>\<open>parse_stored_json\<close>: what is no JSON text stays as it is (json.loads refuses numbers and booleans).\<close>

definition parse_stored_json :: "plan_env \<Rightarrow> pyval \<Rightarrow> pyval" where
  "parse_stored_json E v = (case v of PStr s \<Rightarrow> (case px_loads E s of Some w \<Rightarrow> w | None \<Rightarrow> v) | _ \<Rightarrow> v)"

definition py_tuple :: "pyval \<Rightarrow> (ei_error, pyval list) result" where
  "py_tuple v = (if \<not> truthy v then Inr [] else case iter_items v of Some xs \<Rightarrow> Inr xs | None \<Rightarrow> Inl Ei_uncaught)"

text \<open>The values of a full intent that come from the lottery row and the plan binding.\<close>

definition full_binding_matches :: "plan_env \<Rightarrow> pydict \<Rightarrow> validated_plan \<Rightarrow> int \<Rightarrow> string \<Rightarrow> string \<Rightarrow> string \<Rightarrow> pyval list \<Rightarrow> string \<Rightarrow> string \<Rightarrow> bool" where
  "full_binding_matches E lottery v snapshot rule_hash plan_hash path actions target url \<longleftrightarrow>
     snapshot = vp_rule_snapshot_id v \<and> rule_hash = vp_rule_hash v \<and> plan_hash = vp_plan_hash v \<and> path = vp_execution_path_id v
     \<and> actions = map PStr (vp_required_actions v) \<and> compute_target_hash E url = Inr target
     \<and> py_eq (dget lottery ''authoritative_rule_snapshot_id'') (PInt snapshot)
     \<and> dget lottery ''rule_hash'' = PStr rule_hash \<and> dget lottery ''action_plan_hash'' = PStr plan_hash"

definition lottery_target :: "pydict \<Rightarrow> (ei_error, int \<times> string \<times> string \<times> string) result" where
  "lottery_target lottery =
     rbind (require_positive_int (dget lottery ''id'') ''execution_intent_lottery_id_invalid'') (\<lambda>lottery_id.
     rbind (rmap casefold (require_string (dget lottery ''platform'') ''execution_intent_platform_invalid'' None)) (\<lambda>platform.
     if get_platform_module platform = None then Inl (Ei ''execution_intent_platform_invalid'') else
     rbind (require_string (dget lottery ''raw_url'') ''execution_intent_raw_url_invalid'' (Some MAX_TARGET_URL_LENGTH)) (\<lambda>raw_url.
     rbind (require_string (dget lottery ''canonical_url'') ''execution_intent_canonical_url_invalid'' (Some MAX_TARGET_URL_LENGTH)) (\<lambda>canonical_url.
       Inr (lottery_id, platform, raw_url, canonical_url)))))"

definition full_binding_target :: "plan_env \<Rightarrow> pydict \<Rightarrow> pydict \<Rightarrow> validated_plan \<Rightarrow> string \<Rightarrow> (ei_error, string) result" where
  "full_binding_target E lottery plan_binding v canonical_url =
     rbind (require_positive_int (dget plan_binding ''rule_snapshot_id'') ''execution_intent_rule_snapshot_id_invalid'') (\<lambda>snapshot.
     rbind (require_hash (dget plan_binding ''rule_hash'') ''execution_intent_rule_hash_invalid'') (\<lambda>rule_hash.
     rbind (require_hash (dget plan_binding ''action_plan_hash'') ''execution_intent_action_plan_hash_invalid'') (\<lambda>plan_hash.
     rbind (require_string (dget plan_binding ''execution_path_id'') ''execution_intent_execution_path_invalid'' (Some 128)) (\<lambda>path.
     rbind (require_hash (dget plan_binding ''target_hash'') ''execution_intent_target_hash_invalid'') (\<lambda>target.
     rbind (py_tuple (dget plan_binding ''required_actions'')) (\<lambda>actions.
     if \<not> full_binding_matches E lottery v snapshot rule_hash plan_hash path actions target canonical_url
     then Inl (Ei ''execution_intent_full_binding_mismatch'') else Inr target))))))"

definition stored_plan_matches :: "plan_env \<Rightarrow> pydict \<Rightarrow> validated_plan \<Rightarrow> (ei_error, unit) result" where
  "stored_plan_matches E lottery v = (case parse_stored_json E (dget lottery ''action_plan'') of
     PDict stored \<Rightarrow>
       if canonical_json_bytes (px_float E) (PDict stored) \<noteq> canonical_json_bytes (px_float E) (PDict (vp_plan v))
       then Inl (Ei ''execution_intent_lottery_action_plan_mismatch'') else Inr ()
   | _ \<Rightarrow> Inl (Ei ''execution_intent_lottery_action_plan_invalid''))"

definition validated_full_intent_inputs ::
  "plan_env \<Rightarrow> pydict \<Rightarrow> pydict \<Rightarrow> (ei_error, (int \<times> string \<times> string \<times> string) \<times> validated_plan \<times> string) result" where
  "validated_full_intent_inputs E lottery plan_binding =
     rbind (lottery_target lottery) (\<lambda>target_of.
     rbind (lift_plan ''execution_intent_'' (validate_action_plan_v2 E (dget plan_binding ''action_plan'') True True)) (\<lambda>v.
     if dget (vp_plan v) ''platform'' \<noteq> PStr (fst (snd target_of)) then Inl (Ei ''execution_intent_platform_binding_mismatch'') else
     rbind (full_binding_target E lottery plan_binding v (snd (snd (snd target_of)))) (\<lambda>target.
     rmap (\<lambda>_. (target_of, v, target)) (stored_plan_matches E lottery v))))"

text \<open>\<open>fresh\<close> is the identifier of \<open>uuid4\<close>, used when the caller passes none.\<close>

definition build_frozen_execution_intent ::
  "plan_env \<Rightarrow> string \<Rightarrow> pydict \<Rightarrow> pyval \<Rightarrow> pyval \<Rightarrow> pydict \<Rightarrow> pyval \<Rightarrow> (ei_error, frozen_intent) result" where
  "build_frozen_execution_intent E fresh lottery source_task_id source_account_id plan_binding intent_id =
     rbind (validated_full_intent_inputs E lottery plan_binding) (\<lambda>((lottery_id, platform, raw_url, canonical_url), v, target).
     rbind (require_uuid (py_or intent_id (PStr fresh)) ''execution_intent_id_invalid'') (\<lambda>i.
     rbind (require_uuid source_task_id ''execution_intent_source_task_id_invalid'') (\<lambda>task.
     rbind (require_positive_int source_account_id ''execution_intent_source_account_id_invalid'') (\<lambda>account.
       let f = \<lparr>fi_intent_id = i, fi_intent_hash = [], fi_lottery_id = lottery_id, fi_source_task_id = task,
         fi_source_account_id = account, fi_platform = platform, fi_raw_url = raw_url, fi_canonical_url = canonical_url,
         fi_plan = vp_plan v, fi_plan_hash = vp_plan_hash v, fi_required_actions = vp_required_actions v,
         fi_required_actions_hash = required_actions_hash E (map PStr (vp_required_actions v)),
         fi_rule_snapshot_id = vp_rule_snapshot_id v, fi_rule_hash = vp_rule_hash v,
         fi_execution_path_id = vp_execution_path_id v, fi_target_hash = target\<rparr>
       in Inr (f\<lparr>fi_intent_hash := compute_intent_hash E f\<rparr>)))))"

section \<open>Loading a frozen intent\<close>

definition payload_binding_matches :: "plan_env \<Rightarrow> validated_plan \<Rightarrow> frozen_intent \<Rightarrow> pyval list \<Rightarrow> bool" where
  "payload_binding_matches E v f actions \<longleftrightarrow>
     dget (vp_plan v) ''platform'' = PStr (fi_platform f) \<and> map PStr (vp_required_actions v) = actions
     \<and> vp_plan_hash v = fi_plan_hash f \<and> required_actions_hash E actions = fi_required_actions_hash f
     \<and> vp_rule_snapshot_id v = fi_rule_snapshot_id f \<and> vp_rule_hash v = fi_rule_hash f
     \<and> vp_execution_path_id v = fi_execution_path_id f \<and> compute_target_hash E (fi_canonical_url f) = Inr (fi_target_hash f)"

definition coerce_identity :: "pydict \<Rightarrow> (ei_error, string \<times> string \<times> int \<times> int) result" where
  "coerce_identity row =
     (if \<not> py_eq (dget row ''contract_version'') (PInt EXECUTION_INTENT_CONTRACT_VERSION)
      then Inl (Ei ''execution_intent_contract_version_invalid'') else
     rbind (require_uuid (dget row ''intent_id'') ''execution_intent_id_invalid'') (\<lambda>i.
     rbind (require_uuid (dget row ''source_task_id'') ''execution_intent_source_task_id_invalid'') (\<lambda>task.
     rbind (require_positive_int (dget row ''lottery_id'') ''execution_intent_lottery_id_invalid'') (\<lambda>lottery.
     rbind (require_positive_int (dget row ''source_account_id'') ''execution_intent_source_account_id_invalid'') (\<lambda>account.
       Inr (i, task, lottery, account))))))"

definition coerce_target :: "pydict \<Rightarrow> (ei_error, string \<times> string \<times> string) result" where
  "coerce_target row =
     rbind (rmap casefold (require_string (dget row ''platform'') ''execution_intent_platform_invalid'' None)) (\<lambda>platform.
     if get_platform_module platform = None then Inl (Ei ''execution_intent_platform_invalid'') else
     rbind (require_string (dget row ''raw_url'') ''execution_intent_raw_url_invalid'' (Some MAX_TARGET_URL_LENGTH)) (\<lambda>raw_url.
     rbind (require_string (dget row ''canonical_url'') ''execution_intent_canonical_url_invalid'' (Some MAX_TARGET_URL_LENGTH)) (\<lambda>canonical_url.
       Inr (platform, raw_url, canonical_url))))"

definition coerce_payload :: "plan_env \<Rightarrow> pydict \<Rightarrow> (ei_error, pydict \<times> pyval list \<times> validated_plan) result" where
  "coerce_payload E row =
     (case (parse_stored_json E (dget row ''full_action_plan''), parse_stored_json E (dget row ''full_required_actions'')) of
        (PDict plan, PList actions) \<Rightarrow>
          rmap (\<lambda>v. (plan, actions, v)) (lift_plan ''execution_intent_'' (validate_action_plan_v2 E (PDict plan) True True))
      | _ \<Rightarrow> Inl (Ei ''execution_intent_payload_invalid''))"

definition coerce_hashes :: "pydict \<Rightarrow> (ei_error, string \<times> string \<times> int \<times> string \<times> string \<times> string) result" where
  "coerce_hashes row =
     rbind (require_hash (dget row ''full_action_plan_hash'') ''execution_intent_action_plan_hash_invalid'') (\<lambda>plan_hash.
     rbind (require_hash (dget row ''full_required_actions_hash'') ''execution_intent_required_actions_hash_invalid'') (\<lambda>actions_hash.
     rbind (require_positive_int (dget row ''rule_snapshot_id'') ''execution_intent_rule_snapshot_id_invalid'') (\<lambda>snapshot.
     rbind (require_hash (dget row ''rule_hash'') ''execution_intent_rule_hash_invalid'') (\<lambda>rule_hash.
     rbind (require_string (dget row ''execution_path_id'') ''execution_intent_execution_path_invalid'' (Some 128)) (\<lambda>path.
     rbind (require_hash (dget row ''target_hash'') ''execution_intent_target_hash_invalid'') (\<lambda>target.
       Inr (plan_hash, actions_hash, snapshot, rule_hash, path, target)))))))"

fun intent_of_parts :: "string \<times> string \<times> int \<times> int \<Rightarrow> string \<times> string \<times> string \<Rightarrow> pydict \<times> pyval list \<times> validated_plan
    \<Rightarrow> string \<times> string \<times> int \<times> string \<times> string \<times> string \<Rightarrow> frozen_intent" where
  "intent_of_parts (i, task, lottery, account) (platform, raw_url, canonical_url) (plan, actions, v)
      (plan_hash, actions_hash, snapshot, rule_hash, path, target) =
     \<lparr>fi_intent_id = i, fi_intent_hash = [], fi_lottery_id = lottery, fi_source_task_id = task,
      fi_source_account_id = account, fi_platform = platform, fi_raw_url = raw_url, fi_canonical_url = canonical_url,
      fi_plan = plan, fi_plan_hash = plan_hash, fi_required_actions = vp_required_actions v,
      fi_required_actions_hash = actions_hash, fi_rule_snapshot_id = snapshot, fi_rule_hash = rule_hash,
      fi_execution_path_id = path, fi_target_hash = target\<rparr>"

definition coerce_frozen_execution_intent :: "plan_env \<Rightarrow> pydict \<Rightarrow> (ei_error, frozen_intent) result" where
  "coerce_frozen_execution_intent E row =
     rbind (coerce_identity row) (\<lambda>identity. rbind (coerce_target row) (\<lambda>target.
     rbind (coerce_payload E row) (\<lambda>payload. rbind (coerce_hashes row) (\<lambda>hashes.
       let f = intent_of_parts identity target payload hashes in
       if \<not> payload_binding_matches E (snd (snd payload)) f (fst (snd payload))
       then Inl (Ei ''execution_intent_payload_binding_mismatch'')
       else rbind (require_hash (dget row ''intent_hash'') ''execution_intent_hash_invalid'') (\<lambda>intent_hash.
         if compute_intent_hash E f \<noteq> intent_hash then Inl (Ei ''execution_intent_hash_mismatch'')
         else Inr (f\<lparr>fi_intent_hash := intent_hash\<rparr>))))))"

text \<open>
  The mutable review state of the lottery still equals the frozen intent. Every exception of the
  comparison counts as a change.
\<close>

definition lottery_unchanged :: "plan_env \<Rightarrow> frozen_intent \<Rightarrow> pydict \<Rightarrow> bool" where
  "lottery_unchanged E f lottery \<longleftrightarrow>
     (case validate_action_plan_v2 E (parse_stored_json E (dget lottery ''action_plan'')) True True of
        Inl _ \<Rightarrow> False
      | Inr v \<Rightarrow> py_eq (dget lottery ''id'') (PInt (fi_lottery_id f))
          \<and> casefold (py_str (px_repr E) (py_or (dget lottery ''platform'') (PStr []))) = fi_platform f
          \<and> dget lottery ''raw_url'' = PStr (fi_raw_url f) \<and> dget lottery ''canonical_url'' = PStr (fi_canonical_url f)
          \<and> py_eq (dget lottery ''authoritative_rule_snapshot_id'') (PInt (fi_rule_snapshot_id f))
          \<and> dget lottery ''rule_hash'' = PStr (fi_rule_hash f) \<and> dget lottery ''action_plan_hash'' = PStr (fi_plan_hash f)
          \<and> vp_plan_hash v = fi_plan_hash f
          \<and> canonical_json_bytes (px_float E) (PDict (vp_plan v)) = canonical_json_bytes (px_float E) (PDict (fi_plan f))
          \<and> compute_target_hash E (fi_canonical_url f) = Inr (fi_target_hash f))"

definition validate_lottery_execution_intent_binding ::
  "plan_env \<Rightarrow> pydict \<Rightarrow> pydict \<Rightarrow> (ei_error, frozen_intent) result" where
  "validate_lottery_execution_intent_binding E row lottery = rbind (coerce_frozen_execution_intent E row) (\<lambda>f.
     if lottery_unchanged E f lottery then Inr f else Inl (Ei ''execution_intent_lottery_binding_changed''))"

section \<open>Requested actions and repair subsets\<close>

definition requested_hash :: "plan_env \<Rightarrow> frozen_intent \<Rightarrow> string list \<Rightarrow> string" where
  "requested_hash E f requested = json_hash E (PDict [(''contract_version'', PInt EXECUTION_INTENT_CONTRACT_VERSION),
     (''execution_intent_id'', PStr (fi_intent_id f)), (''execution_intent_hash'', PStr (fi_intent_hash f)),
     (''requested_actions'', str_list requested)])"

definition compute_requested_actions_hash :: "plan_env \<Rightarrow> pydict \<Rightarrow> string list \<Rightarrow> (ei_error, string) result" where
  "compute_requested_actions_hash E row requested =
     rmap (\<lambda>f. requested_hash E f requested) (coerce_frozen_execution_intent E row)"

definition normalize_requested_actions :: "string list \<Rightarrow> pyval \<Rightarrow> bool \<Rightarrow> (ei_error, string list) result" where
  "normalize_requested_actions full value strict_subset = (case str_items value of
     None \<Rightarrow> Inl (Ei ''execution_intent_requested_actions_invalid'')
   | Some requested \<Rightarrow>
       if requested = [] \<or> \<not> distinct requested \<or> requested \<noteq> filter (\<lambda>a. a \<in> set requested) full \<or> \<not> set requested \<subseteq> set full
       then Inl (Ei ''execution_intent_requested_actions_invalid'')
       else if strict_subset \<and> length requested \<ge> length full
       then Inl (Ei ''execution_intent_repair_actions_not_strict_subset'') else Inr requested)"

definition action_requirements_value :: "string list \<times> string list \<Rightarrow> pyval" where
  "action_requirements_value r = PDict [(''topic_tags'', str_list (fst r)), (''mentions'', str_list (snd r))]"

definition requirements_value :: "content_requirements \<Rightarrow> pyval" where
  "requirements_value r = PDict [(''follow_targets'', str_list (cr_follow_targets r)),
     (''commented'', action_requirements_value (cr_commented r)), (''reposted'', action_requirements_value (cr_reposted r))]"

definition subset_content_requirements :: "content_requirements \<Rightarrow> string list \<Rightarrow> content_requirements" where
  "subset_content_requirements r requested =
     \<lparr>cr_follow_targets = (if ''followed'' \<in> set requested then cr_follow_targets r else []),
      cr_commented = (if ''commented'' \<in> set requested then cr_commented r else ([], [])),
      cr_reposted = (if ''reposted'' \<in> set requested then cr_reposted r else ([], []))\<rparr>"

definition friend_value :: "string \<times> string \<times> int \<Rightarrow> string \<times> pyval" where
  "friend_value ac = (fst ac, PDict [(''mode'', PStr (fst (snd ac))), (''count'', PInt (snd (snd ac)))])"

text \<open>The plan of a strict subset: the fields the code replaces, in its order, then the new hash.\<close>

definition subset_plan :: "plan_env \<Rightarrow> platform_module \<Rightarrow> string \<Rightarrow> validated_plan \<Rightarrow> string list \<Rightarrow> pydict" where
  "subset_plan E m path v requested =
     (let payloads = map (\<lambda>a. (a, PDict (the (map_of (vp_action_payloads v) a)))) requested;
          plan = AList.update ''runtime_capability_requirements''
              (PDict (case pf_capabilities m of Some g \<Rightarrow> g requested path | None \<Rightarrow> []))
            (AList.update ''friend_mention_requirements''
              (PDict (map friend_value (filter (\<lambda>ac. fst ac \<in> set requested) (vp_friend_mention_requirements v))))
            (AList.update ''source_content_requirements''
              (requirements_value (subset_content_requirements (vp_source_content_requirements v) requested))
            (AList.update ''content_requirements''
              (requirements_value (subset_content_requirements (vp_content_requirements v) requested))
            (AList.update ''action_payloads'' (PDict payloads)
            (AList.update ''required_actions'' (str_list requested) (vp_plan v))))))
      in AList.update ''plan_hash'' (PStr (compute_action_plan_hash E plan)) plan)"

record requested_subset =
  rq_intent_id :: string
  rq_intent_hash :: string
  rq_actions :: "string list"
  rq_actions_hash :: string
  rq_plan :: pydict
  rq_plan_hash :: string

definition build_repair_execution_subset :: "plan_env \<Rightarrow> pydict \<Rightarrow> pyval \<Rightarrow> (ei_error, requested_subset) result" where
  "build_repair_execution_subset E row requested_actions = rbind (coerce_frozen_execution_intent E row) (\<lambda>f.
     rbind (normalize_requested_actions (fi_required_actions f) requested_actions True) (\<lambda>requested.
     rbind (lift_plan ''execution_intent_repair_'' (validate_action_plan_v2 E (PDict (fi_plan f)) True True)) (\<lambda>v.
     case get_platform_module (fi_platform f) of
       None \<Rightarrow> Inl (Ei ''execution_intent_platform_invalid'')
     | Some m \<Rightarrow>
         rbind (lift_plan ''execution_intent_repair_''
             (validate_action_plan_v2 E (PDict (subset_plan E m (fi_execution_path_id f) v requested)) True True)) (\<lambda>w.
         if vp_required_actions w \<noteq> requested then Inl (Ei ''execution_intent_repair_action_plan_mismatch'')
         else Inr \<lparr>rq_intent_id = fi_intent_id f, rq_intent_hash = fi_intent_hash f, rq_actions = requested,
           rq_actions_hash = requested_hash E f requested, rq_plan = vp_plan w, rq_plan_hash = vp_plan_hash w\<rparr>))))"

section \<open>Task bindings\<close>

record task_binding =
  tb_task_id :: string
  tb_intent_id :: string
  tb_intent_hash :: string
  tb_lottery_id :: int
  tb_account_id :: int
  tb_kind :: string
  tb_actions :: "string list"
  tb_actions_hash :: string
  tb_plan :: pydict
  tb_plan_hash :: string
  tb_evidence_plan_hash :: string
  tb_rule_snapshot_id :: int
  tb_rule_hash :: string
  tb_evidence_id :: string
  tb_evidence_kind :: string
  tb_exact_evidence_id :: "string option"
  tb_oauth_calibration_id :: "string option"
  tb_execution_path_id :: string
  tb_target_hash :: string
  tb_config_hash :: string
  tb_revision :: int
  tb_lease_id :: string
  tb_lease_generation :: int
  tb_binding_hash :: string

definition opt_value :: "string option \<Rightarrow> pyval" where
  "opt_value x = (case x of Some s \<Rightarrow> PStr s | None \<Rightarrow> PNone)"

definition binding_hash_payload :: "task_binding \<Rightarrow> pydict" where
  "binding_hash_payload b =
     [(''contract_version'', PInt EXECUTION_INTENT_CONTRACT_VERSION), (''task_id'', PStr (tb_task_id b)),
      (''execution_intent_id'', PStr (tb_intent_id b)), (''execution_intent_hash'', PStr (tb_intent_hash b)),
      (''lottery_id'', PInt (tb_lottery_id b)), (''account_id'', PInt (tb_account_id b)), (''binding_kind'', PStr (tb_kind b)),
      (''requested_actions'', str_list (tb_actions b)), (''requested_actions_hash'', PStr (tb_actions_hash b)),
      (''bound_action_plan'', PDict (tb_plan b)), (''bound_action_plan_hash'', PStr (tb_plan_hash b)),
      (''evidence_action_plan_hash'', PStr (tb_evidence_plan_hash b)), (''rule_snapshot_id'', PInt (tb_rule_snapshot_id b)),
      (''rule_hash'', PStr (tb_rule_hash b)), (''execution_evidence_id'', PStr (tb_evidence_id b)),
      (''execution_evidence_kind'', PStr (tb_evidence_kind b)),
      (''exact_execution_evidence_id'', opt_value (tb_exact_evidence_id b)),
      (''oauth_calibration_id'', opt_value (tb_oauth_calibration_id b)),
      (''execution_path_id'', PStr (tb_execution_path_id b)), (''target_hash'', PStr (tb_target_hash b)),
      (''config_hash'', PStr (tb_config_hash b)), (''execution_revision'', PInt (tb_revision b)),
      (''account_lease_id'', PStr (tb_lease_id b)), (''account_lease_generation'', PInt (tb_lease_generation b))]"

text \<open>\<open>message_fields\<close> of a binding.\<close>

definition message_fields :: "task_binding \<Rightarrow> pydict" where
  "message_fields b =
     [(''execution_intent_id'', PStr (tb_intent_id b)), (''execution_intent_hash'', PStr (tb_intent_hash b)),
      (''execution_intent_kind'', PStr (tb_kind b)), (''execution_intent_binding_hash'', PStr (tb_binding_hash b)),
      (''requested_actions'', str_list (tb_actions b)), (''requested_actions_hash'', PStr (tb_actions_hash b)),
      (''requested_action_plan_hash'', PStr (tb_plan_hash b)), (''execution_evidence_kind'', PStr (tb_evidence_kind b)),
      (''exact_execution_evidence_id'', PStr (case tb_exact_evidence_id b of Some s \<Rightarrow> s | None \<Rightarrow> [])),
      (''oauth_calibration_id'', PStr (case tb_oauth_calibration_id b of Some s \<Rightarrow> s | None \<Rightarrow> []))]"

text \<open>The keyword arguments of a binding, as the caller passes them.\<close>

record binding_request =
  br_task_id :: pyval
  br_account_id :: pyval
  br_kind :: string
  br_actions :: pyval
  br_plan :: pyval
  br_evidence_id :: pyval
  br_execution_path_id :: pyval
  br_target_hash :: pyval
  br_config_hash :: pyval
  br_revision :: pyval
  br_lease_id :: pyval
  br_lease_generation :: pyval

text \<open>The plan a task may be bound to: the whole frozen plan, or exactly the derived subset.\<close>

definition bound_plan_checked :: "plan_env \<Rightarrow> frozen_intent \<Rightarrow> string \<Rightarrow> string list \<Rightarrow> pyval \<Rightarrow> (ei_error, validated_plan) result" where
  "bound_plan_checked E f kind requested plan =
     rbind (lift_plan ''execution_intent_binding_'' (validate_action_plan_v2 E plan True True)) (\<lambda>v.
     if vp_required_actions v \<noteq> requested \<or> vp_rule_snapshot_id v \<noteq> fi_rule_snapshot_id f \<or> vp_rule_hash v \<noteq> fi_rule_hash f
       \<or> vp_execution_path_id v \<noteq> fi_execution_path_id f
     then Inl (Ei ''execution_intent_binding_action_plan_mismatch'')
     else if kind = ''full''
     then (if requested \<noteq> fi_required_actions f
             \<or> canonical_json_bytes (px_float E) (PDict (vp_plan v)) \<noteq> canonical_json_bytes (px_float E) (PDict (fi_plan f))
           then Inl (Ei ''execution_intent_full_task_binding_mismatch'') else Inr v)
     else rbind (build_repair_execution_subset E (intent_row f) (str_list requested)) (\<lambda>s.
       if canonical_json_bytes (px_float E) (PDict (vp_plan v)) \<noteq> canonical_json_bytes (px_float E) (PDict (rq_plan s))
       then Inl (Ei ''execution_intent_repair_task_binding_mismatch'') else Inr v))"

definition checked_context ::
  "frozen_intent \<Rightarrow> binding_request \<Rightarrow> (ei_error, string \<times> int \<times> string \<times> string \<times> string \<times> string \<times> int \<times> string \<times> int) result" where
  "checked_context f r =
     rbind (require_uuid (br_task_id r) ''execution_intent_binding_task_id_invalid'') (\<lambda>task.
     rbind (require_positive_int (br_account_id r) ''execution_intent_binding_account_id_invalid'') (\<lambda>account.
     if account \<noteq> fi_source_account_id f
     then Inl (Ei (if br_kind r = ''repair'' then ''execution_intent_repair_account_mismatch'' else ''execution_intent_full_account_mismatch'')) else
     rbind (require_uuid (br_evidence_id r) ''execution_intent_binding_evidence_id_invalid'') (\<lambda>evidence.
     rbind (require_string (br_execution_path_id r) ''execution_intent_binding_execution_path_invalid'' (Some 128)) (\<lambda>path.
     rbind (require_hash (br_target_hash r) ''execution_intent_binding_target_hash_invalid'') (\<lambda>target.
     rbind (require_hash (br_config_hash r) ''execution_intent_binding_config_hash_invalid'') (\<lambda>config.
     rbind (require_positive_int (br_revision r) ''execution_intent_binding_execution_revision_invalid'') (\<lambda>revision.
     rbind (require_uuid (br_lease_id r) ''execution_intent_binding_lease_id_invalid'') (\<lambda>lease.
     rbind (require_positive_int (br_lease_generation r) ''execution_intent_binding_lease_generation_invalid'') (\<lambda>generation.
     if path \<noteq> fi_execution_path_id f \<or> target \<noteq> fi_target_hash f then Inl (Ei ''execution_intent_binding_target_path_mismatch'')
     else Inr (task, account, evidence, path, target, config, revision, lease, generation))))))))))"

definition evidence_kind_of :: "frozen_intent \<Rightarrow> string option" where
  "evidence_kind_of f = (case get_platform_module (fi_platform f) of
     Some m \<Rightarrow> execution_evidence_kind_for m (fi_execution_path_id f) | None \<Rightarrow> None)"

fun binding_of_parts :: "plan_env \<Rightarrow> frozen_intent \<Rightarrow> string \<Rightarrow> string list \<Rightarrow> validated_plan
    \<Rightarrow> string \<times> int \<times> string \<times> string \<times> string \<times> string \<times> int \<times> string \<times> int \<Rightarrow> string \<Rightarrow> task_binding" where
  "binding_of_parts E f kind requested v (task, account, evidence, path, target, config, revision, lease, generation) evidence_kind =
     \<lparr>tb_task_id = task, tb_intent_id = fi_intent_id f, tb_intent_hash = fi_intent_hash f,
      tb_lottery_id = fi_lottery_id f, tb_account_id = account, tb_kind = kind, tb_actions = requested,
      tb_actions_hash = requested_hash E f requested, tb_plan = vp_plan v, tb_plan_hash = vp_plan_hash v,
      tb_evidence_plan_hash = fi_plan_hash f, tb_rule_snapshot_id = fi_rule_snapshot_id f, tb_rule_hash = fi_rule_hash f,
      tb_evidence_id = evidence, tb_evidence_kind = evidence_kind,
      tb_exact_evidence_id = (if evidence_kind = ''exact_execution_evidence'' then Some evidence else None),
      tb_oauth_calibration_id = (if evidence_kind = ''oauth_account_calibration'' then Some evidence else None),
      tb_execution_path_id = path, tb_target_hash = target, tb_config_hash = config, tb_revision = revision,
      tb_lease_id = lease, tb_lease_generation = generation, tb_binding_hash = []\<rparr>"

definition build_task_execution_intent_binding :: "plan_env \<Rightarrow> pydict \<Rightarrow> binding_request \<Rightarrow> (ei_error, task_binding) result" where
  "build_task_execution_intent_binding E row r = rbind (coerce_frozen_execution_intent E row) (\<lambda>f.
     rbind (require_string (PStr (br_kind r)) ''execution_intent_binding_kind_invalid'' (Some 16)) (\<lambda>kind.
     if kind \<notin> set EXECUTION_INTENT_KINDS then Inl (Ei ''execution_intent_binding_kind_invalid'') else
     rbind (normalize_requested_actions (fi_required_actions f) (br_actions r) (kind = ''repair'')) (\<lambda>requested.
     rbind (bound_plan_checked E f kind requested (br_plan r)) (\<lambda>v.
     rbind (checked_context f r) (\<lambda>context.
     case evidence_kind_of f of
       None \<Rightarrow> Inl (Ei ''execution_intent_binding_evidence_kind_invalid'')
     | Some evidence_kind \<Rightarrow>
         if evidence_kind \<notin> set EXECUTION_EVIDENCE_KINDS then Inl (Ei ''execution_intent_binding_evidence_kind_invalid'')
         else let b = binding_of_parts E f kind requested v context evidence_kind
           in Inr (b\<lparr>tb_binding_hash := json_hash E (PDict (binding_hash_payload b))\<rparr>))))))"

section \<open>The tables\<close>

record intent_head =
  ih_lottery_id :: int
  ih_current_intent_id :: string
  ih_generation :: int

record frozen_db =
  idb_roots :: "pydict list"
  idb_heads :: "intent_head list"
  idb_bindings :: "task_binding list"

definition same_frozen_business_intent :: "frozen_intent \<Rightarrow> frozen_intent \<Rightarrow> bool" where
  "same_frozen_business_intent c d \<longleftrightarrow>
     fi_lottery_id c = fi_lottery_id d \<and> fi_source_account_id c = fi_source_account_id d \<and> fi_platform c = fi_platform d
     \<and> fi_raw_url c = fi_raw_url d \<and> fi_canonical_url c = fi_canonical_url d \<and> py_eq (PDict (fi_plan c)) (PDict (fi_plan d))
     \<and> fi_plan_hash c = fi_plan_hash d \<and> fi_required_actions c = fi_required_actions d
     \<and> fi_required_actions_hash c = fi_required_actions_hash d \<and> fi_rule_snapshot_id c = fi_rule_snapshot_id d
     \<and> fi_rule_hash c = fi_rule_hash d \<and> fi_execution_path_id c = fi_execution_path_id d \<and> fi_target_hash c = fi_target_hash d"

text \<open>The join of the heads with the roots they point to.\<close>

definition joined_roots :: "frozen_db \<Rightarrow> intent_head \<Rightarrow> pydict list" where
  "joined_roots db h = filter (\<lambda>row. dget row ''lottery_id'' = PInt (ih_lottery_id h)
     \<and> dget row ''intent_id'' = PStr (ih_current_intent_id h)) (idb_roots db)"

definition head_rows :: "frozen_db \<Rightarrow> (int \<Rightarrow> bool) \<Rightarrow> (pydict \<times> int) list" where
  "head_rows db sel = concat (map (\<lambda>h. map (\<lambda>row. (row, ih_generation h)) (joined_roots db h))
     (filter (\<lambda>h. sel (ih_lottery_id h)) (idb_heads db)))"

definition load_lottery_execution_intent_head ::
  "plan_env \<Rightarrow> frozen_db \<Rightarrow> int \<Rightarrow> (ei_error, (frozen_intent \<times> int) option) result" where
  "load_lottery_execution_intent_head E db lottery_id = (case head_rows db (\<lambda>l. l = lottery_id) of
     [] \<Rightarrow> Inr None
   | (row, generation) # _ \<Rightarrow>
       if generation \<le> 0 then Inl (Ei ''execution_intent_head_generation_invalid'')
       else rmap (\<lambda>f. Some (f, generation)) (coerce_frozen_execution_intent E row))"

definition load_lottery_execution_intent :: "plan_env \<Rightarrow> frozen_db \<Rightarrow> int \<Rightarrow> (ei_error, frozen_intent option) result" where
  "load_lottery_execution_intent E db lottery_id =
     rmap (map_option fst) (load_lottery_execution_intent_head E db lottery_id)"

text \<open>The batch load: a corrupt root fails for its own lottery only.\<close>

datatype intent_load = Loaded frozen_intent | Load_failure string

definition load_failure_code :: "ei_error \<Rightarrow> string" where
  "load_failure_code e = (case e of Ei c \<Rightarrow> c | _ \<Rightarrow> ''execution_intent_invalid'')"

fun load_rows :: "plan_env \<Rightarrow> int list \<Rightarrow> (int \<times> intent_load) list \<Rightarrow> pydict list \<Rightarrow> (ei_error, (int \<times> intent_load) list) result" where
  "load_rows E ids acc [] = Inr acc"
| "load_rows E ids acc (row # rows) = (case py_int (dget row ''lottery_id'') of
     Inl _ \<Rightarrow> Inl (Ei ''execution_intent_lottery_id_invalid'')
   | Inr l \<Rightarrow>
       if l \<notin> set ids \<or> l \<le> 0 then Inl (Ei ''execution_intent_lottery_id_invalid'')
       else load_rows E ids (AList.update l
         (if l \<in> set (map fst acc) then Load_failure ''execution_intent_duplicate_lottery_binding''
          else case coerce_frozen_execution_intent E row of Inr f \<Rightarrow> Loaded f | Inl e \<Rightarrow> Load_failure (load_failure_code e)) acc) rows)"

definition load_lottery_execution_intents :: "plan_env \<Rightarrow> frozen_db \<Rightarrow> int list \<Rightarrow> (ei_error, (int \<times> intent_load) list) result" where
  "load_lottery_execution_intents E db lottery_ids = (let ids = dedupe lottery_ids in
     if ids = [] then Inr [] else load_rows E ids [] (map fst (head_rows db (\<lambda>l. l \<in> set ids))))"

text \<open>The unique keys of the three tables (migrations 0014 and 0019).\<close>

definition insert_frozen_intent :: "frozen_intent \<Rightarrow> frozen_db \<Rightarrow> (ei_error, frozen_db) result" where
  "insert_frozen_intent f db =
     (if list_ex (\<lambda>row. dget row ''intent_id'' = PStr (fi_intent_id f)
         \<or> (dget row ''source_task_id'' = PStr (fi_source_task_id f) \<and> dget row ''lottery_id'' = PInt (fi_lottery_id f)
            \<and> dget row ''source_account_id'' = PInt (fi_source_account_id f))) (idb_roots db)
      then Inl Ei_duplicate_key else Inr (db\<lparr>idb_roots := idb_roots db @ [intent_row f]\<rparr>))"

definition insert_execution_intent_head :: "frozen_intent \<Rightarrow> frozen_db \<Rightarrow> (ei_error, frozen_db) result" where
  "insert_execution_intent_head f db =
     (if list_ex (\<lambda>h. ih_lottery_id h = fi_lottery_id f) (idb_heads db) then Inl Ei_duplicate_key
      else Inr (db\<lparr>idb_heads := idb_heads db @ [\<lparr>ih_lottery_id = fi_lottery_id f, ih_current_intent_id = fi_intent_id f, ih_generation = 1\<rparr>]\<rparr>))"

definition switch_execution_intent_head :: "frozen_intent \<Rightarrow> int \<Rightarrow> frozen_intent \<Rightarrow> frozen_db \<Rightarrow> (ei_error, frozen_db) result" where
  "switch_execution_intent_head current generation successor db =
     (let hit = (\<lambda>h. ih_lottery_id h = fi_lottery_id current \<and> ih_current_intent_id h = fi_intent_id current
            \<and> ih_generation h = generation);
          n = length (filter hit (idb_heads db)) in
      if n \<noteq> 1 then Inl (Ei ''execution_intent_head_switch_conflict'')
      else Inr (db\<lparr>idb_heads := map (\<lambda>h. if hit h
        then h\<lparr>ih_current_intent_id := fi_intent_id successor, ih_generation := ih_generation h + 1\<rparr> else h) (idb_heads db)\<rparr>))"

definition insert_task_binding :: "task_binding \<Rightarrow> frozen_db \<Rightarrow> (ei_error, frozen_db) result" where
  "insert_task_binding b db =
     (if list_ex (\<lambda>c. tb_task_id c = tb_task_id b) (idb_bindings db) then Inl Ei_duplicate_key
      else Inr (db\<lparr>idb_bindings := idb_bindings db @ [b]\<rparr>))"

definition freeze_or_reuse ::
  "plan_env \<Rightarrow> frozen_intent \<Rightarrow> bool \<Rightarrow> frozen_db \<Rightarrow> (ei_error, frozen_intent \<times> frozen_db) result" where
  "freeze_or_reuse E candidate allow_supersede db =
     rbind (load_lottery_execution_intent_head E db (fi_lottery_id candidate)) (\<lambda>head. case head of
       None \<Rightarrow> rbind (insert_frozen_intent candidate db) (\<lambda>db1.
         rmap (Pair candidate) (insert_execution_intent_head candidate db1))
     | Some (current, generation) \<Rightarrow>
         if same_frozen_business_intent current candidate then Inr (current, db)
         else if allow_supersede
         then rbind (insert_frozen_intent candidate db) (\<lambda>db1.
           rmap (Pair candidate) (switch_execution_intent_head current generation candidate db1))
         else Inl (Ei ''execution_intent_conflict''))"

text \<open>\<open>str(value or "")\<close>.\<close>

definition str_or_empty :: "plan_env \<Rightarrow> pyval \<Rightarrow> pyval" where
  "str_or_empty E v = PStr (py_str (px_repr E) (py_or v (PStr [])))"

definition persist_full_execution_intent ::
  "plan_env \<Rightarrow> string \<Rightarrow> pydict \<Rightarrow> pyval \<Rightarrow> pyval \<Rightarrow> pydict \<Rightarrow> pyval \<Rightarrow> pyval \<Rightarrow> pyval \<Rightarrow> bool \<Rightarrow> frozen_db
    \<Rightarrow> (ei_error, task_binding \<times> frozen_db) result" where
  "persist_full_execution_intent E fresh lottery task_id account_id plan_binding evidence_id lease_id lease_generation allow_supersede db =
     rbind (build_frozen_execution_intent E fresh lottery task_id account_id plan_binding PNone) (\<lambda>candidate.
     rbind (freeze_or_reuse E candidate allow_supersede db) (\<lambda>(frozen, db1).
     rbind (build_task_execution_intent_binding E (intent_row frozen)
       \<lparr>br_task_id = task_id, br_account_id = account_id, br_kind = ''full'', br_actions = str_list (fi_required_actions frozen),
        br_plan = PDict (fi_plan frozen), br_evidence_id = evidence_id,
        br_execution_path_id = str_or_empty E (dget plan_binding ''execution_path_id''),
        br_target_hash = str_or_empty E (dget plan_binding ''target_hash''),
        br_config_hash = str_or_empty E (dget plan_binding ''config_hash''),
        br_revision = dget plan_binding ''execution_revision'', br_lease_id = lease_id, br_lease_generation = lease_generation\<rparr>) (\<lambda>b.
     rmap (Pair b) (insert_task_binding b db1))))"

definition persist_repair_execution_binding ::
  "plan_env \<Rightarrow> pydict \<Rightarrow> pyval \<Rightarrow> int \<Rightarrow> pyval \<Rightarrow> pyval \<Rightarrow> pyval \<Rightarrow> pyval \<Rightarrow> pyval \<Rightarrow> pyval \<Rightarrow> frozen_db
    \<Rightarrow> (ei_error, task_binding \<times> frozen_db) result" where
  "persist_repair_execution_binding E row task_id account_id requested_actions evidence_id config_hash revision lease_id lease_generation db =
     rbind (coerce_frozen_execution_intent E row) (\<lambda>f.
     if account_id \<noteq> fi_source_account_id f then Inl (Ei ''execution_intent_repair_account_mismatch'') else
     rbind (build_repair_execution_subset E (intent_row f) requested_actions) (\<lambda>s.
     rbind (build_task_execution_intent_binding E (intent_row f)
       \<lparr>br_task_id = task_id, br_account_id = PInt account_id, br_kind = ''repair'', br_actions = str_list (rq_actions s),
        br_plan = PDict (rq_plan s), br_evidence_id = evidence_id, br_execution_path_id = PStr (fi_execution_path_id f),
        br_target_hash = PStr (fi_target_hash f), br_config_hash = config_hash, br_revision = revision,
        br_lease_id = lease_id, br_lease_generation = lease_generation\<rparr>) (\<lambda>b.
     rmap (Pair b) (insert_task_binding b db))))"

end
