(* ===== verification/PlanContract.thy ===== *)
theory PlanContract
  imports ExecutionIntents
begin

text \<open>
  What the validator of action plans accepts, as predicates on the validated parts, with round trips
  between those parts and the plan fields that carry them; and the restriction of a validated plan to
  a subset of its actions, which is validated again.
\<close>

section \<open>What the checks accept\<close>

definition good_item :: "string \<Rightarrow> string \<Rightarrow> bool" where
  "good_item field s \<longleftrightarrow> s \<noteq> [] \<and> s = strip s \<and> utf8_length s \<le> 512 \<and> (field = ''mentions'' \<longrightarrow> HANDLE_PATTERN s)"

definition good_items :: "string \<Rightarrow> string list \<Rightarrow> bool" where
  "good_items field xs \<longleftrightarrow> length xs \<le> 32 \<and> distinct xs \<and> list_all (good_item field) xs"

lemma metadata_items_iff:
  "metadata_items field acc vs = Inr xs \<longleftrightarrow>
     (\<exists>ys. vs = map PStr ys \<and> xs = acc @ ys \<and> distinct ys \<and> set acc \<inter> set ys = {} \<and> list_all (good_item field) ys)"
proof (induction field acc vs rule: metadata_items.induct)
  case (2 field acc v vs)
  show ?case
  proof (cases v)
    case (PStr s)
    show ?thesis
    proof (cases "good_item field s \<and> s \<notin> set acc")
      case True
      then have "metadata_items field acc (v # vs) = metadata_items field (acc @ [s]) vs" by (auto simp: PStr good_item_def)
      moreover have IH: "metadata_items field (acc @ [s]) vs = Inr xs \<longleftrightarrow>
         (\<exists>ys. vs = map PStr ys \<and> xs = (acc @ [s]) @ ys \<and> distinct ys \<and> set (acc @ [s]) \<inter> set ys = {} \<and> list_all (good_item field) ys)"
        by (rule "2.IH" [OF PStr]) (use True in \<open>auto simp: good_item_def\<close>)
      ultimately show ?thesis using True by (auto simp: PStr Cons_eq_map_conv)
    next
      case False
      then have "metadata_items field acc (v # vs) = Inl (Code (''action_payload_'' @ field @ ''_invalid''))"
        by (auto simp: PStr good_item_def)
      then show ?thesis using False by (auto simp: PStr Cons_eq_map_conv)
    qed
  qed (auto simp: Cons_eq_map_conv)
qed auto

lemma validated_metadata_listD:
  assumes "validated_metadata_list d field = Inr xs"
  shows "good_items field xs" "dget_default d field (PList []) = PNone \<and> xs = [] \<or> dget_default d field (PList []) = str_list xs"
  using assms unfolding validated_metadata_list_def
  by (cases "dget_default d field (PList [])"; auto simp: good_items_def metadata_items_iff str_list_def split: if_splits)+

lemma validated_metadata_listI:
  "good_items field xs \<Longrightarrow> dget_default d field (PList []) = str_list xs \<Longrightarrow> validated_metadata_list d field = Inr xs"
  by (auto simp: validated_metadata_list_def good_items_def metadata_items_iff str_list_def)

definition good_requirements :: "content_requirements \<Rightarrow> bool" where
  "good_requirements r \<longleftrightarrow> good_items ''follow_targets'' (cr_follow_targets r) \<and> list_all HANDLE_PATTERN (cr_follow_targets r)
     \<and> list_all (\<lambda>p. good_items ''topic_tags'' (fst p) \<and> good_items ''mentions'' (snd p)) [cr_commented r, cr_reposted r]"

lemma action_requirementsD: "action_requirements v = Inr p \<Longrightarrow> good_items ''topic_tags'' (fst p) \<and> good_items ''mentions'' (snd p)"
  by (cases v) (auto simp: action_requirements_def result_eqs validated_metadata_listD(1) split: if_splits)

lemma validated_content_requirementsD:
  assumes "validated_content_requirements v = Inr r"
  shows "good_requirements r"
  using assms unfolding validated_content_requirements_def
  by (cases v) (auto simp: good_requirements_def result_eqs validated_metadata_listD(1) split: if_splits dest!: action_requirementsD)

lemma action_requirements_value:
  "good_items ''topic_tags'' (fst p) \<Longrightarrow> good_items ''mentions'' (snd p) \<Longrightarrow> action_requirements (action_requirements_value p) = Inr p"
  by (simp add: action_requirements_def action_requirements_value_def validated_metadata_listI keys_are_def)

lemma requirements_value_round_trip:
  "good_requirements r \<Longrightarrow> validated_content_requirements (requirements_value r) = Inr r"
  by (auto simp: good_requirements_def validated_content_requirements_def requirements_value_def validated_metadata_listI
      action_requirements_value keys_are_def)

lemma good_subset: "good_requirements r \<Longrightarrow> good_requirements (subset_content_requirements r requested)"
  by (auto simp: good_requirements_def subset_content_requirements_def good_items_def)

lemma validate_action_payloadD: "validate_action_payload a v tp = Inr p \<Longrightarrow> v = PDict p"
  by (auto simp: validate_action_payload_def validate_follow_payload_def validate_text_payload_def result_eqs
      split: pyval.splits if_splits)


lemma validate_action_payload_fix: "validate_action_payload a v tp = Inr p \<Longrightarrow> validate_action_payload a (PDict p) tp = Inr p"
  using validate_action_payloadD by fastforce

lemma rmapM_eq_Inr: "rmapM f xs = Inr ys \<longleftrightarrow> list_all2 (\<lambda>x y. f x = Inr y) xs ys"
  by (induction xs arbitrary: ys) (auto simp: result_eqs list_all2_Cons1)

definition good_payloads :: "string list \<Rightarrow> text_policy \<Rightarrow> payloads \<Rightarrow> bool" where
  "good_payloads actions tp ps \<longleftrightarrow> map fst ps = actions \<and> (\<forall>ap \<in> set ps. validate_action_payload (fst ap) (PDict (snd ap)) tp = Inr (snd ap))"

lemma normalize_action_payloadsD:
  assumes "normalize_action_payloads actions v allowed tp = Inr ps"
  shows "good_payloads actions tp ps"
proof -
  obtain raw where "rmapM (\<lambda>a. rmap (Pair a) (validate_action_payload a
         (case od_get raw (PStr a) of Some v \<Rightarrow> v | None \<Rightarrow> PDict []) tp)) actions = Inr ps"
    using assms by (auto simp: normalize_action_payloads_def rbind_eq_Inr split: if_splits)
  then have "list_all2 (\<lambda>a ap. fst ap = a \<and> validate_action_payload a (PDict (snd ap)) tp = Inr (snd ap)) actions ps"
    unfolding rmapM_eq_Inr rmap_eq_Inr by (rule list_all2_mono) (auto intro: validate_action_payload_fix)
  then show ?thesis by (induction rule: list_all2_induct) (auto simp: good_payloads_def)
qed

lemma list_all2_refl_set: "(\<And>x. x \<in> set xs \<Longrightarrow> P x x) \<Longrightarrow> list_all2 P xs xs"
  by (simp add: list_all2_same)

lemma od_get_map_PStr: "od_get (map (\<lambda>kv. (PStr (fst kv), snd kv)) d) (PStr k) = map_of d k"
  by (induction d) auto

lemma dict_of_PDict: "dict_of (PDict d) = Inr (map (\<lambda>kv. (PStr (fst kv), snd kv)) d)"
  by (cases d) (auto simp: dict_of_def split_def)

lemma normalize_action_payloadsI:
  assumes "good_payloads actions tp ps" "distinct actions" "set actions \<subseteq> set allowed"
  shows "normalize_action_payloads actions (PDict (map (\<lambda>ap. (fst ap, PDict (snd ap))) ps)) allowed tp = Inr ps"
proof -
  let ?d = "map (\<lambda>ap. (fst ap, PDict (snd ap))) ps"
  have k: "map fst ps = actions" using assms(1) by (simp add: good_payloads_def)
  have dist: "distinct (map fst ps)" using assms(2) k by simp
  have "list_all2 (\<lambda>a ap. rmap (Pair a) (validate_action_payload a
      (case od_get (map (\<lambda>kv. (PStr (fst kv), snd kv)) ?d) (PStr a) of Some v \<Rightarrow> v | None \<Rightarrow> PDict []) tp) = Inr ap) actions ps"
    unfolding k [symmetric] list_all2_map1 od_get_map_PStr
  proof (rule list_all2_refl_set)
    fix ap assume ap: "ap \<in> set ps"
    have "map_of ?d (fst ap) = Some (PDict (snd ap))"
      by (rule map_of_is_SomeI) (use dist ap in \<open>auto simp: o_def\<close>)
    then show "rmap (Pair (fst ap)) (validate_action_payload (fst ap) (case map_of ?d (fst ap) of Some v \<Rightarrow> v | None \<Rightarrow> PDict []) tp) = Inr ap"
      using assms(1) ap by (simp add: good_payloads_def)
  qed
  then have "rmapM (\<lambda>a. rmap (Pair a) (validate_action_payload a
      (case od_get (map (\<lambda>kv. (PStr (fst kv), snd kv)) ?d) (PStr a) of Some v \<Rightarrow> v | None \<Rightarrow> PDict []) tp)) actions = Inr ps"
    by (simp only: rmapM_eq_Inr)
  moreover have "set (map fst (map (\<lambda>kv. (PStr (fst kv), snd kv)) ?d)) = PStr ` set actions"
    unfolding k [symmetric] by auto
  moreover have "PStr ` set actions \<subseteq> PStr ` set allowed" using assms(3) by blast
  ultimately show ?thesis by (simp only: normalize_action_payloads_def dict_of_PDict rbind.simps if_False if_True not_True_eq_False simp_thms)
qed


lemma plan_actions_iff:
  "plan_actions order acc vs = Inr xs \<longleftrightarrow>
     (\<exists>ys. vs = map PStr ys \<and> xs = acc @ ys \<and> distinct ys \<and> set acc \<inter> set ys = {} \<and> set ys \<subseteq> set order)"
proof (induction order acc vs rule: plan_actions.induct)
  case (2 order acc v vs)
  show ?case
  proof (cases v)
    case (PStr a)
    show ?thesis
    proof (cases "a \<in> set order \<and> a \<notin> set acc")
      case True
      then have "plan_actions order acc (v # vs) = plan_actions order (acc @ [a]) vs" by (simp add: PStr)
      moreover have IH: "plan_actions order (acc @ [a]) vs = Inr xs \<longleftrightarrow>
         (\<exists>ys. vs = map PStr ys \<and> xs = (acc @ [a]) @ ys \<and> distinct ys \<and> set (acc @ [a]) \<inter> set ys = {} \<and> set ys \<subseteq> set order)"
        by (rule "2.IH" [OF PStr]) (use True in auto)
      ultimately show ?thesis using True by (auto simp: PStr Cons_eq_map_conv)
    next
      case False
      then show ?thesis by (auto simp: PStr Cons_eq_map_conv)
    qed
  qed (auto simp: Cons_eq_map_conv)
qed auto

definition ordered_actions :: "string list \<Rightarrow> string list \<Rightarrow> bool" where
  "ordered_actions order acts \<longleftrightarrow> acts \<noteq> [] \<and> acts = filter (\<lambda>a. a \<in> set acts) order \<and> distinct acts"

lemma ordered_actions_subset: "ordered_actions order acts \<Longrightarrow> set acts \<subseteq> set order"
  unfolding ordered_actions_def by (metis filter_is_subset)

lemma required_actions_ofD:
  assumes "required_actions_of plan = Inr acts"
  obtains p where "dget plan ''platform'' = PStr p" "p \<noteq> []" "strip p = p" "dget plan ''required_actions'' = str_list acts"
    "ordered_actions (action_order_for_platform p) acts"
  using assms by (cases "dget plan ''platform''"; cases "dget plan ''required_actions''")
    (auto simp: required_actions_of_def required_string_def Let_def result_eqs plan_actions_iff ordered_actions_def str_list_def
      split: if_splits)

lemma required_actions_ofI:
  assumes "dget plan ''platform'' = PStr p" "p \<noteq> []" "strip p = p" "dget plan ''required_actions'' = str_list acts"
    "ordered_actions (action_order_for_platform p) acts"
  shows "required_actions_of plan = Inr acts"
proof -
  have "plan_actions (action_order_for_platform p) [] (map PStr acts) = Inr acts"
    using assms(5) ordered_actions_subset [OF assms(5)] by (auto simp: plan_actions_iff ordered_actions_def)
  moreover have "acts \<noteq> []" "acts = filter (\<lambda>a. a \<in> set acts) (action_order_for_platform p)"
    using assms(5) by (simp_all add: ordered_actions_def)
  ultimately show ?thesis using assms(1-4) by (simp add: required_actions_of_def required_string_def Let_def str_list_def)
qed

definition good_friends :: "friend_requirements \<Rightarrow> bool" where
  "good_friends fr \<longleftrightarrow> map fst fr = filter (\<lambda>a. a \<in> set (map fst fr)) CONTENT_REQUIREMENT_ACTIONS
     \<and> (\<forall>ac \<in> set fr. fst (snd ac) \<in> set FRIEND_MENTION_MODES \<and> 1 \<le> snd (snd ac) \<and> snd (snd ac) \<le> 32)"

lemma friend_constraintD: "friend_constraint v = Inr c \<Longrightarrow> fst c \<in> set FRIEND_MENTION_MODES \<and> 1 \<le> snd c \<and> snd c \<le> 32"
  by (auto simp: friend_constraint_def split: pyval.splits if_splits)

lemma friend_constraint_value:
  "mode \<in> set FRIEND_MENTION_MODES \<Longrightarrow> 1 \<le> n \<Longrightarrow> n \<le> 32 \<Longrightarrow> friend_constraint (PDict [(''mode'', PStr mode), (''count'', PInt n)]) = Inr (mode, n)"
  by (simp add: friend_constraint_def keys_are_def)

lemma validate_friendD:
  assumes "validate_friend_mention_requirements v = Inr fr"
  shows "good_friends fr"
proof -
  have "\<exists>ks d. rmapM (\<lambda>a. rmap (Pair a) (friend_constraint (dget d a))) (filter (\<lambda>a. a \<in> ks) CONTENT_REQUIREMENT_ACTIONS) = Inr fr"
  proof (cases v)
    case PNone
    then show ?thesis using assms by (intro exI [of _ "{}"]) (simp add: validate_friend_mention_requirements_def)
  qed (use assms in \<open>auto simp: validate_friend_mention_requirements_def split: if_splits\<close>)
  then obtain ks d where "rmapM (\<lambda>a. rmap (Pair a) (friend_constraint (dget d a))) (filter (\<lambda>a. a \<in> ks) CONTENT_REQUIREMENT_ACTIONS) = Inr fr"
    by blast
  then have "list_all2 (\<lambda>a ac. fst ac = a \<and> friend_constraint (dget d a) = Inr (snd ac)) (filter (\<lambda>a. a \<in> ks) CONTENT_REQUIREMENT_ACTIONS) fr"
    unfolding rmapM_eq_Inr rmap_eq_Inr by (rule list_all2_mono) auto
  then have "map fst fr = filter (\<lambda>a. a \<in> ks) CONTENT_REQUIREMENT_ACTIONS \<and>
      (\<forall>ac \<in> set fr. fst (snd ac) \<in> set FRIEND_MENTION_MODES \<and> 1 \<le> snd (snd ac) \<and> snd (snd ac) \<le> 32)"
    by (induction rule: list_all2_induct) (auto dest: friend_constraintD)
  moreover have "filter (\<lambda>a. a \<in> ks) CONTENT_REQUIREMENT_ACTIONS
      = filter (\<lambda>a. a \<in> set (filter (\<lambda>a. a \<in> ks) CONTENT_REQUIREMENT_ACTIONS)) CONTENT_REQUIREMENT_ACTIONS"
    by (rule filter_cong) auto
  ultimately show ?thesis unfolding good_friends_def by simp
qed

lemma CONTENT_REQUIREMENT_ACTIONS_distinct: "distinct CONTENT_REQUIREMENT_ACTIONS"
  by (simp add: CONTENT_REQUIREMENT_ACTIONS_def)

lemma friends_value_round_trip:
  assumes "good_friends fr"
  shows "validate_friend_mention_requirements (PDict (map friend_value fr)) = Inr fr"
proof -
  have k: "map fst (map friend_value fr) = map fst fr" by (simp add: friend_value_def)
  have sub: "keys_within (map friend_value fr) CONTENT_REQUIREMENT_ACTIONS"
    using assms unfolding keys_within_def k good_friends_def by (metis filter_is_subset)
  have dist: "distinct (map fst fr)"
    using assms unfolding good_friends_def by (metis distinct_filter CONTENT_REQUIREMENT_ACTIONS_distinct)
  have "list_all2 (\<lambda>a ac. rmap (Pair a) (friend_constraint (dget (map friend_value fr) a)) = Inr ac) (map fst fr) fr"
    unfolding list_all2_map1
  proof (rule list_all2_refl_set)
    fix ac assume ac: "ac \<in> set fr"
    have "map_of (map friend_value fr) (fst ac) = Some (PDict [(''mode'', PStr (fst (snd ac))), (''count'', PInt (snd (snd ac)))])"
      by (rule map_of_is_SomeI) (use dist ac in \<open>auto simp: k friend_value_def simp del: map_map intro!: image_eqI\<close>)
    then show "rmap (Pair (fst ac)) (friend_constraint (dget (map friend_value fr) (fst ac))) = Inr ac"
      using assms ac by (simp add: dget_def good_friends_def friend_constraint_value)
  qed
  then show ?thesis using assms sub
    by (simp add: validate_friend_mention_requirements_def rmapM_eq_Inr good_friends_def k flip: set_map del: map_map set_map)
qed

lemma good_friends_filter:
  assumes "good_friends fr"
  shows "good_friends (filter (\<lambda>ac. fst ac \<in> S) fr)"
proof -
  have k: "map fst (filter (\<lambda>ac. fst ac \<in> S) fr) = filter (\<lambda>a. a \<in> S) (map fst fr)" by (simp add: filter_map o_def)
  have "filter (\<lambda>a. a \<in> S) (map fst fr) = filter (\<lambda>a. a \<in> S) (filter (\<lambda>a. a \<in> set (map fst fr)) CONTENT_REQUIREMENT_ACTIONS)"
    using assms unfolding good_friends_def by metis
  also have "\<dots> = filter (\<lambda>a. a \<in> set (filter (\<lambda>a. a \<in> S) (map fst fr))) CONTENT_REQUIREMENT_ACTIONS"
    unfolding filter_filter by (rule filter_cong) auto
  finally have e: "filter (\<lambda>a. a \<in> S) (map fst fr) = filter (\<lambda>a. a \<in> set (filter (\<lambda>a. a \<in> S) (map fst fr))) CONTENT_REQUIREMENT_ACTIONS" .
  show ?thesis unfolding good_friends_def k
  proof (intro conjI)
    show "filter (\<lambda>a. a \<in> S) (map fst fr) = filter (\<lambda>a. a \<in> set (filter (\<lambda>a. a \<in> S) (map fst fr))) CONTENT_REQUIREMENT_ACTIONS" by (rule e)
  qed (use assms in \<open>auto simp: good_friends_def\<close>)
qed


definition plan_content_ok :: "plan_env \<Rightarrow> platform_module \<Rightarrow> bool \<Rightarrow> validated_plan \<Rightarrow> bool" where
  "plan_content_ok E m reject_media v \<longleftrightarrow>
     good_payloads (vp_required_actions v) (text_policy_of m) (vp_action_payloads v)
     \<and> good_requirements (vp_content_requirements v) \<and> good_requirements (vp_source_content_requirements v)
     \<and> good_friends (vp_friend_mention_requirements v)
     \<and> set (map fst (vp_friend_mention_requirements v)) \<subseteq> set (vp_required_actions v)
     \<and> (pf_handle_limit m \<longrightarrow> validate_weibo_preflight_unique_handle_limit E (vp_action_payloads v) (vp_content_requirements v) (vp_source_content_requirements v) = Inr ())
     \<and> source_bound E (vp_source_content_requirements v) (vp_content_requirements v) (vp_friend_mention_requirements v)
     \<and> first_error (content_checks m (vp_action_payloads v) (vp_content_requirements v)
         @ follow_checks (vp_required_actions v) (vp_action_payloads v) (vp_content_requirements v)) = Inr ()
     \<and> (vp_friend_mention_requirements v \<noteq> [] \<longrightarrow> friend_mention_requirements_satisfied E (vp_action_payloads v) (vp_content_requirements v)
         (vp_friend_mention_requirements v) (vp_source_content_requirements v))
     \<and> \<not> (reject_media \<and> has_media (vp_action_payloads v))"

lemma source_requirements_ofD:
  "source_requirements_of plan bound friends = Inr source \<Longrightarrow> good_requirements bound \<Longrightarrow> good_requirements source"
  by (cases "dget plan ''source_content_requirements''")
    (auto simp: source_requirements_of_def split: if_splits dest: validated_content_requirementsD)

lemma if_Inl_eq_Inr: "(if c then Inl e else r) = Inr y \<longleftrightarrow> \<not> c \<and> r = Inr y"
  by simp

lemma validate_plan_body_iff:
  "validate_plan_body E plan reject_media h actions = Inr v \<longleftrightarrow>
     (\<exists>ps bound friends source caps.
        normalize_action_payloads actions (dget plan ''action_payloads'') (pf_action_order (ph_module h)) (text_policy_of (ph_module h)) = Inr ps
        \<and> validated_content_requirements (dget plan ''content_requirements'') = Inr bound
        \<and> validate_friend_mention_requirements (dget_default plan ''friend_mention_requirements'' (PDict [])) = Inr friends
        \<and> set (map fst friends) \<subseteq> set actions \<and> source_requirements_of plan bound friends = Inr source
        \<and> (pf_handle_limit (ph_module h) \<longrightarrow> validate_weibo_preflight_unique_handle_limit E ps bound source = Inr ())
        \<and> source_bound E source bound friends
        \<and> first_error (content_checks (ph_module h) ps bound @ follow_checks actions ps bound) = Inr ()
        \<and> (friends \<noteq> [] \<longrightarrow> friend_mention_requirements_satisfied E ps bound friends source)
        \<and> \<not> (reject_media \<and> has_media ps) \<and> runtime_capabilities_of plan (ph_module h) actions (ph_path h) = Inr caps
        \<and> v = \<lparr>vp_plan = plan, vp_plan_hash = ph_plan_hash h, vp_rule_snapshot_id = ph_snapshot h, vp_rule_hash = ph_rule_hash h,
         vp_execution_path_id = ph_path h, vp_required_actions = actions, vp_action_payloads = ps, vp_content_requirements = bound,
         vp_source_content_requirements = source, vp_friend_mention_requirements = friends,
         vp_runtime_capability_requirements = caps\<rparr>)"
proof -
  have lim: "(if l then r else Inr ()) = Inr u \<longleftrightarrow> (l \<longrightarrow> r = Inr ())" for l and r :: "(plan_error, unit) result" and u
    by (cases u) auto
  have unit: "(\<exists>x :: unit. P x) \<longleftrightarrow> P ()" for P by (metis old.unit.exhaust)
  show ?thesis
    unfolding validate_plan_body_def Let_def rbind_eq_Inr if_Inl_eq_Inr lim unit sum.inject
    by (rule iffI; (elim exE conjE)?; (intro exI conjI)?; (assumption | rule refl | simp)?; (erule sym)?) auto
qed

lemma validate_plan_bodyD:
  assumes "validate_plan_body E plan reject_media h actions = Inr v"
  shows "plan_content_ok E (ph_module h) reject_media v" "vp_required_actions v = actions" "vp_plan v = plan"
    "vp_plan_hash v = ph_plan_hash h" "vp_rule_snapshot_id v = ph_snapshot h" "vp_rule_hash v = ph_rule_hash h"
    "vp_execution_path_id v = ph_path h"
proof -
  obtain ps bound friends source caps where *:
    "normalize_action_payloads actions (dget plan ''action_payloads'') (pf_action_order (ph_module h)) (text_policy_of (ph_module h)) = Inr ps"
    "validated_content_requirements (dget plan ''content_requirements'') = Inr bound"
    "validate_friend_mention_requirements (dget_default plan ''friend_mention_requirements'' (PDict [])) = Inr friends"
    "source_requirements_of plan bound friends = Inr source"
    and rest: "set (map fst friends) \<subseteq> set actions"
      "pf_handle_limit (ph_module h) \<longrightarrow> validate_weibo_preflight_unique_handle_limit E ps bound source = Inr ()"
      "source_bound E source bound friends" "first_error (content_checks (ph_module h) ps bound @ follow_checks actions ps bound) = Inr ()"
      "friends \<noteq> [] \<longrightarrow> friend_mention_requirements_satisfied E ps bound friends source" "\<not> (reject_media \<and> has_media ps)"
    and v: "v = \<lparr>vp_plan = plan, vp_plan_hash = ph_plan_hash h, vp_rule_snapshot_id = ph_snapshot h, vp_rule_hash = ph_rule_hash h,
         vp_execution_path_id = ph_path h, vp_required_actions = actions, vp_action_payloads = ps, vp_content_requirements = bound,
         vp_source_content_requirements = source, vp_friend_mention_requirements = friends,
         vp_runtime_capability_requirements = caps\<rparr>"
    using assms unfolding validate_plan_body_iff by blast
  have "good_payloads actions (text_policy_of (ph_module h)) ps" using *(1) by (rule normalize_action_payloadsD)
  moreover have b: "good_requirements bound" using *(2) by (rule validated_content_requirementsD)
  moreover have "good_requirements source" using *(4) b by (rule source_requirements_ofD)
  moreover have "good_friends friends" using *(3) by (rule validate_friendD)
  ultimately show "plan_content_ok E (ph_module h) reject_media v" using rest unfolding plan_content_ok_def v by simp
qed (use assms in \<open>auto simp only: validate_plan_body_iff validated_plan.simps\<close>)

lemma validate_plan_bodyI:
  assumes ok: "plan_content_ok E m reject_media v" and h: "ph_module h = m" "vp_plan_hash v = ph_plan_hash h"
      "vp_rule_snapshot_id v = ph_snapshot h" "vp_rule_hash v = ph_rule_hash h" "vp_execution_path_id v = ph_path h" "vp_plan v = plan"
    and acts: "distinct (vp_required_actions v)" "set (vp_required_actions v) \<subseteq> set (pf_action_order m)"
    and fields: "dget plan ''action_payloads'' = PDict (map (\<lambda>ap. (fst ap, PDict (snd ap))) (vp_action_payloads v))"
      "dget plan ''content_requirements'' = requirements_value (vp_content_requirements v)"
      "dget_default plan ''friend_mention_requirements'' (PDict []) = PDict (map friend_value (vp_friend_mention_requirements v))"
      "dget plan ''source_content_requirements'' = requirements_value (vp_source_content_requirements v)"
    and caps: "runtime_capabilities_of plan m (vp_required_actions v) (ph_path h) = Inr (vp_runtime_capability_requirements v)"
  shows "validate_plan_body E plan reject_media h (vp_required_actions v) = Inr v"
proof -
  note ok' = ok [unfolded plan_content_ok_def]
  have "source_requirements_of plan b f = Inr (vp_source_content_requirements v)" for b f
    using requirements_value_round_trip ok' by (simp add: source_requirements_of_def fields requirements_value_def)
  moreover have "normalize_action_payloads (vp_required_actions v) (dget plan ''action_payloads'') (pf_action_order m) (text_policy_of m)
      = Inr (vp_action_payloads v)"
    unfolding fields by (rule normalize_action_payloadsI) (use ok' acts in auto)
  moreover have "validated_content_requirements (dget plan ''content_requirements'') = Inr (vp_content_requirements v)"
    unfolding fields by (rule requirements_value_round_trip) (use ok' in auto)
  moreover have "validate_friend_mention_requirements (dget_default plan ''friend_mention_requirements'' (PDict []))
      = Inr (vp_friend_mention_requirements v)"
    unfolding fields by (rule friends_value_round_trip) (use ok' in auto)
  moreover have "v = \<lparr>vp_plan = plan, vp_plan_hash = ph_plan_hash h, vp_rule_snapshot_id = ph_snapshot h, vp_rule_hash = ph_rule_hash h,
         vp_execution_path_id = ph_path h, vp_required_actions = vp_required_actions v, vp_action_payloads = vp_action_payloads v,
         vp_content_requirements = vp_content_requirements v, vp_source_content_requirements = vp_source_content_requirements v,
         vp_friend_mention_requirements = vp_friend_mention_requirements v,
         vp_runtime_capability_requirements = vp_runtime_capability_requirements v\<rparr>"
    using h by (cases v) simp
  ultimately show ?thesis unfolding validate_plan_body_iff h(1) using ok' caps by blast
qed

lemma validate_action_plan_v2_iff:
  "validate_action_plan_v2 E (PDict plan) re rm = Inr v \<longleftrightarrow> (\<exists>h actions. validate_plan_head plan re = Inr h \<and> required_actions_of plan = Inr actions
     \<and> compute_action_plan_hash E plan = ph_plan_hash h \<and> validate_plan_body E plan rm h actions = Inr v)"
  by (auto simp: validate_action_plan_v2_def rbind_eq_Inr split: if_splits)


lemma validate_plan_head_iff:
  "validate_plan_head plan re = Inr h \<longleftrightarrow>
     dget plan ''version'' = PInt 2 \<and> plan_module plan = Some (ph_module h)
     \<and> (non_executable_error (ph_module h) (dget plan ''execution_path_id'') \<noteq> None \<longrightarrow> dget plan ''executable'' = PBool False)
     \<and> (re \<longrightarrow> dget plan ''executable'' = PBool True) \<and> dget plan ''review_required'' = PBool False \<and> review_attested plan
     \<and> dget plan ''rule_snapshot_id'' = PInt (ph_snapshot h) \<and> 0 < ph_snapshot h
     \<and> required_string plan ''rule_hash'' = Inr (ph_rule_hash h) \<and> required_string plan ''execution_path_id'' = Inr (ph_path h)
     \<and> validate_action_plan_path (ph_module h) (ph_path h) = Inr () \<and> required_string plan ''plan_hash'' = Inr (ph_plan_hash h)
     \<and> lower_hex64 (ph_rule_hash h) \<and> lower_hex64 (ph_plan_hash h)"
proof (cases "plan_module plan")
  case (Some m)
  show ?thesis
  proof (cases "dget plan ''rule_snapshot_id''")
    case (PInt n)
    have path: "(case validate_action_plan_path m p of Inl e \<Rightarrow> Inl (Code e) | Inr _ \<Rightarrow> r) = Inr y
        \<longleftrightarrow> validate_action_plan_path m p = Inr () \<and> r = Inr y" for p r and y :: plan_head
      by (simp split: sum.split)
    have rec: "h = \<lparr>ph_module = m, ph_snapshot = n, ph_rule_hash = a, ph_path = p, ph_plan_hash = b\<rparr> \<longleftrightarrow>
        ph_module h = m \<and> ph_snapshot h = n \<and> ph_rule_hash h = a \<and> ph_path h = p \<and> ph_plan_hash h = b" for a p b
      by (cases h) simp
    show ?thesis
      unfolding validate_plan_head_def Some PInt option.case pyval.case if_Inl_eq_Inr rbind_eq_Inr path sum.inject
        eq_commute [of "\<lparr>ph_module = m, ph_snapshot = _, ph_rule_hash = _, ph_path = _, ph_plan_hash = _\<rparr>"] rec
      by (simp only: option.inject pyval.inject) (auto simp only: not_le)
  qed (simp_all add: validate_plan_head_def Some)
qed (simp add: validate_plan_head_def)

lemma lower_hex64_strip: "lower_hex64 s \<Longrightarrow> strip s = s \<and> s \<noteq> []"
proof -
  assume h: "lower_hex64 s"
  have ns: "\<not> is_space c" if "c \<in> set ''0123456789abcdef''" for c
    using that by (auto simp: is_space_def)
  have all: "\<forall>c \<in> set s. \<not> is_space c" using h ns by (auto simp: lower_hex64_def list_all_iff)
  moreover have "s \<noteq> []" using h by (auto simp: lower_hex64_def)
  ultimately show ?thesis
    by (metis dropWhile_eq_self_iff hd_in_set lstrip_def rev_rev_ident set_rev strip_def)
qed

lemma required_string_hex: "dget plan field = PStr s \<Longrightarrow> lower_hex64 s \<Longrightarrow> required_string plan field = Inr s"
  using lower_hex64_strip by (simp add: required_string_def)

lemma required_string_cong: "dget plan' field = dget plan field \<Longrightarrow> required_string plan' field = required_string plan field"
  by (simp add: required_string_def)

lemma validate_plan_head_update:
  assumes h: "validate_plan_head plan re = Inr h"
    and same: "\<And>k. k \<in> set [''version'', ''platform'', ''execution_path_id'', ''executable'', ''review_required'', ''reviewed_by'',
      ''rule_complete_confirmed'', ''rule_snapshot_id'', ''rule_hash''] \<Longrightarrow> dget plan' k = dget plan k"
    and hash: "dget plan' ''plan_hash'' = PStr x" "lower_hex64 x"
  shows "validate_plan_head plan' re = Inr (h\<lparr>ph_plan_hash := x\<rparr>)"
proof -
  have "plan_module plan' = plan_module plan" "review_attested plan' = review_attested plan"
    using same by (simp_all add: plan_module_def review_attested_def)
  moreover have "required_string plan' ''rule_hash'' = required_string plan ''rule_hash''"
    "required_string plan' ''execution_path_id'' = required_string plan ''execution_path_id''"
    using same by (auto intro: required_string_cong)
  ultimately show ?thesis using h same required_string_hex [OF hash] hash(2) by (simp add: validate_plan_head_iff)
qed


section \<open>Repair subsets\<close>

definition restrict_payloads :: "payloads \<Rightarrow> string list \<Rightarrow> payloads" where
  "restrict_payloads ps requested = filter (\<lambda>ap. fst ap \<in> set requested) ps"

definition restricted :: "validated_plan \<Rightarrow> string list \<Rightarrow> validated_plan" where
  "restricted v requested = v\<lparr>vp_required_actions := requested,
     vp_action_payloads := restrict_payloads (vp_action_payloads v) requested,
     vp_content_requirements := subset_content_requirements (vp_content_requirements v) requested,
     vp_source_content_requirements := subset_content_requirements (vp_source_content_requirements v) requested,
     vp_friend_mention_requirements := filter (\<lambda>ac. fst ac \<in> set requested) (vp_friend_mention_requirements v)\<rparr>"

text \<open>
  The friend counts survive the restriction: the follow action is kept, or every counted action that is kept demands a
  minimum, or mentions no follow target.
\<close>

definition follow_keys :: "plan_env \<Rightarrow> validated_plan \<Rightarrow> string set" where
  "follow_keys E v = px_ident E ` (set (cr_follow_targets (vp_source_content_requirements v)) \<union> set (cr_follow_targets (vp_content_requirements v)))"

definition repairable :: "plan_env \<Rightarrow> validated_plan \<Rightarrow> string list \<Rightarrow> bool" where
  "repairable E v requested \<longleftrightarrow> ''followed'' \<in> set requested \<or>
     list_all (\<lambda>ac. fst ac \<in> set requested \<longrightarrow> fst (snd ac) \<noteq> ''exact''
       \<or> px_ident E ` set (snd (cr_action (vp_content_requirements v) (fst ac))) \<inter> follow_keys E v = {}) (vp_friend_mention_requirements v)"

lemma map_of_restrict: "map_of (restrict_payloads ps requested) a = (if a \<in> set requested then map_of ps a else None)"
  by (induction ps) (auto simp: restrict_payloads_def)

lemma payload_field_restrict: "payload_field (restrict_payloads ps requested) a f d = (if a \<in> set requested then payload_field ps a f d else d)"
  by (simp add: payload_field_def map_of_restrict)

lemma cr_action_subset:
  "a \<in> set CONTENT_REQUIREMENT_ACTIONS \<Longrightarrow>
    cr_action (subset_content_requirements r requested) a = (if a \<in> set requested then cr_action r a else ([], []))"
  by (auto simp: cr_action_def subset_content_requirements_def CONTENT_REQUIREMENT_ACTIONS_def)

lemma plan_handles_restrict:
  "set (plan_handles (restrict_payloads ps requested) (subset_content_requirements b requested) (subset_content_requirements s requested))
    \<subseteq> set (plan_handles ps b s)"
  unfolding plan_handles_def
  by (auto simp: subset_content_requirements_def payload_field_restrict CONTENT_REQUIREMENT_ACTIONS_def split: if_splits option.splits pyval.splits)

lemma handle_limit_restrict:
  assumes "validate_weibo_preflight_unique_handle_limit E ps b s = Inr ()"
  shows "validate_weibo_preflight_unique_handle_limit E (restrict_payloads ps requested) (subset_content_requirements b requested)
    (subset_content_requirements s requested) = Inr ()"
proof -
  have "card (set (map (px_ident E) (plan_handles (restrict_payloads ps requested) (subset_content_requirements b requested)
      (subset_content_requirements s requested)))) \<le> card (set (map (px_ident E) (plan_handles ps b s)))"
    unfolding set_map using plan_handles_restrict by (intro card_mono image_mono) auto
  then show ?thesis using assms by (auto simp: validate_weibo_preflight_unique_handle_limit_def split: if_splits)
qed

lemma source_bound_restrict:
  assumes "source_bound E s b fr"
  shows "source_bound E (subset_content_requirements s requested) (subset_content_requirements b requested)
    (filter (\<lambda>ac. fst ac \<in> set requested) fr)"
proof -
  have mem: "a \<in> set (map fst (filter (\<lambda>ac. fst ac \<in> set requested) fr)) \<longleftrightarrow> a \<in> set requested \<and> a \<in> set (map fst fr)" for a by auto
  show ?thesis unfolding source_bound_def
  proof (intro conjI ballI)
    fix a assume a: "a \<in> set CONTENT_REQUIREMENT_ACTIONS"
    note old = bspec [OF conjunct2 [OF assms [unfolded source_bound_def]] a]
    show "fst (cr_action (subset_content_requirements s requested) a) = fst (cr_action (subset_content_requirements b requested) a)"
      using old by (simp add: cr_action_subset [OF a])
    show "if a \<in> set (map fst (filter (\<lambda>ac. fst ac \<in> set requested) fr))
      then distinct (map (px_ident E) (snd (cr_action (subset_content_requirements b requested) a)))
        \<and> set (map (px_ident E) (snd (cr_action (subset_content_requirements s requested) a)))
          \<subseteq> set (map (px_ident E) (snd (cr_action (subset_content_requirements b requested) a)))
      else snd (cr_action (subset_content_requirements s requested) a) = snd (cr_action (subset_content_requirements b requested) a)"
      unfolding mem using old by (cases "a \<in> set requested") (simp_all add: cr_action_subset [OF a] split: if_splits)
  qed (use assms in \<open>cases "''followed'' \<in> set requested"; simp add: source_bound_def subset_content_requirements_def\<close>)
qed

lemma first_error_append: "first_error (xs @ ys) = Inr () \<longleftrightarrow> first_error xs = Inr () \<and> first_error ys = Inr ()"
  by (induction xs rule: first_error.induct) auto

lemma first_error_ok: "first_error cs = Inr () \<longleftrightarrow> list_all fst cs"
  by (induction cs rule: first_error.induct) auto


lemma content_checks_iff:
  "first_error (content_checks m ps b) = Inr () \<longleftrightarrow> (\<forall>ae \<in> set (pf_empty_requirement_errors m). cr_action b (fst ae) = ([], []))
     \<and> (\<forall>a \<in> set CONTENT_REQUIREMENT_ACTIONS. payload_field ps a ''topic_tags'' (PList []) = str_list (fst (cr_action b a))
       \<and> payload_field ps a ''mentions'' (PList []) = str_list (snd (cr_action b a)))"
  unfolding first_error_ok content_checks_def list_all_append by (auto simp: list_all_iff split_def)

lemma content_checks_restrict:
  assumes "first_error (content_checks m ps b) = Inr ()" "fst ` set (pf_empty_requirement_errors m) \<subseteq> set CONTENT_REQUIREMENT_ACTIONS"
  shows "first_error (content_checks m (restrict_payloads ps requested) (subset_content_requirements b requested)) = Inr ()"
  unfolding content_checks_iff
proof (intro conjI ballI)
  fix ae assume "ae \<in> set (pf_empty_requirement_errors m)"
  with assms show "cr_action (subset_content_requirements b requested) (fst ae) = ([], [])"
    by (subst cr_action_subset) (auto simp: content_checks_iff)
qed (use assms(1) in \<open>auto simp: content_checks_iff payload_field_restrict cr_action_subset str_list_def\<close>)

lemma follow_checks_restrict:
  assumes "first_error (follow_checks acts ps b) = Inr ()" "set requested \<subseteq> set acts"
  shows "first_error (follow_checks requested (restrict_payloads ps requested) (subset_content_requirements b requested)) = Inr ()"
proof (cases "''followed'' \<in> set requested")
  case True
  then have "''followed'' \<in> set acts" using assms(2) by blast
  then show ?thesis using True assms(1) by (simp add: first_error_ok follow_checks_def payload_field_restrict subset_content_requirements_def)
qed (simp add: first_error_ok follow_checks_def subset_content_requirements_def)

lemma friend_count_mono: "fst c \<noteq> ''exact'' \<Longrightarrow> friend_count_satisfied c n \<Longrightarrow> n \<le> k \<Longrightarrow> friend_count_satisfied c k"
  by (simp add: friend_count_satisfied_def)

lemma friend_action_restrict:
  assumes f: "friend_action_satisfied E ps b s ac" and ac: "fst ac \<in> set requested" "fst ac \<in> set CONTENT_REQUIREMENT_ACTIONS"
    and rep: "''followed'' \<in> set requested \<or> fst (snd ac) \<noteq> ''exact'' \<or>
      px_ident E ` set (snd (cr_action b (fst ac))) \<inter> px_ident E ` (set (cr_follow_targets s) \<union> set (cr_follow_targets b)) = {}"
  shows "friend_action_satisfied E (restrict_payloads ps requested) (subset_content_requirements b requested) (subset_content_requirements s requested) ac"
proof -
  let ?b = "subset_content_requirements b requested" and ?s = "subset_content_requirements s requested"
  let ?keys = "map (px_ident E)" and ?src = "set (map (px_ident E) (snd (cr_action s (fst ac))))"
  let ?fk = "set (map (px_ident E) (cr_follow_targets s)) \<union> set (map (px_ident E) (cr_follow_targets b))"
  let ?fk' = "set (map (px_ident E) (cr_follow_targets ?s)) \<union> set (map (px_ident E) (cr_follow_targets ?b))"
  obtain payload mentions where p: "map_of ps (fst ac) = Some payload" "str_items (dget_default payload ''mentions'' (PList [])) = Some mentions"
    and c: "snd (cr_action b (fst ac)) = mentions" "distinct (?keys mentions)" "?src \<subseteq> set (?keys mentions)"
      "friend_count_satisfied (snd ac) (int (length (filter (\<lambda>k. k \<notin> ?src \<and> k \<notin> ?fk) (?keys mentions))))"
    using f by (auto simp: friend_action_satisfied_def Let_def simp del: set_map split: option.splits)
  have sub: "?fk' \<subseteq> ?fk" by (auto simp: subset_content_requirements_def)
  have "friend_count_satisfied (snd ac) (int (length (filter (\<lambda>k. k \<notin> ?src \<and> k \<notin> ?fk') (?keys mentions))))"
  proof (cases "filter (\<lambda>k. k \<notin> ?src \<and> k \<notin> ?fk') (?keys mentions) = filter (\<lambda>k. k \<notin> ?src \<and> k \<notin> ?fk) (?keys mentions)")
    case True
    then show ?thesis using c(4) by (simp only:)
  next
    case False
    then have "''followed'' \<notin> set requested" by (auto simp: subset_content_requirements_def)
    moreover have "\<not> set (?keys mentions) \<inter> ?fk = {}"
    proof
      assume d: "set (?keys mentions) \<inter> ?fk = {}"
      have "filter (\<lambda>k. k \<notin> ?src \<and> k \<notin> ?fk') (?keys mentions) = filter (\<lambda>k. k \<notin> ?src \<and> k \<notin> ?fk) (?keys mentions)"
        by (rule filter_cong) (use d sub in blast)+
      with False show False by blast
    qed
    then have "px_ident E ` set (snd (cr_action b (fst ac))) \<inter> px_ident E ` (set (cr_follow_targets s) \<union> set (cr_follow_targets b)) \<noteq> {}"
      unfolding c(1) by (simp only: set_map image_Un not_False_eq_True)
    ultimately have "fst (snd ac) \<noteq> ''exact''" using rep by blast
    moreover have "length (filter (\<lambda>k. k \<notin> ?src \<and> k \<notin> ?fk) xs) \<le> length (filter (\<lambda>k. k \<notin> ?src \<and> k \<notin> ?fk') xs)" for xs
      using sub by (induction xs) auto
    ultimately show ?thesis using c(4) by (intro friend_count_mono [OF _ c(4)]) (simp_all only: of_nat_le_iff not_False_eq_True)
  qed
  then show ?thesis using p c ac
    by (simp add: friend_action_satisfied_def Let_def map_of_restrict cr_action_subset del: set_map)
qed


lemma registry_errors: "m \<in> set PLATFORM_REGISTRY \<Longrightarrow> fst ` set (pf_empty_requirement_errors m) \<subseteq> set CONTENT_REQUIREMENT_ACTIONS"
  by (auto simp: PLATFORM_REGISTRY_def BILIBILI_PLATFORM_def WEIBO_PLATFORM_def XIAOHONGSHU_PLATFORM_def DOUYIN_PLATFORM_def
      CONTENT_REQUIREMENT_ACTIONS_def)

lemma good_payloads_restrict:
  assumes "good_payloads acts tp ps" "requested = filter (\<lambda>a. a \<in> set requested) acts"
  shows "good_payloads requested tp (restrict_payloads ps requested)"
proof -
  have "map fst (restrict_payloads ps requested) = filter (\<lambda>a. a \<in> set requested) (map fst ps)"
    by (simp add: restrict_payloads_def filter_map o_def)
  then have "map fst (restrict_payloads ps requested) = requested" using assms by (simp add: good_payloads_def)
  then show ?thesis using assms(1) by (simp add: good_payloads_def restrict_payloads_def)
qed

lemma plan_content_ok_restrict:
  assumes ok: "plan_content_ok E m reject_media v" and m: "m \<in> set PLATFORM_REGISTRY"
    and req: "requested = filter (\<lambda>a. a \<in> set requested) (vp_required_actions v)" and rep: "repairable E v requested"
  shows "plan_content_ok E m reject_media (restricted v requested)"
proof -
  note ok' = ok [unfolded plan_content_ok_def]
  have sub: "set requested \<subseteq> set (vp_required_actions v)" using req by (metis filter_is_subset)
  let ?fr = "vp_friend_mention_requirements v"
  have cra: "fst ac \<in> set CONTENT_REQUIREMENT_ACTIONS" if "ac \<in> set ?fr" for ac
  proof -
    have "set (map fst ?fr) \<subseteq> set CONTENT_REQUIREMENT_ACTIONS" using ok' unfolding good_friends_def by (metis filter_is_subset)
    then show ?thesis using that by auto
  qed
  have fs: "friend_action_satisfied E (restrict_payloads (vp_action_payloads v) requested) (subset_content_requirements (vp_content_requirements v) requested)
      (subset_content_requirements (vp_source_content_requirements v) requested) ac" if "ac \<in> set ?fr" "fst ac \<in> set requested" for ac
  proof (rule friend_action_restrict)
    have "?fr \<noteq> []" using that(1) by auto
    then show "friend_action_satisfied E (vp_action_payloads v) (vp_content_requirements v) (vp_source_content_requirements v) ac"
      using ok' that(1) by (auto simp: friend_mention_requirements_satisfied_def list_all_iff)
    show "''followed'' \<in> set requested \<or> fst (snd ac) \<noteq> ''exact'' \<or> px_ident E ` set (snd (cr_action (vp_content_requirements v) (fst ac)))
      \<inter> px_ident E ` (set (cr_follow_targets (vp_source_content_requirements v)) \<union> set (cr_follow_targets (vp_content_requirements v))) = {}"
      using rep that unfolding repairable_def list_all_iff follow_keys_def by blast
  qed (rule that cra [OF that(1)])+
  have "first_error (content_checks m (vp_action_payloads v) (vp_content_requirements v)) = Inr ()"
    "first_error (follow_checks (vp_required_actions v) (vp_action_payloads v) (vp_content_requirements v)) = Inr ()"
    using ok' by (simp_all add: first_error_append)
  then have checks: "first_error (content_checks m (restrict_payloads (vp_action_payloads v) requested) (subset_content_requirements (vp_content_requirements v) requested)
      @ follow_checks requested (restrict_payloads (vp_action_payloads v) requested) (subset_content_requirements (vp_content_requirements v) requested)) = Inr ()"
    unfolding first_error_append using registry_errors [OF m] sub by (intro conjI content_checks_restrict follow_checks_restrict) auto
  have media: "has_media (restrict_payloads ps requested) \<Longrightarrow> has_media ps" for ps unfolding has_media_def restrict_payloads_def by auto (metis snd_conv)
  show ?thesis unfolding plan_content_ok_def restricted_def
    using ok' checks media good_payloads_restrict [OF _ req] fs
    by (auto simp: good_subset good_friends_filter handle_limit_restrict source_bound_restrict
        friend_mention_requirements_satisfied_def list_all_iff)
qed


lemma dget_update [simp]: "dget (AList.update k v d) k' = (if k' = k then v else dget d k')"
  by (simp add: dget_def AList.update_conv)

lemma dget_default_update [simp]: "dget_default (AList.update k v d) k' w = (if k' = k then v else dget_default d k' w)"
  by (simp add: dget_default_def AList.update_conv)

lemma plan_hash_update: "compute_action_plan_hash E (AList.update ''plan_hash'' x d) = compute_action_plan_hash E d"
proof -
  have "filter (\<lambda>kv. fst kv \<noteq> ''plan_hash'') (AList.update ''plan_hash'' x d) = filter (\<lambda>kv. fst kv \<noteq> ''plan_hash'') d"
    by (induction d) auto
  then show ?thesis by (simp add: compute_action_plan_hash_def)
qed

lemma payload_values_restrict:
  assumes "good_payloads acts tp ps" "distinct acts" "requested = filter (\<lambda>a. a \<in> set requested) acts"
  shows "map (\<lambda>a. (a, PDict (the (map_of ps a)))) requested = map (\<lambda>ap. (fst ap, PDict (snd ap))) (restrict_payloads ps requested)"
proof -
  have k: "map fst (restrict_payloads ps requested) = requested" using good_payloads_restrict [OF assms(1,3)] by (simp add: good_payloads_def)
  have d: "distinct (map fst ps)" using assms(1,2) by (simp add: good_payloads_def)
  have "map (\<lambda>a. (a, PDict (the (map_of ps a)))) (map fst (restrict_payloads ps requested))
      = map (\<lambda>ap. (fst ap, PDict (snd ap))) (restrict_payloads ps requested)"
    using d by (auto simp: restrict_payloads_def)
  then show ?thesis unfolding k .
qed

definition subset_result :: "plan_env \<Rightarrow> platform_module \<Rightarrow> validated_plan \<Rightarrow> string list \<Rightarrow> validated_plan" where
  "subset_result E m v requested = (let plan = subset_plan E m (vp_execution_path_id v) v requested in
     (restricted v requested)\<lparr>vp_plan := plan, vp_plan_hash := compute_action_plan_hash E plan,
       vp_runtime_capability_requirements := (case pf_capabilities m of Some g \<Rightarrow> g requested (vp_execution_path_id v) | None \<Rightarrow> [])\<rparr>)"

lemma plan_content_ok_more:
  "plan_content_ok E m rm (v\<lparr>vp_plan := a, vp_plan_hash := b, vp_runtime_capability_requirements := c\<rparr>) = plan_content_ok E m rm v"
  by (simp add: plan_content_ok_def)

lemma subset_plan_validates:
  assumes v: "validate_action_plan_v2 E (PDict plan) True True = Inr v" and hex: "\<And>s. lower_hex64 (px_sha E s)"
    and m: "plan_module plan = Some m" and req: "requested \<noteq> []" "requested = filter (\<lambda>a. a \<in> set requested) (vp_required_actions v)"
    and rep: "repairable E v requested"
  shows "validate_action_plan_v2 E (PDict (subset_plan E m (vp_execution_path_id v) v requested)) True True = Inr (subset_result E m v requested)"
proof -
  let ?plan = "subset_plan E m (vp_execution_path_id v) v requested" and ?w = "subset_result E m v requested"
  obtain h acts where h: "validate_plan_head plan True = Inr h" and acts: "required_actions_of plan = Inr acts"
    and body: "validate_plan_body E plan True h acts = Inr v" using v unfolding validate_action_plan_v2_iff by blast
  note b = validate_plan_bodyD [OF body]
  have m': "ph_module h = m" using h m by (simp add: validate_plan_head_iff)
  have reg: "m \<in> set PLATFORM_REGISTRY" using m get_platform_moduleD by (auto simp: plan_module_def)
  obtain p where p: "dget plan ''platform'' = PStr p" "p \<noteq> []" "strip p = p" "ordered_actions (action_order_for_platform p) acts"
    using acts by (rule required_actions_ofD)
  have order: "action_order_for_platform p = pf_action_order m"
    using m p by (simp add: plan_module_def action_order_for_platform_def get_platform_module_def strip_lower)
  have dist: "distinct acts" using p(4) by (simp add: ordered_actions_def)
  have e: "acts = filter (\<lambda>a. a \<in> set acts) (pf_action_order m)" using p(4) order by (simp add: ordered_actions_def)
  have sub: "set requested \<subseteq> set acts" using req(2) b(2) by (metis filter_is_subset)
  have "requested = filter (\<lambda>a. a \<in> set requested) (filter (\<lambda>a. a \<in> set acts) (pf_action_order m))"
    using req(2) b(2) e by metis
  also have "\<dots> = filter (\<lambda>a. a \<in> set requested) (pf_action_order m)" unfolding filter_filter by (rule filter_cong) (use sub in auto)
  finally have ro: "ordered_actions (pf_action_order m) requested"
    using req dist b(2) by (metis distinct_filter ordered_actions_def)
  let ?x = "compute_action_plan_hash E ?plan"
  have x: "lower_hex64 ?x" using hex by (simp add: compute_action_plan_hash_def json_hash_def)
  have hash: "dget ?plan ''plan_hash'' = PStr ?x" by (simp add: subset_plan_def Let_def plan_hash_update)
  have head: "validate_plan_head ?plan True = Inr (h\<lparr>ph_plan_hash := ?x\<rparr>)"
    by (rule validate_plan_head_update [OF h _ hash x]) (auto simp: subset_plan_def Let_def b(3))
  have ra: "required_actions_of ?plan = Inr requested"
    by (rule required_actions_ofI [of _ p]) (use p order ro in \<open>auto simp: subset_plan_def Let_def b(3)\<close>)
  have ok: "plan_content_ok E m True ?w"
    unfolding subset_result_def Let_def plan_content_ok_more
    using plan_content_ok_restrict [OF _ reg req(2) rep] b(1) m' by simp
  have pay: "good_payloads acts (text_policy_of m) (vp_action_payloads v)" using b(1,2) m' by (simp add: plan_content_ok_def)
  have wr: "vp_required_actions ?w = requested" by (simp add: subset_result_def restricted_def Let_def)
  have "validate_plan_body E ?plan True (h\<lparr>ph_plan_hash := ?x\<rparr>) (vp_required_actions ?w) = Inr ?w"
  proof (rule validate_plan_bodyI [OF ok])
    show "distinct (vp_required_actions ?w)" "set (vp_required_actions ?w) \<subseteq> set (pf_action_order m)"
      using ro ordered_actions_subset unfolding wr by (auto simp: ordered_actions_def)
    show "dget ?plan ''action_payloads'' = PDict (map (\<lambda>ap. (fst ap, PDict (snd ap))) (vp_action_payloads ?w))"
      using payload_values_restrict [OF pay dist] req(2) b(2) by (simp add: subset_plan_def Let_def subset_result_def restricted_def)
    show "runtime_capabilities_of ?plan m (vp_required_actions ?w) (ph_path (h\<lparr>ph_plan_hash := ?x\<rparr>)) = Inr (vp_runtime_capability_requirements ?w)"
      using b(7) by (simp add: runtime_capabilities_of_def subset_plan_def Let_def subset_result_def restricted_def split: option.split)
  qed (use m' b in \<open>simp_all add: subset_plan_def Let_def subset_result_def restricted_def\<close>)
  then show ?thesis using head ra unfolding validate_action_plan_v2_iff wr by (intro exI conjI) simp_all
qed

lemma inj_PStr_map: "map PStr xs = map PStr ys \<longleftrightarrow> xs = ys"
  by (auto intro: map_injective simp: inj_def)

lemma validated_plan_facts:
  assumes "validate_action_plan_v2 E pv re rm = Inr v"
  shows "pv = PDict (vp_plan v)" "0 < vp_rule_snapshot_id v" "lower_hex64 (vp_rule_hash v)" "lower_hex64 (vp_plan_hash v)"
proof -
  obtain plan where pv: "pv = PDict plan" using assms by (cases pv) (simp_all add: validate_action_plan_v2_def)
  obtain h acts where h: "validate_plan_head plan re = Inr h" and b: "validate_plan_body E plan rm h acts = Inr v"
    using assms unfolding pv validate_action_plan_v2_iff by blast
  note b = validate_plan_bodyD [OF b]
  show "pv = PDict (vp_plan v)" using pv b(3) by simp
  show "0 < vp_rule_snapshot_id v" "lower_hex64 (vp_rule_hash v)" "lower_hex64 (vp_plan_hash v)"
    using h b(4-6) by (simp_all add: validate_plan_head_iff)
qed

section \<open>Text and follow targets of an accepted plan\<close>

lemma text_payload_tokens:
  assumes "validate_action_payload a (PDict p) tp = Inr p" "a \<in> set CONTENT_REQUIREMENT_ACTIONS"
  shows "dget_default p ''topic_tags'' (PList []) = str_list ts \<Longrightarrow> tag \<in> set ts \<Longrightarrow> \<exists>t. dget p ''text'' = PStr t \<and> contains_sub t tag"
    and "dget_default p ''mentions'' (PList []) = str_list ms \<Longrightarrow> mention \<in> set ms \<Longrightarrow> \<exists>t. dget p ''text'' = PStr t \<and> mention \<in> set (mentions_in t)"
proof -
  have a: "a \<noteq> ''followed''" "a \<in> set TEXT_ACTIONS" using assms(2) by (auto simp: CONTENT_REQUIREMENT_ACTIONS_def TEXT_ACTIONS_def)
  have tx: "\<exists>t tags mentions. dget p ''text'' = PStr t \<and> validated_metadata_list p ''topic_tags'' = Inr tags
      \<and> validated_metadata_list p ''mentions'' = Inr mentions \<and> (\<forall>x \<in> set tags. contains_sub t x) \<and> (\<forall>x \<in> set mentions. x \<in> set (mentions_in t))"
    if "p \<noteq> []"
  proof -
    have "validate_text_payload a p tp = Inr p" using assms(1) a that by (auto simp: validate_action_payload_def split: if_splits)
    then show ?thesis by (auto simp: validate_text_payload_def rbind_eq_Inr if_Inl_eq_Inr split: pyval.splits if_splits)
  qed
  have list: "xs = ys" if "validated_metadata_list p field = Inr xs" "dget_default p field (PList []) = str_list ys" for xs ys field
    using validated_metadata_listD(2) [OF that(1)] that(2) by (auto simp: str_list_def inj_PStr_map)
  show "\<exists>t. dget p ''text'' = PStr t \<and> contains_sub t tag" if "dget_default p ''topic_tags'' (PList []) = str_list ts" "tag \<in> set ts"
  proof -
    have "p \<noteq> []" using that by (auto simp: str_list_def)
    then show ?thesis using tx list that by blast
  qed
  show "\<exists>t. dget p ''text'' = PStr t \<and> mention \<in> set (mentions_in t)" if "dget_default p ''mentions'' (PList []) = str_list ms" "mention \<in> set ms"
  proof -
    have "p \<noteq> []" using that by (auto simp: str_list_def)
    then show ?thesis using tx list that by blast
  qed
qed

text \<open>The reviewed payload of an action carries the tags and mentions the rule demands of it.\<close>

definition carries :: "payloads \<Rightarrow> content_requirements \<Rightarrow> string \<Rightarrow> bool" where
  "carries ps r a \<longleftrightarrow> (\<forall>tag \<in> set (fst (cr_action r a)). \<exists>p t. map_of ps a = Some p \<and> dget p ''text'' = PStr t \<and> contains_sub t tag)
     \<and> (\<forall>mention \<in> set (snd (cr_action r a)). \<exists>p t. map_of ps a = Some p \<and> dget p ''text'' = PStr t \<and> mention \<in> set (mentions_in t))"

lemma plan_carries:
  assumes "plan_content_ok E m rm v" "a \<in> set CONTENT_REQUIREMENT_ACTIONS"
  shows "carries (vp_action_payloads v) (vp_content_requirements v) a"
proof -
  let ?ps = "vp_action_payloads v" and ?r = "cr_action (vp_content_requirements v) a"
  have c: "payload_field ?ps a ''topic_tags'' (PList []) = str_list (fst ?r)" "payload_field ?ps a ''mentions'' (PList []) = str_list (snd ?r)"
    using assms by (auto simp: plan_content_ok_def first_error_append content_checks_iff)
  show ?thesis
  proof (cases "map_of ?ps a")
    case None
    then show ?thesis using c by (simp add: carries_def payload_field_def str_list_def)
  next
    case (Some p)
    then have "(a, p) \<in> set ?ps" by (rule map_of_SomeD)
    then have "validate_action_payload a (PDict p) (text_policy_of m) = Inr p"
      using assms(1) by (auto simp: plan_content_ok_def good_payloads_def)
    note tok = text_payload_tokens [OF this assms(2)]
    show ?thesis using tok c Some by (simp add: carries_def payload_field_def)
  qed
qed

lemma accepted_plan_structure:
  assumes "validate_action_plan_v2 E pv re rm = Inr v"
  obtains m where "plan_module (vp_plan v) = Some m" "m \<in> set PLATFORM_REGISTRY" "ordered_actions (pf_action_order m) (vp_required_actions v)"
    "plan_content_ok E m rm v" "vp_plan_hash v = compute_action_plan_hash E (vp_plan v)" "review_attested (vp_plan v)"
    "dget (vp_plan v) ''execution_path_id'' = PStr (vp_execution_path_id v)" "vp_execution_path_id v \<in> path_id ` set (pf_paths m)"
    "re \<Longrightarrow> non_executable_error m (PStr (vp_execution_path_id v)) = None"
proof -
  obtain h acts where h: "validate_plan_head (vp_plan v) re = Inr h" and ra: "required_actions_of (vp_plan v) = Inr acts"
    and hash: "compute_action_plan_hash E (vp_plan v) = ph_plan_hash h" and body: "validate_plan_body E (vp_plan v) rm h acts = Inr v"
    using assms unfolding validated_plan_facts(1) [OF assms] validate_action_plan_v2_iff by blast
  note b = validate_plan_bodyD [OF body]
  note h' = h [unfolded validate_plan_head_iff]
  obtain p where p: "dget (vp_plan v) ''platform'' = PStr p" "strip p = p" "ordered_actions (action_order_for_platform p) acts"
    using ra by (rule required_actions_ofD)
  have m: "plan_module (vp_plan v) = Some (ph_module h)" using h' by blast
  have "action_order_for_platform p = pf_action_order (ph_module h)"
    using m p by (simp add: plan_module_def action_order_for_platform_def get_platform_module_def strip_lower)
  moreover have "required_string (vp_plan v) ''execution_path_id'' = Inr (ph_path h)" using h' by blast
  then have path: "dget (vp_plan v) ''execution_path_id'' = PStr (ph_path h)"
    by (auto simp: required_string_def split: pyval.splits if_splits)
  moreover have "ph_path h \<in> path_id ` set (pf_paths (ph_module h))"
    using h' by (auto simp: validate_action_plan_path_def split: if_splits)
  ultimately show ?thesis
    using that [OF m] m p b hash h' get_platform_moduleD by (auto simp: plan_module_def path)
qed

end
