(* ===== verification/IntentSafety.thy ===== *)
theory IntentSafety
  imports PlanContract "HOL-Library.Sublist"
begin

text \<open>
  Correctness of durable execution intents: what a loaded or a newly built intent satisfies, what a
  task binding is allowed to contain, and the invariant of the three tables over any sequence of
  committed transactions.
\<close>

lemma require_positive_int_iff: "require_positive_int v c = Inr n \<longleftrightarrow> v = PInt n \<and> 0 < n"
  by (cases v) (auto simp: require_positive_int_def)

definition fits :: "nat option \<Rightarrow> string \<Rightarrow> bool" where
  "fits n s \<longleftrightarrow> (case n of Some k \<Rightarrow> length s \<le> k | None \<Rightarrow> True)"

lemma require_string_iff: "require_string v c n = Inr s \<longleftrightarrow> v = PStr s \<and> s \<noteq> [] \<and> strip s = s \<and> fits n s"
  by (cases v) (auto simp: require_string_def fits_def split: option.splits)

lemma require_hash_iff: "require_hash v c = Inr s \<longleftrightarrow> v = PStr s \<and> lower_hex64 s"
  using lower_hex64_strip by (auto simp: require_hash_def rbind_eq_Inr require_string_iff fits_def split: if_splits)

lemma uuid_strip: "is_uuid s \<Longrightarrow> strip s = s \<and> s \<noteq> []"
proof -
  assume u: "is_uuid s"
  have "s ! i \<in> set ''-0123456789abcdef''" if "i < 36" for i
  proof -
    have len: "length s = 36" using u by (simp add: is_uuid_def)
    have "(i, s ! i) \<in> set (zip [0..<36] s)" using that len by (auto simp: set_zip intro!: exI [of _ i])
    then show ?thesis using u by (auto simp: is_uuid_def list_all_iff split: if_splits)
  qed
  then have "c \<in> set ''-0123456789abcdef''" if "c \<in> set s" for c
    using u that by (auto simp: is_uuid_def in_set_conv_nth)
  moreover have "\<not> is_space c" if "c \<in> set ''-0123456789abcdef''" for c using that by (auto simp: is_space_def)
  ultimately have "\<forall>c \<in> set s. \<not> is_space c" by blast
  moreover have "s \<noteq> []" using u by (auto simp: is_uuid_def)
  ultimately show ?thesis by (metis dropWhile_eq_self_iff hd_in_set lstrip_def rev_rev_ident set_rev strip_def)
qed

lemma require_uuid_iff: "require_uuid v c = Inr s \<longleftrightarrow> v = PStr s \<and> is_uuid s"
  using uuid_strip by (auto simp: require_uuid_def rbind_eq_Inr require_string_iff fits_def split: if_splits)

lemma lift_plan_iff: "lift_plan pfx r = Inr x \<longleftrightarrow> r = Inr x"
  by (auto simp: lift_plan_def split: sum.splits plan_error.splits)

lemmas requires = require_positive_int_iff require_string_iff require_hash_iff require_uuid_iff lift_plan_iff

section \<open>Well-formed intents\<close>

definition frozen_ok :: "plan_env \<Rightarrow> frozen_intent \<Rightarrow> validated_plan \<Rightarrow> bool" where
  "frozen_ok E f v \<longleftrightarrow> is_uuid (fi_intent_id f) \<and> is_uuid (fi_source_task_id f) \<and> 0 < fi_lottery_id f \<and> 0 < fi_source_account_id f
     \<and> fi_platform f \<noteq> [] \<and> strip (fi_platform f) = fi_platform f \<and> casefold (fi_platform f) = fi_platform f
     \<and> get_platform_module (fi_platform f) \<noteq> None
     \<and> fi_raw_url f \<noteq> [] \<and> strip (fi_raw_url f) = fi_raw_url f \<and> length (fi_raw_url f) \<le> MAX_TARGET_URL_LENGTH
     \<and> fi_canonical_url f \<noteq> [] \<and> strip (fi_canonical_url f) = fi_canonical_url f \<and> length (fi_canonical_url f) \<le> MAX_TARGET_URL_LENGTH
     \<and> validate_action_plan_v2 E (PDict (fi_plan f)) True True = Inr v \<and> payload_binding_matches E v f (map PStr (fi_required_actions f))
     \<and> lower_hex64 (fi_plan_hash f) \<and> lower_hex64 (fi_required_actions_hash f) \<and> 0 < fi_rule_snapshot_id f \<and> lower_hex64 (fi_rule_hash f)
     \<and> fi_execution_path_id f \<noteq> [] \<and> strip (fi_execution_path_id f) = fi_execution_path_id f \<and> length (fi_execution_path_id f) \<le> 128
     \<and> lower_hex64 (fi_target_hash f) \<and> lower_hex64 (fi_intent_hash f) \<and> fi_intent_hash f = compute_intent_hash E f"

lemma compute_intent_hash_update [simp]: "compute_intent_hash E (f\<lparr>fi_intent_hash := x\<rparr>) = compute_intent_hash E f"
  by (simp add: compute_intent_hash_def intent_hash_payload_def)

lemma payload_binding_matches_update [simp]: "payload_binding_matches E v (f\<lparr>fi_intent_hash := x\<rparr>) acts = payload_binding_matches E v f acts"
  by (simp add: payload_binding_matches_def)

lemma coerce_row_ok:
  assumes "frozen_ok E f v"
  shows "coerce_frozen_execution_intent E (intent_row f) = Inr f"
proof -
  have "coerce_identity (intent_row f) = Inr (fi_intent_id f, fi_source_task_id f, fi_lottery_id f, fi_source_account_id f)"
    using assms by (simp add: coerce_identity_def intent_row_def intent_hash_payload_def rbind_eq_Inr requires frozen_ok_def)
  moreover have "coerce_target (intent_row f) = Inr (fi_platform f, fi_raw_url f, fi_canonical_url f)"
    using assms by (simp add: coerce_target_def intent_row_def intent_hash_payload_def rbind_eq_Inr rmap_eq_Inr requires frozen_ok_def fits_def)
  moreover have "coerce_payload E (intent_row f) = Inr (fi_plan f, map PStr (fi_required_actions f), v)"
    using assms by (simp add: coerce_payload_def intent_row_def intent_hash_payload_def parse_stored_json_def str_list_def rmap_eq_Inr requires frozen_ok_def)
  moreover have "coerce_hashes (intent_row f) = Inr (fi_plan_hash f, fi_required_actions_hash f, fi_rule_snapshot_id f, fi_rule_hash f, fi_execution_path_id f, fi_target_hash f)"
    using assms by (simp add: coerce_hashes_def intent_row_def intent_hash_payload_def rbind_eq_Inr requires frozen_ok_def fits_def)
  moreover have "require_hash (dget (intent_row f) ''intent_hash'') c = Inr (fi_intent_hash f)" for c
  proof -
    have "lower_hex64 (fi_intent_hash f)" using assms unfolding frozen_ok_def by blast
    then show ?thesis by (simp add: intent_row_def requires)
  qed
  moreover define g where "g = f\<lparr>fi_intent_hash := []\<rparr>"
  moreover have acts: "vp_required_actions v = fi_required_actions f" using assms by (simp add: frozen_ok_def payload_binding_matches_def inj_PStr_map)
  moreover have "intent_of_parts (fi_intent_id f, fi_source_task_id f, fi_lottery_id f, fi_source_account_id f)
      (fi_platform f, fi_raw_url f, fi_canonical_url f) (fi_plan f, map PStr (fi_required_actions f), v)
      (fi_plan_hash f, fi_required_actions_hash f, fi_rule_snapshot_id f, fi_rule_hash f, fi_execution_path_id f, fi_target_hash f) = g"
    unfolding g_def by (cases f) (use acts in simp)
  moreover have "payload_binding_matches E v g (map PStr (fi_required_actions f))" "compute_intent_hash E g = fi_intent_hash f"
    using assms unfolding g_def frozen_ok_def by simp_all
  moreover have "g\<lparr>fi_intent_hash := fi_intent_hash f\<rparr> = f" by (simp add: g_def)
  ultimately show ?thesis unfolding coerce_frozen_execution_intent_def by (simp only: rbind.simps snd_conv fst_conv Let_def if_False not_True_eq_False simp_thms)
qed


lemma coerce_identity_iff:
  "coerce_identity row = Inr (i, t, l, a) \<longleftrightarrow> py_eq (dget row ''contract_version'') (PInt EXECUTION_INTENT_CONTRACT_VERSION)
     \<and> dget row ''intent_id'' = PStr i \<and> is_uuid i \<and> dget row ''source_task_id'' = PStr t \<and> is_uuid t
     \<and> dget row ''lottery_id'' = PInt l \<and> 0 < l \<and> dget row ''source_account_id'' = PInt a \<and> 0 < a"
  by (auto simp: coerce_identity_def if_Inl_eq_Inr rbind_eq_Inr requires)

lemma coerce_target_iff:
  "coerce_target row = Inr (p, r, c) \<longleftrightarrow> (\<exists>q. dget row ''platform'' = PStr q \<and> q \<noteq> [] \<and> strip q = q \<and> p = casefold q) \<and> get_platform_module p \<noteq> None
     \<and> dget row ''raw_url'' = PStr r \<and> r \<noteq> [] \<and> strip r = r \<and> length r \<le> MAX_TARGET_URL_LENGTH
     \<and> dget row ''canonical_url'' = PStr c \<and> c \<noteq> [] \<and> strip c = c \<and> length c \<le> MAX_TARGET_URL_LENGTH"
  by (auto simp: coerce_target_def if_Inl_eq_Inr rbind_eq_Inr rmap_eq_Inr requires fits_def)

lemma coerce_hashes_iff:
  "coerce_hashes row = Inr (a, b, n, r, p, t) \<longleftrightarrow> dget row ''full_action_plan_hash'' = PStr a \<and> lower_hex64 a
     \<and> dget row ''full_required_actions_hash'' = PStr b \<and> lower_hex64 b \<and> dget row ''rule_snapshot_id'' = PInt n \<and> 0 < n
     \<and> dget row ''rule_hash'' = PStr r \<and> lower_hex64 r \<and> dget row ''execution_path_id'' = PStr p \<and> p \<noteq> [] \<and> strip p = p \<and> length p \<le> 128
     \<and> dget row ''target_hash'' = PStr t \<and> lower_hex64 t"
  by (auto simp: coerce_hashes_def rbind_eq_Inr requires fits_def)

lemma coerce_payloadD:
  "coerce_payload E row = Inr (plan, acts, v) \<Longrightarrow> validate_action_plan_v2 E (PDict plan) True True = Inr v"
  by (auto simp: coerce_payload_def rmap_eq_Inr requires split: pyval.splits)

lemma strip_casefold: "strip q = q \<Longrightarrow> strip (casefold q) = casefold q"
  by (simp add: strip_lower)

lemma coerceD:
  assumes "coerce_frozen_execution_intent E row = Inr f"
  shows "\<exists>v. frozen_ok E f v"
    and "dget row ''intent_id'' = PStr (fi_intent_id f)" "dget row ''lottery_id'' = PInt (fi_lottery_id f)"
proof -
  obtain x1 x2 x3 x4 where x: "coerce_identity row = Inr x1" "coerce_target row = Inr x2" "coerce_payload E row = Inr x3" "coerce_hashes row = Inr x4"
    using assms unfolding coerce_frozen_execution_intent_def rbind_eq_Inr by (elim exE conjE)
  obtain i t l a where x1: "x1 = (i, t, l, a)" by (cases x1)
  obtain p r c where x2: "x2 = (p, r, c)" by (cases x2)
  obtain plan acts v where x3: "x3 = (plan, acts, v)" by (cases x3)
  obtain ph ah n rh ep th where x4: "x4 = (ph, ah, n, rh, ep, th)" by (cases x4)
  note 1 = x [unfolded x1 x2 x3 x4]
  define g where "g = intent_of_parts (i, t, l, a) (p, r, c) (plan, acts, v) (ph, ah, n, rh, ep, th)"
  have g: "payload_binding_matches E v g acts" "lower_hex64 (compute_intent_hash E g)" "f = g\<lparr>fi_intent_hash := compute_intent_hash E g\<rparr>"
    using assms unfolding coerce_frozen_execution_intent_def 1 rbind.simps g_def [symmetric] Let_def
    by (auto simp: if_Inl_eq_Inr rbind_eq_Inr requires split: if_splits)
  have acts: "acts = map PStr (fi_required_actions g)" using g(1) unfolding payload_binding_matches_def by (simp add: g_def)
  note facts = 1(1) [unfolded coerce_identity_iff] 1(2) [unfolded coerce_target_iff] 1(4) [unfolded coerce_hashes_iff] coerce_payloadD [OF 1(3)]
  have gf: "fi_intent_id g = i" "fi_source_task_id g = t" "fi_lottery_id g = l" "fi_source_account_id g = a" "fi_platform g = p" "fi_raw_url g = r"
    "fi_canonical_url g = c" "fi_plan g = plan" "fi_plan_hash g = ph" "fi_required_actions_hash g = ah" "fi_rule_snapshot_id g = n"
    "fi_rule_hash g = rh" "fi_execution_path_id g = ep" "fi_target_hash g = th"
    by (simp_all add: g_def)
  have "strip p = p \<and> p \<noteq> [] \<and> casefold p = p" using facts(2) by (auto simp: strip_lower) (simp add: lower_def)?
  then have "frozen_ok E f v" unfolding frozen_ok_def g(3) compute_intent_hash_update payload_binding_matches_update
    using facts g(1,2) [unfolded acts] by (simp add: gf)
  then show "\<exists>v. frozen_ok E f v" ..
  show "dget row ''intent_id'' = PStr (fi_intent_id f)" "dget row ''lottery_id'' = PInt (fi_lottery_id f)"
    using facts unfolding g(3) by (simp_all add: gf)
qed


lemma lottery_targetD:
  assumes "lottery_target lottery = Inr (l, p, r, c)"
  shows "0 < l \<and> strip p = p \<and> p \<noteq> [] \<and> casefold p = p \<and> get_platform_module p \<noteq> None
    \<and> r \<noteq> [] \<and> strip r = r \<and> length r \<le> MAX_TARGET_URL_LENGTH \<and> c \<noteq> [] \<and> strip c = c \<and> length c \<le> MAX_TARGET_URL_LENGTH"
proof -
  obtain q where q: "q \<noteq> []" "strip q = q" "p = casefold q" and rest: "0 < l" "get_platform_module p \<noteq> None"
    "r \<noteq> []" "strip r = r" "length r \<le> MAX_TARGET_URL_LENGTH" "c \<noteq> []" "strip c = c" "length c \<le> MAX_TARGET_URL_LENGTH"
    using assms by (auto simp: lottery_target_def rbind_eq_Inr rmap_eq_Inr if_Inl_eq_Inr requires fits_def)
  have "p \<noteq> []" using q by (simp add: lower_def)
  then show ?thesis using q rest by (simp add: strip_lower)
qed

lemma full_binding_targetD:
  assumes "full_binding_target E lottery pb v c = Inr t"
  shows "lower_hex64 t \<and> compute_target_hash E c = Inr t \<and> vp_execution_path_id v \<noteq> []
    \<and> strip (vp_execution_path_id v) = vp_execution_path_id v \<and> length (vp_execution_path_id v) \<le> 128"
  using assms by (auto simp: full_binding_target_def full_binding_matches_def rbind_eq_Inr if_Inl_eq_Inr requires fits_def)

lemma build_ok:
  assumes hex: "\<And>s. lower_hex64 (px_sha E s)" and b: "build_frozen_execution_intent E fresh lottery task account pb i = Inr f"
  shows "\<exists>v. frozen_ok E f v"
proof -
  obtain x where x: "validated_full_intent_inputs E lottery pb = Inr x"
    using b unfolding build_frozen_execution_intent_def rbind_eq_Inr by (elim exE conjE)
  obtain l p r c v t where x': "x = ((l, p, r, c), v, t)" by (metis prod.exhaust)
  have lt: "lottery_target lottery = Inr (l, p, r, c)" and v: "validate_action_plan_v2 E (dget pb ''action_plan'') True True = Inr v"
    and pl: "dget (vp_plan v) ''platform'' = PStr p" and ft: "full_binding_target E lottery pb v c = Inr t"
    using x unfolding x' validated_full_intent_inputs_def by (auto simp: rbind_eq_Inr rmap_eq_Inr if_Inl_eq_Inr requires)
  obtain i' t' a' where ids: "is_uuid i'" "is_uuid t'" "0 < a'" and f: "(let f = \<lparr>fi_intent_id = i', fi_intent_hash = [], fi_lottery_id = l, fi_source_task_id = t',
         fi_source_account_id = a', fi_platform = p, fi_raw_url = r, fi_canonical_url = c,
         fi_plan = vp_plan v, fi_plan_hash = vp_plan_hash v, fi_required_actions = vp_required_actions v,
         fi_required_actions_hash = required_actions_hash E (map PStr (vp_required_actions v)),
         fi_rule_snapshot_id = vp_rule_snapshot_id v, fi_rule_hash = vp_rule_hash v,
         fi_execution_path_id = vp_execution_path_id v, fi_target_hash = t\<rparr>
       in f\<lparr>fi_intent_hash := compute_intent_hash E f\<rparr>) = f"
    using b unfolding build_frozen_execution_intent_def x x' rbind.simps prod.case rbind_eq_Inr requires Let_def sum.inject by blast
  define g where "g = \<lparr>fi_intent_id = i', fi_intent_hash = [], fi_lottery_id = l, fi_source_task_id = t',
         fi_source_account_id = a', fi_platform = p, fi_raw_url = r, fi_canonical_url = c,
         fi_plan = vp_plan v, fi_plan_hash = vp_plan_hash v, fi_required_actions = vp_required_actions v,
         fi_required_actions_hash = required_actions_hash E (map PStr (vp_required_actions v)),
         fi_rule_snapshot_id = vp_rule_snapshot_id v, fi_rule_hash = vp_rule_hash v,
         fi_execution_path_id = vp_execution_path_id v, fi_target_hash = t\<rparr>"
  have f': "f = g\<lparr>fi_intent_hash := compute_intent_hash E g\<rparr>" using f unfolding g_def [symmetric] Let_def by (rule sym)
  have hash: "fi_intent_hash f = compute_intent_hash E f" unfolding f' by simp
  have "lower_hex64 (compute_intent_hash E f)" "lower_hex64 (required_actions_hash E acts)" for acts
    using hex by (simp_all add: compute_intent_hash_def required_actions_hash_def json_hash_def)
  note hexes = this
  have fields: "fi_intent_id f = i'" "fi_lottery_id f = l" "fi_source_task_id f = t'" "fi_source_account_id f = a'" "fi_platform f = p"
    "fi_raw_url f = r" "fi_canonical_url f = c" "fi_plan f = vp_plan v" "fi_plan_hash f = vp_plan_hash v" "fi_required_actions f = vp_required_actions v"
    "fi_required_actions_hash f = required_actions_hash E (map PStr (vp_required_actions v))" "fi_rule_snapshot_id f = vp_rule_snapshot_id v"
    "fi_rule_hash f = vp_rule_hash v" "fi_execution_path_id f = vp_execution_path_id v" "fi_target_hash f = t"
    unfolding f' g_def by simp_all
  have "frozen_ok E f v" unfolding frozen_ok_def hash payload_binding_matches_def fields
    using lottery_targetD [OF lt] full_binding_targetD [OF ft] validated_plan_facts [OF v] v pl ids hexes by simp
  then show ?thesis ..
qed


section \<open>Bindings\<close>

lemma those_PStr: "those (map (\<lambda>v. case v of PStr s \<Rightarrow> Some s | _ \<Rightarrow> None) vs) = Some xs \<longleftrightarrow> vs = map PStr xs"
  by (induction vs arbitrary: xs) (auto split: pyval.splits simp: Cons_eq_map_conv)

lemma str_items_iff: "str_items v = Some xs \<longleftrightarrow> v = str_list xs"
  by (cases v) (auto simp: str_list_def those_PStr)

lemma normalize_requested_iff:
  "normalize_requested_actions full v strict = Inr xs \<longleftrightarrow> v = str_list xs \<and> xs \<noteq> [] \<and> distinct xs
     \<and> xs = filter (\<lambda>a. a \<in> set xs) full \<and> set xs \<subseteq> set full \<and> (strict \<longrightarrow> length xs < length full)"
  by (cases "str_items v") (auto simp: normalize_requested_actions_def str_items_iff if_Inl_eq_Inr simp flip: str_items_iff)

definition plan_derived :: "plan_env \<Rightarrow> frozen_intent \<Rightarrow> string \<Rightarrow> string list \<Rightarrow> pydict \<Rightarrow> bool" where
  "plan_derived E f kind actions plan \<longleftrightarrow>
     (kind = ''full'' \<and> actions = fi_required_actions f \<and> plan = fi_plan f)
     \<or> (kind = ''repair'' \<and> length actions < length (fi_required_actions f)
        \<and> (\<exists>v m. validate_action_plan_v2 E (PDict (fi_plan f)) True True = Inr v \<and> get_platform_module (fi_platform f) = Some m
             \<and> plan = subset_plan E m (fi_execution_path_id f) v actions))"

definition binding_context_ok :: "frozen_intent \<Rightarrow> task_binding \<Rightarrow> bool" where
  "binding_context_ok f b \<longleftrightarrow> is_uuid (tb_task_id b) \<and> tb_account_id b = fi_source_account_id f \<and> is_uuid (tb_evidence_id b)
     \<and> tb_execution_path_id b = fi_execution_path_id f \<and> tb_target_hash b = fi_target_hash f \<and> lower_hex64 (tb_config_hash b)
     \<and> 0 < tb_revision b \<and> is_uuid (tb_lease_id b) \<and> 0 < tb_lease_generation b
     \<and> evidence_kind_of f = Some (tb_evidence_kind b) \<and> tb_evidence_kind b \<in> set EXECUTION_EVIDENCE_KINDS
     \<and> tb_exact_evidence_id b = (if tb_evidence_kind b = ''exact_execution_evidence'' then Some (tb_evidence_id b) else None)
     \<and> tb_oauth_calibration_id b = (if tb_evidence_kind b = ''oauth_account_calibration'' then Some (tb_evidence_id b) else None)"

definition authorised :: "plan_env \<Rightarrow> frozen_intent \<Rightarrow> task_binding \<Rightarrow> bool" where
  "authorised E f b \<longleftrightarrow> tb_intent_id b = fi_intent_id f \<and> tb_intent_hash b = fi_intent_hash f \<and> tb_lottery_id b = fi_lottery_id f
     \<and> tb_evidence_plan_hash b = fi_plan_hash f \<and> tb_rule_snapshot_id b = fi_rule_snapshot_id f \<and> tb_rule_hash b = fi_rule_hash f
     \<and> binding_context_ok f b \<and> tb_binding_hash b = json_hash E (PDict (binding_hash_payload b))
     \<and> tb_actions b \<noteq> [] \<and> distinct (tb_actions b) \<and> tb_actions b = filter (\<lambda>a. a \<in> set (tb_actions b)) (fi_required_actions f)
     \<and> tb_actions_hash b = requested_hash E f (tb_actions b)
     \<and> (\<exists>w. validate_action_plan_v2 E (PDict (tb_plan b)) True True = Inr w \<and> vp_required_actions w = tb_actions b \<and> vp_plan_hash w = tb_plan_hash b)
     \<and> plan_derived E f (tb_kind b) (tb_actions b) (tb_plan b)"

lemma repair_subsetD:
  assumes "build_repair_execution_subset E (intent_row f) v = Inr s" "frozen_ok E f fv"
  shows "v = str_list (rq_actions s)" "rq_actions s = filter (\<lambda>a. a \<in> set (rq_actions s)) (fi_required_actions f)"
    "length (rq_actions s) < length (fi_required_actions f)" "plan_derived E f ''repair'' (rq_actions s) (rq_plan s)"
proof -
  have c: "coerce_frozen_execution_intent E (intent_row f) = Inr f" by (rule coerce_row_ok [OF assms(2)])
  obtain m requested v' w where m: "get_platform_module (fi_platform f) = Some m"
    and n: "normalize_requested_actions (fi_required_actions f) v True = Inr requested"
    and v': "validate_action_plan_v2 E (PDict (fi_plan f)) True True = Inr v'"
    and w: "validate_action_plan_v2 E (PDict (subset_plan E m (fi_execution_path_id f) v' requested)) True True = Inr w"
    and s: "s = \<lparr>rq_intent_id = fi_intent_id f, rq_intent_hash = fi_intent_hash f, rq_actions = requested,
           rq_actions_hash = requested_hash E f requested, rq_plan = vp_plan w, rq_plan_hash = vp_plan_hash w\<rparr>"
    using assms(1) unfolding build_repair_execution_subset_def c rbind.simps
    by (auto simp: rbind_eq_Inr if_Inl_eq_Inr requires split: option.splits)
  have "vp_plan w = subset_plan E m (fi_execution_path_id f) v' requested" using validated_plan_facts(1) [OF w] by simp
  then show "v = str_list (rq_actions s)" "rq_actions s = filter (\<lambda>a. a \<in> set (rq_actions s)) (fi_required_actions f)"
    "length (rq_actions s) < length (fi_required_actions f)" "plan_derived E f ''repair'' (rq_actions s) (rq_plan s)"
    using n v' m by (auto simp: s normalize_requested_iff plan_derived_def)
qed

lemma checked_contextD:
  assumes "checked_context f r = Inr (t, a, e, p, th, c, rv, l, g)"
  shows "is_uuid t" "a = fi_source_account_id f" "is_uuid e" "p = fi_execution_path_id f" "th = fi_target_hash f" "lower_hex64 c" "0 < rv" "is_uuid l" "0 < g"
    "br_task_id r = PStr t"
  using assms by (auto simp: checked_context_def rbind_eq_Inr if_Inl_eq_Inr requires split: if_splits)

lemma bindingD:
  assumes b: "build_task_execution_intent_binding E (intent_row f) r = Inr b" and ok: "frozen_ok E f fv"
    and d: "\<And>plan requested. br_plan r = PDict plan \<Longrightarrow> br_actions r = str_list requested \<Longrightarrow> plan_derived E f (br_kind r) requested plan"
  shows "authorised E f b" "br_task_id r = PStr (tb_task_id b)" "tb_kind b = br_kind r"
proof -
  have c: "coerce_frozen_execution_intent E (intent_row f) = Inr f" by (rule coerce_row_ok [OF ok])
  obtain requested v x ek where n: "normalize_requested_actions (fi_required_actions f) (br_actions r) (br_kind r = ''repair'') = Inr requested"
    and bp: "bound_plan_checked E f (br_kind r) requested (br_plan r) = Inr v" and cc: "checked_context f r = Inr x"
    and ek: "evidence_kind_of f = Some ek" "ek \<in> set EXECUTION_EVIDENCE_KINDS"
    and b': "b = (binding_of_parts E f (br_kind r) requested v x ek)\<lparr>tb_binding_hash := json_hash E (PDict (binding_hash_payload (binding_of_parts E f (br_kind r) requested v x ek)))\<rparr>"
    using b unfolding build_task_execution_intent_binding_def c rbind.simps Let_def
    by (auto simp: rbind_eq_Inr if_Inl_eq_Inr requires split: option.splits)
  obtain t a e p th cf rv l g where x: "x = (t, a, e, p, th, cf, rv, l, g)" by (metis prod.exhaust)
  note ctx = checked_contextD [OF cc [unfolded x]]
  have v: "validate_action_plan_v2 E (br_plan r) True True = Inr v" "vp_required_actions v = requested"
    using bp by (auto simp: bound_plan_checked_def rbind_eq_Inr if_Inl_eq_Inr requires split: if_splits)
  note n' = n [unfolded normalize_requested_iff]
  have der: "plan_derived E f (br_kind r) requested (vp_plan v)" by (rule d) (use validated_plan_facts(1) [OF v(1)] n' in auto)
  have v': "validate_action_plan_v2 E (PDict (vp_plan v)) True True = Inr v" using v(1) validated_plan_facts(1) [OF v(1)] by simp
  have pay: "binding_hash_payload (b\<lparr>tb_binding_hash := h\<rparr>) = binding_hash_payload b" for b h by (simp add: binding_hash_payload_def)
  show "authorised E f b"
    unfolding authorised_def b' pay using ctx ek n' der v' v(2) by (simp add: x binding_context_ok_def)
  show "br_task_id r = PStr (tb_task_id b)" using ctx(10) unfolding b' x by simp
  show "tb_kind b = br_kind r" unfolding b' x by simp
qed


section \<open>The tables over time\<close>

text \<open>
  A step is one committed transaction: a real run that freezes or reuses the intent of a lottery, or a
  repair of the intent that is current. A failed transaction changes nothing.
\<close>

inductive intent_step :: "plan_env \<Rightarrow> frozen_db \<Rightarrow> task_binding \<Rightarrow> frozen_db \<Rightarrow> bool" for E where
  full: "persist_full_execution_intent E fresh lottery task account pb evidence lease gen supersede db = Inr (b, db')
    \<Longrightarrow> intent_step E db b db'"
| repair: "load_lottery_execution_intent E db l = Inr (Some f) \<Longrightarrow>
    persist_repair_execution_binding E (intent_row f) task account requested evidence config revision lease gen db = Inr (b, db')
    \<Longrightarrow> intent_step E db b db'"

definition intents_init :: "frozen_db \<Rightarrow> bool" where
  "intents_init db \<longleftrightarrow> idb_roots db = [] \<and> idb_heads db = [] \<and> idb_bindings db = []"

definition root_of :: "plan_env \<Rightarrow> frozen_db \<Rightarrow> frozen_intent \<Rightarrow> bool" where
  "root_of E db f \<longleftrightarrow> intent_row f \<in> set (idb_roots db) \<and> (\<exists>v. frozen_ok E f v)"

definition intents_inv :: "plan_env \<Rightarrow> frozen_db \<Rightarrow> bool" where
  "intents_inv E db \<longleftrightarrow>
     (\<forall>row \<in> set (idb_roots db). \<exists>f. row = intent_row f \<and> root_of E db f)
     \<and> distinct (map (\<lambda>row. dget row ''intent_id'') (idb_roots db))
     \<and> distinct (map ih_lottery_id (idb_heads db))
     \<and> (\<forall>h \<in> set (idb_heads db). 0 < ih_generation h \<and> (\<exists>f. root_of E db f \<and> fi_intent_id f = ih_current_intent_id h \<and> fi_lottery_id f = ih_lottery_id h))
     \<and> distinct (map tb_task_id (idb_bindings db))
     \<and> (\<forall>b \<in> set (idb_bindings db). \<exists>f. root_of E db f \<and> authorised E f b)"

lemma intent_row_fields [simp]:
  "dget (intent_row f) ''intent_id'' = PStr (fi_intent_id f)" "dget (intent_row f) ''lottery_id'' = PInt (fi_lottery_id f)"
  by (simp_all add: intent_row_def intent_hash_payload_def)

lemma root_of_mono: "root_of E db f \<Longrightarrow> set (idb_roots db) \<subseteq> set (idb_roots db') \<Longrightarrow> root_of E db' f"
  by (auto simp: root_of_def)

lemma load_headD:
  assumes "load_lottery_execution_intent_head E db l = Inr (Some (f, g))" "intents_inv E db"
  shows "root_of E db f" "fi_lottery_id f = l"
    "\<exists>h \<in> set (idb_heads db). ih_lottery_id h = l \<and> ih_current_intent_id h = fi_intent_id f \<and> ih_generation h = g"
proof -
  obtain row rest where hr: "head_rows db (\<lambda>k. k = l) = (row, g) # rest" and c: "coerce_frozen_execution_intent E row = Inr f"
    using assms(1) by (auto simp: load_lottery_execution_intent_head_def rmap_eq_Inr split: list.splits if_splits)
  have "(row, g) \<in> set (head_rows db (\<lambda>k. k = l))" by (simp add: hr)
  then obtain h where h: "h \<in> set (idb_heads db)" "ih_lottery_id h = l" "g = ih_generation h" "row \<in> set (idb_roots db)"
    "dget row ''lottery_id'' = PInt (ih_lottery_id h)" "dget row ''intent_id'' = PStr (ih_current_intent_id h)"
    by (auto simp: head_rows_def joined_roots_def)
  obtain f' where f': "row = intent_row f'" "root_of E db f'" using assms(2) h(4) by (auto simp: intents_inv_def)
  have "f' = f" using c f' coerce_row_ok by (auto simp: root_of_def)
  then show "root_of E db f" "fi_lottery_id f = l"
    "\<exists>h \<in> set (idb_heads db). ih_lottery_id h = l \<and> ih_current_intent_id h = fi_intent_id f \<and> ih_generation h = g"
    using f' h by auto
qed

lemma load_head_None:
  assumes "load_lottery_execution_intent_head E db l = Inr None" "intents_inv E db"
  shows "l \<notin> ih_lottery_id ` set (idb_heads db)"
proof
  assume "l \<in> ih_lottery_id ` set (idb_heads db)"
  then obtain h where h: "h \<in> set (idb_heads db)" "ih_lottery_id h = l" by auto
  then obtain f where "root_of E db f" "fi_intent_id f = ih_current_intent_id h" "fi_lottery_id f = ih_lottery_id h"
    using assms(2) by (auto simp: intents_inv_def)
  then have "(intent_row f, ih_generation h) \<in> set (head_rows db (\<lambda>k. k = l))"
    using h by (auto simp: head_rows_def joined_roots_def root_of_def)
  then show False using assms(1) by (auto simp: load_lottery_execution_intent_head_def rmap_eq_Inr split: list.splits if_splits prod.splits)
qed

lemma insert_root_inv:
  assumes "insert_frozen_intent f db = Inr db1" "intents_inv E db" "frozen_ok E f v"
  shows "intents_inv E db1" "root_of E db1 f" "db1 = db\<lparr>idb_roots := idb_roots db @ [intent_row f]\<rparr>"
proof -
  show db1: "db1 = db\<lparr>idb_roots := idb_roots db @ [intent_row f]\<rparr>" using assms(1) by (auto simp: insert_frozen_intent_def split: if_splits)
  have new: "\<forall>row \<in> set (idb_roots db). dget row ''intent_id'' \<noteq> PStr (fi_intent_id f)"
    using assms(1) by (auto simp: insert_frozen_intent_def list_ex_iff split: if_splits)
  show r: "root_of E db1 f" using assms(3) by (auto simp: root_of_def db1)
  have mono: "root_of E db g \<Longrightarrow> root_of E db1 g" for g by (rule root_of_mono) (auto simp: db1)
  have "\<forall>row \<in> set (idb_roots db1). \<exists>f. row = intent_row f \<and> root_of E db1 f"
    using conjunct1 [OF assms(2) [unfolded intents_inv_def]] r mono unfolding db1 by simp blast
  moreover have "distinct (map (\<lambda>row. dget row ''intent_id'') (idb_roots db1))"
    using assms(2) new by (auto simp: intents_inv_def db1)
  moreover have "\<forall>h \<in> set (idb_heads db1). 0 < ih_generation h \<and> (\<exists>f. root_of E db1 f \<and> fi_intent_id f = ih_current_intent_id h \<and> fi_lottery_id f = ih_lottery_id h)"
    "\<forall>b \<in> set (idb_bindings db1). \<exists>f. root_of E db1 f \<and> authorised E f b"
    using assms(2) mono unfolding intents_inv_def db1 by fastforce+
  ultimately show "intents_inv E db1" using assms(2) by (simp add: intents_inv_def db1)
qed


lemma freeze_inv:
  assumes fr: "freeze_or_reuse E candidate allow db = Inr (f, db1)" and inv: "intents_inv E db" and ok: "frozen_ok E candidate v"
  shows "intents_inv E db1" "root_of E db1 f" "idb_bindings db1 = idb_bindings db" "prefix (idb_roots db) (idb_roots db1)"
    "\<And>h. h \<in> set (idb_heads db) \<Longrightarrow> h \<in> set (idb_heads db1) \<or> (allow \<and> ih_lottery_id h = fi_lottery_id candidate
      \<and> (\<exists>h' \<in> set (idb_heads db1). ih_lottery_id h' = ih_lottery_id h \<and> ih_generation h' = ih_generation h + 1 \<and> ih_current_intent_id h' = fi_intent_id candidate))"
proof -
  let ?goal = "intents_inv E db1 \<and> root_of E db1 f \<and> idb_bindings db1 = idb_bindings db \<and> prefix (idb_roots db) (idb_roots db1)
    \<and> (\<forall>h \<in> set (idb_heads db). h \<in> set (idb_heads db1) \<or> (allow \<and> ih_lottery_id h = fi_lottery_id candidate
      \<and> (\<exists>h' \<in> set (idb_heads db1). ih_lottery_id h' = ih_lottery_id h \<and> ih_generation h' = ih_generation h + 1 \<and> ih_current_intent_id h' = fi_intent_id candidate)))"
  obtain head where head: "load_lottery_execution_intent_head E db (fi_lottery_id candidate) = Inr head"
    using fr by (auto simp: freeze_or_reuse_def rbind_eq_Inr)
  have ?goal
  proof (cases head)
    case None
    obtain db0 where i: "insert_frozen_intent candidate db = Inr db0" and h: "insert_execution_intent_head candidate db0 = Inr db1" and f: "f = candidate"
      using fr by (auto simp: freeze_or_reuse_def head None rbind_eq_Inr rmap_eq_Inr)
    note ins = insert_root_inv [OF i inv ok]
    have new: "fi_lottery_id candidate \<notin> ih_lottery_id ` set (idb_heads db)" by (rule load_head_None [OF head [unfolded None] inv])
    define nh where "nh = \<lparr>ih_lottery_id = fi_lottery_id candidate, ih_current_intent_id = fi_intent_id candidate, ih_generation = 1\<rparr>"
    have db1: "db1 = db0\<lparr>idb_heads := idb_heads db0 @ [nh]\<rparr>" using h by (auto simp: insert_execution_intent_head_def nh_def split: if_splits)
    have root: "root_of E db1 g \<longleftrightarrow> root_of E db0 g" for g by (simp add: root_of_def db1)
    have "intents_inv E db1"
      using ins(1,2) new unfolding intents_inv_def root by (auto simp: db1 ins(3) nh_def)
    moreover have "root_of E db1 f" unfolding f root by (rule ins(2))
    ultimately show ?goal by (auto simp: db1 ins(3))
  next
    case (Some cg)
    obtain cur g where cg: "cg = (cur, g)" by (cases cg)
    note ld = load_headD [OF head [unfolded Some cg] inv]
    show ?goal
    proof (cases "same_frozen_business_intent cur candidate")
      case True
      then have "f = cur" "db1 = db" using fr by (auto simp: freeze_or_reuse_def head Some cg rbind_eq_Inr rmap_eq_Inr)
      then show ?goal using ld inv by auto
    next
      case False
      obtain db0 where al: "allow" and i: "insert_frozen_intent candidate db = Inr db0" and h: "switch_execution_intent_head cur g candidate db0 = Inr db1"
        and f: "f = candidate"
        using fr False by (auto simp: freeze_or_reuse_def head Some cg rbind_eq_Inr rmap_eq_Inr split: if_splits)
      note ins = insert_root_inv [OF i inv ok]
      define hit where "hit = (\<lambda>h :: intent_head. ih_lottery_id h = fi_lottery_id cur \<and> ih_current_intent_id h = fi_intent_id cur \<and> ih_generation h = g)"
      define upd where "upd = (\<lambda>h :: intent_head. if hit h then h\<lparr>ih_current_intent_id := fi_intent_id candidate, ih_generation := ih_generation h + 1\<rparr> else h)"
      have db1: "db1 = db0\<lparr>idb_heads := map upd (idb_heads db0)\<rparr>"
        using h by (auto simp: switch_execution_intent_head_def Let_def upd_def hit_def split: if_splits)
      have root: "root_of E db1 k \<longleftrightarrow> root_of E db0 k" for k by (simp add: root_of_def db1)
      have lot: "ih_lottery_id (upd h) = ih_lottery_id h" for h by (simp add: upd_def)
      have hd: "0 < ih_generation (upd h) \<and> (\<exists>f. root_of E db0 f \<and> fi_intent_id f = ih_current_intent_id (upd h) \<and> fi_lottery_id f = ih_lottery_id (upd h))"
        if "h \<in> set (idb_heads db0)" for h
      proof -
        have old: "0 < ih_generation h \<and> (\<exists>f. root_of E db0 f \<and> fi_intent_id f = ih_current_intent_id h \<and> fi_lottery_id f = ih_lottery_id h)"
          using ins(1) that by (simp add: intents_inv_def)
        show ?thesis
        proof (cases "hit h")
          case True
          then have "fi_lottery_id candidate = ih_lottery_id h" using ld(2) by (simp add: hit_def)
          then show ?thesis using True old ins(2) by (auto simp: upd_def)
        qed (use old in \<open>simp add: upd_def\<close>)
      qed
      have "intents_inv E db1"
        using ins(1) hd unfolding intents_inv_def root by (simp add: db1 lot o_def)
      moreover have "h \<in> set (idb_heads db1) \<or> (\<exists>h' \<in> set (idb_heads db1). ih_lottery_id h' = ih_lottery_id h \<and> ih_generation h' = ih_generation h + 1
          \<and> ih_current_intent_id h' = fi_intent_id candidate) \<and> ih_lottery_id h = fi_lottery_id candidate" if "h \<in> set (idb_heads db)" for h
      proof (cases "hit h")
        case True
        then have "ih_lottery_id h = fi_lottery_id candidate" using ld(2) by (simp add: hit_def)
        moreover have "upd h \<in> set (idb_heads db1)" using that by (simp add: db1 ins(3))
        ultimately show ?thesis using True by (intro disjI2 conjI bexI [of _ "upd h"]) (simp_all add: upd_def)
      next
        case False
        then have "upd h = h" by (simp add: upd_def)
        moreover have "upd h \<in> set (idb_heads db1)" using that by (simp add: db1 ins(3))
        ultimately show ?thesis by simp
      qed
      ultimately show ?goal using ins(2) al by (auto simp: root f) (auto simp: db1 ins(3))
    qed
  qed
  then show "intents_inv E db1" "root_of E db1 f" "idb_bindings db1 = idb_bindings db" "prefix (idb_roots db) (idb_roots db1)"
    "\<And>h. h \<in> set (idb_heads db) \<Longrightarrow> h \<in> set (idb_heads db1) \<or> (allow \<and> ih_lottery_id h = fi_lottery_id candidate
      \<and> (\<exists>h' \<in> set (idb_heads db1). ih_lottery_id h' = ih_lottery_id h \<and> ih_generation h' = ih_generation h + 1 \<and> ih_current_intent_id h' = fi_intent_id candidate))"
    by blast+
qed


lemma add_binding_inv:
  assumes "insert_task_binding b db = Inr db'" "intents_inv E db" "root_of E db f" "authorised E f b"
  shows "intents_inv E db'" "db' = db\<lparr>idb_bindings := idb_bindings db @ [b]\<rparr>"
proof -
  show db': "db' = db\<lparr>idb_bindings := idb_bindings db @ [b]\<rparr>" using assms(1) by (auto simp: insert_task_binding_def split: if_splits)
  have new: "tb_task_id b \<notin> tb_task_id ` set (idb_bindings db)" using assms(1) by (auto simp: insert_task_binding_def list_ex_iff split: if_splits)
  have root: "root_of E db' g \<longleftrightarrow> root_of E db g" for g by (simp add: root_of_def db')
  show "intents_inv E db'" using assms(2-4) new unfolding intents_inv_def root by (auto simp: db')
qed

definition step_effect :: "task_binding \<Rightarrow> frozen_db \<Rightarrow> frozen_db \<Rightarrow> bool" where
  "step_effect b db db' \<longleftrightarrow> prefix (idb_roots db) (idb_roots db') \<and> idb_bindings db' = idb_bindings db @ [b]
     \<and> (\<forall>h \<in> set (idb_heads db). h \<in> set (idb_heads db') \<or> (tb_kind b = ''full'' \<and> ih_lottery_id h = tb_lottery_id b
       \<and> (\<exists>h' \<in> set (idb_heads db'). ih_lottery_id h' = ih_lottery_id h \<and> ih_generation h' = ih_generation h + 1 \<and> ih_current_intent_id h' = tb_intent_id b)))"

lemma persist_full_inv:
  assumes hex: "\<And>s. lower_hex64 (px_sha E s)" and inv: "intents_inv E db"
    and p: "persist_full_execution_intent E fresh lottery task account pb evidence lease gen supersede db = Inr (b, db')"
  shows "intents_inv E db' \<and> (\<exists>f. root_of E db' f \<and> authorised E f b) \<and> tb_kind b = ''full'' \<and> prefix (idb_roots db) (idb_roots db')
    \<and> idb_bindings db' = idb_bindings db @ [b] \<and> step_effect b db db' \<and> (\<not> supersede \<longrightarrow> set (idb_heads db) \<subseteq> set (idb_heads db'))"
proof -
  obtain cand f db1 where c: "build_frozen_execution_intent E fresh lottery task account pb PNone = Inr cand"
    and fz: "freeze_or_reuse E cand supersede db = Inr (f, db1)"
    and bd: "build_task_execution_intent_binding E (intent_row f)
       \<lparr>br_task_id = task, br_account_id = account, br_kind = ''full'', br_actions = str_list (fi_required_actions f),
        br_plan = PDict (fi_plan f), br_evidence_id = evidence,
        br_execution_path_id = str_or_empty E (dget pb ''execution_path_id''),
        br_target_hash = str_or_empty E (dget pb ''target_hash''),
        br_config_hash = str_or_empty E (dget pb ''config_hash''),
        br_revision = dget pb ''execution_revision'', br_lease_id = lease, br_lease_generation = gen\<rparr> = Inr b"
    and ib: "insert_task_binding b db1 = Inr db'"
    using p unfolding persist_full_execution_intent_def by (auto simp: rbind_eq_Inr rmap_eq_Inr)
  obtain cv where cv: "frozen_ok E cand cv" using build_ok [OF hex c] by blast
  note fi = freeze_inv [OF fz inv cv]
  obtain fv where fv: "frozen_ok E f fv" using fi(2) by (auto simp: root_of_def)
  have au: "authorised E f b" and kind: "tb_kind b = ''full''"
    by (rule bindingD(1) [OF bd fv], auto simp: plan_derived_def str_list_def inj_PStr_map)
      (subst bindingD(3) [OF bd fv], auto simp: plan_derived_def str_list_def inj_PStr_map)
  note ab = add_binding_inv [OF ib fi(1,2) au]
  have id: "f = cand" if "\<not> set (idb_heads db) \<subseteq> set (idb_heads db1)"
    using that fz by (auto simp: freeze_or_reuse_def rbind_eq_Inr rmap_eq_Inr split: option.splits if_splits)
  have root: "root_of E db' f" using fi(2) by (simp add: root_of_def ab(2))
  have "tb_lottery_id b = fi_lottery_id f" "tb_intent_id b = fi_intent_id f" using au by (simp_all add: authorised_def)
  then have "step_effect b db db'" unfolding step_effect_def using fi(3,4,5) id kind by (auto simp: ab(2))
  then show ?thesis using ab fi kind au root by auto
qed

lemma persist_repair_inv:
  assumes inv: "intents_inv E db" and r: "root_of E db f"
    and p: "persist_repair_execution_binding E (intent_row f) task account requested evidence config revision lease gen db = Inr (b, db')"
  shows "intents_inv E db' \<and> authorised E f b \<and> tb_kind b = ''repair'' \<and> db' = db\<lparr>idb_bindings := idb_bindings db @ [b]\<rparr>"
proof -
  obtain fv where fv: "frozen_ok E f fv" using r by (auto simp: root_of_def)
  have c: "coerce_frozen_execution_intent E (intent_row f) = Inr f" by (rule coerce_row_ok [OF fv])
  obtain s where s: "build_repair_execution_subset E (intent_row f) requested = Inr s"
    and bd: "build_task_execution_intent_binding E (intent_row f)
       \<lparr>br_task_id = task, br_account_id = PInt account, br_kind = ''repair'', br_actions = str_list (rq_actions s),
        br_plan = PDict (rq_plan s), br_evidence_id = evidence, br_execution_path_id = PStr (fi_execution_path_id f),
        br_target_hash = PStr (fi_target_hash f), br_config_hash = config, br_revision = revision,
        br_lease_id = lease, br_lease_generation = gen\<rparr> = Inr b"
    and ib: "insert_task_binding b db = Inr db'"
    using p unfolding persist_repair_execution_binding_def c by (auto simp: rbind_eq_Inr rmap_eq_Inr split: if_splits)
  have der: "br_plan req = PDict plan \<Longrightarrow> br_actions req = str_list r \<Longrightarrow> plan_derived E f (br_kind req) r plan"
    if "br_plan req = PDict (rq_plan s)" "br_actions req = str_list (rq_actions s)" "br_kind req = ''repair''" for req plan r
    using repair_subsetD(4) [OF s fv] that by (auto simp: str_list_def inj_PStr_map)
  have au: "authorised E f b" and kind: "tb_kind b = ''repair''"
    using bindingD(1,3) [OF bd fv der] by simp_all
  show ?thesis using add_binding_inv [OF ib inv r au] au kind by simp
qed


lemma intent_step_inv:
  assumes hex: "\<And>s. lower_hex64 (px_sha E s)" and st: "intent_step E db b db'" and inv: "intents_inv E db"
  shows "intents_inv E db' \<and> step_effect b db db'"
  using st
proof cases
  case (full fresh lottery task account pb evidence lease gen supersede)
  then show ?thesis using persist_full_inv [OF hex inv] by blast
next
  case (repair l f task account requested evidence config revision lease gen)
  obtain g where "load_lottery_execution_intent_head E db l = Inr (Some (f, g))"
    using repair(1) by (auto simp: load_lottery_execution_intent_def rmap_eq_Inr eq_commute [of "Some f"])
  then have "root_of E db f" by (rule load_headD(1) [OF _ inv])
  note st = persist_repair_inv [OF inv this repair(2)]
  moreover have "step_effect b db db'" using st unfolding step_effect_def by auto
  ultimately show ?thesis by blast
qed

definition good_sha :: "plan_env \<Rightarrow> bool" where
  "good_sha E \<longleftrightarrow> (\<forall>s. lower_hex64 (px_sha E s))"

text \<open>The transaction system with a digest that prints 64 hexadecimal digits.\<close>

definition intent_step_sha :: "plan_env \<Rightarrow> frozen_db \<Rightarrow> task_binding \<Rightarrow> frozen_db \<Rightarrow> bool" where
  "intent_step_sha E db b db' \<longleftrightarrow> good_sha E \<and> intent_step E db b db'"

interpretation intent_runs: invariant_system intents_init "intent_step_sha E" "intents_inv E" for E
proof unfold_locales
  show "intents_inv E s" if "intents_init s" for s using that by (simp add: intents_init_def intents_inv_def)
  show "intents_inv E s'" if "intents_inv E s" "intent_step_sha E s e s'" for s e s'
    using intent_step_inv [of E s e s'] that by (auto simp: intent_step_sha_def good_sha_def)
qed

section \<open>Properties\<close>

text \<open>
  C9. An executable plan that is accepted is bound to what was reviewed. Its hash is the digest of its
  own canonical content, a reviewer attested it, its platform is registered and its path is one of the
  platform's paths for real actions, its actions are a duplicate-free selection in the platform's order,
  each with exactly one payload and none with media; every topic tag and mention the rule demands of a
  comment or repost occurs in the reviewed text (a mention as a complete handle), and a follow goes to
  the single reviewed target.
\<close>

theorem accepted_plan_is_bound:
  assumes "validate_action_plan_v2 E pv True True = Inr v"
  shows "vp_plan_hash v = compute_action_plan_hash E (vp_plan v) \<and> review_attested (vp_plan v)
    \<and> (\<exists>m path. plan_module (vp_plan v) = Some m \<and> path \<in> set (pf_paths m) \<and> path_id path = vp_execution_path_id v \<and> path_real_actions path
        \<and> ordered_actions (pf_action_order m) (vp_required_actions v))
    \<and> map fst (vp_action_payloads v) = vp_required_actions v \<and> \<not> has_media (vp_action_payloads v)
    \<and> (\<forall>a \<in> set CONTENT_REQUIREMENT_ACTIONS. carries (vp_action_payloads v) (vp_content_requirements v) a)
    \<and> (''followed'' \<in> set (vp_required_actions v) \<longrightarrow> (\<exists>h. cr_follow_targets (vp_content_requirements v) = [h]
        \<and> payload_field (vp_action_payloads v) ''followed'' ''target_handle'' PNone = PStr h))"
proof -
  obtain m where m: "plan_module (vp_plan v) = Some m" "m \<in> set PLATFORM_REGISTRY" "ordered_actions (pf_action_order m) (vp_required_actions v)"
    and ok: "plan_content_ok E m True v" and h: "vp_plan_hash v = compute_action_plan_hash E (vp_plan v)" "review_attested (vp_plan v)"
    and p: "vp_execution_path_id v \<in> path_id ` set (pf_paths m)" "non_executable_error m (PStr (vp_execution_path_id v)) = None"
    using assms by (rule accepted_plan_structure) simp_all
  obtain path where path: "path \<in> set (pf_paths m)" "path_id path = vp_execution_path_id v" using p(1) by auto
  have "path_real_actions path"
  proof -
    have "path_real_actions path \<longleftrightarrow> map_of (pf_non_executable_path_errors m) (path_id path) = None"
      using registry_paths m(2) path(1) unfolding list_all_iff by blast
    then show ?thesis using p(2) path(2) by (simp add: non_executable_error_def)
  qed
  moreover have "\<exists>h. cr_follow_targets (vp_content_requirements v) = [h] \<and> payload_field (vp_action_payloads v) ''followed'' ''target_handle'' PNone = PStr h"
    if "''followed'' \<in> set (vp_required_actions v)"
    using ok that by (auto simp: plan_content_ok_def first_error_append first_error_ok follow_checks_def length_Suc_conv)
  ultimately show ?thesis using m path h ok plan_carries [OF ok] unfolding plan_content_ok_def good_payloads_def by blast
qed

text \<open>
  C26. A frozen intent survives storage. Whatever intent is built from a lottery, a task and a plan
  binding, reading its row back and revalidating every hash gives the same intent.
\<close>

theorem frozen_intent_round_trip:
  assumes "good_sha E" "build_frozen_execution_intent E fresh lottery task account pb i = Inr f"
  shows "coerce_frozen_execution_intent E (intent_row f) = Inr f"
  using build_ok [of E, OF _ assms(2)] assms(1) coerce_row_ok unfolding good_sha_def by blast

text \<open>
  C25. A repair is possible and exact. For every stored intent and every non-empty strict subset of its
  actions in order (as long as no exact friend count relies on a follow target that is left out), the
  derived plan is accepted by the full validator, asks for exactly the requested actions, carries their
  payloads, rule and path unchanged, and is addressed by its own hash.
\<close>

theorem repair_of_frozen_intent:
  assumes "good_sha E" "coerce_frozen_execution_intent E row = Inr f" "validate_action_plan_v2 E (PDict (fi_plan f)) True True = Inr v"
    and "requested \<noteq> []" "requested = filter (\<lambda>a. a \<in> set requested) (fi_required_actions f)" "length requested < length (fi_required_actions f)"
    and "repairable E v requested"
  shows "\<exists>s w. build_repair_execution_subset E row (str_list requested) = Inr s \<and> rq_actions s = requested
    \<and> rq_plan_hash s = compute_action_plan_hash E (rq_plan s)
    \<and> validate_action_plan_v2 E (PDict (rq_plan s)) True True = Inr w \<and> vp_required_actions w = requested
    \<and> (\<forall>a \<in> set requested. map_of (vp_action_payloads w) a = map_of (vp_action_payloads v) a)
    \<and> vp_rule_hash w = fi_rule_hash f \<and> vp_execution_path_id w = fi_execution_path_id f"
proof -
  obtain v' where ok: "frozen_ok E f v'" using coerceD(1) [OF assms(2)] by blast
  then have v: "v' = v" using assms(3) by (simp add: frozen_ok_def)
  note ok = ok [unfolded v]
  have b: "vp_required_actions v = fi_required_actions f" "vp_execution_path_id v = fi_execution_path_id f" "vp_rule_hash v = fi_rule_hash f"
    "vp_plan v = fi_plan f" "dget (fi_plan f) ''platform'' = PStr (fi_platform f)" "strip (fi_platform f) = fi_platform f" "casefold (fi_platform f) = fi_platform f"
    using ok validated_plan_facts(1) [OF assms(3)] by (auto simp: frozen_ok_def payload_binding_matches_def inj_PStr_map)
  obtain m where m: "get_platform_module (fi_platform f) = Some m" using ok by (auto simp: frozen_ok_def)
  have pm: "plan_module (fi_plan f) = Some m" using m b by (simp add: plan_module_def)
  have d: "distinct requested" using assms(3,5) b(1) by (metis accepted_plan_structure distinct_filter ordered_actions_def)
  define w where "w = subset_result E m v requested"
  have hex: "\<And>s. lower_hex64 (px_sha E s)" using assms(1) by (simp add: good_sha_def)
  have val: "validate_action_plan_v2 E (PDict (subset_plan E m (fi_execution_path_id f) v requested)) True True = Inr w"
    using subset_plan_validates [OF assms(3) hex pm assms(4)] assms(5,7) b(1,2) by (simp add: w_def)
  have sub: "set requested \<subseteq> set (fi_required_actions f)" using assms(5) by (metis filter_is_subset)
  have n: "normalize_requested_actions (fi_required_actions f) (str_list requested) True = Inr requested"
    unfolding normalize_requested_iff using assms(4-6) d sub by simp
  have wf: "vp_required_actions w = requested" "vp_rule_hash w = fi_rule_hash f" "vp_execution_path_id w = fi_execution_path_id f"
    "vp_action_payloads w = restrict_payloads (vp_action_payloads v) requested"
    using b by (simp_all add: w_def subset_result_def restricted_def Let_def)
  have wh: "vp_plan_hash w = compute_action_plan_hash E (vp_plan w)" using val by (rule accepted_plan_structure)
  define s where "s = \<lparr>rq_intent_id = fi_intent_id f, rq_intent_hash = fi_intent_hash f, rq_actions = requested,
           rq_actions_hash = requested_hash E f requested, rq_plan = vp_plan w, rq_plan_hash = vp_plan_hash w\<rparr>"
  have "build_repair_execution_subset E row (str_list requested) = Inr s"
    by (simp add: build_repair_execution_subset_def assms(2,3) n m val lift_plan_def wf(1) s_def)
  moreover have "validate_action_plan_v2 E (PDict (rq_plan s)) True True = Inr w" using val validated_plan_facts(1) [OF val] by (simp add: s_def)
  ultimately show ?thesis using wf wh by (intro exI [of _ s] exI [of _ w]) (simp add: s_def map_of_restrict)
qed

text \<open>
  C8. A task never exceeds its frozen intent. In every reachable state of the tables each task binding
  belongs to a stored root that revalidates, with the same lottery, account, target and path; its actions
  are a non-empty selection of the root's actions in order, and its plan is the root's plan (full) or the
  plan derived for a strict subset (repair).
\<close>

theorem bindings_stay_inside_frozen_intents:
  assumes "reachable intents_init (intent_step_sha E) db" "b \<in> set (idb_bindings db)"
  shows "\<exists>f. intent_row f \<in> set (idb_roots db) \<and> coerce_frozen_execution_intent E (intent_row f) = Inr f
    \<and> tb_intent_id b = fi_intent_id f \<and> tb_lottery_id b = fi_lottery_id f \<and> tb_account_id b = fi_source_account_id f
    \<and> tb_target_hash b = fi_target_hash f \<and> tb_execution_path_id b = fi_execution_path_id f
    \<and> tb_actions b \<noteq> [] \<and> tb_actions b = filter (\<lambda>a. a \<in> set (tb_actions b)) (fi_required_actions f)
    \<and> plan_derived E f (tb_kind b) (tb_actions b) (tb_plan b)"
proof -
  have "intents_inv E db" using assms(1) by (rule intent_runs.inv_reachable)
  then obtain f where f: "root_of E db f" "authorised E f b" using assms(2) by (auto simp: intents_inv_def)
  obtain v where "frozen_ok E f v" using f(1) by (auto simp: root_of_def)
  then have "coerce_frozen_execution_intent E (intent_row f) = Inr f" by (rule coerce_row_ok)
  then show ?thesis using f by (intro exI [of _ f]) (simp add: root_of_def authorised_def binding_context_ok_def)
qed

text \<open>
  Intents are append-only. A committed transaction keeps every root and binding, adds exactly its own
  binding, and moves a head only for the lottery of a full binding: to the intent of that binding, one
  generation further.
\<close>

theorem intents_are_append_only:
  assumes "reachable intents_init (intent_step_sha E) db" "intent_step_sha E db b db'"
  shows "prefix (idb_roots db) (idb_roots db') \<and> idb_bindings db' = idb_bindings db @ [b]
    \<and> (\<forall>h \<in> set (idb_heads db). h \<in> set (idb_heads db') \<or> (tb_kind b = ''full'' \<and> ih_lottery_id h = tb_lottery_id b
        \<and> (\<exists>h' \<in> set (idb_heads db'). ih_lottery_id h' = ih_lottery_id h \<and> ih_generation h' = ih_generation h + 1 \<and> ih_current_intent_id h' = tb_intent_id b)))"
proof -
  have inv: "intents_inv E db" using assms(1) by (rule intent_runs.inv_reachable)
  have "step_effect b db db'"
    using intent_step_inv [of E db b db'] assms(2) inv unfolding intent_step_sha_def good_sha_def by blast
  then show ?thesis unfolding step_effect_def .
qed


section \<open>Witnesses\<close>

definition demo_digest :: string where "demo_digest = replicate 64 (CHR ''a'')"

definition demo_plan_env :: plan_env where
  "demo_plan_env = \<lparr>px_sha = (\<lambda>_. demo_digest), px_float = (\<lambda>_. []), px_ident = lower, px_loads = (\<lambda>s. if s = ''['' @ json_string ''followed'' @ '', '' @ json_string ''liked'' @ '']''
       then Some (PList [PStr ''followed'', PStr ''liked'']) else None), px_repr = (\<lambda>_. [])\<rparr>"

definition demo_empty_requirements :: pyval where
  "demo_empty_requirements = PDict [(''topic_tags'', PList []), (''mentions'', PList [])]"

text \<open>A reviewed plan of two actions on one platform, and a plan whose comment mentions the follow target and one friend.\<close>

definition demo_plan_of :: "string \<Rightarrow> string \<Rightarrow> pyval list \<Rightarrow> pydict \<Rightarrow> pyval \<Rightarrow> pyval \<Rightarrow> pydict \<Rightarrow> pydict \<Rightarrow> pydict" where
  "demo_plan_of platform path acts payloads bound source friends caps =
     [(''version'', PInt 2), (''platform'', PStr platform), (''execution_path_id'', PStr path), (''executable'', PBool True),
      (''review_required'', PBool False), (''reviewed_by'', PStr ''op''), (''rule_complete_confirmed'', PBool True),
      (''rule_snapshot_id'', PInt 7), (''rule_hash'', PStr demo_digest), (''plan_hash'', PStr demo_digest),
      (''required_actions'', PList acts), (''action_payloads'', PDict payloads), (''content_requirements'', bound),
      (''source_content_requirements'', source), (''friend_mention_requirements'', PDict friends),
      (''runtime_capability_requirements'', PDict caps)]"

definition demo_requirements :: "pyval list \<Rightarrow> pyval list \<Rightarrow> pyval" where
  "demo_requirements targets mentions = PDict [(''follow_targets'', PList targets),
     (''commented'', PDict [(''topic_tags'', PList []), (''mentions'', PList mentions)]), (''reposted'', demo_empty_requirements)]"

definition demo_plan :: pydict where
  "demo_plan = demo_plan_of ''bilibili'' ''bilibili_api_v2'' [PStr ''followed'', PStr ''liked'']
     [(''followed'', PDict [(''target_handle'', PStr ''@up'')]), (''liked'', PDict [])]
     (demo_requirements [PStr ''@up''] []) (demo_requirements [PStr ''@up''] []) [] []"

definition demo_friend_plan :: pydict where
  "demo_friend_plan = demo_plan_of ''bilibili'' ''bilibili_api_v2'' [PStr ''followed'', PStr ''commented'']
     [(''followed'', PDict [(''target_handle'', PStr ''@up'')]),
      (''commented'', PDict [(''text'', PStr ''@up @friend''), (''mentions'', PList [PStr ''@up'', PStr ''@friend''])])]
     (demo_requirements [PStr ''@up''] [PStr ''@up'', PStr ''@friend'']) (demo_requirements [PStr ''@up''] [])
     [(''commented'', PDict [(''mode'', PStr ''exact''), (''count'', PInt 1)])] []"

definition demo_uuid :: "char \<Rightarrow> string" where
  "demo_uuid c = replicate 8 c @ ''-'' @ replicate 4 c @ ''-'' @ replicate 4 c @ ''-'' @ replicate 4 c @ ''-'' @ replicate 12 c"

definition demo_lottery :: "pydict \<Rightarrow> pydict" where
  "demo_lottery plan = [(''id'', PInt 5), (''platform'', PStr ''bilibili''), (''raw_url'', PStr ''https://t.bilibili.com/1234567890''), (''canonical_url'', PStr ''https://t.bilibili.com/1234567890''),
     (''authoritative_rule_snapshot_id'', PInt 7), (''rule_hash'', PStr demo_digest), (''action_plan_hash'', PStr demo_digest),
     (''action_plan'', PDict plan)]"

definition demo_plan_binding :: "pydict \<Rightarrow> pyval \<Rightarrow> pydict" where
  "demo_plan_binding plan actions = [(''action_plan'', PDict plan), (''rule_snapshot_id'', PInt 7), (''rule_hash'', PStr demo_digest),
     (''action_plan_hash'', PStr demo_digest), (''execution_path_id'', PStr ''bilibili_api_v2''), (''target_hash'', PStr demo_digest),
     (''required_actions'', actions), (''config_hash'', PStr demo_digest), (''execution_revision'', PInt 1)]"

definition demo_intent_of :: "pydict \<Rightarrow> pyval \<Rightarrow> (ei_error, frozen_intent) result" where
  "demo_intent_of plan actions = build_frozen_execution_intent demo_plan_env (demo_uuid (CHR ''1'')) (demo_lottery plan) (PStr (demo_uuid (CHR ''2'')))
     (PInt 3) (demo_plan_binding plan actions) PNone"

definition demo_validated :: validated_plan where
  "demo_validated = \<lparr>vp_plan = demo_plan, vp_plan_hash = demo_digest, vp_rule_snapshot_id = 7, vp_rule_hash = demo_digest,
     vp_execution_path_id = ''bilibili_api_v2'', vp_required_actions = [''followed'', ''liked''],
     vp_action_payloads = [(''followed'', [(''target_handle'', PStr ''@up'')]), (''liked'', [])],
     vp_content_requirements = \<lparr>cr_follow_targets = [''@up''], cr_commented = ([], []), cr_reposted = ([], [])\<rparr>,
     vp_source_content_requirements = \<lparr>cr_follow_targets = [''@up''], cr_commented = ([], []), cr_reposted = ([], [])\<rparr>,
     vp_friend_mention_requirements = [], vp_runtime_capability_requirements = []\<rparr>"

lemma demo_plan_validated: "validate_action_plan_v2 demo_plan_env (PDict demo_plan) True True = Inr demo_validated"
  by code_simp

lemma demo_uuid_ok: "is_uuid (demo_uuid (CHR ''1''))" "is_uuid (demo_uuid (CHR ''2''))" "is_uuid (demo_uuid (CHR ''3''))" "is_uuid (demo_uuid (CHR ''4''))"
  by code_simp+

lemma demo_digest_ok: "lower_hex64 demo_digest"
  by (simp add: lower_hex64_def demo_digest_def list_all_iff)

lemma demo_good_sha: "good_sha demo_plan_env"
  by (simp add: good_sha_def demo_plan_env_def demo_digest_ok)

lemma demo_strings: "strip ''bilibili'' = ''bilibili''" "strip ''https://t.bilibili.com/1234567890'' = ''https://t.bilibili.com/1234567890''" "strip ''bilibili_api_v2'' = ''bilibili_api_v2''"
  "casefold ''bilibili'' = ''bilibili''"
  by code_simp+

lemma demo_module: "get_platform_module ''bilibili'' = Some BILIBILI_PLATFORM"
  by (simp add: get_platform_module_def demo_strings PLATFORM_REGISTRY_def BILIBILI_PLATFORM_def)

definition demo_intent :: frozen_intent where
  "demo_intent = \<lparr>fi_intent_id = demo_uuid (CHR ''1''), fi_intent_hash = demo_digest, fi_lottery_id = 5, fi_source_task_id = demo_uuid (CHR ''2''),
     fi_source_account_id = 3, fi_platform = ''bilibili'', fi_raw_url = ''https://t.bilibili.com/1234567890'', fi_canonical_url = ''https://t.bilibili.com/1234567890'', fi_plan = demo_plan,
     fi_plan_hash = demo_digest, fi_required_actions = [''followed'', ''liked''], fi_required_actions_hash = demo_digest, fi_rule_snapshot_id = 7,
     fi_rule_hash = demo_digest, fi_execution_path_id = ''bilibili_api_v2'', fi_target_hash = demo_digest\<rparr>"

lemma demo_hashes [simp]: "json_hash demo_plan_env x = demo_digest" "px_sha demo_plan_env y = demo_digest"
  by (simp_all add: json_hash_def demo_plan_env_def)

lemma demo_requires: "require_hash (PStr demo_digest) c = Inr demo_digest" "require_uuid (PStr (demo_uuid (CHR ''1''))) c = Inr (demo_uuid (CHR ''1''))"
  "require_uuid (PStr (demo_uuid (CHR ''2''))) c = Inr (demo_uuid (CHR ''2''))" "require_uuid (PStr (demo_uuid (CHR ''3''))) c = Inr (demo_uuid (CHR ''3''))"
  "require_uuid (PStr (demo_uuid (CHR ''4''))) c = Inr (demo_uuid (CHR ''4''))"
  by (simp_all add: requires demo_uuid_ok demo_digest_ok)

lemma demo_built: "demo_intent_of demo_plan (PList [PStr ''followed'', PStr ''liked'']) = Inr demo_intent"
proof -
  have t: "lottery_target (demo_lottery demo_plan) = Inr (5, ''bilibili'', ''https://t.bilibili.com/1234567890'', ''https://t.bilibili.com/1234567890'')"
    by (simp add: lottery_target_def demo_lottery_def require_positive_int_def require_string_def demo_strings demo_module MAX_TARGET_URL_LENGTH_def)
  have pl: "dget demo_plan ''platform'' = PStr ''bilibili''" by (simp add: demo_plan_def demo_plan_of_def)
  have f: "full_binding_target demo_plan_env (demo_lottery demo_plan) (demo_plan_binding demo_plan (PList [PStr ''followed'', PStr ''liked'']))
      demo_validated ''https://t.bilibili.com/1234567890'' = Inr demo_digest"
    by (simp add: full_binding_target_def demo_plan_binding_def require_positive_int_def require_string_def demo_requires demo_strings py_tuple_def
        full_binding_matches_def demo_validated_def compute_target_hash_def demo_lottery_def)
  have st: "stored_plan_matches demo_plan_env (demo_lottery demo_plan) demo_validated = Inr ()"
    by (simp add: stored_plan_matches_def demo_lottery_def parse_stored_json_def demo_validated_def)
  have "validated_full_intent_inputs demo_plan_env (demo_lottery demo_plan) (demo_plan_binding demo_plan (PList [PStr ''followed'', PStr ''liked'']))
      = Inr ((5, ''bilibili'', ''https://t.bilibili.com/1234567890'', ''https://t.bilibili.com/1234567890''), demo_validated, demo_digest)"
    unfolding validated_full_intent_inputs_def t by (simp add: demo_plan_binding_def demo_plan_validated lift_plan_def pl demo_validated_def)
      (use f st in \<open>simp add: demo_plan_binding_def demo_validated_def\<close>)
  then show ?thesis
    by (simp add: demo_intent_of_def build_frozen_execution_intent_def py_or_def demo_requires require_positive_int_def Let_def
        compute_intent_hash_def required_actions_hash_def demo_intent_def demo_validated_def)
qed

theorem accepted_plan_is_bound_witness:
  "vp_plan_hash demo_validated = compute_action_plan_hash demo_plan_env (vp_plan demo_validated) \<and> review_attested demo_plan
   \<and> map fst (vp_action_payloads demo_validated) = [''followed'', ''liked'']"
  using accepted_plan_is_bound [OF demo_plan_validated] by (simp add: demo_validated_def)

theorem frozen_intent_round_trip_witness:
  "coerce_frozen_execution_intent demo_plan_env (intent_row demo_intent) = Inr demo_intent"
  by (rule frozen_intent_round_trip [OF demo_good_sha demo_built [unfolded demo_intent_of_def]])

theorem repair_of_frozen_intent_witness:
  "\<exists>s. build_repair_execution_subset demo_plan_env (intent_row demo_intent) (str_list [''liked'']) = Inr s \<and> rq_actions s = [''liked'']"
proof -
  have c: "coerce_frozen_execution_intent demo_plan_env (intent_row demo_intent) = Inr demo_intent"
    using build_ok [OF _ demo_built [unfolded demo_intent_of_def]] coerce_row_ok demo_good_sha unfolding good_sha_def by blast
  have v: "validate_action_plan_v2 demo_plan_env (PDict (fi_plan demo_intent)) True True = Inr demo_validated"
    by (simp add: demo_intent_def demo_plan_validated)
  show ?thesis
    using repair_of_frozen_intent [OF demo_good_sha c v, of "[''liked'']"]
    by (fastforce simp: demo_intent_def repairable_def demo_validated_def)
qed

text \<open>
  The repair of a comment whose exact number of friends was met only because the follow target does
  not count as a friend: the derived plan is refused.
\<close>

definition demo_friend_validated :: validated_plan where
  "demo_friend_validated = \<lparr>vp_plan = demo_friend_plan, vp_plan_hash = demo_digest, vp_rule_snapshot_id = 7, vp_rule_hash = demo_digest,
     vp_execution_path_id = ''bilibili_api_v2'', vp_required_actions = [''followed'', ''commented''],
     vp_action_payloads = [(''followed'', [(''target_handle'', PStr ''@up'')]),
       (''commented'', [(''text'', PStr ''@up @friend''), (''mentions'', PList [PStr ''@up'', PStr ''@friend''])])],
     vp_content_requirements = \<lparr>cr_follow_targets = [''@up''], cr_commented = ([], [''@up'', ''@friend'']), cr_reposted = ([], [])\<rparr>,
     vp_source_content_requirements = \<lparr>cr_follow_targets = [''@up''], cr_commented = ([], []), cr_reposted = ([], [])\<rparr>,
     vp_friend_mention_requirements = [(''commented'', ''exact'', 1)], vp_runtime_capability_requirements = []\<rparr>"

lemma demo_friend_plan_validated: "validate_action_plan_v2 demo_plan_env (PDict demo_friend_plan) True True = Inr demo_friend_validated"
  by code_simp

lemma demo_friend_subset_refused:
  "validate_action_plan_v2 demo_plan_env (PDict (subset_plan demo_plan_env BILIBILI_PLATFORM ''bilibili_api_v2'' demo_friend_validated [''commented''])) True True
   = Inl (Code ''action_plan_friend_mention_count_mismatch'')"
  by code_simp


lemma exact_friend_repair_fails:
  assumes "coerce_frozen_execution_intent demo_plan_env row = Inr f" "fi_plan f = demo_friend_plan"
  shows "build_repair_execution_subset demo_plan_env row (str_list [''commented''])
    = Inl (Ei ''execution_intent_repair_action_plan_friend_mention_count_mismatch'')"
proof -
  obtain v where "frozen_ok demo_plan_env f v" using coerceD(1) [OF assms(1)] by blast
  then have "fi_required_actions f = [''followed'', ''commented'']" "fi_execution_path_id f = ''bilibili_api_v2''" "fi_platform f = ''bilibili''"
    using assms(2) demo_friend_plan_validated
    by (auto simp: frozen_ok_def payload_binding_matches_def inj_PStr_map demo_friend_validated_def demo_friend_plan_def demo_plan_of_def)
  then show ?thesis
    by (simp add: build_repair_execution_subset_def assms demo_friend_plan_validated lift_plan_def demo_module demo_friend_subset_refused
        normalize_requested_actions_def str_list_def)
qed

definition demo_binding :: task_binding where
  "demo_binding = \<lparr>tb_task_id = demo_uuid (CHR ''2''), tb_intent_id = demo_uuid (CHR ''1''), tb_intent_hash = demo_digest, tb_lottery_id = 5,
     tb_account_id = 3, tb_kind = ''full'', tb_actions = [''followed'', ''liked''], tb_actions_hash = demo_digest, tb_plan = demo_plan,
     tb_plan_hash = demo_digest, tb_evidence_plan_hash = demo_digest, tb_rule_snapshot_id = 7, tb_rule_hash = demo_digest,
     tb_evidence_id = demo_uuid (CHR ''3''), tb_evidence_kind = ''exact_execution_evidence'', tb_exact_evidence_id = Some (demo_uuid (CHR ''3'')),
     tb_oauth_calibration_id = None, tb_execution_path_id = ''bilibili_api_v2'', tb_target_hash = demo_digest, tb_config_hash = demo_digest,
     tb_revision = 1, tb_lease_id = demo_uuid (CHR ''4''), tb_lease_generation = 1, tb_binding_hash = demo_digest\<rparr>"

definition empty_intents :: frozen_db where
  "empty_intents = \<lparr>idb_roots = [], idb_heads = [], idb_bindings = []\<rparr>"

definition demo_intents :: frozen_db where
  "demo_intents = \<lparr>idb_roots = [intent_row demo_intent],
     idb_heads = [\<lparr>ih_lottery_id = 5, ih_current_intent_id = demo_uuid (CHR ''1''), ih_generation = 1\<rparr>], idb_bindings = [demo_binding]\<rparr>"

lemma demo_coerced: "coerce_frozen_execution_intent demo_plan_env (intent_row demo_intent) = Inr demo_intent"
  using build_ok [OF _ demo_built [unfolded demo_intent_of_def]] coerce_row_ok demo_good_sha unfolding good_sha_def by blast

lemma demo_evidence: "evidence_kind_of demo_intent = Some ''exact_execution_evidence''"
  by (simp add: evidence_kind_of_def demo_intent_def demo_module execution_evidence_kind_for_def BILIBILI_PLATFORM_def demo_strings)

lemma demo_persisted:
  "persist_full_execution_intent demo_plan_env (demo_uuid (CHR ''1'')) (demo_lottery demo_plan) (PStr (demo_uuid (CHR ''2''))) (PInt 3)
     (demo_plan_binding demo_plan (PList [PStr ''followed'', PStr ''liked''])) (PStr (demo_uuid (CHR ''3''))) (PStr (demo_uuid (CHR ''4''))) (PInt 1) True empty_intents
   = Inr (demo_binding, demo_intents)"
proof -
  have fz: "freeze_or_reuse demo_plan_env demo_intent True empty_intents = Inr (demo_intent, demo_intents\<lparr>idb_bindings := []\<rparr>)"
    by (simp add: freeze_or_reuse_def load_lottery_execution_intent_head_def head_rows_def empty_intents_def insert_frozen_intent_def
        insert_execution_intent_head_def demo_intents_def) (simp add: demo_intent_def)
  have se: "str_or_empty demo_plan_env (PStr x) = PStr x" for x by (simp add: str_or_empty_def py_or_def)
  have plan: "bound_plan_checked demo_plan_env demo_intent ''full'' [''followed'', ''liked''] (PDict (fi_plan demo_intent)) = Inr demo_validated"
    by (simp add: bound_plan_checked_def demo_intent_def demo_plan_validated lift_plan_def) (simp add: demo_validated_def)
  have bd: "build_task_execution_intent_binding demo_plan_env (intent_row demo_intent)
      \<lparr>br_task_id = PStr (demo_uuid (CHR ''2'')), br_account_id = PInt 3, br_kind = ''full'', br_actions = str_list (fi_required_actions demo_intent),
       br_plan = PDict (fi_plan demo_intent), br_evidence_id = PStr (demo_uuid (CHR ''3'')), br_execution_path_id = PStr ''bilibili_api_v2'',
       br_target_hash = PStr demo_digest, br_config_hash = PStr demo_digest, br_revision = PInt 1, br_lease_id = PStr (demo_uuid (CHR ''4'')),
       br_lease_generation = PInt 1\<rparr> = Inr demo_binding"
  proof -
    have n: "normalize_requested_actions (fi_required_actions demo_intent) (str_list (fi_required_actions demo_intent)) False = Inr [''followed'', ''liked'']"
      by (simp add: normalize_requested_iff demo_intent_def)
    have k: "require_string (PStr ''full'') c (Some 16) = Inr ''full''" for c
      by (simp add: requires fits_def) code_simp
    show ?thesis unfolding build_task_execution_intent_binding_def demo_coerced rbind.simps binding_request.simps k
      by (simp add: EXECUTION_INTENT_KINDS_def n plan demo_evidence checked_context_def demo_requires require_positive_int_def require_string_def demo_strings
          EXECUTION_EVIDENCE_KINDS_def)
        (simp add: demo_intent_def demo_binding_def demo_validated_def requested_hash_def)
  qed
  show ?thesis
    unfolding persist_full_execution_intent_def demo_built [unfolded demo_intent_of_def] rbind.simps fz prod.case
    using bd by (simp add: demo_plan_binding_def se insert_task_binding_def demo_intents_def)
qed

lemma demo_intent_step: "intent_step_sha demo_plan_env empty_intents demo_binding demo_intents"
  unfolding intent_step_sha_def using demo_good_sha intent_step.full [OF demo_persisted] by blast

lemma demo_empty_reachable: "reachable intents_init (intent_step_sha demo_plan_env) empty_intents"
  by (rule reach_init) (simp add: intents_init_def empty_intents_def)

theorem bindings_stay_inside_frozen_intents_witness:
  "\<exists>f. intent_row f \<in> set (idb_roots demo_intents) \<and> tb_actions demo_binding = filter (\<lambda>a. a \<in> set (tb_actions demo_binding)) (fi_required_actions f)"
  using bindings_stay_inside_frozen_intents [OF reach_step [OF demo_empty_reachable demo_intent_step], of demo_binding]
  by (auto simp: demo_intents_def)

theorem intents_are_append_only_witness: "idb_bindings demo_intents = idb_bindings empty_intents @ [demo_binding]"
  using intents_are_append_only [OF demo_empty_reachable demo_intent_step] by blast

end
