(* ===== verification/WorkerPlan.thy ===== *)
theory WorkerPlan
  imports IntentSafety
begin

text \<open>
  The validator the worker runs before it executes a plan (\<open>worker/app/action_plan.py\<close>), with the
  contract of each platform (\<open>worker/app/platform_modules/contracts/\<close>): a second implementation, over its own
  tables, of what \<open>ActionPlan\<close> models for the core. The functions of the two modules whose text is the
  same (payloads, metadata, requirements, friend mentions, hashes) are shared; what differs is written out here. The
  theorem at the end shows that the two give the same result, error codes included, on every value.
\<close>

section \<open>Contracts\<close>

record action_plan_contract =
  ct_platform_id :: string
  ct_action_order :: "string list"
  ct_default_path :: string
  ct_allowed_paths :: "string list option"
  ct_path_error :: string
  ct_must_be_non_executable :: bool
  ct_non_executable_paths :: "string list"
  ct_fixed_actions :: "string list option"
  ct_fixed_actions_error :: "string option"
  ct_allow_empty_repost :: bool
  ct_utf16_limit :: "nat option"
  ct_handle_limit :: "nat option"
  ct_handle_limit_error :: "string option"
  ct_empty_repost_content :: bool
  ct_empty_repost_error :: "string option"
  ct_capability_path :: "string option"
  ct_capability_factory :: "(string list \<Rightarrow> pydict) option"
  ct_capability_error :: string

definition LEGACY_FALLBACK_CONTRACT :: action_plan_contract where
  "LEGACY_FALLBACK_CONTRACT = \<lparr>ct_platform_id = ''*'', ct_action_order = [''followed'', ''liked'', ''commented'', ''reposted''],
     ct_default_path = ''bilibili_api_v2'', ct_allowed_paths = None, ct_path_error = ''execution_path_not_supported'',
     ct_must_be_non_executable = False, ct_non_executable_paths = [], ct_fixed_actions = None, ct_fixed_actions_error = None,
     ct_allow_empty_repost = False, ct_utf16_limit = None, ct_handle_limit = None, ct_handle_limit_error = None,
     ct_empty_repost_content = False, ct_empty_repost_error = None, ct_capability_path = None, ct_capability_factory = None,
     ct_capability_error = ''weibo_oauth_capability_contract_mismatch''\<rparr>"

definition BILIBILI_ACTION_PLAN_CONTRACT :: action_plan_contract where
  "BILIBILI_ACTION_PLAN_CONTRACT = LEGACY_FALLBACK_CONTRACT\<lparr>ct_platform_id := ''bilibili'', ct_allowed_paths := Some [''bilibili_api_v2''],
     ct_path_error := ''bilibili_execution_path_not_supported''\<rparr>"

definition worker_weibo_capabilities :: "string list \<Rightarrow> pydict" where
  "worker_weibo_capabilities required_actions = [(''contract_version'', PInt 1),
     (''actions'', PDict (map (\<lambda>a. (a, PDict (weibo_capability a))) (filter (\<lambda>a. a \<in> set required_actions)
        [''followed'', ''liked'', ''commented'', ''favorited'', ''reposted''])))]"

definition WEIBO_ACTION_PLAN_CONTRACT :: action_plan_contract where
  "WEIBO_ACTION_PLAN_CONTRACT = LEGACY_FALLBACK_CONTRACT\<lparr>ct_platform_id := ''weibo'',
     ct_action_order := [''followed'', ''liked'', ''commented'', ''favorited'', ''reposted''], ct_default_path := ''weibo_oauth_v1'',
     ct_allowed_paths := Some [''weibo_oauth_v1'', ''weibo_manual_v1''], ct_path_error := ''weibo_execution_path_invalid'',
     ct_non_executable_paths := [''weibo_manual_v1''], ct_allow_empty_repost := True, ct_utf16_limit := Some 140, ct_handle_limit := Some 32,
     ct_handle_limit_error := Some ''weibo_preflight_unique_handle_limit_exceeded'', ct_capability_path := Some ''weibo_oauth_v1'',
     ct_capability_factory := Some worker_weibo_capabilities\<rparr>"

definition DOUYIN_ACTION_PLAN_CONTRACT :: action_plan_contract where
  "DOUYIN_ACTION_PLAN_CONTRACT = LEGACY_FALLBACK_CONTRACT\<lparr>ct_platform_id := ''douyin'',
     ct_action_order := [''followed'', ''liked'', ''commented'', ''favorited''], ct_default_path := ''douyin_device_v1'',
     ct_allowed_paths := Some [''douyin_manual_v1'', ''douyin_device_v1''], ct_path_error := ''douyin_execution_path_invalid'',
     ct_non_executable_paths := [''douyin_manual_v1''], ct_allow_empty_repost := True\<rparr>"

definition XIAOHONGSHU_ACTION_PLAN_CONTRACT :: action_plan_contract where
  "XIAOHONGSHU_ACTION_PLAN_CONTRACT = LEGACY_FALLBACK_CONTRACT\<lparr>ct_platform_id := ''xiaohongshu'',
     ct_action_order := [''followed'', ''liked'', ''commented'', ''favorited''], ct_default_path := ''xiaohongshu_browser_v1'',
     ct_allowed_paths := Some [''xiaohongshu_manual_v1'', ''xiaohongshu_browser_v1''], ct_path_error := ''xiaohongshu_execution_path_not_supported'',
     ct_non_executable_paths := [''xiaohongshu_manual_v1''], ct_empty_repost_content := True,
     ct_empty_repost_error := Some ''xiaohongshu_repost_content_not_supported''\<rparr>"

definition ACTION_PLAN_CONTRACTS :: "action_plan_contract list" where
  "ACTION_PLAN_CONTRACTS = [BILIBILI_ACTION_PLAN_CONTRACT, WEIBO_ACTION_PLAN_CONTRACT, XIAOHONGSHU_ACTION_PLAN_CONTRACT, DOUYIN_ACTION_PLAN_CONTRACT]"

definition contract_lookup :: "string \<Rightarrow> action_plan_contract option" where
  "contract_lookup platform = find (\<lambda>c. ct_platform_id c = casefold (strip platform)) ACTION_PLAN_CONTRACTS"

definition action_plan_contract_for :: "string \<Rightarrow> action_plan_contract" where
  "action_plan_contract_for platform = (case contract_lookup platform of Some c \<Rightarrow> c | None \<Rightarrow> LEGACY_FALLBACK_CONTRACT)"

definition validates_execution_path :: "action_plan_contract \<Rightarrow> string \<Rightarrow> bool" where
  "validates_execution_path c path = (case ct_allowed_paths c of None \<Rightarrow> True | Some ps \<Rightarrow> path \<in> set ps)"

definition requires_non_executable_plan :: "action_plan_contract \<Rightarrow> string \<Rightarrow> bool" where
  "requires_non_executable_plan c path \<longleftrightarrow> path \<in> set (ct_non_executable_paths c)"

definition runtime_capabilities_for :: "action_plan_contract \<Rightarrow> string \<Rightarrow> string list \<Rightarrow> pydict" where
  "runtime_capabilities_for c path actions = (case ct_capability_factory c of
     None \<Rightarrow> [] | Some g \<Rightarrow> if Some path \<noteq> ct_capability_path c then [] else g actions)"

section \<open>The validator of the worker\<close>

definition json_object :: "plan_env \<Rightarrow> pyval \<Rightarrow> string \<Rightarrow> (plan_error, pydict) result" where
  "json_object E v code = (case v of PDict d \<Rightarrow> Inr d
     | PStr s \<Rightarrow> (case px_loads E s of Some (PDict d) \<Rightarrow> Inr d | _ \<Rightarrow> Inl (Code code))
     | _ \<Rightarrow> Inl (Code code))"

record worker_head =
  wh_contract :: action_plan_contract
  wh_snapshot :: int
  wh_rule_hash :: string
  wh_path :: string
  wh_plan_hash :: string

definition plan_platform_key :: "pydict \<Rightarrow> string" where
  "plan_platform_key plan = (case dget plan ''platform'' of PStr p \<Rightarrow> casefold (strip p) | _ \<Rightarrow> [])"

definition worker_non_executable :: "action_plan_contract \<Rightarrow> pyval \<Rightarrow> bool" where
  "worker_non_executable c path \<longleftrightarrow> ct_must_be_non_executable c \<or> (case path of PStr s \<Rightarrow> requires_non_executable_plan c s | _ \<Rightarrow> False)"

definition worker_plan_head :: "pydict \<Rightarrow> bool \<Rightarrow> (plan_error, worker_head) result" where
  "worker_plan_head plan require_executable =
     (if dget plan ''version'' \<noteq> PInt 2 then Inl (Code ''action_plan_version_unsupported'')
      else if contract_lookup (plan_platform_key plan) = None then Inl (Code ''action_plan_platform_unsupported'')
      else let c = action_plan_contract_for (plan_platform_key plan) in
        if worker_non_executable c (dget plan ''execution_path_id'') \<and> dget plan ''executable'' \<noteq> PBool False
        then Inl (Code (plan_platform_key plan @ ''_manual_plan_must_be_non_executable''))
        else if require_executable \<and> dget plan ''executable'' \<noteq> PBool True then Inl (Code ''action_plan_not_executable'')
        else if dget plan ''review_required'' \<noteq> PBool False then Inl (Code ''action_plan_review_required'')
        else if \<not> review_attested plan then Inl (Code ''action_plan_review_attestation_invalid'')
        else (case dget plan ''rule_snapshot_id'' of
          PInt n \<Rightarrow>
            if n \<le> 0 then Inl (Code ''action_plan_rule_snapshot_id_invalid'')
            else rbind (required_string plan ''rule_hash'') (\<lambda>rule_hash.
              rbind (required_string plan ''execution_path_id'') (\<lambda>path.
              if \<not> validates_execution_path c path then Inl (Code (ct_path_error c))
              else rbind (required_string plan ''plan_hash'') (\<lambda>plan_hash.
                if \<not> lower_hex64 rule_hash then Inl (Code ''action_plan_rule_hash_invalid'')
                else if \<not> lower_hex64 plan_hash then Inl (Code ''action_plan_hash_invalid'')
                else Inr \<lparr>wh_contract = c, wh_snapshot = n, wh_rule_hash = rule_hash, wh_path = path, wh_plan_hash = plan_hash\<rparr>)))
        | _ \<Rightarrow> Inl (Code ''action_plan_rule_snapshot_id_invalid'')))"

definition worker_required_actions :: "action_plan_contract \<Rightarrow> pydict \<Rightarrow> (plan_error, string list) result" where
  "worker_required_actions c plan = rbind (required_string plan ''platform'') (\<lambda>_.
     case dget plan ''required_actions'' of
       PList vs \<Rightarrow> if vs = [] then Inl (Code ''action_plan_required_actions_invalid'')
         else rbind (plan_actions (ct_action_order c) [] vs) (\<lambda>actions.
           if actions \<noteq> filter (\<lambda>a. a \<in> set actions) (ct_action_order c) then Inl (Code ''action_plan_action_order_invalid'')
           else if ct_fixed_actions c \<noteq> None \<and> ct_fixed_actions c \<noteq> Some actions
           then Inl (Code (case ct_fixed_actions_error c of Some e \<Rightarrow> e | None \<Rightarrow> ''action_plan_required_actions_invalid''))
           else Inr actions)
     | _ \<Rightarrow> Inl (Code ''action_plan_required_actions_invalid''))"

definition worker_text_policy :: "action_plan_contract \<Rightarrow> text_policy" where
  "worker_text_policy c = \<lparr>tp_allow_empty_repost = ct_allow_empty_repost c, tp_limit = ct_utf16_limit c,
     tp_too_long = (\<lambda>a. ct_platform_id c @ ''_'' @ a @ ''_text_too_long'')\<rparr>"

definition worker_handles :: "payloads \<Rightarrow> content_requirements \<Rightarrow> content_requirements \<Rightarrow> string list" where
  "worker_handles ps bound source = cr_follow_targets bound @ cr_follow_targets source
     @ (case payload_field ps ''followed'' ''target_handle'' PNone of PStr h \<Rightarrow> [h] | _ \<Rightarrow> [])
     @ concat (map (\<lambda>a. snd (cr_action bound a) @ snd (cr_action source a)
         @ (case str_items (payload_field ps a ''mentions'' PNone) of Some hs \<Rightarrow> hs | None \<Rightarrow> [])) CONTENT_REQUIREMENT_ACTIONS)"

definition worker_handle_limit :: "plan_env \<Rightarrow> action_plan_contract \<Rightarrow> payloads \<Rightarrow> content_requirements \<Rightarrow> content_requirements \<Rightarrow> (plan_error, unit) result" where
  "worker_handle_limit E c ps bound source = (case ct_handle_limit c of
     None \<Rightarrow> Inr ()
   | Some n \<Rightarrow> if card (set (map (px_ident E) (worker_handles ps bound source))) > n
       then Inl (Code (case ct_handle_limit_error c of Some e \<Rightarrow> e | None \<Rightarrow> ''action_plan_unique_handle_limit_exceeded'')) else Inr ())"

definition worker_content_checks :: "action_plan_contract \<Rightarrow> payloads \<Rightarrow> content_requirements \<Rightarrow> (bool \<times> string) list" where
  "worker_content_checks c ps bound =
     [(\<not> (ct_empty_repost_content c \<and> cr_reposted bound \<noteq> ([], [])),
       case ct_empty_repost_error c of Some e \<Rightarrow> e | None \<Rightarrow> ''action_plan_repost_content_not_supported'')]
     @ concat (map (\<lambda>a. [(payload_field ps a ''topic_tags'' (PList []) = str_list (fst (cr_action bound a)), ''action_plan_required_topic_mismatch''),
         (payload_field ps a ''mentions'' (PList []) = str_list (snd (cr_action bound a)), ''action_plan_required_mention_mismatch'')])
         CONTENT_REQUIREMENT_ACTIONS)"

definition worker_capabilities_of :: "pydict \<Rightarrow> action_plan_contract \<Rightarrow> string list \<Rightarrow> string \<Rightarrow> (plan_error, pydict) result" where
  "worker_capabilities_of plan c actions path = rbind
     (case dget_default plan ''runtime_capability_requirements'' (PDict []) of
        PNone \<Rightarrow> Inr [] | PDict d \<Rightarrow> Inr d | _ \<Rightarrow> Inl (Code (ct_capability_error c)))
     (\<lambda>caps. if ct_capability_factory c = None then Inr caps
        else if py_eq (PDict caps) (PDict (runtime_capabilities_for c path actions)) then Inr caps
        else Inl (Code (ct_capability_error c)))"

definition worker_plan_body ::
  "plan_env \<Rightarrow> pydict \<Rightarrow> bool \<Rightarrow> worker_head \<Rightarrow> string list \<Rightarrow> (plan_error, validated_plan) result" where
  "worker_plan_body E plan reject_media h actions = (let c = wh_contract h in
     rbind (normalize_action_payloads actions (dget plan ''action_payloads'') (ct_action_order c) (worker_text_policy c)) (\<lambda>ps.
     rbind (validated_content_requirements (dget plan ''content_requirements'')) (\<lambda>bound.
     rbind (validate_friend_mention_requirements (dget_default plan ''friend_mention_requirements'' (PDict []))) (\<lambda>friends.
     if \<not> set (map fst friends) \<subseteq> set actions then Inl (Code ''action_plan_friend_mention_action_missing'')
     else rbind (source_requirements_of plan bound friends) (\<lambda>source.
     rbind (worker_handle_limit E c ps bound source) (\<lambda>_.
     if \<not> source_bound E source bound friends then Inl (Code ''action_plan_friend_mention_requirement_binding_mismatch'')
     else rbind (first_error (worker_content_checks c ps bound @ follow_checks actions ps bound)) (\<lambda>_.
     if friends \<noteq> [] \<and> \<not> friend_mention_requirements_satisfied E ps bound friends source
     then Inl (Code ''action_plan_friend_mention_count_mismatch'')
     else if reject_media \<and> has_media ps then Inl (Code ''action_payload_media_unsupported'')
     else rbind (worker_capabilities_of plan c actions (wh_path h)) (\<lambda>caps.
       Inr \<lparr>vp_plan = plan, vp_plan_hash = wh_plan_hash h, vp_rule_snapshot_id = wh_snapshot h, vp_rule_hash = wh_rule_hash h,
         vp_execution_path_id = wh_path h, vp_required_actions = actions, vp_action_payloads = ps, vp_content_requirements = bound,
         vp_source_content_requirements = source, vp_friend_mention_requirements = friends,
         vp_runtime_capability_requirements = caps\<rparr>))))))))"

definition worker_validate_action_plan_v2 :: "plan_env \<Rightarrow> pyval \<Rightarrow> bool \<Rightarrow> bool \<Rightarrow> (plan_error, validated_plan) result" where
  "worker_validate_action_plan_v2 E v require_executable reject_media = rbind (json_object E v ''action_plan_v2_invalid'') (\<lambda>plan.
     rbind (worker_plan_head plan require_executable) (\<lambda>h.
     rbind (worker_required_actions (wh_contract h) plan) (\<lambda>actions.
       if compute_action_plan_hash E plan \<noteq> wh_plan_hash h then Inl (Code ''action_plan_hash_mismatch'')
       else worker_plan_body E plan reject_media h actions)))"


section \<open>Agreement with the validator of the core\<close>

definition agrees :: "platform_module \<Rightarrow> action_plan_contract \<Rightarrow> bool" where
  "agrees m c \<longleftrightarrow> pf_id m = ct_platform_id c \<and> pf_action_order m = ct_action_order c \<and> ct_allowed_paths c \<noteq> None
     \<and> set (map path_id (pf_paths m)) = set (the (ct_allowed_paths c)) \<and> pf_invalid_path_blocker m = ct_path_error c
     \<and> \<not> ct_must_be_non_executable c
     \<and> pf_non_executable_path_errors m = map (\<lambda>p. (p, ct_platform_id c @ ''_manual_plan_must_be_non_executable'')) (ct_non_executable_paths c)
     \<and> ct_fixed_actions c = None \<and> (''reposted'' \<in> set (pf_action_order m) \<longrightarrow> pf_allow_empty_repost m = ct_allow_empty_repost c)
     \<and> pf_max_utf16 m = ct_utf16_limit c \<and> (pf_max_utf16 m \<noteq> None \<longrightarrow> pf_text_too_long m = (\<lambda>a. ct_platform_id c @ ''_'' @ a @ ''_text_too_long''))
     \<and> ct_handle_limit c = (if pf_handle_limit m then Some WEIBO_PREFLIGHT_UNIQUE_HANDLE_LIMIT else None)
     \<and> (pf_handle_limit m \<longrightarrow> ct_handle_limit_error c = Some ''weibo_preflight_unique_handle_limit_exceeded'')
     \<and> pf_empty_requirement_errors m = (if ct_empty_repost_content c then [(''reposted'', the (ct_empty_repost_error c))] else [])
     \<and> (ct_empty_repost_content c \<longrightarrow> ct_empty_repost_error c \<noteq> None)
     \<and> (case pf_capabilities m of None \<Rightarrow> ct_capability_factory c = None
        | Some g \<Rightarrow> ct_capability_factory c \<noteq> None \<and> (\<forall>acts path. g acts path = runtime_capabilities_for c path acts))
     \<and> ct_capability_error c = ''weibo_oauth_capability_contract_mismatch''"

lemmas module_defs = PLATFORM_REGISTRY_def BILIBILI_PLATFORM_def WEIBO_PLATFORM_def XIAOHONGSHU_PLATFORM_def DOUYIN_PLATFORM_def
  BILIBILI_ACTION_ORDER_def WEIBO_ACTION_ORDER_def XIAOHONGSHU_ACTION_ORDER_def DOUYIN_ACTION_ORDER_def

lemmas contract_defs = ACTION_PLAN_CONTRACTS_def BILIBILI_ACTION_PLAN_CONTRACT_def WEIBO_ACTION_PLAN_CONTRACT_def
  XIAOHONGSHU_ACTION_PLAN_CONTRACT_def DOUYIN_ACTION_PLAN_CONTRACT_def LEGACY_FALLBACK_CONTRACT_def

lemma modules_agree:
  "agrees BILIBILI_PLATFORM BILIBILI_ACTION_PLAN_CONTRACT" "agrees WEIBO_PLATFORM WEIBO_ACTION_PLAN_CONTRACT"
  "agrees XIAOHONGSHU_PLATFORM XIAOHONGSHU_ACTION_PLAN_CONTRACT" "agrees DOUYIN_PLATFORM DOUYIN_ACTION_PLAN_CONTRACT"
  by (auto simp: agrees_def module_defs contract_defs WEIBO_PREFLIGHT_UNIQUE_HANDLE_LIMIT_def runtime_capabilities_for_def
      weibo_runtime_capability_requirements_def worker_weibo_capabilities_def)

lemma lookups_agree:
  "(get_platform_module p = None \<and> contract_lookup p = None)
   \<or> (\<exists>m. get_platform_module p = Some m \<and> contract_lookup p = Some (action_plan_contract_for p) \<and> agrees m (action_plan_contract_for p) \<and> pf_id m = casefold (strip p))"
proof -
  have ids: "pf_id BILIBILI_PLATFORM = ''bilibili''" "pf_id WEIBO_PLATFORM = ''weibo''" "pf_id XIAOHONGSHU_PLATFORM = ''xiaohongshu''" "pf_id DOUYIN_PLATFORM = ''douyin''"
    "ct_platform_id BILIBILI_ACTION_PLAN_CONTRACT = ''bilibili''" "ct_platform_id WEIBO_ACTION_PLAN_CONTRACT = ''weibo''"
    "ct_platform_id XIAOHONGSHU_ACTION_PLAN_CONTRACT = ''xiaohongshu''" "ct_platform_id DOUYIN_ACTION_PLAN_CONTRACT = ''douyin''"
    by (simp_all add: module_defs contract_defs)
  consider "casefold (strip p) = ''bilibili''" | "casefold (strip p) = ''weibo''" | "casefold (strip p) = ''xiaohongshu''" | "casefold (strip p) = ''douyin''"
    | "casefold (strip p) \<notin> set [''bilibili'', ''weibo'', ''xiaohongshu'', ''douyin'']" by auto
  then show ?thesis
    by cases (auto simp: get_platform_module_def action_plan_contract_for_def contract_lookup_def PLATFORM_REGISTRY_def ACTION_PLAN_CONTRACTS_def
        ids modules_agree)
qed

lemma validate_action_payload_cong:
  assumes "tp_limit tp = tp_limit tp'" "tp_limit tp \<noteq> None \<Longrightarrow> tp_too_long tp = tp_too_long tp'"
    "a = ''reposted'' \<Longrightarrow> tp_allow_empty_repost tp = tp_allow_empty_repost tp'"
  shows "validate_action_payload a v tp = validate_action_payload a v tp'"
proof (cases v)
  case (PDict p)
  have t: "validate_text_payload a p tp = validate_text_payload a p tp'"
  proof (cases "tp_limit tp'")
    case None
    show ?thesis unfolding validate_text_payload_def assms(1) None option.case if_False ..
  next
    case (Some n)
    then have long: "tp_too_long tp = tp_too_long tp'" using assms(1,2) by simp
    show ?thesis unfolding validate_text_payload_def assms(1) long ..
  qed
  have e: "(a = ''reposted'' \<and> tp_allow_empty_repost tp \<and> p = []) \<longleftrightarrow> (a = ''reposted'' \<and> tp_allow_empty_repost tp' \<and> p = [])" using assms(3) by auto
  show ?thesis unfolding PDict validate_action_payload_def pyval.case t e ..
qed (simp_all add: validate_action_payload_def)

lemma rmapM_cong: "(\<And>x. x \<in> set xs \<Longrightarrow> f x = g x) \<Longrightarrow> rmapM f xs = rmapM g xs"
  by (induction xs) auto

lemma payloads_agree:
  assumes "agrees m c" "set acts \<subseteq> set (pf_action_order m)"
  shows "normalize_action_payloads acts v (ct_action_order c) (worker_text_policy c)
    = normalize_action_payloads acts v (pf_action_order m) (text_policy_of m)"
proof -
  have "validate_action_payload a x (worker_text_policy c) = validate_action_payload a x (text_policy_of m)" if "a \<in> set acts" for a x
    by (rule validate_action_payload_cong) (use assms that in \<open>auto simp: agrees_def worker_text_policy_def text_policy_of_def\<close>)
  then have "rmapM (\<lambda>a. rmap (Pair a) (validate_action_payload a (f a) (worker_text_policy c))) acts
      = rmapM (\<lambda>a. rmap (Pair a) (validate_action_payload a (f a) (text_policy_of m))) acts" for f by (intro rmapM_cong) simp
  note eq = this
  have order: "ct_action_order c = pf_action_order m" using assms(1) by (simp add: agrees_def)
  show ?thesis unfolding normalize_action_payloads_def order eq ..
qed


lemma paths_agree:
  assumes "agrees m c"
  shows "validates_execution_path c path \<longleftrightarrow> validate_action_plan_path m path = Inr ()"
    and "validate_action_plan_path m path = (if validates_execution_path c path then Inr () else Inl (ct_path_error c))"
  using assms by (auto simp: agrees_def validates_execution_path_def validate_action_plan_path_def)

lemma map_of_constant: "map_of (map (\<lambda>p. (p, x)) ps) k = (if k \<in> set ps then Some x else None)"
  by (induction ps) auto

lemma non_executable_agrees:
  assumes "agrees m c"
  shows "non_executable_error m p = (if worker_non_executable c p then Some (ct_platform_id c @ ''_manual_plan_must_be_non_executable'') else None)"
proof -
  have errors: "pf_non_executable_path_errors m = map (\<lambda>p. (p, ct_platform_id c @ ''_manual_plan_must_be_non_executable'')) (ct_non_executable_paths c)"
    "ct_must_be_non_executable c = False" using assms by (simp_all add: agrees_def)
  show ?thesis
    unfolding non_executable_error_def worker_non_executable_def requires_non_executable_plan_def errors map_of_constant by (cases p) simp_all
qed

definition core_head :: "platform_module \<Rightarrow> worker_head \<Rightarrow> plan_head" where
  "core_head m h = \<lparr>ph_module = m, ph_snapshot = wh_snapshot h, ph_rule_hash = wh_rule_hash h, ph_path = wh_path h, ph_plan_hash = wh_plan_hash h\<rparr>"

lemma heads_agree:
  assumes "plan_module plan = Some m" "agrees m (action_plan_contract_for (plan_platform_key plan))"
    "contract_lookup (plan_platform_key plan) \<noteq> None" "pf_id m = plan_platform_key plan"
  shows "validate_plan_head plan re = rmap (core_head m) (worker_plan_head plan re)"
    and "worker_plan_head plan re = Inr h \<Longrightarrow> wh_contract h = action_plan_contract_for (plan_platform_key plan)"
proof -
  let ?c = "action_plan_contract_for (plan_platform_key plan)"
  obtain d where cl: "contract_lookup (plan_platform_key plan) = Some d" using assms(3) by blast
  have id: "ct_platform_id ?c = plan_platform_key plan" using assms(2,4) by (simp add: agrees_def)
  have path: "(case validate_action_plan_path m p of Inl e \<Rightarrow> Inl (Code e) | Inr _ \<Rightarrow> r) = (if \<not> validates_execution_path ?c p then Inl (Code (ct_path_error ?c)) else r)"
    for p and r :: "(plan_error, plan_head) result" by (simp add: paths_agree(2) [OF assms(2)])
  have rm: "rmap f (rbind r g) = rbind r (\<lambda>x. rmap f (g x))" "rmap f (if b then u else w) = (if b then rmap f u else rmap f w)"
    for f :: "worker_head \<Rightarrow> plan_head" and r :: "(plan_error, string) result" and g b u w by (cases r; simp)+
  show "validate_plan_head plan re = rmap (core_head m) (worker_plan_head plan re)"
  proof (cases "worker_non_executable ?c (dget plan ''execution_path_id'')")
    case True
    show ?thesis unfolding validate_plan_head_def worker_plan_head_def assms(1) option.case non_executable_agrees [OF assms(2)] id path Let_def rm cl
        pyval.case_distrib [of "rmap (core_head m)"] by (simp only: True core_head_def rmap.simps worker_head.simps option.simps simp_thms if_True if_False option.sel not_False_eq_True cong: if_cong pyval.case_cong)
  next
    case False
    show ?thesis unfolding validate_plan_head_def worker_plan_head_def assms(1) option.case non_executable_agrees [OF assms(2)] id path Let_def rm cl
        pyval.case_distrib [of "rmap (core_head m)"] by (simp only: False core_head_def rmap.simps worker_head.simps option.simps simp_thms if_False not_False_eq_True cong: if_cong pyval.case_cong)
  qed
  show "wh_contract h = ?c" if "worker_plan_head plan re = Inr h"
    using that unfolding worker_plan_head_def Let_def
    by (auto simp: rbind_eq_Inr if_Inl_eq_Inr split: pyval.splits if_splits)
qed


lemma actions_agree:
  assumes "plan_module plan = Some m" "agrees m c"
  shows "worker_required_actions c plan = required_actions_of plan"
proof (cases "dget plan ''platform''")
  case (PStr p)
  show ?thesis
  proof (cases "strip p = p")
    case True
    have "action_order_for_platform p = ct_action_order c"
      using assms PStr True by (simp add: plan_module_def action_order_for_platform_def get_platform_module_def strip_lower agrees_def)
    moreover have "ct_fixed_actions c = None" using assms(2) by (simp add: agrees_def)
    ultimately have eqs: "action_order_for_platform p = ct_action_order c" "ct_fixed_actions c = None" by blast+
    have "required_string plan ''platform'' = (if strip p = [] then Inl (Code ''action_plan_platform_invalid'') else Inr p)"
      using True by (simp add: required_string_def PStr)
    then show ?thesis unfolding worker_required_actions_def required_actions_of_def Let_def eqs by (simp add: eqs cong: if_cong pyval.case_cong)
  next
    case False
    then have "p \<noteq> strip p" by metis
    then show ?thesis by (simp add: worker_required_actions_def required_actions_of_def required_string_def PStr)
  qed
qed (simp_all add: worker_required_actions_def required_actions_of_def required_string_def)

lemma payload_handles:
  assumes "good_payloads acts tp ps"
  shows "payload_field ps ''followed'' ''target_handle'' PNone = PStr h \<Longrightarrow> HANDLE_PATTERN h"
    and "a \<in> set CONTENT_REQUIREMENT_ACTIONS \<Longrightarrow> str_items (payload_field ps a ''mentions'' PNone) = Some hs \<Longrightarrow> list_all HANDLE_PATTERN hs"
proof -
  have val: "validate_action_payload x (PDict p) tp = Inr p" if "map_of ps x = Some p" for x p
    using assms map_of_SomeD [OF that] by (auto simp: good_payloads_def)
  show "HANDLE_PATTERN h" if "payload_field ps ''followed'' ''target_handle'' PNone = PStr h"
  proof (cases "map_of ps ''followed''")
    case (Some p)
    then have "dget p ''target_handle'' = PStr h" using that by (simp add: payload_field_def dget_def dget_default_def)
    then show ?thesis using val [OF Some] by (auto simp: validate_action_payload_def validate_follow_payload_def split: if_splits)
  qed (use that in \<open>simp add: payload_field_def\<close>)
  show "list_all HANDLE_PATTERN hs" if a: "a \<in> set CONTENT_REQUIREMENT_ACTIONS" and "str_items (payload_field ps a ''mentions'' PNone) = Some hs"
  proof (cases "map_of ps a")
    case (Some p)
    have m: "dget_default p ''mentions'' PNone = str_list hs" using that(2) Some by (simp add: payload_field_def str_items_iff)
    then have "dget_default p ''mentions'' (PList []) = str_list hs" by (auto simp: dget_default_def str_list_def split: option.splits)
    moreover have "p \<noteq> []" using m by (auto simp: str_list_def)
    then have "validate_text_payload a p tp = Inr p"
      using val [OF Some] a by (auto simp: validate_action_payload_def CONTENT_REQUIREMENT_ACTIONS_def TEXT_ACTIONS_def split: if_splits)
    then obtain ms where "validated_metadata_list p ''mentions'' = Inr ms"
      by (auto simp: validate_text_payload_def rbind_eq_Inr if_Inl_eq_Inr split: pyval.splits if_splits)
    ultimately have "good_items ''mentions'' hs"
      using validated_metadata_listD [of p "''mentions''" ms] by (auto simp: str_list_def inj_PStr_map)
    then show ?thesis by (auto simp: good_items_def good_item_def list_all_iff)
  qed (use that in \<open>simp add: payload_field_def\<close>)
qed

lemma requirement_handles:
  assumes "good_requirements r"
  shows "list_all HANDLE_PATTERN (cr_follow_targets r)" "list_all HANDLE_PATTERN (snd (cr_commented r))" "list_all HANDLE_PATTERN (snd (cr_reposted r))"
  using assms by (auto simp: good_requirements_def good_items_def good_item_def list_all_iff)

lemma handles_agree:
  assumes "good_payloads acts tp ps" "good_requirements bound" "good_requirements source"
  shows "set (worker_handles ps bound source) = set (plan_handles ps bound source)"
proof -
  note h = payload_handles [OF assms(1)] and q = requirement_handles [OF assms(2)] requirement_handles [OF assms(3)]
  have f: "list_all HANDLE_PATTERN (case payload_field ps ''followed'' ''target_handle'' PNone of PStr h \<Rightarrow> [h] | _ \<Rightarrow> [])"
    using h(1) by (auto split: pyval.splits)
  have t: "list_all HANDLE_PATTERN (case str_items (payload_field ps a ''mentions'' PNone) of Some hs \<Rightarrow> hs | None \<Rightarrow> [])"
    if "a \<in> set CONTENT_REQUIREMENT_ACTIONS" for a using h(2) [OF that] by (auto split: option.splits)
  have c: "list_all HANDLE_PATTERN (snd (cr_action bound a))" "list_all HANDLE_PATTERN (snd (cr_action source a))" for a
    using q by (simp_all add: cr_action_def)
  have l: "list_all HANDLE_PATTERN (worker_handles ps bound source)"
    using f t c q unfolding worker_handles_def list_all_append by (auto simp: list_all_iff)
  have "set (plan_handles ps bound source) = {h \<in> set (worker_handles ps bound source). HANDLE_PATTERN h}"
    by (auto simp: plan_handles_def worker_handles_def CONTENT_REQUIREMENT_ACTIONS_def cr_action_def)
  then show ?thesis using l by (auto simp: list_all_iff)
qed

lemma rbind_agree: "(\<And>x. r = Inr x \<Longrightarrow> f x = g x) \<Longrightarrow> rbind r f = rbind r g"
  by (cases r) auto

lemma limits_agree:
  assumes "agrees m c" "good_payloads acts tp ps" "good_requirements bound" "good_requirements source"
  shows "worker_handle_limit E c ps bound source = (if pf_handle_limit m then validate_weibo_preflight_unique_handle_limit E ps bound source else Inr ())"
proof (cases "pf_handle_limit m")
  case True
  then have "ct_handle_limit c = Some WEIBO_PREFLIGHT_UNIQUE_HANDLE_LIMIT" "ct_handle_limit_error c = Some ''weibo_preflight_unique_handle_limit_exceeded''"
    using assms(1) by (simp_all add: agrees_def)
  then show ?thesis using True handles_agree [OF assms(2-4)]
    by (simp add: worker_handle_limit_def validate_weibo_preflight_unique_handle_limit_def)
next
  case False
  then have "ct_handle_limit c = None" using assms(1) by (simp add: agrees_def)
  then show ?thesis using False by (simp add: worker_handle_limit_def)
qed

lemma contents_agree:
  assumes "agrees m c"
  shows "first_error (worker_content_checks c ps bound @ rest) = first_error (content_checks m ps bound @ rest)"
proof (cases "ct_empty_repost_content c")
  case True
  then have "pf_empty_requirement_errors m = [(''reposted'', the (ct_empty_repost_error c))]" "ct_empty_repost_error c \<noteq> None"
    using assms by (simp_all add: agrees_def)
  then show ?thesis using True by (auto simp: worker_content_checks_def content_checks_def cr_action_def)
next
  case False
  then have "pf_empty_requirement_errors m = []" using assms by (simp add: agrees_def)
  then show ?thesis using False by (simp add: worker_content_checks_def content_checks_def)
qed

lemma capabilities_agree:
  assumes "agrees m c"
  shows "worker_capabilities_of plan c actions path = runtime_capabilities_of plan m actions path"
proof -
  have err: "ct_capability_error c = ''weibo_oauth_capability_contract_mismatch''" using assms by (simp add: agrees_def)
  show ?thesis
  proof (cases "pf_capabilities m")
    case None
    then have "ct_capability_factory c = None" using assms by (simp add: agrees_def)
    then show ?thesis unfolding worker_capabilities_of_def runtime_capabilities_of_def err by (simp add: None)
  next
    case (Some g)
    then have g: "ct_capability_factory c \<noteq> None" "g actions path = runtime_capabilities_for c path actions"
      using assms by (simp_all add: agrees_def)
    show ?thesis unfolding worker_capabilities_of_def runtime_capabilities_of_def Some option.case g(2) err by (simp add: g(1))
  qed
qed

lemma bodies_agree:
  assumes "agrees m (wh_contract h)" "set actions \<subseteq> set (pf_action_order m)"
  shows "worker_plan_body E plan reject_media h actions = validate_plan_body E plan reject_media (core_head m h) actions"
proof -
  have f: "ph_module (core_head m h) = m" "ph_snapshot (core_head m h) = wh_snapshot h" "ph_rule_hash (core_head m h) = wh_rule_hash h"
    "ph_path (core_head m h) = wh_path h" "ph_plan_hash (core_head m h) = wh_plan_hash h" by (simp_all add: core_head_def)
  show ?thesis
    unfolding worker_plan_body_def validate_plan_body_def Let_def f payloads_agree [OF assms] contents_agree [OF assms(1)]
      capabilities_agree [OF assms(1)]
  proof (intro rbind_agree if_cong refl)
    fix ps bound friends source
    assume "normalize_action_payloads actions (dget plan ''action_payloads'') (pf_action_order m) (text_policy_of m) = Inr ps"
      and "validated_content_requirements (dget plan ''content_requirements'') = Inr bound"
      and "source_requirements_of plan bound friends = Inr source"
    then have limit: "worker_handle_limit E (wh_contract h) ps bound source = (if pf_handle_limit m then validate_weibo_preflight_unique_handle_limit E ps bound source else Inr ())"
      using limits_agree [OF assms(1) normalize_action_payloadsD] source_requirements_ofD validated_content_requirementsD by blast
    show "rbind (worker_handle_limit E (wh_contract h) ps bound source) f
      = rbind (if pf_handle_limit m then validate_weibo_preflight_unique_handle_limit E ps bound source else Inr ()) f"
      for f :: "unit \<Rightarrow> (plan_error, validated_plan) result" unfolding limit ..
  qed
qed


lemma plan_actions_allowed: "plan_actions order acc vs = Inr actions \<Longrightarrow> set acc \<subseteq> set order \<Longrightarrow> set actions \<subseteq> set order"
  by (induction order acc vs rule: plan_actions.induct) (auto split: pyval.splits if_splits)

lemma worker_validator_agrees_dict:
  "worker_validate_action_plan_v2 E (PDict plan) require_executable reject_media = validate_action_plan_v2 E (PDict plan) require_executable reject_media"
proof -
  let ?k = "plan_platform_key plan"
  have mod: "plan_module plan = get_platform_module ?k" by (simp add: plan_module_def plan_platform_key_def)
  have key: "casefold (strip ?k) = ?k"
    by (cases "dget plan ''platform''") (simp_all add: plan_platform_key_def strip_lower, simp_all add: strip_def lstrip_def lower_def)
  from lookups_agree [of ?k] show ?thesis
  proof
    assume "get_platform_module ?k = None \<and> contract_lookup ?k = None"
    then show ?thesis by (simp add: worker_validate_action_plan_v2_def validate_action_plan_v2_def json_object_def worker_plan_head_def validate_plan_head_def mod)
  next
    assume "\<exists>m. get_platform_module ?k = Some m \<and> contract_lookup ?k = Some (action_plan_contract_for ?k)
      \<and> agrees m (action_plan_contract_for ?k) \<and> pf_id m = casefold (strip ?k)"
    then obtain m where m: "plan_module plan = Some m" "agrees m (action_plan_contract_for ?k)" "contract_lookup ?k \<noteq> None" "pf_id m = ?k"
      using mod key by auto
    note heads = heads_agree [OF m]
    have order: "ct_action_order (action_plan_contract_for ?k) = pf_action_order m" using m(2) by (simp add: agrees_def)
    show ?thesis
    proof (cases "worker_plan_head plan require_executable")
      case (Inl e)
      then show ?thesis by (simp add: worker_validate_action_plan_v2_def validate_action_plan_v2_def json_object_def heads(1))
    next
      case (Inr h)
      note c = heads(2) [OF Inr]
      have acts: "worker_required_actions (wh_contract h) plan = required_actions_of plan" using actions_agree [OF m(1,2)] c by simp
      have body: "worker_plan_body E plan reject_media h actions = validate_plan_body E plan reject_media (core_head m h) actions"
        if "required_actions_of plan = Inr actions" for actions
      proof (rule bodies_agree)
        show "set actions \<subseteq> set (pf_action_order m)"
          using that plan_actions_allowed [of "pf_action_order m" "[]"] unfolding acts [symmetric] c
          by (auto simp: worker_required_actions_def order rbind_eq_Inr if_Inl_eq_Inr split: pyval.splits if_splits)
      qed (use m(2) c in simp)
      have "ph_plan_hash (core_head m h) = wh_plan_hash h" by (simp add: core_head_def)
      then show ?thesis
        using body by (cases "required_actions_of plan")
          (simp_all add: worker_validate_action_plan_v2_def validate_action_plan_v2_def json_object_def heads(1) Inr acts)
    qed
  qed
qed

text \<open>
  C12. The worker validates a plan exactly as the core does. For every value, the worker's validator, built on its own table
  of platform contracts, returns what the core's validator returns on the value, or on the decoded JSON when the worker is
  given the text of a plan: the same accepted plan, or the same error code.
\<close>

theorem worker_validator_agrees:
  "worker_validate_action_plan_v2 E v require_executable reject_media =
     (case (case v of PStr s \<Rightarrow> px_loads E s | _ \<Rightarrow> Some v) of
        None \<Rightarrow> Inl (Code ''action_plan_v2_invalid'')
      | Some w \<Rightarrow> validate_action_plan_v2 E w require_executable reject_media)"
proof (cases v)
  case (PDict d)
  then show ?thesis by (simp add: worker_validator_agrees_dict)
next
  case (PStr s)
  show ?thesis
  proof (cases "\<exists>d. px_loads E s = Some (PDict d)")
    case True
    then obtain d where d: "px_loads E s = Some (PDict d)" by blast
    then have "worker_validate_action_plan_v2 E (PStr s) require_executable reject_media = worker_validate_action_plan_v2 E (PDict d) require_executable reject_media"
      by (simp add: worker_validate_action_plan_v2_def json_object_def)
    then show ?thesis by (simp add: PStr d worker_validator_agrees_dict)
  next
    case False
    then have "json_object E (PStr s) ''action_plan_v2_invalid'' = Inl (Code ''action_plan_v2_invalid'')"
      by (auto simp: json_object_def split: option.split pyval.split)
    then show ?thesis using False
      by (auto simp: PStr worker_validate_action_plan_v2_def validate_action_plan_v2_def split: option.split pyval.split)
  qed
qed (simp_all add: worker_validate_action_plan_v2_def validate_action_plan_v2_def json_object_def)

end
