(* ===== verification/WorkerIntents.thy ===== *)
theory WorkerIntents
  imports WorkerPlan TaskStreams
begin

text \<open>
  The worker's own validation of a durable intent before anything is executed
  (\<open>worker/app/execution_intents.py\<close>). Redis is not trusted: every hash of the stored root and of the binding
  is computed again, the plan of a repair is derived again, and both are compared with the row the
  database returns and with the message. The message is the one \<open>build_lottery_task_message\<close> of the
  core's outbox builds. A row is the join the gate reads, its columns by name.
\<close>

section \<open>Values of a message\<close>

text \<open>\<open>str(d.get(k) or "")\<close>, and its stripped form.\<close>

definition msg_text :: "plan_env \<Rightarrow> pydict \<Rightarrow> string \<Rightarrow> string" where
  "msg_text E d k = py_str (px_repr E) (py_or (dget d k) (PStr []))"

definition msg_token :: "plan_env \<Rightarrow> pydict \<Rightarrow> string \<Rightarrow> string" where
  "msg_token E d k = strip (msg_text E d k)"

definition optional_uuid :: "plan_env \<Rightarrow> pyval \<Rightarrow> string \<Rightarrow> (ei_error, string option) result" where
  "optional_uuid E v code = (if v = PNone \<or> strip (py_str (px_repr E) v) = [] then Inr None else rmap Some (require_uuid v code))"

definition message_positive_int :: "plan_env \<Rightarrow> pyval \<Rightarrow> string \<Rightarrow> (ei_error, int) result" where
  "message_positive_int E v code = (case v of PBool _ \<Rightarrow> Inl (Ei code)
     | _ \<Rightarrow> (case py_int v of Inl _ \<Rightarrow> Inl (Ei code)
         | Inr n \<Rightarrow> if n \<le> 0 \<or> strip (py_str (px_repr E) v) \<noteq> int_str n then Inl (Ei code) else Inr n))"

definition json_value :: "plan_env \<Rightarrow> pyval \<Rightarrow> string \<Rightarrow> (ei_error, pyval) result" where
  "json_value E v code = (case v of
     PStr s \<Rightarrow> (case px_loads E s of Some w \<Rightarrow> Inr w | None \<Rightarrow> Inl (Ei code))
   | PDict _ \<Rightarrow> Inr v | PList _ \<Rightarrow> Inr v | _ \<Rightarrow> Inl (Ei code))"

definition json_mapping :: "plan_env \<Rightarrow> pyval \<Rightarrow> string \<Rightarrow> (ei_error, pydict) result" where
  "json_mapping E v code = rbind (json_value E v code) (\<lambda>w. case w of PDict d \<Rightarrow> Inr d | _ \<Rightarrow> Inl (Ei code))"

definition json_list :: "plan_env \<Rightarrow> pyval \<Rightarrow> string \<Rightarrow> (ei_error, pyval list) result" where
  "json_list E v code = rbind (json_value E v code) (\<lambda>w. case w of PList xs \<Rightarrow> Inr xs | _ \<Rightarrow> Inl (Ei code))"

section \<open>Which contract is present\<close>

definition db_contract_present :: "pydict \<Rightarrow> string \<Rightarrow> bool" where
  "db_contract_present row pfx \<longleftrightarrow> list_ex (\<lambda>f. dget row (pfx @ f) \<noteq> PNone) [''_contract_version'', ''_intent_id'', ''_task_id'']"

definition MESSAGE_SCALAR_FIELDS :: "string list" where
  "MESSAGE_SCALAR_FIELDS = [''execution_intent_id'', ''execution_intent_hash'', ''execution_intent_kind'',
     ''execution_intent_binding_hash'', ''requested_actions_hash'', ''requested_action_plan_hash'', ''execution_evidence_kind'',
     ''exact_execution_evidence_id'', ''oauth_calibration_id'']"

definition message_contract_present :: "plan_env \<Rightarrow> pydict \<Rightarrow> bool" where
  "message_contract_present E task \<longleftrightarrow> list_ex (\<lambda>k. msg_token E task k \<noteq> []) MESSAGE_SCALAR_FIELDS
     \<or> (''requested_actions'' \<in> set (map fst task)
        \<and> json_list E (dget task ''requested_actions'') ''execution_intent_requested_actions_invalid'' \<noteq> Inr [])"

section \<open>Tasks from before the contract\<close>

definition canonical_digits :: "string \<Rightarrow> bool" where
  "canonical_digits s \<longleftrightarrow> s = ''0'' \<or> (s \<noteq> [] \<and> hd s \<noteq> CHR ''0'' \<and> list_all (\<lambda>c. c \<in> set ''0123456789'') s)"

definition redis_stream_id :: "string \<Rightarrow> bool" where
  "redis_stream_id s \<longleftrightarrow> (case split_on (CHR ''-'') s of [a, b] \<Rightarrow> canonical_digits a \<and> canonical_digits b | _ \<Rightarrow> False)"

definition legacy_provenance :: "plan_env \<Rightarrow> pydict \<Rightarrow> pydict \<Rightarrow> string \<Rightarrow> bool" where
  "legacy_provenance E task row task_id \<longleftrightarrow>
     msg_token E task ''legacy_source_stream'' = LEGACY_TASK_STREAM_KEY \<and> redis_stream_id (msg_token E task ''legacy_source_message_id'')
     \<and> msg_token E row ''legacy_outbox_stream_key'' = LEGACY_TASK_STREAM_KEY \<and> lower (msg_token E row ''legacy_outbox_status'') = ''sent''
     \<and> msg_token E row ''legacy_outbox_dedup_key'' = task_id"

definition validate_legacy_full_authority ::
  "plan_env \<Rightarrow> pydict \<Rightarrow> pydict \<Rightarrow> string \<Rightarrow> int \<Rightarrow> int \<Rightarrow> string \<Rightarrow> validated_plan \<Rightarrow> (ei_error, unit) result" where
  "validate_legacy_full_authority E task row task_id account_id lottery_id platform full =
     (if \<not> legacy_provenance E task row task_id then Inl (Ei ''execution_intent_legacy_authority_missing'')
      else rbind (json_mapping E (dget row ''legacy_outbox_payload'') ''execution_intent_legacy_outbox_invalid'') (\<lambda>payload.
        case (py_int (dget payload ''account_id''), py_int (dget payload ''lottery_id'')) of
          (Inr account, Inr lottery) \<Rightarrow>
            (let p = lower (msg_token E payload ''platform''); payload_platform = (if p = [] then ''bilibili'' else p) in
             if msg_token E payload ''task_id'' \<noteq> task_id \<or> account \<noteq> account_id \<or> lottery \<noteq> lottery_id \<or> payload_platform \<noteq> platform
               \<or> lower (msg_token E payload ''mode'') \<noteq> ''real_run'' then Inl (Ei ''execution_intent_legacy_outbox_mismatch'')
             else rbind (json_mapping E (dget payload ''action_plan'') ''execution_intent_legacy_outbox_invalid'') (\<lambda>plan.
               if \<not> py_eq (PDict plan) (PDict (vp_plan full)) then Inl (Ei ''execution_intent_legacy_outbox_mismatch'')
               else if msg_token E payload ''action_plan_hash'' \<noteq> [] \<and> msg_token E payload ''action_plan_hash'' \<noteq> vp_plan_hash full
               then Inl (Ei ''execution_intent_legacy_outbox_mismatch'') else Inr ()))
        | _ \<Rightarrow> Inl (Ei ''execution_intent_legacy_outbox_invalid'')))"

section \<open>Requested actions and the derived subset\<close>

definition worker_requested :: "plan_env \<Rightarrow> string list \<Rightarrow> pyval \<Rightarrow> bool \<Rightarrow> (ei_error, string list) result" where
  "worker_requested E full v strict_subset = rbind (json_list E v ''execution_intent_requested_actions_invalid'') (\<lambda>actions.
     normalize_requested_actions full (PList actions) strict_subset)"

definition worker_subset_plan :: "plan_env \<Rightarrow> validated_plan \<Rightarrow> string list \<Rightarrow> pydict" where
  "worker_subset_plan E v requested =
     (let c = action_plan_contract_for (casefold (msg_token E (vp_plan v) ''platform''));
          payloads = map (\<lambda>a. (a, PDict (the (map_of (vp_action_payloads v) a)))) requested;
          plan = AList.update ''runtime_capability_requirements'' (PDict (runtime_capabilities_for c (vp_execution_path_id v) requested))
            (AList.update ''friend_mention_requirements''
              (PDict (map friend_value (filter (\<lambda>ac. fst ac \<in> set requested) (vp_friend_mention_requirements v))))
            (AList.update ''source_content_requirements''
              (requirements_value (subset_content_requirements (vp_source_content_requirements v) requested))
            (AList.update ''content_requirements''
              (requirements_value (subset_content_requirements (vp_content_requirements v) requested))
            (AList.update ''action_payloads'' (PDict payloads)
            (AList.update ''required_actions'' (str_list requested) (vp_plan v))))))
      in AList.update ''plan_hash'' (PStr (compute_action_plan_hash E plan)) plan)"

definition derive_subset_plan :: "plan_env \<Rightarrow> validated_plan \<Rightarrow> string list \<Rightarrow> (ei_error, validated_plan) result" where
  "derive_subset_plan E v requested =
     rbind (lift_plan ''execution_intent_repair_'' (worker_validate_action_plan_v2 E (PDict (worker_subset_plan E v requested)) True True)) (\<lambda>w.
     if vp_required_actions w \<noteq> requested then Inl (Ei ''execution_intent_repair_action_plan_mismatch'') else Inr w)"

section \<open>The root\<close>

definition contract_version_checked :: "pyval \<Rightarrow> string \<Rightarrow> (ei_error, unit) result" where
  "contract_version_checked v code = rbind (require_positive_int v code) (\<lambda>n.
     if n \<noteq> EXECUTION_INTENT_CONTRACT_VERSION then Inl (Ei code) else Inr ())"

definition root_identity :: "pydict \<Rightarrow> (ei_error, string \<times> string \<times> int \<times> string \<times> int) result" where
  "root_identity row =
     rbind (contract_version_checked (dget row ''root_contract_version'') ''execution_intent_contract_version_invalid'') (\<lambda>_.
     rbind (require_uuid (dget row ''root_intent_id'') ''execution_intent_id_invalid'') (\<lambda>i.
     rbind (require_hash (dget row ''root_intent_hash'') ''execution_intent_hash_invalid'') (\<lambda>h.
     rbind (require_positive_int (dget row ''root_lottery_id'') ''execution_intent_lottery_id_invalid'') (\<lambda>lottery.
     rbind (require_uuid (dget row ''root_source_task_id'') ''execution_intent_source_task_id_invalid'') (\<lambda>task.
     rbind (require_positive_int (dget row ''root_source_account_id'') ''execution_intent_source_account_id_invalid'') (\<lambda>account.
       Inr (i, h, lottery, task, account)))))))"

definition root_target :: "pydict \<Rightarrow> (ei_error, string \<times> string \<times> string) result" where
  "root_target row =
     rbind (rmap casefold (require_string (dget row ''root_platform'') ''execution_intent_platform_invalid'' None)) (\<lambda>platform.
     rbind (require_string (dget row ''root_raw_url'') ''execution_intent_raw_url_invalid'' (Some 512)) (\<lambda>raw_url.
     rbind (require_string (dget row ''root_canonical_url'') ''execution_intent_canonical_url_invalid'' (Some 512)) (\<lambda>canonical_url.
       Inr (platform, raw_url, canonical_url))))"

definition root_plan :: "plan_env \<Rightarrow> pydict \<Rightarrow> (ei_error, validated_plan \<times> string \<times> string list) result" where
  "root_plan E row =
     rbind (json_mapping E (dget row ''root_full_action_plan'') ''execution_intent_action_plan_invalid'') (\<lambda>d.
     rbind (lift_plan ''execution_intent_'' (worker_validate_action_plan_v2 E (PDict d) True True)) (\<lambda>v.
     rbind (require_hash (dget row ''root_full_action_plan_hash'') ''execution_intent_action_plan_hash_invalid'') (\<lambda>h.
     rbind (worker_requested E (vp_required_actions v) (dget row ''root_full_required_actions'') False) (\<lambda>actions.
       Inr (v, h, actions)))))"

definition root_hashes :: "pydict \<Rightarrow> (ei_error, string \<times> int \<times> string \<times> string \<times> string) result" where
  "root_hashes row =
     rbind (require_hash (dget row ''root_full_required_actions_hash'') ''execution_intent_required_actions_hash_invalid'') (\<lambda>actions_hash.
     rbind (require_positive_int (dget row ''root_rule_snapshot_id'') ''execution_intent_rule_snapshot_id_invalid'') (\<lambda>snapshot.
     rbind (require_hash (dget row ''root_rule_hash'') ''execution_intent_rule_hash_invalid'') (\<lambda>rule_hash.
     rbind (require_string (dget row ''root_execution_path_id'') ''execution_intent_execution_path_invalid'' (Some 128)) (\<lambda>path.
     rbind (require_hash (dget row ''root_target_hash'') ''execution_intent_target_hash_invalid'') (\<lambda>target.
       Inr (actions_hash, snapshot, rule_hash, path, target))))))"

fun root_of_parts :: "string \<times> string \<times> int \<times> string \<times> int \<Rightarrow> string \<times> string \<times> string \<Rightarrow> validated_plan \<times> string \<times> string list
    \<Rightarrow> string \<times> int \<times> string \<times> string \<times> string \<Rightarrow> frozen_intent" where
  "root_of_parts (i, h, lottery, task, account) (platform, raw_url, canonical_url) (v, plan_hash, actions)
      (actions_hash, snapshot, rule_hash, path, target) =
     \<lparr>fi_intent_id = i, fi_intent_hash = h, fi_lottery_id = lottery, fi_source_task_id = task,
      fi_source_account_id = account, fi_platform = platform, fi_raw_url = raw_url, fi_canonical_url = canonical_url,
      fi_plan = vp_plan v, fi_plan_hash = plan_hash, fi_required_actions = actions,
      fi_required_actions_hash = actions_hash, fi_rule_snapshot_id = snapshot, fi_rule_hash = rule_hash,
      fi_execution_path_id = path, fi_target_hash = target\<rparr>"

definition same_canonical :: "plan_env \<Rightarrow> pydict \<Rightarrow> pydict \<Rightarrow> bool" where
  "same_canonical E c d \<longleftrightarrow> canonical_json_bytes (px_float E) (PDict c) = canonical_json_bytes (px_float E) (PDict d)"

definition root_matches :: "plan_env \<Rightarrow> pydict \<Rightarrow> int \<Rightarrow> string \<Rightarrow> validated_plan \<Rightarrow> validated_plan \<Rightarrow> frozen_intent \<Rightarrow> bool" where
  "root_matches E task lottery_id platform full v f \<longleftrightarrow>
     fi_lottery_id f = lottery_id \<and> fi_platform f = platform \<and> fi_raw_url f = msg_text E task ''raw_url''
     \<and> fi_canonical_url f = msg_text E task ''canonical_url'' \<and> vp_plan_hash v = fi_plan_hash f
     \<and> fi_required_actions f = vp_required_actions v
     \<and> required_actions_hash E (map PStr (fi_required_actions f)) = fi_required_actions_hash f
     \<and> fi_rule_snapshot_id f = vp_rule_snapshot_id full \<and> fi_rule_hash f = vp_rule_hash full
     \<and> fi_execution_path_id f = vp_execution_path_id full \<and> compute_target_hash E (fi_canonical_url f) = Inr (fi_target_hash f)
     \<and> fi_plan_hash f = vp_plan_hash full \<and> same_canonical E (vp_plan v) (vp_plan full)"

definition validate_root ::
  "plan_env \<Rightarrow> pydict \<Rightarrow> pydict \<Rightarrow> int \<Rightarrow> string \<Rightarrow> validated_plan \<Rightarrow> (ei_error, frozen_intent \<times> validated_plan) result" where
  "validate_root E task row lottery_id platform full =
     rbind (root_identity row) (\<lambda>identity. rbind (root_target row) (\<lambda>target.
     rbind (root_plan E row) (\<lambda>plan. rbind (root_hashes row) (\<lambda>hashes.
       let f = root_of_parts identity target plan hashes in
       if \<not> root_matches E task lottery_id platform full (fst plan) f then Inl (Ei ''execution_intent_payload_binding_mismatch'')
       else if compute_intent_hash E f \<noteq> fi_intent_hash f then Inl (Ei ''execution_intent_hash_mismatch'')
       else if msg_token E task ''execution_intent_id'' \<noteq> fi_intent_id f \<or> msg_token E task ''execution_intent_hash'' \<noteq> fi_intent_hash f
       then Inl (Ei ''execution_intent_message_binding_mismatch'')
       else Inr (f, fst plan)))))"

section \<open>The binding\<close>

record validated_task_intent =
  vi_intent_id :: "string option"
  vi_intent_hash :: "string option"
  vi_kind :: string
  vi_binding_hash :: "string option"
  vi_actions :: "string list"
  vi_plan :: validated_plan
  vi_legacy :: bool

definition binding_head :: "pydict \<Rightarrow> frozen_intent \<Rightarrow> int \<Rightarrow> (ei_error, string \<times> string \<times> int \<times> int \<times> string) result" where
  "binding_head row f account_id =
     rbind (contract_version_checked (dget row ''binding_contract_version'') ''execution_intent_binding_contract_version_invalid'') (\<lambda>_.
     rbind (require_uuid (dget row ''binding_task_id'') ''execution_intent_binding_task_id_invalid'') (\<lambda>task.
     rbind (require_uuid (dget row ''binding_intent_id'') ''execution_intent_binding_intent_id_invalid'') (\<lambda>i.
     rbind (require_positive_int (dget row ''binding_lottery_id'') ''execution_intent_binding_lottery_id_invalid'') (\<lambda>lottery.
     rbind (require_positive_int (dget row ''binding_account_id'') ''execution_intent_binding_account_id_invalid'') (\<lambda>account.
     rbind (require_string (dget row ''binding_kind'') ''execution_intent_binding_kind_invalid'' (Some 16)) (\<lambda>kind.
     if kind \<notin> set EXECUTION_INTENT_KINDS then Inl (Ei ''execution_intent_binding_kind_invalid'')
     else if account \<noteq> fi_source_account_id f \<or> account_id \<noteq> fi_source_account_id f
     then Inl (Ei (if kind = ''repair'' then ''execution_intent_repair_account_mismatch'' else ''execution_intent_full_account_mismatch''))
     else Inr (task, i, lottery, account, kind)))))))"

text \<open>The bound plan and the plan it has to equal: the root's plan, or the subset derived again.\<close>

definition binding_plans :: "plan_env \<Rightarrow> pydict \<Rightarrow> frozen_intent \<Rightarrow> validated_plan \<Rightarrow> string
    \<Rightarrow> (ei_error, string list \<times> string \<times> validated_plan \<times> validated_plan) result" where
  "binding_plans E row f full kind =
     rbind (worker_requested E (fi_required_actions f) (dget row ''binding_requested_actions'') (kind = ''repair'')) (\<lambda>requested.
     rbind (require_hash (dget row ''binding_requested_actions_hash'') ''execution_intent_requested_actions_hash_invalid'') (\<lambda>h.
     rbind (json_mapping E (dget row ''binding_action_plan'') ''execution_intent_binding_action_plan_invalid'') (\<lambda>d.
     rbind (lift_plan ''execution_intent_binding_'' (worker_validate_action_plan_v2 E (PDict d) True True)) (\<lambda>bound.
     rbind (if kind = ''full'' then Inr full else derive_subset_plan E full requested) (\<lambda>expected.
       Inr (requested, h, bound, expected))))))"

text \<open>The evidence and execution columns, in the order they are read.\<close>

definition binding_evidence :: "plan_env \<Rightarrow> pydict \<Rightarrow> string
    \<Rightarrow> (ei_error, string \<times> string \<times> string \<times> string \<times> string option \<times> string option) result" where
  "binding_evidence E row expected_kind =
     rbind (require_hash (dget row ''binding_action_plan_hash'') ''execution_intent_binding_action_plan_hash_invalid'') (\<lambda>plan_hash.
     rbind (require_hash (dget row ''binding_evidence_action_plan_hash'') ''execution_intent_binding_evidence_plan_hash_invalid'') (\<lambda>evidence_hash.
     rbind (require_uuid (dget row ''binding_execution_evidence_id'') ''execution_intent_binding_evidence_id_invalid'') (\<lambda>evidence.
     rbind (require_string (dget row ''binding_execution_evidence_kind'') ''execution_intent_binding_evidence_kind_invalid'' (Some 32)) (\<lambda>kind.
     if kind \<notin> set EXECUTION_EVIDENCE_KINDS \<or> expected_kind \<notin> set EXECUTION_EVIDENCE_KINDS
     then Inl (Ei ''execution_intent_binding_evidence_kind_invalid'') else
     rbind (optional_uuid E (dget row ''binding_exact_execution_evidence_id'') ''execution_intent_binding_exact_evidence_id_invalid'') (\<lambda>exact.
     rbind (optional_uuid E (dget row ''binding_oauth_calibration_id'') ''execution_intent_binding_oauth_calibration_id_invalid'') (\<lambda>oauth.
       Inr (plan_hash, evidence_hash, evidence, kind, exact, oauth)))))))"

definition binding_execution :: "pydict \<Rightarrow> (ei_error, string \<times> string \<times> string \<times> int \<times> string \<times> int \<times> int \<times> string \<times> string) result" where
  "binding_execution row =
     rbind (require_string (dget row ''binding_execution_path_id'') ''execution_intent_binding_execution_path_invalid'' (Some 128)) (\<lambda>path.
     rbind (require_hash (dget row ''binding_target_hash'') ''execution_intent_binding_target_hash_invalid'') (\<lambda>target.
     rbind (require_hash (dget row ''binding_config_hash'') ''execution_intent_binding_config_hash_invalid'') (\<lambda>config.
     rbind (require_positive_int (dget row ''binding_execution_revision'') ''execution_intent_binding_execution_revision_invalid'') (\<lambda>revision.
     rbind (require_uuid (dget row ''binding_account_lease_id'') ''execution_intent_binding_lease_id_invalid'') (\<lambda>lease.
     rbind (require_positive_int (dget row ''binding_account_lease_generation'') ''execution_intent_binding_lease_generation_invalid'') (\<lambda>generation.
     rbind (require_positive_int (dget row ''binding_rule_snapshot_id'') ''execution_intent_binding_rule_snapshot_id_invalid'') (\<lambda>snapshot.
     rbind (require_hash (dget row ''binding_rule_hash'') ''execution_intent_binding_rule_hash_invalid'') (\<lambda>rule_hash.
     rbind (require_hash (dget row ''binding_hash'') ''execution_intent_binding_hash_invalid'') (\<lambda>h.
       Inr (path, target, config, revision, lease, generation, snapshot, rule_hash, h))))))))))"

fun stored_binding :: "frozen_intent \<Rightarrow> string \<times> string \<times> int \<times> int \<times> string
    \<Rightarrow> string list \<times> string \<times> validated_plan \<times> validated_plan
    \<Rightarrow> string \<times> string \<times> string \<times> string \<times> string option \<times> string option
    \<Rightarrow> string \<times> string \<times> string \<times> int \<times> string \<times> int \<times> int \<times> string \<times> string \<Rightarrow> task_binding" where
  "stored_binding f (task, i, lottery, account, kind) (requested, h, bound, expected) (plan_hash, evidence_hash, evidence, evidence_kind, exact, oauth)
      (path, target, config, revision, lease, generation, snapshot, rule_hash, binding_hash) =
     \<lparr>tb_task_id = task, tb_intent_id = i, tb_intent_hash = fi_intent_hash f, tb_lottery_id = lottery, tb_account_id = account,
      tb_kind = kind, tb_actions = requested, tb_actions_hash = h, tb_plan = vp_plan bound, tb_plan_hash = plan_hash,
      tb_evidence_plan_hash = evidence_hash, tb_rule_snapshot_id = snapshot, tb_rule_hash = rule_hash, tb_evidence_id = evidence,
      tb_evidence_kind = evidence_kind, tb_exact_evidence_id = exact, tb_oauth_calibration_id = oauth, tb_execution_path_id = path,
      tb_target_hash = target, tb_config_hash = config, tb_revision = revision, tb_lease_id = lease, tb_lease_generation = generation,
      tb_binding_hash = binding_hash\<rparr>"

definition binding_matches_root :: "plan_env \<Rightarrow> string \<Rightarrow> int \<Rightarrow> int \<Rightarrow> frozen_intent \<Rightarrow> validated_plan \<Rightarrow> validated_plan \<Rightarrow> task_binding \<Rightarrow> bool" where
  "binding_matches_root E task_id account_id lottery_id f bound expected b \<longleftrightarrow>
     tb_task_id b = task_id \<and> tb_intent_id b = fi_intent_id f \<and> tb_lottery_id b = lottery_id \<and> tb_account_id b = account_id
     \<and> tb_actions_hash b = requested_hash E f (tb_actions b) \<and> vp_required_actions bound = tb_actions b \<and> vp_plan_hash bound = tb_plan_hash b
     \<and> same_canonical E (vp_plan bound) (vp_plan expected) \<and> tb_plan_hash b = vp_plan_hash expected
     \<and> tb_evidence_plan_hash b = fi_plan_hash f \<and> tb_rule_snapshot_id b = fi_rule_snapshot_id f \<and> tb_rule_hash b = fi_rule_hash f
     \<and> tb_execution_path_id b = fi_execution_path_id f \<and> tb_target_hash b = fi_target_hash f"

definition binding_matches_evidence :: "plan_env \<Rightarrow> pydict \<Rightarrow> pydict \<Rightarrow> string \<Rightarrow> task_binding \<Rightarrow> bool" where
  "binding_matches_evidence E task row expected_kind b \<longleftrightarrow>
     tb_evidence_id b = msg_token E task ''execution_evidence_id'' \<and> tb_evidence_id b = msg_token E row ''task_execution_evidence_id''
     \<and> tb_evidence_kind b = expected_kind
     \<and> (tb_evidence_kind b = ''exact_execution_evidence'' \<longrightarrow> tb_exact_evidence_id b = Some (tb_evidence_id b) \<and> tb_oauth_calibration_id b = None)
     \<and> (tb_evidence_kind b = ''oauth_account_calibration'' \<longrightarrow> tb_oauth_calibration_id b = Some (tb_evidence_id b) \<and> tb_exact_evidence_id b = None)
     \<and> tb_execution_path_id b = msg_token E task ''execution_path_id'' \<and> tb_execution_path_id b = msg_token E row ''task_execution_path_id''
     \<and> tb_target_hash b = msg_token E task ''target_hash'' \<and> tb_target_hash b = msg_token E row ''task_target_hash''
     \<and> tb_config_hash b = msg_token E task ''config_hash'' \<and> tb_config_hash b = msg_token E row ''task_config_hash''"

text \<open>The last comparisons read numbers of the message, so they may raise their own errors.\<close>

definition binding_matches_lease :: "plan_env \<Rightarrow> pydict \<Rightarrow> pydict \<Rightarrow> task_binding \<Rightarrow> (ei_error, bool) result" where
  "binding_matches_lease E task row b =
     rbind (message_positive_int E (dget task ''execution_revision'') ''execution_intent_binding_execution_revision_invalid'') (\<lambda>r.
     if tb_revision b \<noteq> r then Inr False else
     rbind (require_positive_int (dget row ''account_execution_revision'') ''execution_intent_binding_execution_revision_invalid'') (\<lambda>r'.
     if tb_revision b \<noteq> r' \<or> tb_lease_id b \<noteq> msg_token E task ''account_lease_id''
       \<or> tb_lease_id b \<noteq> msg_token E row ''task_account_lease_id'' then Inr False else
     rbind (message_positive_int E (dget task ''account_lease_generation'') ''execution_intent_binding_lease_generation_invalid'') (\<lambda>g.
     if tb_lease_generation b \<noteq> g then Inr False else
     rbind (require_positive_int (dget row ''task_account_lease_generation'') ''execution_intent_binding_lease_generation_invalid'') (\<lambda>g'.
       Inr (tb_lease_generation b = g')))))"

definition message_matches :: "plan_env \<Rightarrow> pydict \<Rightarrow> string list \<Rightarrow> task_binding \<Rightarrow> bool" where
  "message_matches E task requested b \<longleftrightarrow>
     msg_token E task ''execution_intent_kind'' = tb_kind b \<and> msg_token E task ''execution_intent_binding_hash'' = tb_binding_hash b
     \<and> requested = tb_actions b \<and> msg_token E task ''requested_actions_hash'' = tb_actions_hash b
     \<and> msg_token E task ''requested_action_plan_hash'' = tb_plan_hash b \<and> msg_token E task ''execution_evidence_kind'' = tb_evidence_kind b
     \<and> msg_token E task ''exact_execution_evidence_id'' = (case tb_exact_evidence_id b of Some s \<Rightarrow> s | None \<Rightarrow> [])
     \<and> msg_token E task ''oauth_calibration_id'' = (case tb_oauth_calibration_id b of Some s \<Rightarrow> s | None \<Rightarrow> [])"

definition validate_binding ::
  "plan_env \<Rightarrow> pydict \<Rightarrow> pydict \<Rightarrow> frozen_intent \<Rightarrow> validated_plan \<Rightarrow> string \<Rightarrow> int \<Rightarrow> int \<Rightarrow> string \<Rightarrow> (ei_error, validated_task_intent) result" where
  "validate_binding E task row f full task_id account_id lottery_id expected_kind =
     rbind (binding_head row f account_id) (\<lambda>head.
     rbind (binding_plans E row f full (snd (snd (snd (snd head))))) (\<lambda>plans.
     rbind (binding_evidence E row expected_kind) (\<lambda>evidence.
     rbind (binding_execution row) (\<lambda>execution.
     let b = stored_binding f head plans evidence execution; bound = fst (snd (snd plans)); expected = snd (snd (snd plans)) in
     rbind (if binding_matches_root E task_id account_id lottery_id f bound expected b \<and> binding_matches_evidence E task row expected_kind b
            then binding_matches_lease E task row b else Inr False) (\<lambda>ok.
     if \<not> ok then Inl (Ei ''execution_intent_binding_mismatch'') else
     rbind (worker_requested E (fi_required_actions f) (dget task ''requested_actions'') (tb_kind b = ''repair'')) (\<lambda>requested.
     if \<not> message_matches E task requested b then Inl (Ei ''execution_intent_message_binding_mismatch'')
     else if json_hash E (PDict (binding_hash_payload b)) \<noteq> tb_binding_hash b then Inl (Ei ''execution_intent_binding_hash_mismatch'')
     else Inr \<lparr>vi_intent_id = Some (fi_intent_id f), vi_intent_hash = Some (fi_intent_hash f), vi_kind = tb_kind b,
       vi_binding_hash = Some (tb_binding_hash b), vi_actions = tb_actions b, vi_plan = bound, vi_legacy = False\<rparr>))))))"

definition validate_task_execution_intent ::
  "plan_env \<Rightarrow> pydict \<Rightarrow> pydict \<Rightarrow> string \<Rightarrow> int \<Rightarrow> int \<Rightarrow> string \<Rightarrow> validated_plan \<Rightarrow> string \<Rightarrow> (ei_error, validated_task_intent) result" where
  "validate_task_execution_intent E task row task_id account_id lottery_id platform full expected_kind =
     (let root = db_contract_present row ''root''; binding = db_contract_present row ''binding''; message = message_contract_present E task in
      if \<not> root \<and> \<not> binding \<and> \<not> message
      then rmap (\<lambda>_. \<lparr>vi_intent_id = None, vi_intent_hash = None, vi_kind = ''legacy_full'', vi_binding_hash = None,
          vi_actions = vp_required_actions full, vi_plan = full, vi_legacy = True\<rparr>)
        (validate_legacy_full_authority E task row task_id account_id lottery_id platform full)
      else if \<not> root then Inl (Ei ''execution_intent_root_missing'')
      else if \<not> binding then Inl (Ei ''execution_intent_binding_missing'')
      else if \<not> message then Inl (Ei ''execution_intent_message_missing'')
      else rbind (validate_root E task row lottery_id platform full) (\<lambda>(f, v).
        validate_binding E task row f v task_id account_id lottery_id expected_kind))"

section \<open>The message of a dispatched task\<close>

text \<open>\<open>json.dumps(value, ensure_ascii=False)\<close>.\<close>

fun joined_by :: "string \<Rightarrow> string list \<Rightarrow> string" where
  "joined_by sep [] = []"
| "joined_by sep [x] = x"
| "joined_by sep (x # xs) = x @ sep @ joined_by sep xs"

fun json_dumps :: "(rat \<Rightarrow> string) \<Rightarrow> pyval \<Rightarrow> string" where
  "json_dumps fr PNone = ''null''"
| "json_dumps fr (PBool b) = (if b then ''true'' else ''false'')"
| "json_dumps fr (PInt i) = int_str i"
| "json_dumps fr (PFloat q) = fr q"
| "json_dumps fr (PStr s) = json_string s"
| "json_dumps fr (PList xs) = ''['' @ joined_by '', '' (map (json_dumps fr) xs) @ '']''"
| "json_dumps fr (PDict d) = ''{'' @ joined_by '', '' (map (\<lambda>kv. json_string (fst kv) @ '': '' @ json_dumps fr (snd kv)) d) @ ''}''"

text \<open>The keyword arguments are a dictionary: a missing one is its default, None.\<close>

definition build_lottery_task_message :: "plan_env \<Rightarrow> pydict \<Rightarrow> pydict" where
  "build_lottery_task_message E args =
     (let str_of = (\<lambda>k. PStr (py_str (px_repr E) (dget args k))); text_of = (\<lambda>k. PStr (msg_text E args k));
          selectors = (case dget args ''platform_selectors'' of PDict d \<Rightarrow> PDict d | _ \<Rightarrow> PDict []);
          plan = (case dget args ''action_plan'' of PDict d \<Rightarrow> PDict d | PList l \<Rightarrow> PList l | _ \<Rightarrow> PDict []);
          actions = (case dget args ''requested_actions'' of PList l \<Rightarrow> PList l | _ \<Rightarrow> PList []) in
      [(''task_id'', str_of ''task_id''), (''account_id'', str_of ''account_id''), (''lottery_id'', str_of ''lottery_id''),
       (''platform'', py_or (dget args ''platform'') (PStr [])), (''raw_url'', py_or (dget args ''raw_url'') (PStr [])),
       (''canonical_url'', py_or (dget args ''canonical_url'') (PStr [])),
       (''dry_run'', PStr (if truthy (dget args ''dry_run'') then ''1'' else ''0'')), (''mode'', dget args ''task_mode''),
       (''selector_config'', PStr (json_dumps (px_float E) selectors)), (''action_plan'', PStr (json_dumps (px_float E) plan)),
       (''rule_snapshot_id'', text_of ''rule_snapshot_id''), (''rule_hash'', text_of ''rule_hash''), (''action_plan_hash'', text_of ''action_plan_hash''),
       (''execution_evidence_id'', text_of ''execution_evidence_id''), (''execution_path_id'', text_of ''execution_path_id''),
       (''target_hash'', text_of ''target_hash''), (''config_hash'', text_of ''config_hash''), (''execution_revision'', text_of ''execution_revision''),
       (''account_lease_id'', text_of ''account_lease_id''), (''account_lease_generation'', text_of ''account_lease_generation''),
       (''execution_intent_id'', text_of ''execution_intent_id''), (''execution_intent_hash'', text_of ''execution_intent_hash''),
       (''execution_intent_kind'', text_of ''execution_intent_kind''),
       (''execution_intent_binding_hash'', text_of ''execution_intent_binding_hash''),
       (''requested_actions'', PStr (json_dumps (px_float E) actions)), (''requested_actions_hash'', text_of ''requested_actions_hash''),
       (''requested_action_plan_hash'', text_of ''requested_action_plan_hash''), (''execution_evidence_kind'', text_of ''execution_evidence_kind''),
       (''exact_execution_evidence_id'', text_of ''exact_execution_evidence_id''), (''oauth_calibration_id'', text_of ''oauth_calibration_id''),
       (''weibo_rip_encrypted'', text_of ''weibo_rip_encrypted'')])"

text \<open>
  The arguments with which the repair dispatch calls it; the dispatch of a full run passes the same
  values, read from the lottery and the plan binding the intent was frozen from.
\<close>

definition dispatch_args :: "frozen_intent \<Rightarrow> task_binding \<Rightarrow> pyval \<Rightarrow> pyval \<Rightarrow> pydict" where
  "dispatch_args f b selectors rip =
     [(''task_id'', PStr (tb_task_id b)), (''account_id'', PInt (tb_account_id b)), (''lottery_id'', PInt (tb_lottery_id b)),
      (''platform'', PStr (fi_platform f)), (''raw_url'', PStr (fi_raw_url f)), (''canonical_url'', PStr (fi_canonical_url f)),
      (''task_mode'', PStr ''real_run''), (''dry_run'', PBool False), (''platform_selectors'', selectors), (''action_plan'', PDict (fi_plan f)),
      (''rule_snapshot_id'', PInt (fi_rule_snapshot_id f)), (''rule_hash'', PStr (fi_rule_hash f)), (''action_plan_hash'', PStr (fi_plan_hash f)),
      (''execution_evidence_id'', PStr (tb_evidence_id b)), (''execution_path_id'', PStr (fi_execution_path_id f)),
      (''target_hash'', PStr (fi_target_hash f)), (''config_hash'', PStr (tb_config_hash b)), (''execution_revision'', PInt (tb_revision b)),
      (''account_lease_id'', PStr (tb_lease_id b)), (''account_lease_generation'', PInt (tb_lease_generation b))]
     @ message_fields b @ [(''weibo_rip_encrypted'', rip)]"

text \<open>
  The columns the worker reads: the task row written at dispatch, the account's revision, the binding and
  the root it names. A JSON column returns the value that was stored. \<open>rest\<close> are the other columns of the join.
\<close>

definition gate_row :: "frozen_intent \<Rightarrow> task_binding \<Rightarrow> pydict \<Rightarrow> pydict" where
  "gate_row f b rest =
     [(''task_execution_evidence_id'', PStr (tb_evidence_id b)), (''task_execution_path_id'', PStr (fi_execution_path_id f)),
      (''task_target_hash'', PStr (fi_target_hash f)), (''task_config_hash'', PStr (tb_config_hash b)),
      (''task_account_lease_id'', PStr (tb_lease_id b)), (''task_account_lease_generation'', PInt (tb_lease_generation b)),
      (''account_execution_revision'', PInt (tb_revision b)),
      (''root_contract_version'', PInt EXECUTION_INTENT_CONTRACT_VERSION), (''root_intent_id'', PStr (fi_intent_id f)),
      (''root_intent_hash'', PStr (fi_intent_hash f)), (''root_lottery_id'', PInt (fi_lottery_id f)),
      (''root_source_task_id'', PStr (fi_source_task_id f)), (''root_source_account_id'', PInt (fi_source_account_id f)),
      (''root_platform'', PStr (fi_platform f)), (''root_raw_url'', PStr (fi_raw_url f)), (''root_canonical_url'', PStr (fi_canonical_url f)),
      (''root_full_action_plan'', PDict (fi_plan f)), (''root_full_action_plan_hash'', PStr (fi_plan_hash f)),
      (''root_full_required_actions'', str_list (fi_required_actions f)),
      (''root_full_required_actions_hash'', PStr (fi_required_actions_hash f)), (''root_rule_snapshot_id'', PInt (fi_rule_snapshot_id f)),
      (''root_rule_hash'', PStr (fi_rule_hash f)), (''root_execution_path_id'', PStr (fi_execution_path_id f)),
      (''root_target_hash'', PStr (fi_target_hash f)),
      (''binding_contract_version'', PInt EXECUTION_INTENT_CONTRACT_VERSION), (''binding_task_id'', PStr (tb_task_id b)),
      (''binding_intent_id'', PStr (tb_intent_id b)), (''binding_lottery_id'', PInt (tb_lottery_id b)),
      (''binding_account_id'', PInt (tb_account_id b)), (''binding_kind'', PStr (tb_kind b)),
      (''binding_requested_actions'', str_list (tb_actions b)), (''binding_requested_actions_hash'', PStr (tb_actions_hash b)),
      (''binding_action_plan'', PDict (tb_plan b)), (''binding_action_plan_hash'', PStr (tb_plan_hash b)),
      (''binding_evidence_action_plan_hash'', PStr (tb_evidence_plan_hash b)), (''binding_rule_snapshot_id'', PInt (tb_rule_snapshot_id b)),
      (''binding_rule_hash'', PStr (tb_rule_hash b)), (''binding_execution_evidence_id'', PStr (tb_evidence_id b)),
      (''binding_execution_evidence_kind'', PStr (tb_evidence_kind b)),
      (''binding_exact_execution_evidence_id'', opt_value (tb_exact_evidence_id b)),
      (''binding_oauth_calibration_id'', opt_value (tb_oauth_calibration_id b)),
      (''binding_execution_path_id'', PStr (tb_execution_path_id b)), (''binding_target_hash'', PStr (tb_target_hash b)),
      (''binding_config_hash'', PStr (tb_config_hash b)), (''binding_execution_revision'', PInt (tb_revision b)),
      (''binding_account_lease_id'', PStr (tb_lease_id b)), (''binding_account_lease_generation'', PInt (tb_lease_generation b)),
      (''binding_hash'', PStr (tb_binding_hash b))] @ rest"

section \<open>Numbers in a message\<close>

lemma digit_of_digit_char [simp]: "digit_of (digit_char n) = Some (n mod 10)"
proof -
  have "48 + n mod 10 < 256" by simp
  then show ?thesis by (simp add: digit_of_def digit_char_def)
qed

lemma parse_digits_nat_str: "\<exists>k. parse_digits acc False (nat_str n @ s) = parse_digits (acc * 10 ^ k + n) False s \<and> 0 < k"
proof (induction n arbitrary: s rule: nat_str.induct)
  case (1 n)
  show ?case
  proof (cases "n < 10")
    case True
    then show ?thesis by (intro exI [of _ 1]) (simp add: nat_str.simps [of n] mult.commute)
  next
    case False
    then obtain k where "parse_digits acc False (nat_str (n div 10) @ digit_char n # s)
        = parse_digits (acc * 10 ^ k + n div 10) False (digit_char n # s)" using 1 by blast
    then show ?thesis using False by (intro exI [of _ "Suc k"]) (simp add: nat_str.simps [of n] algebra_simps)
  qed
qed

lemma nat_str_chars: "c \<in> set (nat_str n) \<Longrightarrow> \<exists>k. c = digit_char k"
proof (induction n rule: nat_str.induct)
  case (1 n)
  then show ?case by (cases "n < 10") (auto simp: nat_str.simps [of n])
qed

lemma nat_str_Cons: "\<exists>k r. nat_str n = digit_char k # r"
proof -
  have "nat_str n \<noteq> []" by (simp add: nat_str.simps [of n])
  then obtain c r where "nat_str n = c # r" by (cases "nat_str n") auto
  then show ?thesis using nat_str_chars [of c n] by auto
qed

lemma parse_nat_str: "parse_nat (nat_str n) = Some n"
proof -
  obtain k r where kr: "nat_str n = digit_char k # r" using nat_str_Cons by blast
  have "parse_digits 0 False (nat_str n) = Some n" using parse_digits_nat_str [of 0 n "[]"] by auto
  then show ?thesis by (simp add: parse_nat_def kr)
qed

lemma strip_no_space: "(\<And>c. c \<in> set s \<Longrightarrow> \<not> is_space c) \<Longrightarrow> strip s = s"
  by (cases "s = []") (simp add: strip_def lstrip_def, metis dropWhile_eq_self_iff hd_in_set lstrip_def rev_rev_ident set_rev strip_def)

lemma digit_char_code: "(of_char (digit_char n) :: nat) = 48 + n mod 10"
proof -
  have "48 + n mod 10 < 256" by simp
  then show ?thesis by (simp add: digit_char_def)
qed

lemma strip_nat_str: "strip (nat_str n) = nat_str n"
proof (rule strip_no_space)
  fix c assume "c \<in> set (nat_str n)"
  then obtain k where "c = digit_char k" using nat_str_chars by blast
  then show "\<not> is_space c" using digit_char_code [of k] by (auto simp: is_space_def)
qed

lemma message_int: "0 < n \<Longrightarrow> message_positive_int E (PStr (int_str n)) code = Inr n"
proof -
  assume n: "0 < n"
  then have s: "int_str n = nat_str (nat n)" by (simp add: int_str_def)
  obtain k r where kr: "nat_str (nat n) = digit_char k # r" using nat_str_Cons by blast
  have "digit_char k \<noteq> CHR ''-''" "digit_char k \<noteq> CHR ''+''" using digit_char_code [of k] by auto
  then have "parse_int (int_str n) = Some n" using n parse_nat_str [of "nat n"] strip_nat_str [of "nat n"] by (simp add: s parse_int_def kr)
  then show ?thesis using n strip_nat_str by (simp add: message_positive_int_def s)
qed

section \<open>What an accepted task may do\<close>

lemma contract_version_checked_iff: "contract_version_checked v c = Inr u \<longleftrightarrow> v = PInt EXECUTION_INTENT_CONTRACT_VERSION"
  by (auto simp: contract_version_checked_def rbind_eq_Inr requires if_Inl_eq_Inr EXECUTION_INTENT_CONTRACT_VERSION_def split: if_splits)

lemma worker_requested_PList: "worker_requested E full (PList xs) strict = normalize_requested_actions full (PList xs) strict"
  by (simp add: worker_requested_def json_list_def json_value_def)

lemma worker_requestedD:
  assumes "worker_requested E full v strict = Inr xs"
  shows "xs \<noteq> []" "distinct xs" "xs = filter (\<lambda>a. a \<in> set xs) full" "strict \<Longrightarrow> length xs < length full"
  using assms by (auto simp: worker_requested_def rbind_eq_Inr normalize_requested_iff)

lemma validate_rootD:
  assumes "validate_root E task row lottery_id platform full = Inr (f, v)"
  shows "root_matches E task lottery_id platform full v f" "fi_intent_hash f = compute_intent_hash E f"
    "worker_validate_action_plan_v2 E (PDict (fi_plan f)) True True = Inr v"
proof -
  obtain identity target plan hashes where p: "root_plan E row = Inr plan"
    and f: "f = root_of_parts identity target plan hashes" and v: "v = fst plan"
    and m: "root_matches E task lottery_id platform full v f" and h: "fi_intent_hash f = compute_intent_hash E f"
    using assms unfolding validate_root_def Let_def by (auto simp: rbind_eq_Inr if_Inl_eq_Inr)
  obtain ph acts where plan: "plan = (v, ph, acts)" using v by (metis prod.exhaust fst_conv)
  obtain d where d: "worker_validate_action_plan_v2 E (PDict d) True True = Inr v"
    using p by (auto simp: plan root_plan_def rbind_eq_Inr requires)
  then have "d = vp_plan v" using validated_plan_facts(1) [OF d [unfolded worker_validator_agrees_dict]] by simp
  moreover have "fi_plan f = vp_plan v" unfolding f plan by (cases identity; cases target; cases hashes) simp
  ultimately show "worker_validate_action_plan_v2 E (PDict (fi_plan f)) True True = Inr v" using d by simp
  show "root_matches E task lottery_id platform full v f" "fi_intent_hash f = compute_intent_hash E f" by (fact m h)+
qed

lemma validate_root_parts:
  assumes "validate_root E task row lottery_id platform full = Inr (f, v)"
  obtains i t p h where "root_identity row = Inr i" "root_target row = Inr t" "root_plan E row = Inr p" "root_hashes row = Inr h"
    "f = root_of_parts i t p h" "v = fst p"
  using assms unfolding validate_root_def Let_def by (auto simp: rbind_eq_Inr if_Inl_eq_Inr)

definition accepted_binding :: "frozen_intent \<Rightarrow> task_binding \<Rightarrow> validated_plan \<Rightarrow> validated_task_intent" where
  "accepted_binding f b bound = \<lparr>vi_intent_id = Some (fi_intent_id f), vi_intent_hash = Some (fi_intent_hash f), vi_kind = tb_kind b,
     vi_binding_hash = Some (tb_binding_hash b), vi_actions = tb_actions b, vi_plan = bound, vi_legacy = False\<rparr>"

lemma validate_binding_parts:
  assumes "validate_binding E task row f v task_id account_id lottery_id kind = Inr r"
  obtains head plans evidence execution where "binding_head row f account_id = Inr head"
    "binding_plans E row f v (snd (snd (snd (snd head)))) = Inr plans" "binding_evidence E row kind = Inr evidence" "binding_execution row = Inr execution"
    "binding_matches_root E task_id account_id lottery_id f (fst (snd (snd plans))) (snd (snd (snd plans))) (stored_binding f head plans evidence execution)"
    "r = accepted_binding f (stored_binding f head plans evidence execution) (fst (snd (snd plans)))"
  using assms unfolding validate_binding_def Let_def accepted_binding_def
  by (auto simp: rbind_eq_Inr if_Inl_eq_Inr split: if_splits)

lemma same_canonical_trans: "same_canonical E a b \<Longrightarrow> same_canonical E b c \<Longrightarrow> same_canonical E a c"
  by (simp add: same_canonical_def)

lemma validate_bindingD:
  assumes "validate_binding E task row f v task_id account_id lottery_id kind = Inr r"
  shows "\<not> vi_legacy r" "fi_source_account_id f = account_id" "dget row ''binding_task_id'' = PStr task_id"
    "vi_actions r \<noteq> []" "vi_actions r = filter (\<lambda>a. a \<in> set (vi_actions r)) (fi_required_actions f)" "vp_required_actions (vi_plan r) = vi_actions r"
    "(vi_kind r = ''full'' \<and> same_canonical E (vp_plan (vi_plan r)) (vp_plan v))
     \<or> (vi_kind r = ''repair'' \<and> length (vi_actions r) < length (fi_required_actions f)
        \<and> same_canonical E (vp_plan (vi_plan r)) (worker_subset_plan E v (vi_actions r)))"
proof -
  obtain head plans evidence execution where h: "binding_head row f account_id = Inr head"
    and p: "binding_plans E row f v (snd (snd (snd (snd head)))) = Inr plans"
    and m: "binding_matches_root E task_id account_id lottery_id f (fst (snd (snd plans))) (snd (snd (snd plans))) (stored_binding f head plans evidence execution)"
    and r: "r = accepted_binding f (stored_binding f head plans evidence execution) (fst (snd (snd plans)))"
    using assms by (rule validate_binding_parts)
  obtain t i l a k where head: "head = (t, i, l, a, k)" by (metis prod.exhaust)
  obtain acts hash bound expected where plans: "plans = (acts, hash, bound, expected)" by (metis prod.exhaust)
  obtain e1 e2 e3 e4 e5 e6 where evidence: "evidence = (e1, e2, e3, e4, e5, e6)" by (metis prod.exhaust)
  obtain x1 x2 x3 x4 x5 x6 x7 x8 x9 where execution: "execution = (x1, x2, x3, x4, x5, x6, x7, x8, x9)" by (metis prod.exhaust)
  note eqs = head plans evidence execution
  have hd: "dget row ''binding_task_id'' = PStr t" "k = ''full'' \<or> k = ''repair''" "account_id = fi_source_account_id f"
    using h by (auto simp: head binding_head_def rbind_eq_Inr if_Inl_eq_Inr requires EXECUTION_INTENT_KINDS_def)
  have req: "worker_requested E (fi_required_actions f) (dget row ''binding_requested_actions'') (k = ''repair'') = Inr acts"
    and ex: "(if k = ''full'' then Inr v else derive_subset_plan E v acts) = Inr expected"
    using p by (auto simp: eqs binding_plans_def rbind_eq_Inr)
  have m': "t = task_id" "vp_required_actions bound = acts" "same_canonical E (vp_plan bound) (vp_plan expected)"
    using m by (simp_all add: eqs binding_matches_root_def)
  show "\<not> vi_legacy r" "fi_source_account_id f = account_id" "dget row ''binding_task_id'' = PStr task_id"
    "vp_required_actions (vi_plan r) = vi_actions r" using hd m' by (simp_all add: r eqs accepted_binding_def)
  have acts: "vi_actions r = acts" "vi_kind r = k" "vi_plan r = bound" by (simp_all add: r eqs accepted_binding_def)
  note d = worker_requestedD [OF req]
  show "vi_actions r \<noteq> []" "vi_actions r = filter (\<lambda>a. a \<in> set (vi_actions r)) (fi_required_actions f)"
    unfolding acts by (fact d)+
  show "(vi_kind r = ''full'' \<and> same_canonical E (vp_plan (vi_plan r)) (vp_plan v))
     \<or> (vi_kind r = ''repair'' \<and> length (vi_actions r) < length (fi_required_actions f)
        \<and> same_canonical E (vp_plan (vi_plan r)) (worker_subset_plan E v (vi_actions r)))"
  proof (cases "k = ''full''")
    case True
    then show ?thesis using m'(3) ex by (simp add: acts)
  next
    case False
    then have "worker_validate_action_plan_v2 E (PDict (worker_subset_plan E v acts)) True True = Inr expected"
      using ex by (auto simp: derive_subset_plan_def rbind_eq_Inr if_Inl_eq_Inr requires)
    then have "vp_plan expected = worker_subset_plan E v acts"
      using validated_plan_facts(1) [of E "PDict (worker_subset_plan E v acts)" True True expected] by (simp add: worker_validator_agrees_dict)
    then show ?thesis using m'(3) d(4) hd(2) False by (simp add: acts)
  qed
qed

text \<open>
  C10. The worker executes only what was frozen. When the validation of a task succeeds, either the task is
  from before the contract, has the provenance of the retired stream and runs the whole plan of the lottery; or its
  stored root carries its own hash, belongs to this lottery, platform and account and to the plan of the
  lottery, the binding names this task, the actions are a non-empty selection of the root's actions in
  order, and the plan to execute has the canonical text of the full plan or of the subset derived again from it.
\<close>

theorem worker_runs_only_the_frozen_plan:
  assumes "validate_task_execution_intent E task row task_id account_id lottery_id platform full kind = Inr r"
  shows "(vi_legacy r \<and> vi_plan r = full \<and> vi_actions r = vp_required_actions full \<and> legacy_provenance E task row task_id)
    \<or> (vi_legacy r = False \<and> (\<exists>f v. validate_root E task row lottery_id platform full = Inr (f, v)
        \<and> fi_intent_hash f = compute_intent_hash E f \<and> fi_lottery_id f = lottery_id \<and> fi_platform f = platform
        \<and> fi_source_account_id f = account_id \<and> same_canonical E (fi_plan f) (vp_plan full) \<and> dget row ''binding_task_id'' = PStr task_id
        \<and> vi_actions r \<noteq> [] \<and> vi_actions r = filter (\<lambda>a. a \<in> set (vi_actions r)) (fi_required_actions f)
        \<and> vp_required_actions (vi_plan r) = vi_actions r
        \<and> ((vi_kind r = ''full'' \<and> same_canonical E (vp_plan (vi_plan r)) (vp_plan full))
           \<or> (vi_kind r = ''repair'' \<and> length (vi_actions r) < length (fi_required_actions f)
              \<and> same_canonical E (vp_plan (vi_plan r)) (worker_subset_plan E v (vi_actions r))))))"
proof (cases "db_contract_present row ''root'' \<or> db_contract_present row ''binding'' \<or> message_contract_present E task")
  case False
  then have "validate_legacy_full_authority E task row task_id account_id lottery_id platform full = Inr ()" "vi_legacy r" "vi_plan r = full"
    "vi_actions r = vp_required_actions full"
    using assms by (auto simp: validate_task_execution_intent_def rmap_eq_Inr)
  then show ?thesis by (auto simp: validate_legacy_full_authority_def split: if_splits)
next
  case True
  then obtain f v where f: "validate_root E task row lottery_id platform full = Inr (f, v)"
    and b: "validate_binding E task row f v task_id account_id lottery_id kind = Inr r"
    using assms by (auto simp: validate_task_execution_intent_def rbind_eq_Inr split: if_splits)
  note root = validate_rootD [OF f] and bd = validate_bindingD [OF b]
  have plan: "vp_plan v = fi_plan f" using validated_plan_facts(1) [OF root(3) [unfolded worker_validator_agrees_dict]] by simp
  have m: "fi_lottery_id f = lottery_id" "fi_platform f = platform" "same_canonical E (vp_plan v) (vp_plan full)"
    using root(1) unfolding root_matches_def by blast+
  have "same_canonical E (vp_plan (vi_plan r)) (vp_plan v) \<Longrightarrow> same_canonical E (vp_plan (vi_plan r)) (vp_plan full)"
    using m(3) same_canonical_trans by blast
  then show ?thesis using f root(2) bd m unfolding plan by blast
qed

text \<open>
  A message cannot choose what is executed. The row decides: whatever two messages the transport
  delivers for a task, if the worker accepts both, it obtains the same intent, the same actions and the same plan.
\<close>

theorem message_cannot_change_the_plan:
  assumes "validate_task_execution_intent E task row task_id account_id lottery_id platform full kind = Inr r"
    and "validate_task_execution_intent E task' row task_id account_id lottery_id platform full kind = Inr r'"
  shows "r = r'"
proof (cases "db_contract_present row ''root''")
  case False
  have legacy: "validate_task_execution_intent E m row task_id account_id lottery_id platform full kind = Inr x \<Longrightarrow>
      x = \<lparr>vi_intent_id = None, vi_intent_hash = None, vi_kind = ''legacy_full'', vi_binding_hash = None,
        vi_actions = vp_required_actions full, vi_plan = full, vi_legacy = True\<rparr>" for m x
    using False by (auto simp: validate_task_execution_intent_def rmap_eq_Inr Let_def split: if_splits)
  show ?thesis using legacy [OF assms(1)] legacy [OF assms(2)] by simp
next
  case True
  then have parts: "\<exists>f v. validate_root E m row lottery_id platform full = Inr (f, v) \<and> validate_binding E m row f v task_id account_id lottery_id kind = Inr x"
    if "validate_task_execution_intent E m row task_id account_id lottery_id platform full kind = Inr x" for m x
    using that by (auto simp: validate_task_execution_intent_def rbind_eq_Inr split: if_splits)
  obtain f v where 1: "validate_root E task row lottery_id platform full = Inr (f, v)" "validate_binding E task row f v task_id account_id lottery_id kind = Inr r"
    using parts [OF assms(1)] by blast
  obtain f' v' where 2: "validate_root E task' row lottery_id platform full = Inr (f', v')" "validate_binding E task' row f' v' task_id account_id lottery_id kind = Inr r'"
    using parts [OF assms(2)] by blast
  have same: "f = f' \<and> v = v'"
    using 1(1) 2(1) by (elim validate_root_parts) (metis Inr_inject)
  show ?thesis using 1(2) 2(2) unfolding same [THEN conjunct1] same [THEN conjunct2]
    by (elim validate_binding_parts) (metis Inr_inject)
qed

section \<open>What the core dispatches is accepted\<close>

lemma py_or_text [simp]: "py_or (PStr s) (PStr []) = PStr s"
  by (simp add: py_or_def)

lemma msg_text_PStr: "dget d k = PStr s \<Longrightarrow> msg_text E d k = s"
  by (simp add: msg_text_def)

lemma msg_text_PInt: "dget d k = PInt n \<Longrightarrow> 0 < n \<Longrightarrow> msg_text E d k = int_str n"
  by (simp add: msg_text_def py_or_def)

lemma subset_plans_agree:
  assumes "get_platform_module (fi_platform f) = Some m" "dget (vp_plan v) ''platform'' = PStr (fi_platform f)"
    "strip (fi_platform f) = fi_platform f" "casefold (fi_platform f) = fi_platform f"
  shows "worker_subset_plan E v requested = subset_plan E m (vp_execution_path_id v) v requested"
proof -
  let ?c = "action_plan_contract_for (fi_platform f)"
  have key: "casefold (msg_token E (vp_plan v) ''platform'') = fi_platform f"
    using assms(2-4) by (simp add: msg_token_def msg_text_PStr)
  have a: "agrees m ?c" using lookups_agree [of "fi_platform f"] assms(1) by auto
  have "(case pf_capabilities m of Some g \<Rightarrow> g requested (vp_execution_path_id v) | None \<Rightarrow> []) = runtime_capabilities_for ?c (vp_execution_path_id v) requested"
  proof (cases "pf_capabilities m")
    case None
    then have "ct_capability_factory ?c = None" using a by (simp add: agrees_def)
    then show ?thesis by (simp add: None runtime_capabilities_for_def)
  next
    case (Some g)
    then show ?thesis using a by (simp add: agrees_def)
  qed
  then show ?thesis unfolding worker_subset_plan_def subset_plan_def key by simp
qed

text \<open>A row and a message that carry a root and a binding: every column and every field holds its value.\<close>

definition carries_binding :: "plan_env \<Rightarrow> frozen_intent \<Rightarrow> task_binding \<Rightarrow> pydict \<Rightarrow> bool" where
  "carries_binding E f b task \<longleftrightarrow>
     msg_text E task ''raw_url'' = fi_raw_url f \<and> msg_text E task ''canonical_url'' = fi_canonical_url f
     \<and> list_all (\<lambda>(k, s). msg_text E task k = s)
       [(''execution_intent_id'', tb_intent_id b), (''execution_intent_hash'', tb_intent_hash b), (''execution_intent_kind'', tb_kind b),
        (''execution_intent_binding_hash'', tb_binding_hash b), (''requested_actions_hash'', tb_actions_hash b),
        (''requested_action_plan_hash'', tb_plan_hash b), (''execution_evidence_kind'', tb_evidence_kind b),
        (''exact_execution_evidence_id'', case tb_exact_evidence_id b of Some s \<Rightarrow> s | None \<Rightarrow> []),
        (''oauth_calibration_id'', case tb_oauth_calibration_id b of Some s \<Rightarrow> s | None \<Rightarrow> []),
        (''execution_evidence_id'', tb_evidence_id b), (''execution_path_id'', fi_execution_path_id f), (''target_hash'', fi_target_hash f),
        (''config_hash'', tb_config_hash b), (''account_lease_id'', tb_lease_id b)]
     \<and> dget task ''execution_revision'' = PStr (int_str (tb_revision b))
     \<and> dget task ''account_lease_generation'' = PStr (int_str (tb_lease_generation b))
     \<and> json_list E (dget task ''requested_actions'') ''execution_intent_requested_actions_invalid'' = Inr (map PStr (tb_actions b))"

lemma dget_here: "dget ((k, v) # d) k = v"
  by simp

lemma dget_there: "k' \<noteq> k \<Longrightarrow> dget d k = w \<Longrightarrow> dget ((k', v) # d) k = w"
  by simp

lemma message_texts:
  shows "dget (build_lottery_task_message E args) ''execution_intent_id'' = PStr (msg_text E args ''execution_intent_id'')"
    and "dget (build_lottery_task_message E args) ''execution_intent_hash'' = PStr (msg_text E args ''execution_intent_hash'')"
    and "dget (build_lottery_task_message E args) ''execution_intent_kind'' = PStr (msg_text E args ''execution_intent_kind'')"
    and "dget (build_lottery_task_message E args) ''execution_intent_binding_hash'' = PStr (msg_text E args ''execution_intent_binding_hash'')"
    and "dget (build_lottery_task_message E args) ''requested_actions_hash'' = PStr (msg_text E args ''requested_actions_hash'')"
    and "dget (build_lottery_task_message E args) ''requested_action_plan_hash'' = PStr (msg_text E args ''requested_action_plan_hash'')"
    and "dget (build_lottery_task_message E args) ''execution_evidence_kind'' = PStr (msg_text E args ''execution_evidence_kind'')"
    and "dget (build_lottery_task_message E args) ''exact_execution_evidence_id'' = PStr (msg_text E args ''exact_execution_evidence_id'')"
    and "dget (build_lottery_task_message E args) ''oauth_calibration_id'' = PStr (msg_text E args ''oauth_calibration_id'')"
    and "dget (build_lottery_task_message E args) ''execution_evidence_id'' = PStr (msg_text E args ''execution_evidence_id'')"
    and "dget (build_lottery_task_message E args) ''execution_path_id'' = PStr (msg_text E args ''execution_path_id'')"
    and "dget (build_lottery_task_message E args) ''target_hash'' = PStr (msg_text E args ''target_hash'')"
    and "dget (build_lottery_task_message E args) ''config_hash'' = PStr (msg_text E args ''config_hash'')"
    and "dget (build_lottery_task_message E args) ''account_lease_id'' = PStr (msg_text E args ''account_lease_id'')"
    and "dget (build_lottery_task_message E args) ''execution_revision'' = PStr (msg_text E args ''execution_revision'')"
    and "dget (build_lottery_task_message E args) ''account_lease_generation'' = PStr (msg_text E args ''account_lease_generation'')"
    and "dget (build_lottery_task_message E args) ''raw_url'' = py_or (dget args ''raw_url'') (PStr [])"
    and "dget (build_lottery_task_message E args) ''canonical_url'' = py_or (dget args ''canonical_url'') (PStr [])"
    and "dget (build_lottery_task_message E args) ''requested_actions''
      = PStr (json_dumps (px_float E) (case dget args ''requested_actions'' of PList l \<Rightarrow> PList l | _ \<Rightarrow> PList []))"
  unfolding build_lottery_task_message_def Let_def by (rule dget_here | (rule dget_there, simp))+

lemma dispatched_carries:
  assumes "0 < tb_revision b" "0 < tb_lease_generation b"
    "px_loads E (json_dumps (px_float E) (str_list (tb_actions b))) = Some (str_list (tb_actions b))"
  shows "carries_binding E f b (build_lottery_task_message E (dispatch_args f b selectors rip))"
proof -
  let ?a = "dispatch_args f b selectors rip"
  have i: "msg_text E ?a ''execution_revision'' = int_str (tb_revision b)" "msg_text E ?a ''account_lease_generation'' = int_str (tb_lease_generation b)"
    using assms(1,2) by (simp_all add: msg_text_PInt dispatch_args_def)
  have r: "dget ?a ''requested_actions'' = PList (map PStr (tb_actions b))" by (simp add: dispatch_args_def message_fields_def str_list_def)
  have a: "msg_text E ?a ''execution_intent_id'' = tb_intent_id b" "msg_text E ?a ''execution_intent_hash'' = tb_intent_hash b"
    "msg_text E ?a ''execution_intent_kind'' = tb_kind b" "msg_text E ?a ''execution_intent_binding_hash'' = tb_binding_hash b"
    "msg_text E ?a ''requested_actions_hash'' = tb_actions_hash b" "msg_text E ?a ''requested_action_plan_hash'' = tb_plan_hash b"
    "msg_text E ?a ''execution_evidence_kind'' = tb_evidence_kind b"
    "msg_text E ?a ''exact_execution_evidence_id'' = (case tb_exact_evidence_id b of Some s \<Rightarrow> s | None \<Rightarrow> [])"
    "msg_text E ?a ''oauth_calibration_id'' = (case tb_oauth_calibration_id b of Some s \<Rightarrow> s | None \<Rightarrow> [])"
    "msg_text E ?a ''execution_evidence_id'' = tb_evidence_id b" "msg_text E ?a ''execution_path_id'' = fi_execution_path_id f"
    "msg_text E ?a ''target_hash'' = fi_target_hash f" "msg_text E ?a ''config_hash'' = tb_config_hash b" "msg_text E ?a ''account_lease_id'' = tb_lease_id b"
    by (simp_all add: msg_text_PStr dispatch_args_def message_fields_def)
  have u: "dget ?a ''raw_url'' = PStr (fi_raw_url f)" "dget ?a ''canonical_url'' = PStr (fi_canonical_url f)" by (simp_all add: dispatch_args_def)
  have j: "json_list E (PStr (json_dumps (px_float E) (PList (map PStr (tb_actions b))))) c = Inr (map PStr (tb_actions b))" for c
    using assms(3) by (simp add: json_list_def json_value_def str_list_def)
  define M where "M = build_lottery_task_message E ?a"
  note t = message_texts [of E ?a, unfolded i a r u py_or_text, folded M_def]
  note texts = t(1-14,17,18) [THEN msg_text_PStr]
  have "json_list E (dget M ''requested_actions'') c = Inr (map PStr (tb_actions b))" for c
    unfolding t(19) pyval.case by (rule j)
  then show ?thesis unfolding carries_binding_def M_def [symmetric] by (simp add: texts t(15,16))
qed

lemma root_columns:
  "dget (gate_row f b rest) ''root_contract_version'' = PInt EXECUTION_INTENT_CONTRACT_VERSION" "dget (gate_row f b rest) ''root_intent_id'' = PStr (fi_intent_id f)"
  "dget (gate_row f b rest) ''root_intent_hash'' = PStr (fi_intent_hash f)" "dget (gate_row f b rest) ''root_lottery_id'' = PInt (fi_lottery_id f)"
  "dget (gate_row f b rest) ''root_source_task_id'' = PStr (fi_source_task_id f)" "dget (gate_row f b rest) ''root_source_account_id'' = PInt (fi_source_account_id f)"
  "dget (gate_row f b rest) ''root_platform'' = PStr (fi_platform f)" "dget (gate_row f b rest) ''root_raw_url'' = PStr (fi_raw_url f)"
  "dget (gate_row f b rest) ''root_canonical_url'' = PStr (fi_canonical_url f)" "dget (gate_row f b rest) ''root_full_action_plan'' = PDict (fi_plan f)"
  "dget (gate_row f b rest) ''root_full_action_plan_hash'' = PStr (fi_plan_hash f)" "dget (gate_row f b rest) ''root_full_required_actions'' = str_list (fi_required_actions f)"
  "dget (gate_row f b rest) ''root_full_required_actions_hash'' = PStr (fi_required_actions_hash f)" "dget (gate_row f b rest) ''root_rule_snapshot_id'' = PInt (fi_rule_snapshot_id f)"
  "dget (gate_row f b rest) ''root_rule_hash'' = PStr (fi_rule_hash f)" "dget (gate_row f b rest) ''root_execution_path_id'' = PStr (fi_execution_path_id f)"
  "dget (gate_row f b rest) ''root_target_hash'' = PStr (fi_target_hash f)"
  unfolding gate_row_def append.simps by (rule dget_here | (rule dget_there, simp))+

lemma binding_columns:
  "dget (gate_row f b rest) ''binding_contract_version'' = PInt EXECUTION_INTENT_CONTRACT_VERSION" "dget (gate_row f b rest) ''binding_task_id'' = PStr (tb_task_id b)"
  "dget (gate_row f b rest) ''binding_intent_id'' = PStr (tb_intent_id b)" "dget (gate_row f b rest) ''binding_lottery_id'' = PInt (tb_lottery_id b)"
  "dget (gate_row f b rest) ''binding_account_id'' = PInt (tb_account_id b)" "dget (gate_row f b rest) ''binding_kind'' = PStr (tb_kind b)"
  "dget (gate_row f b rest) ''binding_requested_actions'' = str_list (tb_actions b)" "dget (gate_row f b rest) ''binding_requested_actions_hash'' = PStr (tb_actions_hash b)"
  "dget (gate_row f b rest) ''binding_action_plan'' = PDict (tb_plan b)" "dget (gate_row f b rest) ''binding_action_plan_hash'' = PStr (tb_plan_hash b)"
  "dget (gate_row f b rest) ''binding_evidence_action_plan_hash'' = PStr (tb_evidence_plan_hash b)" "dget (gate_row f b rest) ''binding_rule_snapshot_id'' = PInt (tb_rule_snapshot_id b)"
  "dget (gate_row f b rest) ''binding_rule_hash'' = PStr (tb_rule_hash b)" "dget (gate_row f b rest) ''binding_execution_evidence_id'' = PStr (tb_evidence_id b)"
  "dget (gate_row f b rest) ''binding_execution_evidence_kind'' = PStr (tb_evidence_kind b)"
  "dget (gate_row f b rest) ''binding_exact_execution_evidence_id'' = opt_value (tb_exact_evidence_id b)"
  "dget (gate_row f b rest) ''binding_oauth_calibration_id'' = opt_value (tb_oauth_calibration_id b)"
  "dget (gate_row f b rest) ''binding_execution_path_id'' = PStr (tb_execution_path_id b)" "dget (gate_row f b rest) ''binding_target_hash'' = PStr (tb_target_hash b)"
  "dget (gate_row f b rest) ''binding_config_hash'' = PStr (tb_config_hash b)" "dget (gate_row f b rest) ''binding_execution_revision'' = PInt (tb_revision b)"
  "dget (gate_row f b rest) ''binding_account_lease_id'' = PStr (tb_lease_id b)" "dget (gate_row f b rest) ''binding_account_lease_generation'' = PInt (tb_lease_generation b)"
  "dget (gate_row f b rest) ''binding_hash'' = PStr (tb_binding_hash b)"
  unfolding gate_row_def append.simps by (rule dget_here | (rule dget_there, simp))+

lemma task_columns:
  "dget (gate_row f b rest) ''task_execution_evidence_id'' = PStr (tb_evidence_id b)" "dget (gate_row f b rest) ''task_execution_path_id'' = PStr (fi_execution_path_id f)"
  "dget (gate_row f b rest) ''task_target_hash'' = PStr (fi_target_hash f)" "dget (gate_row f b rest) ''task_config_hash'' = PStr (tb_config_hash b)"
  "dget (gate_row f b rest) ''task_account_lease_id'' = PStr (tb_lease_id b)" "dget (gate_row f b rest) ''task_account_lease_generation'' = PInt (tb_lease_generation b)"
  "dget (gate_row f b rest) ''account_execution_revision'' = PInt (tb_revision b)"
  unfolding gate_row_def append.simps by (rule dget_here | (rule dget_there, simp))+

lemma frozen_plan_facts:
  assumes "frozen_ok E f v"
  shows "vp_plan v = fi_plan f" "vp_required_actions v = fi_required_actions f" "fi_required_actions f \<noteq> []" "distinct (fi_required_actions f)"
    "vp_plan_hash v = fi_plan_hash f" "vp_rule_snapshot_id v = fi_rule_snapshot_id f" "vp_rule_hash v = fi_rule_hash f"
    "vp_execution_path_id v = fi_execution_path_id f" "validate_action_plan_v2 E (PDict (fi_plan f)) True True = Inr v"
    "dget (vp_plan v) ''platform'' = PStr (fi_platform f)"
proof -
  show val: "validate_action_plan_v2 E (PDict (fi_plan f)) True True = Inr v" using assms by (simp add: frozen_ok_def)
  show "vp_plan v = fi_plan f" using validated_plan_facts(1) [OF val] by simp
  have p: "payload_binding_matches E v f (map PStr (fi_required_actions f))" using assms by (simp add: frozen_ok_def)
  then show acts: "vp_required_actions v = fi_required_actions f" and "vp_plan_hash v = fi_plan_hash f" "vp_rule_snapshot_id v = fi_rule_snapshot_id f"
    "vp_rule_hash v = fi_rule_hash f" "vp_execution_path_id v = fi_execution_path_id f" "dget (vp_plan v) ''platform'' = PStr (fi_platform f)"
    by (simp_all add: payload_binding_matches_def inj_PStr_map)
  obtain m :: platform_module where "ordered_actions (pf_action_order m) (vp_required_actions v)" using val by (rule accepted_plan_structure) blast
  then show "fi_required_actions f \<noteq> []" "distinct (fi_required_actions f)" by (simp_all add: acts ordered_actions_def)
qed

lemma worker_requested_self:
  "xs \<noteq> [] \<Longrightarrow> distinct xs \<Longrightarrow> xs = filter (\<lambda>a. a \<in> set xs) full \<Longrightarrow> (strict \<Longrightarrow> length xs < length full) \<Longrightarrow> worker_requested E full (str_list xs) strict = Inr xs"
  by (simp add: str_list_def worker_requested_PList normalize_requested_iff) (metis filter_is_subset)

lemma root_accepted:
  assumes ok: "frozen_ok E f v" and c: "carries_binding E f b task" and i: "tb_intent_id b = fi_intent_id f" "tb_intent_hash b = fi_intent_hash f"
  shows "validate_root E task (gate_row f b rest) (fi_lottery_id f) (fi_platform f) v = Inr (f, v)"
proof -
  note facts = frozen_plan_facts [OF ok] and ok' = ok [unfolded frozen_ok_def]
  have ids: "is_uuid (fi_intent_id f)" "is_uuid (fi_source_task_id f)" "0 < fi_lottery_id f" "0 < fi_source_account_id f" "lower_hex64 (fi_intent_hash f)"
    using ok' by blast+
  have "root_identity (gate_row f b rest) = Inr (fi_intent_id f, fi_intent_hash f, fi_lottery_id f, fi_source_task_id f, fi_source_account_id f)"
    using ids by (simp add: root_identity_def root_columns rbind_eq_Inr requires contract_version_checked_iff)
  moreover have "root_target (gate_row f b rest) = Inr (fi_platform f, fi_raw_url f, fi_canonical_url f)"
    using ok' by (simp add: root_target_def root_columns rbind_eq_Inr rmap_eq_Inr requires fits_def MAX_TARGET_URL_LENGTH_def)
  moreover have "root_plan E (gate_row f b rest) = Inr (v, fi_plan_hash f, fi_required_actions f)"
  proof -
    have "worker_validate_action_plan_v2 E (PDict (fi_plan f)) True True = Inr v" using facts(9) by (simp add: worker_validator_agrees_dict)
    moreover have "worker_requested E (vp_required_actions v) (str_list (fi_required_actions f)) False = Inr (fi_required_actions f)"
      by (rule worker_requested_self) (use facts in \<open>simp_all\<close>)
    ultimately show ?thesis using ok' by (simp add: root_plan_def root_columns json_mapping_def json_value_def rbind_eq_Inr requires)
  qed
  moreover have "root_hashes (gate_row f b rest) = Inr (fi_required_actions_hash f, fi_rule_snapshot_id f, fi_rule_hash f, fi_execution_path_id f, fi_target_hash f)"
    using ok' by (simp add: root_hashes_def root_columns rbind_eq_Inr requires fits_def)
  moreover have "root_of_parts (fi_intent_id f, fi_intent_hash f, fi_lottery_id f, fi_source_task_id f, fi_source_account_id f)
      (fi_platform f, fi_raw_url f, fi_canonical_url f) (v, fi_plan_hash f, fi_required_actions f)
      (fi_required_actions_hash f, fi_rule_snapshot_id f, fi_rule_hash f, fi_execution_path_id f, fi_target_hash f) = f"
    using facts(1) by (cases f) simp
  moreover have "root_matches E task (fi_lottery_id f) (fi_platform f) v v f"
    using c facts ok' by (simp add: root_matches_def carries_binding_def same_canonical_def payload_binding_matches_def)
  moreover have "compute_intent_hash E f = fi_intent_hash f" using ok' by simp
  moreover have "msg_token E task ''execution_intent_id'' = fi_intent_id f" "msg_token E task ''execution_intent_hash'' = fi_intent_hash f"
    using c i ids uuid_strip lower_hex64_strip by (simp_all add: carries_binding_def msg_token_def)
  ultimately show ?thesis unfolding validate_root_def by (simp only: rbind.simps Let_def fst_conv if_False not_True_eq_False simp_thms)
qed

lemma opt_value_uuid: "(\<And>s. x = Some s \<Longrightarrow> is_uuid s) \<Longrightarrow> optional_uuid E (opt_value x) c = Inr x"
proof (cases x)
  case (Some s)
  assume "\<And>s. x = Some s \<Longrightarrow> is_uuid s"
  then have "is_uuid s" using Some by blast
  then show ?thesis using uuid_strip [of s] by (simp add: Some opt_value_def optional_uuid_def rmap_eq_Inr requires)
qed (simp add: opt_value_def optional_uuid_def)

lemma frozen_path_known:
  assumes "frozen_ok E f v"
  obtains m where "get_platform_module (fi_platform f) = Some m"
  using assms by (auto simp: frozen_ok_def)

lemma derived_subset_accepted:
  assumes ok: "frozen_ok E f v" and d: "plan_derived E f ''repair'' acts plan" and w: "validate_action_plan_v2 E (PDict plan) True True = Inr w"
    "vp_required_actions w = acts"
  shows "derive_subset_plan E v acts = Inr w"
proof -
  note facts = frozen_plan_facts [OF ok]
  obtain v' m where v': "validate_action_plan_v2 E (PDict (fi_plan f)) True True = Inr v'" and m: "get_platform_module (fi_platform f) = Some m"
    and p: "plan = subset_plan E m (fi_execution_path_id f) v' acts" using d by (auto simp: plan_derived_def)
  have "v' = v" using v' facts(9) by simp
  moreover have "worker_subset_plan E v acts = subset_plan E m (vp_execution_path_id v) v acts"
  proof (rule subset_plans_agree)
    show "strip (fi_platform f) = fi_platform f" "casefold (fi_platform f) = fi_platform f" using ok unfolding frozen_ok_def by blast+
  qed (use m facts in simp_all)
  ultimately have "worker_subset_plan E v acts = plan" using p facts(8) by simp
  then show ?thesis using w by (simp add: derive_subset_plan_def worker_validator_agrees_dict rbind_eq_Inr requires if_Inl_eq_Inr)
qed

lemma kinds [simp]: "strip ''full'' = ''full''" "strip ''repair'' = ''repair''" "strip ''exact_execution_evidence'' = ''exact_execution_evidence''"
  "strip ''oauth_account_calibration'' = ''oauth_account_calibration''"
  by code_simp+

lemma message_matchesI:
  assumes "carries_binding E f b task" "strip (tb_kind b) = tb_kind b" "strip (tb_binding_hash b) = tb_binding_hash b"
    "strip (tb_actions_hash b) = tb_actions_hash b" "strip (tb_plan_hash b) = tb_plan_hash b" "strip (tb_evidence_kind b) = tb_evidence_kind b"
    "strip (case tb_exact_evidence_id b of Some s \<Rightarrow> s | None \<Rightarrow> []) = (case tb_exact_evidence_id b of Some s \<Rightarrow> s | None \<Rightarrow> [])"
    "strip (case tb_oauth_calibration_id b of Some s \<Rightarrow> s | None \<Rightarrow> []) = (case tb_oauth_calibration_id b of Some s \<Rightarrow> s | None \<Rightarrow> [])"
  shows "message_matches E task (tb_actions b) b"
  using assms(1) unfolding message_matches_def msg_token_def carries_binding_def list.pred_inject prod.case by (simp only: assms(2-) simp_thms)

lemma binding_accepted:
  assumes ok: "frozen_ok E f v" and a: "authorised E f b" and c: "carries_binding E f b task" and lease: "lower_hex64 (tb_binding_hash b)" "lower_hex64 (tb_actions_hash b)"
  obtains w where "validate_action_plan_v2 E (PDict (tb_plan b)) True True = Inr w"
    "validate_binding E task (gate_row f b rest) f v (tb_task_id b) (tb_account_id b) (tb_lottery_id b) (tb_evidence_kind b) = Inr (accepted_binding f b w)"
proof -
  note facts = frozen_plan_facts [OF ok] and a' = a [unfolded authorised_def binding_context_ok_def] and c' = c [unfolded carries_binding_def]
  obtain w where w: "validate_action_plan_v2 E (PDict (tb_plan b)) True True = Inr w" "vp_required_actions w = tb_actions b" "vp_plan_hash w = tb_plan_hash b"
    using a' by blast
  have der: "plan_derived E f (tb_kind b) (tb_actions b) (tb_plan b)" using a' by blast
  have kind: "tb_kind b = ''full'' \<or> tb_kind b = ''repair''" using der by (auto simp: plan_derived_def)
  have wp: "vp_plan w = tb_plan b" "lower_hex64 (tb_plan_hash b)" using validated_plan_facts [OF w(1)] w(3) by simp_all
  have ev: "tb_evidence_kind b = ''exact_execution_evidence'' \<or> tb_evidence_kind b = ''oauth_account_calibration''"
    using a' by (auto simp: EXECUTION_EVIDENCE_KINDS_def)
  have ids: "is_uuid (tb_task_id b)" "is_uuid (tb_intent_id b)" "0 < tb_lottery_id b" "0 < tb_account_id b" "is_uuid (tb_evidence_id b)" "is_uuid (tb_lease_id b)"
    "tb_account_id b = fi_source_account_id f" "tb_intent_id b = fi_intent_id f" "tb_intent_hash b = fi_intent_hash f" "tb_lottery_id b = fi_lottery_id f"
    using a' ok by (simp_all add: frozen_ok_def)
  define expected where "expected = (if tb_kind b = ''full'' then v else w)"
  have head: "binding_head (gate_row f b rest) f (tb_account_id b) = Inr (tb_task_id b, tb_intent_id b, tb_lottery_id b, tb_account_id b, tb_kind b)"
    using ids kind by (auto simp: binding_head_def binding_columns rbind_eq_Inr if_Inl_eq_Inr requires contract_version_checked_iff fits_def EXECUTION_INTENT_KINDS_def)
  have req: "worker_requested E (fi_required_actions f) (str_list (tb_actions b)) (tb_kind b = ''repair'') = Inr (tb_actions b)"
    by (rule worker_requested_self) (use a' der in \<open>auto simp: plan_derived_def\<close>)
  have ex: "(if tb_kind b = ''full'' then Inr v else derive_subset_plan E v (tb_actions b)) = Inr expected"
    using derived_subset_accepted [OF ok _ w(1,2)] der kind by (auto simp: expected_def)
  have plans: "binding_plans E (gate_row f b rest) f v (tb_kind b) = Inr (tb_actions b, tb_actions_hash b, w, expected)"
    using w(1) lease(2) req ex by (simp add: binding_plans_def binding_columns json_mapping_def json_value_def rbind_eq_Inr requires worker_validator_agrees_dict)
  have same: "vp_plan w = vp_plan expected \<and> tb_plan_hash b = vp_plan_hash expected"
  proof (cases "tb_kind b = ''full''")
    case True
    then have "tb_plan b = fi_plan f" using der by (simp add: plan_derived_def)
    then have "w = v" using w(1) facts(9) by simp
    then show ?thesis using w(3) by (simp add: expected_def True)
  qed (simp add: expected_def w(3))
  have hexes: "lower_hex64 (tb_evidence_plan_hash b)" "lower_hex64 (tb_target_hash b)" "lower_hex64 (tb_config_hash b)" "lower_hex64 (tb_rule_hash b)"
    "0 < tb_rule_snapshot_id b" "0 < tb_revision b" "0 < tb_lease_generation b"
    "tb_execution_path_id b \<noteq> []" "strip (tb_execution_path_id b) = tb_execution_path_id b" "length (tb_execution_path_id b) \<le> 128"
    using a' ok by (simp_all add: frozen_ok_def)
  have evidence: "binding_evidence E (gate_row f b rest) (tb_evidence_kind b) = Inr (tb_plan_hash b, tb_evidence_plan_hash b, tb_evidence_id b, tb_evidence_kind b,
      tb_exact_evidence_id b, tb_oauth_calibration_id b)"
  proof -
    have "optional_uuid E (opt_value (tb_exact_evidence_id b)) c = Inr (tb_exact_evidence_id b)"
      "optional_uuid E (opt_value (tb_oauth_calibration_id b)) c = Inr (tb_oauth_calibration_id b)" for c
      using a' by (auto intro!: opt_value_uuid split: if_splits)
    then show ?thesis using wp(2) hexes(1) ids(5) ev
      by (auto simp: binding_evidence_def binding_columns rbind_eq_Inr if_Inl_eq_Inr requires fits_def EXECUTION_EVIDENCE_KINDS_def)
  qed
  have execution: "binding_execution (gate_row f b rest) = Inr (tb_execution_path_id b, tb_target_hash b, tb_config_hash b, tb_revision b, tb_lease_id b,
      tb_lease_generation b, tb_rule_snapshot_id b, tb_rule_hash b, tb_binding_hash b)"
    using hexes ids(6) lease(1) by (simp add: binding_execution_def binding_columns rbind_eq_Inr requires fits_def)
  have stored: "stored_binding f (tb_task_id b, tb_intent_id b, tb_lottery_id b, tb_account_id b, tb_kind b) (tb_actions b, tb_actions_hash b, w, expected)
      (tb_plan_hash b, tb_evidence_plan_hash b, tb_evidence_id b, tb_evidence_kind b, tb_exact_evidence_id b, tb_oauth_calibration_id b)
      (tb_execution_path_id b, tb_target_hash b, tb_config_hash b, tb_revision b, tb_lease_id b, tb_lease_generation b, tb_rule_snapshot_id b, tb_rule_hash b, tb_binding_hash b) = b"
    using ids(9) wp(1) by (cases b) simp
  have m1: "binding_matches_root E (tb_task_id b) (tb_account_id b) (tb_lottery_id b) f w expected b"
    using a' same w ids by (simp add: binding_matches_root_def same_canonical_def)
  have m2: "binding_matches_evidence E task (gate_row f b rest) (tb_evidence_kind b) b"
    using a' c' uuid_strip [OF ids(5)] hexes lower_hex64_strip
    by (auto simp: binding_matches_evidence_def msg_token_def task_columns msg_text_PStr split: if_splits)
  have m3: "binding_matches_lease E task (gate_row f b rest) b = Inr True"
    using c' hexes(6,7) uuid_strip [OF ids(6)] by (simp add: binding_matches_lease_def message_int task_columns require_positive_int_def msg_token_def msg_text_PStr)
  have m4: "worker_requested E (fi_required_actions f) (dget task ''requested_actions'') (tb_kind b = ''repair'') = Inr (tb_actions b)"
    using c' req by (simp add: worker_requested_def json_list_def json_value_def str_list_def)
  have m5: "message_matches E task (tb_actions b) b"
  proof (rule message_matchesI [OF c])
    show "strip (tb_kind b) = tb_kind b" "strip (tb_evidence_kind b) = tb_evidence_kind b" using kind ev by auto
    show "strip (tb_binding_hash b) = tb_binding_hash b" "strip (tb_actions_hash b) = tb_actions_hash b" "strip (tb_plan_hash b) = tb_plan_hash b"
      using lease wp(2) lower_hex64_strip by blast+
    have "strip [] = []" by (simp add: strip_def lstrip_def)
    moreover have "strip (tb_evidence_id b) = tb_evidence_id b" using uuid_strip [OF ids(5)] ..
    moreover have "tb_exact_evidence_id b = (if tb_evidence_kind b = ''exact_execution_evidence'' then Some (tb_evidence_id b) else None)"
      "tb_oauth_calibration_id b = (if tb_evidence_kind b = ''oauth_account_calibration'' then Some (tb_evidence_id b) else None)" using a' by blast+
    ultimately show "strip (case tb_exact_evidence_id b of Some s \<Rightarrow> s | None \<Rightarrow> []) = (case tb_exact_evidence_id b of Some s \<Rightarrow> s | None \<Rightarrow> [])"
      "strip (case tb_oauth_calibration_id b of Some s \<Rightarrow> s | None \<Rightarrow> []) = (case tb_oauth_calibration_id b of Some s \<Rightarrow> s | None \<Rightarrow> [])"
      by simp_all
  qed
  have hash: "json_hash E (PDict (binding_hash_payload b)) = tb_binding_hash b" using a' by simp
  show ?thesis
    by (rule that [OF w(1)])
      (simp only: validate_binding_def head plans evidence execution stored m1 m2 m3 m4 m5 hash rbind.simps Let_def fst_conv snd_conv simp_thms if_True if_False accepted_binding_def)
qed

lemma present:
  assumes "carries_binding E f b task" "is_uuid (tb_intent_id b)"
  shows "db_contract_present (gate_row f b rest) ''root''" "db_contract_present (gate_row f b rest) ''binding''" "message_contract_present E task"
proof -
  show "db_contract_present (gate_row f b rest) ''root''" using root_columns(1) [of f b rest] by (simp add: db_contract_present_def)
  show "db_contract_present (gate_row f b rest) ''binding''" using binding_columns(1) [of f b rest] by (simp add: db_contract_present_def)
  have "msg_token E task ''execution_intent_id'' \<noteq> []"
    using assms(1) uuid_strip [OF assms(2)] by (simp add: carries_binding_def msg_token_def)
  then show "message_contract_present E task" by (simp add: message_contract_present_def MESSAGE_SCALAR_FIELDS_def)
qed

lemma dispatched_accepted:
  assumes "reachable intents_init (intent_step_sha E) db" "b \<in> set (idb_bindings db)" "good_sha E"
    "px_loads E (json_dumps (px_float E) (str_list (tb_actions b))) = Some (str_list (tb_actions b))"
  shows "\<exists>f v w. intent_row f \<in> set (idb_roots db) \<and> validate_action_plan_v2 E (PDict (fi_plan f)) True True = Inr v
    \<and> validate_action_plan_v2 E (PDict (tb_plan b)) True True = Inr w
    \<and> (\<forall>selectors rip. validate_task_execution_intent E (build_lottery_task_message E (dispatch_args f b selectors rip)) (gate_row f b rest)
        (tb_task_id b) (tb_account_id b) (tb_lottery_id b) (fi_platform f) v (tb_evidence_kind b)
      = Inr \<lparr>vi_intent_id = Some (tb_intent_id b), vi_intent_hash = Some (tb_intent_hash b), vi_kind = tb_kind b,
          vi_binding_hash = Some (tb_binding_hash b), vi_actions = tb_actions b, vi_plan = w, vi_legacy = False\<rparr>)"
proof -
  have "intents_inv E db" using assms(1) by (rule intent_runs.inv_reachable)
  then obtain f where f: "root_of E db f" and a: "authorised E f b" using assms(2) by (auto simp: intents_inv_def)
  obtain v where ok: "frozen_ok E f v" using f by (auto simp: root_of_def)
  have ids: "tb_intent_id b = fi_intent_id f" "tb_intent_hash b = fi_intent_hash f" "tb_lottery_id b = fi_lottery_id f" "0 < tb_revision b" "0 < tb_lease_generation b"
    "tb_binding_hash b = json_hash E (PDict (binding_hash_payload b))" "tb_actions_hash b = requested_hash E f (tb_actions b)" "is_uuid (tb_intent_id b)"
    using a ok by (simp_all add: authorised_def binding_context_ok_def frozen_ok_def)
  define task where "task selectors rip = build_lottery_task_message E (dispatch_args f b selectors rip)" for selectors rip
  have c: "carries_binding E f b (task selectors rip)" for selectors rip unfolding task_def using ids(4,5) assms(4) by (rule dispatched_carries)
  have "lower_hex64 (tb_binding_hash b)" "lower_hex64 (tb_actions_hash b)"
    using assms(3) unfolding ids by (simp_all add: good_sha_def json_hash_def requested_hash_def)
  note hexes = this
  obtain w where w: "validate_action_plan_v2 E (PDict (tb_plan b)) True True = Inr w" using a by (auto simp: authorised_def)
  have bind: "validate_binding E (task selectors rip) (gate_row f b rest) f v (tb_task_id b) (tb_account_id b) (tb_lottery_id b) (tb_evidence_kind b) = Inr (accepted_binding f b w)" for selectors rip
    by (rule binding_accepted [OF ok a c hexes, of selectors rip]) (use w in simp)
  have root: "validate_root E (task selectors rip) (gate_row f b rest) (tb_lottery_id b) (fi_platform f) v = Inr (f, v)" for selectors rip
    unfolding ids(3) by (rule root_accepted [OF ok c ids(1,2)])
  have "validate_task_execution_intent E (task selectors rip) (gate_row f b rest) (tb_task_id b) (tb_account_id b) (tb_lottery_id b) (fi_platform f) v (tb_evidence_kind b)
      = Inr (accepted_binding f b w)" for selectors rip
    unfolding validate_task_execution_intent_def Let_def root rbind.simps prod.case bind using present [OF c ids(8)] by simp
  then show ?thesis using f w frozen_plan_facts(9) [OF ok] ids unfolding task_def accepted_binding_def root_of_def by auto
qed

text \<open>
  C11. What the core dispatches is accepted. For every binding that reachable tables hold, the message the
  core builds from it and from its root, read together with the stored rows, passes the worker's validation, and
  the worker obtains exactly the bound actions and the bound plan. The digest yields 64 hexadecimal digits, and the
  decoder reads back the printed list of the actions.
\<close>

theorem dispatched_tasks_are_accepted:
  assumes "reachable intents_init (intent_step_sha E) db" "b \<in> set (idb_bindings db)" "good_sha E"
    "px_loads E (json_dumps (px_float E) (str_list (tb_actions b))) = Some (str_list (tb_actions b))"
  shows "\<exists>f v w. intent_row f \<in> set (idb_roots db) \<and> validate_action_plan_v2 E (PDict (fi_plan f)) True True = Inr v
    \<and> validate_action_plan_v2 E (PDict (tb_plan b)) True True = Inr w
    \<and> validate_task_execution_intent E (build_lottery_task_message E (dispatch_args f b selectors rip)) (gate_row f b rest)
        (tb_task_id b) (tb_account_id b) (tb_lottery_id b) (fi_platform f) v (tb_evidence_kind b)
      = Inr \<lparr>vi_intent_id = Some (tb_intent_id b), vi_intent_hash = Some (tb_intent_hash b), vi_kind = tb_kind b,
          vi_binding_hash = Some (tb_binding_hash b), vi_actions = tb_actions b, vi_plan = w, vi_legacy = False\<rparr>"
  using dispatched_accepted [OF assms] by blast

section \<open>Witnesses\<close>

lemma demo_reachable: "reachable intents_init (intent_step_sha demo_plan_env) demo_intents"
  by (rule reach_step [OF demo_empty_reachable demo_intent_step])

lemma demo_bound: "demo_binding \<in> set (idb_bindings demo_intents)"
  by (simp add: demo_intents_def)

lemma demo_loads:
  "px_loads demo_plan_env (json_dumps (px_float demo_plan_env) (str_list (tb_actions demo_binding))) = Some (str_list (tb_actions demo_binding))"
  by (simp add: demo_plan_env_def demo_binding_def str_list_def)

definition demo_message :: "frozen_intent \<Rightarrow> pyval \<Rightarrow> pydict" where
  "demo_message f selectors = build_lottery_task_message demo_plan_env (dispatch_args f demo_binding selectors PNone)"

lemma demo_accepted:
  obtains f v r where "\<And>selectors. validate_task_execution_intent demo_plan_env (demo_message f selectors) (gate_row f demo_binding []) (tb_task_id demo_binding)
      (tb_account_id demo_binding) (tb_lottery_id demo_binding) (fi_platform f) v (tb_evidence_kind demo_binding) = Inr r" "vi_legacy r = False"
  using dispatched_accepted [OF demo_reachable demo_bound demo_good_sha demo_loads] unfolding demo_message_def by fastforce

theorem dispatched_tasks_are_accepted_witness:
  "\<exists>f v w. validate_task_execution_intent demo_plan_env (demo_message f PNone) (gate_row f demo_binding []) (tb_task_id demo_binding)
      (tb_account_id demo_binding) (tb_lottery_id demo_binding) (fi_platform f) v (tb_evidence_kind demo_binding)
    = Inr \<lparr>vi_intent_id = Some (tb_intent_id demo_binding), vi_intent_hash = Some (tb_intent_hash demo_binding), vi_kind = tb_kind demo_binding,
        vi_binding_hash = Some (tb_binding_hash demo_binding), vi_actions = tb_actions demo_binding, vi_plan = w, vi_legacy = False\<rparr>"
  using dispatched_tasks_are_accepted [OF demo_reachable demo_bound demo_good_sha demo_loads, of PNone PNone] unfolding demo_message_def by blast

theorem worker_runs_only_the_frozen_plan_witness:
  "\<exists>f v r g u. validate_task_execution_intent demo_plan_env (demo_message f PNone) (gate_row f demo_binding []) (tb_task_id demo_binding)
      (tb_account_id demo_binding) (tb_lottery_id demo_binding) (fi_platform f) v (tb_evidence_kind demo_binding) = Inr r
    \<and> validate_root demo_plan_env (demo_message f PNone) (gate_row f demo_binding []) (tb_lottery_id demo_binding) (fi_platform f) v = Inr (g, u)
    \<and> fi_source_account_id g = tb_account_id demo_binding \<and> vp_required_actions (vi_plan r) = vi_actions r"
proof -
  obtain f v r where a: "\<And>selectors. validate_task_execution_intent demo_plan_env (demo_message f selectors) (gate_row f demo_binding []) (tb_task_id demo_binding)
      (tb_account_id demo_binding) (tb_lottery_id demo_binding) (fi_platform f) v (tb_evidence_kind demo_binding) = Inr r" "vi_legacy r = False"
    by (rule demo_accepted) blast
  show ?thesis using worker_runs_only_the_frozen_plan [OF a(1) [of PNone]] a by blast
qed

theorem message_cannot_change_the_plan_witness:
  "\<exists>f v r. validate_task_execution_intent demo_plan_env (demo_message f PNone) (gate_row f demo_binding []) (tb_task_id demo_binding)
      (tb_account_id demo_binding) (tb_lottery_id demo_binding) (fi_platform f) v (tb_evidence_kind demo_binding) = Inr r
    \<and> validate_task_execution_intent demo_plan_env (demo_message f (PDict [(''x'', PNone)])) (gate_row f demo_binding []) (tb_task_id demo_binding)
      (tb_account_id demo_binding) (tb_lottery_id demo_binding) (fi_platform f) v (tb_evidence_kind demo_binding) = Inr r"
proof -
  obtain f v r r' where a: "validate_task_execution_intent demo_plan_env (demo_message f PNone) (gate_row f demo_binding []) (tb_task_id demo_binding)
      (tb_account_id demo_binding) (tb_lottery_id demo_binding) (fi_platform f) v (tb_evidence_kind demo_binding) = Inr r"
    and b: "validate_task_execution_intent demo_plan_env (demo_message f (PDict [(''x'', PNone)])) (gate_row f demo_binding []) (tb_task_id demo_binding)
      (tb_account_id demo_binding) (tb_lottery_id demo_binding) (fi_platform f) v (tb_evidence_kind demo_binding) = Inr r'"
    by (rule demo_accepted) blast
  show ?thesis using a b message_cannot_change_the_plan [OF a b] by blast
qed

end
