(* ===== verification/WorkerModules.thy ===== *)
theory WorkerModules
  imports WorkerIntents
begin

text \<open>
  The platform modules of the worker (\<open>worker/app/platform_modules/base.py\<close>, \<open>registry.py\<close> and the descriptors of the four
  platforms): the checks their constructors make, and the routing of a task to an execution path, an executor and a handler.
  A handler is a function of the task runner; here it is its name. The registry imports a module when it is first
  asked for; \<open>unavailable\<close> is the set of platforms whose import fails.
\<close>

section \<open>Execution paths\<close>

definition REAL_RUN_EVIDENCE_KINDS :: "string list" where
  "REAL_RUN_EVIDENCE_KINDS = [''exact_execution_evidence'', ''oauth_account_calibration'']"

record worker_path =
  wp_path_id :: string
  wp_credential_kind :: string
  wp_supported_modes :: "string list"
  wp_shadow_executor :: "string option"
  wp_real_executor :: "string option"
  wp_shadow_handler :: "string option"
  wp_real_handler :: "string option"
  wp_shadow_claim_validator :: "string option"
  wp_selector_binding_modes :: "string list"
  wp_unsupported_mode_error :: "string option"
  wp_dry_run_requires_executable_plan :: bool
  wp_confirmed_intent_settlement :: bool
  wp_execution_evidence_kind :: "string option"

text \<open>An optional string that is neither missing nor empty.\<close>

definition given :: "string option \<Rightarrow> bool" where
  "given x \<longleftrightarrow> x \<noteq> None \<and> x \<noteq> Some []"

definition or_else :: "string option \<Rightarrow> string \<Rightarrow> string" where
  "or_else x d = (case x of None \<Rightarrow> d | Some s \<Rightarrow> if s = [] then d else s)"

text \<open>The first condition that holds gives the error.\<close>

fun first_failure :: "(bool \<times> string) list \<Rightarrow> (string, unit) result" where
  "first_failure [] = Inr ()"
| "first_failure ((bad, e) # cs) = (if bad then Inl e else first_failure cs)"

definition path_post_init :: "worker_path \<Rightarrow> (string, unit) result" where
  "path_post_init p = (let i = wp_path_id p; modes = set (wp_supported_modes p) in first_failure
     [(i = [] \<or> i \<noteq> strip i, ''execution_path_id_invalid''),
      (wp_credential_kind p = [] \<or> wp_credential_kind p \<noteq> strip (wp_credential_kind p), ''execution_path_credential_kind_invalid:'' @ i),
      (modes = {} \<or> \<not> modes \<subseteq> {''dry_run'', ''shadow_run'', ''real_run''}, ''execution_path_modes_invalid:'' @ i),
      (''shadow_run'' \<in> modes \<and> \<not> given (wp_shadow_executor p), ''execution_path_shadow_executor_missing:'' @ i),
      (''real_run'' \<in> modes \<and> \<not> given (wp_real_executor p), ''execution_path_real_executor_missing:'' @ i),
      (''shadow_run'' \<in> modes \<and> wp_shadow_handler p = None, ''execution_path_shadow_handler_missing:'' @ i),
      (''real_run'' \<in> modes \<and> wp_real_handler p = None, ''execution_path_real_handler_missing:'' @ i),
      (wp_shadow_claim_validator p \<noteq> None \<and> ''shadow_run'' \<notin> modes, ''execution_path_shadow_claim_validator_invalid:'' @ i),
      (wp_confirmed_intent_settlement p \<and> ''real_run'' \<notin> modes, ''execution_path_intent_settlement_mode_invalid:'' @ i),
      ((''real_run'' \<in> modes) \<noteq> (wp_execution_evidence_kind p \<in> Some ` set REAL_RUN_EVIDENCE_KINDS), ''execution_path_evidence_kind_invalid:'' @ i)])"

definition executor_for :: "worker_path \<Rightarrow> string \<Rightarrow> (string, string) result" where
  "executor_for p mode =
     (let m = norm_str mode in
      if m \<notin> set (wp_supported_modes p)
      then Inl (or_else (wp_unsupported_mode_error p) (''execution_path_mode_not_supported:'' @ wp_path_id p @ '':'' @ m))
      else if m = ''dry_run'' then Inr ''dry_run''
      else if m = ''shadow_run'' \<and> given (wp_shadow_executor p) then Inr (the (wp_shadow_executor p))
      else if m = ''real_run'' \<and> given (wp_real_executor p) then Inr (the (wp_real_executor p))
      else Inl (or_else (wp_unsupported_mode_error p) (''execution_path_executor_missing:'' @ wp_path_id p @ '':'' @ m)))"

definition handler_for :: "worker_path \<Rightarrow> string \<Rightarrow> (string, string) result" where
  "handler_for p mode =
     (let m = norm_str mode in rbind (executor_for p m) (\<lambda>_.
      case (if m = ''shadow_run'' then wp_shadow_handler p else if m = ''real_run'' then wp_real_handler p else None) of
        Some h \<Rightarrow> Inr h
      | None \<Rightarrow> Inl (or_else (wp_unsupported_mode_error p) (''execution_path_handler_missing:'' @ wp_path_id p @ '':'' @ m))))"

section \<open>Modules\<close>

text \<open>The result a platform's evidence validator hands to the gate.\<close>

record evidence_binding =
  eb_evidence_id :: string
  eb_execution_revision :: int
  eb_oauth_capabilities :: "pydict option"
  eb_account_identity :: "string option"

text \<open>
  \<open>wm_evidence\<close> is the platform's validator of the evidence of a real run: of the message, the row with
  the platform's evidence columns, the account, the lottery, the platform, the full plan and the plan of this execution.
  Its errors are codes of the gate, or another exception (\<open>Uncaught\<close>).
\<close>

type_synonym evidence_validator =
  "pydict \<Rightarrow> pydict \<Rightarrow> int \<Rightarrow> int \<Rightarrow> string \<Rightarrow> validated_plan \<Rightarrow> validated_plan \<Rightarrow> (plan_error, evidence_binding) result"

record worker_module =
  wm_platform_id :: string
  wm_action_order :: "string list"
  wm_real_target_kinds :: "string list"
  wm_paths :: "worker_path list"
  wm_default_path :: string
  wm_invalid_path_error :: "string option"
  wm_capability_block_reason :: "string option"
  wm_probe_done_phases :: "string list"
  wm_intent_mapper :: "(string list \<Rightarrow> (string, string list) result) option"
  wm_mode_overrides :: "(string \<times> string) list"
  wm_block_reason :: "string option"
  wm_precondition :: "(pydict \<Rightarrow> string option) option"
  wm_evidence :: "evidence_validator option"

definition supports_real_run :: "worker_module \<Rightarrow> bool" where
  "supports_real_run m \<longleftrightarrow> list_ex (\<lambda>p. ''real_run'' \<in> set (wp_supported_modes p)) (wm_paths m)"

text \<open>The loader of the evidence columns and the validator of a module are given together: one field stands for both.\<close>

definition module_post_init :: "worker_module \<Rightarrow> (string, unit) result" where
  "module_post_init m = (let i = wm_platform_id m; ids = map wp_path_id (wm_paths m) in first_failure
     ([(norm_str i = [] \<or> norm_str i \<noteq> i, ''platform_id_invalid''),
       (wm_action_order m = [] \<or> [] \<in> set (wm_action_order m) \<or> \<not> distinct (wm_action_order m), ''platform_action_order_invalid:'' @ i),
       (ids = [] \<or> \<not> distinct ids, ''platform_execution_paths_invalid:'' @ i),
       (wm_default_path m \<notin> set ids, ''platform_default_execution_path_invalid:'' @ i),
       (case wm_invalid_path_error m of None \<Rightarrow> False | Some e \<Rightarrow> e = [] \<or> e \<noteq> strip e, ''platform_execution_path_error_invalid:'' @ i),
       (\<not> set (wm_probe_done_phases m) \<subseteq> set (wm_action_order m), ''platform_probe_done_selector_phases_invalid:'' @ i),
       (\<not> distinct (map fst (wm_mode_overrides m)), ''platform_mode_override_duplicate:'' @ i)]
      @ concat (map (\<lambda>(mode, path).
          [(mode \<notin> {''dry_run'', ''shadow_run'', ''real_run''}, ''platform_mode_override_invalid:'' @ i),
           (path \<notin> set ids, ''platform_mode_override_path_invalid:'' @ i)]) (wm_mode_overrides m))
      @ [(case wm_block_reason m of None \<Rightarrow> False | Some r \<Rightarrow> r = [] \<or> r \<noteq> strip r \<or> supports_real_run m,
            ''platform_real_run_block_reason_invalid:'' @ i),
         (supports_real_run m \<noteq> (wm_evidence m \<noteq> None), ''platform_real_run_evidence_validator_invalid:'' @ i)]))"

definition find_path :: "worker_module \<Rightarrow> string \<Rightarrow> (string, worker_path) result" where
  "find_path m pid = (case find (\<lambda>p. wp_path_id p = strip pid) (wm_paths m) of
     Some p \<Rightarrow> Inr p
   | None \<Rightarrow> Inl (or_else (wm_invalid_path_error m) (wm_platform_id m @ ''_execution_path_not_supported'')))"

text \<open>A plan is a dictionary or JSON text of one; anything else reads as the empty plan.\<close>

definition plan_object :: "plan_env \<Rightarrow> pyval \<Rightarrow> pydict" where
  "plan_object E v = (case v of PDict d \<Rightarrow> d
     | PStr s \<Rightarrow> (case px_loads E s of Some (PDict d) \<Rightarrow> d | _ \<Rightarrow> []) | _ \<Rightarrow> [])"

definition execution_path_id_from_plan :: "plan_env \<Rightarrow> worker_module \<Rightarrow> pyval \<Rightarrow> string" where
  "execution_path_id_from_plan E m v =
     (let s = msg_token E (plan_object E v) ''execution_path_id'' in if s = [] then wm_default_path m else s)"

definition route :: "plan_env \<Rightarrow> worker_module \<Rightarrow> string \<Rightarrow> pyval \<Rightarrow> (string, worker_path \<times> string) result" where
  "route E m mode v =
     (let md = norm_str mode; planned = execution_path_id_from_plan E m v in
      rbind (find_path m planned) (\<lambda>_.
      rbind (find_path m (case map_of (wm_mode_overrides m) md of Some i \<Rightarrow> i | None \<Rightarrow> planned)) (\<lambda>p.
      rbind (executor_for p md) (\<lambda>e. Inr (p, e)))))"

definition requires_selector_binding :: "plan_env \<Rightarrow> worker_module \<Rightarrow> string \<Rightarrow> pyval \<Rightarrow> (string, bool) result" where
  "requires_selector_binding E m mode v =
     rmap (\<lambda>pe. norm_str mode \<in> set (wp_selector_binding_modes (fst pe))) (route E m (norm_str mode) v)"

definition worker_evidence_kind_for :: "plan_env \<Rightarrow> worker_module \<Rightarrow> pyval \<Rightarrow> (string, string option) result" where
  "worker_evidence_kind_for E m v = rmap wp_execution_evidence_kind (find_path m (execution_path_id_from_plan E m v))"

definition selected_phases :: "plan_env \<Rightarrow> worker_module \<Rightarrow> pyval \<Rightarrow> string list" where
  "selected_phases E m v = (case dget (plan_object E v) ''required_actions'' of
     PList raw \<Rightarrow> filter (\<lambda>a. PStr a \<in> set raw) (wm_action_order m) | _ \<Rightarrow> [])"

definition phases :: "plan_env \<Rightarrow> worker_module \<Rightarrow> pyval \<Rightarrow> string list" where
  "phases E m v = (if selected_phases E m v = [] then wm_action_order m else selected_phases E m v)"

definition expected_intent_actions :: "worker_module \<Rightarrow> string list \<Rightarrow> (string, string list) result" where
  "expected_intent_actions m ps = (case wm_intent_mapper m of None \<Rightarrow> Inr ps | Some g \<Rightarrow> g ps)"

definition real_run_precondition_code :: "worker_module \<Rightarrow> pydict \<Rightarrow> string option" where
  "real_run_precondition_code m task =
     (if given (wm_block_reason m) then wm_block_reason m
      else case wm_precondition m of None \<Rightarrow> None | Some g \<Rightarrow> g task)"

definition validate_real_run_evidence :: "worker_module \<Rightarrow> evidence_validator" where
  "validate_real_run_evidence m = (\<lambda>task row account lottery platform full execution.
     case wm_evidence m of None \<Rightarrow> Inl (Code ''unsupported_real_run_platform'')
     | Some g \<Rightarrow> g task row account lottery platform full execution)"

end
