(* ===== verification/PlatformEvidence.thy ===== *)
theory PlatformEvidence
  imports WorkerModules
begin

text \<open>
  The evidence of a real run that the Douyin and Xiaohongshu modules of the worker require: one probe and one
  shadow observation of the same account, target, plan and configuration (\<open>shared/douyin_device_contract.py\<close>,
  \<open>shared/xiaohongshu_browser_contract.py\<close> and the evidence functions of \<open>worker/app/platform_modules\<close>). The
  row is the gate's row extended with the platform's evidence columns.
\<close>

section \<open>Reading a row\<close>

text \<open>
  A list of comparisons joined by \<open>and\<close>: the first that is false ends it, one that raises ends it with
  that error. \<open>int(row.get(k) or 0) == n\<close> raises when the value is no number.
\<close>

fun all_checks :: "('e, bool) result list \<Rightarrow> ('e, bool) result" where
  "all_checks [] = Inr True"
| "all_checks (c # cs) = rbind c (\<lambda>b. if b then all_checks cs else Inr False)"

definition int_is :: "pydict \<Rightarrow> string \<Rightarrow> int \<Rightarrow> (plan_error, bool) result" where
  "int_is row k n = (case py_int (py_or (dget row k) (PInt 0)) of Inr i \<Rightarrow> Inr (i = n) | Inl _ \<Rightarrow> Inl Uncaught)"

lemma all_checks_True: "all_checks cs = Inr True \<longleftrightarrow> (\<forall>c \<in> set cs. c = Inr True)"
  by (induction cs) (auto simp: rbind_eq_Inr split: if_splits)

lemma all_checks_append: "all_checks (cs @ ds) = rbind (all_checks cs) (\<lambda>b. if b then all_checks ds else Inr False)"
proof (induction cs)
  case (Cons c cs)
  then show ?case by (cases c) auto
qed simp

text \<open>\<open>str(row.get(k) or "") == s\<close>, as it is and stripped.\<close>

definition text_is :: "plan_env \<Rightarrow> pydict \<Rightarrow> string \<Rightarrow> string \<Rightarrow> (plan_error, bool) result" where
  "text_is E d k s = Inr (msg_text E d k = s)"

definition token_is :: "plan_env \<Rightarrow> pydict \<Rightarrow> string \<Rightarrow> string \<Rightarrow> (plan_error, bool) result" where
  "token_is E d k s = Inr (msg_token E d k = s)"

definition lower_is :: "plan_env \<Rightarrow> pydict \<Rightarrow> string \<Rightarrow> string \<Rightarrow> (plan_error, bool) result" where
  "lower_is E d k s = Inr (lower (msg_token E d k) = s)"

lemmas row_checks = text_is_def token_is_def lower_is_def

section \<open>Observed times\<close>

definition token_char :: "char \<Rightarrow> bool" where
  "token_char c \<longleftrightarrow> c \<in> set ''ABCDEFGHIJKLMNOPQRSTUVWXYZabcdefghijklmnopqrstuvwxyz0123456789._:-''"

definition TOKEN_PATTERN :: "string \<Rightarrow> bool" where
  "TOKEN_PATTERN s \<longleftrightarrow> 1 \<le> length s \<and> length s \<le> 128 \<and> list_all token_char s"

text \<open>A number of exactly \<open>n\<close> ASCII digits at the front, and what follows it.\<close>

definition take_number :: "nat \<Rightarrow> string \<Rightarrow> (nat \<times> string) option" where
  "take_number n s = (if length s < n \<or> \<not> list_all (\<lambda>c. digit_of c \<noteq> None) (take n s) then None
     else Some (foldl (\<lambda>a c. 10 * a + the (digit_of c)) 0 (take n s), drop n s))"

definition take_sep :: "char \<Rightarrow> (nat \<times> string) option \<Rightarrow> (nat \<times> string) option" where
  "take_sep d r = Option.bind r (\<lambda>(v, s). case s of c # t \<Rightarrow> if c = d then Some (v, t) else None | [] \<Rightarrow> None)"

definition leap_year :: "nat \<Rightarrow> bool" where
  "leap_year y \<longleftrightarrow> y mod 4 = 0 \<and> (y mod 100 \<noteq> 0 \<or> y mod 400 = 0)"

definition month_days :: "nat \<Rightarrow> nat \<Rightarrow> nat" where
  "month_days y m = (if m = 2 then (if leap_year y then 29 else 28) else if m \<in> {4, 6, 9, 11} then 30 else 31)"

text \<open>The fraction of the second: nothing, or a point and one to six digits, and then \<open>Z\<close>.\<close>

definition fraction_micros :: "string \<Rightarrow> nat option" where
  "fraction_micros s = (if s = ''Z'' then Some 0 else case s of c # t \<Rightarrow>
       (let ds = butlast t in
        if c = CHR ''.'' \<and> t \<noteq> [] \<and> last t = CHR ''Z'' \<and> 1 \<le> length ds \<and> length ds \<le> 6 \<and> list_all (\<lambda>c. digit_of c \<noteq> None) ds
        then Some (foldl (\<lambda>a c. 10 * a + the (digit_of c)) 0 ds * 10 ^ (6 - length ds)) else None)
     | [] \<Rightarrow> None)"

text \<open>
  The pattern of an observed time and \<open>datetime.fromisoformat\<close> on what it accepts: year, month, day, hour,
  minute, second and microsecond, in UTC.
\<close>

definition parse_observed_at :: "pyval \<Rightarrow> (nat \<times> nat \<times> nat \<times> nat \<times> nat \<times> nat \<times> nat) option" where
  "parse_observed_at v = (case v of PStr s \<Rightarrow>
     Option.bind (take_sep (CHR ''-'') (take_number 4 s)) (\<lambda>(y, s).
     Option.bind (take_sep (CHR ''-'') (take_number 2 s)) (\<lambda>(mo, s).
     Option.bind (take_sep (CHR ''T'') (take_number 2 s)) (\<lambda>(d, s).
     Option.bind (take_sep (CHR '':'') (take_number 2 s)) (\<lambda>(h, s).
     Option.bind (take_sep (CHR '':'') (take_number 2 s)) (\<lambda>(mi, s).
     Option.bind (take_number 2 s) (\<lambda>(sec, s).
     Option.bind (fraction_micros s) (\<lambda>us.
       if 1 \<le> y \<and> 1 \<le> mo \<and> mo \<le> 12 \<and> 1 \<le> d \<and> d \<le> month_days y mo \<and> h < 24 \<and> mi < 60 \<and> sec < 60
       then Some (y, mo, d, h, mi, sec, us) else None)))))))
   | _ \<Rightarrow> None)"

text \<open>The text of a time with microseconds, in UTC, as the worker writes it.\<close>

fun padded :: "nat \<Rightarrow> nat \<Rightarrow> string" where
  "padded 0 n = []"
| "padded (Suc w) n = padded w (n div 10) @ [digit_char n]"

definition format_observed_at :: "nat \<times> nat \<times> nat \<times> nat \<times> nat \<times> nat \<times> nat \<Rightarrow> string" where
  "format_observed_at t = (case t of (y, mo, d, h, mi, s, us) \<Rightarrow> padded 4 y @ ''-'' @ padded 2 mo @ ''-'' @ padded 2 d @ ''T'' @ padded 2 h @ '':''
     @ padded 2 mi @ '':'' @ padded 2 s @ ''.'' @ padded 6 us @ ''Z'')"

definition utc_time :: "nat \<times> nat \<times> nat \<times> nat \<times> nat \<times> nat \<times> nat \<Rightarrow> bool" where
  "utc_time t \<longleftrightarrow> (case t of (y, mo, d, h, mi, s, us) \<Rightarrow> 1 \<le> y \<and> y < 10000 \<and> 1 \<le> mo \<and> mo \<le> 12 \<and> 1 \<le> d \<and> d \<le> month_days y mo
     \<and> h < 24 \<and> mi < 60 \<and> s < 60 \<and> us < 1000000)"

record validated_observation =
  vo_observation :: pydict
  vo_hash :: string
  vo_observed_at :: "nat \<times> nat \<times> nat \<times> nat \<times> nat \<times> nat \<times> nat"

text \<open>What both contracts compare an observation with.\<close>

record observation_expected =
  oe_kind :: string
  oe_evidence_id :: string
  oe_lottery_id :: int
  oe_account_id :: int
  oe_revision :: int
  oe_target_hash :: string
  oe_rule_snapshot_id :: int
  oe_rule_hash :: string
  oe_plan_hash :: string
  oe_config_hash :: string
  oe_actions :: "string list"
  oe_comment_hash :: string

definition follow_target_handle :: "plan_env \<Rightarrow> validated_plan \<Rightarrow> string" where
  "follow_target_handle E v = py_str (px_repr E) (py_or (payload_field (vp_action_payloads v) ''followed'' ''target_handle'' PNone) (PStr []))"

definition expected_follow_handle :: "plan_env \<Rightarrow> validated_plan \<Rightarrow> string" where
  "expected_follow_handle E v = (if ''followed'' \<in> set (vp_required_actions v) then follow_target_handle E v else [])"

definition expected_comment :: "validated_plan \<Rightarrow> pyval" where
  "expected_comment v = (if ''commented'' \<in> set (vp_required_actions v)
     then payload_field (vp_action_payloads v) ''commented'' ''text'' (PStr []) else PStr [])"

text \<open>The comparisons the two contracts share, each against the value of the observation.\<close>

definition shared_bindings :: "string \<Rightarrow> string \<Rightarrow> observation_expected \<Rightarrow> (string \<times> pyval) list" where
  "shared_bindings platform path x =
     [(''contract_version'', PInt 1), (''platform'', PStr platform), (''execution_path_id'', PStr path),
      (''lottery_id'', PInt (oe_lottery_id x)), (''account_id'', PInt (oe_account_id x)), (''execution_revision'', PInt (oe_revision x)),
      (''target_hash'', PStr (oe_target_hash x)), (''observed_target_hash'', PStr (oe_target_hash x)),
      (''rule_snapshot_id'', PInt (oe_rule_snapshot_id x)), (''rule_hash'', PStr (oe_rule_hash x)),
      (''action_plan_hash'', PStr (oe_plan_hash x)), (''config_hash'', PStr (oe_config_hash x)),
      (''required_actions'', str_list (oe_actions x)), (''comment_text_hash'', PStr (oe_comment_hash x)),
      (''observation_kind'', PStr (oe_kind x)), (''evidence_id'', PStr (oe_evidence_id x))]"

definition bound_to :: "pydict \<Rightarrow> (string \<times> pyval) list \<Rightarrow> bool" where
  "bound_to obs bs \<longleftrightarrow> list_all (\<lambda>(k, w). py_eq (dget obs k) w) bs"

text \<open>\<open>obs.get(k) is True\<close> and \<open>is False\<close>.\<close>

definition flags_are :: "pydict \<Rightarrow> (string \<times> bool) list \<Rightarrow> bool" where
  "flags_are obs fs \<longleftrightarrow> list_all (\<lambda>(k, b). dget obs k = PBool b) fs"

definition checks_cover :: "pyval \<Rightarrow> string list \<Rightarrow> bool" where
  "checks_cover v actions \<longleftrightarrow> (case v of PDict d \<Rightarrow> keys_are d actions \<and> list_all (\<lambda>a. dget d a = PBool True) actions | _ \<Rightarrow> False)"

definition canonical_actions :: "string list \<Rightarrow> string list \<Rightarrow> bool" where
  "canonical_actions order actions \<longleftrightarrow> actions \<noteq> [] \<and> actions = filter (\<lambda>a. a \<in> set actions) order \<and> distinct actions"

text \<open>The kinds and hashes of the source row and of the evidence row name the same observation.\<close>

definition observation_binding ::
  "string \<Rightarrow> string \<Rightarrow> (string \<times> string) \<Rightarrow> (string \<times> string) \<Rightarrow> (plan_error, validated_observation) result
    \<Rightarrow> (plan_error, validated_observation) result" where
  "observation_binding pfx kind source evidence r =
     (if fst source \<noteq> kind \<or> fst evidence \<noteq> kind then Inl (Code (pfx @ ''_observation_kind_mismatch''))
      else rbind r (\<lambda>w. if vo_hash w \<noteq> snd source \<or> vo_hash w \<noteq> snd evidence
        then Inl (Code (pfx @ ''_observation_hash_mismatch'')) else Inr w))"

definition real_observation :: "plan_env \<Rightarrow> pydict \<Rightarrow> string \<Rightarrow> (plan_env \<Rightarrow> pydict \<Rightarrow> string \<Rightarrow> string) \<Rightarrow> (string \<times> string) \<times> (string \<times> string)" where
  "real_observation E row which read =
     ((read E row (''source_'' @ which @ ''_observation_kind''), read E row (''source_'' @ which @ ''_observation_hash'')),
      (read E row (''evidence_'' @ which @ ''_observation_kind''), read E row (''evidence_'' @ which @ ''_observation_hash'')))"

section \<open>Douyin\<close>

definition DOUYIN_DEVICE_PUBLIC_CONFIG_FIELDS :: "string list" where
  "DOUYIN_DEVICE_PUBLIC_CONFIG_FIELDS = [''account_id_sha256'', ''agent_id'', ''device_serial_sha256'', ''manifest_sha256'']"

definition DOUYIN_DEVICE_OBSERVATION_FIELDS :: "string list" where
  "DOUYIN_DEVICE_OBSERVATION_FIELDS = [''contract_version'', ''platform'', ''execution_path_id'', ''lottery_id'', ''account_id'',
     ''execution_revision'', ''target_hash'', ''observed_target_hash'', ''rule_snapshot_id'', ''rule_hash'', ''action_plan_hash'',
     ''config_hash'', ''required_actions'', ''follow_target_handle_hash'', ''comment_text_hash'', ''observation_kind'', ''observed_at'',
     ''evidence_id'', ''side_effects'', ''agent_id'', ''manifest_sha256'', ''device_serial_sha256'', ''account_id_sha256'', ''package'',
     ''package_ok'', ''risk_blocked'', ''target_identity_verified'', ''follow_target_verified'', ''capability_checks'']"

definition DOUYIN_DEVICE_OBSERVATION_KINDS :: "string list" where
  "DOUYIN_DEVICE_OBSERVATION_KINDS = [''douyin_device_probe_v1'', ''douyin_device_shadow_v1'']"

definition text_matches :: "(string \<Rightarrow> bool) \<Rightarrow> pyval \<Rightarrow> bool" where
  "text_matches p v \<longleftrightarrow> (case v of PStr s \<Rightarrow> p s | _ \<Rightarrow> False)"

definition normalize_douyin_device_public_config :: "pyval \<Rightarrow> (plan_error, pydict) result" where
  "normalize_douyin_device_public_config v = (case v of
     PDict d \<Rightarrow> (case dget d ''device_agent'' of
       PDict raw \<Rightarrow>
         if keys_are raw DOUYIN_DEVICE_PUBLIC_CONFIG_FIELDS \<and> text_matches TOKEN_PATTERN (dget raw ''agent_id'')
           \<and> list_all (\<lambda>k. text_matches lower_hex64 (dget raw k)) [''manifest_sha256'', ''device_serial_sha256'', ''account_id_sha256'']
         then Inr (map (\<lambda>k. (k, dget raw k)) DOUYIN_DEVICE_PUBLIC_CONFIG_FIELDS)
         else Inl (Code ''douyin_device_config_invalid'')
     | _ \<Rightarrow> Inl (Code ''douyin_device_config_invalid''))
   | _ \<Rightarrow> Inl (Code ''douyin_device_config_invalid''))"

definition compute_douyin_device_config_hash :: "plan_env \<Rightarrow> int \<Rightarrow> pyval \<Rightarrow> (plan_error, string) result" where
  "compute_douyin_device_config_hash E revision v =
     (if revision \<le> 0 then Inl (Code ''execution_revision_invalid'')
      else rmap (\<lambda>c. json_hash E (PDict [(''contract_version'', PInt 1), (''execution_path_id'', PStr ''douyin_device_v1''),
          (''execution_revision'', PInt revision), (''device_agent'', PDict c)]))
        (normalize_douyin_device_public_config v))"

definition exact_text_hash :: "plan_env \<Rightarrow> string \<Rightarrow> pyval \<Rightarrow> (plan_error, string) result" where
  "exact_text_hash E code v = (case v of PStr s \<Rightarrow> Inr (px_sha E s) | _ \<Rightarrow> Inl (Code code))"

definition compute_douyin_exact_text_hash :: "plan_env \<Rightarrow> pyval \<Rightarrow> (plan_error, string) result" where
  "compute_douyin_exact_text_hash E v = exact_text_hash E ''douyin_device_text_invalid'' v"

text \<open>\<open>_plan_text_hashes\<close>: of the handle to follow and of the comment.\<close>

definition plan_text_hashes :: "plan_env \<Rightarrow> validated_plan \<Rightarrow> (plan_error, string \<times> string) result" where
  "plan_text_hashes E v =
     rbind (compute_douyin_exact_text_hash E (PStr (expected_follow_handle E v))) (\<lambda>f.
     rmap (Pair f) (compute_douyin_exact_text_hash E (expected_comment v)))"

definition device_bindings :: "observation_expected \<Rightarrow> string \<Rightarrow> pydict \<Rightarrow> (string \<times> pyval) list" where
  "device_bindings x follow_hash config = shared_bindings ''douyin'' ''douyin_device_v1'' x
     @ [(''follow_target_handle_hash'', PStr follow_hash), (''package'', PStr ''com.ss.android.ugc.aweme'')]
     @ map (\<lambda>k. (k, dget config k)) DOUYIN_DEVICE_PUBLIC_CONFIG_FIELDS"

definition device_flags :: "observation_expected \<Rightarrow> (string \<times> bool) list" where
  "device_flags x = [(''side_effects'', False), (''package_ok'', True), (''risk_blocked'', False), (''target_identity_verified'', True),
     (''follow_target_verified'', ''followed'' \<in> set (oe_actions x))]"

definition expected_well_formed :: "observation_expected \<Rightarrow> bool" where
  "expected_well_formed x \<longleftrightarrow> 0 < oe_lottery_id x \<and> 0 < oe_account_id x \<and> 0 < oe_revision x \<and> 0 < oe_rule_snapshot_id x
     \<and> list_all lower_hex64 [oe_target_hash x, oe_rule_hash x, oe_plan_hash x, oe_config_hash x, oe_comment_hash x]"

definition validate_douyin_device_observation ::
  "plan_env \<Rightarrow> pyval \<Rightarrow> observation_expected \<Rightarrow> string \<Rightarrow> pydict \<Rightarrow> (plan_error, validated_observation) result" where
  "validate_douyin_device_observation E v x follow_hash config =
     rbind (json_object E v ''douyin_device_observation_invalid'') (\<lambda>obs.
     rbind (normalize_douyin_device_public_config (PDict [(''device_agent'', PDict config)])) (\<lambda>public.
     if keys_are obs DOUYIN_DEVICE_OBSERVATION_FIELDS \<and> oe_kind x \<in> set DOUYIN_DEVICE_OBSERVATION_KINDS
       \<and> TOKEN_PATTERN (oe_evidence_id x) \<and> expected_well_formed x \<and> lower_hex64 follow_hash
       \<and> canonical_actions DOUYIN_ACTION_ORDER (oe_actions x) \<and> bound_to obs (device_bindings x follow_hash public)
       \<and> flags_are obs (device_flags x) \<and> checks_cover (dget obs ''capability_checks'') (oe_actions x)
     then (case parse_observed_at (dget obs ''observed_at'') of
        Some t \<Rightarrow> Inr \<lparr>vo_observation = obs, vo_hash = json_hash E (PDict obs), vo_observed_at = t\<rparr>
      | None \<Rightarrow> Inl (Code ''douyin_device_observed_at_invalid''))
     else Inl (Code ''douyin_device_observation_binding_mismatch'')))"


text \<open>The comparisons of the Douyin gate, in the order of the code.\<close>

definition device_scalar_checks ::
  "plan_env \<Rightarrow> pydict \<Rightarrow> pydict \<Rightarrow> int \<Rightarrow> int \<Rightarrow> validated_plan \<Rightarrow> string \<Rightarrow> int \<Rightarrow> string \<Rightarrow> string \<Rightarrow> (plan_error, bool) result list" where
  "device_scalar_checks E task row account_id lottery_id plan evidence_id revision target_hash config_hash =
     [Inr (evidence_id \<noteq> []), text_is E row ''task_execution_evidence_id'' evidence_id, text_is E row ''evidence_id'' evidence_id,
      int_is row ''evidence_lottery_id'' lottery_id, int_is row ''evidence_account_id'' account_id, text_is E row ''evidence_platform'' ''douyin'',
      int_is row ''evidence_rule_snapshot_id'' (vp_rule_snapshot_id plan), text_is E row ''evidence_execution_path_id'' ''douyin_device_v1'',
      text_is E row ''evidence_target_hash'' target_hash, text_is E row ''evidence_rule_hash'' (vp_rule_hash plan),
      text_is E row ''evidence_action_plan_hash'' (vp_plan_hash plan), text_is E row ''evidence_config_hash'' config_hash,
      text_is E task ''target_hash'' target_hash, text_is E task ''config_hash'' config_hash, int_is task ''execution_revision'' revision,
      int_is row ''account_credential_present'' 1, text_is E row ''evidence_status'' ''verified'', int_is row ''evidence_active'' 1,
      int_is row ''evidence_time_bounded'' 1, text_is E row ''evidence_probe_status'' ''succeeded'', int_is row ''evidence_probe_fresh'' 1,
      int_is row ''evidence_probe_lease_released'' 1, int_is row ''evidence_probe_lease_covers_observation'' 1,
      text_is E row ''evidence_shadow_status'' ''succeeded'', text_is E row ''evidence_shadow_task_mode'' ''shadow_run'',
      int_is row ''evidence_shadow_fresh'' 1, int_is row ''evidence_shadow_lease_released'' 1,
      int_is row ''evidence_shadow_lease_covers_observation'' 1]"

definition plan_expected ::
  "validated_plan \<Rightarrow> int \<Rightarrow> int \<Rightarrow> int \<Rightarrow> string \<Rightarrow> string \<Rightarrow> string \<Rightarrow> string \<Rightarrow> string \<Rightarrow> observation_expected" where
  "plan_expected plan account_id lottery_id revision target_hash config_hash comment_hash kind evidence_id =
     \<lparr>oe_kind = kind, oe_evidence_id = evidence_id, oe_lottery_id = lottery_id, oe_account_id = account_id, oe_revision = revision,
      oe_target_hash = target_hash, oe_rule_snapshot_id = vp_rule_snapshot_id plan, oe_rule_hash = vp_rule_hash plan,
      oe_plan_hash = vp_plan_hash plan, oe_config_hash = config_hash, oe_actions = vp_required_actions plan, oe_comment_hash = comment_hash\<rparr>"

text \<open>\<open>task.get("selector_config") or {}\<close>.\<close>

definition task_selectors :: "pydict \<Rightarrow> pyval" where
  "task_selectors task = py_or (dget task ''selector_config'') (PDict [])"

definition device_task_binding :: "plan_env \<Rightarrow> pydict \<Rightarrow> pydict \<Rightarrow> (plan_error, int \<times> pydict \<times> string \<times> string) result" where
  "device_task_binding E task row =
     (case py_int (dget row ''account_execution_revision'') of Inl _ \<Rightarrow> Inl (Code ''douyin_device_task_binding_invalid'')
      | Inr revision \<Rightarrow> (case (normalize_douyin_device_public_config (task_selectors task),
            compute_douyin_device_config_hash E revision (task_selectors task), compute_target_hash E (msg_text E task ''canonical_url'')) of
          (Inr config, Inr config_hash, Inr target_hash) \<Rightarrow> Inr (revision, config, config_hash, target_hash)
        | _ \<Rightarrow> Inl (Code ''douyin_device_task_binding_invalid'')))"

definition validate_douyin_real_run_evidence :: "plan_env \<Rightarrow> evidence_validator" where
  "validate_douyin_real_run_evidence E task row account_id lottery_id platform plan execution =
     (if platform \<noteq> ''douyin'' \<or> vp_execution_path_id plan \<noteq> ''douyin_device_v1'' \<or> vp_execution_path_id execution \<noteq> ''douyin_device_v1''
      then Inl (Code ''douyin_execution_path_not_supported'')
      else rbind (device_task_binding E task row) (\<lambda>(revision, config, config_hash, target_hash).
        let evidence_id = msg_text E task ''execution_evidence_id'' in
        rbind (all_checks (device_scalar_checks E task row account_id lottery_id plan evidence_id revision target_hash config_hash)) (\<lambda>ok.
        if \<not> ok then Inl (Code ''douyin_exact_device_evidence_required'') else
        (case plan_text_hashes E execution of Inl _ \<Rightarrow> Inl Uncaught
         | Inr (follow_hash, comment_hash) \<Rightarrow>
            let observed = (\<lambda>which kind id_field.
              let ends = real_observation E row which msg_text in
              observation_binding ''douyin_device'' kind (fst ends) (snd ends)
                (validate_douyin_device_observation E (dget row (''evidence_'' @ which @ ''_observation''))
                  (plan_expected execution account_id lottery_id revision target_hash config_hash comment_hash kind (msg_text E row id_field))
                  follow_hash config))
            in rbind (observed ''probe'' ''douyin_device_probe_v1'' ''evidence_probe_id'') (\<lambda>_.
               rbind (observed ''shadow'' ''douyin_device_shadow_v1'' ''evidence_shadow_task_id'') (\<lambda>_.
               Inr \<lparr>eb_evidence_id = evidence_id, eb_execution_revision = revision, eb_oauth_capabilities = None, eb_account_identity = None\<rparr>))))))"

text \<open>
  The observation a probe or a shadow run of the device stores: \<open>snapshot\<close> is the agent's answer, \<open>now\<close> the
  time.
\<close>

definition device_action_name :: "string \<Rightarrow> string" where
  "device_action_name a = (if a = ''followed'' then ''follow'' else if a = ''liked'' then ''like''
     else if a = ''commented'' then ''comment'' else ''favorite'')"

definition snapshot_flag :: "pydict \<Rightarrow> string \<Rightarrow> bool" where
  "snapshot_flag snapshot k \<longleftrightarrow> dget snapshot k = PBool True"

definition action_calibrated :: "pydict \<Rightarrow> string \<Rightarrow> bool" where
  "action_calibrated snapshot a \<longleftrightarrow> (case dget snapshot ''action_states'' of
     PDict states \<Rightarrow> (case dget states (device_action_name a) of PDict st \<Rightarrow> dget st ''calibrated'' = PBool True | _ \<Rightarrow> False)
   | _ \<Rightarrow> False)"

definition device_fields ::
  "plan_env \<Rightarrow> validated_plan \<Rightarrow> int \<Rightarrow> int \<Rightarrow> int \<Rightarrow> string \<Rightarrow> string \<Rightarrow> pydict \<Rightarrow> string \<Rightarrow> string \<Rightarrow> pydict
    \<Rightarrow> nat \<times> nat \<times> nat \<times> nat \<times> nat \<times> nat \<times> nat \<Rightarrow> string \<Rightarrow> string \<Rightarrow> pydict" where
  "device_fields E plan account_id lottery_id revision target_hash config_hash config kind evidence_id snapshot now follow_hash comment_hash =
     (let actions = vp_required_actions plan; verified = snapshot_flag snapshot ''target_identity_verified'' in
      [(''contract_version'', PInt 1), (''platform'', PStr ''douyin''), (''execution_path_id'', PStr ''douyin_device_v1''),
       (''lottery_id'', PInt lottery_id), (''account_id'', PInt account_id), (''execution_revision'', PInt revision),
       (''target_hash'', PStr target_hash), (''observed_target_hash'', PStr (if verified then target_hash else [])),
       (''rule_snapshot_id'', PInt (vp_rule_snapshot_id plan)), (''rule_hash'', PStr (vp_rule_hash plan)),
       (''action_plan_hash'', PStr (vp_plan_hash plan)), (''config_hash'', PStr config_hash), (''required_actions'', str_list actions),
       (''follow_target_handle_hash'', PStr follow_hash), (''comment_text_hash'', PStr comment_hash), (''observation_kind'', PStr kind),
       (''observed_at'', PStr (format_observed_at now)), (''evidence_id'', PStr evidence_id), (''side_effects'', PBool False),
       (''agent_id'', dget config ''agent_id''), (''manifest_sha256'', dget config ''manifest_sha256''),
       (''device_serial_sha256'', dget config ''device_serial_sha256''), (''account_id_sha256'', dget config ''account_id_sha256''),
       (''package'', PStr (msg_text E snapshot ''package'')), (''package_ok'', PBool (snapshot_flag snapshot ''package_ok'')),
       (''risk_blocked'', PBool (snapshot_flag snapshot ''blocked'')), (''target_identity_verified'', PBool verified),
       (''follow_target_verified'', PBool (''followed'' \<in> set actions \<and> snapshot_flag snapshot ''follow_target_verified'')),
       (''capability_checks'', PDict (map (\<lambda>a. (a, PBool (action_calibrated snapshot a))) actions))])"

definition device_observation ::
  "plan_env \<Rightarrow> validated_plan \<Rightarrow> int \<Rightarrow> int \<Rightarrow> int \<Rightarrow> string \<Rightarrow> string \<Rightarrow> pydict \<Rightarrow> string \<Rightarrow> string \<Rightarrow> pydict
    \<Rightarrow> nat \<times> nat \<times> nat \<times> nat \<times> nat \<times> nat \<times> nat \<Rightarrow> (plan_error, pydict) result" where
  "device_observation E plan account_id lottery_id revision target_hash config_hash config kind evidence_id snapshot now =
     rmap (\<lambda>(follow_hash, comment_hash).
       device_fields E plan account_id lottery_id revision target_hash config_hash config kind evidence_id snapshot now follow_hash comment_hash)
     (plan_text_hashes E plan)"

definition lower_hex :: "nat \<Rightarrow> string \<Rightarrow> bool" where
  "lower_hex n s \<longleftrightarrow> length s = n \<and> list_all (\<lambda>c. c \<in> set ''0123456789abcdef'') s"

definition douyin_target :: "string \<Rightarrow> bool" where
  "douyin_target s \<longleftrightarrow> list_ex (\<lambda>pfx. starts_with s pfx \<and> (let i = drop (length pfx) s in
       8 \<le> length i \<and> length i \<le> 32 \<and> list_all (\<lambda>c. digit_of c \<noteq> None) i))
     [''canonical://douyin/video/'', ''canonical://douyin/note/'']"

definition douyin_real_run_precondition :: "plan_env \<Rightarrow> pydict \<Rightarrow> string option" where
  "douyin_real_run_precondition E task =
     (if lower (msg_token E task ''platform'') \<noteq> ''douyin'' then Some ''douyin_task_platform_mismatch''
      else if \<not> douyin_target (msg_text E task ''canonical_url'') then Some ''douyin_video_or_note_target_required'' else None)"

section \<open>Xiaohongshu\<close>

definition XIAOHONGSHU_BROWSER_OBSERVATION_FIELDS :: "string list" where
  "XIAOHONGSHU_BROWSER_OBSERVATION_FIELDS = [''contract_version'', ''platform'', ''execution_path_id'', ''lottery_id'', ''account_id'',
     ''execution_revision'', ''target_hash'', ''observed_target_hash'', ''rule_snapshot_id'', ''rule_hash'', ''action_plan_hash'',
     ''config_hash'', ''required_actions'', ''follow_target_handle'', ''comment_text_hash'', ''observation_kind'', ''observed_at'',
     ''evidence_id'', ''side_effects'', ''account_authenticated'', ''target_identity_verified'', ''selector_observation_complete'',
     ''capability_checks'']"

definition XIAOHONGSHU_BROWSER_OBSERVATION_KINDS :: "string list" where
  "XIAOHONGSHU_BROWSER_OBSERVATION_KINDS = [''xiaohongshu_browser_probe_v1'', ''xiaohongshu_browser_shadow_v1'']"

definition compute_xiaohongshu_browser_config_hash :: "plan_env \<Rightarrow> int \<Rightarrow> pydict \<Rightarrow> (plan_error, string) result" where
  "compute_xiaohongshu_browser_config_hash E revision selectors =
     (if revision \<le> 0 then Inl (Code ''execution_revision_invalid'')
      else if selectors = [] then Inl (Code ''xiaohongshu_selector_config_invalid'')
      else Inr (json_hash E (PDict [(''contract_version'', PInt 1), (''execution_path_id'', PStr ''xiaohongshu_browser_v1''),
        (''execution_revision'', PInt revision), (''selector_config'', PDict selectors)])))"

definition compute_xiaohongshu_comment_text_hash :: "plan_env \<Rightarrow> pyval \<Rightarrow> (plan_error, string) result" where
  "compute_xiaohongshu_comment_text_hash E v = exact_text_hash E ''xiaohongshu_comment_text_invalid'' v"

definition exact_token :: "string \<Rightarrow> bool" where
  "exact_token s \<longleftrightarrow> s \<noteq> [] \<and> s = strip s \<and> length s \<le> 128"

definition browser_bindings :: "observation_expected \<Rightarrow> string \<Rightarrow> (string \<times> pyval) list" where
  "browser_bindings x follow_handle = shared_bindings ''xiaohongshu'' ''xiaohongshu_browser_v1'' x @ [(''follow_target_handle'', PStr follow_handle)]"

definition browser_flags :: "(string \<times> bool) list" where
  "browser_flags = [(''side_effects'', False), (''account_authenticated'', True), (''target_identity_verified'', True),
     (''selector_observation_complete'', True)]"

definition validate_xiaohongshu_browser_observation ::
  "plan_env \<Rightarrow> pyval \<Rightarrow> observation_expected \<Rightarrow> string \<Rightarrow> (plan_error, validated_observation) result" where
  "validate_xiaohongshu_browser_observation E v x follow_handle =
     rbind (json_object E v ''xiaohongshu_browser_observation_invalid'') (\<lambda>obs.
     if \<not> keys_are obs XIAOHONGSHU_BROWSER_OBSERVATION_FIELDS then Inl (Code ''xiaohongshu_browser_observation_schema_invalid'')
     else if \<not> canonical_actions XIAOHONGSHU_ACTION_ORDER (oe_actions x) then Inl (Code ''xiaohongshu_browser_expected_actions_invalid'')
     else if \<not> (oe_kind x \<in> set XIAOHONGSHU_BROWSER_OBSERVATION_KINDS \<and> exact_token (oe_evidence_id x) \<and> expected_well_formed x
       \<and> bound_to obs (browser_bindings x follow_handle) \<and> flags_are obs browser_flags \<and> checks_cover (dget obs ''capability_checks'') (oe_actions x))
     then Inl (Code ''xiaohongshu_browser_observation_binding_mismatch'')
     else if (''followed'' \<in> set (oe_actions x)) \<noteq> (follow_handle \<noteq> []) then Inl (Code ''xiaohongshu_browser_follow_target_mismatch'')
     else (case parse_observed_at (dget obs ''observed_at'') of
        Some t \<Rightarrow> Inr \<lparr>vo_observation = obs, vo_hash = json_hash E (PDict obs), vo_observed_at = t\<rparr>
      | None \<Rightarrow> Inl (Code ''xiaohongshu_browser_observed_at_invalid'')))"

definition xiaohongshu_target :: "string \<Rightarrow> bool" where
  "xiaohongshu_target s \<longleftrightarrow> starts_with s ''canonical://xiaohongshu/note/'' \<and> lower_hex 24 (drop (length ''canonical://xiaohongshu/note/'') s)"

definition xiaohongshu_real_run_precondition :: "plan_env \<Rightarrow> pydict \<Rightarrow> string option" where
  "xiaohongshu_real_run_precondition E task =
     (if lower (msg_token E task ''platform'') \<noteq> ''xiaohongshu'' then Some ''xiaohongshu_task_platform_mismatch''
      else if \<not> xiaohongshu_target (msg_token E task ''canonical_url'') then Some ''xiaohongshu_note_target_required'' else None)"



text \<open>The three numbers that bind the evidence row; a value that is no number is the same error as another number.\<close>

definition number_is :: "pydict \<Rightarrow> string \<Rightarrow> int \<Rightarrow> bool" where
  "number_is row k n \<longleftrightarrow> py_int (dget row k) = Inr n"

definition browser_row_binding ::
  "plan_env \<Rightarrow> pydict \<Rightarrow> pydict \<Rightarrow> int \<Rightarrow> int \<Rightarrow> string \<Rightarrow> validated_plan \<Rightarrow> string \<Rightarrow> string \<Rightarrow> bool" where
  "browser_row_binding E task row account_id lottery_id platform plan target_hash config_hash \<longleftrightarrow>
     (let evidence_id = msg_token E row ''evidence_id'' in
      number_is row ''evidence_account_id'' account_id \<and> number_is row ''evidence_lottery_id'' lottery_id
      \<and> number_is row ''evidence_rule_snapshot_id'' (vp_rule_snapshot_id plan)
      \<and> evidence_id \<noteq> [] \<and> msg_token E task ''execution_evidence_id'' = evidence_id \<and> msg_token E row ''task_execution_evidence_id'' = evidence_id
      \<and> lower (msg_token E row ''evidence_platform'') = platform \<and> msg_token E row ''evidence_execution_path_id'' = ''xiaohongshu_browser_v1''
      \<and> msg_token E row ''evidence_rule_hash'' = vp_rule_hash plan \<and> msg_token E row ''evidence_action_plan_hash'' = vp_plan_hash plan
      \<and> msg_token E row ''evidence_target_hash'' = target_hash \<and> msg_token E task ''target_hash'' = target_hash
      \<and> msg_token E row ''task_target_hash'' = target_hash \<and> msg_token E row ''evidence_config_hash'' = config_hash
      \<and> msg_token E task ''config_hash'' = config_hash \<and> msg_token E row ''task_config_hash'' = config_hash)"

definition evidence_active_checks :: "plan_env \<Rightarrow> pydict \<Rightarrow> (plan_error, bool) result list" where
  "evidence_active_checks E row =
     [lower_is E row ''evidence_status'' ''verified'', Inr (dget row ''evidence_verified_at'' \<noteq> PNone),
      Inr (dget row ''evidence_expires_at'' \<noteq> PNone), int_is row ''evidence_active'' 1, int_is row ''evidence_time_bounded'' 1]"

definition browser_pair_checks :: "plan_env \<Rightarrow> pydict \<Rightarrow> string \<Rightarrow> string \<Rightarrow> (plan_error, bool) result list" where
  "browser_pair_checks E row target_hash config_hash =
     [Inr (msg_token E row ''evidence_probe_id'' \<noteq> []), Inr (msg_token E row ''evidence_shadow_task_id'' \<noteq> []),
      lower_is E row ''evidence_probe_status'' ''succeeded'', Inr (dget row ''evidence_probe_finished_at'' \<noteq> PNone),
      lower_is E row ''evidence_shadow_status'' ''succeeded'', lower_is E row ''evidence_shadow_task_mode'' ''shadow_run'',
      token_is E row ''evidence_shadow_target_hash'' target_hash, token_is E row ''evidence_shadow_config_hash'' config_hash,
      int_is row ''evidence_probe_fresh'' 1, int_is row ''evidence_shadow_fresh'' 1, int_is row ''evidence_probe_lease_released'' 1,
      int_is row ''evidence_probe_lease_covers_observation'' 1, int_is row ''evidence_shadow_lease_released'' 1,
      int_is row ''evidence_shadow_lease_covers_observation'' 1]"

definition uncaught :: "(plan_error, 'a) result \<Rightarrow> (plan_error, 'a) result" where
  "uncaught r = (case r of Inl _ \<Rightarrow> Inl Uncaught | Inr x \<Rightarrow> Inr x)"

definition browser_task_binding :: "plan_env \<Rightarrow> pydict \<Rightarrow> pydict \<Rightarrow> validated_plan \<Rightarrow> (plan_error, int \<times> string \<times> string \<times> string) result" where
  "browser_task_binding E task row plan =
     (case py_int (dget row ''account_execution_revision'') of Inl _ \<Rightarrow> Inl (Code ''account_execution_revision_invalid'')
      | Inr revision \<Rightarrow>
        rbind (json_object E (dget task ''selector_config'') ''xiaohongshu_selector_config_invalid'') (\<lambda>selectors.
        rbind (compute_xiaohongshu_browser_config_hash E revision selectors) (\<lambda>config_hash.
        rbind (uncaught (compute_target_hash E (msg_token E row ''lottery_canonical_url''))) (\<lambda>target_hash.
        rbind (compute_xiaohongshu_comment_text_hash E (expected_comment plan)) (\<lambda>comment_hash.
          Inr (revision, config_hash, target_hash, comment_hash))))))"

text \<open>The plan of this execution is not read: the evidence is that of the full plan.\<close>

definition validate_xiaohongshu_real_run_evidence :: "plan_env \<Rightarrow> evidence_validator" where
  "validate_xiaohongshu_real_run_evidence E task row account_id lottery_id platform plan execution =
     (if platform \<noteq> ''xiaohongshu'' \<or> vp_execution_path_id plan \<noteq> ''xiaohongshu_browser_v1'' then Inl (Code ''execution_path_not_supported'')
      else rbind (browser_task_binding E task row plan) (\<lambda>(revision, config_hash, target_hash, comment_hash).
        if \<not> browser_row_binding E task row account_id lottery_id platform plan target_hash config_hash
        then Inl (Code ''execution_evidence_binding_invalid'')
        else rbind (all_checks (evidence_active_checks E row)) (\<lambda>active.
        if \<not> active then Inl (Code ''execution_evidence_not_active'')
        else rbind (all_checks (browser_pair_checks E row target_hash config_hash)) (\<lambda>complete.
        if \<not> complete then Inl (Code ''probe_shadow_evidence_incomplete'')
        else let observed = (\<lambda>which kind id_field.
              let ends = real_observation E row which msg_token in
              observation_binding ''xiaohongshu_browser'' kind (fst ends) (snd ends)
                (validate_xiaohongshu_browser_observation E (dget row (''evidence_'' @ which @ ''_observation''))
                  (plan_expected plan account_id lottery_id revision target_hash config_hash comment_hash kind (msg_token E row id_field))
                  (expected_follow_handle E plan)))
            in rbind (observed ''probe'' ''xiaohongshu_browser_probe_v1'' ''evidence_probe_id'') (\<lambda>_.
               rbind (observed ''shadow'' ''xiaohongshu_browser_shadow_v1'' ''evidence_shadow_task_id'') (\<lambda>_.
               Inr \<lparr>eb_evidence_id = msg_token E row ''evidence_id'', eb_execution_revision = revision,
                 eb_oauth_capabilities = None, eb_account_identity = None\<rparr>))))))"

section \<open>Times that are written are read\<close>

lemma length_padded [simp]: "length (padded w n) = w"
  by (induction w arbitrary: n) auto

lemma padded_digits: "c \<in> set (padded w n) \<Longrightarrow> \<exists>k. c = digit_char k"
  by (induction w arbitrary: n) auto

lemma padded_value: "n < 10 ^ w \<Longrightarrow> foldl (\<lambda>a c. 10 * a + the (digit_of c)) 0 (padded w n) = n"
proof (induction w arbitrary: n)
  case (Suc w)
  then have "n div 10 < 10 ^ w" by (simp add: div_less_iff_less_mult mult.commute)
  with Suc.IH show ?case by simp
qed simp

lemma digits_padded: "list_all (\<lambda>c. digit_of c \<noteq> None) (padded w n)"
  unfolding list_all_iff by (metis digit_of_digit_char option.simps(3) padded_digits)

lemma take_number_padded: "n < 10 ^ w \<Longrightarrow> take_number w (padded w n @ s) = Some (n, s)"
  using digits_padded [of w n] by (simp add: take_number_def padded_value)

lemma take_sep_padded: "n < 10 ^ w \<Longrightarrow> take_sep d (take_number w (padded w n @ d # s)) = Some (n, s)"
  by (simp add: take_number_padded take_sep_def)

lemma fraction_padded: "us < 1000000 \<Longrightarrow> fraction_micros (CHR ''.'' # padded 6 us @ ''Z'') = Some us"
  using digits_padded [of 6 us] by (simp add: fraction_micros_def padded_value)

lemma parse_format_observed_at:
  assumes "utc_time t"
  shows "parse_observed_at (PStr (format_observed_at t)) = Some t"
proof -
  obtain y mo d h mi s us where t: "t = (y, mo, d, h, mi, s, us)" by (metis prod_cases7)
  have md: "month_days y mo \<le> 31" by (simp add: month_days_def)
  have b: "y < 10 ^ 4" "mo < 10 ^ 2" "d < 10 ^ 2" "h < 10 ^ 2" "mi < 10 ^ 2" "s < 10 ^ 2" "us < 1000000"
    and v: "1 \<le> y" "1 \<le> mo" "mo \<le> 12" "1 \<le> d" "d \<le> month_days y mo" "h < 24" "mi < 60" "s < 60"
    using assms md by (auto simp: utc_time_def t)
  show ?thesis
    unfolding parse_observed_at_def format_observed_at_def t prod.case pyval.case
    by (simp only: append.simps append_assoc take_sep_padded [OF b(1)] take_sep_padded [OF b(2)] take_sep_padded [OF b(3)] take_sep_padded [OF b(4)]
        take_sep_padded [OF b(5)] take_number_padded [OF b(6)] fraction_padded [OF b(7)] Option.bind.simps prod.case v simp_thms if_True)
qed

section \<open>What a device observation proves\<close>

lemma bound_to_append: "bound_to obs (xs @ ys) \<longleftrightarrow> bound_to obs xs \<and> bound_to obs ys"
  by (simp add: bound_to_def)

lemma normalized_public_config:
  assumes "normalize_douyin_device_public_config v = Inr cfg"
  shows "normalize_douyin_device_public_config (PDict [(''device_agent'', PDict cfg)]) = Inr cfg"
proof -
  obtain raw where raw: "text_matches TOKEN_PATTERN (dget raw ''agent_id'')"
      "list_all (\<lambda>k. text_matches lower_hex64 (dget raw k)) [''manifest_sha256'', ''device_serial_sha256'', ''account_id_sha256'']"
    and cfg: "cfg = map (\<lambda>k. (k, dget raw k)) DOUYIN_DEVICE_PUBLIC_CONFIG_FIELDS"
    using assms by (auto simp: normalize_douyin_device_public_config_def split: pyval.splits if_splits)
  have "dget cfg k = dget raw k" if "k \<in> set DOUYIN_DEVICE_PUBLIC_CONFIG_FIELDS" for k
    using that unfolding cfg by (simp add: DOUYIN_DEVICE_PUBLIC_CONFIG_FIELDS_def) (elim disjE; simp)
  note d = this [unfolded DOUYIN_DEVICE_PUBLIC_CONFIG_FIELDS_def, simplified]
  have k: "keys_are cfg DOUYIN_DEVICE_PUBLIC_CONFIG_FIELDS" by (simp add: keys_are_def cfg comp_def)
  have m: "map (\<lambda>k. (k, dget cfg k)) DOUYIN_DEVICE_PUBLIC_CONFIG_FIELDS = cfg"
    by (subst (2) cfg) (simp add: DOUYIN_DEVICE_PUBLIC_CONFIG_FIELDS_def d)
  show ?thesis using raw k m by (simp add: normalize_douyin_device_public_config_def d)
qed

text \<open>What the agent must have seen: the right package and target, no risk, and every action calibrated.\<close>

definition healthy_snapshot :: "plan_env \<Rightarrow> pydict \<Rightarrow> string list \<Rightarrow> bool" where
  "healthy_snapshot E snapshot actions \<longleftrightarrow> msg_text E snapshot ''package'' = ''com.ss.android.ugc.aweme'' \<and> snapshot_flag snapshot ''package_ok''
     \<and> \<not> snapshot_flag snapshot ''blocked'' \<and> snapshot_flag snapshot ''target_identity_verified''
     \<and> (''followed'' \<in> set actions \<longrightarrow> snapshot_flag snapshot ''follow_target_verified'') \<and> list_all (action_calibrated snapshot) actions"

lemma dget_map: "a \<in> set xs \<Longrightarrow> dget (map (\<lambda>a. (a, g a)) xs) a = g a"
  by (induction xs) auto

lemma checks_cover_map: "checks_cover (PDict (map (\<lambda>a. (a, PBool (f a))) actions)) actions \<longleftrightarrow> list_all f actions"
  by (auto simp: checks_cover_def keys_are_def comp_def list_all_iff dget_map)

text \<open>
  C14. A device observation is accepted exactly when the device was healthy. The observation the worker builds from
  the agent's answer passes the validation of the gate, for the same account, lottery, plan, target and configuration, if and only if the
  answer shows the right package and target, no risk, the follow target when the plan follows, and a calibrated button for every
  action of the plan; what is accepted is the observation as it was built, with its hash and its time.
\<close>

theorem device_observation_accepted_iff_healthy:
  assumes "device_observation E plan account lottery revision target_hash config_hash config kind evidence_id snapshot now = Inr obs"
    "plan_text_hashes E plan = Inr (follow_hash, comment_hash)" "normalize_douyin_device_public_config v = Inr config" "utc_time now"
    "kind \<in> set DOUYIN_DEVICE_OBSERVATION_KINDS" "TOKEN_PATTERN evidence_id" "lower_hex64 follow_hash"
    "canonical_actions DOUYIN_ACTION_ORDER (vp_required_actions plan)"
    "expected_well_formed (plan_expected plan account lottery revision target_hash config_hash comment_hash kind evidence_id)"
  shows "validate_douyin_device_observation E (PDict obs) (plan_expected plan account lottery revision target_hash config_hash comment_hash kind evidence_id) follow_hash config
      = (if healthy_snapshot E snapshot (vp_required_actions plan) then Inr \<lparr>vo_observation = obs, vo_hash = json_hash E (PDict obs), vo_observed_at = now\<rparr>
         else Inl (Code ''douyin_device_observation_binding_mismatch''))"
proof -
  let ?x = "plan_expected plan account lottery revision target_hash config_hash comment_hash kind evidence_id"
  have hex: "target_hash \<noteq> []" using assms(9) by (auto simp: expected_well_formed_def plan_expected_def lower_hex64_def)
  have obs: "obs = device_fields E plan account lottery revision target_hash config_hash config kind evidence_id snapshot now follow_hash comment_hash"
    using assms(1,2) by (simp add: device_observation_def)
  have keys: "keys_are obs DOUYIN_DEVICE_OBSERVATION_FIELDS"
    unfolding obs by (simp add: keys_are_def device_fields_def DOUYIN_DEVICE_OBSERVATION_FIELDS_def Let_def insert_commute)
  have bound: "bound_to obs (device_bindings ?x follow_hash config)
      \<longleftrightarrow> snapshot_flag snapshot ''target_identity_verified'' \<and> msg_text E snapshot ''package'' = ''com.ss.android.ugc.aweme''"
    using hex unfolding obs by (simp add: bound_to_def device_bindings_def shared_bindings_def plan_expected_def device_fields_def Let_def
        DOUYIN_DEVICE_PUBLIC_CONFIG_FIELDS_def)
  have flags: "flags_are obs (device_flags ?x) \<longleftrightarrow> snapshot_flag snapshot ''package_ok'' \<and> \<not> snapshot_flag snapshot ''blocked''
      \<and> snapshot_flag snapshot ''target_identity_verified'' \<and> (''followed'' \<in> set (vp_required_actions plan) \<longrightarrow> snapshot_flag snapshot ''follow_target_verified'')"
    unfolding obs by (auto simp: flags_are_def device_flags_def plan_expected_def device_fields_def Let_def)
  have checks: "checks_cover (dget obs ''capability_checks'') (oe_actions ?x) \<longleftrightarrow> list_all (action_calibrated snapshot) (vp_required_actions plan)"
    unfolding obs by (simp add: device_fields_def Let_def plan_expected_def checks_cover_map)
  have now: "parse_observed_at (dget obs ''observed_at'') = Some now"
    unfolding obs by (simp add: device_fields_def Let_def parse_format_observed_at [OF assms(4)])
  have x: "oe_kind ?x = kind" "oe_evidence_id ?x = evidence_id" "oe_actions ?x = vp_required_actions plan" by (simp_all add: plan_expected_def)
  show ?thesis
    unfolding validate_douyin_device_observation_def json_object_def pyval.case rbind.simps normalized_public_config [OF assms(3)] now option.case
      bound flags checks healthy_snapshot_def
    using keys assms(5-9) by (auto simp: x)
qed

text \<open>A plan on the device path, a device configuration, and the agent's answers: a healthy one and an empty one.\<close>

definition demo_device_plan :: validated_plan where
  "demo_device_plan = demo_validated\<lparr>vp_execution_path_id := ''douyin_device_v1''\<rparr>"

definition demo_device_config :: pydict where
  "demo_device_config = [(''account_id_sha256'', PStr demo_digest), (''agent_id'', PStr ''agent''), (''device_serial_sha256'', PStr demo_digest),
     (''manifest_sha256'', PStr demo_digest)]"

definition demo_snapshot :: pydict where
  "demo_snapshot = [(''package'', PStr ''com.ss.android.ugc.aweme''), (''package_ok'', PBool True), (''blocked'', PBool False),
     (''target_identity_verified'', PBool True), (''follow_target_verified'', PBool True),
     (''action_states'', PDict [(''follow'', PDict [(''calibrated'', PBool True)]), (''like'', PDict [(''calibrated'', PBool True)])])]"

definition demo_device_expected :: observation_expected where
  "demo_device_expected = plan_expected demo_device_plan 3 5 1 demo_digest demo_digest demo_digest ''douyin_device_probe_v1'' ''probe-1''"

theorem device_observation_accepted_iff_healthy_witness:
  "\<exists>good bad. device_observation demo_plan_env demo_device_plan 3 5 1 demo_digest demo_digest demo_device_config ''douyin_device_probe_v1'' ''probe-1''
        demo_snapshot (2026, 2, 28, 23, 59, 59, 999999) = Inr good
    \<and> device_observation demo_plan_env demo_device_plan 3 5 1 demo_digest demo_digest demo_device_config ''douyin_device_probe_v1'' ''probe-1''
        [] (2026, 2, 28, 23, 59, 59, 999999) = Inr bad
    \<and> validate_douyin_device_observation demo_plan_env (PDict good) demo_device_expected demo_digest demo_device_config
        = Inr \<lparr>vo_observation = good, vo_hash = demo_digest, vo_observed_at = (2026, 2, 28, 23, 59, 59, 999999)\<rparr>
    \<and> validate_douyin_device_observation demo_plan_env (PDict bad) demo_device_expected demo_digest demo_device_config
        = Inl (Code ''douyin_device_observation_binding_mismatch'')"
proof -
  have v: "vp_required_actions demo_device_plan = [''followed'', ''liked'']" "vp_rule_snapshot_id demo_device_plan = 7"
    "vp_rule_hash demo_device_plan = demo_digest" "vp_plan_hash demo_device_plan = demo_digest"
    "expected_comment demo_device_plan = PStr []"
    by (simp_all add: demo_device_plan_def demo_validated_def expected_comment_def)
  have h: "plan_text_hashes demo_plan_env demo_device_plan = Inr (demo_digest, demo_digest)"
    by (simp add: plan_text_hashes_def compute_douyin_exact_text_hash_def exact_text_hash_def v)
  have c: "normalize_douyin_device_public_config (PDict [(''device_agent'', PDict demo_device_config)]) = Inr demo_device_config"
    by code_simp
  have t: "utc_time (2026, 2, 28, 23, 59, 59, 999999)" "TOKEN_PATTERN ''probe-1''" "canonical_actions DOUYIN_ACTION_ORDER [''followed'', ''liked'']"
    by (simp_all add: utc_time_def month_days_def leap_year_def TOKEN_PATTERN_def token_char_def canonical_actions_def DOUYIN_ACTION_ORDER_def)
  have k: "''douyin_device_probe_v1'' \<in> set DOUYIN_DEVICE_OBSERVATION_KINDS" by (simp add: DOUYIN_DEVICE_OBSERVATION_KINDS_def)
  have x: "expected_well_formed (plan_expected demo_device_plan 3 5 1 demo_digest demo_digest demo_digest ''douyin_device_probe_v1'' ''probe-1'')"
    by (simp add: expected_well_formed_def plan_expected_def v demo_digest_ok)
  have "\<exists>obs. device_observation demo_plan_env demo_device_plan 3 5 1 demo_digest demo_digest demo_device_config ''douyin_device_probe_v1'' ''probe-1''
      s (2026, 2, 28, 23, 59, 59, 999999) = Inr obs" for s
    by (simp add: device_observation_def h)
  then obtain good bad where o: "device_observation demo_plan_env demo_device_plan 3 5 1 demo_digest demo_digest demo_device_config
        ''douyin_device_probe_v1'' ''probe-1'' demo_snapshot (2026, 2, 28, 23, 59, 59, 999999) = Inr good"
      "device_observation demo_plan_env demo_device_plan 3 5 1 demo_digest demo_digest demo_device_config ''douyin_device_probe_v1'' ''probe-1''
        [] (2026, 2, 28, 23, 59, 59, 999999) = Inr bad"
    by metis
  have r: "healthy_snapshot demo_plan_env demo_snapshot [''followed'', ''liked'']" "\<not> healthy_snapshot demo_plan_env [] [''followed'', ''liked'']"
    by code_simp+
  note t3 = t(3) [folded v(1)]
  note r' = r [folded v(1)]
  have g: "validate_douyin_device_observation demo_plan_env (PDict good) demo_device_expected demo_digest demo_device_config
      = Inr \<lparr>vo_observation = good, vo_hash = demo_digest, vo_observed_at = (2026, 2, 28, 23, 59, 59, 999999)\<rparr>"
    using device_observation_accepted_iff_healthy [OF o(1) h c t(1) k t(2) demo_digest_ok t3 x] unfolding if_P [OF r'(1)] demo_hashes demo_device_expected_def .
  have w: "validate_douyin_device_observation demo_plan_env (PDict bad) demo_device_expected demo_digest demo_device_config
      = Inl (Code ''douyin_device_observation_binding_mismatch'')"
    using device_observation_accepted_iff_healthy [OF o(2) h c t(1) k t(2) demo_digest_ok t3 x] unfolding if_not_P [OF r'(2)] demo_device_expected_def .
  show ?thesis by (intro exI conjI) (rule o g w)+
qed

end
