(* ===== verification/WeiboEvidence.thy ===== *)
theory WeiboEvidence
  imports PlatformEvidence
begin

text \<open>
  The evidence of a Weibo real run: the latest calibration of the account's OAuth credential together with the
  operator's attestation of what the application may do (\<open>worker/app/weibo/capabilities.py\<close>, \<open>shared/weibo_oauth_evidence.py\<close>,
  the address functions of \<open>worker/app/weibo/credentials.py\<close> and \<open>validate_weibo_oauth_execution_evidence\<close> of the module).
  Times are microseconds of UTC.
\<close>

text \<open>
  What is not this repository's: \<open>wx_time\<close> is \<open>datetime.fromisoformat\<close> on a text with an offset (None for any other
  text), \<open>wx_iso\<close> the ISO text of a time with \<open>Z\<close>, \<open>wx_ip\<close> the address \<open>ipaddress\<close> reads with its canonical
  text and whether it is global, \<open>wx_decrypt\<close> the vault's strict decryption of canonical base64, \<open>wx_hmac\<close> the keyed digest (None
  without a valid key). \<open>wx_now\<close> is the clock.
\<close>

record weibo_env =
  wx_time :: "string \<Rightarrow> int option"
  wx_iso :: "int \<Rightarrow> string"
  wx_ip :: "string \<Rightarrow> (string \<times> bool) option"
  wx_decrypt :: "string \<Rightarrow> string option"
  wx_hmac :: "string \<Rightarrow> string option"
  wx_now :: int

section \<open>Attestations\<close>

definition ATTESTATION_KEYS :: "string list" where
  "ATTESTATION_KEYS = [''contract_version'', ''calibration_id'', ''account_id'', ''execution_revision'', ''credential_kind'', ''identity_verified'',
     ''app_review_status'', ''client_type'', ''verified_at'', ''evidence_source'', ''attested_by'', ''attested_at'', ''actions'']"


definition APP_REVIEW_STATUSES :: "string list" where "APP_REVIEW_STATUSES = [''approved'', ''test_only'', ''unknown'']"
definition CLIENT_TYPES :: "string list" where "CLIENT_TYPES = [''weibo'', ''other'']"

definition MAX_EVIDENCE_AGE :: int where "MAX_EVIDENCE_AGE = 24 * 60 * 60 * 1000000"

abbreviation (input) mismatch :: plan_error where "mismatch \<equiv> Code ''weibo_oauth_capability_contract_mismatch''"


definition required_actor :: "pyval \<Rightarrow> (plan_error, string) result" where
  "required_actor v = (case v of PStr s \<Rightarrow> if s = [] \<or> s \<noteq> strip s \<or> utf8_length s > 128 then Inl (Code ''weibo_oauth_attestation_actor_invalid'') else Inr s
     | _ \<Rightarrow> Inl (Code ''weibo_oauth_attestation_actor_invalid''))"

text \<open>\<open>str(UUID(v)) == v.lower()\<close>: the canonical form in either case.\<close>

definition attested_calibration_id :: "pyval \<Rightarrow> (plan_error, string) result" where
  "attested_calibration_id v = (case v of PStr s \<Rightarrow> if s = strip s \<and> is_uuid (lower s) then Inr (lower s) else Inl (Code ''weibo_oauth_calibration_binding_invalid'')
     | _ \<Rightarrow> Inl (Code ''weibo_oauth_calibration_binding_invalid''))"

definition utc_timestamp :: "weibo_env \<Rightarrow> pyval \<Rightarrow> string \<Rightarrow> (plan_error, int) result" where
  "utc_timestamp W v code = (case v of
     PStr s \<Rightarrow> if s = [] \<or> s \<noteq> strip s then Inl (Code code)
       else (case wx_time W (if last s = CHR ''Z'' then butlast s @ ''+00:00'' else s) of Some t \<Rightarrow> Inr t | None \<Rightarrow> Inl (Code code))
   | _ \<Rightarrow> Inl (Code code))"

definition one_of :: "pyval \<Rightarrow> string list \<Rightarrow> bool" where
  "one_of v xs \<longleftrightarrow> v \<in> PStr ` set xs"

fun is_bool :: "pyval \<Rightarrow> bool" where
  "is_bool (PBool _) = True"
| "is_bool _ = False"




definition attested_action :: "pydict \<Rightarrow> string \<Rightarrow> pydict" where
  "attested_action grants a = [(''endpoint'', dget (weibo_capability a) ''endpoint''), (''permission'', dget (weibo_capability a) ''permission''),
     (''granted'', dget grants a)]"



definition attestation_head :: "pydict \<Rightarrow> string \<Rightarrow> int \<Rightarrow> int \<Rightarrow> (plan_error, unit) result" where
  "attestation_head d calibration_id account_id revision =
     (if \<not> (dget d ''contract_version'' = PInt 1 \<and> dget d ''credential_kind'' = PStr ''weibo_oauth'' \<and> dget d ''identity_verified'' = PBool True
         \<and> dget d ''evidence_source'' = PStr ''operator_attested_app_capabilities'') then Inl mismatch
      else rbind (attested_calibration_id (dget d ''calibration_id'')) (\<lambda>stored.
        rbind (attested_calibration_id (PStr calibration_id)) (\<lambda>wanted.
        if stored \<noteq> wanted then Inl (Code ''weibo_oauth_calibration_binding_invalid'')
        else if account_id \<le> 0 \<or> dget d ''account_id'' \<noteq> PInt account_id then Inl (Code ''weibo_oauth_account_binding_invalid'')
        else if revision \<le> 0 then Inl (Code ''weibo_oauth_execution_revision_invalid'')
        else if dget d ''execution_revision'' \<noteq> PInt revision then Inl (Code ''weibo_oauth_execution_revision_mismatch'')
        else if \<not> hashable (dget d ''app_review_status'') then Inl Uncaught
        else if \<not> one_of (dget d ''app_review_status'') APP_REVIEW_STATUSES then Inl (Code ''weibo_oauth_app_review_status_invalid'')
        else if dget d ''app_review_status'' \<noteq> PStr ''approved'' then Inl (Code ''weibo_oauth_app_not_approved'')
        else if \<not> hashable (dget d ''client_type'') then Inl Uncaught
        else if \<not> one_of (dget d ''client_type'') CLIENT_TYPES then Inl (Code ''weibo_oauth_client_type_invalid'')
        else rmap (\<lambda>_. ()) (required_actor (dget d ''attested_by'')))))"

definition attestation_times :: "weibo_env \<Rightarrow> pydict \<Rightarrow> int \<Rightarrow> (plan_error, unit) result" where
  "attestation_times W d now =
     rbind (utc_timestamp W (dget d ''verified_at'') ''weibo_oauth_capability_evidence_time_invalid'') (\<lambda>verified.
     rbind (utc_timestamp W (dget d ''attested_at'') ''weibo_oauth_attested_at_invalid'') (\<lambda>attested.
     if now < verified \<or> now < attested then Inl (Code ''weibo_oauth_capability_evidence_from_future'')
     else if verified < attested then Inl (Code ''weibo_oauth_attestation_after_verification'')
     else if MAX_EVIDENCE_AGE < now - verified \<or> MAX_EVIDENCE_AGE < now - attested then Inl (Code ''weibo_oauth_capability_evidence_stale'')
     else Inr ()))"

definition grant_well_formed :: "string \<times> pyval \<Rightarrow> bool" where
  "grant_well_formed ag \<longleftrightarrow> (case snd ag of
     PDict g \<Rightarrow> keys_are g [''endpoint'', ''permission'', ''granted''] \<and> py_eq (dget g ''endpoint'') (dget (weibo_capability (fst ag)) ''endpoint'')
       \<and> py_eq (dget g ''permission'') (dget (weibo_capability (fst ag)) ''permission'') \<and> is_bool (dget g ''granted'')
   | _ \<Rightarrow> False)"

definition action_granted :: "pydict \<Rightarrow> string \<Rightarrow> bool" where
  "action_granted grants a \<longleftrightarrow> (case dget grants a of PDict g \<Rightarrow> dget g ''granted'' = PBool True | _ \<Rightarrow> False)"

fun requirements_met :: "pydict \<Rightarrow> pyval \<Rightarrow> (string \<times> pyval) list \<Rightarrow> (plan_error, unit) result" where
  "requirements_met grants client_type [] = Inr ()"
| "requirements_met grants client_type ((a, r) # rs) =
     (if a \<notin> set WEIBO_ACTION_ORDER \<or> \<not> is_dict r \<or> \<not> py_eq r (PDict (weibo_capability a)) then Inl mismatch
      else if \<not> action_granted grants a then Inl (Code (''weibo_oauth_action_not_granted:'' @ a))
      else if a = ''followed'' \<and> client_type \<noteq> PStr ''weibo'' then Inl (Code ''weibo_oauth_follow_client_type_required'')
      else requirements_met grants client_type rs)"

definition attestation_grants :: "pydict \<Rightarrow> pydict \<Rightarrow> (plan_error, unit) result" where
  "attestation_grants d requirements =
     (if dget requirements ''contract_version'' \<noteq> PInt 1 \<or> \<not> keys_are requirements [''contract_version'', ''actions''] then Inl mismatch
      else case (dget requirements ''actions'', dget d ''actions'') of
        (PDict required, PDict grants) \<Rightarrow>
          if \<not> keys_are grants WEIBO_ACTION_ORDER \<or> \<not> list_all grant_well_formed grants then Inl mismatch
          else requirements_met grants (dget d ''client_type'') required
      | _ \<Rightarrow> Inl mismatch)"

definition validate_weibo_oauth_capability_attestation ::
  "weibo_env \<Rightarrow> pyval \<Rightarrow> string \<Rightarrow> int \<Rightarrow> int \<Rightarrow> pydict \<Rightarrow> int \<Rightarrow> (plan_error, pydict) result" where
  "validate_weibo_oauth_capability_attestation W v calibration_id account_id revision requirements now = (case v of
     PDict d \<Rightarrow> if \<not> keys_are d ATTESTATION_KEYS then Inl mismatch
       else rbind (attestation_head d calibration_id account_id revision) (\<lambda>_.
         rbind (attestation_times W d now) (\<lambda>_.
         rmap (\<lambda>_. d) (attestation_grants d requirements)))
   | _ \<Rightarrow> Inl mismatch)"

section \<open>The calibration envelope\<close>

definition SECRET_MATERIAL_KEYS :: "string list" where
  "SECRET_MATERIAL_KEYS = [''access_token'', ''refresh_token'', ''client_secret'', ''oauth_token'']"

fun contains_secret_material :: "pyval \<Rightarrow> bool" where
  "contains_secret_material (PDict d) \<longleftrightarrow>
     list_ex (\<lambda>kv. casefold (strip (fst kv)) \<in> set SECRET_MATERIAL_KEYS \<or> contains_secret_material (snd kv)) d"
| "contains_secret_material (PList xs) \<longleftrightarrow> list_ex contains_secret_material xs"
| "contains_secret_material _ \<longleftrightarrow> False"

definition WEIBO_OAUTH_CALIBRATION_RESULT_KEYS :: "string list" where
  "WEIBO_OAUTH_CALIBRATION_RESULT_KEYS = [''identity'', ''calibration_scope'', ''requires_manual_identity_review'', ''account_status_target'', ''oauth_capabilities'']"

definition weibo_uid :: "string \<Rightarrow> bool" where
  "weibo_uid s \<longleftrightarrow> 1 \<le> length s \<and> length s \<le> 20 \<and> list_all (\<lambda>c. digit_of c \<noteq> None) s \<and> list_ex (\<lambda>c. c \<noteq> CHR ''0'') s"

text \<open>The uid and the capabilities of an accepted envelope.\<close>

definition validate_weibo_oauth_calibration_envelope :: "pydict \<Rightarrow> (plan_error, string \<times> pydict) result" where
  "validate_weibo_oauth_calibration_envelope d =
     (if \<not> keys_are d WEIBO_OAUTH_CALIBRATION_RESULT_KEYS \<or> contains_secret_material (PDict d) then Inl mismatch
      else case dget d ''identity'' of
        PDict i \<Rightarrow>
          (case dget i ''uid'' of
            PStr uid \<Rightarrow>
              if keys_are i [''verified'', ''method'', ''uid''] \<and> dget i ''verified'' = PBool True \<and> dget i ''method'' = PStr ''weibo_account_get_uid''
                \<and> weibo_uid uid \<and> dget d ''calibration_scope'' = PStr ''oauth_identity_and_capabilities''
                \<and> dget d ''requires_manual_identity_review'' = PBool False \<and> dget d ''account_status_target'' = PStr ''ready''
              then (case dget d ''oauth_capabilities'' of PDict c \<Rightarrow> Inr (uid, c) | _ \<Rightarrow> Inl mismatch)
              else Inl (Code ''weibo_oauth_identity_verification_required'')
          | _ \<Rightarrow> Inl (Code ''weibo_oauth_identity_verification_required''))
      | _ \<Rightarrow> Inl (Code ''weibo_oauth_identity_verification_required''))"

section \<open>The caller's address\<close>

definition validate_weibo_rip :: "weibo_env \<Rightarrow> string \<Rightarrow> bool \<Rightarrow> (plan_error, string) result" where
  "validate_weibo_rip W raw required =
     (if raw = [] then if required then Inl (Code ''weibo_rip_required'') else Inr []
      else if \<not> required then Inl (Code ''weibo_rip_not_applicable'')
      else if raw \<noteq> strip raw then Inl (Code ''weibo_rip_invalid'')
      else case wx_ip W raw of None \<Rightarrow> Inl (Code ''weibo_rip_invalid'')
        | Some (canonical, global) \<Rightarrow>
            if \<not> global then Inl (Code ''weibo_rip_not_public'')
            else if canonical \<noteq> raw then Inl (Code ''weibo_rip_invalid'') else Inr canonical)"

definition decrypt_weibo_rip :: "weibo_env \<Rightarrow> pyval \<Rightarrow> bool \<Rightarrow> (plan_error, string) result" where
  "decrypt_weibo_rip W v required =
     (let raw = (case v of PStr s \<Rightarrow> s | _ \<Rightarrow> []) in
      if raw = [] then if required then Inl (Code ''weibo_rip_encrypted_required'') else Inr []
      else if \<not> required then Inl (Code ''weibo_rip_encrypted_not_applicable'')
      else if raw \<noteq> strip raw \<or> 256 < length raw then Inl (Code ''weibo_rip_encrypted_invalid'')
      else case wx_decrypt W raw of None \<Rightarrow> Inl (Code ''weibo_rip_decryption_failed'') | Some plain \<Rightarrow> validate_weibo_rip W plain True)"

definition weibo_rip_hmac :: "weibo_env \<Rightarrow> string \<Rightarrow> (plan_error, string) result" where
  "weibo_rip_hmac W raw = (if raw = [] then Inr [] else rbind (validate_weibo_rip W raw True) (\<lambda>ip.
     case wx_hmac W ip of Some h \<Rightarrow> Inr h | None \<Rightarrow> Inl (Code ''weibo_rip_hmac_key_invalid'')))"


definition WEIBO_RIP_ACTIONS :: "string list" where "WEIBO_RIP_ACTIONS = [''followed'', ''commented'', ''reposted'']"

definition weibo_rip_required :: "string list \<Rightarrow> (plan_error, bool) result" where
  "weibo_rip_required actions =
     (if \<not> set actions \<subseteq> set WEIBO_ACTION_ORDER then Inl (Code ''weibo_oauth_action_contract_invalid'')
      else Inr (list_ex (\<lambda>a. a \<in> set WEIBO_RIP_ACTIONS) actions))"

section \<open>The evidence of a run\<close>

definition weibo_real_run_precondition :: "plan_env \<Rightarrow> pydict \<Rightarrow> string option" where
  "weibo_real_run_precondition E task =
     (if msg_token E task ''execution_evidence_id'' = [] then Some ''weibo_oauth_capability_evidence_required'' else None)"

definition weibo_calibration_checks :: "plan_env \<Rightarrow> pydict \<Rightarrow> (plan_error, bool) result list" where
  "weibo_calibration_checks E row = [lower_is E row ''oauth_calibration_platform'' ''weibo'', lower_is E row ''oauth_calibration_status'' ''succeeded'',
     int_is row ''oauth_calibration_fresh'' 1]"

text \<open>The id of the calibration and the revision of the account it is bound to.\<close>

definition weibo_calibration_binding :: "plan_env \<Rightarrow> pydict \<Rightarrow> pydict \<Rightarrow> int \<Rightarrow> (plan_error, string \<times> int) result" where
  "weibo_calibration_binding E task row account_id =
     (let evidence_id = msg_token E task ''execution_evidence_id'' in
      if evidence_id = [] \<or> evidence_id \<noteq> msg_token E row ''task_execution_evidence_id'' \<or> evidence_id \<noteq> msg_token E row ''oauth_calibration_id''
      then Inl (Code ''weibo_oauth_calibration_binding_invalid'')
      else (case (py_int (dget row ''oauth_calibration_account_id''), py_int (dget row ''account_execution_revision''),
            py_int (dget task ''execution_revision'')) of
        (Inr account, Inr revision, Inr message_revision) \<Rightarrow>
          rbind (all_checks (Inr (account = account_id \<and> 0 < revision \<and> message_revision = revision) # weibo_calibration_checks E row)) (\<lambda>ok.
          if \<not> ok then Inl (Code ''weibo_oauth_capability_evidence_stale'')
          else rbind (int_is row ''account_credential_present'' 1) (\<lambda>present.
            if \<not> present then Inl (Code ''weibo_oauth_credential_required'') else Inr (evidence_id, revision)))
      | _ \<Rightarrow> Inl (Code ''weibo_oauth_execution_revision_mismatch'')))"

definition weibo_config :: "int \<Rightarrow> pydict \<Rightarrow> string \<Rightarrow> pydict" where
  "weibo_config revision requirements rip_hash = [(''execution_path_id'', PStr ''weibo_oauth_v1''), (''execution_revision'', PInt revision),
     (''runtime_capability_requirements'', PDict requirements), (''weibo_rip_hash'', PStr rip_hash)]"

text \<open>The target and the configuration of the task are the ones the row and the address give.\<close>

definition weibo_task_binding :: "plan_env \<Rightarrow> weibo_env \<Rightarrow> pydict \<Rightarrow> pydict \<Rightarrow> validated_plan \<Rightarrow> int \<Rightarrow> (plan_error, unit) result" where
  "weibo_task_binding E W task row execution revision =
     rbind (uncaught (weibo_rip_required (vp_required_actions execution))) (\<lambda>required.
     rbind (decrypt_weibo_rip W (dget task ''weibo_rip_encrypted'') required) (\<lambda>rip.
     rbind (uncaught (compute_target_hash E (msg_token E row ''lottery_canonical_url''))) (\<lambda>target_hash.
     rbind (uncaught (weibo_rip_hmac W rip)) (\<lambda>rip_hash.
     let config_hash = compute_config_hash E (weibo_config revision (vp_runtime_capability_requirements execution) rip_hash) in
     if msg_token E task ''target_hash'' \<noteq> target_hash \<or> msg_token E row ''task_target_hash'' \<noteq> target_hash
       \<or> msg_token E task ''config_hash'' \<noteq> config_hash \<or> msg_token E row ''task_config_hash'' \<noteq> config_hash
     then Inl (Code ''weibo_oauth_task_binding_invalid'') else Inr ()))))"

definition validate_weibo_real_run_evidence :: "plan_env \<Rightarrow> weibo_env \<Rightarrow> evidence_validator" where
  "validate_weibo_real_run_evidence E W task row account_id lottery_id platform plan execution =
     (if vp_execution_path_id plan \<noteq> ''weibo_oauth_v1'' \<or> vp_execution_path_id execution \<noteq> ''weibo_oauth_v1''
      then Inl (Code ''weibo_execution_path_not_supported'')
      else if ''weibo_rip'' \<in> set (map fst task) then Inl (Code ''weibo_rip_plaintext_forbidden'')
      else rbind (weibo_calibration_binding E task row account_id) (\<lambda>(evidence_id, revision).
        rbind (weibo_task_binding E W task row execution revision) (\<lambda>_.
        rbind (json_object E (dget row ''oauth_calibration_result'') ''weibo_oauth_capability_evidence_required'') (\<lambda>stored.
        rbind (validate_weibo_oauth_calibration_envelope stored) (\<lambda>(uid, capabilities).
        rmap (\<lambda>granted. \<lparr>eb_evidence_id = evidence_id, eb_execution_revision = revision, eb_oauth_capabilities = Some granted,
            eb_account_identity = Some uid\<rparr>)
          (validate_weibo_oauth_capability_attestation W (PDict capabilities) evidence_id account_id revision
            (vp_runtime_capability_requirements execution) (wx_now W)))))))"

section \<open>What an attestation allows\<close>

lemma requirements_met_iff:
  "requirements_met grants client rs = Inr () \<longleftrightarrow> list_all (\<lambda>(a, r). a \<in> set WEIBO_ACTION_ORDER \<and> is_dict r \<and> py_eq r (PDict (weibo_capability a))
     \<and> action_granted grants a \<and> (a = ''followed'' \<longrightarrow> client = PStr ''weibo'')) rs"
  by (induction rs) (auto split: if_splits)

lemma attestation_headD:
  assumes "attestation_head d calibration account revision = Inr u"
  shows "dget d ''account_id'' = PInt account" "dget d ''execution_revision'' = PInt revision" "0 < revision" "dget d ''app_review_status'' = PStr ''approved''"
    "dget d ''identity_verified'' = PBool True"
  using assms by (auto simp: attestation_head_def rbind_eq_Inr split: if_splits)

lemma attestation_timesD:
  assumes "attestation_times W d now = Inr u"
  obtains verified attested where "utc_timestamp W (dget d ''verified_at'') ''weibo_oauth_capability_evidence_time_invalid'' = Inr verified"
    "utc_timestamp W (dget d ''attested_at'') ''weibo_oauth_attested_at_invalid'' = Inr attested" "attested \<le> verified" "verified \<le> now"
    "now - attested \<le> MAX_EVIDENCE_AGE"
  using assms by (auto simp: attestation_times_def rbind_eq_Inr not_less split: if_splits)

lemma attestation_grantsD:
  assumes "attestation_grants d requirements = Inr u"
  obtains required grants where "dget requirements ''actions'' = PDict required" "dget d ''actions'' = PDict grants" "list_all grant_well_formed grants"
    "requirements_met grants (dget d ''client_type'') required = Inr ()"
  using assms by (auto simp: attestation_grants_def split: if_splits pyval.splits)

lemma validate_attestationD:
  assumes "validate_weibo_oauth_capability_attestation W (PDict c) calibration account revision requirements now = Inr d"
  shows "d = c" "attestation_head d calibration account revision = Inr ()" "attestation_times W d now = Inr ()" "attestation_grants d requirements = Inr ()"
  using assms by (auto simp: validate_weibo_oauth_capability_attestation_def rbind_eq_Inr rmap_eq_Inr split: if_splits)

lemma envelope_capabilities:
  assumes "validate_weibo_oauth_calibration_envelope d = Inr (uid, c)"
  shows "dget d ''oauth_capabilities'' = PDict c" "\<not> contains_secret_material (PDict d)"
  using assms by (auto simp: validate_weibo_oauth_calibration_envelope_def split: if_splits pyval.splits)

lemma secret_free_part: "\<not> contains_secret_material (PDict d) \<Longrightarrow> \<not> contains_secret_material (dget d k)"
  by (induction d) (auto simp: dget_def split: if_splits)

lemma granted_required:
  assumes "requirements_met grants client required = Inr ()" "list_all grant_well_formed grants"
  shows "list_all (\<lambda>(a, r). action_granted grants a \<and> py_eq r (PDict (weibo_capability a)) \<and> (a = ''followed'' \<longrightarrow> client = PStr ''weibo'')) required"
  using assms by (auto simp: requirements_met_iff list_all_iff)

text \<open>
  C15. A Weibo run rests on a fresh attestation of exactly what it does. Evidence that the module accepts is the
  calibration the message names, for the account and its current revision; the capabilities it hands on hold no secret
  material, were verified for an approved application, attested before the verification and at most twenty-four hours before the check; every action the plan of
  this execution requires is granted with the endpoint and permission of the contract, and following only for a Weibo client.
\<close>

theorem weibo_evidence_is_attested:
  assumes "validate_weibo_real_run_evidence E W task row account lottery platform plan execution = Inr b"
  shows "eb_evidence_id b = msg_token E task ''execution_evidence_id'' \<and> eb_evidence_id b = msg_token E row ''oauth_calibration_id''
    \<and> number_is row ''oauth_calibration_account_id'' account \<and> number_is row ''account_execution_revision'' (eb_execution_revision b)
    \<and> (\<exists>c verified attested required grants. eb_oauth_capabilities b = Some c \<and> \<not> contains_secret_material (PDict c)
      \<and> dget c ''account_id'' = PInt account \<and> dget c ''execution_revision'' = PInt (eb_execution_revision b) \<and> dget c ''app_review_status'' = PStr ''approved''
      \<and> utc_timestamp W (dget c ''verified_at'') ''weibo_oauth_capability_evidence_time_invalid'' = Inr verified
      \<and> utc_timestamp W (dget c ''attested_at'') ''weibo_oauth_attested_at_invalid'' = Inr attested
      \<and> attested \<le> verified \<and> verified \<le> wx_now W \<and> wx_now W - attested \<le> MAX_EVIDENCE_AGE
      \<and> dget (vp_runtime_capability_requirements execution) ''actions'' = PDict required \<and> dget c ''actions'' = PDict grants
      \<and> list_all (\<lambda>(a, r). action_granted grants a \<and> py_eq r (PDict (weibo_capability a))
          \<and> (a = ''followed'' \<longrightarrow> dget c ''client_type'' = PStr ''weibo'')) required)"
proof -
  obtain eid revision stored uid c d where bind: "weibo_calibration_binding E task row account = Inr (eid, revision)"
    and env: "validate_weibo_oauth_calibration_envelope stored = Inr (uid, c)"
    and att: "validate_weibo_oauth_capability_attestation W (PDict c) eid account revision (vp_runtime_capability_requirements execution) (wx_now W) = Inr d"
    and b: "b = \<lparr>eb_evidence_id = eid, eb_execution_revision = revision, eb_oauth_capabilities = Some d, eb_account_identity = Some uid\<rparr>"
    using assms unfolding validate_weibo_real_run_evidence_def
    by (auto simp: rbind_eq_Inr rmap_eq_Inr split: if_splits)
  have ids: "eid = msg_token E task ''execution_evidence_id''" "eid = msg_token E row ''oauth_calibration_id''"
    "number_is row ''oauth_calibration_account_id'' account" "number_is row ''account_execution_revision'' revision"
    using bind unfolding weibo_calibration_binding_def Let_def
    by (auto simp: rbind_eq_Inr number_is_def split: if_splits sum.splits)
  note v = validate_attestationD [OF att]
  obtain verified attested where t: "utc_timestamp W (dget d ''verified_at'') ''weibo_oauth_capability_evidence_time_invalid'' = Inr verified"
    "utc_timestamp W (dget d ''attested_at'') ''weibo_oauth_attested_at_invalid'' = Inr attested" "attested \<le> verified" "verified \<le> wx_now W"
    "wx_now W - attested \<le> MAX_EVIDENCE_AGE"
    using v(3) by (rule attestation_timesD)
  obtain required grants where g: "dget (vp_runtime_capability_requirements execution) ''actions'' = PDict required" "dget d ''actions'' = PDict grants"
    "list_all grant_well_formed grants" "requirements_met grants (dget d ''client_type'') required = Inr ()"
    using v(4) by (rule attestation_grantsD)
  have "\<not> contains_secret_material (PDict d)"
    using secret_free_part [OF envelope_capabilities(2) [OF env], of "''oauth_capabilities''"] envelope_capabilities(1) [OF env] v(1) by simp
  then show ?thesis unfolding b evidence_binding.simps
    using ids t g granted_required [OF g(4,3)] attestation_headD [OF v(2)] by blast
qed

section \<open>What the worker builds\<close>







text \<open>
  A clock whose text of a time is the number of microseconds with \<open>Z\<close>, an operator who grants everything, and the
  calibration of a run that likes.
\<close>

definition demo_weibo_env :: weibo_env where
  "demo_weibo_env = \<lparr>wx_time = (\<lambda>s. parse_int (takeWhile (\<lambda>c. c \<noteq> CHR ''+'') s)), wx_iso = (\<lambda>t. int_str t @ ''Z''), wx_ip = (\<lambda>s. Some (s, True)),
     wx_decrypt = Some, wx_hmac = (\<lambda>_. Some demo_digest), wx_now = 10\<rparr>"




definition demo_grants :: pydict where
  "demo_grants = map (\<lambda>a. (a, PBool True)) WEIBO_ACTION_ORDER"


definition demo_attestation :: pydict where
  "demo_attestation = [(''contract_version'', PInt 1), (''calibration_id'', PStr (demo_uuid (CHR ''3''))), (''account_id'', PInt 3), (''execution_revision'', PInt 1),
     (''credential_kind'', PStr ''weibo_oauth''), (''identity_verified'', PBool True), (''app_review_status'', PStr ''approved''),
     (''client_type'', PStr ''weibo''), (''verified_at'', PStr ''6Z''), (''evidence_source'', PStr ''operator_attested_app_capabilities''),
     (''attested_by'', PStr ''op''), (''attested_at'', PStr ''4Z''), (''actions'', PDict (map (\<lambda>a. (a, PDict (attested_action demo_grants a))) WEIBO_ACTION_ORDER))]"



definition demo_calibration :: pydict where
  "demo_calibration = [(''identity'', PDict [(''verified'', PBool True), (''method'', PStr ''weibo_account_get_uid''), (''uid'', PStr ''42'')]),
     (''calibration_scope'', PStr ''oauth_identity_and_capabilities''), (''requires_manual_identity_review'', PBool False),
     (''account_status_target'', PStr ''ready''), (''oauth_capabilities'', PDict demo_attestation)]"

definition demo_oauth_task :: pydict where
  "demo_oauth_task = [(''execution_evidence_id'', PStr (demo_uuid (CHR ''3''))), (''execution_revision'', PStr ''1''), (''target_hash'', PStr demo_digest),
     (''config_hash'', PStr demo_digest)]"

definition demo_oauth_row :: pydict where
  "demo_oauth_row = [(''task_execution_evidence_id'', PStr (demo_uuid (CHR ''3''))), (''oauth_calibration_id'', PStr (demo_uuid (CHR ''3''))),
     (''oauth_calibration_account_id'', PInt 3), (''account_execution_revision'', PInt 1), (''oauth_calibration_platform'', PStr ''weibo''),
     (''oauth_calibration_status'', PStr ''succeeded''), (''oauth_calibration_fresh'', PInt 1), (''account_credential_present'', PInt 1),
     (''lottery_canonical_url'', PStr ''u''), (''task_target_hash'', PStr demo_digest), (''task_config_hash'', PStr demo_digest),
     (''oauth_calibration_result'', PDict demo_calibration)]"

definition demo_oauth_plan :: validated_plan where
  "demo_oauth_plan = demo_validated\<lparr>vp_execution_path_id := ''weibo_oauth_v1'', vp_required_actions := [''liked''],
     vp_runtime_capability_requirements := weibo_runtime_capability_requirements [''liked''] ''weibo_oauth_v1''\<rparr>"

lemma demo_oauth_bound:
  "weibo_calibration_binding demo_plan_env demo_oauth_task demo_oauth_row 3 = Inr (demo_uuid (CHR ''3''), 1)"
  "weibo_task_binding demo_plan_env demo_weibo_env demo_oauth_task demo_oauth_row demo_oauth_plan 1 = Inr ()"
proof -
  show "weibo_calibration_binding demo_plan_env demo_oauth_task demo_oauth_row 3 = Inr (demo_uuid (CHR ''3''), 1)" by code_simp
  have s: "strip demo_digest = demo_digest" "strip ''u'' = ''u''" by code_simp+
  have r: "weibo_rip_required [''liked''] = Inr False" by code_simp
  have a: "vp_required_actions demo_oauth_plan = [''liked'']" by (simp add: demo_oauth_plan_def)
  show "weibo_task_binding demo_plan_env demo_weibo_env demo_oauth_task demo_oauth_row demo_oauth_plan 1 = Inr ()"
    unfolding weibo_task_binding_def a r
    by (simp add: uncaught_def demo_oauth_task_def demo_oauth_row_def decrypt_weibo_rip_def compute_target_hash_def weibo_rip_hmac_def
        compute_config_hash_def msg_token_def msg_text_PStr s)
qed

lemma demo_oauth_evidence:
  "validate_weibo_real_run_evidence demo_plan_env demo_weibo_env demo_oauth_task demo_oauth_row 3 5 ''weibo'' demo_oauth_plan demo_oauth_plan
     = Inr \<lparr>eb_evidence_id = demo_uuid (CHR ''3''), eb_execution_revision = 1, eb_oauth_capabilities = Some demo_attestation, eb_account_identity = Some ''42''\<rparr>"
proof -
  have e: "validate_weibo_oauth_calibration_envelope demo_calibration = Inr (''42'', demo_attestation)" by code_simp
  have v: "validate_weibo_oauth_capability_attestation demo_weibo_env (PDict demo_attestation) (demo_uuid (CHR ''3'')) 3 1
      (vp_runtime_capability_requirements demo_oauth_plan) (wx_now demo_weibo_env) = Inr demo_attestation" by code_simp
  have p: "vp_execution_path_id demo_oauth_plan = ''weibo_oauth_v1''" by (simp add: demo_oauth_plan_def)
  have d: "json_object demo_plan_env (dget demo_oauth_row ''oauth_calibration_result'') c = Inr demo_calibration" for c
    by (simp add: demo_oauth_row_def json_object_def)
  have n: "''weibo_rip'' \<notin> set (map fst demo_oauth_task)" by (simp add: demo_oauth_task_def)
  show ?thesis using n unfolding validate_weibo_real_run_evidence_def demo_oauth_bound d by (simp add: p demo_oauth_bound e v)
qed

theorem weibo_evidence_is_attested_witness:
  "\<exists>required grants. dget (vp_runtime_capability_requirements demo_oauth_plan) ''actions'' = PDict required \<and> dget demo_attestation ''actions'' = PDict grants
    \<and> list_all (\<lambda>(a, r). action_granted grants a) required \<and> \<not> contains_secret_material (PDict demo_attestation)"
  using weibo_evidence_is_attested [OF demo_oauth_evidence] by (auto simp: list_all_iff)

end
