(* ===== verification/BilibiliEvidence.thy ===== *)
theory BilibiliEvidence
  imports PlatformEvidence
begin

text \<open>
  The evidence of a Bilibili real run: a probe and a shadow run that each observed the dynamic with read-only
  requests (\<open>worker/app/bilibili/preflight.py\<close>, \<open>runtime.py\<close> and \<open>_validate_bilibili_execution_evidence\<close> of the module).
\<close>

section \<open>The dynamic a lottery is about\<close>

text \<open>What \<open>urllib.parse.urlparse\<close> gives for a text; None where it or its port or host raises \<open>ValueError\<close>.\<close>

record parsed_url =
  pu_scheme :: string
  pu_hostname :: "string option"
  pu_username :: "string option"
  pu_password :: "string option"
  pu_port :: "int option"
  pu_path :: string
  pu_query :: string
  pu_fragment :: string

definition ascii_digits :: "nat \<Rightarrow> nat \<Rightarrow> string \<Rightarrow> bool" where
  "ascii_digits lo hi s \<longleftrightarrow> lo \<le> length s \<and> length s \<le> hi \<and> list_all (\<lambda>c. digit_of c \<noteq> None) s"

definition path_parts :: "string \<Rightarrow> string list" where
  "path_parts s = filter (\<lambda>p. p \<noteq> []) (split_on (CHR ''/'') s)"

definition strip_dots :: "string \<Rightarrow> string" where
  "strip_dots s = rev (dropWhile (\<lambda>c. c = CHR ''.'') (rev s))"

definition dynamic_number :: "string \<Rightarrow> string option" where
  "dynamic_number s = (if ascii_digits 1 20 s then Some s else None)"

definition canonical_dynamic_id :: "parsed_url \<Rightarrow> string option" where
  "canonical_dynamic_id u =
     (if lower (pu_scheme u) = ''canonical'' \<and> pu_hostname u = Some ''bilibili'' \<and> pu_username u = None \<and> pu_password u = None
        \<and> pu_port u = None \<and> pu_query u = [] \<and> pu_fragment u = []
      then (case path_parts (pu_path u) of
          [kind, i] \<Rightarrow> if kind = ''dynamic'' then dynamic_number (if starts_with i ''opus_'' then drop (length ''opus_'') i else i) else None
        | _ \<Rightarrow> None)
      else None)"

definition web_dynamic_id :: "parsed_url \<Rightarrow> string option" where
  "web_dynamic_id u =
     (if lower (pu_scheme u) \<noteq> ''https'' \<or> pu_username u \<noteq> None \<or> pu_password u \<noteq> None \<or> (pu_port u \<noteq> None \<and> pu_port u \<noteq> Some 443) then None
      else let host = lower (strip_dots (case pu_hostname u of Some h \<Rightarrow> h | None \<Rightarrow> [])) in
        (case path_parts (pu_path u) of
          [i] \<Rightarrow> if host = ''t.bilibili.com'' then dynamic_number i else None
        | [kind, i] \<Rightarrow> if host \<in> {''t.bilibili.com'', ''bilibili.com'', ''www.bilibili.com''} \<and> kind = ''opus'' then dynamic_number i else None
        | _ \<Rightarrow> None))"

fun extract_bilibili_dynamic_id :: "(string \<Rightarrow> parsed_url option) \<Rightarrow> string list \<Rightarrow> string option" where
  "extract_bilibili_dynamic_id urlparse [] = None"
| "extract_bilibili_dynamic_id urlparse (v # vs) =
     (let raw = strip v in
      if raw = [] then extract_bilibili_dynamic_id urlparse vs
      else if ascii_digits 10 20 raw then Some raw
      else case urlparse raw of None \<Rightarrow> extract_bilibili_dynamic_id urlparse vs
        | Some u \<Rightarrow> (case (canonical_dynamic_id u, web_dynamic_id u) of
            (Some i, _) \<Rightarrow> Some i
          | (None, Some i) \<Rightarrow> Some i
          | (None, None) \<Rightarrow> extract_bilibili_dynamic_id urlparse vs))"

section \<open>The observation\<close>

definition OBSERVATION_FIELDS :: "string list" where
  "OBSERVATION_FIELDS = [''version'', ''probe_kind'', ''execution_path_id'', ''preflight_contract_version'', ''execution_revision'', ''config_hash'',
     ''side_effects'', ''account_authenticated'', ''api_preflight_complete'', ''requested_dynamic_id'', ''observed_dynamic_id'', ''target_type'',
     ''target_uid'', ''author_handle'', ''follow_target_handle'', ''target_identity'', ''comment_rid_str'', ''comment_type'', ''required_actions'',
     ''api_actions'', ''capability_checks'']"

definition DPMS_TO_API_ACTION :: "(string \<times> string) list" where
  "DPMS_TO_API_ACTION = [(''followed'', ''follow''), (''liked'', ''like''), (''commented'', ''comment''), (''reposted'', ''repost'')]"

definition dpms_phases_to_api_actions :: "string list \<Rightarrow> (string, string list) result" where
  "dpms_phases_to_api_actions ps =
     (let actions = map (\<lambda>p. the (map_of DPMS_TO_API_ACTION p)) (filter (\<lambda>p. map_of DPMS_TO_API_ACTION p \<noteq> None) ps) in
      if actions = [] then Inl ''bilibili_action_plan_has_no_supported_actions'' else Inr actions)"

definition ACTION_ORDER :: "string list" where
  "ACTION_ORDER = [''followed'', ''liked'', ''commented'', ''favorited'', ''reposted'']"

text \<open>\<open>type(v) is int and v > 0\<close>.\<close>

fun positive_int :: "pyval \<Rightarrow> bool" where
  "positive_int (PInt n) \<longleftrightarrow> 0 < n"
| "positive_int _ \<longleftrightarrow> False"

definition preflight_contract :: "pydict \<Rightarrow> string list \<Rightarrow> bool" where
  "preflight_contract obs actions \<longleftrightarrow>
     dget obs ''version'' = PInt 1 \<and> dget obs ''probe_kind'' = PStr ''bilibili_api_readonly_v2'' \<and> dget obs ''execution_path_id'' = PStr ''bilibili_api_v2''
     \<and> dget obs ''preflight_contract_version'' = PInt 1
     \<and> flags_are obs [(''side_effects'', False), (''account_authenticated'', True), (''api_preflight_complete'', True)]
     \<and> py_eq (dget obs ''required_actions'') (str_list actions)
     \<and> py_eq (dget obs ''api_actions'') (str_list (map (\<lambda>a. the (map_of DPMS_TO_API_ACTION a)) actions))
     \<and> checks_cover (dget obs ''capability_checks'') actions"

text \<open>The identity of the author and the target: its handle when everything agrees.\<close>

definition target_identity_handle :: "pydict \<Rightarrow> string \<Rightarrow> string option" where
  "target_identity_handle obs dynamic_id = (case dget obs ''target_identity'' of
     PDict t \<Rightarrow> (case dget t ''author_handle'' of
       PStr h \<Rightarrow> if keys_are t [''verified'', ''dynamic_id'', ''author_uid'', ''author_handle''] \<and> dget t ''verified'' = PBool True
           \<and> dget t ''dynamic_id'' = PStr dynamic_id \<and> positive_int (dget t ''author_uid'') \<and> dget t ''author_uid'' = dget obs ''target_uid''
           \<and> HANDLE_PATTERN h \<and> dget obs ''author_handle'' = PStr h
         then Some h else None
     | _ \<Rightarrow> None)
   | _ \<Rightarrow> None)"

definition follow_observed :: "pydict \<Rightarrow> string list \<Rightarrow> string \<Rightarrow> string option \<Rightarrow> (plan_error, unit) result" where
  "follow_observed obs actions handle expected =
     (if ''followed'' \<in> set actions
      then if given expected \<and> expected = Some handle \<and> dget obs ''follow_target_handle'' = PStr handle then Inr ()
        else Inl (Code ''bilibili_api_preflight_follow_target_mismatch'')
      else if \<not> hashable (dget obs ''follow_target_handle'') then Inl Uncaught
      else if dget obs ''follow_target_handle'' \<in> {PStr [], PNone} then Inr ()
      else Inl (Code ''bilibili_api_preflight_unexpected_follow_target''))"

definition validate_preflight_observation ::
  "plan_env \<Rightarrow> pydict \<Rightarrow> string \<Rightarrow> string list \<Rightarrow> int \<Rightarrow> string \<Rightarrow> string option \<Rightarrow> (plan_error, string) result" where
  "validate_preflight_observation E obs expected_dynamic_id actions revision config_hash follow =
     (if \<not> keys_are obs OBSERVATION_FIELDS then Inl (Code ''bilibili_api_preflight_observation_schema_invalid'')
      else if actions = [] \<or> actions \<noteq> filter (\<lambda>a. a \<in> set actions) ACTION_ORDER
        \<or> \<not> list_all (\<lambda>a. map_of DPMS_TO_API_ACTION a \<noteq> None) actions
      then Inl (Code ''bilibili_api_preflight_expected_actions_invalid'')
      else if \<not> preflight_contract obs actions then Inl (Code ''bilibili_api_preflight_observation_invalid'')
      else let dynamic_id = strip expected_dynamic_id in
      if dynamic_id = [] \<or> dget obs ''requested_dynamic_id'' \<noteq> PStr dynamic_id \<or> dget obs ''observed_dynamic_id'' \<noteq> PStr dynamic_id
      then Inl (Code ''bilibili_api_preflight_target_mismatch'')
      else if \<not> positive_int (dget obs ''execution_revision'') then Inl (Code ''bilibili_api_preflight_execution_revision_invalid'')
      else if dget obs ''execution_revision'' \<noteq> PInt revision then Inl (Code ''bilibili_api_preflight_execution_revision_mismatch'')
      else if compute_bilibili_api_config_hash E (PInt revision) \<noteq> Inr config_hash \<or> dget obs ''config_hash'' \<noteq> PStr config_hash
      then Inl (Code ''bilibili_api_preflight_config_hash_mismatch'')
      else if \<not> positive_int (dget obs ''target_type'') then Inl (Code ''bilibili_api_preflight_target_invalid'')
      else if dget obs ''target_type'' = PInt 1 then Inl (Code ''bilibili_forwarded_origin_requires_review'')
      else if \<not> positive_int (dget obs ''target_uid'') then Inl (Code ''bilibili_api_preflight_target_invalid'')
      else case target_identity_handle obs dynamic_id of None \<Rightarrow> Inl (Code ''bilibili_api_preflight_target_identity_invalid'')
        | Some handle \<Rightarrow> rbind (follow_observed obs actions handle follow) (\<lambda>_.
            if ''commented'' \<in> set actions \<and> (msg_token E obs ''comment_rid_str'' = [] \<or> \<not> positive_int (dget obs ''comment_type''))
            then Inl (Code ''bilibili_api_preflight_comment_target_invalid'') else Inr (json_hash E (PDict obs))))"


section \<open>The evidence of a run\<close>

definition bilibili_row_binding ::
  "plan_env \<Rightarrow> pydict \<Rightarrow> pydict \<Rightarrow> int \<Rightarrow> int \<Rightarrow> string \<Rightarrow> validated_plan \<Rightarrow> string \<Rightarrow> string \<Rightarrow> bool" where
  "bilibili_row_binding E task row account_id lottery_id platform plan target_hash config_hash \<longleftrightarrow>
     (let evidence_id = msg_token E row ''evidence_id'' in
      evidence_id \<noteq> [] \<and> msg_token E task ''execution_evidence_id'' = evidence_id \<and> msg_token E row ''task_execution_evidence_id'' = evidence_id
      \<and> number_is row ''evidence_account_id'' account_id \<and> number_is row ''evidence_lottery_id'' lottery_id
      \<and> number_is row ''evidence_rule_snapshot_id'' (vp_rule_snapshot_id plan)
      \<and> lower (msg_token E row ''evidence_platform'') = platform \<and> msg_token E row ''evidence_execution_path_id'' = vp_execution_path_id plan
      \<and> msg_token E row ''evidence_rule_hash'' = vp_rule_hash plan \<and> msg_token E row ''evidence_action_plan_hash'' = vp_plan_hash plan
      \<and> msg_token E row ''evidence_target_hash'' = target_hash \<and> msg_token E task ''target_hash'' = target_hash
      \<and> msg_token E row ''task_target_hash'' = target_hash \<and> msg_token E row ''evidence_config_hash'' = config_hash
      \<and> msg_token E task ''config_hash'' = config_hash \<and> msg_token E row ''task_config_hash'' = config_hash)"

definition bilibili_pair_checks :: "plan_env \<Rightarrow> pydict \<Rightarrow> string \<Rightarrow> string \<Rightarrow> (plan_error, bool) result list" where
  "bilibili_pair_checks E row target_hash config_hash =
     [Inr (msg_token E row ''evidence_probe_id'' \<noteq> []), Inr (msg_token E row ''evidence_shadow_task_id'' \<noteq> []),
      lower_is E row ''evidence_probe_status'' ''succeeded'', Inr (dget row ''evidence_probe_finished_at'' \<noteq> PNone),
      lower_is E row ''evidence_shadow_status'' ''succeeded'', lower_is E row ''evidence_shadow_task_mode'' ''shadow_run'',
      token_is E row ''evidence_shadow_target_hash'' target_hash, token_is E row ''evidence_shadow_config_hash'' config_hash,
      int_is row ''evidence_probe_fresh'' 1, int_is row ''evidence_shadow_fresh'' 1, int_is row ''evidence_probe_lease_released'' 1,
      int_is row ''evidence_shadow_lease_released'' 1, int_is row ''evidence_probe_lease_covers_observation'' 1,
      int_is row ''evidence_shadow_lease_covers_observation'' 1]"

text \<open>
  The four numbers of the row are read first: one that is no number is a binding error, a revision that is
  not positive is its own. The hashes are those of the row's target and of the revision.
\<close>

definition bilibili_expected_hashes :: "plan_env \<Rightarrow> pydict \<Rightarrow> (plan_error, int \<times> string \<times> string) result" where
  "bilibili_expected_hashes E row =
     (case (py_int (dget row ''evidence_account_id''), py_int (dget row ''evidence_lottery_id''), py_int (dget row ''evidence_rule_snapshot_id''),
         py_int (dget row ''account_execution_revision'')) of
       (Inr _, Inr _, Inr _, Inr revision) \<Rightarrow>
         if revision \<le> 0 then Inl (Code ''account_execution_revision_invalid'')
         else rbind (uncaught (compute_target_hash E (msg_token E row ''lottery_canonical_url''))) (\<lambda>target_hash.
           rbind (uncaught (compute_bilibili_api_config_hash E (PInt revision))) (\<lambda>config_hash. Inr (revision, target_hash, config_hash)))
     | _ \<Rightarrow> Inl (Code ''execution_evidence_binding_invalid''))"

definition API_PREFLIGHT_KIND :: string where "API_PREFLIGHT_KIND = ''bilibili_api_readonly_v2''"

text \<open>An observation of the row: not JSON of an object is its own error, any other error of the validation is one code.\<close>

definition bilibili_observation ::
  "plan_env \<Rightarrow> pydict \<Rightarrow> string \<Rightarrow> (pydict \<Rightarrow> (plan_error, string) result) \<Rightarrow> (plan_error, string) result" where
  "bilibili_observation E row which validate =
     rbind (json_object E (dget row (''evidence_'' @ which @ ''_observation'')) (which @ ''_observation_invalid'')) (\<lambda>obs.
       case validate obs of Inl _ \<Rightarrow> Inl (Code ''probe_shadow_observation_invalid'') | Inr h \<Rightarrow> Inr h)"

definition bilibili_integrity :: "plan_env \<Rightarrow> pydict \<Rightarrow> string \<Rightarrow> string \<Rightarrow> bool" where
  "bilibili_integrity E row probe_hash shadow_hash \<longleftrightarrow>
     real_observation E row ''probe'' msg_token = ((API_PREFLIGHT_KIND, probe_hash), (API_PREFLIGHT_KIND, probe_hash))
     \<and> real_observation E row ''shadow'' msg_token = ((API_PREFLIGHT_KIND, shadow_hash), (API_PREFLIGHT_KIND, shadow_hash))"

definition bilibili_follow :: "plan_env \<Rightarrow> validated_plan \<Rightarrow> string option" where
  "bilibili_follow E plan = (if ''followed'' \<in> set (vp_required_actions plan) then Some (follow_target_handle E plan) else None)"

text \<open>The plan of this execution is not read: the evidence is that of the full plan.\<close>

definition validate_bilibili_real_run_evidence :: "plan_env \<Rightarrow> (string \<Rightarrow> parsed_url option) \<Rightarrow> evidence_validator" where
  "validate_bilibili_real_run_evidence E urlparse task row account_id lottery_id platform plan execution =
     (if vp_execution_path_id plan \<noteq> ''bilibili_api_v2'' then Inl (Code ''execution_path_not_supported'')
      else rbind (bilibili_expected_hashes E row) (\<lambda>(revision, target_hash, config_hash).
        if \<not> bilibili_row_binding E task row account_id lottery_id platform plan target_hash config_hash
        then Inl (Code ''execution_evidence_binding_invalid'')
        else rbind (all_checks (evidence_active_checks E row)) (\<lambda>active.
        if \<not> active then Inl (Code ''execution_evidence_not_active'')
        else rbind (all_checks (bilibili_pair_checks E row target_hash config_hash)) (\<lambda>complete.
        if \<not> complete then Inl (Code ''probe_shadow_evidence_incomplete'')
        else case extract_bilibili_dynamic_id urlparse [msg_token E row ''lottery_raw_url'', msg_token E row ''lottery_canonical_url''] of
          None \<Rightarrow> Inl (Code ''probe_shadow_observation_invalid'')
        | Some dynamic_id \<Rightarrow>
          let validate = (\<lambda>obs. validate_preflight_observation E obs dynamic_id (vp_required_actions plan) revision config_hash (bilibili_follow E plan)) in
          rbind (bilibili_observation E row ''probe'' validate) (\<lambda>probe_hash.
          rbind (bilibili_observation E row ''shadow'' validate) (\<lambda>shadow_hash.
          if \<not> bilibili_integrity E row probe_hash shadow_hash then Inl (Code ''probe_shadow_observation_integrity_invalid'')
          else Inr \<lparr>eb_evidence_id = msg_token E row ''evidence_id'', eb_execution_revision = revision,
            eb_oauth_capabilities = None, eb_account_identity = None\<rparr>))))))"

end
