(* ===== verification/WorkerGate.thy ===== *)
theory WorkerGate
  imports WeiboEvidence BilibiliEvidence AccountLease
begin

text \<open>
  The gate the worker passes before it starts a real task and before every external mutation
  (\<open>worker/app/real_run_gate.py\<close>), with the registry of the worker's platform modules. The database is what its
  three queries return; the evidence columns a module loads extend the row. Any exception but the gate's own becomes
  \<open>gate_database_error\<close>.
\<close>

section \<open>The registry\<close>

record worker_env =
  we_plan :: plan_env
  we_weibo :: weibo_env
  we_urlparse :: "string \<Rightarrow> parsed_url option"
  we_unavailable :: "string list"

definition exact_path :: "string \<Rightarrow> string \<Rightarrow> worker_path" where
  "exact_path pid credential = \<lparr>wp_path_id = pid, wp_credential_kind = credential, wp_supported_modes = [''dry_run'', ''shadow_run'', ''real_run''],
     wp_shadow_executor = None, wp_real_executor = None, wp_shadow_handler = None, wp_real_handler = None, wp_shadow_claim_validator = None,
     wp_selector_binding_modes = [], wp_unsupported_mode_error = None, wp_dry_run_requires_executable_plan = False,
     wp_confirmed_intent_settlement = True, wp_execution_evidence_kind = Some ''exact_execution_evidence''\<rparr>"

text \<open>The manual path of a platform: its shadow run only watches the page in a browser.\<close>

definition manual_path :: "string \<Rightarrow> string \<Rightarrow> worker_path" where
  "manual_path pid err = \<lparr>wp_path_id = pid, wp_credential_kind = ''browser_session'', wp_supported_modes = [''shadow_run''],
     wp_shadow_executor = Some ''browser_observation'', wp_real_executor = None, wp_shadow_handler = Some ''execute_browser_observation_shadow'',
     wp_real_handler = None, wp_shadow_claim_validator = None, wp_selector_binding_modes = [''shadow_run''], wp_unsupported_mode_error = Some err,
     wp_dry_run_requires_executable_plan = False, wp_confirmed_intent_settlement = False, wp_execution_evidence_kind = None\<rparr>"

definition BILIBILI :: "worker_env \<Rightarrow> worker_module" where
  "BILIBILI X = \<lparr>wm_platform_id = ''bilibili'', wm_action_order = BILIBILI_ACTION_ORDER, wm_real_target_kinds = [''dynamic''],
     wm_paths = [(exact_path ''bilibili_api_v2'' ''browser_session'')\<lparr>wp_shadow_executor := Some ''bilibili_api'', wp_real_executor := Some ''bilibili_api'',
       wp_shadow_handler := Some ''execute_bilibili_api_shadow'', wp_real_handler := Some ''execute_bilibili_api_real'',
       wp_shadow_claim_validator := Some ''validate_bilibili_api_shadow_claim''\<rparr>],
     wm_default_path = ''bilibili_api_v2'', wm_invalid_path_error = Some ''bilibili_execution_path_not_supported'', wm_capability_block_reason = None,
     wm_probe_done_phases = [], wm_intent_mapper = Some dpms_phases_to_api_actions, wm_mode_overrides = [], wm_block_reason = None,
     wm_precondition = None, wm_evidence = Some (validate_bilibili_real_run_evidence (we_plan X) (we_urlparse X))\<rparr>"

definition WEIBO :: "worker_env \<Rightarrow> worker_module" where
  "WEIBO X = \<lparr>wm_platform_id = ''weibo'', wm_action_order = WEIBO_ACTION_ORDER, wm_real_target_kinds = [''status''],
     wm_paths = [manual_path ''weibo_manual_v1'' ''weibo_manual_shadow_only'',
       (exact_path ''weibo_oauth_v1'' ''weibo_oauth'')\<lparr>wp_supported_modes := [''dry_run'', ''real_run''], wp_real_executor := Some ''weibo_oauth'',
         wp_real_handler := Some ''execute_weibo_oauth_real'', wp_unsupported_mode_error := Some ''weibo_oauth_shadow_not_supported'',
         wp_dry_run_requires_executable_plan := True, wp_execution_evidence_kind := Some ''oauth_account_calibration''\<rparr>],
     wm_default_path = ''weibo_oauth_v1'', wm_invalid_path_error = Some ''weibo_execution_path_invalid'',
     wm_capability_block_reason = Some ''weibo_selector_observation_only'', wm_probe_done_phases = [], wm_intent_mapper = None,
     wm_mode_overrides = [(''shadow_run'', ''weibo_manual_v1'')], wm_block_reason = None,
     wm_precondition = Some (weibo_real_run_precondition (we_plan X)), wm_evidence = Some (validate_weibo_real_run_evidence (we_plan X) (we_weibo X))\<rparr>"

definition DOUYIN :: "worker_env \<Rightarrow> worker_module" where
  "DOUYIN X = \<lparr>wm_platform_id = ''douyin'', wm_action_order = DOUYIN_ACTION_ORDER, wm_real_target_kinds = [''video'', ''note''],
     wm_paths = [manual_path ''douyin_manual_v1'' ''douyin_manual_shadow_only'',
       (exact_path ''douyin_device_v1'' ''device_agent'')\<lparr>wp_shadow_executor := Some ''douyin_device_observation'',
         wp_real_executor := Some ''douyin_device'', wp_shadow_handler := Some ''execute_douyin_device_shadow'',
         wp_real_handler := Some ''execute_douyin_device_real'', wp_selector_binding_modes := [''shadow_run'', ''real_run''],
         wp_dry_run_requires_executable_plan := True\<rparr>],
     wm_default_path = ''douyin_device_v1'', wm_invalid_path_error = Some ''douyin_execution_path_invalid'',
     wm_capability_block_reason = Some ''douyin_device_agent_calibration_required'', wm_probe_done_phases = [], wm_intent_mapper = None,
     wm_mode_overrides = [], wm_block_reason = None, wm_precondition = Some (douyin_real_run_precondition (we_plan X)),
     wm_evidence = Some (validate_douyin_real_run_evidence (we_plan X))\<rparr>"

definition XIAOHONGSHU :: "worker_env \<Rightarrow> worker_module" where
  "XIAOHONGSHU X = \<lparr>wm_platform_id = ''xiaohongshu'', wm_action_order = XIAOHONGSHU_ACTION_ORDER, wm_real_target_kinds = [''note''],
     wm_paths = [manual_path ''xiaohongshu_manual_v1'' ''xiaohongshu_manual_shadow_only'',
       (exact_path ''xiaohongshu_browser_v1'' ''browser_session'')\<lparr>wp_shadow_executor := Some ''browser_observation'',
         wp_real_executor := Some ''xiaohongshu_browser'', wp_shadow_handler := Some ''execute_xiaohongshu_browser_shadow_task'',
         wp_real_handler := Some ''execute_xiaohongshu_browser_real_task'', wp_selector_binding_modes := [''shadow_run'', ''real_run''],
         wp_dry_run_requires_executable_plan := True\<rparr>],
     wm_default_path = ''xiaohongshu_browser_v1'', wm_invalid_path_error = Some ''xiaohongshu_execution_path_not_supported'',
     wm_capability_block_reason = Some ''xiaohongshu_no_official_interaction_api'', wm_probe_done_phases = [], wm_intent_mapper = None,
     wm_mode_overrides = [], wm_block_reason = None, wm_precondition = Some (xiaohongshu_real_run_precondition (we_plan X)),
     wm_evidence = Some (validate_xiaohongshu_real_run_evidence (we_plan X))\<rparr>"

definition worker_modules :: "worker_env \<Rightarrow> worker_module list" where
  "worker_modules X = [BILIBILI X, XIAOHONGSHU X, WEIBO X, DOUYIN X]"

datatype lookup_error = Unsupported_platform | Module_unavailable

definition get_worker_module :: "worker_env \<Rightarrow> string \<Rightarrow> (lookup_error, worker_module) result" where
  "get_worker_module X platform =
     (let key = norm_str platform in
      case find (\<lambda>m. wm_platform_id m = key) (worker_modules X) of
        None \<Rightarrow> Inl Unsupported_platform
      | Some m \<Rightarrow> if key \<in> set (we_unavailable X) then Inl Module_unavailable else Inr m)"

definition platform_real_run_block_reason :: "worker_env \<Rightarrow> string \<Rightarrow> string option" where
  "platform_real_run_block_reason X platform = (case get_worker_module X platform of
     Inl Module_unavailable \<Rightarrow> Some ''platform_module_unavailable''
   | Inl Unsupported_platform \<Rightarrow> Some ''unsupported_real_run_platform''
   | Inr m \<Rightarrow> wm_block_reason m)"


section \<open>The gate's own reading of values\<close>

definition TRUTHY :: "string list" where "TRUTHY = [''1'', ''true'', ''yes'', ''on'']"

definition parse_bool :: "plan_env \<Rightarrow> pyval \<Rightarrow> bool" where
  "parse_bool E v \<longleftrightarrow> norm_token (px_repr E) v \<in> set TRUTHY"

definition row_int :: "pydict \<Rightarrow> string \<Rightarrow> string \<Rightarrow> (plan_error, int) result" where
  "row_int row k code = (case py_int (dget row k) of Inl _ \<Rightarrow> Inl (Code code) | Inr n \<Rightarrow> Inr n)"

definition exact_text :: "pyval \<Rightarrow> string \<Rightarrow> (plan_error, string) result" where
  "exact_text v code = (case v of PStr s \<Rightarrow> if s = [] then Inl (Code code) else Inr s | _ \<Rightarrow> Inl (Code code))"

definition lower_token :: "plan_env \<Rightarrow> pydict \<Rightarrow> string \<Rightarrow> string" where
  "lower_token E d k = lower (msg_token E d k)"

text \<open>A condition that blocks with a code, and a list of comparisons one of which may raise.\<close>

definition demand :: "bool \<Rightarrow> string \<Rightarrow> (plan_error, unit) result" where
  "demand ok code = (if ok then Inr () else Inl (Code code))"

definition demand_all :: "(plan_error, bool) result list \<Rightarrow> string \<Rightarrow> (plan_error, unit) result" where
  "demand_all cs code = rbind (all_checks cs) (\<lambda>ok. demand ok code)"

definition prefixed :: "string \<Rightarrow> (plan_error, 'a) result \<Rightarrow> (plan_error, 'a) result" where
  "prefixed pfx r = (case r of Inl (Code c) \<Rightarrow> Inl (Code (pfx @ c)) | _ \<Rightarrow> r)"

definition required_task_binding :: "plan_env \<Rightarrow> pydict \<Rightarrow> (plan_error, string \<times> int \<times> int \<times> string) result" where
  "required_task_binding E task =
     rbind (row_int task ''account_id'' ''invalid_task_binding'') (\<lambda>account.
     rbind (row_int task ''lottery_id'' ''invalid_task_binding'') (\<lambda>lottery.
     let task_id = msg_token E task ''task_id''; platform = lower_token E task ''platform'' in
     rbind (demand (task_id \<noteq> [] \<and> platform \<noteq> [] \<and> 0 < account \<and> 0 < lottery) ''invalid_task_binding'') (\<lambda>_.
       Inr (task_id, account, lottery, platform))))"

section \<open>Target, plan and rule of the task\<close>

definition target_agrees :: "plan_env \<Rightarrow> pydict \<Rightarrow> pydict \<Rightarrow> bool" where
  "target_agrees E task row \<longleftrightarrow> msg_token E task ''raw_url'' \<noteq> [] \<and> msg_token E task ''canonical_url'' \<noteq> []
     \<and> msg_token E task ''raw_url'' = msg_token E row ''lottery_raw_url'' \<and> msg_token E task ''canonical_url'' = msg_token E row ''lottery_canonical_url''"

definition plan_binding_agrees :: "plan_env \<Rightarrow> pydict \<Rightarrow> pydict \<Rightarrow> validated_plan \<Rightarrow> bool" where
  "plan_binding_agrees E task row v \<longleftrightarrow>
     number_is task ''rule_snapshot_id'' (vp_rule_snapshot_id v) \<and> number_is row ''task_rule_snapshot_id'' (vp_rule_snapshot_id v)
     \<and> number_is row ''lottery_rule_snapshot_id'' (vp_rule_snapshot_id v)
     \<and> msg_token E task ''rule_hash'' = vp_rule_hash v \<and> msg_token E row ''task_rule_hash'' = vp_rule_hash v
     \<and> msg_token E row ''lottery_rule_hash'' = vp_rule_hash v \<and> msg_token E row ''snapshot_rule_hash'' = vp_rule_hash v
     \<and> msg_token E task ''action_plan_hash'' = vp_plan_hash v \<and> msg_token E row ''task_action_plan_hash'' = vp_plan_hash v
     \<and> msg_token E row ''lottery_action_plan_hash'' = vp_plan_hash v
     \<and> msg_token E task ''execution_path_id'' = vp_execution_path_id v \<and> msg_token E row ''task_execution_path_id'' = vp_execution_path_id v"

definition snapshot_numbers :: "pydict \<Rightarrow> pydict \<Rightarrow> (plan_error, unit) result" where
  "snapshot_numbers task row =
     rbind (row_int task ''rule_snapshot_id'' ''rule_snapshot_binding_invalid'') (\<lambda>_.
     rbind (row_int row ''task_rule_snapshot_id'' ''rule_snapshot_binding_invalid'') (\<lambda>_.
     rbind (row_int row ''lottery_rule_snapshot_id'' ''rule_snapshot_binding_invalid'') (\<lambda>_. Inr ())))"

definition rule_snapshot_checked :: "plan_env \<Rightarrow> pydict \<Rightarrow> pydict \<Rightarrow> validated_plan \<Rightarrow> (plan_error, unit) result" where
  "rule_snapshot_checked E task row v =
     rbind (exact_text (dget row ''lottery_rule_text'') ''lottery_rule_text_invalid'') (\<lambda>lottery_text.
     rbind (exact_text (dget row ''snapshot_rule_text'') ''snapshot_rule_text_invalid'') (\<lambda>snapshot_text.
     rbind (demand (lottery_text = snapshot_text \<and> compute_rule_hash E (PStr lottery_text) = Inr (vp_rule_hash v)
         \<and> lower_token E row ''rule_snapshot_platform'' = lower_token E task ''platform'') ''rule_snapshot_binding_invalid'') (\<lambda>_.
       demand_all [int_is row ''rule_snapshot_complete'' 1, Inr (msg_token E row ''rule_snapshot_attested_by'' \<noteq> []),
         Inr (dget row ''rule_snapshot_attested_at'' \<noteq> PNone)] ''rule_snapshot_not_attested'')))"

definition validate_target_and_action_plan :: "plan_env \<Rightarrow> pydict \<Rightarrow> pydict \<Rightarrow> (plan_error, validated_plan) result" where
  "validate_target_and_action_plan E task row =
     rbind (demand (target_agrees E task row) ''task_target_mismatch'') (\<lambda>_.
     rbind (prefixed ''lottery_'' (worker_validate_action_plan_v2 E (dget row ''lottery_action_plan'') True True)) (\<lambda>current.
     rbind (prefixed ''task_'' (worker_validate_action_plan_v2 E (dget task ''action_plan'') True True)) (\<lambda>v.
     rbind (demand (vp_plan_hash current = vp_plan_hash v \<and> same_canonical E (vp_plan current) (vp_plan v)) ''action_plan_mismatch'') (\<lambda>_.
     rbind (snapshot_numbers task row) (\<lambda>_.
     rbind (demand (plan_binding_agrees E task row v) ''action_plan_binding_mismatch'') (\<lambda>_.
     rbind (demand (lower_token E (vp_plan v) ''platform'' = lower_token E task ''platform'') ''action_plan_platform_mismatch'') (\<lambda>_.
     rmap (\<lambda>_. v) (rule_snapshot_checked E task row v))))))))"

section \<open>The account lease\<close>

definition lease_numbers :: "pydict \<Rightarrow> pydict \<Rightarrow> (plan_error, int \<times> int \<times> int \<times> int) result" where
  "lease_numbers task row =
     rbind (row_int task ''account_lease_generation'' ''account_lease_binding_invalid'') (\<lambda>message_generation.
     rbind (row_int row ''task_account_lease_generation'' ''account_lease_binding_invalid'') (\<lambda>task_generation.
     rbind (row_int row ''lease_generation'' ''account_lease_binding_invalid'') (\<lambda>lease_generation.
     rbind (row_int row ''lease_account_id'' ''account_lease_binding_invalid'') (\<lambda>lease_account.
       Inr (message_generation, task_generation, lease_generation, lease_account)))))"

definition lease_checks :: "plan_env \<Rightarrow> pydict \<Rightarrow> pydict \<Rightarrow> string \<Rightarrow> int \<Rightarrow> string \<Rightarrow> int \<times> int \<times> int \<times> int \<Rightarrow> (plan_error, bool) result list" where
  "lease_checks E task row task_id account_id operation ns = (case ns of (message_generation, task_generation, lease_generation, lease_account) \<Rightarrow>
     let lease_id = msg_token E row ''lease_id'' in
     [Inr (lease_id \<noteq> []), token_is E task ''account_lease_id'' lease_id, token_is E row ''task_account_lease_id'' lease_id,
      Inr (0 < message_generation \<and> message_generation = task_generation \<and> task_generation = lease_generation \<and> lease_account = account_id),
      lower_is E row ''lease_operation_kind'' operation, token_is E row ''lease_owner_id'' task_id, token_is E row ''lease_task_id'' task_id,
      int_is row ''lease_active'' 1, int_is row ''lease_unreleased'' 1, int_is row ''lease_latest_generation'' 1,
      int_is row ''active_account_lease_count'' 1])"

definition validate_account_lease :: "plan_env \<Rightarrow> pydict \<Rightarrow> pydict \<Rightarrow> string \<Rightarrow> int \<Rightarrow> string \<Rightarrow> (plan_error, string \<times> int) result" where
  "validate_account_lease E task row task_id account_id kind =
     rbind (lease_numbers task row) (\<lambda>ns.
     case lease_operation_kind_for_execution_intent kind of Inl _ \<Rightarrow> Inl (Code ''account_lease_binding_invalid'')
     | Inr operation \<Rightarrow>
       rbind (demand_all (lease_checks E task row task_id account_id operation ns) ''account_lease_binding_invalid'') (\<lambda>_.
       rbind (demand_all [int_is row ''task_reconciliation_required'' 0] ''task_reconciliation_required'') (\<lambda>_.
         Inr (msg_token E row ''lease_id'', fst (snd (snd ns))))))"

section \<open>State, decision and breakers\<close>

text \<open>The three statuses, the worker that holds the task and the lock of the lottery: the stage the task is in.\<close>

definition task_stage :: "plan_env \<Rightarrow> pydict \<Rightarrow> string \<Rightarrow> pyval \<Rightarrow> (plan_error, string) result" where
  "task_stage E row task_id worker_id =
     (let statuses = (lower_token E row ''task_status'', lower_token E row ''lottery_status'', lower_token E row ''account_status'');
          holder = msg_token E row ''task_worker_id''; worker = strip (py_str (px_repr E) (py_or worker_id (PStr [])))
      in rbind (if statuses = (''queued'', ''claimed'', ''ready'')
          then rmap (\<lambda>_. ''preclaim'') (demand (holder = []) ''task_worker_mismatch'')
          else if statuses = (''running'', ''running'', ''executing'')
          then rbind (demand (worker \<noteq> []) ''worker_identity_missing'') (\<lambda>_.
            rmap (\<lambda>_. ''running'') (demand (holder = worker) ''task_worker_mismatch''))
          else Inl (Code ''task_state_mismatch'')) (\<lambda>stage.
        rmap (\<lambda>_. stage) (demand (msg_token E row ''lottery_execution_lock'' = task_id) ''lottery_lock_mismatch'')))"

definition policy_decision :: "plan_env \<Rightarrow> pydict \<Rightarrow> int \<Rightarrow> (plan_error, string \<times> int) result" where
  "policy_decision E row lottery_id =
     (let decision_id = msg_token E row ''decision_id'' in
      rbind (demand (decision_id \<noteq> [] \<and> msg_token E row ''policy_decision_id'' = decision_id) ''policy_decision_missing'') (\<lambda>_.
      rbind (demand (msg_text E row ''decision_policy_key'' = ''real_run_gate'') ''policy_decision_invalid'') (\<lambda>_.
      rbind (demand (lower_token E row ''decision_outcome'' = ''allow'') ''policy_decision_denied'') (\<lambda>_.
      rbind (demand (lower_token E row ''decision_subject_type'' = ''lottery'') ''policy_subject_mismatch'') (\<lambda>_.
      rbind (demand (msg_token E row ''decision_subject_id'' = int_str lottery_id) ''policy_subject_mismatch'') (\<lambda>_.
      rbind (row_int row ''task_policy_version'' ''policy_version_missing'') (\<lambda>version.
      rbind (row_int row ''decision_policy_version'' ''policy_version_missing'') (\<lambda>decided.
      rbind (demand (version = decided) ''policy_version_mismatch'') (\<lambda>_.
      rbind (demand (parse_bool E (dget row ''policy_active'')) ''policy_inactive'') (\<lambda>_.
        Inr (decision_id, version)))))))))))"

definition platform_scope :: "string \<Rightarrow> string" where
  "platform_scope platform = ''platform:'' @ platform"

fun breaker_scan :: "plan_env \<Rightarrow> string \<Rightarrow> bool \<Rightarrow> pydict list \<Rightarrow> (plan_error, unit) result" where
  "breaker_scan E pscope found [] = demand found ''global_breaker_missing''"
| "breaker_scan E pscope found (r # rs) =
     (let scope = msg_token E r ''scope'' in
      if scope \<in> {''global'', pscope} \<and> lower_token E r ''status'' \<noteq> ''closed'' then Inl (Code ''circuit_breaker_blocked'')
      else breaker_scan E pscope (found \<or> scope = ''global'') rs)"

text \<open>\<open>SELECT ... WHERE scope IN (global, platform)\<close>.\<close>

definition select_breakers :: "string \<Rightarrow> pydict list \<Rightarrow> pydict list" where
  "select_breakers pscope rows = filter (\<lambda>r. dget r ''scope'' \<in> {PStr ''global'', PStr pscope}) rows"

section \<open>The gate\<close>

text \<open>
  What the gate reads: the process variable, the setting's row, the row of the task query, the platform's
  evidence columns and the breaker table. \<open>Inl ()\<close> is a query that raised.
\<close>

record gate_db =
  gd_process_enabled :: pyval
  gd_setting :: "(unit, pydict option) result"
  gd_task :: "string \<Rightarrow> (unit, pydict option) result"
  gd_evidence :: "string \<Rightarrow> string \<Rightarrow> (unit, pydict) result"
  gd_breakers :: "(unit, pydict list) result"

record gate_snapshot =
  gs_task_id :: string
  gs_account_id :: int
  gs_lottery_id :: int
  gs_platform :: string
  gs_decision_id :: string
  gs_policy_version :: int
  gs_stage :: string
  gs_plan :: validated_plan
  gs_intent :: validated_task_intent
  gs_evidence :: evidence_binding
  gs_lease_id :: string
  gs_lease_generation :: int

definition queried :: "(unit, 'a) result \<Rightarrow> (plan_error, 'a) result" where
  "queried r = (case r of Inl _ \<Rightarrow> Inl Uncaught | Inr x \<Rightarrow> Inr x)"

definition real_run_switch :: "plan_env \<Rightarrow> gate_db \<Rightarrow> (plan_error, unit) result" where
  "real_run_switch E D = rbind (queried (gd_setting D)) (\<lambda>setting. case setting of None \<Rightarrow> Inl (Code ''runtime_setting_missing'')
     | Some s \<Rightarrow> if dget s ''setting_value'' = PNone then Inl (Code ''runtime_setting_missing'')
         else demand (parse_bool E (dget s ''setting_value'')) ''real_run_disabled'')"

definition gate_module :: "worker_env \<Rightarrow> pydict \<Rightarrow> string \<Rightarrow> (plan_error, worker_module) result" where
  "gate_module X task platform = (case get_worker_module X platform of
     Inl Module_unavailable \<Rightarrow> Inl (Code ''platform_module_unavailable'')
   | Inl Unsupported_platform \<Rightarrow> Inl (Code ''unsupported_real_run_platform'')
   | Inr m \<Rightarrow> (case real_run_precondition_code m task of
       Some c \<Rightarrow> if c = [] then Inr m else Inl (Code c)
     | None \<Rightarrow> Inr m))"

definition task_row :: "plan_env \<Rightarrow> gate_db \<Rightarrow> string \<Rightarrow> int \<Rightarrow> int \<Rightarrow> string \<Rightarrow> (plan_error, pydict) result" where
  "task_row E D task_id account_id lottery_id platform =
     rbind (queried (gd_task D task_id)) (\<lambda>found. case found of None \<Rightarrow> Inl (Code ''task_binding_missing'')
     | Some row \<Rightarrow>
       rbind (row_int row ''account_id'' ''task_binding_missing'') (\<lambda>row_account.
       rbind (row_int row ''lottery_id'' ''task_binding_missing'') (\<lambda>row_lottery.
       rbind (row_int row ''bound_account_id'' ''task_binding_missing'') (\<lambda>bound_account.
       rbind (row_int row ''bound_lottery_id'' ''task_binding_missing'') (\<lambda>bound_lottery.
       rbind (demand (msg_token E row ''task_id'' = task_id \<and> row_account = account_id \<and> bound_account = account_id
           \<and> row_lottery = lottery_id \<and> bound_lottery = lottery_id
           \<and> lower_token E row ''account_platform'' = platform \<and> lower_token E row ''lottery_platform'' = platform) ''task_binding_mismatch'') (\<lambda>_.
       rbind (demand (\<not> parse_bool E (dget row ''account_active_risk'')) ''recent_account_risk_event'') (\<lambda>_.
       rmap (\<lambda>_. row) (demand (lower_token E row ''task_mode'' = ''real_run'') ''task_not_real_run''))))))))"

definition gate_intent ::
  "worker_env \<Rightarrow> worker_module \<Rightarrow> pydict \<Rightarrow> pydict \<Rightarrow> string \<Rightarrow> int \<Rightarrow> int \<Rightarrow> string \<Rightarrow> validated_plan \<Rightarrow> (plan_error, validated_task_intent) result" where
  "gate_intent X m task row task_id account_id lottery_id platform plan =
     (case worker_evidence_kind_for (we_plan X) m (PDict (vp_plan plan)) of Inl _ \<Rightarrow> Inl Uncaught
      | Inr kind \<Rightarrow> (case validate_task_execution_intent (we_plan X) task row task_id account_id lottery_id platform plan (or_else kind []) of
          Inl (Ei c) \<Rightarrow> Inl (Code c) | Inl _ \<Rightarrow> Inl Uncaught | Inr i \<Rightarrow> Inr i))"

definition platform_evidence_checked ::
  "worker_module \<Rightarrow> gate_db \<Rightarrow> pydict \<Rightarrow> pydict \<Rightarrow> string \<Rightarrow> int \<Rightarrow> int \<Rightarrow> string \<Rightarrow> validated_plan \<Rightarrow> validated_plan \<Rightarrow> (plan_error, evidence_binding) result" where
  "platform_evidence_checked m D task row task_id account_id lottery_id platform plan execution =
     (if wm_evidence m = None then Inl (Code ''unsupported_real_run_platform'')
      else rbind (queried (gd_evidence D platform task_id)) (\<lambda>columns.
        validate_real_run_evidence m task (columns @ row) account_id lottery_id platform plan execution))"

definition breakers_closed :: "plan_env \<Rightarrow> gate_db \<Rightarrow> string \<Rightarrow> (plan_error, unit) result" where
  "breakers_closed E D platform = rbind (queried (gd_breakers D)) (\<lambda>rows.
     breaker_scan E (platform_scope platform) False (select_breakers (platform_scope platform) rows))"

definition guarded_gate :: "worker_env \<Rightarrow> gate_db \<Rightarrow> pydict \<Rightarrow> pyval \<Rightarrow> string \<times> int \<times> int \<times> string \<Rightarrow> (plan_error, gate_snapshot) result" where
  "guarded_gate X D task worker_id binding = (case binding of (task_id, account_id, lottery_id, platform) \<Rightarrow>
     let E = we_plan X in
     rbind (real_run_switch E D) (\<lambda>_.
     rbind (gate_module X task platform) (\<lambda>m.
     rbind (task_row E D task_id account_id lottery_id platform) (\<lambda>row.
     rbind (validate_target_and_action_plan E task row) (\<lambda>plan.
     rbind (gate_intent X m task row task_id account_id lottery_id platform plan) (\<lambda>intent.
     rbind (platform_evidence_checked m D task row task_id account_id lottery_id platform plan (vi_plan intent)) (\<lambda>evidence.
     rbind (validate_account_lease E task row task_id account_id (vi_kind intent)) (\<lambda>lease.
     rbind (task_stage E row task_id worker_id) (\<lambda>stage.
     rbind (policy_decision E row lottery_id) (\<lambda>decision.
     rbind (breakers_closed E D platform) (\<lambda>_.
       Inr \<lparr>gs_task_id = task_id, gs_account_id = account_id, gs_lottery_id = lottery_id, gs_platform = platform,
         gs_decision_id = fst decision, gs_policy_version = snd decision, gs_stage = stage, gs_plan = plan, gs_intent = intent,
         gs_evidence = evidence, gs_lease_id = fst lease, gs_lease_generation = snd lease\<rparr>)))))))))))"

text \<open>A blocked gate is a code.\<close>

definition enforce_real_run_gate :: "worker_env \<Rightarrow> gate_db \<Rightarrow> pydict \<Rightarrow> pyval \<Rightarrow> (string, gate_snapshot) result" where
  "enforce_real_run_gate X D task worker_id =
     (case rbind (required_task_binding (we_plan X) task) (\<lambda>binding.
         rbind (demand (parse_bool (we_plan X) (gd_process_enabled D)) ''process_real_run_disabled'') (\<lambda>_.
           guarded_gate X D task worker_id binding)) of
       Inl (Code c) \<Rightarrow> Inl c | Inl Uncaught \<Rightarrow> Inl ''gate_database_error'' | Inr s \<Rightarrow> Inr s)"

definition enforce_task_real_run_gate :: "worker_env \<Rightarrow> gate_db \<Rightarrow> pydict \<Rightarrow> pyval \<Rightarrow> bool \<Rightarrow> (string, gate_snapshot) result" where
  "enforce_task_real_run_gate X D task worker_id require_running =
     rbind (enforce_real_run_gate X D task worker_id) (\<lambda>s.
       if require_running \<and> gs_stage s \<noteq> ''running'' then Inl ''task_ownership_lost'' else Inr s)"

section \<open>An unknown outcome\<close>

definition upsert_breaker :: "string \<Rightarrow> string \<Rightarrow> pydict list \<Rightarrow> pydict list" where
  "upsert_breaker scope reason rows =
     (if \<exists>r \<in> set rows. dget r ''scope'' = PStr scope
      then map (\<lambda>r. if dget r ''scope'' = PStr scope then AList.update ''reason'' (PStr reason) (AList.update ''status'' (PStr ''open'') r) else r) rows
      else rows @ [[(''scope'', PStr scope), (''status'', PStr ''open''), (''reason'', PStr reason)]])"

text \<open>The breaker table afterwards; \<open>written\<close> says whether both statements succeeded.\<close>

definition open_unknown_outcome_breaker :: "string \<Rightarrow> string \<Rightarrow> bool \<Rightarrow> pydict list \<Rightarrow> (string, pydict list) result" where
  "open_unknown_outcome_breaker platform action written rows =
     (let p = lower (strip platform); a = take 64 (lower (strip (if action = [] then ''unknown'' else action))) in
      if p = [] then Inl ''unknown_outcome_platform_missing''
      else if \<not> written then Inl ''unknown_outcome_breaker_write_failed''
      else Inr (upsert_breaker (platform_scope p) (p @ ''_'' @ a @ ''_outcome_unknown'') rows))"

section \<open>The four modules\<close>

lemma module_ids [simp]:
  "wm_platform_id (BILIBILI X) = ''bilibili''" "wm_platform_id (WEIBO X) = ''weibo''" "wm_platform_id (DOUYIN X) = ''douyin''"
  "wm_platform_id (XIAOHONGSHU X) = ''xiaohongshu''"
  by (simp_all add: BILIBILI_def WEIBO_def DOUYIN_def XIAOHONGSHU_def)

lemma get_worker_module_eq:
  "get_worker_module X p = Inr m \<longleftrightarrow> norm_str p \<notin> set (we_unavailable X)
     \<and> (norm_str p = ''bilibili'' \<and> m = BILIBILI X \<or> norm_str p = ''weibo'' \<and> m = WEIBO X \<or> norm_str p = ''douyin'' \<and> m = DOUYIN X
        \<or> norm_str p = ''xiaohongshu'' \<and> m = XIAOHONGSHU X)"
  by (auto simp: get_worker_module_def worker_modules_def Let_def eq_commute [of "''bilibili''" "norm_str p"] eq_commute [of "''weibo''" "norm_str p"]
      eq_commute [of "''douyin''" "norm_str p"] eq_commute [of "''xiaohongshu''" "norm_str p"])

lemma norm_names: "norm_str ''bilibili'' = ''bilibili''" "norm_str ''weibo'' = ''weibo''" "norm_str ''douyin'' = ''douyin''"
  "norm_str ''xiaohongshu'' = ''xiaohongshu''" "norm_str ''dry_run'' = ''dry_run''" "norm_str ''shadow_run'' = ''shadow_run''" "norm_str ''real_run'' = ''real_run''"
  by code_simp+

text \<open>Every module and every path of the registry passes the checks of its constructor.\<close>

lemma modules_constructed:
  "m \<in> set (worker_modules X) \<Longrightarrow> module_post_init m = Inr () \<and> list_all (\<lambda>p. path_post_init p = Inr ()) (wm_paths m)"
proof -
  have ids: "strip ''bilibili_api_v2'' = ''bilibili_api_v2''" "strip ''weibo_manual_v1'' = ''weibo_manual_v1''" "strip ''weibo_oauth_v1'' = ''weibo_oauth_v1''"
    "strip ''douyin_manual_v1'' = ''douyin_manual_v1''" "strip ''douyin_device_v1'' = ''douyin_device_v1''" "strip ''xiaohongshu_manual_v1'' = ''xiaohongshu_manual_v1''"
    "strip ''xiaohongshu_browser_v1'' = ''xiaohongshu_browser_v1''" "strip ''browser_session'' = ''browser_session''" "strip ''weibo_oauth'' = ''weibo_oauth''"
    "strip ''device_agent'' = ''device_agent''" "strip ''bilibili_execution_path_not_supported'' = ''bilibili_execution_path_not_supported''"
    "strip ''weibo_execution_path_invalid'' = ''weibo_execution_path_invalid''" "strip ''douyin_execution_path_invalid'' = ''douyin_execution_path_invalid''"
    "strip ''xiaohongshu_execution_path_not_supported'' = ''xiaohongshu_execution_path_not_supported''"
    by code_simp+
  have "module_post_init m = Inr () \<and> list_all (\<lambda>p. path_post_init p = Inr ()) (wm_paths m)" if "m = BILIBILI X" for m
    unfolding that by (simp add: module_post_init_def path_post_init_def BILIBILI_def exact_path_def Let_def ids norm_names supports_real_run_def
        given_def REAL_RUN_EVIDENCE_KINDS_def BILIBILI_ACTION_ORDER_def)
  moreover have "module_post_init m = Inr () \<and> list_all (\<lambda>p. path_post_init p = Inr ()) (wm_paths m)" if "m = WEIBO X" for m
    unfolding that by (simp add: module_post_init_def path_post_init_def WEIBO_def exact_path_def manual_path_def Let_def ids norm_names supports_real_run_def
        given_def REAL_RUN_EVIDENCE_KINDS_def WEIBO_ACTION_ORDER_def)
  moreover have "module_post_init m = Inr () \<and> list_all (\<lambda>p. path_post_init p = Inr ()) (wm_paths m)" if "m = DOUYIN X" for m
    unfolding that by (simp add: module_post_init_def path_post_init_def DOUYIN_def exact_path_def manual_path_def Let_def ids norm_names supports_real_run_def
        given_def REAL_RUN_EVIDENCE_KINDS_def DOUYIN_ACTION_ORDER_def)
  moreover have "module_post_init m = Inr () \<and> list_all (\<lambda>p. path_post_init p = Inr ()) (wm_paths m)" if "m = XIAOHONGSHU X" for m
    unfolding that by (simp add: module_post_init_def path_post_init_def XIAOHONGSHU_def exact_path_def manual_path_def Let_def ids norm_names supports_real_run_def
        given_def REAL_RUN_EVIDENCE_KINDS_def XIAOHONGSHU_ACTION_ORDER_def)
  ultimately show "m \<in> set (worker_modules X) \<Longrightarrow> module_post_init m = Inr () \<and> list_all (\<lambda>p. path_post_init p = Inr ()) (wm_paths m)"
    by (auto simp: worker_modules_def)
qed

lemma first_failure_ok: "first_failure cs = Inr () \<longleftrightarrow> list_all (\<lambda>c. \<not> fst c) cs"
  by (induction cs rule: first_failure.induct) auto

lemma constructed_path:
  assumes "path_post_init p = Inr ()"
  shows "set (wp_supported_modes p) \<subseteq> {''dry_run'', ''shadow_run'', ''real_run''}"
    "''shadow_run'' \<in> set (wp_supported_modes p) \<Longrightarrow> given (wp_shadow_executor p) \<and> wp_shadow_handler p \<noteq> None"
    "''real_run'' \<in> set (wp_supported_modes p) \<Longrightarrow> given (wp_real_executor p) \<and> wp_real_handler p \<noteq> None
       \<and> wp_execution_evidence_kind p \<in> Some ` set REAL_RUN_EVIDENCE_KINDS"
proof -
  note F = assms [unfolded path_post_init_def Let_def first_failure_ok list.pred_inject fst_conv]
  have f1: "\<not> (set (wp_supported_modes p) = {} \<or> \<not> set (wp_supported_modes p) \<subseteq> {''dry_run'', ''shadow_run'', ''real_run''})" using F by - (elim conjE, assumption)
  have f2: "\<not> (''shadow_run'' \<in> set (wp_supported_modes p) \<and> \<not> given (wp_shadow_executor p))" using F by - (elim conjE, assumption)
  have f3: "\<not> (''real_run'' \<in> set (wp_supported_modes p) \<and> \<not> given (wp_real_executor p))" using F by - (elim conjE, assumption)
  have f4: "\<not> (''shadow_run'' \<in> set (wp_supported_modes p) \<and> wp_shadow_handler p = None)" using F by - (elim conjE, assumption)
  have f5: "\<not> (''real_run'' \<in> set (wp_supported_modes p) \<and> wp_real_handler p = None)" using F by - (elim conjE, assumption)
  have f6: "\<not> ((''real_run'' \<in> set (wp_supported_modes p)) \<noteq> (wp_execution_evidence_kind p \<in> Some ` set REAL_RUN_EVIDENCE_KINDS))" using F by - (elim conjE, assumption)
  show "set (wp_supported_modes p) \<subseteq> {''dry_run'', ''shadow_run'', ''real_run''}" using f1 by simp
  show "''shadow_run'' \<in> set (wp_supported_modes p) \<Longrightarrow> given (wp_shadow_executor p) \<and> wp_shadow_handler p \<noteq> None" using f2 f4 by simp
  show "''real_run'' \<in> set (wp_supported_modes p) \<Longrightarrow> given (wp_real_executor p) \<and> wp_real_handler p \<noteq> None
       \<and> wp_execution_evidence_kind p \<in> Some ` set REAL_RUN_EVIDENCE_KINDS" using f3 f5 f6 by simp
qed

lemma executor_exists:
  assumes "path_post_init p = Inr ()"
  shows "(\<exists>e. executor_for p mode = Inr e) \<longleftrightarrow> norm_str mode \<in> set (wp_supported_modes p)"
  using constructed_path [OF assms] by (auto simp: executor_for_def Let_def)

lemma find_path_in: "find_path m path = Inr q \<Longrightarrow> q \<in> set (wm_paths m) \<and> wp_path_id q = strip path"
  by (auto simp: find_path_def find_Some_iff split: option.splits)

lemma core_ids:
  "pf_id BILIBILI_PLATFORM = ''bilibili''" "pf_id WEIBO_PLATFORM = ''weibo''" "pf_id DOUYIN_PLATFORM = ''douyin''" "pf_id XIAOHONGSHU_PLATFORM = ''xiaohongshu''"
  by (simp_all add: BILIBILI_PLATFORM_def WEIBO_PLATFORM_def DOUYIN_PLATFORM_def XIAOHONGSHU_PLATFORM_def)

text \<open>
  C18. The core and the worker describe the same paths. For every platform, path and mode, the evidence the
  core's module asks for is the one the worker's module asks for, and the worker has an executor for the mode on the path exactly
  when the core allows the mode there.
\<close>

theorem core_and_worker_paths_agree:
  assumes "get_platform_module platform = Some c" "get_worker_module X platform = Inr m" "norm_str mode = mode"
  shows "execution_evidence_kind_for c path = (case find_path m path of Inr q \<Rightarrow> wp_execution_evidence_kind q | Inl _ \<Rightarrow> None)
    \<and> (list_ex (\<lambda>q. path_id q = strip path \<and> mode \<in> set (path_task_modes q)) (pf_paths c)
       \<longleftrightarrow> (\<exists>q e. find_path m path = Inr q \<and> executor_for q mode = Inr e))"
proof -
  consider "c = BILIBILI_PLATFORM \<and> m = BILIBILI X" | "c = WEIBO_PLATFORM \<and> m = WEIBO X" | "c = DOUYIN_PLATFORM \<and> m = DOUYIN X"
    | "c = XIAOHONGSHU_PLATFORM \<and> m = XIAOHONGSHU X"
  proof -
    have "norm_str platform = pf_id c" "c \<in> set PLATFORM_REGISTRY" using get_platform_moduleD [OF assms(1)] by (simp_all add: norm_str_def)
    moreover from this have "c = BILIBILI_PLATFORM \<or> c = WEIBO_PLATFORM \<or> c = DOUYIN_PLATFORM \<or> c = XIAOHONGSHU_PLATFORM" by (simp add: PLATFORM_REGISTRY_def)
    ultimately show thesis using assms(2) that core_ids unfolding get_worker_module_eq by (elim disjE; simp)
  qed
  moreover have "list_all (\<lambda>q. path_post_init q = Inr ()) (wm_paths m)"
    using modules_constructed [of m X] calculation by (auto simp: worker_modules_def)
  then have "(\<exists>e. executor_for q mode = Inr e) \<longleftrightarrow> mode \<in> set (wp_supported_modes q)" if "find_path m path = Inr q" for q
    using executor_exists [of q mode] find_path_in [OF that] assms(3) by (simp add: list_all_iff)
  then have ex: "(\<exists>q e. find_path m path = Inr q \<and> executor_for q mode = Inr e) \<longleftrightarrow> (\<exists>q. find_path m path = Inr q \<and> mode \<in> set (wp_supported_modes q))"
    by blast
  ultimately show ?thesis
  proof cases
    case 1
    then show ?thesis unfolding ex
      by (cases "strip path = ''bilibili_api_v2''") (simp_all add: execution_evidence_kind_for_def find_path_def BILIBILI_PLATFORM_def BILIBILI_def exact_path_def)
  next
    case 2
    then show ?thesis unfolding ex
      by (cases "strip path = ''weibo_oauth_v1''"; cases "strip path = ''weibo_manual_v1''")
        (simp_all add: execution_evidence_kind_for_def find_path_def WEIBO_PLATFORM_def WEIBO_def exact_path_def manual_path_def)
  next
    case 3
    then show ?thesis unfolding ex
      by (cases "strip path = ''douyin_device_v1''"; cases "strip path = ''douyin_manual_v1''")
        (simp_all add: execution_evidence_kind_for_def find_path_def DOUYIN_PLATFORM_def DOUYIN_def exact_path_def manual_path_def)
  next
    case 4
    then show ?thesis unfolding ex
      by (cases "strip path = ''xiaohongshu_browser_v1''"; cases "strip path = ''xiaohongshu_manual_v1''")
        (simp_all add: execution_evidence_kind_for_def find_path_def XIAOHONGSHU_PLATFORM_def XIAOHONGSHU_def exact_path_def manual_path_def)
  qed
qed

text \<open>
  C17. A task is routed to code that exists. A route the worker finds for a mode leads to a path of its module that
  supports the mode, which is one of the three; a shadow or real run has a handler there, and a real run the kind of evidence the gate will ask for.
\<close>

theorem routes_are_typed:
  assumes "get_worker_module X platform = Inr m" "route E m mode v = Inr (p, e)"
  shows "p \<in> set (wm_paths m) \<and> norm_str mode \<in> set (wp_supported_modes p) \<and> norm_str mode \<in> {''dry_run'', ''shadow_run'', ''real_run''}
    \<and> (norm_str mode \<noteq> ''dry_run'' \<longrightarrow> (\<exists>h. handler_for p mode = Inr h))
    \<and> (norm_str mode = ''real_run'' \<longrightarrow> wp_execution_evidence_kind p \<in> Some ` set REAL_RUN_EVIDENCE_KINDS)"
proof -
  have "m \<in> set (worker_modules X)" using assms(1) by (auto simp: get_worker_module_eq worker_modules_def)
  note built = modules_constructed [OF this]
  obtain i where i: "find_path m i = Inr p" and e: "executor_for p (norm_str mode) = Inr e"
    using assms(2) by (auto simp: route_def Let_def rbind_eq_Inr)
  have p: "p \<in> set (wm_paths m)" using find_path_in [OF i] by simp
  then have c: "path_post_init p = Inr ()" using built by (simp add: list_all_iff)
  have "norm_str (norm_str mode) \<in> set (wp_supported_modes p)" using executor_exists [OF c] e by blast
  then have s: "norm_str mode \<in> set (wp_supported_modes p)" by (simp add: norm_str_idem)
  have t: "norm_str mode \<in> {''dry_run'', ''shadow_run'', ''real_run''}" using s constructed_path(1) [OF c] by blast
  have "\<exists>h. handler_for p mode = Inr h" if "norm_str mode \<noteq> ''dry_run''"
    using that t s constructed_path(2,3) [OF c] e by (auto simp: handler_for_def Let_def)
  moreover have "wp_execution_evidence_kind p \<in> Some ` set REAL_RUN_EVIDENCE_KINDS" if "norm_str mode = ''real_run''"
    using constructed_path(3) [OF c] s unfolding that by simp
  ultimately show ?thesis using p s t by simp
qed

section \<open>Selectors of a queued message\<close>

lemma build_message_selectors: "\<exists>c t. dget (build_lottery_task_message E args) ''selector_config'' = PStr (c # t)"
  by (simp add: build_lottery_task_message_def Let_def split: pyval.splits)

lemma douyin_refuses_text_selectors:
  "\<exists>c t. dget task ''selector_config'' = PStr (c # t) \<Longrightarrow>
     \<exists>e. validate_douyin_real_run_evidence E task row a l p plan ex = Inl e"
  by (auto simp: validate_douyin_real_run_evidence_def device_task_binding_def task_selectors_def py_or_def
      normalize_douyin_device_public_config_def split: sum.splits)

section \<open>Reading the gate backwards\<close>

lemma demand_iff [simp]: "demand ok c = Inr u \<longleftrightarrow> ok"
  by (simp add: demand_def)

lemma demand_True [simp]: "demand True c = Inr ()"
  by (simp add: demand_def)

lemma demand_all_iff: "demand_all cs c = Inr u \<longleftrightarrow> (\<forall>x \<in> set cs. x = Inr True)"
  using all_checks_True [of cs] by (auto simp: demand_all_def rbind_eq_Inr)

lemma int_is_True: "int_is row k n = Inr True \<longleftrightarrow> py_int (py_or (dget row k) (PInt 0)) = Inr n"
  by (auto simp: int_is_def split: sum.splits)

lemma row_int_iff: "row_int row k c = Inr n \<longleftrightarrow> number_is row k n"
  by (auto simp: row_int_def number_is_def split: sum.splits)

lemma queried_iff [simp]: "queried r = Inr x \<longleftrightarrow> r = Inr x"
  by (auto simp: queried_def split: sum.splits)

lemma prefixed_iff [simp]: "prefixed p r = Inr x \<longleftrightarrow> r = Inr x"
  by (auto simp: prefixed_def split: sum.splits plan_error.splits)

lemma breaker_scan_iff:
  "breaker_scan E p found rs = Inr u \<longleftrightarrow> (found \<or> (\<exists>r \<in> set rs. msg_token E r ''scope'' = ''global''))
     \<and> (\<forall>r \<in> set rs. msg_token E r ''scope'' \<in> {''global'', p} \<longrightarrow> lower_token E r ''status'' = ''closed'')"
  by (induction rs arbitrary: found) (auto simp: Let_def)

lemma required_task_binding_iff:
  "required_task_binding E task = Inr (i, a, l, p) \<longleftrightarrow> i = msg_token E task ''task_id'' \<and> p = lower_token E task ''platform'' \<and> i \<noteq> [] \<and> p \<noteq> []
     \<and> number_is task ''account_id'' a \<and> number_is task ''lottery_id'' l \<and> 0 < a \<and> 0 < l"
  by (auto simp: required_task_binding_def rbind_eq_Inr row_int_iff Let_def)

lemma enforce_Inr:
  "enforce_real_run_gate X D task w = Inr s \<longleftrightarrow> parse_bool (we_plan X) (gd_process_enabled D)
     \<and> (\<exists>b. required_task_binding (we_plan X) task = Inr b \<and> guarded_gate X D task w b = Inr s)"
  by (auto simp: enforce_real_run_gate_def rbind_eq_Inr split: sum.splits plan_error.splits)

lemma guarded_gateD:
  assumes "guarded_gate X D task w (i, a, l, p) = Inr s"
  obtains u m row plan intent evidence lease stage decision u' where
    "real_run_switch (we_plan X) D = Inr u" "gate_module X task p = Inr m" "task_row (we_plan X) D i a l p = Inr row"
    "validate_target_and_action_plan (we_plan X) task row = Inr plan" "gate_intent X m task row i a l p plan = Inr intent"
    "platform_evidence_checked m D task row i a l p plan (vi_plan intent) = Inr evidence"
    "validate_account_lease (we_plan X) task row i a (vi_kind intent) = Inr lease" "task_stage (we_plan X) row i w = Inr stage"
    "policy_decision (we_plan X) row l = Inr decision" "breakers_closed (we_plan X) D p = Inr u'"
    "s = \<lparr>gs_task_id = i, gs_account_id = a, gs_lottery_id = l, gs_platform = p, gs_decision_id = fst decision, gs_policy_version = snd decision,
      gs_stage = stage, gs_plan = plan, gs_intent = intent, gs_evidence = evidence, gs_lease_id = fst lease, gs_lease_generation = snd lease\<rparr>"
  using assms unfolding guarded_gate_def prod.case Let_def rbind_eq_Inr sum.inject by blast

lemma task_row_iff:
  "task_row E D i a l p = Inr row \<longleftrightarrow> gd_task D i = Inr (Some row) \<and> number_is row ''account_id'' a \<and> number_is row ''bound_account_id'' a
     \<and> number_is row ''lottery_id'' l \<and> number_is row ''bound_lottery_id'' l \<and> msg_token E row ''task_id'' = i
     \<and> lower_token E row ''account_platform'' = p \<and> lower_token E row ''lottery_platform'' = p
     \<and> \<not> parse_bool E (dget row ''account_active_risk'') \<and> lower_token E row ''task_mode'' = ''real_run''"
  by (auto simp: task_row_def rbind_eq_Inr rmap_eq_Inr row_int_iff split: option.splits)

lemma policy_decision_iff:
  "policy_decision E row l = Inr (d, v) \<longleftrightarrow> d = msg_token E row ''decision_id'' \<and> d \<noteq> [] \<and> msg_token E row ''policy_decision_id'' = d
     \<and> msg_text E row ''decision_policy_key'' = ''real_run_gate'' \<and> lower_token E row ''decision_outcome'' = ''allow''
     \<and> lower_token E row ''decision_subject_type'' = ''lottery'' \<and> msg_token E row ''decision_subject_id'' = int_str l
     \<and> number_is row ''task_policy_version'' v \<and> number_is row ''decision_policy_version'' v \<and> parse_bool E (dget row ''policy_active'')"
  by (auto simp: policy_decision_def rbind_eq_Inr row_int_iff Let_def)

lemma task_stage_iff:
  "task_stage E row i w = Inr stage \<longleftrightarrow> msg_token E row ''lottery_execution_lock'' = i \<and>
     (stage = ''preclaim'' \<and> lower_token E row ''task_status'' = ''queued'' \<and> lower_token E row ''lottery_status'' = ''claimed''
        \<and> lower_token E row ''account_status'' = ''ready'' \<and> msg_token E row ''task_worker_id'' = []
      \<or> stage = ''running'' \<and> lower_token E row ''task_status'' = ''running'' \<and> lower_token E row ''lottery_status'' = ''running''
        \<and> lower_token E row ''account_status'' = ''executing'' \<and> msg_token E row ''task_worker_id'' = strip (py_str (px_repr E) (py_or w (PStr [])))
        \<and> msg_token E row ''task_worker_id'' \<noteq> [])"
  by (auto simp: task_stage_def rbind_eq_Inr rmap_eq_Inr Let_def)

lemma validate_account_leaseD:
  assumes "validate_account_lease E task row i a k = Inr (lid, g)"
  shows "lid = msg_token E row ''lease_id''" "lid \<noteq> []" "msg_token E task ''account_lease_id'' = lid" "msg_token E row ''task_account_lease_id'' = lid"
    "0 < g" "number_is task ''account_lease_generation'' g" "number_is row ''task_account_lease_generation'' g" "number_is row ''lease_generation'' g"
    "number_is row ''lease_account_id'' a" "lease_operation_kind_for_execution_intent k = Inr (lower_token E row ''lease_operation_kind'')"
    "msg_token E row ''lease_owner_id'' = i" "msg_token E row ''lease_task_id'' = i"
    "list_all (\<lambda>k. int_is row k 1 = Inr True) [''lease_active'', ''lease_unreleased'', ''lease_latest_generation'', ''active_account_lease_count'']"
    "int_is row ''task_reconciliation_required'' 0 = Inr True"
proof -
  obtain ns where n: "lease_numbers task row = Inr ns"
    using assms unfolding validate_account_lease_def rbind_eq_Inr by blast
  obtain oper where oper: "lease_operation_kind_for_execution_intent k = Inr oper"
    using assms n by (cases "lease_operation_kind_for_execution_intent k") (auto simp: validate_account_lease_def)
  have c: "demand_all (lease_checks E task row i a oper ns) ''account_lease_binding_invalid'' = Inr ()"
    and r: "demand_all [int_is row ''task_reconciliation_required'' 0] ''task_reconciliation_required'' = Inr ()"
    and s: "lid = msg_token E row ''lease_id''" "g = fst (snd (snd ns))"
    using assms n oper by (auto simp: validate_account_lease_def rbind_eq_Inr)
  obtain mg tg ac where ns: "ns = (mg, tg, g, ac)" using s(2) by (cases ns) auto
  have nums: "number_is task ''account_lease_generation'' mg" "number_is row ''task_account_lease_generation'' tg" "number_is row ''lease_generation'' g"
    "number_is row ''lease_account_id'' ac"
    using n unfolding ns by (auto simp: lease_numbers_def rbind_eq_Inr row_int_iff)
  have k: "\<forall>x \<in> set (lease_checks E task row i a oper ns). x = Inr True" using c by (simp add: demand_all_iff)
  have eqs: "lid \<noteq> []" "msg_token E task ''account_lease_id'' = lid" "msg_token E row ''task_account_lease_id'' = lid" "0 < mg" "mg = tg" "tg = g" "ac = a"
    "lower_token E row ''lease_operation_kind'' = oper" "msg_token E row ''lease_owner_id'' = i" "msg_token E row ''lease_task_id'' = i"
    "int_is row ''lease_active'' 1 = Inr True" "int_is row ''lease_unreleased'' 1 = Inr True" "int_is row ''lease_latest_generation'' 1 = Inr True"
    "int_is row ''active_account_lease_count'' 1 = Inr True"
    using k unfolding ns lease_checks_def prod.case Let_def s(1) by (simp_all add: row_checks lower_token_def)
  then show "lid = msg_token E row ''lease_id''" "lid \<noteq> []" "msg_token E task ''account_lease_id'' = lid" "msg_token E row ''task_account_lease_id'' = lid"
    "0 < g" "number_is task ''account_lease_generation'' g" "number_is row ''task_account_lease_generation'' g" "number_is row ''lease_generation'' g"
    "number_is row ''lease_account_id'' a" "lease_operation_kind_for_execution_intent k = Inr (lower_token E row ''lease_operation_kind'')"
    "msg_token E row ''lease_owner_id'' = i" "msg_token E row ''lease_task_id'' = i"
    "list_all (\<lambda>k. int_is row k 1 = Inr True) [''lease_active'', ''lease_unreleased'', ''lease_latest_generation'', ''active_account_lease_count'']"
    "int_is row ''task_reconciliation_required'' 0 = Inr True"
    using nums oper r s(1) by (simp_all add: demand_all_iff)
qed

lemma real_run_switchD:
  "real_run_switch E D = Inr u \<Longrightarrow> \<exists>setting. gd_setting D = Inr (Some setting) \<and> parse_bool E (dget setting ''setting_value'')"
  by (auto simp: real_run_switch_def rbind_eq_Inr split: option.splits if_splits)

lemma gate_moduleD: "gate_module X task p = Inr m \<Longrightarrow> get_worker_module X p = Inr m"
  by (auto simp: gate_module_def split: sum.splits lookup_error.splits option.splits if_splits)

lemma gate_intentD:
  "gate_intent X m task row i a l p plan = Inr intent \<Longrightarrow> \<exists>kind. validate_task_execution_intent (we_plan X) task row i a l p plan kind = Inr intent"
  by (auto simp: gate_intent_def split: sum.splits ei_error.splits)

lemma platform_evidence_checkedD:
  "platform_evidence_checked m D task row i a l p plan ex = Inr ev \<Longrightarrow>
     \<exists>columns. gd_evidence D p i = Inr columns \<and> validate_real_run_evidence m task (columns @ row) a l p plan ex = Inr ev"
  by (auto simp: platform_evidence_checked_def rbind_eq_Inr split: if_splits)

lemma validate_targetD:
  assumes "validate_target_and_action_plan E task row = Inr v"
  shows "target_agrees E task row" "plan_binding_agrees E task row v" "worker_validate_action_plan_v2 E (dget task ''action_plan'') True True = Inr v"
    "\<exists>c. worker_validate_action_plan_v2 E (dget row ''lottery_action_plan'') True True = Inr c \<and> same_canonical E (vp_plan c) (vp_plan v)"
    "dget row ''lottery_rule_text'' = dget row ''snapshot_rule_text''" "compute_rule_hash E (dget row ''lottery_rule_text'') = Inr (vp_rule_hash v)"
proof -
  obtain current u' where u: "target_agrees E task row" and c: "worker_validate_action_plan_v2 E (dget row ''lottery_action_plan'') True True = Inr current"
    and v: "worker_validate_action_plan_v2 E (dget task ''action_plan'') True True = Inr v" and same: "same_canonical E (vp_plan current) (vp_plan v)"
    and b: "plan_binding_agrees E task row v" and r: "rule_snapshot_checked E task row v = Inr u'"
    using assms unfolding validate_target_and_action_plan_def rbind_eq_Inr rmap_eq_Inr demand_iff prefixed_iff by blast
  show "target_agrees E task row" "plan_binding_agrees E task row v" "worker_validate_action_plan_v2 E (dget task ''action_plan'') True True = Inr v" by (rule u b v)+
  show "\<exists>c. worker_validate_action_plan_v2 E (dget row ''lottery_action_plan'') True True = Inr c \<and> same_canonical E (vp_plan c) (vp_plan v)" using c same by blast
  show "dget row ''lottery_rule_text'' = dget row ''snapshot_rule_text''" "compute_rule_hash E (dget row ''lottery_rule_text'') = Inr (vp_rule_hash v)"
    using r by (auto simp: rule_snapshot_checked_def rbind_eq_Inr exact_text_def split: pyval.splits if_splits)
qed

lemma hd_dropWhile_space: "dropWhile is_space s \<noteq> [] \<Longrightarrow> \<not> is_space (hd (dropWhile is_space s))"
  by (induction s) auto

lemma last_strip: "strip s \<noteq> [] \<Longrightarrow> \<not> is_space (last (strip s))"
  unfolding strip_def using hd_dropWhile_space [of "rev (lstrip s)"] by (simp add: last_rev)

lemma strip_fixed:
  assumes "s \<noteq> []" "\<not> is_space (hd s)" "\<not> is_space (last s)"
  shows "strip s = s"
proof -
  have "lstrip s = s" using assms(1,2) by (cases s) (simp_all add: lstrip_def)
  moreover have "dropWhile is_space (rev s) = rev s" using assms(1,3) by (cases s rule: rev_cases) simp_all
  ultimately show ?thesis by (simp add: strip_def)
qed

lemma strip_platform_scope: "p \<noteq> [] \<Longrightarrow> strip p = p \<Longrightarrow> strip (platform_scope p) = platform_scope p"
  by (rule strip_fixed) (use last_strip [of p] in \<open>simp_all add: platform_scope_def is_space_def\<close>)

lemma required_platform:
  "required_task_binding E task = Inr (i, a, l, p) \<Longrightarrow> p \<noteq> [] \<and> strip p = p \<and> p = lower_token E task ''platform''"
  unfolding required_task_binding_iff by (auto simp: lower_token_def strip_lower msg_token_def)

lemma closed_breakers:
  assumes "breakers_closed E D p = Inr u" "gd_breakers D = Inr rows" "p \<noteq> [] \<and> strip p = p \<and> q"
  shows "\<exists>r \<in> set rows. msg_token E r ''scope'' = ''global''"
    "list_all (\<lambda>r. dget r ''scope'' \<in> {PStr ''global'', PStr (platform_scope p)} \<longrightarrow> lower_token E r ''status'' = ''closed'') rows"
proof -
  have scan: "breaker_scan E (platform_scope p) False (select_breakers (platform_scope p) rows) = Inr u"
    using assms(1,2) by (simp add: breakers_closed_def queried_def)
  show "\<exists>r \<in> set rows. msg_token E r ''scope'' = ''global''" using scan by (auto simp: breaker_scan_iff select_breakers_def)
  have g: "strip ''global'' = ''global''" by (rule strip_fixed) (simp_all add: is_space_def)
  have "msg_token E r ''scope'' \<in> {''global'', platform_scope p}" if "dget r ''scope'' \<in> {PStr ''global'', PStr (platform_scope p)}" for r
    using that assms(3) g strip_platform_scope [of p] by (auto simp: msg_token_def msg_text_PStr)
  then show "list_all (\<lambda>r. dget r ''scope'' \<in> {PStr ''global'', PStr (platform_scope p)} \<longrightarrow> lower_token E r ''status'' = ''closed'') rows"
    using scan unfolding breaker_scan_iff select_breakers_def list_all_iff by simp
qed

section \<open>What an open gate means\<close>

text \<open>
  C2. The gate opens only with every authority in place. When the worker's gate returns a snapshot, the
  process switch and the runtime setting are on; the task row is the one the message names, in real-run mode, without a
  recent risk event, in one of the two stages and with the lottery locked for it; the plan is valid in the message and in the lottery
  with the rule text it was reviewed for, and the intent and the evidence of the platform were validated for it; the lease
  is the account's only live one, of the operation the intent needs and owned by the task; the policy decision is an
  allow of the active version for this lottery; and the global and the platform's breakers are closed.
\<close>

theorem open_gate_is_authorized:
  assumes "enforce_real_run_gate X D task worker_id = Inr s" "E = we_plan X"
  shows "\<exists>row columns rows m kind. gd_task D (gs_task_id s) = Inr (Some row) \<and> gd_evidence D (gs_platform s) (gs_task_id s) = Inr columns
    \<and> gd_breakers D = Inr rows \<and> get_worker_module X (gs_platform s) = Inr m
    \<and> parse_bool E (gd_process_enabled D) \<and> (\<exists>setting. gd_setting D = Inr (Some setting) \<and> parse_bool E (dget setting ''setting_value''))
    \<and> msg_token E row ''task_id'' = gs_task_id s \<and> number_is row ''account_id'' (gs_account_id s) \<and> number_is row ''lottery_id'' (gs_lottery_id s)
    \<and> lower_token E row ''account_platform'' = gs_platform s \<and> lower_token E row ''task_mode'' = ''real_run'' \<and> \<not> parse_bool E (dget row ''account_active_risk'')
    \<and> (lower_token E row ''task_status'', lower_token E row ''lottery_status'', lower_token E row ''account_status'')
        = (if gs_stage s = ''running'' then (''running'', ''running'', ''executing'') else (''queued'', ''claimed'', ''ready''))
    \<and> msg_token E row ''lottery_execution_lock'' = gs_task_id s
    \<and> msg_token E row ''task_worker_id'' = (if gs_stage s = ''running'' then strip (py_str (px_repr E) (py_or worker_id (PStr []))) else [])
    \<and> worker_validate_action_plan_v2 E (dget task ''action_plan'') True True = Inr (gs_plan s)
    \<and> msg_token E row ''lottery_action_plan_hash'' = vp_plan_hash (gs_plan s) \<and> compute_rule_hash E (dget row ''lottery_rule_text'') = Inr (vp_rule_hash (gs_plan s))
    \<and> validate_task_execution_intent E task row (gs_task_id s) (gs_account_id s) (gs_lottery_id s) (gs_platform s) (gs_plan s) kind = Inr (gs_intent s)
    \<and> validate_real_run_evidence m task (columns @ row) (gs_account_id s) (gs_lottery_id s) (gs_platform s) (gs_plan s) (vi_plan (gs_intent s)) = Inr (gs_evidence s)
    \<and> msg_token E task ''account_lease_id'' = gs_lease_id s \<and> msg_token E row ''lease_id'' = gs_lease_id s \<and> msg_token E row ''lease_owner_id'' = gs_task_id s
    \<and> lease_operation_kind_for_execution_intent (vi_kind (gs_intent s)) = Inr (lower_token E row ''lease_operation_kind'')
    \<and> number_is row ''lease_generation'' (gs_lease_generation s) \<and> number_is row ''lease_account_id'' (gs_account_id s)
    \<and> list_all (\<lambda>k. int_is row k 1 = Inr True) [''lease_active'', ''lease_unreleased'', ''lease_latest_generation'', ''active_account_lease_count'']
    \<and> msg_token E row ''decision_id'' = gs_decision_id s \<and> lower_token E row ''decision_outcome'' = ''allow''
    \<and> msg_token E row ''decision_subject_id'' = int_str (gs_lottery_id s) \<and> number_is row ''decision_policy_version'' (gs_policy_version s)
    \<and> parse_bool E (dget row ''policy_active'')
    \<and> (\<exists>r \<in> set rows. msg_token E r ''scope'' = ''global'')
    \<and> list_all (\<lambda>r. dget r ''scope'' \<in> {PStr ''global'', PStr (platform_scope (gs_platform s))} \<longrightarrow> lower_token E r ''status'' = ''closed'') rows"
proof -
  obtain i a l p where b: "required_task_binding E task = Inr (i, a, l, p)" and g: "guarded_gate X D task worker_id (i, a, l, p) = Inr s"
    and on: "parse_bool E (gd_process_enabled D)"
    using assms by (auto simp: enforce_Inr)
  obtain u m row plan intent evidence lease stage decision u' where
    c: "real_run_switch (we_plan X) D = Inr u" "gate_module X task p = Inr m" "task_row (we_plan X) D i a l p = Inr row"
    "validate_target_and_action_plan (we_plan X) task row = Inr plan" "gate_intent X m task row i a l p plan = Inr intent"
    "platform_evidence_checked m D task row i a l p plan (vi_plan intent) = Inr evidence"
    "validate_account_lease (we_plan X) task row i a (vi_kind intent) = Inr lease" "task_stage (we_plan X) row i worker_id = Inr stage"
    "policy_decision (we_plan X) row l = Inr decision" "breakers_closed (we_plan X) D p = Inr u'"
    and s: "s = \<lparr>gs_task_id = i, gs_account_id = a, gs_lottery_id = l, gs_platform = p, gs_decision_id = fst decision, gs_policy_version = snd decision,
      gs_stage = stage, gs_plan = plan, gs_intent = intent, gs_evidence = evidence, gs_lease_id = fst lease, gs_lease_generation = snd lease\<rparr>"
    using guarded_gateD [OF g] by metis
  note c = c [folded assms(2)]
  obtain columns where col: "gd_evidence D p i = Inr columns" "validate_real_run_evidence m task (columns @ row) a l p plan (vi_plan intent) = Inr evidence"
    using platform_evidence_checkedD [OF c(6)] by blast
  obtain kind where kind: "validate_task_execution_intent E task row i a l p plan kind = Inr intent"
    using gate_intentD [OF c(5)] assms(2) by blast
  obtain rows where rows: "gd_breakers D = Inr rows" "breaker_scan E (platform_scope p) False (select_breakers (platform_scope p) rows) = Inr u'"
    using c(10) by (auto simp: breakers_closed_def rbind_eq_Inr)
  have lease: "validate_account_lease E task row i a (vi_kind intent) = Inr (fst lease, snd lease)" using c(7) by simp
  have decision: "policy_decision E row l = Inr (fst decision, snd decision)" using c(9) by simp
  have t: "task_row E D i a l p = Inr row" by (rule c)
  have bs: "\<exists>r \<in> set rows. msg_token E r ''scope'' = ''global''"
    "list_all (\<lambda>r. dget r ''scope'' \<in> {PStr ''global'', PStr (platform_scope p)} \<longrightarrow> lower_token E r ''status'' = ''closed'') rows"
    using closed_breakers [OF c(10) rows(1)] required_platform [OF b] by blast+
  have st: "(lower_token E row ''task_status'', lower_token E row ''lottery_status'', lower_token E row ''account_status'')
        = (if stage = ''running'' then (''running'', ''running'', ''executing'') else (''queued'', ''claimed'', ''ready''))"
    "msg_token E row ''lottery_execution_lock'' = i"
    "msg_token E row ''task_worker_id'' = (if stage = ''running'' then strip (py_str (px_repr E) (py_or worker_id (PStr []))) else [])"
    using c(8) unfolding task_stage_iff by auto
  have pl: "msg_token E row ''lottery_action_plan_hash'' = vp_plan_hash plan" using validate_targetD(2) [OF c(4)] by (simp add: plan_binding_agrees_def)
  have rowf: "gd_task D i = Inr (Some row)" "msg_token E row ''task_id'' = i" "number_is row ''account_id'' a" "number_is row ''lottery_id'' l"
    "lower_token E row ''account_platform'' = p" "lower_token E row ''task_mode'' = ''real_run''" "\<not> parse_bool E (dget row ''account_active_risk'')"
    using t unfolding task_row_iff by blast+
  have dec: "msg_token E row ''decision_id'' = fst decision" "lower_token E row ''decision_outcome'' = ''allow''"
    "msg_token E row ''decision_subject_id'' = int_str l" "number_is row ''decision_policy_version'' (snd decision)" "parse_bool E (dget row ''policy_active'')"
    using decision unfolding policy_decision_iff by auto
  note le = validate_account_leaseD [OF lease]
  show ?thesis unfolding s gate_snapshot.simps
    by (rule exI [of _ row], rule exI [of _ columns], rule exI [of _ rows], rule exI [of _ m], rule exI [of _ kind], intro conjI,
      (rule rowf col rows(1) gate_moduleD [OF c(2)] on real_run_switchD [OF c(1)] st validate_targetD(3,6) [OF c(4)] pl kind
        le(1) [symmetric] le dec bs)+)
qed

lemma upserted_open:
  "\<exists>r \<in> set (upsert_breaker scope reason rows). dget r ''scope'' = PStr scope \<and> dget r ''status'' = PStr ''open''"
proof (cases "\<exists>r \<in> set rows. dget r ''scope'' = PStr scope")
  case True
  then obtain r where r: "r \<in> set rows" "dget r ''scope'' = PStr scope" by blast
  let ?r = "AList.update ''reason'' (PStr reason) (AList.update ''status'' (PStr ''open'') r)"
  have "?r \<in> set (upsert_breaker scope reason rows)" using r True by (force simp: upsert_breaker_def)
  moreover have "dget ?r ''scope'' = PStr scope" "dget ?r ''status'' = PStr ''open''" using r(2) by (simp_all add: dget_def update_conv)
  ultimately show ?thesis by blast
qed (auto simp: upsert_breaker_def)

text \<open>
  C13. An unknown outcome quarantines the platform. Once the breaker of a platform has been written after an
  action whose outcome is unknown, the gate does not open for any task of that platform, whatever the action, the message, the worker
  and the rest of the database are, and however the platform's name is spelled.
\<close>

theorem unknown_outcome_blocks_the_platform:
  assumes "open_unknown_outcome_breaker platform action written rows = Inr rows'" "gd_breakers D = Inr rows'"
  shows "case enforce_real_run_gate X D task worker_id of Inr s \<Rightarrow> gs_platform s \<noteq> norm_str platform | Inl _ \<Rightarrow> True"
proof (cases "enforce_real_run_gate X D task worker_id")
  case (Inr s)
  let ?E = "we_plan X"
  obtain i a l p where b: "required_task_binding ?E task = Inr (i, a, l, p)" and g: "guarded_gate X D task worker_id (i, a, l, p) = Inr s"
    using Inr by (auto simp: enforce_Inr)
  obtain u where c: "breakers_closed ?E D p = Inr u" and p: "gs_platform s = p"
    by (rule guarded_gateD [OF g]) (rule that, assumption, simp)
  have "p \<noteq> norm_str platform"
  proof
    assume eq: "p = norm_str platform"
    obtain reason where "rows' = upsert_breaker (platform_scope (norm_str platform)) reason rows"
      using assms(1) by (auto simp: open_unknown_outcome_breaker_def Let_def norm_str_def split: if_splits)
    then obtain r where r: "r \<in> set rows'" "dget r ''scope'' = PStr (platform_scope p)" "dget r ''status'' = PStr ''open''"
      using upserted_open eq by metis
    then have "lower_token ?E r ''status'' = ''closed''"
      using closed_breakers(2) [OF c assms(2) required_platform [OF b]] by (simp add: list_all_iff)
    moreover have "lower_token ?E r ''status'' = ''open''"
    proof -
      have "lower (strip ''open'') = ''open''" by code_simp
      then show ?thesis using r(3) by (simp add: lower_token_def msg_token_def msg_text_PStr)
    qed
    ultimately show False by simp
  qed
  then show ?thesis using Inr p by simp
qed simp

text \<open>
  C16. A Douyin task that the core queues never passes the gate. In every message the core builds, the selector
  configuration is JSON text; the Douyin module reads its device configuration from that field without decoding it, so
  the evidence of every queued real run is refused, whatever the arguments of the message and the database are.
\<close>

theorem queued_douyin_task_never_passes:
  "case enforce_real_run_gate X D (build_lottery_task_message E args) worker_id of Inr s \<Rightarrow> gs_platform s \<noteq> ''douyin'' | Inl _ \<Rightarrow> True"
proof (cases "enforce_real_run_gate X D (build_lottery_task_message E args) worker_id")
  case (Inr s)
  let ?task = "build_lottery_task_message E args"
  obtain i a l p where g: "guarded_gate X D ?task worker_id (i, a, l, p) = Inr s"
    using Inr by (auto simp: enforce_Inr)
  obtain m row plan and intent :: validated_task_intent and ev where m: "gate_module X ?task p = Inr m"
    and e: "platform_evidence_checked m D ?task row i a l p plan (vi_plan intent) = Inr ev" and p: "gs_platform s = p"
    by (rule guarded_gateD [OF g]) (rule that, assumption, assumption, simp)
  have "p \<noteq> ''douyin''"
  proof
    assume eq: "p = ''douyin''"
    have "m = DOUYIN X" using gate_moduleD [OF m] unfolding eq by (simp add: get_worker_module_eq norm_names)
    then obtain columns where "validate_douyin_real_run_evidence (we_plan X) ?task (columns @ row) a l p plan (vi_plan intent) = Inr ev"
      using platform_evidence_checkedD [OF e] by (auto simp: validate_real_run_evidence_def DOUYIN_def)
    then show False using douyin_refuses_text_selectors [OF build_message_selectors, of "we_plan X" E args "columns @ row" a l p plan "vi_plan intent"] by auto
  qed
  then show ?thesis using Inr p by simp
qed simp

section \<open>Any message that carries a binding\<close>

lemma carried_accepted:
  assumes "reachable intents_init (intent_step_sha E) db" "b \<in> set (idb_bindings db)" "good_sha E"
  shows "\<exists>f v w. intent_row f \<in> set (idb_roots db) \<and> validate_action_plan_v2 E (PDict (fi_plan f)) True True = Inr v
    \<and> validate_action_plan_v2 E (PDict (tb_plan b)) True True = Inr w \<and> 0 < tb_revision b \<and> 0 < tb_lease_generation b
    \<and> (\<forall>task rest. carries_binding E f b task \<longrightarrow> validate_task_execution_intent E task (gate_row f b rest)
        (tb_task_id b) (tb_account_id b) (tb_lottery_id b) (fi_platform f) v (tb_evidence_kind b)
      = Inr \<lparr>vi_intent_id = Some (tb_intent_id b), vi_intent_hash = Some (tb_intent_hash b), vi_kind = tb_kind b,
          vi_binding_hash = Some (tb_binding_hash b), vi_actions = tb_actions b, vi_plan = w, vi_legacy = False\<rparr>)"
proof -
  have "intents_inv E db" using assms(1) by (rule intent_runs.inv_reachable)
  then obtain f where f: "root_of E db f" and a: "authorised E f b" using assms(2) by (auto simp: intents_inv_def)
  obtain v where ok: "frozen_ok E f v" using f by (auto simp: root_of_def)
  have ids: "tb_intent_id b = fi_intent_id f" "tb_intent_hash b = fi_intent_hash f" "tb_lottery_id b = fi_lottery_id f" "0 < tb_revision b" "0 < tb_lease_generation b"
    "tb_binding_hash b = json_hash E (PDict (binding_hash_payload b))" "tb_actions_hash b = requested_hash E f (tb_actions b)" "is_uuid (tb_intent_id b)"
    using a ok by (simp_all add: authorised_def binding_context_ok_def frozen_ok_def)
  have hexes: "lower_hex64 (tb_binding_hash b)" "lower_hex64 (tb_actions_hash b)"
    using assms(3) unfolding ids by (simp_all add: good_sha_def json_hash_def requested_hash_def)
  obtain w where w: "validate_action_plan_v2 E (PDict (tb_plan b)) True True = Inr w" using a by (auto simp: authorised_def)
  have "validate_task_execution_intent E task (gate_row f b rest) (tb_task_id b) (tb_account_id b) (tb_lottery_id b) (fi_platform f) v (tb_evidence_kind b)
      = Inr (accepted_binding f b w)" if c: "carries_binding E f b task" for task rest
  proof -
    have bind: "validate_binding E task (gate_row f b rest) f v (tb_task_id b) (tb_account_id b) (tb_lottery_id b) (tb_evidence_kind b) = Inr (accepted_binding f b w)"
      by (rule binding_accepted [OF ok a c hexes]) (use w in simp)
    have root: "validate_root E task (gate_row f b rest) (tb_lottery_id b) (fi_platform f) v = Inr (f, v)"
      unfolding ids(3) by (rule root_accepted [OF ok c ids(1,2)])
    show ?thesis unfolding validate_task_execution_intent_def Let_def root rbind.simps prod.case bind using present [OF c ids(8)] by simp
  qed
  then show ?thesis using f w frozen_plan_facts(9) [OF ok] ids unfolding accepted_binding_def root_of_def by auto
qed

section \<open>Witnesses\<close>

definition demo_worker :: worker_env where
  "demo_worker = \<lparr>we_plan = demo_plan_env, we_weibo = demo_weibo_env,
     we_urlparse = (\<lambda>_. Some \<lparr>pu_scheme = ''https'', pu_hostname = Some ''t.bilibili.com'', pu_username = None, pu_password = None, pu_port = None,
       pu_path = ''/1234567890'', pu_query = [], pu_fragment = []\<rparr>), we_unavailable = []\<rparr>"

definition demo_columns :: pydict where
  "demo_columns =
     [(''task_id'', PStr (demo_uuid (CHR ''2''))), (''account_id'', PInt 3), (''lottery_id'', PInt 5), (''bound_account_id'', PInt 3), (''bound_lottery_id'', PInt 5),
      (''account_platform'', PStr ''bilibili''), (''lottery_platform'', PStr ''bilibili''), (''account_active_risk'', PInt 0), (''task_mode'', PStr ''real_run''),
      (''lottery_raw_url'', PStr ''https://t.bilibili.com/1234567890''), (''lottery_canonical_url'', PStr ''https://t.bilibili.com/1234567890''),
      (''lottery_action_plan'', PDict demo_plan), (''task_rule_snapshot_id'', PInt 7), (''lottery_rule_snapshot_id'', PInt 7),
      (''task_rule_hash'', PStr demo_digest), (''lottery_rule_hash'', PStr demo_digest), (''snapshot_rule_hash'', PStr demo_digest),
      (''task_action_plan_hash'', PStr demo_digest), (''lottery_action_plan_hash'', PStr demo_digest), (''lottery_rule_text'', PStr ''r''),
      (''snapshot_rule_text'', PStr ''r''), (''rule_snapshot_platform'', PStr ''bilibili''), (''rule_snapshot_complete'', PInt 1),
      (''rule_snapshot_attested_by'', PStr ''op''), (''rule_snapshot_attested_at'', PStr ''t''),
      (''lease_id'', PStr (demo_uuid (CHR ''4''))), (''lease_generation'', PInt 1), (''lease_account_id'', PInt 3), (''lease_operation_kind'', PStr ''real_run''),
      (''lease_owner_id'', PStr (demo_uuid (CHR ''2''))), (''lease_task_id'', PStr (demo_uuid (CHR ''2''))), (''lease_active'', PInt 1),
      (''lease_unreleased'', PInt 1), (''lease_latest_generation'', PInt 1), (''active_account_lease_count'', PInt 1), (''task_reconciliation_required'', PInt 0),
      (''task_status'', PStr ''queued''), (''lottery_status'', PStr ''claimed''), (''account_status'', PStr ''ready''), (''task_worker_id'', PNone),
      (''lottery_execution_lock'', PStr (demo_uuid (CHR ''2''))), (''decision_id'', PStr ''d''), (''policy_decision_id'', PStr ''d''),
      (''decision_policy_key'', PStr ''real_run_gate''), (''decision_outcome'', PStr ''allow''), (''decision_subject_type'', PStr ''lottery''),
      (''decision_subject_id'', PStr ''5''), (''task_policy_version'', PInt 2), (''decision_policy_version'', PInt 2), (''policy_active'', PInt 1)]"

definition demo_observation :: pydict where
  "demo_observation =
     [(''version'', PInt 1), (''probe_kind'', PStr ''bilibili_api_readonly_v2''), (''execution_path_id'', PStr ''bilibili_api_v2''),
      (''preflight_contract_version'', PInt 1), (''execution_revision'', PInt 1), (''config_hash'', PStr demo_digest), (''side_effects'', PBool False),
      (''account_authenticated'', PBool True), (''api_preflight_complete'', PBool True), (''requested_dynamic_id'', PStr ''1234567890''),
      (''observed_dynamic_id'', PStr ''1234567890''), (''target_type'', PInt 2), (''target_uid'', PInt 9), (''author_handle'', PStr ''@up''),
      (''follow_target_handle'', PStr ''@up''), (''target_identity'', PDict [(''verified'', PBool True), (''dynamic_id'', PStr ''1234567890''),
        (''author_uid'', PInt 9), (''author_handle'', PStr ''@up'')]), (''comment_rid_str'', PNone), (''comment_type'', PNone),
      (''required_actions'', str_list [''followed'', ''liked'']), (''api_actions'', str_list [''follow'', ''like'']),
      (''capability_checks'', PDict [(''followed'', PBool True), (''liked'', PBool True)])]"

definition demo_evidence_columns :: pydict where
  "demo_evidence_columns =
     [(''evidence_id'', PStr (demo_uuid (CHR ''3''))), (''evidence_account_id'', PInt 3), (''evidence_lottery_id'', PInt 5),
      (''evidence_rule_snapshot_id'', PInt 7), (''evidence_platform'', PStr ''bilibili''), (''evidence_execution_path_id'', PStr ''bilibili_api_v2''),
      (''evidence_rule_hash'', PStr demo_digest), (''evidence_action_plan_hash'', PStr demo_digest), (''evidence_target_hash'', PStr demo_digest),
      (''evidence_config_hash'', PStr demo_digest), (''evidence_status'', PStr ''verified''), (''evidence_verified_at'', PStr ''t''),
      (''evidence_expires_at'', PStr ''t''), (''evidence_active'', PInt 1), (''evidence_time_bounded'', PInt 1), (''evidence_probe_id'', PStr ''p''),
      (''evidence_shadow_task_id'', PStr ''s''), (''evidence_probe_status'', PStr ''succeeded''), (''evidence_probe_finished_at'', PStr ''t''),
      (''evidence_shadow_status'', PStr ''succeeded''), (''evidence_shadow_task_mode'', PStr ''shadow_run''), (''evidence_shadow_target_hash'', PStr demo_digest),
      (''evidence_shadow_config_hash'', PStr demo_digest), (''evidence_probe_fresh'', PInt 1), (''evidence_shadow_fresh'', PInt 1),
      (''evidence_probe_lease_released'', PInt 1), (''evidence_shadow_lease_released'', PInt 1), (''evidence_probe_lease_covers_observation'', PInt 1),
      (''evidence_shadow_lease_covers_observation'', PInt 1), (''evidence_probe_observation'', PDict demo_observation),
      (''evidence_shadow_observation'', PDict demo_observation), (''evidence_probe_observation_kind'', PStr API_PREFLIGHT_KIND),
      (''source_probe_observation_kind'', PStr API_PREFLIGHT_KIND), (''evidence_shadow_observation_kind'', PStr API_PREFLIGHT_KIND),
      (''source_shadow_observation_kind'', PStr API_PREFLIGHT_KIND), (''evidence_probe_observation_hash'', PStr demo_digest),
      (''source_probe_observation_hash'', PStr demo_digest), (''evidence_shadow_observation_hash'', PStr demo_digest),
      (''source_shadow_observation_hash'', PStr demo_digest)]"

definition demo_row :: pydict where "demo_row = gate_row demo_intent demo_binding demo_columns"

definition demo_gate_db :: gate_db where
  "demo_gate_db = \<lparr>gd_process_enabled = PStr ''true'', gd_setting = Inr (Some [(''setting_value'', PStr ''true'')]), gd_task = (\<lambda>_. Inr (Some demo_row)),
     gd_evidence = (\<lambda>_ _. Inr demo_evidence_columns), gd_breakers = Inr [[(''scope'', PStr ''global''), (''status'', PStr ''closed'')]]\<rparr>"

text \<open>The message of the binding, its JSON fields as the values they encode.\<close>

definition demo_task :: pydict where
  "demo_task =
     [(''task_id'', PStr (demo_uuid (CHR ''2''))), (''account_id'', PStr ''3''), (''lottery_id'', PStr ''5''), (''platform'', PStr ''bilibili''),
      (''raw_url'', PStr ''https://t.bilibili.com/1234567890''), (''canonical_url'', PStr ''https://t.bilibili.com/1234567890''), (''action_plan'', PDict demo_plan),
      (''rule_snapshot_id'', PStr ''7''), (''rule_hash'', PStr demo_digest), (''action_plan_hash'', PStr demo_digest),
      (''execution_evidence_id'', PStr (demo_uuid (CHR ''3''))), (''execution_path_id'', PStr ''bilibili_api_v2''), (''target_hash'', PStr demo_digest),
      (''config_hash'', PStr demo_digest), (''execution_revision'', PStr ''1''), (''account_lease_id'', PStr (demo_uuid (CHR ''4''))),
      (''account_lease_generation'', PStr ''1''), (''execution_intent_id'', PStr (demo_uuid (CHR ''1''))), (''execution_intent_hash'', PStr demo_digest),
      (''execution_intent_kind'', PStr ''full''), (''execution_intent_binding_hash'', PStr demo_digest), (''requested_actions'', str_list [''followed'', ''liked'']),
      (''requested_actions_hash'', PStr demo_digest), (''requested_action_plan_hash'', PStr demo_digest), (''execution_evidence_kind'', PStr ''exact_execution_evidence''),
      (''exact_execution_evidence_id'', PStr (demo_uuid (CHR ''3'')))]"

lemma demo_carries: "carries_binding demo_plan_env demo_intent demo_binding demo_task"
proof -
  have "int_str 1 = ''1''" by code_simp
  then show ?thesis by (simp add: carries_binding_def msg_text_PStr demo_task_def demo_intent_def demo_binding_def json_list_def json_value_def str_list_def
      msg_text_def py_or_def)
qed

lemma demo_binding_read: "required_task_binding demo_plan_env demo_task = Inr (demo_uuid (CHR ''2''), 3, 5, ''bilibili'')"
  by code_simp

lemma demo_switch: "real_run_switch demo_plan_env demo_gate_db = Inr ()"
  by code_simp

lemma demo_task_row: "task_row demo_plan_env demo_gate_db (demo_uuid (CHR ''2'')) 3 5 ''bilibili'' = Inr demo_row"
  by code_simp

lemma demo_lease: "validate_account_lease demo_plan_env demo_task demo_row (demo_uuid (CHR ''2'')) 3 ''full'' = Inr (demo_uuid (CHR ''4''), 1)"
  by code_simp

lemma demo_stage: "task_stage demo_plan_env demo_row (demo_uuid (CHR ''2'')) (PStr ''w'') = Inr ''preclaim''"
  by code_simp

lemma demo_policy: "policy_decision demo_plan_env demo_row 5 = Inr (''d'', 2)"
  by code_simp

lemma demo_breakers: "breakers_closed demo_plan_env demo_gate_db ''bilibili'' = Inr ()"
  by code_simp

lemma demo_intent_unique: "intent_row f = intent_row demo_intent \<Longrightarrow> f = demo_intent"
  by (cases f) (auto simp: intent_row_def intent_hash_payload_def demo_intent_def str_list_def map_eq_Cons_conv)

lemma demo_intent_accepted:
  "\<exists>r. validate_task_execution_intent demo_plan_env demo_task demo_row (demo_uuid (CHR ''2'')) 3 5 ''bilibili'' demo_validated ''exact_execution_evidence'' = Inr r
     \<and> vi_kind r = ''full'' \<and> vi_plan r = demo_validated \<and> vi_actions r = [''followed'', ''liked'']"
proof -
  obtain f v w where f: "intent_row f \<in> set (idb_roots demo_intents)" and v: "validate_action_plan_v2 demo_plan_env (PDict (fi_plan f)) True True = Inr v"
    and w: "validate_action_plan_v2 demo_plan_env (PDict (tb_plan demo_binding)) True True = Inr w"
    and a: "\<And>task rest. carries_binding demo_plan_env f demo_binding task \<Longrightarrow> validate_task_execution_intent demo_plan_env task (gate_row f demo_binding rest)
        (tb_task_id demo_binding) (tb_account_id demo_binding) (tb_lottery_id demo_binding) (fi_platform f) v (tb_evidence_kind demo_binding)
      = Inr \<lparr>vi_intent_id = Some (tb_intent_id demo_binding), vi_intent_hash = Some (tb_intent_hash demo_binding), vi_kind = tb_kind demo_binding,
          vi_binding_hash = Some (tb_binding_hash demo_binding), vi_actions = tb_actions demo_binding, vi_plan = w, vi_legacy = False\<rparr>"
    using carried_accepted [OF demo_reachable demo_bound demo_good_sha] by blast
  have fe: "f = demo_intent" using f demo_intent_unique by (simp add: demo_intents_def)
  have ve: "v = demo_validated" "w = demo_validated"
    using v w demo_plan_validated unfolding fe by (simp_all add: demo_intent_def demo_binding_def)
  show ?thesis using a [unfolded fe ve, OF demo_carries, of demo_columns]
    by (simp add: demo_row_def demo_binding_def [unfolded demo_binding_def] task_binding.simps demo_intent_def) (simp add: demo_binding_def)
qed

lemma dget_append: "dget (d @ e) k = (if k \<in> set (map fst d) then dget d k else dget e k)"
  by (induction d) (auto simp: dget_def)

lemma gate_row_append: "gate_row f b rest = gate_row f b [] @ rest"
  by (simp add: gate_row_def)

lemma dget_gate_row: "k \<notin> set (map fst (gate_row f b [])) \<Longrightarrow> dget (gate_row f b rest) k = dget rest k"
  by (subst gate_row_append) (simp add: dget_append)

lemma demo_row_column: "k \<notin> set (map fst (gate_row demo_intent demo_binding [])) \<Longrightarrow> dget demo_row k = dget demo_columns k"
  by (simp add: demo_row_def dget_gate_row)

lemma gate_row_keys: "map fst (gate_row f b []) = map fst (gate_row f' b' [])"
  by (simp add: gate_row_def)

lemma demo_texts: "strip demo_digest = demo_digest" "strip (demo_uuid (CHR ''2'')) = demo_uuid (CHR ''2'')" "strip (demo_uuid (CHR ''3'')) = demo_uuid (CHR ''3'')"
  "strip ''r'' = ''r''" "strip ''op'' = ''op''" "strip ''p'' = ''p''" "strip ''s'' = ''s''" "strip ''verified'' = ''verified''" "lower ''verified'' = ''verified''"
  "strip ''succeeded'' = ''succeeded''" "lower ''succeeded'' = ''succeeded''" "strip ''shadow_run'' = ''shadow_run''" "lower ''shadow_run'' = ''shadow_run''"
  "lower ''bilibili'' = ''bilibili''" "strip ''bilibili_api_readonly_v2'' = ''bilibili_api_readonly_v2''" "demo_digest \<noteq> []" "demo_uuid c \<noteq> []"
  "parse_int ''7'' = Some 7"
  by code_simp+

lemma demo_column_texts:
  "dget demo_columns ''task_rule_snapshot_id'' = PInt 7"
  "dget demo_columns ''lottery_rule_snapshot_id'' = PInt 7"
  "dget demo_columns ''task_rule_hash'' = PStr demo_digest"
  "dget demo_columns ''lottery_rule_hash'' = PStr demo_digest"
  "dget demo_columns ''snapshot_rule_hash'' = PStr demo_digest"
  "dget demo_columns ''task_action_plan_hash'' = PStr demo_digest"
  "dget demo_columns ''lottery_action_plan_hash'' = PStr demo_digest"
  "dget demo_columns ''lottery_rule_text'' = PStr ''r''"
  "dget demo_columns ''snapshot_rule_text'' = PStr ''r''"
  "dget demo_columns ''rule_snapshot_platform'' = PStr ''bilibili''"
  "dget demo_columns ''rule_snapshot_complete'' = PInt 1"
  "dget demo_columns ''rule_snapshot_attested_by'' = PStr ''op''"
  "dget demo_columns ''rule_snapshot_attested_at'' = PStr ''t''"
  "dget demo_columns ''lottery_raw_url'' = PStr ''https://t.bilibili.com/1234567890''"
  "dget demo_columns ''lottery_canonical_url'' = PStr ''https://t.bilibili.com/1234567890''"
  "dget demo_columns ''lottery_action_plan'' = PDict demo_plan"
  by (simp_all add: demo_columns_def)

lemma demo_row_texts:
  "dget demo_row ''task_rule_snapshot_id'' = PInt 7"
  "dget demo_row ''lottery_rule_snapshot_id'' = PInt 7"
  "dget demo_row ''task_rule_hash'' = PStr demo_digest"
  "dget demo_row ''lottery_rule_hash'' = PStr demo_digest"
  "dget demo_row ''snapshot_rule_hash'' = PStr demo_digest"
  "dget demo_row ''task_action_plan_hash'' = PStr demo_digest"
  "dget demo_row ''lottery_action_plan_hash'' = PStr demo_digest"
  "dget demo_row ''lottery_rule_text'' = PStr ''r''"
  "dget demo_row ''snapshot_rule_text'' = PStr ''r''"
  "dget demo_row ''rule_snapshot_platform'' = PStr ''bilibili''"
  "dget demo_row ''rule_snapshot_complete'' = PInt 1"
  "dget demo_row ''rule_snapshot_attested_by'' = PStr ''op''"
  "dget demo_row ''rule_snapshot_attested_at'' = PStr ''t''"
  "dget demo_row ''lottery_raw_url'' = PStr ''https://t.bilibili.com/1234567890''"
  "dget demo_row ''lottery_canonical_url'' = PStr ''https://t.bilibili.com/1234567890''"
  "dget demo_row ''lottery_action_plan'' = PDict demo_plan"
  by (subst demo_row_column; simp add: gate_row_def demo_column_texts)+

lemma demo_row_base:
  "dget demo_row ''task_execution_path_id'' = PStr ''bilibili_api_v2''" "dget demo_row ''task_execution_evidence_id'' = PStr (demo_uuid (CHR ''3''))"
  "dget demo_row ''task_target_hash'' = PStr demo_digest" "dget demo_row ''task_config_hash'' = PStr demo_digest" "dget demo_row ''account_execution_revision'' = PInt 1"
  by (simp_all add: demo_row_def gate_row_def) (simp_all add: demo_intent_def demo_binding_def)

lemma demo_task_texts:
  "dget demo_task ''rule_snapshot_id'' = PStr ''7''" "dget demo_task ''rule_hash'' = PStr demo_digest" "dget demo_task ''action_plan_hash'' = PStr demo_digest"
  "dget demo_task ''raw_url'' = PStr ''https://t.bilibili.com/1234567890''" "dget demo_task ''canonical_url'' = PStr ''https://t.bilibili.com/1234567890''"
  "dget demo_task ''execution_evidence_id'' = PStr (demo_uuid (CHR ''3''))" "dget demo_task ''target_hash'' = PStr demo_digest" "dget demo_task ''config_hash'' = PStr demo_digest"
  "dget demo_task ''execution_path_id'' = PStr ''bilibili_api_v2''" "dget demo_task ''platform'' = PStr ''bilibili''"
  by (simp_all add: demo_task_def)

lemma demo_target: "validate_target_and_action_plan demo_plan_env demo_task demo_row = Inr demo_validated"
proof -
  have g: "dget demo_task ''action_plan'' = PDict demo_plan" "dget demo_row ''lottery_action_plan'' = PDict demo_plan"
    by (simp_all add: demo_task_def demo_row_texts)
  have w: "worker_validate_action_plan_v2 demo_plan_env (PDict demo_plan) True True = Inr demo_validated"
    using demo_plan_validated by (simp add: worker_validator_agrees_dict)
  have t: "target_agrees demo_plan_env demo_task demo_row"
    by (simp add: target_agrees_def msg_token_def msg_text_PStr demo_task_texts demo_row_texts demo_strings)
  have n: "snapshot_numbers demo_task demo_row = Inr ()"
    by (simp add: snapshot_numbers_def row_int_def demo_row_texts demo_task_texts demo_texts)
  have v: "vp_rule_snapshot_id demo_validated = 7" "vp_rule_hash demo_validated = demo_digest" "vp_plan_hash demo_validated = demo_digest"
    "vp_execution_path_id demo_validated = ''bilibili_api_v2''" "dget (vp_plan demo_validated) ''platform'' = PStr ''bilibili''"
    by (simp_all add: demo_validated_def demo_plan_def demo_plan_of_def)
  have p: "plan_binding_agrees demo_plan_env demo_task demo_row demo_validated"
    by (simp add: plan_binding_agrees_def number_is_def msg_token_def msg_text_PStr demo_row_texts demo_task_texts demo_row_base demo_texts demo_strings v)
  have l: "lower_token demo_plan_env (vp_plan demo_validated) ''platform'' = lower_token demo_plan_env demo_task ''platform''"
    by (simp add: lower_token_def msg_token_def msg_text_PStr demo_task_texts v)
  have r: "rule_snapshot_checked demo_plan_env demo_task demo_row demo_validated = Inr ()"
    by (simp add: rule_snapshot_checked_def exact_text_def demand_def demand_all_def demo_row_texts demo_task_texts compute_rule_hash_def lower_token_def v
        msg_token_def msg_text_PStr demo_texts demo_strings int_is_def py_or_def)
  show ?thesis unfolding validate_target_and_action_plan_def g w by (simp add: same_canonical_def prefixed_def demand_def t n p l r)
qed

lemma demo_bilibili: "get_worker_module demo_worker ''bilibili'' = Inr (BILIBILI demo_worker)"
  by (simp add: get_worker_module_eq norm_names demo_worker_def)

lemma demo_gate_module: "gate_module demo_worker demo_task ''bilibili'' = Inr (BILIBILI demo_worker)"
  by (simp add: gate_module_def demo_bilibili real_run_precondition_code_def BILIBILI_def given_def)

lemma demo_gate_intent:
  obtains r where "gate_intent demo_worker (BILIBILI demo_worker) demo_task demo_row (demo_uuid (CHR ''2'')) 3 5 ''bilibili'' demo_validated = Inr r"
    "vi_kind r = ''full''" "vi_plan r = demo_validated" "vi_actions r = [''followed'', ''liked'']"
proof -
  obtain r where r: "validate_task_execution_intent demo_plan_env demo_task demo_row (demo_uuid (CHR ''2'')) 3 5 ''bilibili'' demo_validated ''exact_execution_evidence'' = Inr r"
     "vi_kind r = ''full''" "vi_plan r = demo_validated" "vi_actions r = [''followed'', ''liked'']" using demo_intent_accepted by blast
  have p: "we_plan demo_worker = demo_plan_env" by (simp add: demo_worker_def)
  have i: "execution_path_id_from_plan demo_plan_env (BILIBILI demo_worker) (PDict (vp_plan demo_validated)) = ''bilibili_api_v2''"
  proof -
    have "msg_token demo_plan_env (vp_plan demo_validated) ''execution_path_id'' = ''bilibili_api_v2''" by code_simp
    then show ?thesis by (simp add: execution_path_id_from_plan_def plan_object_def)
  qed
  have "worker_evidence_kind_for demo_plan_env (BILIBILI demo_worker) (PDict (vp_plan demo_validated)) = Inr (Some ''exact_execution_evidence'')"
    unfolding worker_evidence_kind_for_def i by (simp add: find_path_def BILIBILI_def exact_path_def demo_strings)
  then have "gate_intent demo_worker (BILIBILI demo_worker) demo_task demo_row (demo_uuid (CHR ''2'')) 3 5 ''bilibili'' demo_validated = Inr r"
    by (simp add: gate_intent_def p r(1) or_else_def)
  then show thesis using that r by blast
qed

lemma demo_hash_values: "compute_target_hash demo_plan_env u = (if strip u = [] then Inl (Code ''canonical_target_required'') else Inr demo_digest)"
  "compute_config_hash demo_plan_env c = demo_digest"
  by (simp_all add: compute_target_hash_def compute_config_hash_def)

lemma demo_preflight:
  "validate_preflight_observation demo_plan_env demo_observation ''1234567890'' [''followed'', ''liked''] 1 demo_digest (Some ''@up'') = Inr demo_digest"
  by code_simp

lemma demo_evidence_texts:
  "dget (demo_evidence_columns @ demo_row) ''evidence_id'' = PStr (demo_uuid (CHR ''3''))"
  "dget (demo_evidence_columns @ demo_row) ''evidence_account_id'' = PInt 3"
  "dget (demo_evidence_columns @ demo_row) ''evidence_lottery_id'' = PInt 5"
  "dget (demo_evidence_columns @ demo_row) ''evidence_rule_snapshot_id'' = PInt 7"
  "dget (demo_evidence_columns @ demo_row) ''evidence_platform'' = PStr ''bilibili''"
  "dget (demo_evidence_columns @ demo_row) ''evidence_execution_path_id'' = PStr ''bilibili_api_v2''"
  "dget (demo_evidence_columns @ demo_row) ''evidence_rule_hash'' = PStr demo_digest"
  "dget (demo_evidence_columns @ demo_row) ''evidence_action_plan_hash'' = PStr demo_digest"
  "dget (demo_evidence_columns @ demo_row) ''evidence_target_hash'' = PStr demo_digest"
  "dget (demo_evidence_columns @ demo_row) ''evidence_config_hash'' = PStr demo_digest"
  "dget (demo_evidence_columns @ demo_row) ''account_execution_revision'' = dget demo_row ''account_execution_revision''"
  "dget (demo_evidence_columns @ demo_row) ''lottery_raw_url'' = dget demo_row ''lottery_raw_url''"
  "dget (demo_evidence_columns @ demo_row) ''lottery_canonical_url'' = dget demo_row ''lottery_canonical_url''"
  "dget (demo_evidence_columns @ demo_row) ''task_execution_evidence_id'' = dget demo_row ''task_execution_evidence_id''"
  "dget (demo_evidence_columns @ demo_row) ''task_target_hash'' = dget demo_row ''task_target_hash''"
  "dget (demo_evidence_columns @ demo_row) ''task_config_hash'' = dget demo_row ''task_config_hash''"
  by (simp_all add: demo_evidence_columns_def)

lemma demo_expected_hashes: "bilibili_expected_hashes demo_plan_env (demo_evidence_columns @ demo_row) = Inr (1, demo_digest, demo_digest)"
  by (simp add: bilibili_expected_hashes_def demo_evidence_texts demo_row_base demo_row_texts msg_token_def msg_text_PStr demo_strings demo_hash_values
      uncaught_def compute_bilibili_api_config_hash_def)

lemma demo_row_binding: "bilibili_row_binding demo_plan_env demo_task (demo_evidence_columns @ demo_row) 3 5 ''bilibili'' demo_validated demo_digest demo_digest"
proof -
  have v: "vp_rule_snapshot_id demo_validated = 7" "vp_rule_hash demo_validated = demo_digest" "vp_plan_hash demo_validated = demo_digest"
    "vp_execution_path_id demo_validated = ''bilibili_api_v2''" by (simp_all add: demo_validated_def)
  show ?thesis by (simp add: bilibili_row_binding_def Let_def number_is_def demo_evidence_texts demo_row_base demo_task_texts v
      msg_token_def msg_text_PStr demo_strings demo_texts)
qed

lemma demo_active: "all_checks (evidence_active_checks demo_plan_env (demo_evidence_columns @ demo_row)) = Inr True"
  by (simp add: evidence_active_checks_def row_checks demo_evidence_columns_def int_is_def py_or_def msg_token_def msg_text_PStr demo_texts)

lemma demo_pair: "all_checks (bilibili_pair_checks demo_plan_env (demo_evidence_columns @ demo_row) demo_digest demo_digest) = Inr True"
  by (simp add: bilibili_pair_checks_def row_checks demo_evidence_columns_def int_is_def py_or_def msg_token_def msg_text_PStr demo_texts)

lemma demo_dynamic: "extract_bilibili_dynamic_id (we_urlparse demo_worker) [''https://t.bilibili.com/1234567890'', u] = Some ''1234567890''"
  by code_simp

lemma demo_integrity: "bilibili_integrity demo_plan_env (demo_evidence_columns @ demo_row) demo_digest demo_digest"
  by (simp add: bilibili_integrity_def real_observation_def API_PREFLIGHT_KIND_def demo_evidence_columns_def msg_token_def msg_text_PStr demo_texts)

lemma demo_observations: "json_object demo_plan_env (dget (demo_evidence_columns @ demo_row) ''evidence_probe_observation'') c = Inr demo_observation"
   "json_object demo_plan_env (dget (demo_evidence_columns @ demo_row) ''evidence_shadow_observation'') c = Inr demo_observation"
  by (simp_all add: demo_evidence_columns_def json_object_def json_value_def demo_observation_def)

lemma demo_evidence_binding:
  "validate_bilibili_real_run_evidence demo_plan_env (we_urlparse demo_worker) demo_task (demo_evidence_columns @ demo_row) 3 5 ''bilibili'' demo_validated ex
   = Inr \<lparr>eb_evidence_id = demo_uuid (CHR ''3''), eb_execution_revision = 1, eb_oauth_capabilities = None, eb_account_identity = None\<rparr>"
proof -
  have u: "msg_token demo_plan_env (demo_evidence_columns @ demo_row) ''lottery_raw_url'' = ''https://t.bilibili.com/1234567890''"
    "msg_token demo_plan_env (demo_evidence_columns @ demo_row) ''evidence_id'' = demo_uuid (CHR ''3'')"
    by (simp_all add: demo_evidence_texts demo_row_texts msg_token_def msg_text_PStr demo_strings demo_texts)
  have f: "vp_execution_path_id demo_validated = ''bilibili_api_v2''" "vp_required_actions demo_validated = [''followed'', ''liked'']"
    by (simp_all add: demo_validated_def)
  have h: "bilibili_follow demo_plan_env demo_validated = Some ''@up''"
    by (simp add: bilibili_follow_def follow_target_handle_def demo_validated_def payload_field_def py_or_def)
  show ?thesis unfolding validate_bilibili_real_run_evidence_def Let_def f h u
    by (simp add: demo_expected_hashes demo_row_binding demo_active demo_pair demo_dynamic bilibili_observation_def demo_observations demo_preflight demo_integrity u
        del: extract_bilibili_dynamic_id.simps)
qed

lemma demo_gate:
  "\<exists>s. enforce_real_run_gate demo_worker demo_gate_db demo_task (PStr ''w'') = Inr s \<and> gs_stage s = ''preclaim'' \<and> vi_actions (gs_intent s) = [''followed'', ''liked'']"
proof -
  have p: "we_plan demo_worker = demo_plan_env" by (simp add: demo_worker_def)
  obtain r where r: "gate_intent demo_worker (BILIBILI demo_worker) demo_task demo_row (demo_uuid (CHR ''2'')) 3 5 ''bilibili'' demo_validated = Inr r"
    "vi_kind r = ''full''" "vi_plan r = demo_validated" "vi_actions r = [''followed'', ''liked'']" by (rule demo_gate_intent)
  have e: "platform_evidence_checked (BILIBILI demo_worker) demo_gate_db demo_task demo_row (demo_uuid (CHR ''2'')) 3 5 ''bilibili'' demo_validated demo_validated
      = Inr \<lparr>eb_evidence_id = demo_uuid (CHR ''3''), eb_execution_revision = 1, eb_oauth_capabilities = None, eb_account_identity = None\<rparr>"
    using demo_evidence_binding by (simp add: platform_evidence_checked_def BILIBILI_def p queried_def demo_gate_db_def validate_real_run_evidence_def)
  have on: "parse_bool demo_plan_env (gd_process_enabled demo_gate_db)" by code_simp
  have "\<exists>s. guarded_gate demo_worker demo_gate_db demo_task (PStr ''w'') (demo_uuid (CHR ''2''), 3, 5, ''bilibili'') = Inr s
      \<and> gs_stage s = ''preclaim'' \<and> vi_actions (gs_intent s) = [''followed'', ''liked'']"
    unfolding guarded_gate_def prod.case Let_def p
    by (simp add: demo_switch demo_gate_module demo_task_row demo_target r e demo_lease demo_stage demo_policy demo_breakers)
  then show ?thesis by (auto simp: enforce_real_run_gate_def p demo_binding_read demand_def on)
qed

theorem open_gate_is_authorized_witness:
  "\<exists>s. enforce_real_run_gate demo_worker demo_gate_db demo_task (PStr ''w'') = Inr s \<and> gs_stage s = ''preclaim''
    \<and> vi_actions (gs_intent s) = [''followed'', ''liked''] \<and> (\<exists>rows. gd_breakers demo_gate_db = Inr rows \<and> (\<exists>r \<in> set rows. msg_token demo_plan_env r ''scope'' = ''global''))"
proof -
  obtain s where s: "enforce_real_run_gate demo_worker demo_gate_db demo_task (PStr ''w'') = Inr s" "gs_stage s = ''preclaim''"
    "vi_actions (gs_intent s) = [''followed'', ''liked'']" using demo_gate by blast
  have p: "demo_plan_env = we_plan demo_worker" by (simp add: demo_worker_def)
  show ?thesis using s open_gate_is_authorized [OF s(1) p] by blast
qed

lemma demo_douyin: "get_worker_module demo_worker ''douyin'' = Inr (DOUYIN demo_worker)"
  by (simp add: get_worker_module_eq norm_names demo_worker_def)

definition demo_device_path :: worker_path where
  "demo_device_path = wm_paths (DOUYIN demo_worker) ! 1"

lemma demo_route: "route demo_plan_env (DOUYIN demo_worker) ''real_run'' (PDict []) = Inr (demo_device_path, ''douyin_device'')"
proof -
  have i: "execution_path_id_from_plan demo_plan_env (DOUYIN demo_worker) (PDict []) = ''douyin_device_v1''"
    by (simp add: execution_path_id_from_plan_def plan_object_def msg_token_def msg_text_def py_or_def DOUYIN_def strip_def lstrip_def)
  have s: "strip ''douyin_device_v1'' = ''douyin_device_v1''" by code_simp
  show ?thesis unfolding route_def Let_def i
    by (simp add: demo_device_path_def DOUYIN_def find_path_def s manual_path_def exact_path_def norm_names executor_for_def Let_def given_def)
qed

theorem routes_are_typed_witness:
  "\<exists>h. handler_for demo_device_path ''real_run'' = Inr h"
  using routes_are_typed [OF demo_douyin demo_route] by (simp add: norm_names)

theorem core_and_worker_paths_agree_witness:
  "\<exists>q e. find_path (BILIBILI demo_worker) ''bilibili_api_v2'' = Inr q \<and> executor_for q ''real_run'' = Inr e"
  using core_and_worker_paths_agree [OF demo_module demo_bilibili norm_names(7), of "''bilibili_api_v2''"]
  by (simp add: BILIBILI_PLATFORM_def demo_strings)

lemma demo_breaker_opened: "open_unknown_outcome_breaker ''Bilibili'' ''like'' True [[(''scope'', PStr ''global''), (''status'', PStr ''closed'')]]
    = Inr [[(''scope'', PStr ''global''), (''status'', PStr ''closed'')],
        [(''scope'', PStr ''platform:bilibili''), (''status'', PStr ''open''), (''reason'', PStr ''bilibili_like_outcome_unknown'')]]"
  by code_simp

theorem unknown_outcome_blocks_the_platform_witness:
  "case enforce_real_run_gate demo_worker (demo_gate_db\<lparr>gd_breakers := Inr [[(''scope'', PStr ''global''), (''status'', PStr ''closed'')],
      [(''scope'', PStr ''platform:bilibili''), (''status'', PStr ''open''), (''reason'', PStr ''bilibili_like_outcome_unknown'')]]\<rparr>) demo_task (PStr ''w'') of
    Inr s \<Rightarrow> gs_platform s \<noteq> ''bilibili'' | Inl _ \<Rightarrow> True"
proof -
  have n: "norm_str ''Bilibili'' = ''bilibili''" by code_simp
  show ?thesis by (rule unknown_outcome_blocks_the_platform [OF demo_breaker_opened, unfolded n]) simp
qed

end
