(* ===== verification/Spec2Isabelle.thy ===== *)
theory Spec2Isabelle
  imports Governance ActionIntent Orchestration TaskStreams DeviceSafety OutboxArchive WorkerGate
begin

text \<open>
  A verification library for the DPMS platform: the core service (\<open>src/core/app\<close>), the workers
  (\<open>src/worker/app\<close>), the transport contracts they share (\<open>src/shared\<close>) and the Android device agent
  (\<open>src/device_agent\<close>). The platform plans participation in lotteries with many accounts and is built
  around one worry: an external action (a follow, a repost, a comment) must be authorised, must
  happen at most once, and its outcome must never be reported better than it is known.

  \<^bold>\<open>The parts and how they interact.\<close> A versioned policy decides whether a real run is allowed
  (governance); the engines plan which account acts when (scheduling, capacity, orchestration); the
  reviewed action plan says what is done; the core writes a task and, in the same database transaction,
  an outbox row; relayers move outbox rows to Redis streams; a worker takes the account's lease,
  records the intent of each external action before it is sent, and settles it afterwards; the device
  agent performs an action on a phone through ADB; recovery and reconciliation clean up after crashes
  and after a loss of Redis.

  \<^bold>\<open>Theories and sources.\<close>

  \<^item> \<open>DPMS_Prelude\<close>, \<open>PyValue\<close>: results with errors, reachability and the invariant rule, Python's
    dynamic values (truth, \<open>==\<close>, \<open>dict.get\<close>, string methods) as far as the sources use them.
  \<^item> \<open>Policy\<close> (\<open>core/app/governance/policy.py\<close>), \<open>Transition\<close> (\<open>core/app/transition/engine.py\<close>),
    \<open>Security\<close> (\<open>core/app/security.py\<close>), \<open>RealRunGate\<close> (\<open>core/app/services/real_run_gate.py\<close>),
    \<open>Governance\<close> (\<open>core/app/api/governance.py\<close>): validation and evaluation of policies, the
    classification of a change, the two-key switch, the recorded decision, publication and activation as
    handlers that run statement by statement, interleave and may stop anywhere.
    Shown: the gate is fail-closed and no custom policy loosens it; a change not classified as
    loosening is never more permissive; the policy in force always loads and is the seeded one or has its checked, recorded
    transition, and it is unique when activations do not overlap; decisions replay. Shown too: overlapping activations leave two
    versions in force, and a publication that stops between its two inserts blocks the key for good.
  \<^item> \<open>AccountState\<close> (\<open>state_machine.py\<close>, \<open>risk_engine.py\<close>, \<open>worker/app/safety.py\<close>, and the statements on \<open>accounts\<close> of
    \<open>accounts.py\<close>, \<open>account_calibration_outbox.py\<close>, \<open>account_calibrator.py\<close>, \<open>task_runner.py\<close> and \<open>recovery_daemon.py\<close>), \<open>AccountLease\<close> (\<open>account_leases.py\<close>),
    \<open>ActionIntent\<close> (\<open>worker/app/services/external_action_intents.py\<close> and the quarantine of
    \<open>recovery_daemon.py\<close>): the account rows, the append-only leases and the intents as one transition
    system over the shared tables. Shown: at-most-once external actions, fencing by lease
    generation, finality of settlements; no status transition overwrites what another writer has committed since its read, and the
    execution revision marks every change of what a run executes with; the sliding windows cap actions and task starts.
  \<^item> \<open>Scheduling\<close>, \<open>Capacity\<close>, \<open>Orchestration\<close> (\<open>core/app/scheduling\<close>, \<open>capacity\<close> and
    \<open>orchestration\<close>, each \<open>engine.py\<close>): the pure planning engines. Shown: a plan respects its rate
    limit and accounts for every candidate, bindings are isolated, waves follow the ramp.
  \<^item> \<open>PlatformModules\<close> (\<open>core/app/platform_modules\<close>), \<open>ActionPlan\<close>, \<open>PlanContract\<close> (\<open>core/app/action_plan.py\<close>),
    \<open>ExecutionIntents\<close>, \<open>IntentSafety\<close> (\<open>core/app/services/execution_intents.py\<close>), \<open>WorkerPlan\<close>
    (\<open>worker/app/action_plan.py\<close> and its platform contracts), \<open>WorkerIntents\<close>
    (\<open>worker/app/execution_intents.py\<close>, with the message of \<open>outbox.py\<close>): the reviewed plan and its validator, the frozen
    intent of a lottery, repair subsets, the binding of a task and the tables that hold them. Arguments of these
    definitions: the digest, the text of a float, the Unicode normalisation of a handle, the JSON decoder and
    \<open>repr\<close>; a JSON column returns the value that was stored, and a violated unique key raises. Shown: an accepted plan
    carries exactly what was reviewed; a frozen intent survives storage; a repair exists for every strict subset and is exact; no
    binding exceeds its intent; the worker's second validator gives the result of the first on every value; the worker accepts what the core dispatches,
    executes nothing but the frozen plan or a subset of it, and no message changes what it executes.
  \<^item> \<open>WorkerModules\<close> (\<open>worker/app/platform_modules/base.py\<close>), \<open>PlatformEvidence\<close> (the Douyin and Xiaohongshu modules and
    their contracts under \<open>shared\<close>), \<open>WeiboEvidence\<close> (\<open>worker/app/weibo\<close>, \<open>shared/weibo_oauth_evidence.py\<close>), \<open>BilibiliEvidence\<close>
    (\<open>worker/app/bilibili\<close>), \<open>WorkerGate\<close> (\<open>worker/app/real_run_gate.py\<close>, the module registry): the execution paths of the four platforms and
    their routing, the evidence a real run needs on each, and the gate the worker passes before it starts a real task and before every
    mutation. The rows of its queries, URL parsing, the address library and the vault are arguments; an
    exception other than the gate's own is \<open>Uncaught\<close>, which the gate reports as \<open>gate_database_error\<close>. Shown: what holds of
    the database when the gate opens; an unknown outcome closes it for the platform; routes lead to handlers that exist, and the core's and the worker's tables of paths agree; a device observation is
    accepted exactly when the device was healthy; a Weibo run rests on a fresh attestation; no Douyin task the core queues can pass.
  \<^item> \<open>TaskStreams\<close>, \<open>ControlStreams\<close> (\<open>shared/task_streams.py\<close> and the four control-stream modules):
    lanes, message contracts, the Lua scripts of acknowledgement and terminal deletion, deployment
    scopes.
  \<^item> \<open>RedisEpoch\<close>, \<open>Outbox\<close>, \<open>OutboxFlush\<close>, \<open>OutboxReplay\<close>, \<open>OutboxRelay\<close>, \<open>OutboxArchive\<close>
    (\<open>core/app/services/outbox.py\<close>): the continuity proof of Redis, the claim, delivery, confirmation
    and settlement of a row, the flush, the replay after a loss, relayers interleaving statement by
    statement, archive, purge, watermark and orphaned locks. Shown: a row is sent only after its
    payload was appended, lost lanes are replayed, flushes drain the outbox, stale claims are fenced,
    no message vanishes. The legacy probe rows that \<open>worker/app/adapter_probe.py\<close> inserts as already sent and the outbox updates of
    the recovery daemon are not among the steps.
  \<^item> \<open>DeviceUi\<close>, \<open>DeviceLimiter\<close>, \<open>DeviceEngine\<close>, \<open>DeviceSafety\<close> (\<open>device_agent/calibration.py\<close>,
    \<open>ui.py\<close>, \<open>guard.py\<close>, \<open>adb.py\<close>, \<open>engine.py\<close>): calibrated selectors, the persistent limiter, the
    engine in a state-and-exception monad with a small Hoare logic. Shown: outcomes are honest, taps
    are verified, rates are capped, accepted manifests are fail-closed.

  \<^bold>\<open>Conventions.\<close> An exception is \<open>Inl\<close> of an error, or an outcome of the monad of the device engine.
  A table is a list of records in the order of its primary key; a statement of SQL is a function on
  that list (\<open>update_where\<close> and its kin), and a transaction either returns the new tables or an error
  and the old ones. Concurrency is a step relation: one step per transaction where the code holds the
  row locks, one step per statement where it does not (the statements of a governance handler, the two statements of an account transition and
  those of the health pass, the phases of a relay). Locales state what a client relies on (\<open>invariant_system\<close>: a step
  relation that keeps an invariant; \<open>admission\<close>: a limiter's check and record; \<open>continuity\<close>: a token
  that survives only with the store) and are interpreted on the model's operations.

  \<^bold>\<open>Parameters, bounds and fuel.\<close> Hash functions, UUIDs, the clocks of processes and of the database,
  environment variables, random candidates, the XML and URL parsers, ADB, the file system, the
  advisory lock and Redis are arguments of the definitions; a theorem that needs a law of one of them
  names it as a hypothesis, and its witness instantiates it. Database integers are unbounded, since
  the statements modelled only compare and increment counters far below the column widths;
  floating-point quantities are exact rationals. Characters of strings are those of the type
  \<open>char\<close> (code points below 256), so nothing is claimed about text normalisation beyond Latin-1.
  No definition needs fuel: every modelled loop recurses on a list or counts down a number.

  \<^bold>\<open>Not modelled.\<close> Read-only listings and metrics; the evidence queries of
  \<open>real_run_readiness.py\<close> (their verdict is an argument of the gate); browser automation, platform page
  formats and scraping; migrations and process supervision; notifications. Their behaviour is that
  of SQL text, web pages or services that are not part of the sources. Still open and
  suited to the same treatment: the scans of the recovery daemon, autopilot, the strategy, experiment
  and knowledge engines, the event store, the device agent's HTTP service, and the reconcilers of
  the control-stream tables.
\<close>

end
